(* ===== verification/Prelude.thy ===== *)
theory Prelude
  imports Complex_Main "HOL-Library.Log_Nat" "HOL-Library.Sublist"
begin

text \<open>
  The vocabulary shared by every theory of the development: the result type for code that
  may throw, the generic list functions the JavaScript sources use (first-occurrence
  deduplication as done by \<^verbatim>\<open>Set\<close> and \<^verbatim>\<open>findIndex\<close>, joining with a separator, splitting at
  a separator), UTF-8 string literals, and the collections of rewrite rules that the
  component theories extend.
\<close>

section \<open>Rule collections\<close>

named_theorems js_num_simps \<open>evaluation rules for JavaScript numbers\<close>
named_theorems js_val_simps \<open>evaluation rules for JavaScript values\<close>
named_theorems pricing_defs \<open>definitions of the pricing components\<close>

section \<open>Results\<close>

text \<open>
  \<^term>\<open>Throw\<close> carries what the source throws: a \<^verbatim>\<open>TypeError\<close> of the runtime, an
  \<^verbatim>\<open>Error\<close> the code constructs with a message, or the \<^verbatim>\<open>SyntaxError\<close> of \<^verbatim>\<open>JSON.parse\<close>.
\<close>

datatype js_error = Type_Error | Syntax_Error | Error_Msg string

datatype 'a res = Ok 'a | Throw js_error

primrec bind_res :: "'a res \<Rightarrow> ('a \<Rightarrow> 'b res) \<Rightarrow> 'b res" where
  "bind_res (Ok x) f = f x"
| "bind_res (Throw e) f = Throw e"

primrec map_all_res :: "('a \<Rightarrow> 'b res) \<Rightarrow> 'a list \<Rightarrow> 'b list res" where
  "map_all_res f [] = Ok []"
| "map_all_res f (x # xs) =
     bind_res (f x) (\<lambda>y. bind_res (map_all_res f xs) (\<lambda>ys. Ok (y # ys)))"

lemma bind_res_Ok_iff: "bind_res r f = Ok y \<longleftrightarrow> (\<exists>x. r = Ok x \<and> f x = Ok y)"
  by (cases r) auto

lemma bind_res_Throw_iff:
  "bind_res r f = Throw e \<longleftrightarrow> r = Throw e \<or> (\<exists>x. r = Ok x \<and> f x = Throw e)"
  by (cases r) auto

lemma map_all_res_Ok [simp]: "map_all_res (\<lambda>x. Ok (f x)) xs = Ok (map f xs)"
  by (induction xs) auto

lemma map_all_res_cong_Ok:
  "(\<And>x. x \<in> set xs \<Longrightarrow> g x = Ok (f x)) \<Longrightarrow> map_all_res g xs = Ok (map f xs)"
  by (induction xs) auto

section \<open>Toasts and translations\<close>

text \<open>The messages shown by \<^verbatim>\<open>showError\<close> and \<^verbatim>\<open>showSuccess\<close>.\<close>

datatype notice = Shown_Error string | Shown_Success string

text \<open>The translation function: a key and the values of its placeholders.\<close>

type_synonym translate = "string \<Rightarrow> (string \<times> string) list \<Rightarrow> string"

section \<open>Lists\<close>

text \<open>Keeping the first occurrence of each key: a JavaScript \<^verbatim>\<open>Set\<close> filled in order.\<close>

fun dedup_by :: "('a \<Rightarrow> 'k) \<Rightarrow> 'k list \<Rightarrow> 'a list \<Rightarrow> 'a list" where
  "dedup_by k seen [] = []"
| "dedup_by k seen (x # xs) =
     (if k x \<in> set seen then dedup_by k seen xs else x # dedup_by k (k x # seen) xs)"

definition dedup :: "'a list \<Rightarrow> 'a list" where
  "dedup xs = dedup_by (\<lambda>x. x) [] xs"

lemma dedup_by_set_subset: "set (dedup_by k seen xs) \<subseteq> set xs"
  by (induction k seen xs rule: dedup_by.induct) auto

lemma dedup_by_keys:
  "k ` set (dedup_by k seen xs) = k ` set xs - set seen"
  by (induction k seen xs rule: dedup_by.induct) auto

lemma dedup_by_distinct: "distinct (map k (dedup_by k seen xs))"
proof (induction k seen xs rule: dedup_by.induct)
  case (2 k seen x xs)
  then show ?case
    using dedup_by_keys [of k "k x # seen" xs] by (auto simp: image_iff)
qed simp

lemma dedup_by_id:
  "distinct (map k xs) \<Longrightarrow> k ` set xs \<inter> set seen = {} \<Longrightarrow> dedup_by k seen xs = xs"
  by (induction k seen xs rule: dedup_by.induct) auto

lemma set_dedup [simp]: "set (dedup xs) = set xs"
  using dedup_by_keys [of "\<lambda>x. x" "[]" xs] by (simp add: dedup_def)

lemma distinct_dedup [simp]: "distinct (dedup xs)"
  using dedup_by_distinct [of "\<lambda>x. x" "[]" xs] by (simp add: dedup_def)

lemma dedup_distinct_id: "distinct xs \<Longrightarrow> dedup xs = xs"
  unfolding dedup_def by (rule dedup_by_id) simp_all

text \<open>\<^verbatim>\<open>xs.join(sep)\<close>.\<close>

fun join :: "'a list \<Rightarrow> 'a list list \<Rightarrow> 'a list" where
  "join sep [] = []"
| "join sep [x] = x"
| "join sep (x # y # xs) = x @ sep @ join sep (y # xs)"

text \<open>\<^verbatim>\<open>s.split(c)\<close> at a one-character separator: always at least one piece.\<close>

fun split_on :: "'a \<Rightarrow> 'a list \<Rightarrow> 'a list list" where
  "split_on c [] = [[]]"
| "split_on c (x # xs) =
     (if x = c then [] # split_on c xs
      else (case split_on c xs of [] \<Rightarrow> [[x]] | p # ps \<Rightarrow> (x # p) # ps))"

lemma split_on_nonempty [simp]: "split_on c xs \<noteq> []"
  by (induction xs) (auto split: list.splits)

lemma split_on_no_sep: "c \<notin> set xs \<Longrightarrow> split_on c xs = [xs]"
  by (induction xs) auto

lemma split_on_append_sep: "c \<notin> set xs \<Longrightarrow> split_on c (xs @ c # ys) = xs # split_on c ys"
  by (induction xs) (auto split: list.splits)

lemma split_on_join:
  "xs \<noteq> [] \<Longrightarrow> (\<And>x. x \<in> set xs \<Longrightarrow> c \<notin> set x) \<Longrightarrow> split_on c (join [c] xs) = xs"
proof (induction "[c]" xs rule: join.induct)
  case (2 x)
  then show ?case by (simp add: split_on_no_sep)
next
  case (3 x y xs)
  then show ?case by (simp add: split_on_append_sep)
qed simp

lemma in_set_butlast_or_last: "x \<in> set xs \<Longrightarrow> x \<noteq> last xs \<Longrightarrow> x \<in> set (butlast xs)"
  by (induction xs) (auto split: if_splits)

text \<open>A total \<^verbatim>\<open>xs[i]\<close>, absent out of range.\<close>

definition nth_opt :: "'a list \<Rightarrow> nat \<Rightarrow> 'a option" where
  "nth_opt xs i = (if i < length xs then Some (xs ! i) else None)"

text \<open>\<^verbatim>\<open>xs.filter((_, i) => i !== index)\<close>.\<close>

definition remove_at :: "nat \<Rightarrow> 'a list \<Rightarrow> 'a list" where
  "remove_at i xs = take i xs @ drop (Suc i) xs"

lemma set_remove_at: "set (remove_at i xs) \<subseteq> set xs"
  unfolding remove_at_def using set_take_subset [of i xs] set_drop_subset [of "Suc i" xs] by auto

lemma length_remove_at: "i < length xs \<Longrightarrow> length (remove_at i xs) = length xs - 1"
  by (simp add: remove_at_def)

section \<open>String literals\<close>

text \<open>
  A JavaScript string is represented by the bytes of its UTF-8 encoding. Literals with
  characters beyond ASCII (the Chinese message keys and labels of the sources) are written by
  their code points and encoded by \<open>utf8\<close>.
\<close>

fun utf8_char :: "nat \<Rightarrow> string" where
  "utf8_char c =
     (if c < 128 then [char_of c]
      else if c < 2048 then [char_of (192 + c div 64), char_of (128 + c mod 64)]
      else if c < 65536 then [char_of (224 + c div 4096), char_of (128 + (c div 64) mod 64),
            char_of (128 + c mod 64)]
      else [char_of (240 + c div 262144), char_of (128 + (c div 4096) mod 64),
            char_of (128 + (c div 64) mod 64), char_of (128 + c mod 64)])"

definition utf8 :: "nat list \<Rightarrow> string" where
  "utf8 cs = concat (map utf8_char cs)"

section \<open>Runs\<close>

text \<open>
  The invariant of a step relation: what holds at the start and is kept by every step holds in
  every state of a run.
\<close>

locale run_invariant =
  fixes start :: "'s \<Rightarrow> bool" and next_state :: "'s \<Rightarrow> 's \<Rightarrow> bool" and inv :: "'s \<Rightarrow> bool"
  assumes inv_start: "start s \<Longrightarrow> inv s"
    and inv_next: "next_state s s' \<Longrightarrow> inv s \<Longrightarrow> inv s'"
begin

lemma inv_run: "next_state\<^sup>*\<^sup>* s s' \<Longrightarrow> start s \<Longrightarrow> inv s'"
  by (induction rule: rtranclp_induct) (auto simp: inv_start dest: inv_next)

end

end
