(* ===== verification/Js_Num.thy ===== *)
theory Js_Num
  imports Prelude
begin

text \<open>
  JavaScript numbers: IEEE 754 binary64 with round-to-nearest, ties-to-even, written as an
  exact rounding function \<open>rnd\<close> from the rationals. \<^term>\<open>Fin\<close> holds the exact rational value
  of a finite double. The two zeros are identified: the sources never divide by a number that
  can be a negative zero, and no other operation they use tells the zeros apart.

  The arithmetic operators round the exact result once. \<open>rnd\<close> is monotone, keeps every value
  that is already a double, and is exact on the grid of multiples of a power of two; these
  laws are what the pricing proofs use.
\<close>

section \<open>Values and rounding\<close>

datatype jsnum = NaN | PInf | NInf | Fin rat

definition pow2 :: "int \<Rightarrow> rat" where
  "pow2 e = (if 0 \<le> e then 2 ^ nat e else 1 / 2 ^ nat (- e))"

text \<open>The binary exponent of a positive rational: \<open>pow2 (ilog2 q) \<le> q < pow2 (ilog2 q + 1)\<close>.\<close>

definition ilog2 :: "rat \<Rightarrow> int" where
  "ilog2 q =
     (let (a, b) = quotient_of q; k = bitlen a - bitlen b
      in if pow2 k \<le> q then k else k - 1)"

text \<open>Rounding a rational to the nearest integer, ties to even.\<close>

definition rhe :: "rat \<Rightarrow> int" where
  "rhe x =
     (let f = \<lfloor>x\<rfloor>; d = x - of_int f
      in if d < 1 / 2 then f else if 1 / 2 < d then f + 1
         else if even f then f else f + 1)"

text \<open>The exponent of the last place of the double nearest to \<open>q\<close> (subnormals included).\<close>

definition expo :: "rat \<Rightarrow> int" where
  "expo q = max (-1074) (ilog2 \<bar>q\<bar> - 52)"

definition grid_round :: "rat \<Rightarrow> rat" where
  "grid_round q = (if q = 0 then 0 else of_int (rhe (q / pow2 (expo q))) * pow2 (expo q))"

definition clip :: "rat \<Rightarrow> jsnum" where
  "clip r = (if pow2 1024 \<le> r then PInf else if r \<le> - pow2 1024 then NInf else Fin r)"

definition rnd :: "rat \<Rightarrow> jsnum" where
  "rnd q = clip (grid_round q)"

text \<open>A rational that is the value of a finite double.\<close>

definition is_dbl :: "rat \<Rightarrow> bool" where
  "is_dbl q \<longleftrightarrow> rnd q = Fin q"

fun wf_num :: "jsnum \<Rightarrow> bool" where
  "wf_num (Fin q) = is_dbl q"
| "wf_num _ = True"

section \<open>Operators\<close>

fun is_finite :: "jsnum \<Rightarrow> bool" where
  "is_finite (Fin _) = True"
| "is_finite _ = False"

definition inf_of_sign :: "rat \<Rightarrow> jsnum" where
  "inf_of_sign q = (if 0 < q then PInf else if q < 0 then NInf else NaN)"

fun js_neg :: "jsnum \<Rightarrow> jsnum" where
  "js_neg (Fin q) = Fin (- q)"
| "js_neg PInf = NInf"
| "js_neg NInf = PInf"
| "js_neg NaN = NaN"

fun js_add :: "jsnum \<Rightarrow> jsnum \<Rightarrow> jsnum" where
  "js_add (Fin a) (Fin b) = rnd (a + b)"
| "js_add NaN _ = NaN"
| "js_add _ NaN = NaN"
| "js_add PInf NInf = NaN"
| "js_add NInf PInf = NaN"
| "js_add PInf _ = PInf"
| "js_add NInf _ = NInf"
| "js_add (Fin _) y = y"

definition js_sub :: "jsnum \<Rightarrow> jsnum \<Rightarrow> jsnum" where
  "js_sub x y = js_add x (js_neg y)"

fun js_mul :: "jsnum \<Rightarrow> jsnum \<Rightarrow> jsnum" where
  "js_mul (Fin a) (Fin b) = rnd (a * b)"
| "js_mul NaN _ = NaN"
| "js_mul _ NaN = NaN"
| "js_mul PInf (Fin b) = inf_of_sign b"
| "js_mul NInf (Fin b) = inf_of_sign (- b)"
| "js_mul (Fin a) PInf = inf_of_sign a"
| "js_mul (Fin a) NInf = inf_of_sign (- a)"
| "js_mul PInf PInf = PInf"
| "js_mul NInf NInf = PInf"
| "js_mul PInf NInf = NInf"
| "js_mul NInf PInf = NInf"

fun js_div :: "jsnum \<Rightarrow> jsnum \<Rightarrow> jsnum" where
  "js_div (Fin a) (Fin b) = (if b = 0 then inf_of_sign a else rnd (a / b))"
| "js_div NaN _ = NaN"
| "js_div _ NaN = NaN"
| "js_div PInf (Fin b) = (if 0 \<le> b then PInf else NInf)"
| "js_div NInf (Fin b) = (if 0 \<le> b then NInf else PInf)"
| "js_div (Fin _) _ = Fin 0"
| "js_div _ _ = NaN"

fun js_lt :: "jsnum \<Rightarrow> jsnum \<Rightarrow> bool" where
  "js_lt NaN _ = False"
| "js_lt _ NaN = False"
| "js_lt (Fin a) (Fin b) = (a < b)"
| "js_lt PInf _ = False"
| "js_lt _ NInf = False"
| "js_lt NInf _ = True"
| "js_lt _ PInf = True"

fun js_le :: "jsnum \<Rightarrow> jsnum \<Rightarrow> bool" where
  "js_le NaN _ = False"
| "js_le _ NaN = False"
| "js_le (Fin a) (Fin b) = (a \<le> b)"
| "js_le NInf _ = True"
| "js_le _ PInf = True"
| "js_le PInf _ = False"
| "js_le _ NInf = False"

definition num_eq :: "jsnum \<Rightarrow> jsnum \<Rightarrow> bool" where
  "num_eq x y \<longleftrightarrow> x \<noteq> NaN \<and> x = y"

fun js_abs :: "jsnum \<Rightarrow> jsnum" where
  "js_abs (Fin q) = Fin \<bar>q\<bar>"
| "js_abs NaN = NaN"
| "js_abs _ = PInf"

text \<open>\<^verbatim>\<open>Math.max(x, y)\<close>, \<^verbatim>\<open>Math.round\<close>, \<^verbatim>\<open>Number.isInteger\<close>.\<close>

definition js_max :: "jsnum \<Rightarrow> jsnum \<Rightarrow> jsnum" where
  "js_max x y = (if x = NaN \<or> y = NaN then NaN else if js_le x y then y else x)"

fun js_round :: "jsnum \<Rightarrow> jsnum" where
  "js_round (Fin q) = Fin (of_int \<lfloor>q + 1 / 2\<rfloor>)"
| "js_round x = x"

fun is_integer_num :: "jsnum \<Rightarrow> bool" where
  "is_integer_num (Fin q) = (of_int \<lfloor>q\<rfloor> = q)"
| "is_integer_num _ = False"

text \<open>Truthiness of a number: zero and \<^verbatim>\<open>NaN\<close> are falsy.\<close>

definition truthy_num :: "jsnum \<Rightarrow> bool" where
  "truthy_num x \<longleftrightarrow> x \<noteq> NaN \<and> x \<noteq> Fin 0"

section \<open>Powers of two and the binary exponent\<close>

lemma pow2_powi: "pow2 e = 2 powi e"
  by (simp add: pow2_def power_int_def power_inverse inverse_eq_divide power_one_over)

lemma pow2_pos [simp]: "0 < pow2 e"
  by (simp add: pow2_powi)

lemma pow2_nonzero [simp]: "pow2 e \<noteq> 0"
  using pow2_pos [of e] by linarith

lemma pow2_nonneg [simp]: "0 \<le> pow2 e"
  by (simp add: less_imp_le)

lemma pow2_abs [simp]: "\<bar>pow2 e\<bar> = pow2 e"
  by (simp add: less_imp_le)

lemma pow2_0 [simp]: "pow2 0 = 1"
  by (simp add: pow2_def)

lemma pow2_add: "pow2 (a + b) = pow2 a * pow2 b"
  by (simp add: pow2_powi power_int_add)

lemma pow2_diff: "pow2 (a - b) = pow2 a / pow2 b"
  by (simp add: pow2_powi power_int_diff)

lemma pow2_less: "a < b \<Longrightarrow> pow2 a < pow2 b"
  unfolding pow2_powi by (rule power_int_strict_increasing) simp_all

lemma pow2_less_iff [simp]: "pow2 a < pow2 b \<longleftrightarrow> a < b"
  using pow2_less [of a b] pow2_less [of b a] by (cases a b rule: linorder_cases) auto

lemma pow2_le_iff [simp]: "pow2 a \<le> pow2 b \<longleftrightarrow> a \<le> b"
  by (simp add: not_less [symmetric])

lemma pow2_nat: "pow2 (int n) = 2 ^ n"
  by (simp add: pow2_def)

lemma pow2_int_grid:
  assumes "e \<le> e'"
  shows "\<exists>n. pow2 e' = of_int n * pow2 e"
proof -
  have "pow2 e' = pow2 (int (nat (e' - e))) * pow2 e"
    using assms by (simp flip: pow2_add)
  also have "\<dots> = of_int (2 ^ nat (e' - e)) * pow2 e"
    by (simp only: pow2_nat) simp
  finally show ?thesis ..
qed

lemma bitlen_bounds_rat:
  assumes "0 < a"
  shows "pow2 (bitlen a - 1) \<le> of_int a" and "of_int a < pow2 (bitlen a)"
proof -
  from bitlen_bounds [OF assms]
  have b: "2 ^ nat (bitlen a - 1) \<le> a" "a < 2 ^ nat (bitlen a)" by auto
  have p: "0 < bitlen a" using assms bitlen_nonneg [of a] bitlen_eq_zero_iff [of a] by linarith
  from b(1) have "(of_int (2 ^ nat (bitlen a - 1)) :: rat) \<le> of_int a"
    by (simp only: of_int_le_iff)
  then show "pow2 (bitlen a - 1) \<le> of_int a" using p by (simp add: pow2_def)
  from b(2) have "(of_int a :: rat) < of_int (2 ^ nat (bitlen a))"
    by (simp only: of_int_less_iff)
  then show "of_int a < pow2 (bitlen a)" using p by (simp add: pow2_def)
qed

lemma ilog2_bounds:
  assumes "0 < q"
  shows "pow2 (ilog2 q) \<le> q" and "q < pow2 (ilog2 q + 1)"
proof -
  obtain a b where ab: "quotient_of q = (a, b)" by fastforce
  then have q: "q = of_int a / of_int b" and b: "0 < b"
    by (auto dest: quotient_of_div quotient_of_denom_pos)
  with assms have a: "0 < a"
    by (simp add: zero_less_divide_iff)
  let ?k = "bitlen a - bitlen b"
  have "pow2 (?k - 1) = pow2 (bitlen a - 1) / pow2 (bitlen b)"
    by (simp add: pow2_diff [symmetric] algebra_simps)
  also have "\<dots> \<le> of_int a / of_int b"
    using bitlen_bounds_rat [OF a] bitlen_bounds_rat [OF b] a b
    by (intro frac_le) (auto intro: less_imp_le)
  finally have lo: "pow2 (?k - 1) \<le> q" by (simp add: q)
  have "of_int a / of_int b < pow2 (bitlen a) / pow2 (bitlen b - 1)"
    using bitlen_bounds_rat [OF a] bitlen_bounds_rat [OF b] b a
    by (intro frac_less) auto
  also have "\<dots> = pow2 (?k + 1)"
    by (simp add: pow2_diff [symmetric] algebra_simps)
  finally have hi: "q < pow2 (?k + 1)" by (simp add: q)
  show "pow2 (ilog2 q) \<le> q" "q < pow2 (ilog2 q + 1)"
    using lo hi by (auto simp: ilog2_def ab Let_def)
qed

lemma ilog2_unique:
  assumes "pow2 k \<le> q" "q < pow2 (k + 1)"
  shows "ilog2 q = k"
proof -
  have "0 < q" using assms(1) pow2_pos [of k] by linarith
  from ilog2_bounds [OF this] have "pow2 (ilog2 q) \<le> q" "q < pow2 (ilog2 q + 1)" .
  with assms have "pow2 k < pow2 (ilog2 q + 1)" "pow2 (ilog2 q) < pow2 (k + 1)"
    by linarith+
  then show ?thesis by simp
qed

lemma ilog2_mono:
  assumes "0 < q" "q \<le> r"
  shows "ilog2 q \<le> ilog2 r"
proof -
  have "pow2 (ilog2 q) \<le> q" "r < pow2 (ilog2 r + 1)"
    using assms ilog2_bounds [of q] ilog2_bounds [of r] by auto
  with assms have "pow2 (ilog2 q) < pow2 (ilog2 r + 1)" by linarith
  then show ?thesis by simp
qed

lemma expo_mono: "0 < q \<Longrightarrow> q \<le> r \<Longrightarrow> expo q \<le> expo r"
  using ilog2_mono [of q r] by (simp add: expo_def)

section \<open>Rounding to integers\<close>

lemma rhe_int [simp]: "rhe (of_int n) = n"
  by (simp add: rhe_def)

lemma rhe_near: "\<bar>of_int (rhe x) - x\<bar> \<le> 1 / 2"
proof -
  have "of_int \<lfloor>x\<rfloor> \<le> x" "x < of_int \<lfloor>x\<rfloor> + 1" by linarith+
  then show ?thesis by (auto simp: rhe_def Let_def abs_le_iff)
qed

lemma rhe_floor_ceiling: "rhe x = \<lfloor>x\<rfloor> \<or> (rhe x = \<lfloor>x\<rfloor> + 1 \<and> of_int \<lfloor>x\<rfloor> < x)"
proof -
  have "of_int \<lfloor>x\<rfloor> \<le> x" by linarith
  then show ?thesis by (auto simp: rhe_def Let_def)
qed

lemma rhe_le_int: "x \<le> of_int n \<Longrightarrow> rhe x \<le> n"
  using rhe_floor_ceiling [of x] by linarith

lemma rhe_ge_int: "of_int n \<le> x \<Longrightarrow> n \<le> rhe x"
  using rhe_floor_ceiling [of x] by linarith

lemma rhe_mono: "x \<le> y \<Longrightarrow> rhe x \<le> rhe y"
proof -
  assume xy: "x \<le> y"
  show "rhe x \<le> rhe y"
  proof (cases "\<lfloor>x\<rfloor> = \<lfloor>y\<rfloor>")
    case True
    with xy show ?thesis by (auto simp: rhe_def Let_def)
  next
    case False
    with xy have "\<lfloor>x\<rfloor> + 1 \<le> \<lfloor>y\<rfloor>"
      using floor_mono [OF xy] by linarith
    then show ?thesis
      using rhe_floor_ceiling [of x] rhe_floor_ceiling [of y] by linarith
  qed
qed

lemma rhe_uminus: "rhe (- x) = - rhe x"
proof (cases "of_int \<lfloor>x\<rfloor> = x")
  case True
  then show ?thesis by (metis of_int_minus rhe_int)
next
  case False
  then have "\<lfloor>- x\<rfloor> = - \<lfloor>x\<rfloor> - 1" by linarith
  then show ?thesis by (auto simp: rhe_def Let_def)
qed

section \<open>Rounding to doubles\<close>

lemma expo_ge: "-1074 \<le> expo q"
  by (simp add: expo_def)

lemma expo_uminus [simp]: "expo (- q) = expo q"
  by (simp add: expo_def)

lemma grid_round_0 [simp]: "grid_round 0 = 0"
  by (simp add: grid_round_def)

lemma grid_round_uminus: "grid_round (- q) = - grid_round q"
  by (simp add: grid_round_def rhe_uminus)

text \<open>The grid: integers of at most 53 bits scaled by a power of two.\<close>

definition on_grid :: "rat \<Rightarrow> bool" where
  "on_grid d \<longleftrightarrow> (\<exists>m e. d = of_int m * pow2 e \<and> \<bar>m\<bar> \<le> 2 ^ 53 \<and> -1074 \<le> e)"

lemma on_grid_uminus [simp]: "on_grid (- d) \<longleftrightarrow> on_grid d"
proof -
  have "on_grid (- d)" if "on_grid d" for d
  proof -
    from that obtain m e where "d = of_int m * pow2 e" "\<bar>m\<bar> \<le> 2 ^ 53" "-1074 \<le> e"
      by (auto simp only: on_grid_def)
    then have "- d = of_int (- m) * pow2 e \<and> \<bar>- m\<bar> \<le> 2 ^ 53 \<and> -1074 \<le> e" by simp
    then show ?thesis unfolding on_grid_def by blast
  qed
  from this [of d] this [of "- d"] show ?thesis by auto
qed

lemma on_grid_pow2: "-1074 \<le> e \<Longrightarrow> on_grid (pow2 e)"
  unfolding on_grid_def by (rule exI [of _ 1], rule exI [of _ e]) simp

lemma on_grid_int: "\<bar>n\<bar> \<le> 2 ^ 53 \<Longrightarrow> on_grid (of_int n)"
  unfolding on_grid_def by (rule exI [of _ n], rule exI [of _ 0]) simp

text \<open>A grid point is a multiple of the last place of every smaller value.\<close>

lemma on_grid_multiple:
  assumes d: "on_grid d" "d \<noteq> 0" and q: "0 < q" "q \<le> \<bar>d\<bar>"
  shows "\<exists>n. d = of_int n * pow2 (expo q)"
proof -
  from d obtain m e where de: "d = of_int m * pow2 e" "\<bar>m\<bar> \<le> 2 ^ 53" "-1074 \<le> e"
    by (auto simp: on_grid_def)
  have eq: "expo q \<le> expo \<bar>d\<bar>" by (rule expo_mono [OF q])
  have "\<exists>n. d = of_int n * pow2 (expo \<bar>d\<bar>)"
  proof (cases "\<bar>m\<bar> = 2 ^ 53")
    case True
    then have "\<bar>d\<bar> = pow2 (53 + e)"
      using de(1) pow2_nat [of 53] by (simp add: abs_mult pow2_add flip: of_int_abs)
    then have "ilog2 \<bar>d\<bar> = 53 + e"
      by (intro ilog2_unique) simp_all
    then have ex: "expo \<bar>d\<bar> = e + 1" using de(3) by (simp add: expo_def)
    from True have "m = 2 * (sgn m * 2 ^ 52)"
      by (auto simp: abs_if sgn_if split: if_splits)
    then have "d = of_int (sgn m * 2 ^ 52) * pow2 (e + 1)"
      using de(1) by (simp add: pow2_add pow2_def [of 1])
    then show ?thesis unfolding ex by blast
  next
    case False
    with de(2) have "\<bar>m\<bar> < 2 ^ 53" by simp
    then have "(of_int \<bar>m\<bar> :: rat) < of_int (2 ^ 53)" by (simp only: of_int_less_iff)
    then have "\<bar>d\<bar> < pow2 53 * pow2 e"
      using de(1) pow2_nat [of 53] by (simp add: abs_mult)
    then have "\<bar>d\<bar> < pow2 (53 + e)" by (simp add: pow2_add)
    moreover have "pow2 (ilog2 \<bar>d\<bar>) \<le> \<bar>d\<bar>" using d(2) by (simp add: ilog2_bounds)
    ultimately have "pow2 (ilog2 \<bar>d\<bar>) < pow2 (53 + e)" by linarith
    then have "expo \<bar>d\<bar> \<le> e" using de(3) by (simp add: expo_def)
    then obtain n where "pow2 e = of_int n * pow2 (expo \<bar>d\<bar>)"
      using pow2_int_grid by blast
    then have "d = of_int (m * n) * pow2 (expo \<bar>d\<bar>)" using de(1) by simp
    then show ?thesis by blast
  qed
  then obtain n where n: "d = of_int n * pow2 (expo \<bar>d\<bar>)" by blast
  from pow2_int_grid [OF eq] obtain k where "pow2 (expo \<bar>d\<bar>) = of_int k * pow2 (expo q)" by blast
  with n have "d = of_int (n * k) * pow2 (expo q)" by simp
  then show ?thesis by blast
qed

lemma grid_round_pos: "0 < q \<Longrightarrow> grid_round q = of_int (rhe (q / pow2 (expo q))) * pow2 (expo q)"
  by (simp add: grid_round_def)

lemma grid_round_le_grid_pos:
  assumes "0 < q" "q \<le> d" "on_grid d"
  shows "grid_round q \<le> d"
proof -
  have d: "d \<noteq> 0" "q \<le> \<bar>d\<bar>" using assms by auto
  obtain n where n: "d = of_int n * pow2 (expo q)"
    using on_grid_multiple [OF assms(3) d(1) assms(1) d(2)] by blast
  then have "q / pow2 (expo q) \<le> of_int n" using assms(2) by (simp add: divide_le_eq)
  then have "rhe (q / pow2 (expo q)) \<le> n" by (rule rhe_le_int)
  then show ?thesis using n assms(1) by (simp add: grid_round_pos mult_right_mono)
qed

lemma grid_round_pos_ge:
  assumes "0 < q"
  shows "0 \<le> grid_round q"
  using assms rhe_ge_int [of 0 "q / pow2 (expo q)"] by (simp add: grid_round_pos)

lemma grid_round_ge_grid_pos:
  assumes q: "0 < q" and d: "d \<le> q" "on_grid d"
  shows "d \<le> grid_round q"
proof (cases "0 < d")
  case False
  then show ?thesis using grid_round_pos_ge [OF q] by linarith
next
  case pos: True
  obtain m e where de: "d = of_int m * pow2 e" "\<bar>m\<bar> \<le> 2 ^ 53" "-1074 \<le> e"
    using d(2) by (auto simp: on_grid_def)
  show ?thesis
  proof (cases "expo q \<le> e")
    case True
    then obtain k where "pow2 e = of_int k * pow2 (expo q)" using pow2_int_grid by blast
    then have n: "d = of_int (m * k) * pow2 (expo q)" using de(1) by simp
    then have "of_int (m * k) \<le> q / pow2 (expo q)" using d(1) by (simp add: le_divide_eq)
    then have "m * k \<le> rhe (q / pow2 (expo q))" by (rule rhe_ge_int)
    then have "(of_int (m * k) :: rat) \<le> of_int (rhe (q / pow2 (expo q)))"
      by (simp only: of_int_le_iff)
    then show ?thesis using n q by (simp add: grid_round_pos mult_right_mono)
  next
    case False
    then have ex: "expo q = ilog2 q - 52" "e + 1 \<le> expo q"
      using de(3) q by (auto simp: expo_def)
    have "m \<le> 2 ^ 53" using de(2) by linarith
    then have "(of_int m :: rat) \<le> of_int (2 ^ 53)" by (simp only: of_int_le_iff)
    then have "d \<le> pow2 53 * pow2 e" using de(1) pow2_nat [of 53] by (simp add: mult_right_mono)
    also have "\<dots> = pow2 (53 + e)" by (simp add: pow2_add)
    also have "\<dots> \<le> pow2 (52 + expo q)" using ex(2) by simp
    also have "\<dots> \<le> grid_round q"
    proof -
      have "pow2 (52 + expo q) \<le> q" using ex(1) ilog2_bounds(1) [OF q] by simp
      then have "of_int (2 ^ 52) \<le> q / pow2 (expo q)"
        using pow2_nat [of 52] by (simp add: le_divide_eq pow2_add)
      then have "2 ^ 52 \<le> rhe (q / pow2 (expo q))" by (rule rhe_ge_int)
      then have "(of_int (2 ^ 52) :: rat) \<le> of_int (rhe (q / pow2 (expo q)))"
        by (simp only: of_int_le_iff)
      then show ?thesis
        using q pow2_nat [of 52] by (simp add: grid_round_pos pow2_add mult_right_mono)
    qed
    finally show ?thesis .
  qed
qed

lemma grid_round_le_grid:
  assumes "q \<le> d" "on_grid d"
  shows "grid_round q \<le> d"
proof (cases q "0 :: rat" rule: linorder_cases)
  case less
  then show ?thesis
    using grid_round_ge_grid_pos [of "- q" "- d"] assms by (simp add: grid_round_uminus)
next
  case equal
  then show ?thesis using assms by simp
next
  case greater
  then show ?thesis using grid_round_le_grid_pos assms by blast
qed

lemma grid_round_ge_grid: "d \<le> q \<Longrightarrow> on_grid d \<Longrightarrow> d \<le> grid_round q"
  using grid_round_le_grid [of "- q" "- d"] by (simp add: grid_round_uminus)

lemma grid_round_id: "on_grid d \<Longrightarrow> grid_round d = d"
  by (intro antisym grid_round_le_grid grid_round_ge_grid) simp_all

lemma on_grid_grid_round: "on_grid (grid_round q)"
proof -
  have pos: "on_grid (grid_round q)" if q: "0 < q" for q
  proof -
    have "pow2 (ilog2 q + 1) \<le> pow2 (53 + expo q)" using q by (simp add: expo_def)
    then have "q \<le> pow2 (53 + expo q)" using ilog2_bounds(2) [OF q] by linarith
    then have "q / pow2 (expo q) \<le> of_int (2 ^ 53)"
      using pow2_nat [of 53] by (simp add: divide_le_eq pow2_add)
    then have "rhe (q / pow2 (expo q)) \<le> 2 ^ 53" by (rule rhe_le_int)
    moreover have "0 \<le> rhe (q / pow2 (expo q))"
      using q rhe_ge_int [of 0 "q / pow2 (expo q)"] by simp
    ultimately have "\<bar>rhe (q / pow2 (expo q))\<bar> \<le> 2 ^ 53" by linarith
    then show ?thesis
      unfolding on_grid_def grid_round_pos [OF q] using expo_ge [of q] by blast
  qed
  show ?thesis
  proof (cases q "0 :: rat" rule: linorder_cases)
    case less
    then show ?thesis using pos [of "- q"] by (simp add: grid_round_uminus)
  next
    case equal
    then show ?thesis using on_grid_int [of 0] by simp
  next
    case greater
    then show ?thesis by (rule pos)
  qed
qed

lemma grid_round_mono_pos:
  assumes "0 < q" "q \<le> r"
  shows "grid_round q \<le> grid_round r"
proof (cases "expo q = expo r")
  case True
  have "q / pow2 (expo r) \<le> r / pow2 (expo r)" using assms by (simp add: divide_right_mono)
  then have "(of_int (rhe (q / pow2 (expo r))) :: rat) \<le> of_int (rhe (r / pow2 (expo r)))"
    using rhe_mono by (simp only: of_int_le_iff)
  then show ?thesis using True assms by (simp add: grid_round_pos mult_right_mono)
next
  case False
  have "expo q < expo r" using expo_mono [OF assms] False by simp
  then have r: "expo r = ilog2 r - 52" and i: "ilog2 q < ilog2 r" "-1074 \<le> ilog2 r"
    using assms by (auto simp: expo_def)
  have "pow2 (ilog2 q + 1) \<le> pow2 (ilog2 r)" using i by simp
  then have "q \<le> pow2 (ilog2 r)" using ilog2_bounds(2) [of q] assms by linarith
  then have "grid_round q \<le> pow2 (ilog2 r)"
    using i(2) by (intro grid_round_le_grid on_grid_pow2)
  also have "\<dots> \<le> grid_round r"
    using i(2) assms ilog2_bounds(1) [of r] by (intro grid_round_ge_grid on_grid_pow2) auto
  finally show ?thesis .
qed

lemma grid_round_sgn: "0 \<le> q \<Longrightarrow> 0 \<le> grid_round q" "q \<le> 0 \<Longrightarrow> grid_round q \<le> 0"
  using grid_round_ge_grid [of 0 q] grid_round_le_grid [of q 0] on_grid_int [of 0] by simp_all

lemma grid_round_mono:
  assumes "q \<le> r"
  shows "grid_round q \<le> grid_round r"
proof (cases "0 < q")
  case True
  then show ?thesis using assms by (rule grid_round_mono_pos)
next
  case q: False
  show ?thesis
  proof (cases "r < 0")
    case True
    then show ?thesis
      using grid_round_mono_pos [of "- r" "- q"] assms by (simp add: grid_round_uminus)
  next
    case False
    then show ?thesis using q grid_round_sgn [of q] grid_round_sgn [of r] by linarith
  qed
qed

section \<open>Laws of the rounding function\<close>

lemma rnd_exact: "on_grid q \<Longrightarrow> \<bar>q\<bar> < pow2 1024 \<Longrightarrow> rnd q = Fin q"
  by (auto simp: rnd_def clip_def grid_round_id)

lemma is_dbl_iff: "is_dbl q \<longleftrightarrow> on_grid q \<and> \<bar>q\<bar> < pow2 1024"
proof
  assume "is_dbl q"
  then have "grid_round q = q" "\<bar>grid_round q\<bar> < pow2 1024"
    by (auto simp: is_dbl_def rnd_def clip_def abs_less_iff split: if_splits)
  then show "on_grid q \<and> \<bar>q\<bar> < pow2 1024" using on_grid_grid_round [of q] by simp
next
  assume "on_grid q \<and> \<bar>q\<bar> < pow2 1024"
  then show "is_dbl q" by (simp add: is_dbl_def rnd_exact)
qed

lemma rnd_not_NaN [simp]: "rnd q \<noteq> NaN"
  by (simp add: rnd_def clip_def)

lemma rnd_Fin_dbl: "rnd q = Fin r \<Longrightarrow> is_dbl r"
  using on_grid_grid_round [of q]
  by (auto simp: is_dbl_iff rnd_def clip_def abs_less_iff split: if_splits)

lemma wf_num_rnd [simp]: "wf_num (rnd q)"
  using rnd_Fin_dbl [of q] by (cases "rnd q") auto

lemma rnd_dbl [simp]: "is_dbl q \<Longrightarrow> rnd q = Fin q"
  by (simp add: is_dbl_def)

lemma two53_less: "(2 ^ 53 :: rat) < pow2 1024"
  using pow2_nat [of 53] pow2_less_iff [of 53 1024] by simp

lemma is_dbl_int [simp]:
  assumes "\<bar>n\<bar> \<le> 2 ^ 53"
  shows "is_dbl (of_int n)"
proof -
  from assms have "(of_int \<bar>n\<bar> :: rat) \<le> of_int (2 ^ 53)" by (simp only: of_int_le_iff)
  then have "\<bar>of_int n :: rat\<bar> < pow2 1024" using two53_less by simp
  then show ?thesis using on_grid_int [OF assms] by (simp add: is_dbl_iff)
qed

lemma is_dbl_0 [simp]: "is_dbl 0"
  using is_dbl_int [of 0] by simp

lemma is_dbl_1 [simp]: "is_dbl 1"
  using is_dbl_int [of 1] by simp

lemma is_dbl_numeral [simp]: "(numeral k :: int) \<le> 2 ^ 53 \<Longrightarrow> is_dbl (numeral k)"
  using is_dbl_int [of "numeral k"] by simp

lemma is_dbl_uminus [simp]: "is_dbl (- q) \<longleftrightarrow> is_dbl q"
  by (simp add: is_dbl_iff)

lemma is_dbl_abs: "is_dbl q \<Longrightarrow> is_dbl \<bar>q\<bar>"
  by (simp add: abs_if)

lemma rnd_0 [simp]: "rnd 0 = Fin 0"
  using rnd_dbl [OF is_dbl_0] .

text \<open>A dyadic fraction with a small numerator is a double.\<close>

lemma is_dbl_dyadic:
  assumes "\<bar>n\<bar> \<le> 2 ^ 53" "k \<le> 1000"
  shows "is_dbl (of_int n / 2 ^ k)"
proof -
  have p: "(2 ^ k :: rat) = 1 / pow2 (- int k)" by (cases "k = 0") (auto simp: pow2_def)
  have "on_grid (of_int n / 2 ^ k)"
    unfolding on_grid_def p using assms by (intro exI [of _ n] exI [of _ "- int k"]) simp
  moreover have "\<bar>of_int n / 2 ^ k :: rat\<bar> < pow2 1024"
  proof -
    have "\<bar>of_int n / 2 ^ k :: rat\<bar> \<le> \<bar>of_int n\<bar>" by (simp add: divide_le_eq mult_le_cancel_left1)
    also have "\<dots> < pow2 1024" using is_dbl_int [OF assms(1)] by (simp add: is_dbl_iff)
    finally show ?thesis .
  qed
  ultimately show ?thesis by (simp add: is_dbl_iff)
qed

text \<open>Doubling is exact unless it overflows.\<close>

lemma on_grid_double: "on_grid q \<Longrightarrow> on_grid (2 * q)"
proof -
  assume "on_grid q"
  then obtain m e where "q = of_int m * pow2 e" "\<bar>m\<bar> \<le> 2 ^ 53" "-1074 \<le> e"
    by (auto simp only: on_grid_def)
  then have "2 * q = of_int m * pow2 (e + 1) \<and> \<bar>m\<bar> \<le> 2 ^ 53 \<and> -1074 \<le> e + 1"
    by (simp add: pow2_add pow2_def [of 1])
  then show ?thesis unfolding on_grid_def by blast
qed

lemma rnd_double: "is_dbl q \<Longrightarrow> rnd (2 * q) = clip (2 * q)"
  by (simp add: rnd_def is_dbl_iff on_grid_double grid_round_id)

lemma rnd_double_exact: "is_dbl q \<Longrightarrow> \<bar>q\<bar> < pow2 1023 \<Longrightarrow> rnd (2 * q) = Fin (2 * q)"
  using pow2_add [of 1 1023] pow2_def [of 1]
  by (intro rnd_exact) (auto simp: is_dbl_iff on_grid_double abs_mult)

section \<open>Order\<close>

lemma js_le_refl [simp]: "js_le x x \<longleftrightarrow> x \<noteq> NaN"
  by (cases x) auto

lemma js_le_PInf [simp]: "js_le x PInf \<longleftrightarrow> x \<noteq> NaN"
  by (cases x) auto

lemma js_le_trans: "js_le x y \<Longrightarrow> js_le y z \<Longrightarrow> js_le x z"
  by (cases x; cases y; cases z) auto

lemma js_le_not_NaN: "js_le x y \<Longrightarrow> x \<noteq> NaN \<and> y \<noteq> NaN"
  by (cases x; cases y) auto

lemma js_lt_le: "js_lt x y \<Longrightarrow> js_le x y"
  by (cases x; cases y) auto

lemma js_le_total: "x \<noteq> NaN \<Longrightarrow> y \<noteq> NaN \<Longrightarrow> js_le x y \<or> js_lt y x"
  by (cases x; cases y) auto

lemma clip_mono: "q \<le> r \<Longrightarrow> js_le (clip q) (clip r)"
  by (auto simp: clip_def)

lemma rnd_mono: "q \<le> r \<Longrightarrow> js_le (rnd q) (rnd r)"
  unfolding rnd_def by (intro clip_mono grid_round_mono)

lemma rnd_nonneg: "0 \<le> q \<Longrightarrow> js_le (Fin 0) (rnd q)"
  using rnd_mono [of 0 q] by simp

lemma rnd_ge_dbl: "is_dbl d \<Longrightarrow> d \<le> q \<Longrightarrow> js_le (Fin d) (rnd q)"
  using rnd_mono [of d q] by simp

lemma rnd_le_dbl: "is_dbl d \<Longrightarrow> q \<le> d \<Longrightarrow> js_le (rnd q) (Fin d)"
  using rnd_mono [of q d] by simp

lemma rnd_ge_not_NInf: "0 \<le> q \<Longrightarrow> rnd q \<noteq> NInf"
  using rnd_nonneg [of q] by (cases "rnd q") auto

lemma wf_num_add [simp]: "wf_num (js_add x y)"
  by (cases x; cases y) auto

lemma wf_num_mul [simp]: "wf_num (js_mul x y)"
  by (cases x; cases y) (auto simp: inf_of_sign_def)

lemma wf_num_div [simp]: "wf_num (js_div x y)"
  by (cases x; cases y) (auto simp: inf_of_sign_def)

lemma wf_num_neg: "wf_num x \<Longrightarrow> wf_num (js_neg x)"
  by (cases x) auto

text \<open>Addition and multiplication of non-negative numbers are non-negative and monotone.\<close>

lemma js_add_nonneg: "js_le (Fin 0) x \<Longrightarrow> js_le (Fin 0) y \<Longrightarrow> js_le (Fin 0) (js_add x y)"
  by (cases x; cases y) (auto intro: rnd_nonneg)

lemma js_mul_nonneg:
  "js_le (Fin 0) x \<Longrightarrow> js_le (Fin 0) y \<Longrightarrow> is_finite x \<Longrightarrow> is_finite y \<Longrightarrow>
   js_le (Fin 0) (js_mul x y)"
  by (cases x; cases y) (auto intro: rnd_nonneg)

lemma js_add_mono:
  "js_le a b \<Longrightarrow> js_le c d \<Longrightarrow> js_le (Fin 0) a \<Longrightarrow> js_le (Fin 0) c \<Longrightarrow>
   js_le (js_add a c) (js_add b d)"
  by (cases a; cases b; cases c; cases d) (auto intro: rnd_mono dest: rnd_ge_not_NInf)

end
