(* ===== verification/Js_Str.thy ===== *)
theory Js_Str
  imports Prelude
begin

text \<open>
  JavaScript string operations on UTF-8 strings: the characters of a string, \<^verbatim>\<open>trim\<close>,
  \<^verbatim>\<open>replace(/\s+/g, '')\<close>, \<^verbatim>\<open>toLowerCase\<close>, \<^verbatim>\<open>toUpperCase\<close>, decimal digits, and the three
  regular expressions of the pricing editor. Case conversion is complete for ASCII and for the
  non-ASCII characters whose converted form is ASCII; other letters keep their case.
\<close>

section \<open>Characters and white space\<close>

definition cont_byte :: "char \<Rightarrow> bool" where
  "cont_byte c \<longleftrightarrow> 128 \<le> (of_char c :: nat) \<and> (of_char c :: nat) < 192"

definition ascii :: "char \<Rightarrow> bool" where
  "ascii c \<longleftrightarrow> (of_char c :: nat) < 128"

lemma ascii_not_cont: "ascii c \<Longrightarrow> \<not> cont_byte c"
  by (simp add: ascii_def cont_byte_def)

text \<open>The characters of a string: each lead byte with its continuation bytes.\<close>

function chars :: "string \<Rightarrow> string list" where
  "chars [] = []"
| "chars (c # s) = (c # takeWhile cont_byte s) # chars (dropWhile cont_byte s)"
  by pat_completeness auto
termination
  by (relation "measure length") (auto simp: le_imp_less_Suc length_dropWhile_le)

text \<open>ECMAScript \<open>WhiteSpace\<close> and \<open>LineTerminator\<close>.\<close>

definition ws_chars :: "string list" where
  "ws_chars = map utf8_char
     ([9, 10, 11, 12, 13, 32, 160, 5760] @ [8192..<8203] @ [8232, 8233, 8239, 8287, 12288, 65279])"

definition is_ws :: "string \<Rightarrow> bool" where
  "is_ws ch \<longleftrightarrow> ch \<in> set ws_chars"

definition trim :: "string \<Rightarrow> string" where
  "trim s = concat (rev (dropWhile is_ws (rev (dropWhile is_ws (chars s)))))"

definition remove_ws :: "string \<Rightarrow> string" where
  "remove_ws s = concat (filter (\<lambda>ch. \<not> is_ws ch) (chars s))"

lemma concat_chars [simp]: "concat (chars s) = s"
  by (induction s rule: chars.induct) auto

lemma chars_ascii: "(\<And>c. c \<in> set s \<Longrightarrow> ascii c) \<Longrightarrow> chars s = map (\<lambda>c. [c]) s"
proof (induction s)
  case (Cons c s)
  then have "takeWhile cont_byte s = []" "dropWhile cont_byte s = s"
    by (cases s; simp add: ascii_not_cont)+
  with Cons show ?case by simp
qed simp

definition ascii_ws :: "char \<Rightarrow> bool" where
  "ascii_ws c \<longleftrightarrow> (of_char c :: nat) \<in> {9, 10, 11, 12, 13, 32}"

text \<open>An ASCII string without white space is its own trimmed form.\<close>

definition plain_char :: "char \<Rightarrow> bool" where
  "plain_char c \<longleftrightarrow> ascii c \<and> \<not> ascii_ws c"

lemma is_ws_single: "is_ws [c] \<longleftrightarrow> ascii_ws c"
proof -
  have big: "utf8_char n \<noteq> [c]" if "128 \<le> n" for n
    using that by simp
  have small: "utf8_char n = [c] \<longleftrightarrow> of_char c = n" if "n < 128" for n
    using that by (auto simp: char_of_eq_iff take_bit_eq_mod)
  have "is_ws [c] \<longleftrightarrow>
      (\<exists>n \<in> set ([9, 10, 11, 12, 13, 32, 160, 5760] @ [8192..<8203] @
                 [8232, 8233, 8239, 8287, 12288, 65279]). utf8_char n = [c])"
    unfolding is_ws_def ws_chars_def by (simp only: set_map image_iff eq_commute [of "[c]"])
  also have "\<dots> \<longleftrightarrow> (\<exists>n \<in> {9, 10, 11, 12, 13, 32}. utf8_char n = [c])"
    using big by (auto simp del: utf8_char.simps)
  also have "\<dots> \<longleftrightarrow> ascii_ws c"
    using small by (auto simp: ascii_ws_def simp del: utf8_char.simps)
  finally show ?thesis .
qed

lemma trim_plain:
  assumes "\<And>c. c \<in> set s \<Longrightarrow> plain_char c"
  shows "trim s = s"
proof -
  have ch: "chars s = map (\<lambda>c. [c]) s"
    using assms by (intro chars_ascii) (auto simp: plain_char_def)
  have no: "\<not> is_ws x" if "x \<in> set (chars s)" for x
    using that assms by (auto simp: ch is_ws_single plain_char_def)
  then have "dropWhile is_ws (chars s) = chars s" "dropWhile is_ws (rev (chars s)) = rev (chars s)"
    by (auto simp: dropWhile_eq_self_iff hd_rev intro: hd_in_set last_in_set)
  then show ?thesis by (simp add: trim_def)
qed

lemma trim_Nil [simp]: "trim [] = []"
  by (simp add: trim_def)

lemma remove_ws_plain: "(\<And>c. c \<in> set s \<Longrightarrow> plain_char c) \<Longrightarrow> remove_ws s = s"
proof -
  assume p: "\<And>c. c \<in> set s \<Longrightarrow> plain_char c"
  then have "chars s = map (\<lambda>c. [c]) s" by (intro chars_ascii) (auto simp: plain_char_def)
  moreover have "filter (\<lambda>ch. \<not> is_ws ch) (map (\<lambda>c. [c]) s) = map (\<lambda>c. [c]) s"
    using p by (auto simp: filter_id_conv is_ws_single plain_char_def)
  ultimately show ?thesis by (simp add: remove_ws_def)
qed

section \<open>Case conversion\<close>

definition lower_ascii :: "char \<Rightarrow> char" where
  "lower_ascii c =
     (let n = of_char c :: nat in if 65 \<le> n \<and> n \<le> 90 then char_of (n + 32) else c)"

definition upper_ascii :: "char \<Rightarrow> char" where
  "upper_ascii c =
     (let n = of_char c :: nat in if 97 \<le> n \<and> n \<le> 122 then char_of (n - 32) else c)"

text \<open>Characters beyond ASCII whose lower (upper) case contains an ASCII letter.\<close>

definition lower_special :: "(string \<times> string) list" where
  "lower_special = [(utf8_char 8490, ''k''), (utf8_char 304, ''i'' @ utf8_char 775)]"

definition upper_special :: "(string \<times> string) list" where
  "upper_special =
     [(utf8_char 223, ''SS''), (utf8_char 305, ''I''), (utf8_char 383, ''S''),
      (utf8_char 64256, ''FF''), (utf8_char 64257, ''FI''), (utf8_char 64258, ''FL''),
      (utf8_char 64259, ''FFI''), (utf8_char 64260, ''FFL''),
      (utf8_char 64261, ''ST''), (utf8_char 64262, ''ST'')]"

definition to_lower :: "string \<Rightarrow> string" where
  "to_lower s = concat (map (\<lambda>ch. case map_of lower_special ch of
       Some l \<Rightarrow> l | None \<Rightarrow> map lower_ascii ch) (chars s))"

definition to_upper :: "string \<Rightarrow> string" where
  "to_upper s = concat (map (\<lambda>ch. case map_of upper_special ch of
       Some u \<Rightarrow> u | None \<Rightarrow> map upper_ascii ch) (chars s))"

section \<open>Decimal digits\<close>

definition is_digit :: "char \<Rightarrow> bool" where
  "is_digit c \<longleftrightarrow> 48 \<le> (of_char c :: nat) \<and> (of_char c :: nat) \<le> 57"

definition digit_val :: "char \<Rightarrow> nat" where
  "digit_val c = of_char c - 48"

definition digit_char :: "nat \<Rightarrow> char" where
  "digit_char d = char_of (48 + d)"

definition all_digits :: "string \<Rightarrow> bool" where
  "all_digits s \<longleftrightarrow> s \<noteq> [] \<and> list_all is_digit s"

definition digits_val :: "string \<Rightarrow> nat" where
  "digits_val s = foldl (\<lambda>a c. a * 10 + digit_val c) 0 s"

fun nat_str :: "nat \<Rightarrow> string" where
  "nat_str n = (if n < 10 then [digit_char n] else nat_str (n div 10) @ [digit_char (n mod 10)])"

declare nat_str.simps [simp del]

lemma digit_val_char [simp]: "d < 10 \<Longrightarrow> digit_val (digit_char d) = d"
  by (simp add: digit_val_def digit_char_def)

lemma is_digit_char [simp]: "d < 10 \<Longrightarrow> is_digit (digit_char d)"
  by (simp add: is_digit_def digit_char_def)

lemma is_digit_plain: "is_digit c \<Longrightarrow> plain_char c"
  by (auto simp: is_digit_def plain_char_def ascii_def ascii_ws_def)

lemma nat_str_digits: "c \<in> set (nat_str n) \<Longrightarrow> is_digit c"
proof (induction n rule: nat_str.induct)
  case (1 n)
  then show ?case by (subst (asm) nat_str.simps) (auto split: if_splits)
qed

lemma nat_str_nonempty [simp]: "nat_str n \<noteq> []"
  by (subst nat_str.simps) simp

lemma all_digits_nat_str [simp]: "all_digits (nat_str n)"
  by (simp add: all_digits_def list_all_iff nat_str_digits)

lemma digits_val_Nil [simp]: "digits_val [] = 0"
  by (simp add: digits_val_def)

lemma digits_val_snoc [simp]: "digits_val (s @ [c]) = digits_val s * 10 + digit_val c"
  by (simp add: digits_val_def)

lemma digits_val_append: "digits_val (s @ t) = digits_val s * 10 ^ length t + digits_val t"
proof (induction t rule: rev_induct)
  case (snoc c t)
  then show ?case by (simp add: digits_val_snoc [of "s @ t" c, simplified] algebra_simps)
qed simp

lemma digits_val_zeros [simp]: "digits_val (replicate k CHR ''0'') = 0"
proof (induction k)
  case (Suc k)
  have "digits_val (replicate (Suc k) CHR ''0'') = digits_val (replicate k CHR ''0'' @ ''0'')"
    by (simp add: replicate_append_same)
  with Suc show ?case by (simp add: digit_val_def)
qed simp

lemma digits_val_nat_str [simp]: "digits_val (nat_str n) = n"
proof (induction n rule: nat_str.induct)
  case (1 n)
  show ?case
  proof (cases "n < 10")
    case True
    then show ?thesis
      using digits_val_snoc [of "[]" "digit_char n"] by (simp add: nat_str.simps [of n])
  next
    case False
    with 1 show ?thesis by (simp add: nat_str.simps [of n])
  qed
qed

lemma nat_str_inject [simp]: "nat_str m = nat_str n \<longleftrightarrow> m = n"
  using digits_val_nat_str by metis

lemma length_nat_str: "0 < n \<Longrightarrow> 10 ^ (length (nat_str n) - 1) \<le> n \<and> n < 10 ^ length (nat_str n)"
proof (induction n rule: nat_str.induct)
  case (1 n)
  show ?case
  proof (cases "n < 10")
    case True
    then show ?thesis using 1 by (simp add: nat_str.simps [of n])
  next
    case False
    let ?l = "length (nat_str (n div 10))"
    have "10 ^ (?l - 1) \<le> n div 10 \<and> n div 10 < 10 ^ ?l" using 1 False by simp
    moreover have "10 ^ ?l = 10 * (10 :: nat) ^ (?l - 1)"
      by (cases "nat_str (n div 10)") simp_all
    ultimately have "10 ^ ?l \<le> n" "n < 10 * 10 ^ ?l" by linarith+
    with False show ?thesis by (simp add: nat_str.simps [of n])
  qed
qed

section \<open>The editor's regular expressions\<close>

definition drop_ws :: "string \<Rightarrow> string" where
  "drop_ws s = concat (dropWhile is_ws (chars s))"

lemma drop_ws_plain: "(\<And>c. c \<in> set s \<Longrightarrow> plain_char c) \<Longrightarrow> drop_ws s = s"
proof -
  assume p: "\<And>c. c \<in> set s \<Longrightarrow> plain_char c"
  then have "chars s = map (\<lambda>c. [c]) s" by (intro chars_ascii) (auto simp: plain_char_def)
  moreover have "dropWhile is_ws (map (\<lambda>c. [c]) s) = map (\<lambda>c. [c]) s"
    using p by (cases s) (auto simp: is_ws_single plain_char_def)
  ultimately show ?thesis by (simp add: drop_ws_def)
qed

text \<open>\<^verbatim>\<open>/^(\d+(\.\d*)?|\.\d*)?$/\<close>\<close>

definition numeric_input :: "string \<Rightarrow> bool" where
  "numeric_input s =
     (let r = dropWhile is_digit s
      in r = [] \<or> (hd r = CHR ''.'' \<and> list_all is_digit (tl r)))"

text \<open>\<^verbatim>\<open>/^\s*\d+\s*x\s*\d+\s*$/i\<close>\<close>

definition resolution_wxh :: "string \<Rightarrow> bool" where
  "resolution_wxh s =
     (let t = trim s; r = drop_ws (dropWhile is_digit t)
      in takeWhile is_digit t \<noteq> [] \<and> r \<noteq> [] \<and> (hd r = CHR ''x'' \<or> hd r = CHR ''X'')
         \<and> all_digits (drop_ws (tl r)))"

text \<open>\<^verbatim>\<open>/^\s*(\d+\s*p|[1248]\s*k)\s*$/i\<close>\<close>

definition resolution_alias :: "string \<Rightarrow> bool" where
  "resolution_alias s =
     (let t = trim s; d = takeWhile is_digit t; r = drop_ws (dropWhile is_digit t)
      in (d \<noteq> [] \<and> (r = ''p'' \<or> r = ''P''))
         \<or> (d \<in> {''1'', ''2'', ''4'', ''8''} \<and> (r = ''k'' \<or> r = ''K'')))"

section \<open>Trimming\<close>

text \<open>A list of characters as \<open>chars\<close> gives it: only the first may start with a stray byte.\<close>

definition char_seq :: "string list \<Rightarrow> bool" where
  "char_seq xs \<longleftrightarrow> (\<forall>x \<in> set xs. x \<noteq> [] \<and> list_all cont_byte (tl x)) \<and> (\<forall>x \<in> set (tl xs). \<not> cont_byte (hd x))"

lemma char_seq_chars: "char_seq (chars s)"
proof (induction s rule: chars.induct)
  case (2 c s)
  have "\<not> cont_byte (hd x)" if "x \<in> set (chars (dropWhile cont_byte s))" for x
  proof (cases "dropWhile cont_byte s")
    case Nil
    then show ?thesis using that by (simp del: dropWhile_eq_Nil_conv)
  next
    case (Cons d u)
    then have "\<not> cont_byte d" by (metis hd_dropWhile list.distinct(1) list.sel(1))
    then show ?thesis using that 2 Cons by (auto simp: char_seq_def)
  qed
  then show ?case using 2 by (auto simp: char_seq_def list_all_iff dest: set_takeWhileD)
qed (simp add: char_seq_def)

lemma chars_concat: "char_seq xs \<Longrightarrow> chars (concat xs) = xs"
proof (induction xs)
  case (Cons x xs)
  obtain c u where x: "x = c # u" using Cons.prems by (cases x) (auto simp: char_seq_def)
  have u: "list_all cont_byte u" using Cons.prems x by (simp add: char_seq_def)
  have h: "concat xs = [] \<or> \<not> cont_byte (hd (concat xs))"
    using Cons.prems by (cases xs) (auto simp: char_seq_def)
  have "takeWhile cont_byte (u @ w) = u \<and> dropWhile cont_byte (u @ w) = w" if "w = [] \<or> \<not> cont_byte (hd w)" for w
    using u that by (cases w) (simp_all add: list_all_iff takeWhile_append2 dropWhile_append2)
  then have "takeWhile cont_byte (u @ concat xs) = u" "dropWhile cont_byte (u @ concat xs) = concat xs" using h by blast+
  moreover have "char_seq xs" using Cons.prems by (cases xs) (auto simp: char_seq_def)
  ultimately show ?case using Cons.IH x by simp
qed simp

lemma char_seq_drop: "char_seq (xs @ ys) \<Longrightarrow> char_seq ys"
  by (cases xs; cases ys) (auto simp: char_seq_def)

lemma char_seq_take: "char_seq (xs @ ys) \<Longrightarrow> char_seq xs"
  by (cases xs) (auto simp: char_seq_def)

definition trim_chars :: "string list \<Rightarrow> string list" where
  "trim_chars xs = rev (dropWhile is_ws (rev (dropWhile is_ws xs)))"

lemma trim_eq: "trim s = concat (trim_chars (chars s))"
  by (simp add: trim_def trim_chars_def)

lemma trim_chars_split: "\<exists>us vs. xs = us @ trim_chars xs @ vs"
proof -
  let ?d = "dropWhile is_ws xs"
  have "xs = takeWhile is_ws xs @ ?d" by simp
  moreover have "?d = rev (dropWhile is_ws (rev ?d)) @ rev (takeWhile is_ws (rev ?d))"
    by (metis rev_append rev_rev_ident takeWhile_dropWhile_id)
  ultimately show ?thesis unfolding trim_chars_def by metis
qed

lemma trim_chars_idem [simp]: "trim_chars (trim_chars xs) = trim_chars xs"
proof -
  let ?d = "dropWhile is_ws xs"
  let ?e = "dropWhile is_ws (rev ?d)"
  have "dropWhile is_ws (rev ?e) = rev ?e"
  proof (cases "?e = []")
    case False
    then have "?d \<noteq> []" by (metis dropWhile.simps(1) rev.simps(1))
    have "last ?e = last (rev ?d)" using False by (metis last_appendR takeWhile_dropWhile_id)
    then have "hd (rev ?e) = hd ?d" using False \<open>?d \<noteq> []\<close> by (simp add: hd_rev last_rev)
    moreover have "\<not> is_ws (hd ?d)" using \<open>?d \<noteq> []\<close> by (rule hd_dropWhile)
    ultimately show ?thesis using False by (cases "rev ?e") auto
  next
    case True
    then show ?thesis by (simp del: dropWhile_eq_Nil_conv)
  qed
  then show ?thesis by (simp add: trim_chars_def)
qed

lemma trim_trim [simp]: "trim (trim s) = trim s"
proof -
  obtain us vs where "chars s = us @ trim_chars (chars s) @ vs" using trim_chars_split by blast
  then have "char_seq (trim_chars (chars s))" using char_seq_chars [of s] char_seq_drop char_seq_take by metis
  then show ?thesis by (simp add: trim_eq chars_concat)
qed

text \<open>A text that starts and ends with a visible ASCII character is not changed.\<close>

lemma utf8_char_lead: "128 \<le> n \<Longrightarrow> n < 65536 \<Longrightarrow> \<not> ascii (hd (utf8_char n))"
proof -
  assume n: "128 \<le> n" "n < 65536"
  have "192 + n div 64 < 256 \<or> 2048 \<le> n" "224 + n div 4096 < 256" using n by auto
  then show ?thesis using n by (auto simp: ascii_def take_bit_eq_mod)
qed

lemma utf8_char_single: "n < 128 \<Longrightarrow> tl (utf8_char n) = []"
  by simp

lemma is_ws_head:
  assumes "is_ws (c # u)" "ascii c"
  shows "u = [] \<and> ascii_ws c"
proof -
  have "\<forall>n \<in> set ([9, 10, 11, 12, 13, 32, 160, 5760] @ [8192..<8203] @ [8232, 8233, 8239, 8287, 12288, 65279]). n < (65536 :: nat)"
    by auto
  then obtain n where n: "c # u = utf8_char n" "n < 65536"
    using assms(1) unfolding is_ws_def ws_chars_def set_map by blast
  have "u = []"
  proof (cases "n < 128")
    case True
    then show ?thesis using utf8_char_single [of n] n(1) [symmetric] by (simp del: utf8_char.simps)
  next
    case False
    then show ?thesis using utf8_char_lead [of n] n(1) [symmetric] n(2) assms(2) by (simp del: utf8_char.simps)
  qed
  then show ?thesis using assms(1) is_ws_single [of c] by simp
qed

lemma chars_snoc_ascii: "ascii d \<Longrightarrow> chars (s @ [d]) = chars s @ [[d]]"
proof (induction s rule: chars.induct)
  case (2 c s)
  have d: "\<not> cont_byte d" using 2(2) by (rule ascii_not_cont)
  show ?case
  proof (cases "\<forall>x \<in> set s. cont_byte x")
    case True
    then have "takeWhile cont_byte s = s" "dropWhile cont_byte s = []" by (auto simp: takeWhile_eq_all_conv)
    then show ?thesis using d True
      by (simp add: takeWhile_append2 dropWhile_append2 del: dropWhile_eq_Nil_conv takeWhile_eq_all_conv)
  next
    case False
    then show ?thesis using 2 by (auto simp: takeWhile_append1 dropWhile_append1)
  qed
qed simp

lemma trim_ends:
  assumes "plain_char c" "plain_char d" "s = c # u" "s = v @ [d]"
  shows "trim s = s"
proof -
  have "dropWhile is_ws (chars s) = chars s"
    using assms is_ws_head [of c] by (auto simp: plain_char_def)
  moreover have "dropWhile is_ws (rev (chars s)) = rev (chars s)"
    using assms(2,4) is_ws_single [of d] by (simp add: chars_snoc_ascii plain_char_def)
  ultimately show ?thesis by (simp add: trim_def)
qed

lemma trim_visible: "plain_char c \<Longrightarrow> trim (c # u) \<noteq> []"
proof -
  assume c: "plain_char c"
  obtain x xs where x: "chars (c # u) = x # xs" "hd x = c" "x \<noteq> []" by simp
  have "\<not> is_ws x" using is_ws_head [of c "tl x"] c x by (cases x) (auto simp: plain_char_def)
  then have "dropWhile is_ws (rev (x # xs)) \<noteq> []" by (auto simp: dropWhile_eq_Nil_conv)
  then have "trim_chars (chars (c # u)) \<noteq> []" using x(1) \<open>\<not> is_ws x\<close> by (simp add: trim_chars_def del: rev.simps)
  moreover obtain us vs where "chars (c # u) = us @ trim_chars (chars (c # u)) @ vs" using trim_chars_split by blast
  then have "set (trim_chars (chars (c # u))) \<subseteq> set (chars (c # u))" by (metis UnCI set_append subsetI)
  moreover have "[] \<notin> set (chars s)" for s by (induction s rule: chars.induct) auto
  ultimately show ?thesis unfolding trim_eq by (cases "trim_chars (chars (c # u))") auto
qed

lemma to_lower_stable:
  assumes "\<And>c. c \<in> set s \<Longrightarrow> ascii c \<and> lower_ascii c = c" shows "to_lower s = s"
proof -
  have "chars s = map (\<lambda>c. [c]) s" using assms by (intro chars_ascii) simp
  moreover have "map_of lower_special [c] = None" for c by (simp add: lower_special_def)
  ultimately have "to_lower s = concat (map (\<lambda>c. [lower_ascii c]) s)" by (simp add: to_lower_def comp_def)
  also have "\<dots> = s" using assms by (induction s) auto
  finally show ?thesis .
qed

end
