(* ===== verification/Js_Dec.thy ===== *)
theory Js_Dec
  imports Js_Num Js_Str
begin

text \<open>
  Numbers as text: \<^verbatim>\<open>Number(string)\<close> (the ECMAScript \<open>StringNumericLiteral\<close> grammar),
  \<^verbatim>\<open>String(number)\<close> (the shortest decimal that rounds back to the number) and
  \<^verbatim>\<open>toFixed\<close>. The main fact is the round trip \<open>to_number_num_str\<close>: reading back the text of
  a double gives that double, which needs that seventeen significant digits always suffice.
\<close>

section \<open>Reading numbers\<close>

definition pow10 :: "int \<Rightarrow> rat" where
  "pow10 e = (if 0 \<le> e then 10 ^ nat e else 1 / 10 ^ nat (- e))"

definition parse_exp :: "string \<Rightarrow> int option" where
  "parse_exp s =
     (case s of [] \<Rightarrow> Some 0
      | c # t \<Rightarrow>
          if c = CHR ''e'' \<or> c = CHR ''E'' then
            (let neg = (t \<noteq> [] \<and> hd t = CHR ''-'');
                 d = (if t \<noteq> [] \<and> (hd t = CHR ''-'' \<or> hd t = CHR ''+'') then tl t else t)
             in if all_digits d then Some ((if neg then -1 else 1) * int (digits_val d)) else None)
          else None)"

definition parse_unsigned :: "string \<Rightarrow> rat option" where
  "parse_unsigned s =
     (let ip = takeWhile is_digit s; r = dropWhile is_digit s;
          point = (r \<noteq> [] \<and> hd r = CHR ''.'');
          fp = (if point then takeWhile is_digit (tl r) else []);
          r' = (if point then dropWhile is_digit (tl r) else r)
      in if ip @ fp = [] then None
         else map_option (\<lambda>e. of_nat (digits_val (ip @ fp)) * pow10 (e - int (length fp)))
                (parse_exp r'))"

definition hex_val :: "char \<Rightarrow> nat" where
  "hex_val c =
     (let n = of_char c :: nat
      in if 48 \<le> n \<and> n \<le> 57 then n - 48 else if 97 \<le> n \<and> n \<le> 102 then n - 87
         else if 65 \<le> n \<and> n \<le> 70 then n - 55 else 16)"

definition parse_radix :: "nat \<Rightarrow> string \<Rightarrow> jsnum" where
  "parse_radix b s =
     (if s \<noteq> [] \<and> list_all (\<lambda>c. hex_val c < b) s
      then rnd (of_nat (foldl (\<lambda>a c. a * b + hex_val c) 0 s)) else NaN)"

definition num_of_unsigned :: "string \<Rightarrow> jsnum" where
  "num_of_unsigned s =
     (if s = ''Infinity'' then PInf
      else case parse_unsigned s of Some q \<Rightarrow> rnd q | None \<Rightarrow> NaN)"

definition to_number_str :: "string \<Rightarrow> jsnum" where
  "to_number_str s =
     (case trim s of [] \<Rightarrow> Fin 0
      | c # u \<Rightarrow>
          if c = CHR ''-'' then js_neg (num_of_unsigned u)
          else if c = CHR ''+'' then num_of_unsigned u
          else if c = CHR ''0'' \<and> u \<noteq> [] \<and> (hd u = CHR ''x'' \<or> hd u = CHR ''X'')
          then parse_radix 16 (tl u)
          else if c = CHR ''0'' \<and> u \<noteq> [] \<and> (hd u = CHR ''o'' \<or> hd u = CHR ''O'')
          then parse_radix 8 (tl u)
          else if c = CHR ''0'' \<and> u \<noteq> [] \<and> (hd u = CHR ''b'' \<or> hd u = CHR ''B'')
          then parse_radix 2 (tl u)
          else num_of_unsigned (c # u))"

text \<open>\<^verbatim>\<open>parseFloat(s)\<close>: the longest prefix, after white space, that is a decimal literal.\<close>

definition dec_literal :: "string \<Rightarrow> jsnum option" where
  "dec_literal s =
     (let neg = (s \<noteq> [] \<and> hd s = CHR ''-'');
          u = (if s \<noteq> [] \<and> (hd s = CHR ''-'' \<or> hd s = CHR ''+'') then tl s else s);
          x = num_of_unsigned u
      in if x = NaN then None else Some (if neg then js_neg x else x))"

definition parse_float :: "string \<Rightarrow> jsnum" where
  "parse_float s =
     (case find (\<lambda>p. dec_literal p \<noteq> None) (rev (prefixes (drop_ws s))) of
        Some p \<Rightarrow> the (dec_literal p) | None \<Rightarrow> NaN)"

text \<open>\<^verbatim>\<open>parseInt(s, 10)\<close>\<close>

definition parse_int :: "string \<Rightarrow> jsnum" where
  "parse_int s =
     (let u = drop_ws s; neg = (u \<noteq> [] \<and> hd u = CHR ''-'');
          d = takeWhile is_digit (if u \<noteq> [] \<and> (hd u = CHR ''-'' \<or> hd u = CHR ''+'') then tl u else u)
      in if d = [] then NaN else (if neg then js_neg else (\<lambda>x. x)) (rnd (of_nat (digits_val d))))"

section \<open>Writing numbers\<close>

text \<open>The decimal exponent: \<open>pow10 (dec_exp q - 1) \<le> q < pow10 (dec_exp q)\<close>.\<close>

definition dec_exp :: "rat \<Rightarrow> int" where
  "dec_exp q =
     (let (a, b) = quotient_of q;
          k = int (length (nat_str (nat a))) - int (length (nat_str (nat b)))
      in if pow10 k \<le> q then k + 1 else k)"

text \<open>A significand of \<open>k\<close> digits that rounds back to \<open>q\<close>, the nearer one if there are two.\<close>

definition cand :: "rat \<Rightarrow> int \<Rightarrow> nat \<Rightarrow> int option" where
  "cand q n k =
     (let p = pow10 (n - int k); x = q / p; lo = \<lfloor>x\<rfloor>;
          ok_lo = (rnd (of_int lo * p) = Fin q); ok_hi = (rnd (of_int (lo + 1) * p) = Fin q)
      in if ok_lo \<and> ok_hi
         then Some (if x - of_int lo \<le> of_int (lo + 1) - x then lo else lo + 1)
         else if ok_lo then Some lo else if ok_hi then Some (lo + 1) else None)"

primrec first_cand :: "rat \<Rightarrow> int \<Rightarrow> nat list \<Rightarrow> (int \<times> nat) option" where
  "first_cand q n [] = None"
| "first_cand q n (k # ks) =
     (case cand q n k of Some s \<Rightarrow> Some (s, k) | None \<Rightarrow> first_cand q n ks)"

text \<open>Layout of the digits \<open>ds\<close> with the decimal point after \<open>n\<close> of them.\<close>

definition exp_str :: "int \<Rightarrow> string" where
  "exp_str e = (if e < 0 then ''-'' else ''+'') @ nat_str (nat \<bar>e\<bar>)"

definition layout :: "string \<Rightarrow> int \<Rightarrow> string" where
  "layout ds n =
     (let k = int (length ds)
      in if k \<le> n \<and> n \<le> 21 then ds @ replicate (nat (n - k)) CHR ''0''
         else if 0 < n \<and> n \<le> 21 then take (nat n) ds @ ''.'' @ drop (nat n) ds
         else if -6 < n \<and> n \<le> 0 then ''0.'' @ replicate (nat (- n)) CHR ''0'' @ ds
         else if k = 1 then ds @ ''e'' @ exp_str (n - 1)
         else take 1 ds @ ''.'' @ drop 1 ds @ ''e'' @ exp_str (n - 1))"

definition pos_str :: "rat \<Rightarrow> string" where
  "pos_str q =
     (case first_cand q (dec_exp q) [1..<18] of
        None \<Rightarrow> []
      | Some (s, k) \<Rightarrow>
          if s = 10 ^ k then layout ''1'' (dec_exp q + 1)
          else layout (nat_str (nat s)) (dec_exp q))"

fun num_str :: "jsnum \<Rightarrow> string" where
  "num_str NaN = ''NaN''"
| "num_str PInf = ''Infinity''"
| "num_str NInf = ''-Infinity''"
| "num_str (Fin q) = (if q = 0 then ''0'' else if q < 0 then ''-'' @ pos_str (- q) else pos_str q)"

text \<open>\<^verbatim>\<open>x.toFixed(f)\<close>: half is rounded up, in exact arithmetic on the double's value.\<close>

definition fixed_str :: "nat \<Rightarrow> nat \<Rightarrow> string" where
  "fixed_str f n =
     (if f = 0 then nat_str n
      else (let fr = nat_str (n mod 10 ^ f)
            in nat_str (n div 10 ^ f) @ ''.'' @ replicate (f - length fr) CHR ''0'' @ fr))"

fun to_fixed :: "nat \<Rightarrow> jsnum \<Rightarrow> string" where
  "to_fixed f (Fin q) =
     (if 10 ^ 21 \<le> \<bar>q\<bar> then num_str (Fin q)
      else (if q < 0 then ''-'' else []) @ fixed_str f (nat \<lfloor>\<bar>q\<bar> * 10 ^ f + 1 / 2\<rfloor>))"
| "to_fixed f x = num_str x"

section \<open>Powers of ten\<close>

lemma pow10_powi: "pow10 e = 10 powi e"
  by (simp add: pow10_def power_int_def power_inverse inverse_eq_divide power_one_over)

lemma pow10_pos [simp]: "0 < pow10 e"
  by (simp add: pow10_powi)

lemma pow10_nonneg [simp]: "0 \<le> pow10 e"
  by (simp add: less_imp_le)

lemma pow10_nonzero [simp]: "pow10 e \<noteq> 0"
  using pow10_pos [of e] by linarith

lemma pow10_0 [simp]: "pow10 0 = 1"
  by (simp add: pow10_def)

lemma pow10_add: "pow10 (a + b) = pow10 a * pow10 b"
  by (simp add: pow10_powi power_int_add)

lemma pow10_diff: "pow10 (a - b) = pow10 a / pow10 b"
  by (simp add: pow10_powi power_int_diff)

lemma pow10_nat: "pow10 (int n) = 10 ^ n"
  by (simp add: pow10_def)

lemma nat_str_bounds_rat:
  assumes "0 < a"
  shows "pow10 (int (length (nat_str (nat a))) - 1) \<le> of_int a"
    and "of_int a < pow10 (int (length (nat_str (nat a))))"
proof -
  let ?l = "length (nat_str (nat a))"
  have b: "10 ^ (?l - 1) \<le> nat a" "nat a < 10 ^ ?l"
    using length_nat_str [of "nat a"] assms by auto
  have l: "int ?l - 1 = int (?l - 1)"
    using nat_str_nonempty [of "nat a"] by (cases "nat_str (nat a)") auto
  from b(1) have "10 ^ (?l - 1) \<le> a" using assms by (simp add: le_nat_iff)
  then have "(of_int (10 ^ (?l - 1)) :: rat) \<le> of_int a" by (simp only: of_int_le_iff)
  then show "pow10 (int ?l - 1) \<le> of_int a" unfolding l pow10_nat by simp
  from b(2) have "a < 10 ^ ?l" using assms by (simp add: nat_less_iff)
  then have "(of_int a :: rat) < of_int (10 ^ ?l)" by (simp only: of_int_less_iff)
  then show "of_int a < pow10 (int ?l)" unfolding pow10_nat by simp
qed

lemma dec_exp_bounds:
  assumes "0 < q"
  shows "pow10 (dec_exp q - 1) \<le> q" and "q < pow10 (dec_exp q)"
proof -
  obtain a b where ab: "quotient_of q = (a, b)" by fastforce
  then have q: "q = of_int a / of_int b" and b: "0 < b"
    by (auto dest: quotient_of_div quotient_of_denom_pos)
  with assms have a: "0 < a" by (simp add: zero_less_divide_iff)
  let ?la = "int (length (nat_str (nat a)))" and ?lb = "int (length (nat_str (nat b)))"
  let ?k = "?la - ?lb"
  have "pow10 (?k - 1) = pow10 (?la - 1) / pow10 ?lb"
    by (simp add: pow10_diff [symmetric] algebra_simps)
  also have "\<dots> \<le> of_int a / of_int b"
    using nat_str_bounds_rat [OF a] nat_str_bounds_rat [OF b] a b
    by (intro frac_le) (auto intro: less_imp_le)
  finally have lo: "pow10 (?k - 1) \<le> q" by (simp add: q)
  have "of_int a / of_int b < pow10 ?la / pow10 (?lb - 1)"
    using nat_str_bounds_rat [OF a] nat_str_bounds_rat [OF b] a b
    by (intro frac_less) auto
  also have "\<dots> = pow10 (?k + 1)"
    by (simp add: pow10_diff [symmetric] algebra_simps)
  finally have hi: "q < pow10 (?k + 1)" by (simp add: q)
  show "pow10 (dec_exp q - 1) \<le> q" "q < pow10 (dec_exp q)"
    using lo hi by (auto simp: dec_exp_def ab Let_def)
qed

section \<open>Seventeen digits suffice\<close>

lemma rhe_unique: "\<bar>x - of_int n\<bar> < 1 / 2 \<Longrightarrow> rhe x = n"
  using rhe_near [of x] by linarith

lemma is_dbl_multiple:
  assumes "is_dbl q" "0 < q"
  shows "\<exists>n. q = of_int n * pow2 (expo q)"
  using on_grid_multiple [of q q] assms by (simp add: is_dbl_iff)

text \<open>A positive value very close to a double rounds to it.\<close>

lemma expo_close:
  assumes q: "is_dbl q" "0 < q" and r: "q < r" "(r - q) * (2 * 10 ^ 16) \<le> q"
  shows "expo r = expo q"
proof -
  obtain m where m: "q = of_int m * pow2 (expo q)" using is_dbl_multiple [OF q] by blast
  have "pow2 (ilog2 q + 1) \<le> pow2 (53 + expo q)"
    unfolding pow2_le_iff using q by (simp add: expo_def)
  then have "q < pow2 (53 + expo q)" using ilog2_bounds(2) [OF q(2)] by linarith
  also have p53: "pow2 (53 + expo q) = 2 ^ 53 * pow2 (expo q)"
    using pow2_nat [of 53] by (simp add: pow2_add)
  finally have qlt: "q < 2 ^ 53 * pow2 (expo q)" .
  then have "of_int m < (2 ^ 53 :: rat)" using m by (metis mult_less_cancel_right_pos pow2_pos)
  then have "(of_int m :: rat) < of_int (2 ^ 53)" by simp
  then have "m + 1 \<le> 2 ^ 53" by (simp only: of_int_less_iff)
  then have "(of_int (m + 1) :: rat) \<le> of_int (2 ^ 53)" by (simp only: of_int_le_iff)
  then have "of_int (m + 1) * pow2 (expo q) \<le> of_int (2 ^ 53) * pow2 (expo q)"
    by (rule mult_right_mono) simp
  then have q1: "q + pow2 (expo q) \<le> 2 ^ 53 * pow2 (expo q)"
    using m by (simp add: distrib_right)
  have "r - q < pow2 (expo q)" using r(2) qlt pow2_pos [of "expo q"] by (simp, linarith)
  then have "r < pow2 (53 + expo q)" using q1 p53 by linarith
  moreover have "pow2 (ilog2 r) \<le> r" using ilog2_bounds(1) [of r] q r by linarith
  ultimately have "pow2 (ilog2 r) < pow2 (53 + expo q)" by linarith
  then have "ilog2 r - 52 \<le> expo q" by simp
  then have "expo r \<le> expo q" using expo_ge [of q] q r by (simp add: expo_def)
  moreover have "expo q \<le> expo r" using q r by (intro expo_mono) auto
  ultimately show ?thesis by simp
qed

lemma grid_round_close:
  assumes q: "is_dbl q" "0 < q" and r: "\<bar>r - q\<bar> * (2 * 10 ^ 16) \<le> q"
  shows "grid_round r = q"
proof -
  have rpos: "0 < r" using q r by (simp add: abs_if split: if_splits)
  have "\<exists>n. q = of_int n * pow2 (expo r)"
  proof (cases "r \<le> q")
    case True
    then show ?thesis using on_grid_multiple [of q r] q rpos by (simp add: is_dbl_iff)
  next
    case False
    then have "expo r = expo q" using q r by (intro expo_close) (auto simp: abs_if)
    then show ?thesis using is_dbl_multiple [OF q] by simp
  qed
  then obtain n where n: "q = of_int n * pow2 (expo r)" by blast
  have "pow2 (ilog2 r + 1) \<le> pow2 (53 + expo r)"
    unfolding pow2_le_iff using rpos by (simp add: expo_def)
  then have "r < pow2 (53 + expo r)" using ilog2_bounds(2) [OF rpos] by linarith
  then have rlt: "r < 2 ^ 53 * pow2 (expo r)"
    using pow2_nat [of 53] by (simp add: pow2_add)
  have "\<bar>r - q\<bar> < pow2 (expo r) / 2" using r rlt rpos by (simp add: abs_if split: if_splits)
  then have "\<bar>r / pow2 (expo r) - of_int n\<bar> < 1 / 2"
    using n by (simp add: field_simps abs_less_iff)
  then have "rhe (r / pow2 (expo r)) = n" by (rule rhe_unique)
  then show ?thesis using rpos n by (simp add: grid_round_pos)
qed

lemma rnd_close: "is_dbl q \<Longrightarrow> 0 < q \<Longrightarrow> \<bar>r - q\<bar> * (2 * 10 ^ 16) \<le> q \<Longrightarrow> rnd r = Fin q"
  using grid_round_close [of q r] rnd_dbl [of q] grid_round_close [of q q] by (simp add: rnd_def)

lemma cand_rnd: "cand q n k = Some s \<Longrightarrow> rnd (of_int s * pow10 (n - int k)) = Fin q"
  by (auto simp: cand_def Let_def split: if_splits)

lemma cand_range:
  assumes "cand q n k = Some s" "pow10 (n - 1) \<le> q" "q < pow10 n" "1 \<le> k"
  shows "10 ^ (k - 1) \<le> s" "s \<le> 10 ^ k"
proof -
  let ?x = "q / pow10 (n - int k)"
  have s: "s = \<lfloor>?x\<rfloor> \<or> s = \<lfloor>?x\<rfloor> + 1"
    using assms(1) by (auto simp: cand_def Let_def split: if_splits)
  have "pow10 (n - 1) = pow10 (int (k - 1)) * pow10 (n - int k)"
    using assms(4) by (simp flip: pow10_add add: of_nat_diff)
  then have "of_int (10 ^ (k - 1)) \<le> ?x"
    using assms(2) by (simp add: pow10_nat le_divide_eq)
  then have lo: "10 ^ (k - 1) \<le> \<lfloor>?x\<rfloor>" by (simp only: le_floor_iff)
  have "pow10 n = pow10 (int k) * pow10 (n - int k)" by (simp flip: pow10_add)
  then have "?x < of_int (10 ^ k)"
    using assms(3) by (simp add: pow10_nat divide_less_eq)
  then have "\<lfloor>?x\<rfloor> < 10 ^ k" by (simp only: floor_less_iff)
  with lo s show "10 ^ (k - 1) \<le> s" "s \<le> 10 ^ k" by auto
qed

lemma near_half:
  fixes a p q :: rat
  assumes "a \<le> q" "q < a + p"
  shows "\<bar>a - q\<bar> \<le> p / 2 \<or> \<bar>a + p - q\<bar> \<le> p / 2"
  using assms by linarith

lemma half_scale: "\<bar>d\<bar> \<le> p / 2 \<Longrightarrow> 10 ^ 16 * p \<le> q \<Longrightarrow> \<bar>d\<bar> * (2 * 10 ^ 16) \<le> (q :: rat)"
  by simp

lemma cand_17:
  assumes "is_dbl q" "0 < q"
  shows "cand q (dec_exp q) 17 \<noteq> None"
proof -
  let ?p = "pow10 (dec_exp q - 17)" and ?lo = "\<lfloor>q / pow10 (dec_exp q - 17)\<rfloor>"
  have "pow10 (dec_exp q - 1) = pow10 (int 16) * ?p" by (simp flip: pow10_add)
  then have p: "10 ^ 16 * ?p \<le> q" using dec_exp_bounds(1) [OF assms(2)] by (simp only: pow10_nat)
  have fl: "of_int ?lo \<le> q / ?p" "q / ?p < of_int ?lo + 1" by linarith+
  then have "of_int ?lo * ?p \<le> q" "q < (of_int ?lo + 1) * ?p"
    by (simp_all add: le_divide_eq divide_less_eq)
  then have "\<bar>of_int ?lo * ?p - q\<bar> \<le> ?p / 2 \<or> \<bar>of_int (?lo + 1) * ?p - q\<bar> \<le> ?p / 2"
    using near_half [of "of_int ?lo * ?p" q ?p] by (simp add: distrib_right)
  then have "rnd (of_int ?lo * ?p) = Fin q \<or> rnd (of_int (?lo + 1) * ?p) = Fin q"
  proof
    assume "\<bar>of_int ?lo * ?p - q\<bar> \<le> ?p / 2"
    then show ?thesis using half_scale p by (intro disjI1 rnd_close assms) blast
  next
    assume "\<bar>of_int (?lo + 1) * ?p - q\<bar> \<le> ?p / 2"
    then show ?thesis using half_scale p by (intro disjI2 rnd_close assms) blast
  qed
  then show ?thesis by (auto simp: cand_def Let_def)
qed

lemma first_cand_Some:
  "k \<in> set ks \<Longrightarrow> cand q n k \<noteq> None \<Longrightarrow> \<exists>s k'. first_cand q n ks = Some (s, k')"
  by (induction ks) (auto split: option.splits)

lemma first_cand_cand: "first_cand q n ks = Some (s, k) \<Longrightarrow> cand q n k = Some s \<and> k \<in> set ks"
  by (induction ks) (auto split: option.splits)

lemma first_cand_17:
  assumes "is_dbl q" "0 < q"
  obtains s k where "first_cand q (dec_exp q) [1..<18] = Some (s, k)" "1 \<le> k"
    "rnd (of_int s * pow10 (dec_exp q - int k)) = Fin q" "10 ^ (k - 1) \<le> s" "s \<le> 10 ^ k"
proof -
  obtain s k where f: "first_cand q (dec_exp q) [1..<18] = Some (s, k)"
    using first_cand_Some [OF _ cand_17 [OF assms], of "[1..<18]"] by auto
  then have c: "cand q (dec_exp q) k = Some s" "1 \<le> k"
    using first_cand_cand by fastforce+
  show thesis
    using that [OF f c(2) cand_rnd [OF c(1)]] cand_range [OF c(1) dec_exp_bounds [OF assms(2)] c(2)]
    by blast
qed

section \<open>Reading back what was written\<close>

definition digit_list :: "string \<Rightarrow> bool" where
  "digit_list s \<longleftrightarrow> (\<forall>c \<in> set s. is_digit c)"

definition no_digit_head :: "string \<Rightarrow> bool" where
  "no_digit_head r \<longleftrightarrow> r = [] \<or> \<not> is_digit (hd r)"

lemma span_digits:
  assumes "digit_list s" "no_digit_head r"
  shows "takeWhile is_digit (s @ r) = s" and "dropWhile is_digit (s @ r) = r"
  using assms by (cases r; auto simp: digit_list_def no_digit_head_def)+

lemma point_not_digit [simp]: "\<not> is_digit CHR ''.''" "\<not> is_digit CHR ''e''"
  by (simp_all add: is_digit_def)

lemma parse_unsigned_point:
  assumes "digit_list ip" "digit_list fp" "ip @ fp \<noteq> []" "no_digit_head r" "parse_exp r = Some e"
  shows "parse_unsigned (ip @ ''.'' @ fp @ r) =
    Some (of_nat (digits_val (ip @ fp)) * pow10 (e - int (length fp)))"
proof -
  have n: "no_digit_head (''.'' @ fp @ r)" by (simp add: no_digit_head_def)
  show ?thesis
    using span_digits [OF assms(1) n] span_digits [OF assms(2,4)] assms(3,5)
    by (auto simp: parse_unsigned_def Let_def)
qed

lemma parse_unsigned_int:
  assumes "digit_list ip" "ip \<noteq> []" "no_digit_head r" "r = [] \<or> hd r \<noteq> CHR ''.''"
    "parse_exp r = Some e"
  shows "parse_unsigned (ip @ r) = Some (of_nat (digits_val ip) * pow10 e)"
  using span_digits [OF assms(1,3)] assms by (auto simp: parse_unsigned_def Let_def)

lemma parse_exp_Nil [simp]: "parse_exp [] = Some 0"
  by (simp add: parse_exp_def)

lemma parse_exp_str: "parse_exp (''e'' @ exp_str e) = Some e"
  by (simp add: parse_exp_def exp_str_def Let_def)

lemma digit_list_simps [simp]:
  "digit_list []" "digit_list (c # s) \<longleftrightarrow> is_digit c \<and> digit_list s"
  "digit_list (s @ t) \<longleftrightarrow> digit_list s \<and> digit_list t"
  "digit_list (replicate k CHR ''0'')" "digit_list (nat_str n)"
  by (auto simp: digit_list_def is_digit_def nat_str_digits [unfolded is_digit_def])

lemma digit_list_take_drop [simp]:
  "digit_list s \<Longrightarrow> digit_list (take n s)" "digit_list s \<Longrightarrow> digit_list (drop n s)"
  by (auto simp: digit_list_def dest: in_set_takeD in_set_dropD)

lemma digits_val_zeros_append [simp]: "digits_val (replicate z CHR ''0'' @ ds) = digits_val ds"
  by (simp add: digits_val_append)

lemma digits_val_zero_Cons [simp]: "digits_val (CHR ''0'' # ds) = digits_val ds"
  using digits_val_zeros_append [of 1 ds] by simp

lemma digits_val_append_zeros:
  "digits_val (ds @ replicate z CHR ''0'') = digits_val ds * 10 ^ z"
  by (simp add: digits_val_append)

lemma parse_layout:
  assumes ds: "digit_list ds" "ds \<noteq> []"
  shows "parse_unsigned (layout ds n) =
    Some (of_nat (digits_val ds) * pow10 (n - int (length ds)))"
proof -
  let ?k = "int (length ds)"
  have k: "1 \<le> ?k" using ds(2) by (cases ds) auto
  consider (a) "?k \<le> n" "n \<le> 21" | (b) "0 < n" "n < ?k" "n \<le> 21" | (c) "-6 < n" "n \<le> 0"
    | (d) "n \<le> -6 \<or> 21 < n" "?k = 1" | (e) "n \<le> -6 \<or> 21 < n" "1 < ?k"
    using k by linarith
  then show ?thesis
  proof cases
    case a
    then have "pow10 (n - ?k) = 10 ^ nat (n - ?k)" by (simp add: pow10_def)
    then show ?thesis
      using a parse_unsigned_int [of "ds @ replicate (nat (n - ?k)) CHR ''0''" "[]" 0] ds
      by (simp add: layout_def Let_def no_digit_head_def digits_val_append_zeros)
  next
    case b
    have "n - ?k = 0 - int (length (drop (nat n) ds))" using b by simp
    then show ?thesis
      using b parse_unsigned_point [of "take (nat n) ds" "drop (nat n) ds" "[]" 0] ds
      by (simp add: layout_def Let_def no_digit_head_def)
  next
    case c
    have "n - ?k = 0 - int (length (replicate (nat (- n)) CHR ''0'' @ ds))" using c by simp
    then show ?thesis
      using c k parse_unsigned_point [of "''0''" "replicate (nat (- n)) CHR ''0'' @ ds" "[]" 0] ds
      by (simp add: layout_def Let_def no_digit_head_def is_digit_def)
  next
    case d
    then show ?thesis
      using parse_unsigned_int [of ds "''e'' @ exp_str (n - 1)" "n - 1"] ds parse_exp_str [of "n - 1"]
      by (auto simp: layout_def Let_def no_digit_head_def)
  next
    case e
    have "take 1 ds @ drop 1 ds = ds" by simp
    then show ?thesis
      using e parse_unsigned_point [of "take 1 ds" "drop 1 ds" "''e'' @ exp_str (n - 1)" "n - 1"] ds
        parse_exp_str [of "n - 1"]
      by (auto simp: layout_def Let_def no_digit_head_def of_nat_diff algebra_simps)
  qed
qed

text \<open>The shape of the text: it starts with a digit and holds no white space.\<close>

definition num_char :: "char \<Rightarrow> bool" where
  "num_char c \<longleftrightarrow> is_digit c \<or> c \<in> {CHR ''.'', CHR ''e'', CHR ''-'', CHR ''+''}"

lemma num_char_plain: "num_char c \<Longrightarrow> plain_char c"
  by (auto simp: num_char_def is_digit_def plain_char_def ascii_def ascii_ws_def)

lemma digit_list_num_chars: "digit_list s \<Longrightarrow> list_all num_char s"
  by (simp add: digit_list_def list_all_iff num_char_def)

lemma exp_str_num_chars: "list_all num_char (exp_str e)"
  by (simp add: exp_str_def digit_list_num_chars num_char_def)

lemma num_char_point [simp]: "num_char CHR ''.''" "num_char CHR ''e''" "num_char CHR ''0''"
  by (simp_all add: num_char_def is_digit_def)

lemma layout_chars: "digit_list ds \<Longrightarrow> list_all num_char (layout ds n)"
  by (simp add: layout_def Let_def digit_list_num_chars exp_str_num_chars)

definition num_head :: "string \<Rightarrow> bool" where
  "num_head s \<longleftrightarrow> s \<noteq> [] \<and> is_digit (hd s) \<and>
     (tl s = [] \<or> is_digit (hd (tl s)) \<or> hd (tl s) = CHR ''.'' \<or> hd (tl s) = CHR ''e'')"

lemma num_head_append:
  assumes "digit_list ds" "ds \<noteq> []" "r = [] \<or> is_digit (hd r) \<or> hd r = CHR ''.'' \<or> hd r = CHR ''e''"
  shows "num_head (ds @ r)"
proof (cases ds)
  case (Cons d ds')
  then show ?thesis using assms by (cases ds') (auto simp: num_head_def)
qed (use assms in simp)

lemma layout_head:
  assumes "digit_list ds" "ds \<noteq> []"
  shows "num_head (layout ds n)"
proof -
  have k: "1 \<le> int (length ds)" using assms(2) by (cases ds) auto
  have t: "take (nat n) ds \<noteq> []" if "0 < n" using that assms(2) by (cases ds) auto
  have t1: "take 1 ds \<noteq> []" using assms(2) by (cases ds) auto
  have z: "replicate z CHR ''0'' = [] \<or> is_digit (hd (replicate z CHR ''0''))" for z
    by (cases z) (auto simp: is_digit_def)
  show ?thesis
    using assms k t t1 z
    by (auto simp: layout_def Let_def num_head_def [of "CHR ''0'' # _"] is_digit_def [of "CHR ''0''"]
        intro!: num_head_append)
qed

lemma to_number_text:
  assumes "num_head s" "list_all num_char s" "parse_unsigned s = Some x"
  shows "to_number_str s = rnd x" and "to_number_str (CHR ''-'' # s) = js_neg (rnd x)"
proof -
  have p: "plain_char c" if "c \<in> set s" for c
    using assms(2) that num_char_plain by (auto simp: list_all_iff)
  have "plain_char CHR ''-''" by (simp add: num_char_plain num_char_def)
  with p have tr: "trim s = s" "trim (CHR ''-'' # s) = CHR ''-'' # s"
    by (auto intro!: trim_plain)
  obtain c u where cu: "s = c # u" using assms(1) by (cases s) (auto simp: num_head_def)
  have c: "is_digit c" using assms(1) cu by (simp add: num_head_def)
  then have ne: "c \<noteq> CHR ''-''" "c \<noteq> CHR ''+''" "c \<noteq> CHR ''I''" by (auto simp: is_digit_def)
  have u: "u = [] \<or> (hd u \<notin> {CHR ''x'', CHR ''X'', CHR ''o'', CHR ''O'', CHR ''b'', CHR ''B''})"
    using assms(1) cu by (auto simp: num_head_def is_digit_def)
  have nu: "num_of_unsigned s = rnd x"
    using ne assms(3) by (simp add: num_of_unsigned_def cu)
  show "to_number_str s = rnd x" using tr ne u nu by (auto simp: to_number_str_def cu)
  show "to_number_str (CHR ''-'' # s) = js_neg (rnd x)"
    using tr nu by (simp add: to_number_str_def)
qed

lemma to_number_layout:
  assumes "digit_list ds" "ds \<noteq> []"
  shows "to_number_str (layout ds n) = rnd (of_nat (digits_val ds) * pow10 (n - int (length ds)))"
    and "to_number_str (CHR ''-'' # layout ds n) =
      js_neg (rnd (of_nat (digits_val ds) * pow10 (n - int (length ds))))"
  using assms by (auto intro: to_number_text layout_head layout_chars parse_layout)

lemma pos_str_layout:
  assumes "is_dbl q" "0 < q"
  obtains ds n where "pos_str q = layout ds n" "digit_list ds" "ds \<noteq> []"
    "rnd (of_nat (digits_val ds) * pow10 (n - int (length ds))) = Fin q"
proof -
  obtain s k where sk: "first_cand q (dec_exp q) [1..<18] = Some (s, k)" "1 \<le> k"
    "rnd (of_int s * pow10 (dec_exp q - int k)) = Fin q" "10 ^ (k - 1) \<le> s" "s \<le> 10 ^ k"
    using first_cand_17 [OF assms] by metis
  have spos: "0 < s" using sk(4) by (meson less_le_trans zero_less_numeral zero_less_power)
  show thesis
  proof (cases "s = 10 ^ k")
    case True
    have "of_int s * pow10 (dec_exp q - int k) = pow10 (int k) * pow10 (dec_exp q - int k)"
      using True by (simp add: pow10_nat)
    then have "of_int s * pow10 (dec_exp q - int k) = pow10 (dec_exp q + 1 - 1)"
      by (simp flip: pow10_add)
    then show thesis
      using that [of "''1''" "dec_exp q + 1"] sk True
      by (simp add: pos_str_def is_digit_def digits_val_def digit_val_def)
  next
    case False
    have "nat s < 10 ^ k" using False sk(5) spos by (simp add: nat_less_iff)
    moreover have "10 ^ (k - 1) \<le> nat s" using sk(4) spos by (simp add: le_nat_iff)
    moreover have l: "10 ^ (length (nat_str (nat s)) - 1) \<le> nat s \<and> nat s < 10 ^ length (nat_str (nat s))"
      using spos by (intro length_nat_str) simp
    ultimately have "(10 :: nat) ^ (length (nat_str (nat s)) - 1) < 10 ^ k"
      "(10 :: nat) ^ (k - 1) < 10 ^ length (nat_str (nat s))" by linarith+
    then have "length (nat_str (nat s)) - 1 < k" "k - 1 < length (nat_str (nat s))"
      using power_less_imp_less_exp [of 10] by auto
    then have "length (nat_str (nat s)) = k"
      using nat_str_nonempty [of "nat s"] sk(2) by (cases "nat_str (nat s)") auto
    then show thesis
      using that [of "nat_str (nat s)" "dec_exp q"] sk False spos
      by (simp add: pos_str_def)
  qed
qed

lemma to_number_num_str:
  assumes "wf_num x" "x \<noteq> NaN"
  shows "to_number_str (num_str x) = x"
proof (cases x)
  case (Fin q)
  then have q: "is_dbl q" using assms by simp
  consider "q = 0" | "0 < q" | "q < 0" by linarith
  then show ?thesis
  proof cases
    case 1
    have "trim ''0'' = ''0''" by (rule trim_plain) (simp add: plain_char_def ascii_def ascii_ws_def)
    moreover have "parse_unsigned ''0'' = Some 0"
      using parse_unsigned_int [of "''0''" "[]" 0] by (simp add: no_digit_head_def is_digit_def)
    ultimately show ?thesis using 1 Fin by (simp add: to_number_str_def num_of_unsigned_def)
  next
    case 2
    obtain ds n where "pos_str q = layout ds n" "digit_list ds" "ds \<noteq> []"
      "rnd (of_nat (digits_val ds) * pow10 (n - int (length ds))) = Fin q"
      using pos_str_layout [OF q 2] by metis
    then show ?thesis using 2 Fin to_number_layout(1) [of ds n] by simp
  next
    case 3
    then have "is_dbl (- q)" "0 < - q" using q by simp_all
    then obtain ds n where "pos_str (- q) = layout ds n" "digit_list ds" "ds \<noteq> []"
      "rnd (of_nat (digits_val ds) * pow10 (n - int (length ds))) = Fin (- q)"
      using pos_str_layout by metis
    then show ?thesis using 3 Fin to_number_layout(2) [of ds n] by simp
  qed
next
  case PInf
  have "trim ''Infinity'' = ''Infinity''"
    by (rule trim_plain) (auto simp: plain_char_def ascii_def ascii_ws_def)
  then show ?thesis using PInf by (simp add: to_number_str_def num_of_unsigned_def)
next
  case NInf
  have "trim ''-Infinity'' = ''-Infinity''"
    by (rule trim_plain) (auto simp: plain_char_def ascii_def ascii_ws_def)
  then show ?thesis using NInf by (simp add: to_number_str_def num_of_unsigned_def)
qed (use assms in simp)

section \<open>Fixed notation\<close>

lemma length_nat_str_le:
  assumes "n < 10 ^ f" "0 < f"
  shows "length (nat_str n) \<le> f"
proof (cases "n = 0")
  case True
  then show ?thesis using assms(2) by (simp add: nat_str.simps)
next
  case False
  then have "(10 :: nat) ^ (length (nat_str n) - 1) < 10 ^ f"
    using length_nat_str [of n] assms(1) by (meson le_less_trans neq0_conv)
  then show ?thesis using power_less_imp_less_exp [of 10] by fastforce
qed

lemma to_number_fixed_str:
  assumes "0 < f"
  shows "to_number_str (fixed_str f n) = rnd (of_nat n / 10 ^ f)"
    and "to_number_str (CHR ''-'' # fixed_str f n) = js_neg (rnd (of_nat n / 10 ^ f))"
proof -
  let ?ip = "nat_str (n div 10 ^ f)" and ?fr = "nat_str (n mod 10 ^ f)"
  let ?fp = "replicate (f - length ?fr) CHR ''0'' @ ?fr"
  have s: "fixed_str f n = ?ip @ ''.'' @ ?fp @ []" using assms by (simp add: fixed_str_def Let_def)
  have l: "length ?fp = f" using length_nat_str_le [of "n mod 10 ^ f" f] assms by simp
  have "digits_val (?ip @ ?fp) = n"
    using l by (simp add: digits_val_append [of ?ip] div_mult_mod_eq del: length_append)
  then have "parse_unsigned (fixed_str f n) = Some (of_nat n * pow10 (0 - int f))"
    unfolding s using parse_unsigned_point [of ?ip ?fp "[]" 0] l by (simp add: no_digit_head_def)
  then have p: "parse_unsigned (fixed_str f n) = Some (of_nat n / 10 ^ f)"
    using assms by (simp add: pow10_def)
  have h: "num_head (fixed_str f n)" unfolding s by (rule num_head_append) auto
  have c: "list_all num_char (fixed_str f n)" unfolding s by (simp add: digit_list_num_chars)
  show "to_number_str (fixed_str f n) = rnd (of_nat n / 10 ^ f)"
    "to_number_str (CHR ''-'' # fixed_str f n) = js_neg (rnd (of_nat n / 10 ^ f))"
    by (rule to_number_text [OF h c p])+
qed

text \<open>The value of the text of \<^verbatim>\<open>toFixed\<close>: the nearest decimal, rounded to a double.\<close>

lemma rnd_uminus: "rnd (- q) = js_neg (rnd q)"
  using pow2_pos [of 1024] by (auto simp: rnd_def clip_def grid_round_uminus simp del: pow2_pos)

definition dec_round :: "nat \<Rightarrow> rat \<Rightarrow> rat" where
  "dec_round f q = of_int \<lfloor>q * 10 ^ f + 1 / 2\<rfloor> / 10 ^ f"

lemma to_number_to_fixed:
  assumes "0 < f" "is_dbl q"
  shows "to_number_str (to_fixed f (Fin q)) =
    (if 10 ^ 21 \<le> \<bar>q\<bar> then Fin q else if q < 0 then js_neg (rnd (dec_round f (- q))) else rnd (dec_round f q))"
proof -
  have n: "of_nat (nat \<lfloor>\<bar>q\<bar> * 10 ^ f + 1 / 2\<rfloor>) / 10 ^ f = dec_round f \<bar>q\<bar>"
    by (simp add: dec_round_def)
  show ?thesis
    using to_number_fixed_str [OF assms(1), of "nat \<lfloor>\<bar>q\<bar> * 10 ^ f + 1 / 2\<rfloor>"] to_number_num_str [of "Fin q"] assms(2)
    unfolding n by auto
qed

lemma dec_round_int [simp]: "dec_round f (of_int n) = of_int n"
proof -
  have "of_int n * 10 ^ f + 1 / 2 = (of_int (n * 10 ^ f) + 1 / 2 :: rat)" by simp
  also have "\<lfloor>\<dots>\<rfloor> = n * 10 ^ f" by (simp only: floor_eq_iff) simp
  finally show ?thesis by (simp add: dec_round_def)
qed

lemma dec_round_near: "\<bar>dec_round f q - q\<bar> \<le> 1 / (2 * 10 ^ f)"
proof -
  let ?n = "\<lfloor>q * 10 ^ f + 1 / 2\<rfloor>"
  have "\<bar>of_int ?n - q * 10 ^ f\<bar> \<le> 1 / 2" by linarith
  then have "\<bar>of_int ?n - q * 10 ^ f\<bar> / 10 ^ f \<le> (1 / 2) / 10 ^ f" by (rule divide_right_mono) simp
  moreover have "\<bar>of_int ?n - q * 10 ^ f\<bar> / 10 ^ f = \<bar>(of_int ?n - q * 10 ^ f) / 10 ^ f\<bar>" by (simp add: abs_divide)
  moreover have "(of_int ?n - q * 10 ^ f) / 10 ^ f = dec_round f q - q"
    by (simp add: dec_round_def diff_divide_distrib)
  ultimately show ?thesis by simp
qed

text \<open>
  Rounding to twelve decimals is stable: the double nearest to a decimal of twelve places, unless
  it is an integer, is the double nearest to its own rounding. Below \<open>2 ^ 13\<close> the doubles are
  denser than the decimals and the same decimal is found again; above, the decimals are denser.
\<close>

lemma pow2_ints: "0 \<le> e \<Longrightarrow> \<exists>n. pow2 e = of_int n"
  by (rule exI [of _ "2 ^ nat e"]) (simp add: pow2_def)

lemma dec_round_unique:
  assumes "\<bar>q * 10 ^ f - of_int n\<bar> < 1 / 2"
  shows "dec_round f q = of_int n / 10 ^ f"
proof -
  have "\<lfloor>q * 10 ^ f + 1 / 2\<rfloor> = n" using assms by (intro floor_unique) linarith+
  then show ?thesis by (simp add: dec_round_def)
qed

lemma grid_round_near:
  assumes "0 < x"
  shows "\<bar>grid_round x - x\<bar> \<le> pow2 (expo x) / 2"
proof -
  let ?p = "pow2 (expo x)"
  have "grid_round x - x = (of_int (rhe (x / ?p)) - x / ?p) * ?p"
    using assms by (simp add: grid_round_pos left_diff_distrib)
  then have "\<bar>grid_round x - x\<bar> = \<bar>of_int (rhe (x / ?p)) - x / ?p\<bar> * ?p" by (simp add: abs_mult)
  also have "\<dots> \<le> (1 / 2) * ?p" by (intro mult_right_mono rhe_near) simp
  finally show ?thesis by simp
qed

lemma grid_round_back:
  assumes x: "0 < x" and r: "r = grid_round x" "\<And>n. r \<noteq> of_int n"
    and e: "-52 \<le> expo x" and y: "\<bar>y - r\<bar> < pow2 (expo x) / 2"
  shows "grid_round y = r"
proof -
  let ?e = "expo x" and ?L = "ilog2 x"
  have eL: "?L = ?e + 52" using e x by (simp add: expo_def)
  obtain k where k: "r = of_int k * pow2 ?e" using r(1) x by (simp add: grid_round_pos)
  have L: "pow2 ?L = of_int (2 ^ 52) * pow2 ?e" "pow2 (?L + 1) = of_int (2 ^ 53) * pow2 ?e"
    using pow2_nat [of 52] pow2_nat [of 53] by (simp_all add: eL pow2_add [symmetric] add.commute)
       (simp_all add: pow2_add)
  have "pow2 ?L \<le> r" "r \<le> pow2 (?L + 1)"
    using ilog2_bounds [OF x] x e unfolding r(1)
    by (auto intro!: grid_round_ge_grid_pos grid_round_le_grid_pos on_grid_pow2 simp: eL)
  moreover have "r \<noteq> pow2 ?L" "r \<noteq> pow2 (?L + 1)"
    using r(2) pow2_ints [of ?L] pow2_ints [of "?L + 1"] e by (auto simp: eL)
  ultimately have "of_int (2 ^ 52) * pow2 ?e < of_int k * pow2 ?e" "of_int k * pow2 ?e < of_int (2 ^ 53) * pow2 ?e"
    unfolding k L by linarith+
  then have "2 ^ 52 + 1 \<le> k" "k \<le> 2 ^ 53 - 1"
    by (simp_all only: mult_less_cancel_right_pos [OF pow2_pos] of_int_less_iff)
  then have "of_int (2 ^ 52 + 1) * pow2 ?e \<le> r" "r \<le> of_int (2 ^ 53 - 1) * pow2 ?e"
    unfolding k by (simp_all only: mult_le_cancel_right_pos [OF pow2_pos] of_int_le_iff)
  then have b: "pow2 ?L + pow2 ?e \<le> r" "r \<le> pow2 (?L + 1) - pow2 ?e"
    unfolding L by (simp_all only: of_int_add of_int_diff of_int_1 left_diff_distrib distrib_right mult_1)
  have yb: "pow2 ?L \<le> y" "y < pow2 (?L + 1)"
    using b y pow2_pos [of ?e] by linarith+
  then have ypos: "0 < y" and "ilog2 y = ?L" using pow2_pos [of ?L] ilog2_unique [of ?L y] by linarith+
  then have ey: "expo y = ?e" using x by (simp add: expo_def)
  have "y / pow2 ?e - of_int k = (y - r) / pow2 ?e" unfolding k by (simp add: diff_divide_distrib)
  then have "\<bar>y / pow2 ?e - of_int k\<bar> = \<bar>y - r\<bar> / pow2 ?e" by (simp only: abs_divide pow2_abs)
  also have "\<dots> < 1 / 2" using y by (simp add: divide_less_eq)
  finally have "rhe (y / pow2 ?e) = k" by (rule rhe_unique)
  then show ?thesis using ypos k by (simp add: grid_round_pos ey)
qed

lemma dec_round_stable:
  assumes n: "0 < n" and r: "r = grid_round (of_int n / 10 ^ 12)" "\<And>i. r \<noteq> of_int i"
  shows "grid_round (dec_round 12 r) = r"
proof -
  let ?x = "of_int n / 10 ^ 12 :: rat"
  let ?e = "expo ?x"
  have x: "0 < ?x" using n by simp
  have rx: "\<bar>r - ?x\<bar> \<le> pow2 ?e / 2" unfolding r(1) by (rule grid_round_near [OF x])
  show ?thesis
  proof (cases "?e \<le> -40")
    case True
    then have "pow2 ?e \<le> pow2 (-40)" by simp
    then have p: "pow2 ?e < 1 / 10 ^ 12" by (simp add: pow2_def)
    then have "\<bar>r - ?x\<bar> < 1 / (2 * 10 ^ 12)" using rx by simp
    then have "\<bar>r - ?x\<bar> * 10 ^ 12 < 1 / 2" by simp
    moreover have "\<bar>r * 10 ^ 12 - of_int n\<bar> = \<bar>(r - ?x) * 10 ^ 12\<bar>" by (simp add: left_diff_distrib)
    ultimately have "\<bar>r * 10 ^ 12 - of_int n\<bar> < 1 / 2" by (simp only: abs_mult) simp
    then have "dec_round 12 r = ?x" by (rule dec_round_unique)
    then show ?thesis using r(1) by (simp only:)
  next
    case False
    then have "pow2 (-39) \<le> pow2 ?e" by simp
    then have "1 / 10 ^ 12 < pow2 ?e" by (simp add: pow2_def)
    then have "\<bar>dec_round 12 r - r\<bar> < pow2 ?e / 2" using dec_round_near [of 12 r] by simp
    then show ?thesis using False by (intro grid_round_back [OF x r]) auto
  qed
qed

end
