(* ===== verification/Js_Value.thy ===== *)
theory Js_Value
  imports Js_Dec
begin

text \<open>
  JavaScript values, as far as the sources pass them around: the primitives, arrays and plain
  objects. An object is the list of its own properties with distinct keys; \<open>obj_entries\<close> gives
  them in JavaScript's enumeration order (integer-like keys first, ascending, then insertion
  order). Reading a property sees own properties only: the members inherited from
  \<^verbatim>\<open>Object.prototype\<close> (\<^verbatim>\<open>constructor\<close>, \<^verbatim>\<open>toString\<close>, \<^verbatim>\<open>__proto__\<close>, ...) are outside the model.
\<close>

section \<open>Values\<close>

datatype jsval =
    Undef
  | Null
  | Bool bool
  | Num jsnum
  | Str string
  | Arr "jsval list"
  | Obj "(string \<times> jsval) list"

definition truthy :: "jsval \<Rightarrow> bool" where
  "truthy v =
     (case v of Undef \<Rightarrow> False | Null \<Rightarrow> False | Bool b \<Rightarrow> b | Num x \<Rightarrow> truthy_num x
      | Str s \<Rightarrow> s \<noteq> [] | Arr _ \<Rightarrow> True | Obj _ \<Rightarrow> True)"

text \<open>\<^verbatim>\<open>v || w\<close>, \<^verbatim>\<open>v ?? w\<close>, \<^verbatim>\<open>v == null\<close>, \<^verbatim>\<open>typeof v === 'object'\<close>, \<^verbatim>\<open>Array.isArray(v)\<close>.\<close>

definition js_or :: "jsval \<Rightarrow> jsval \<Rightarrow> jsval" where
  "js_or v w = (if truthy v then v else w)"

definition nullish :: "jsval \<Rightarrow> bool" where
  "nullish v \<longleftrightarrow> v = Undef \<or> v = Null"

definition coalesce :: "jsval \<Rightarrow> jsval \<Rightarrow> jsval" where
  "coalesce v w = (if nullish v then w else v)"

definition typeof_object :: "jsval \<Rightarrow> bool" where
  "typeof_object v = (case v of Null \<Rightarrow> True | Arr _ \<Rightarrow> True | Obj _ \<Rightarrow> True | _ \<Rightarrow> False)"

definition is_array :: "jsval \<Rightarrow> bool" where
  "is_array v = (case v of Arr _ \<Rightarrow> True | _ \<Rightarrow> False)"

definition arr_elems :: "jsval \<Rightarrow> jsval list" where
  "arr_elems v = (case v of Arr vs \<Rightarrow> vs | _ \<Rightarrow> [])"

text \<open>\<^verbatim>\<open>v === w\<close> on primitives (the sources compare no two objects).\<close>

fun strict_eq :: "jsval \<Rightarrow> jsval \<Rightarrow> bool" where
  "strict_eq (Num x) (Num y) = num_eq x y"
| "strict_eq (Str s) (Str t) = (s = t)"
| "strict_eq (Bool a) (Bool b) = (a = b)"
| "strict_eq Undef Undef = True"
| "strict_eq Null Null = True"
| "strict_eq _ _ = False"

section \<open>Conversions\<close>

text \<open>\<^verbatim>\<open>String(v)\<close>; an array is joined with commas, its \<^verbatim>\<open>null\<close> and \<^verbatim>\<open>undefined\<close> elements empty.\<close>

fun to_str :: "jsval \<Rightarrow> string" where
  "to_str Undef = ''undefined''"
| "to_str Null = ''null''"
| "to_str (Bool b) = (if b then ''true'' else ''false'')"
| "to_str (Num x) = num_str x"
| "to_str (Str s) = s"
| "to_str (Arr vs) = join '','' (map (\<lambda>v. if v = Undef \<or> v = Null then [] else to_str v) vs)"
| "to_str (Obj _) = ''[object Object]''"

text \<open>\<^verbatim>\<open>Number(v)\<close>; arrays and objects go through their string.\<close>

definition to_num :: "jsval \<Rightarrow> jsnum" where
  "to_num v =
     (case v of Undef \<Rightarrow> NaN | Null \<Rightarrow> Fin 0 | Bool b \<Rightarrow> Fin (if b then 1 else 0)
      | Num x \<Rightarrow> x | Str s \<Rightarrow> to_number_str s | Arr _ \<Rightarrow> to_number_str (to_str v) | Obj _ \<Rightarrow> NaN)"

section \<open>Objects\<close>

definition obj_props :: "jsval \<Rightarrow> (string \<times> jsval) list" where
  "obj_props v = (case v of Obj ps \<Rightarrow> ps | _ \<Rightarrow> [])"

text \<open>An integer-like key: a canonical decimal below \<open>2 ^ 32 - 1\<close>.\<close>

definition is_index_key :: "string \<Rightarrow> bool" where
  "is_index_key k \<longleftrightarrow> all_digits k \<and> nat_str (digits_val k) = k \<and> digits_val k < 2 ^ 32 - 1"

text \<open>
  \<^verbatim>\<open>o[k]\<close> with \<^verbatim>\<open>o?.[k]\<close> semantics: a property of an object, an element of an array at an
  integer-like key, \<^verbatim>\<open>undefined\<close> for every other value.
\<close>

definition get :: "jsval \<Rightarrow> string \<Rightarrow> jsval" where
  "get v k =
     (case v of
        Obj ps \<Rightarrow> (case map_of ps k of Some w \<Rightarrow> w | None \<Rightarrow> Undef)
      | Arr vs \<Rightarrow> (if is_index_key k \<and> digits_val k < length vs then vs ! digits_val k else Undef)
      | _ \<Rightarrow> Undef)"

fun set_prop :: "string \<Rightarrow> 'v \<Rightarrow> (string \<times> 'v) list \<Rightarrow> (string \<times> 'v) list" where
  "set_prop k v [] = [(k, v)]"
| "set_prop k v ((k', v') # ps) =
     (if k = k' then (k, v) # ps else (k', v') # set_prop k v ps)"

definition delete_prop :: "string \<Rightarrow> (string \<times> 'v) list \<Rightarrow> (string \<times> 'v) list" where
  "delete_prop k ps = filter (\<lambda>(k', _). k' \<noteq> k) ps"

text \<open>\<^verbatim>\<open>Object.entries\<close>, \<^verbatim>\<open>Object.keys\<close>.\<close>

definition prop_entries :: "(string \<times> 'v) list \<Rightarrow> (string \<times> 'v) list" where
  "prop_entries ps =
     sort_key (\<lambda>(k, _). digits_val k) (filter (\<lambda>(k, _). is_index_key k) ps)
       @ filter (\<lambda>(k, _). \<not> is_index_key k) ps"

definition obj_entries :: "jsval \<Rightarrow> (string \<times> jsval) list" where
  "obj_entries v =
     (case v of Obj ps \<Rightarrow> prop_entries ps
      | Arr vs \<Rightarrow> map (\<lambda>i. (nat_str i, vs ! i)) [0..<length vs]
      | _ \<Rightarrow> [])"

definition obj_keys :: "jsval \<Rightarrow> string list" where
  "obj_keys v = map fst (obj_entries v)"

section \<open>Lemmas\<close>

lemma map_of_set_prop [simp]: "map_of (set_prop k v ps) = (map_of ps)(k \<mapsto> v)"
  by (induction k v ps rule: set_prop.induct) (auto simp: fun_eq_iff)

lemma map_of_delete_prop [simp]: "map_of (delete_prop k ps) = (map_of ps)(k := None)"
  by (induction ps) (auto simp: delete_prop_def fun_eq_iff)

lemma set_prop_keys: "fst ` set (set_prop k v ps) = insert k (fst ` set ps)"
  by (induction k v ps rule: set_prop.induct) auto

lemma set_prop_distinct: "distinct (map fst ps) \<Longrightarrow> distinct (map fst (set_prop k v ps))"
proof (induction k v ps rule: set_prop.induct)
  case (2 k v k' v' ps)
  then show ?case using set_prop_keys [of k v ps] by (auto simp: image_iff)
qed simp

lemma delete_prop_distinct: "distinct (map fst ps) \<Longrightarrow> distinct (map fst (delete_prop k ps))"
  unfolding delete_prop_def by (rule distinct_map_filter)

lemma set_prop_entries: "set (prop_entries ps) = set ps"
  by (auto simp: prop_entries_def)

lemma distinct_prop_entries:
  assumes "distinct (map fst ps)"
  shows "distinct (map fst (prop_entries ps))"
proof -
  let ?A = "filter (\<lambda>(k, _). is_index_key k) ps" and ?B = "filter (\<lambda>(k, _). \<not> is_index_key k) ps"
  have "distinct (map fst (sort_key (\<lambda>(k, _). digits_val k) ?A))"
    using assms distinct_map_filter [OF assms]
    by (auto simp: distinct_map inj_on_def)
  moreover have "distinct (map fst ?B)" by (rule distinct_map_filter [OF assms])
  ultimately show ?thesis by (auto simp: prop_entries_def)
qed

lemma map_of_prop_entries:
  assumes "distinct (map fst ps)"
  shows "map_of (prop_entries ps) = map_of ps"
  using assms distinct_prop_entries [OF assms] set_prop_entries [of ps]
  by (metis map_of_inject_set)

lemma truthy_simps [simp, js_val_simps]:
  "\<not> truthy Undef" "\<not> truthy Null" "truthy (Bool b) = b" "truthy (Num x) = truthy_num x"
  "truthy (Str s) = (s \<noteq> [])" "truthy (Arr vs)" "truthy (Obj ps)"
  by (simp_all add: truthy_def)

lemma to_num_simps [simp, js_val_simps]:
  "to_num Undef = NaN" "to_num Null = Fin 0" "to_num (Num x) = x"
  "to_num (Str s) = to_number_str s" "to_num (Obj ps) = NaN"
  "to_num (Bool b) = Fin (if b then 1 else 0)"
  by (simp_all add: to_num_def)

lemma get_simps [simp, js_val_simps]:
  "get Undef k = Undef" "get Null k = Undef" "get (Bool b) k = Undef" "get (Num x) k = Undef"
  "get (Str s) k = Undef"
  "get (Obj ps) k = (case map_of ps k of Some w \<Rightarrow> w | None \<Rightarrow> Undef)"
  by (simp_all add: get_def)

lemma nullish_simps [simp, js_val_simps]:
  "nullish Undef" "nullish Null" "\<not> nullish (Bool b)" "\<not> nullish (Num x)" "\<not> nullish (Str s)"
  "\<not> nullish (Arr vs)" "\<not> nullish (Obj ps)"
  by (simp_all add: nullish_def)

lemma wf_to_number_str [simp]: "wf_num (to_number_str s)"
proof -
  have "wf_num (num_of_unsigned u)" for u by (simp add: num_of_unsigned_def split: option.splits)
  moreover have "wf_num (parse_radix b u)" for b u by (simp add: parse_radix_def)
  ultimately show ?thesis
    by (auto simp: to_number_str_def wf_num_neg split: list.splits)
qed

lemma wf_to_num:
  assumes "\<And>x. v = Num x \<Longrightarrow> wf_num x"
  shows "wf_num (to_num v)"
  using assms by (cases v) (auto simp: to_num_def)

end
