(* ===== verification/Js_Json.thy ===== *)
theory Js_Json
  imports Js_Value
begin

text \<open>
  \<^verbatim>\<open>JSON.parse\<close> and \<^verbatim>\<open>JSON.stringify\<close>. Parsing is a lexer followed by a pushdown machine that
  consumes the token list one token at a time, so neither needs fuel. Their laws are in
  \<open>Json_Laws\<close>.
\<close>

section \<open>Lexer\<close>

datatype tok = LBrace | RBrace | LBrack | RBrack | Comma | Colon
  | TStr string | TNum jsnum | TTrue | TFalse | TNull

definition json_ws :: "char \<Rightarrow> bool" where
  "json_ws c \<longleftrightarrow> c \<in> {CHR '' '', CHR 0x09, CHR 0x0A, CHR 0x0D}"

definition dquote :: char where "dquote = CHR 0x22"
definition backslash :: char where "backslash = CHR 0x5C"

text \<open>\<^verbatim>\<open>\uXXXX\<close>: four hexadecimal digits.\<close>

definition hex4 :: "string \<Rightarrow> nat option" where
  "hex4 s =
     (if length s = 4 \<and> list_all (\<lambda>c. hex_val c < 16) s
      then Some (foldl (\<lambda>a c. a * 16 + hex_val c) 0 s) else None)"

definition simple_escape :: "char \<Rightarrow> char option" where
  "simple_escape c =
     (if c = dquote \<or> c = backslash \<or> c = CHR ''/'' then Some c
      else if c = CHR ''b'' then Some (CHR 0x08)
      else if c = CHR ''f'' then Some (CHR 0x0C)
      else if c = CHR ''n'' then Some (CHR 0x0A)
      else if c = CHR ''r'' then Some (CHR 0x0D)
      else if c = CHR ''t'' then Some (CHR 0x09) else None)"

text \<open>An escape after the backslash: the text it stands for and the rest of the input.\<close>

definition lex_escape :: "string \<Rightarrow> (string \<times> string) option" where
  "lex_escape s =
     (case s of [] \<Rightarrow> None
      | c # r \<Rightarrow>
          if c = CHR ''u'' then
            (case hex4 (take 4 r) of None \<Rightarrow> None
             | Some u \<Rightarrow>
                 let r1 = drop 4 r;
                     lo = (if take 2 r1 = [backslash, CHR ''u''] then hex4 (take 4 (drop 2 r1)) else None)
                 in if 0xD800 \<le> u \<and> u < 0xDC00 \<and> (case lo of Some l \<Rightarrow> 0xDC00 \<le> l \<and> l < 0xE000 | None \<Rightarrow> False)
                    then Some (utf8_char (0x10000 + (u - 0xD800) * 1024 + (the lo - 0xDC00)), drop 6 r1)
                    else Some (utf8_char u, r1))
          else map_option (\<lambda>d. ([d], r)) (simple_escape c))"

lemma lex_escape_shorter: "lex_escape s = Some (t, r) \<Longrightarrow> length r < length s"
  by (auto simp: lex_escape_def Let_def split: list.splits option.splits if_splits)

text \<open>The body of a string up to the closing quote.\<close>

function lex_str :: "string \<Rightarrow> (string \<times> string) option" where
  "lex_str [] = None"
| "lex_str (c # s) =
     (if c = dquote then Some ([], s)
      else if c = backslash then
        (case lex_escape s of None \<Rightarrow> None
         | Some (t, r) \<Rightarrow> map_option (\<lambda>(u, r'). (t @ u, r')) (lex_str r))
      else if (of_char c :: nat) < 32 then None
      else map_option (\<lambda>(u, r'). (c # u, r')) (lex_str s))"
  by pat_completeness auto
termination
  by (relation "measure length") (auto dest: lex_escape_shorter)

lemma lex_str_shorter: "lex_str s = Some (t, r) \<Longrightarrow> length r < length s"
proof (induction s arbitrary: t r rule: lex_str.induct)
  case (2 c s)
  show ?case
  proof (cases "c \<noteq> dquote \<and> c = backslash")
    case True
    then obtain t' r' u where "lex_escape s = Some (t', r')" "lex_str r' = Some (u, r)"
      using "2.prems" by (auto split: option.splits)
    then show ?thesis
      using "2.IH"(1) [of "(t', r')" t' r' u r] True lex_escape_shorter [of s t' r'] by auto
  next
    case False
    then show ?thesis using "2.prems" "2.IH"(2) by (auto split: if_splits)
  qed
qed simp

text \<open>The grammar of JSON numbers.\<close>

definition json_num_char :: "char \<Rightarrow> bool" where
  "json_num_char c \<longleftrightarrow>
     is_digit c \<or> c \<in> {CHR ''-'', CHR ''+'', CHR ''.'', CHR ''e'', CHR ''E''}"

definition json_exp_ok :: "string \<Rightarrow> bool" where
  "json_exp_ok r \<longleftrightarrow> r = [] \<or> parse_exp r \<noteq> None"

definition json_unsigned_ok :: "string \<Rightarrow> bool" where
  "json_unsigned_ok s =
     (let ip = takeWhile is_digit s; r = dropWhile is_digit s
      in ip \<noteq> [] \<and> (hd ip = CHR ''0'' \<longrightarrow> length ip = 1) \<and>
         (if r \<noteq> [] \<and> hd r = CHR ''.''
          then takeWhile is_digit (tl r) \<noteq> [] \<and> json_exp_ok (dropWhile is_digit (tl r))
          else json_exp_ok r))"

definition json_num_ok :: "string \<Rightarrow> bool" where
  "json_num_ok s = json_unsigned_ok (if s \<noteq> [] \<and> hd s = CHR ''-'' then tl s else s)"

definition json_word_char :: "char \<Rightarrow> bool" where
  "json_word_char c \<longleftrightarrow> 97 \<le> (of_char c :: nat) \<and> (of_char c :: nat) \<le> 122"

definition lex_punct :: "char \<Rightarrow> tok option" where
  "lex_punct c =
     (if c = CHR ''{'' then Some LBrace else if c = CHR ''}'' then Some RBrace
      else if c = CHR ''['' then Some LBrack else if c = CHR '']'' then Some RBrack
      else if c = CHR '','' then Some Comma else if c = CHR '':'' then Some Colon else None)"

definition lex_word :: "string \<Rightarrow> tok option" where
  "lex_word w =
     (if w = ''true'' then Some TTrue else if w = ''false'' then Some TFalse
      else if w = ''null'' then Some TNull else None)"

function lex :: "string \<Rightarrow> tok list option" where
  "lex [] = Some []"
| "lex (c # s) =
     (if json_ws c then lex s
      else if lex_punct c \<noteq> None then map_option ((#) (the (lex_punct c))) (lex s)
      else if c = dquote then
        (case lex_str s of None \<Rightarrow> None
         | Some (t, r) \<Rightarrow> map_option ((#) (TStr t)) (lex r))
      else if is_digit c \<or> c = CHR ''-'' then
        (let w = takeWhile json_num_char (c # s); r = dropWhile json_num_char (c # s)
         in if json_num_ok w then map_option ((#) (TNum (to_number_str w))) (lex (drop (length w - 1) s))
            else None)
      else
        (let w = takeWhile json_word_char (c # s)
         in case lex_word w of None \<Rightarrow> None
            | Some t \<Rightarrow> map_option ((#) t) (lex (drop (length w - 1) s))))"
  by pat_completeness auto
termination
  by (relation "measure length") (auto dest: lex_str_shorter simp: le_imp_less_Suc)

section \<open>Parser\<close>

datatype frame = FArr "jsval list" | FKey "(string \<times> jsval) list" | FVal "(string \<times> jsval) list" string

datatype pmode = PVal | PValOrEnd | PAfter | PKeyOrEnd | PKey | PColon | PDone jsval

text \<open>A complete value goes into the innermost open container.\<close>

fun put :: "jsval \<Rightarrow> frame list \<Rightarrow> pmode \<times> frame list" where
  "put v [] = (PDone v, [])"
| "put v (FArr vs # fs) = (PAfter, FArr (vs @ [v]) # fs)"
| "put v (FVal ps k # fs) = (PAfter, FKey (set_prop k v ps) # fs)"
| "put v (FKey ps # fs) = (PAfter, FKey ps # fs)"

fun start_val :: "tok \<Rightarrow> frame list \<Rightarrow> (pmode \<times> frame list) option" where
  "start_val LBrace fs = Some (PKeyOrEnd, FKey [] # fs)"
| "start_val LBrack fs = Some (PValOrEnd, FArr [] # fs)"
| "start_val (TStr s) fs = Some (put (Str s) fs)"
| "start_val (TNum x) fs = Some (put (Num x) fs)"
| "start_val TTrue fs = Some (put (Bool True) fs)"
| "start_val TFalse fs = Some (put (Bool False) fs)"
| "start_val TNull fs = Some (put Null fs)"
| "start_val _ fs = None"

fun pstep :: "pmode \<Rightarrow> frame list \<Rightarrow> tok \<Rightarrow> (pmode \<times> frame list) option" where
  "pstep PVal fs t = start_val t fs"
| "pstep PValOrEnd (FArr vs # fs) RBrack = Some (put (Arr vs) fs)"
| "pstep PValOrEnd fs t = start_val t fs"
| "pstep PAfter (FArr vs # fs) Comma = Some (PVal, FArr vs # fs)"
| "pstep PAfter (FArr vs # fs) RBrack = Some (put (Arr vs) fs)"
| "pstep PAfter (FKey ps # fs) Comma = Some (PKey, FKey ps # fs)"
| "pstep PAfter (FKey ps # fs) RBrace = Some (put (Obj ps) fs)"
| "pstep PKeyOrEnd (FKey ps # fs) RBrace = Some (put (Obj ps) fs)"
| "pstep PKeyOrEnd (FKey ps # fs) (TStr k) = Some (PColon, FVal ps k # fs)"
| "pstep PKey (FKey ps # fs) (TStr k) = Some (PColon, FVal ps k # fs)"
| "pstep PColon fs Colon = Some (PVal, fs)"
| "pstep _ _ _ = None"

fun prun :: "pmode \<Rightarrow> frame list \<Rightarrow> tok list \<Rightarrow> jsval option" where
  "prun (PDone v) fs [] = (if fs = [] then Some v else None)"
| "prun m fs [] = None"
| "prun m fs (t # ts) = (case pstep m fs t of None \<Rightarrow> None | Some (m', fs') \<Rightarrow> prun m' fs' ts)"

definition json_parse :: "string \<Rightarrow> jsval res" where
  "json_parse s =
     (case lex s of None \<Rightarrow> Throw Syntax_Error
      | Some ts \<Rightarrow> (case prun PVal [] ts of None \<Rightarrow> Throw Syntax_Error | Some v \<Rightarrow> Ok v))"

section \<open>Printer\<close>

definition hex_digit :: "nat \<Rightarrow> char" where
  "hex_digit n = (if n < 10 then char_of (48 + n) else char_of (87 + n))"

definition escape_char :: "char \<Rightarrow> string" where
  "escape_char c =
     (if c = dquote \<or> c = backslash then [backslash, c]
      else if c = CHR 0x08 then [backslash, CHR ''b'']
      else if c = CHR 0x0C then [backslash, CHR ''f'']
      else if c = CHR 0x0A then [backslash, CHR ''n'']
      else if c = CHR 0x0D then [backslash, CHR ''r'']
      else if c = CHR 0x09 then [backslash, CHR ''t'']
      else if (of_char c :: nat) < 32
      then [backslash, CHR ''u'', CHR ''0'', CHR ''0'', hex_digit (of_char c div 16), hex_digit (of_char c mod 16)]
      else [c])"

definition quote_str :: "string \<Rightarrow> string" where
  "quote_str s = dquote # concat (map escape_char s) @ [dquote]"

text \<open>\<^verbatim>\<open>JSON.stringify(v)\<close>; at the top \<^verbatim>\<open>undefined\<close> has no text, which the sources never ask for.\<close>

fun json_str :: "jsval \<Rightarrow> string" where
  "json_str Undef = ''null''"
| "json_str Null = ''null''"
| "json_str (Bool b) = (if b then ''true'' else ''false'')"
| "json_str (Num x) = (if is_finite x then num_str x else ''null'')"
| "json_str (Str s) = quote_str s"
| "json_str (Arr vs) = ''['' @ join '','' (map json_str vs) @ '']''"
| "json_str (Obj ps) =
     ''{'' @ join '','' (map (\<lambda>(k, u, t). quote_str k @ '':'' @ t)
        (filter (\<lambda>(k, u, t). \<not> u)
           (prop_entries (map (\<lambda>(k, v). (k, v = Undef, json_str v)) ps)))) @ ''}''"

text \<open>\<^verbatim>\<open>JSON.stringify(v, null, 2)\<close>; \<open>ind\<close> is the indentation of the current line.\<close>

fun json_pretty :: "string \<Rightarrow> jsval \<Rightarrow> string" where
  "json_pretty ind (Arr vs) =
     (if vs = [] then ''[]''
      else ''['' @ [CHR 0x0A] @
           join ('','' @ [CHR 0x0A]) (map (\<lambda>v. ind @ ''  '' @ json_pretty (ind @ ''  '') v) vs) @
           [CHR 0x0A] @ ind @ '']'')"
| "json_pretty ind (Obj ps) =
     (let es = filter (\<lambda>(k, u, t). \<not> u)
                 (prop_entries (map (\<lambda>(k, v). (k, v = Undef, json_pretty (ind @ ''  '') v)) ps))
      in if es = [] then ''{}''
         else ''{'' @ [CHR 0x0A] @
              join ('','' @ [CHR 0x0A]) (map (\<lambda>(k, u, t). ind @ ''  '' @ quote_str k @ '': '' @ t) es) @
              [CHR 0x0A] @ ind @ ''}'')"
| "json_pretty ind v = json_str v"

end
