(* ===== verification/Messages.thy ===== *)
theory Messages
  imports Prelude
begin

text \<open>
  The non-ASCII string literals of the modelled sources, by code point: message keys handed to
  the translation function, labels and separators. Each definition's comment gives the English
  meaning.
\<close>

definition lbl_input_price :: string where \<comment> \<open>input price\<close>
  "lbl_input_price = utf8
     [0x8F93, 0x5165, 0x4EF7, 0x683C]"

definition lbl_output_price :: string where \<comment> \<open>output price\<close>
  "lbl_output_price = utf8
     [0x8F93, 0x51FA, 0x4EF7, 0x683C]"

definition lbl_cache_read_price :: string where \<comment> \<open>cache read price\<close>
  "lbl_cache_read_price = utf8
     [0x7F13, 0x5B58, 0x8BFB, 0x53D6, 0x4EF7, 0x683C]"

definition lbl_cache_write_price :: string where \<comment> \<open>cache write price\<close>
  "lbl_cache_write_price = utf8
     [0x7F13, 0x5B58, 0x5199, 0x5165, 0x4EF7, 0x683C]"

definition msg_not_configured :: string where \<comment> \<open>not configured\<close>
  "msg_not_configured = utf8
     [0x672A, 0x914D, 0x7F6E]"

definition lbl_tiers :: string where \<comment> \<open>tiers\<close>
  "lbl_tiers = utf8
     [0x6863]"

definition lbl_infinity :: string where \<comment> \<open>infinity\<close>
  "lbl_infinity = utf8
     [0x221E]"

definition lbl_tilde :: string where \<comment> \<open>full-width tilde\<close>
  "lbl_tilde = utf8
     [0xFF5E]"

definition msg_progressive_only :: string where \<comment> \<open>only the progressive tier mode is supported\<close>
  "msg_progressive_only = utf8
     [0x4EC5, 0x652F, 0x6301, 0x20, 0x70, 0x72, 0x6F, 0x67, 0x72, 0x65, 0x73, 0x73,
      0x69, 0x76, 0x65, 0x20, 0x9636, 0x68AF, 0x8BA1, 0x8D39, 0x6A21, 0x5F0F]"

definition msg_price_required :: string where \<comment> \<open>price must not be empty\<close>
  "msg_price_required = utf8
     [0x4EF7, 0x683C, 0x4E0D, 0x80FD, 0x4E3A, 0x7A7A]"

definition msg_ratio_negative :: string where \<comment> \<open>ratio must not be negative\<close>
  "msg_ratio_negative = utf8
     [0x500D, 0x7387, 0x4E0D, 0x80FD, 0x5C0F, 0x4E8E, 0x20, 0x30]"

definition msg_not_negative :: string where \<comment> \<open>must not be negative\<close>
  "msg_not_negative = utf8
     [0x4E0D, 0x80FD, 0x5C0F, 0x4E8E, 0x20, 0x30]"

definition msg_zero_last_only :: string where \<comment> \<open>only the last tier may have up_to 0\<close>
  "msg_zero_last_only = utf8
     [0x53EA, 0x6709, 0x6700, 0x540E, 0x4E00, 0x6863, 0x20, 0x75, 0x70, 0x5F, 0x74,
      0x6F, 0x20, 0x53EF, 0x4EE5, 0x4E3A, 0x20, 0x30]"

definition msg_increasing :: string where \<comment> \<open>must be increasing\<close>
  "msg_increasing = utf8
     [0x5FC5, 0x987B, 0x9012, 0x589E]"

definition lbl_comma_wide :: string where \<comment> \<open>full-width comma\<close>
  "lbl_comma_wide = utf8
     [0xFF0C]"

definition lbl_arrow :: string where \<comment> \<open>arrow\<close>
  "lbl_arrow = utf8
     [0x2192]"

definition lbl_model_price :: string where \<comment> \<open>model price\<close>
  "lbl_model_price = utf8
     [0x6A21, 0x578B, 0x4EF7, 0x683C]"

definition lbl_cache_create_price :: string where \<comment> \<open>cache creation price\<close>
  "lbl_cache_create_price = utf8
     [0x7F13, 0x5B58, 0x521B, 0x5EFA, 0x4EF7, 0x683C]"

definition lbl_image_input_price :: string where \<comment> \<open>image input price\<close>
  "lbl_image_input_price = utf8
     [0x56FE, 0x7247, 0x8F93, 0x5165, 0x4EF7, 0x683C]"

definition lbl_image_price :: string where \<comment> \<open>image price\<close>
  "lbl_image_price = utf8
     [0x56FE, 0x7247, 0x4EF7, 0x683C]"

definition lbl_audio_input_price :: string where \<comment> \<open>audio input price\<close>
  "lbl_audio_input_price = utf8
     [0x97F3, 0x9891, 0x8F93, 0x5165, 0x4EF7, 0x683C]"

definition lbl_audio_output_price :: string where \<comment> \<open>audio output price\<close>
  "lbl_audio_output_price = utf8
     [0x97F3, 0x9891, 0x8F93, 0x51FA, 0x4EF7, 0x683C]"

definition lbl_video_input_price :: string where \<comment> \<open>video input price\<close>
  "lbl_video_input_price = utf8
     [0x89C6, 0x9891, 0x8F93, 0x5165, 0x4EF7, 0x683C]"

definition lbl_video_output_price :: string where \<comment> \<open>video output price\<close>
  "lbl_video_output_price = utf8
     [0x89C6, 0x9891, 0x8F93, 0x51FA, 0x4EF7, 0x683C]"

definition lbl_video_price :: string where \<comment> \<open>video price\<close>
  "lbl_video_price = utf8
     [0x89C6, 0x9891, 0x4EF7, 0x683C]"

definition unit_times :: string where \<comment> \<open>per call\<close>
  "unit_times = utf8
     [0x6B21]"

definition unit_sheets :: string where \<comment> \<open>per image\<close>
  "unit_sheets = utf8
     [0x5F20]"

definition sym_yen :: string where \<comment> \<open>yen sign\<close>
  "sym_yen = utf8
     [0xA5]"

definition sym_currency :: string where \<comment> \<open>currency sign\<close>
  "sym_currency = utf8
     [0xA4]"

definition msg_multi_pricing :: string where \<comment> \<open>several kinds of price are set; per-request goes before tiered before per-token\<close>
  "msg_multi_pricing = utf8
     [0x5F53, 0x524D, 0x6A21, 0x578B, 0x540C, 0x65F6, 0x914D, 0x7F6E, 0x4E86, 0x591A,
      0x79CD, 0x8BA1, 0x8D39, 0x4EF7, 0x683C, 0xFF0C, 0x5C06, 0x6309, 0x201C, 0x6309,
      0x6B21, 0x8BA1, 0x8D39, 0x20, 0x3E, 0x20, 0x9636, 0x68AF, 0x8BA1, 0x8D39, 0x20,
      0x3E, 0x20, 0x6309, 0x91CF, 0x8BA1, 0x8D39, 0x201D, 0x7684, 0x4F18, 0x5148,
      0x7EA7, 0x751F, 0x6548, 0xFF1B, 0x6309, 0x6B21, 0x8BA1, 0x8D39, 0x751F, 0x6548,
      0x65F6, 0xFF0C, 0x9636, 0x68AF, 0x8BA1, 0x8D39, 0x548C, 0x6309, 0x91CF, 0x8BA1,
      0x8D39, 0x5747, 0x4E0D, 0x4F1A, 0x751F, 0x6548, 0x3002]"

definition msg_tier_text_only :: string where \<comment> \<open>tiers apply to text tokens only\<close>
  "msg_tier_text_only = utf8
     [0x9636, 0x68AF, 0x8BA1, 0x8D39, 0x4EC5, 0x9488, 0x5BF9, 0x6587, 0x672C, 0x20,
      0x74, 0x6F, 0x6B, 0x65, 0x6E, 0x20, 0x751F, 0x6548, 0xFF1B, 0x5982, 0x679C,
      0x540C, 0x65F6, 0x914D, 0x7F6E, 0x4E86, 0x6309, 0x91CF, 0x8BA1, 0x8D39, 0x7684,
      0x56FE, 0x7247, 0x3001, 0x97F3, 0x9891, 0x3001, 0x89C6, 0x9891, 0x7B49, 0x6269,
      0x5C55, 0x4EF7, 0x683C, 0xFF0C, 0x8FD9, 0x4E9B, 0x6269, 0x5C55, 0x4EF7, 0x683C,
      0x4ECD, 0x4F1A, 0x6309, 0x91CF, 0x751F, 0x6548, 0x3002]"

definition msg_tier_kept :: string where \<comment> \<open>fixed price: tiers are kept but have no effect\<close>
  "msg_tier_kept = utf8
     [0x5F53, 0x524D, 0x6A21, 0x578B, 0x4E3A, 0x56FA, 0x5B9A, 0x4EF7, 0x683C, 0x8BA1,
      0x8D39, 0xFF0C, 0x9636, 0x68AF, 0x8BA1, 0x8D39, 0x89C4, 0x5219, 0x4F1A, 0x88AB,
      0x4FDD, 0x7559, 0x4F46, 0x4E0D, 0x4F1A, 0x751F, 0x6548, 0x3002]"

definition msg_ratio_no_input :: string where \<comment> \<open>extension ratios without an input ratio\<close>
  "msg_ratio_no_input = utf8
     [0x5F53, 0x524D, 0x6A21, 0x578B, 0x5B58, 0x5728, 0x672A, 0x663E, 0x5F0F, 0x8BBE,
      0x7F6E, 0x8F93, 0x5165, 0x500D, 0x7387, 0x7684, 0x6269, 0x5C55, 0x500D, 0x7387,
      0xFF1B, 0x586B, 0x5199, 0x8F93, 0x5165, 0x4EF7, 0x683C, 0x540E, 0x4F1A, 0x81EA,
      0x52A8, 0x6362, 0x7B97, 0x4E3A, 0x4EF7, 0x683C, 0x5B57, 0x6BB5, 0x3002]"

definition msg_input_first :: string where \<comment> \<open>the input price comes first\<close>
  "msg_input_first = utf8
     [0x6309, 0x91CF, 0x8BA1, 0x8D39, 0x4E0B, 0x9700, 0x8981, 0x5148, 0x586B, 0x5199,
      0x8F93, 0x5165, 0x4EF7, 0x683C, 0xFF0C, 0x624D, 0x80FD, 0x4FDD, 0x5B58, 0x5176,
      0x5B83, 0x4EF7, 0x683C, 0x9879, 0x3002]"

definition msg_audio_input_first :: string where \<comment> \<open>the audio input price comes first\<close>
  "msg_audio_input_first = utf8
     [0x586B, 0x5199, 0x97F3, 0x9891, 0x8F93, 0x51FA, 0x4EF7, 0x683C, 0x524D, 0xFF0C,
      0x9700, 0x8981, 0x5148, 0x586B, 0x5199, 0x97F3, 0x9891, 0x8F93, 0x5165, 0x4EF7,
      0x683C, 0x3002]"

definition msg_bad_resolution :: string where \<comment> \<open>a video row has an invalid resolution\<close>
  "msg_bad_resolution = utf8
     [0x89C6, 0x9891, 0x5206, 0x8FA8, 0x7387, 0x884C, 0x4E2D, 0x5B58, 0x5728, 0x975E,
      0x6CD5, 0x683C, 0x5F0F, 0xFF0C, 0x8BF7, 0x4F7F, 0x7528, 0x5982, 0x20, 0x31, 0x32,
      0x38, 0x30, 0x78, 0x37, 0x32, 0x30, 0x3001, 0x34, 0x38, 0x30, 0x70, 0x20, 0x6216,
      0x20, 0x32, 0x4B, 0x20, 0x7684, 0x5206, 0x8FA8, 0x7387, 0x683C, 0x5F0F, 0x3002]"

definition msg_dup_resolution :: string where \<comment> \<open>duplicate resolution in a group\<close>
  "msg_dup_resolution = utf8
     [0x540C, 0x4E00, 0x89C4, 0x5219, 0x7EC4, 0x5185, 0x5206, 0x8FA8, 0x7387, 0x4E0D,
      0x80FD, 0x91CD, 0x590D, 0xFF0C, 0x8BF7, 0x5220, 0x9664, 0x91CD, 0x590D, 0x9879,
      0x3002]"

definition msg_bad_per_video :: string where \<comment> \<open>an invalid per-video row\<close>
  "msg_bad_per_video = utf8
     [0x6309, 0x89C6, 0x9891, 0x8BA1, 0x8D39, 0x7684, 0x5206, 0x8FA8, 0x7387, 0x884C,
      0x8BF7, 0x4F7F, 0x7528, 0x5982, 0x20, 0x31, 0x32, 0x38, 0x30, 0x78, 0x37, 0x32,
      0x30, 0x3001, 0x34, 0x38, 0x30, 0x70, 0x20, 0x6216, 0x20, 0x32, 0x4B, 0x20,
      0x7684, 0x683C, 0x5F0F, 0xFF0C, 0x5E76, 0x586B, 0x5199, 0x5927, 0x4E8E, 0x20,
      0x30, 0x20, 0x7684, 0x6BCF, 0x6761, 0x6210, 0x7247, 0x4EF7, 0x683C, 0xFF08,
      0x4E0E, 0x7AD9, 0x70B9, 0x989D, 0x5EA6, 0x5C55, 0x793A, 0x5E01, 0x79CD, 0x4E00,
      0x81F4, 0xFF09, 0x3002]"

definition msg_bad_per_image :: string where \<comment> \<open>an invalid per-image row\<close>
  "msg_bad_per_image = utf8
     [0x6309, 0x56FE, 0x7247, 0x8BA1, 0x8D39, 0x7684, 0x5206, 0x8FA8, 0x7387, 0x884C,
      0x8BF7, 0x4F7F, 0x7528, 0x5982, 0x20, 0x31, 0x32, 0x38, 0x30, 0x78, 0x37, 0x32,
      0x30, 0x3001, 0x34, 0x38, 0x30, 0x70, 0x20, 0x6216, 0x20, 0x32, 0x4B, 0x20,
      0x7684, 0x683C, 0x5F0F, 0xFF0C, 0x5E76, 0x586B, 0x5199, 0x5927, 0x4E8E, 0x20,
      0x30, 0x20, 0x7684, 0x6BCF, 0x5F20, 0x4EF7, 0x683C, 0xFF08, 0x4E0E, 0x7AD9,
      0x70B9, 0x989D, 0x5EA6, 0x5C55, 0x793A, 0x5E01, 0x79CD, 0x4E00, 0x81F4, 0xFF09,
      0x3002]"

definition lbl_per_request_short :: string where \<comment> \<open>per request\<close>
  "lbl_per_request_short = utf8
     [0x6309, 0x6B21]"

definition lbl_input :: string where \<comment> \<open>input\<close>
  "lbl_input = utf8
     [0x8F93, 0x5165]"

definition lbl_output :: string where \<comment> \<open>output\<close>
  "lbl_output = utf8
     [0x8F93, 0x51FA]"

definition lbl_cache_read :: string where \<comment> \<open>cache read\<close>
  "lbl_cache_read = utf8
     [0x7F13, 0x5B58, 0x8BFB, 0x53D6]"

definition lbl_cache_write :: string where \<comment> \<open>cache write\<close>
  "lbl_cache_write = utf8
     [0x7F13, 0x5B58, 0x5199, 0x5165]"

definition lbl_tiered :: string where \<comment> \<open>tiered billing\<close>
  "lbl_tiered = utf8
     [0x9636, 0x68AF, 0x8BA1, 0x8D39]"

definition lbl_bar_wide :: string where \<comment> \<open>full-width bar\<close>
  "lbl_bar_wide = utf8
     [0xFF5C]"

definition lbl_colon_wide :: string where \<comment> \<open>full-width colon\<close>
  "lbl_colon_wide = utf8
     [0xFF1A]"

definition msg_price_unset :: string where \<comment> \<open>no price set\<close>
  "msg_price_unset = utf8
     [0x672A, 0x8BBE, 0x7F6E, 0x4EF7, 0x683C]"

definition msg_missing_input :: string where \<comment> \<open>the model has no input price\<close>
  "msg_missing_input = utf8
     [0x6A21, 0x578B, 0x20, 0x7B, 0x7B, 0x6E, 0x61, 0x6D, 0x65, 0x7D, 0x7D, 0x20,
      0x7F3A, 0x5C11, 0x8F93, 0x5165, 0x4EF7, 0x683C, 0xFF0C, 0x65E0, 0x6CD5, 0x8BA1,
      0x7B97, 0x8F93, 0x51FA, 0x2F, 0x7F13, 0x5B58, 0x2F, 0x56FE, 0x7247, 0x2F, 0x97F3,
      0x9891, 0x4EF7, 0x683C, 0x5BF9, 0x5E94, 0x7684, 0x500D, 0x7387]"

definition msg_missing_audio_input :: string where \<comment> \<open>the model has no audio input price\<close>
  "msg_missing_audio_input = utf8
     [0x6A21, 0x578B, 0x20, 0x7B, 0x7B, 0x6E, 0x61, 0x6D, 0x65, 0x7D, 0x7D, 0x20,
      0x7F3A, 0x5C11, 0x97F3, 0x9891, 0x8F93, 0x5165, 0x4EF7, 0x683C, 0xFF0C, 0x65E0,
      0x6CD5, 0x8BA1, 0x7B97, 0x97F3, 0x9891, 0x8F93, 0x51FA, 0x500D, 0x7387]"

definition lbl_empty :: string where \<comment> \<open>empty\<close>
  "lbl_empty = utf8
     [0x7A7A]"

definition lbl_backend_fixed :: string where \<comment> \<open>fixed by the backend\<close>
  "lbl_backend_fixed = utf8
     [0x540E, 0x7AEF, 0x56FA, 0x5B9A]"

definition lbl_configured :: string where \<comment> \<open>configured\<close>
  "lbl_configured = utf8
     [0x5DF2, 0x914D, 0x7F6E]"

definition msg_see_video_rules :: string where \<comment> \<open>by resolution, see VideoPricingRules\<close>
  "msg_see_video_rules = utf8
     [0x6309, 0x5206, 0x8FA8, 0x7387, 0x89C1, 0x20, 0x56, 0x69, 0x64, 0x65, 0x6F, 0x50,
      0x72, 0x69, 0x63, 0x69, 0x6E, 0x67, 0x52, 0x75, 0x6C, 0x65, 0x73]"

definition msg_see_image_rules :: string where \<comment> \<open>by resolution, see ImagePricingRules\<close>
  "msg_see_image_rules = utf8
     [0x6309, 0x5206, 0x8FA8, 0x7387, 0x89C1, 0x20, 0x49, 0x6D, 0x61, 0x67, 0x65, 0x50,
      0x72, 0x69, 0x63, 0x69, 0x6E, 0x67, 0x52, 0x75, 0x6C, 0x65, 0x73]"

definition lbl_per_request :: string where \<comment> \<open>per-request billing\<close>
  "lbl_per_request = utf8
     [0x6309, 0x6B21, 0x8BA1, 0x8D39]"

definition lbl_per_token :: string where \<comment> \<open>per-token billing\<close>
  "lbl_per_token = utf8
     [0x6309, 0x91CF, 0x8BA1, 0x8D39]"

definition msg_text_only :: string where \<comment> \<open>for text tokens only\<close>
  "msg_text_only = utf8
     [0x4EC5, 0x9488, 0x5BF9, 0x6587, 0x672C, 0x20, 0x74, 0x6F, 0x6B, 0x65, 0x6E, 0x20,
      0x751F, 0x6548]"

definition msg_extension_prices :: string where \<comment> \<open>extension prices are billed by amount\<close>
  "msg_extension_prices = utf8
     [0x56FE, 0x7247, 0x3001, 0x97F3, 0x9891, 0x3001, 0x89C6, 0x9891, 0x7B49, 0x6269,
      0x5C55, 0x4EF7, 0x683C, 0x4F1A, 0x6309, 0x91CF, 0x751F, 0x6548]"

definition msg_enter_name :: string where \<comment> \<open>enter a model name\<close>
  "msg_enter_name = utf8
     [0x8BF7, 0x8F93, 0x5165, 0x6A21, 0x578B, 0x540D, 0x79F0]"

definition msg_name_exists :: string where \<comment> \<open>the model name exists\<close>
  "msg_name_exists = utf8
     [0x6A21, 0x578B, 0x540D, 0x79F0, 0x5DF2, 0x5B58, 0x5728]"

definition msg_select_template :: string where \<comment> \<open>select a template model first\<close>
  "msg_select_template = utf8
     [0x8BF7, 0x5148, 0x9009, 0x62E9, 0x4E00, 0x4E2A, 0x4F5C, 0x4E3A, 0x6A21, 0x677F,
      0x7684, 0x6A21, 0x578B]"

definition msg_check_targets :: string where \<comment> \<open>check the models to set first\<close>
  "msg_check_targets = utf8
     [0x8BF7, 0x5148, 0x52FE, 0x9009, 0x9700, 0x8981, 0x6279, 0x91CF, 0x8BBE, 0x7F6E,
      0x7684, 0x6A21, 0x578B]"

definition msg_applied :: string where \<comment> \<open>prices applied to the checked models\<close>
  "msg_applied = utf8
     [0x5DF2, 0x5C06, 0x6A21, 0x578B, 0x20, 0x7B, 0x7B, 0x6E, 0x61, 0x6D, 0x65, 0x7D,
      0x7D, 0x20, 0x7684, 0x4EF7, 0x683C, 0x914D, 0x7F6E, 0x6279, 0x91CF, 0x5E94,
      0x7528, 0x5230, 0x20, 0x7B, 0x7B, 0x63, 0x6F, 0x75, 0x6E, 0x74, 0x7D, 0x7D, 0x20,
      0x4E2A, 0x6A21, 0x578B]"

definition msg_save_failed :: string where \<comment> \<open>saving failed, try again\<close>
  "msg_save_failed = utf8
     [0x4FDD, 0x5B58, 0x5931, 0x8D25, 0xFF0C, 0x8BF7, 0x91CD, 0x8BD5]"

definition msg_saved :: string where \<comment> \<open>saved\<close>
  "msg_saved = utf8
     [0x4FDD, 0x5B58, 0x6210, 0x529F]"

definition msg_bad_json :: string where \<comment> \<open>not a valid JSON string\<close>
  "msg_bad_json = utf8
     [0x4E0D, 0x662F, 0x5408, 0x6CD5, 0x7684, 0x20, 0x4A, 0x53, 0x4F, 0x4E, 0x20,
      0x5B57, 0x7B26, 0x4E32]"

definition msg_no_model :: string where \<comment> \<open>no model selected\<close>
  "msg_no_model = utf8
     [0x672A, 0x9009, 0x62E9, 0x6A21, 0x578B]"

definition cmt_billing_mode :: string where \<comment> \<open>comment on billing_mode\<close>
  "cmt_billing_mode = utf8
     [0x2F, 0x2F, 0x20, 0x62, 0x69, 0x6C, 0x6C, 0x69, 0x6E, 0x67, 0x5F, 0x6D, 0x6F,
      0x64, 0x65, 0x3A, 0x20, 0x70, 0x65, 0x72, 0x2D, 0x69, 0x74, 0x65, 0x6D, 0xFF08,
      0x6309, 0x6761, 0xFF09, 0x7C, 0x20, 0x70, 0x65, 0x72, 0x2D, 0x73, 0x65, 0x63,
      0x6F, 0x6E, 0x64, 0xFF08, 0x6309, 0x79D2, 0xFF09]"

definition cmt_fixed_price :: string where \<comment> \<open>comment on fixed_price\<close>
  "cmt_fixed_price = utf8
     [0x2F, 0x2F, 0x20, 0x65E0, 0x5206, 0x8FA8, 0x7387, 0x8868, 0x65F6, 0x7684, 0x515C,
      0x5E95, 0x5355, 0x4EF7, 0xFF1B, 0x4E0D, 0x9700, 0x8981, 0x53EF, 0x7559, 0x7A7A,
      0x20, 0x22, 0x22]"

definition cmt_similarity :: string where \<comment> \<open>comment on similarity_threshold\<close>
  "cmt_similarity = utf8
     [0x2F, 0x2F, 0x20, 0x76F8, 0x4F3C, 0x5206, 0x8FA8, 0x7387, 0x9608, 0x503C, 0xFF0C,
      0x4EC5, 0x20, 0x70, 0x65, 0x72, 0x2D, 0x73, 0x65, 0x63, 0x6F, 0x6E, 0x64, 0x20,
      0x6709, 0x6548, 0xFF0C, 0x5982, 0x20, 0x22, 0x30, 0x2E, 0x33, 0x35, 0x22]"

definition cmt_sections :: string where \<comment> \<open>comment on the sections\<close>
  "cmt_sections = utf8
     [0x2F, 0x2F, 0x20, 0x4E09, 0x5927, 0x7C7B, 0xFF1A, 0x6587, 0x751F, 0x20, 0x2F,
      0x20, 0x56FE, 0x751F, 0x20, 0x2F, 0x20, 0x89C6, 0x9891, 0x751F, 0x89C6, 0x9891,
      0xFF1B, 0x5404, 0x5206, 0x8FA8, 0x7387, 0x20, 0x5B, 0x5D, 0x20, 0x672A, 0x542F,
      0x7528, 0xFF0C, 0x5B, 0x4EF7, 0x5D, 0x20, 0x7EDF, 0x4E00, 0xFF0C, 0x5B, 0x65E0,
      0x97F3, 0x8F68, 0x2C, 0x20, 0x6709, 0x97F3, 0x8F68, 0x5D, 0x20, 0x5206, 0x5F00]"

definition lbl_text_to_video :: string where \<comment> \<open>text to video\<close>
  "lbl_text_to_video = utf8
     [0x6587, 0x751F, 0x89C6, 0x9891]"

definition lbl_image_to_video :: string where \<comment> \<open>image to video\<close>
  "lbl_image_to_video = utf8
     [0x56FE, 0x751F, 0x89C6, 0x9891]"

definition lbl_video_to_video :: string where \<comment> \<open>video to video\<close>
  "lbl_video_to_video = utf8
     [0x89C6, 0x9891, 0x751F, 0x89C6, 0x9891]"

definition msg_po_no_path :: string where \<comment> \<open>operation has no target path\<close>
  "msg_po_no_path = utf8
     [0x7B2C, 0x20, 0x7B, 0x7B, 0x6C, 0x69, 0x6E, 0x65, 0x7D, 0x7D, 0x20, 0x6761,
      0x64CD, 0x4F5C, 0x7F3A, 0x5C11, 0x76EE, 0x6807, 0x8DEF, 0x5F84]"

definition msg_po_no_from :: string where \<comment> \<open>operation has no source field\<close>
  "msg_po_no_from = utf8
     [0x7B2C, 0x20, 0x7B, 0x7B, 0x6C, 0x69, 0x6E, 0x65, 0x7D, 0x7D, 0x20, 0x6761,
      0x64CD, 0x4F5C, 0x7F3A, 0x5C11, 0x6765, 0x6E90, 0x5B57, 0x6BB5]"

definition msg_po_no_to :: string where \<comment> \<open>operation has no target field\<close>
  "msg_po_no_to = utf8
     [0x7B2C, 0x20, 0x7B, 0x7B, 0x6C, 0x69, 0x6E, 0x65, 0x7D, 0x7D, 0x20, 0x6761,
      0x64CD, 0x4F5C, 0x7F3A, 0x5C11, 0x76EE, 0x6807, 0x5B57, 0x6BB5]"

definition msg_po_no_value :: string where \<comment> \<open>operation has no value\<close>
  "msg_po_no_value = utf8
     [0x7B2C, 0x20, 0x7B, 0x7B, 0x6C, 0x69, 0x6E, 0x65, 0x7D, 0x7D, 0x20, 0x6761,
      0x64CD, 0x4F5C, 0x7F3A, 0x5C11, 0x503C]"

definition msg_po_error_message :: string where \<comment> \<open>return_error needs a message field\<close>
  "msg_po_error_message = utf8
     [0x7B2C, 0x20, 0x7B, 0x7B, 0x6C, 0x69, 0x6E, 0x65, 0x7D, 0x7D, 0x20, 0x6761, 0x20,
      0x72, 0x65, 0x74, 0x75, 0x72, 0x6E, 0x5F, 0x65, 0x72, 0x72, 0x6F, 0x72, 0x20,
      0x9700, 0x8981, 0x20, 0x6D, 0x65, 0x73, 0x73, 0x61, 0x67, 0x65, 0x20, 0x5B57,
      0x6BB5]"

definition msg_po_prune_missing :: string where \<comment> \<open>prune_objects has no condition\<close>
  "msg_po_prune_missing = utf8
     [0x7B2C, 0x20, 0x7B, 0x7B, 0x6C, 0x69, 0x6E, 0x65, 0x7D, 0x7D, 0x20, 0x6761, 0x20,
      0x70, 0x72, 0x75, 0x6E, 0x65, 0x5F, 0x6F, 0x62, 0x6A, 0x65, 0x63, 0x74, 0x73,
      0x20, 0x7F3A, 0x5C11, 0x6761, 0x4EF6]"

definition msg_po_prune_condition :: string where \<comment> \<open>prune_objects needs at least one condition\<close>
  "msg_po_prune_condition = utf8
     [0x7B2C, 0x20, 0x7B, 0x7B, 0x6C, 0x69, 0x6E, 0x65, 0x7D, 0x7D, 0x20, 0x6761, 0x20,
      0x70, 0x72, 0x75, 0x6E, 0x65, 0x5F, 0x6F, 0x62, 0x6A, 0x65, 0x63, 0x74, 0x73,
      0x20, 0x9700, 0x8981, 0x81F3, 0x5C11, 0x4E00, 0x4E2A, 0x5339, 0x914D, 0x6761,
      0x4EF6]"

definition msg_po_headers_missing :: string where \<comment> \<open>pass_headers has no header name\<close>
  "msg_po_headers_missing = utf8
     [0x7B2C, 0x20, 0x7B, 0x7B, 0x6C, 0x69, 0x6E, 0x65, 0x7D, 0x7D, 0x20, 0x6761,
      0x8BF7, 0x6C42, 0x5934, 0x900F, 0x4F20, 0x7F3A, 0x5C11, 0x8BF7, 0x6C42, 0x5934,
      0x540D, 0x79F0]"

definition msg_po_headers_invalid :: string where \<comment> \<open>pass_headers has an invalid format\<close>
  "msg_po_headers_invalid = utf8
     [0x7B2C, 0x20, 0x7B, 0x7B, 0x6C, 0x69, 0x6E, 0x65, 0x7D, 0x7D, 0x20, 0x6761,
      0x8BF7, 0x6C42, 0x5934, 0x900F, 0x4F20, 0x683C, 0x5F0F, 0x65E0, 0x6548]"

definition msg_po_json_invalid :: string where \<comment> \<open>invalid JSON\<close>
  "msg_po_json_invalid = utf8
     [0x4A, 0x53, 0x4F, 0x4E, 0x20, 0x683C, 0x5F0F, 0x4E0D, 0x6B63, 0x786E]"

definition msg_po_json_required :: string where \<comment> \<open>the override must be valid JSON\<close>
  "msg_po_json_required = utf8
     [0x53C2, 0x6570, 0x8986, 0x76D6, 0x5FC5, 0x987B, 0x662F, 0x5408, 0x6CD5, 0x7684,
      0x20, 0x4A, 0x53, 0x4F, 0x4E, 0x20, 0x683C, 0x5F0F, 0xFF01]"

definition msg_po_legacy_object :: string where \<comment> \<open>the old format must be a JSON object\<close>
  "msg_po_legacy_object = utf8
     [0x65E7, 0x683C, 0x5F0F, 0x5FC5, 0x987B, 0x662F, 0x20, 0x4A, 0x53, 0x4F, 0x4E,
      0x20, 0x5BF9, 0x8C61]"

definition msg_po_bad_config :: string where \<comment> \<open>the configuration is wrong\<close>
  "msg_po_bad_config = utf8
     [0x53C2, 0x6570, 0x914D, 0x7F6E, 0x6709, 0x8BEF]"

definition msg_po_json_object :: string where \<comment> \<open>the override must be a JSON object\<close>
  "msg_po_json_object = utf8
     [0x53C2, 0x6570, 0x8986, 0x76D6, 0x5FC5, 0x987B, 0x662F, 0x5408, 0x6CD5, 0x7684,
      0x20, 0x4A, 0x53, 0x4F, 0x4E, 0x20, 0x5BF9, 0x8C61]"

definition msg_po_append_bad_json :: string where \<comment> \<open>the old format is invalid JSON, cannot append\<close>
  "msg_po_append_bad_json = utf8
     [0x5F53, 0x524D, 0x65E7, 0x683C, 0x5F0F, 0x20, 0x4A, 0x53, 0x4F, 0x4E, 0x20,
      0x4E0D, 0x5408, 0x6CD5, 0xFF0C, 0x65E0, 0x6CD5, 0x8FFD, 0x52A0, 0x6A21, 0x677F]"

definition msg_po_append_not_object :: string where \<comment> \<open>the old format is no object, cannot append\<close>
  "msg_po_append_not_object = utf8
     [0x5F53, 0x524D, 0x65E7, 0x683C, 0x5F0F, 0x4E0D, 0x662F, 0x20, 0x4A, 0x53, 0x4F,
      0x4E, 0x20, 0x5BF9, 0x8C61, 0xFF0C, 0x65E0, 0x6CD5, 0x8FFD, 0x52A0, 0x6A21,
      0x677F]"

definition msg_po_select_first :: string where \<comment> \<open>select a rule first\<close>
  "msg_po_select_first = utf8
     [0x8BF7, 0x5148, 0x9009, 0x62E9, 0x4E00, 0x6761, 0x89C4, 0x5219]"

definition msg_po_unsupported_target :: string where \<comment> \<open>the rule has no such position\<close>
  "msg_po_unsupported_target = utf8
     [0x5F53, 0x524D, 0x89C4, 0x5219, 0x4E0D, 0x652F, 0x6301, 0x5199, 0x5165, 0x5230,
      0x8BE5, 0x4F4D, 0x7F6E]"

definition msg_po_copied :: string where \<comment> \<open>copied field\<close>
  "msg_po_copied = utf8
     [0x5DF2, 0x590D, 0x5236, 0x5B57, 0x6BB5, 0xFF1A, 0x7B, 0x7B, 0x6E, 0x61, 0x6D,
      0x65, 0x7D, 0x7D]"

definition msg_po_copy_failed :: string where \<comment> \<open>copy failed\<close>
  "msg_po_copy_failed = utf8
     [0x590D, 0x5236, 0x5931, 0x8D25]"

definition msg_po_not_json :: string where \<comment> \<open>the value is no JSON, cannot format\<close>
  "msg_po_not_json = utf8
     [0x5F53, 0x524D, 0x503C, 0x4E0D, 0x662F, 0x5408, 0x6CD5, 0x20, 0x4A, 0x53, 0x4F,
      0x4E, 0xFF0C, 0x65E0, 0x6CD5, 0x683C, 0x5F0F, 0x5316]"

definition msg_po_formatted :: string where \<comment> \<open>JSON formatted\<close>
  "msg_po_formatted = utf8
     [0x4A, 0x53, 0x4F, 0x4E, 0x20, 0x5DF2, 0x683C, 0x5F0F, 0x5316]"

definition msg_po_json_error :: string where \<comment> \<open>JSON format error\<close>
  "msg_po_json_error = utf8
     [0x4A, 0x53, 0x4F, 0x4E, 0x683C, 0x5F0F, 0x9519, 0x8BEF]"

definition lbl_middot :: string where \<comment> \<open>middle dot\<close>
  "lbl_middot = utf8
     [0x20, 0xB7, 0x20]"

definition lbl_mode_set :: string where \<comment> \<open>mode set\<close>
  "lbl_mode_set = utf8
     [0x8BBE, 0x7F6E, 0x5B57, 0x6BB5]"

definition lbl_mode_delete :: string where \<comment> \<open>mode delete\<close>
  "lbl_mode_delete = utf8
     [0x5220, 0x9664, 0x5B57, 0x6BB5]"

definition lbl_mode_append :: string where \<comment> \<open>mode append\<close>
  "lbl_mode_append = utf8
     [0x8FFD, 0x52A0, 0x5230, 0x672B, 0x5C3E]"

definition lbl_mode_prepend :: string where \<comment> \<open>mode prepend\<close>
  "lbl_mode_prepend = utf8
     [0x8FFD, 0x52A0, 0x5230, 0x5F00, 0x5934]"

definition lbl_mode_copy :: string where \<comment> \<open>mode copy\<close>
  "lbl_mode_copy = utf8
     [0x590D, 0x5236, 0x5B57, 0x6BB5]"

definition lbl_mode_move :: string where \<comment> \<open>mode move\<close>
  "lbl_mode_move = utf8
     [0x79FB, 0x52A8, 0x5B57, 0x6BB5]"

definition lbl_mode_replace :: string where \<comment> \<open>mode replace\<close>
  "lbl_mode_replace = utf8
     [0x5B57, 0x7B26, 0x4E32, 0x66FF, 0x6362]"

definition lbl_mode_regex_replace :: string where \<comment> \<open>mode regex_replace\<close>
  "lbl_mode_regex_replace = utf8
     [0x6B63, 0x5219, 0x66FF, 0x6362]"

definition lbl_mode_trim_prefix :: string where \<comment> \<open>mode trim_prefix\<close>
  "lbl_mode_trim_prefix = utf8
     [0x88C1, 0x526A, 0x524D, 0x7F00]"

definition lbl_mode_trim_suffix :: string where \<comment> \<open>mode trim_suffix\<close>
  "lbl_mode_trim_suffix = utf8
     [0x88C1, 0x526A, 0x540E, 0x7F00]"

definition lbl_mode_ensure_prefix :: string where \<comment> \<open>mode ensure_prefix\<close>
  "lbl_mode_ensure_prefix = utf8
     [0x786E, 0x4FDD, 0x524D, 0x7F00]"

definition lbl_mode_ensure_suffix :: string where \<comment> \<open>mode ensure_suffix\<close>
  "lbl_mode_ensure_suffix = utf8
     [0x786E, 0x4FDD, 0x540E, 0x7F00]"

definition lbl_mode_trim_space :: string where \<comment> \<open>mode trim_space\<close>
  "lbl_mode_trim_space = utf8
     [0x53BB, 0x6389, 0x7A7A, 0x767D]"

definition lbl_mode_to_lower :: string where \<comment> \<open>mode to_lower\<close>
  "lbl_mode_to_lower = utf8
     [0x8F6C, 0x5C0F, 0x5199]"

definition lbl_mode_to_upper :: string where \<comment> \<open>mode to_upper\<close>
  "lbl_mode_to_upper = utf8
     [0x8F6C, 0x5927, 0x5199]"

definition lbl_mode_return_error :: string where \<comment> \<open>mode return_error\<close>
  "lbl_mode_return_error = utf8
     [0x8FD4, 0x56DE, 0x81EA, 0x5B9A, 0x4E49, 0x9519, 0x8BEF]"

definition lbl_mode_prune_objects :: string where \<comment> \<open>mode prune_objects\<close>
  "lbl_mode_prune_objects = utf8
     [0x6E05, 0x7406, 0x5BF9, 0x8C61, 0x9879]"

definition lbl_mode_pass_headers :: string where \<comment> \<open>mode pass_headers\<close>
  "lbl_mode_pass_headers = utf8
     [0x8BF7, 0x6C42, 0x5934, 0x900F, 0x4F20]"

definition lbl_mode_sync_fields :: string where \<comment> \<open>mode sync_fields\<close>
  "lbl_mode_sync_fields = utf8
     [0x5B57, 0x6BB5, 0x540C, 0x6B65]"

definition lbl_mode_set_header :: string where \<comment> \<open>mode set_header\<close>
  "lbl_mode_set_header = utf8
     [0x8BBE, 0x7F6E, 0x8BF7, 0x6C42, 0x5934]"

definition lbl_mode_delete_header :: string where \<comment> \<open>mode delete_header\<close>
  "lbl_mode_delete_header = utf8
     [0x5220, 0x9664, 0x8BF7, 0x6C42, 0x5934]"

definition lbl_mode_copy_header :: string where \<comment> \<open>mode copy_header\<close>
  "lbl_mode_copy_header = utf8
     [0x590D, 0x5236, 0x8BF7, 0x6C42, 0x5934]"

definition lbl_mode_move_header :: string where \<comment> \<open>mode move_header\<close>
  "lbl_mode_move_header = utf8
     [0x79FB, 0x52A8, 0x8BF7, 0x6C42, 0x5934]"

definition lbl_preset_operations :: string where \<comment> \<open>template name\<close>
  "lbl_preset_operations = utf8
     [0x65B0, 0x683C, 0x5F0F, 0x6A21, 0x677F, 0xFF08, 0x89C4, 0x5219, 0x96C6, 0xFF09]"

definition lbl_preset_legacy :: string where \<comment> \<open>template name\<close>
  "lbl_preset_legacy = utf8
     [0x65E7, 0x683C, 0x5F0F, 0x6A21, 0x677F, 0xFF08, 0x4A, 0x53, 0x4F, 0x4E, 0x20,
      0x5BF9, 0x8C61, 0xFF09]"

definition lbl_preset_pass_headers :: string where \<comment> \<open>template name\<close>
  "lbl_preset_pass_headers = utf8
     [0x8BF7, 0x6C42, 0x5934, 0x900F, 0x4F20, 0xFF08, 0x58, 0x2D, 0x52, 0x65, 0x71,
      0x75, 0x65, 0x73, 0x74, 0x2D, 0x49, 0x64, 0xFF09]"

definition lbl_preset_gemini :: string where \<comment> \<open>template name\<close>
  "lbl_preset_gemini = utf8
     [0x47, 0x65, 0x6D, 0x69, 0x6E, 0x69, 0x20, 0x56FE, 0x7247, 0x20, 0x34, 0x4B]"

definition lbl_preset_claude :: string where \<comment> \<open>template name\<close>
  "lbl_preset_claude = utf8
     [0x43, 0x6C, 0x61, 0x75, 0x64, 0x65, 0x20, 0x43, 0x4C, 0x49, 0x20, 0x8BF7, 0x6C42,
      0x5934, 0x900F, 0x4F20]"

definition lbl_preset_codex :: string where \<comment> \<open>template name\<close>
  "lbl_preset_codex = utf8
     [0x43, 0x6F, 0x64, 0x65, 0x78, 0x20, 0x43, 0x4C, 0x49, 0x20, 0x8BF7, 0x6C42,
      0x5934, 0x900F, 0x4F20]"

definition lbl_preset_aws :: string where \<comment> \<open>template name\<close>
  "lbl_preset_aws = utf8
     [0x41, 0x57, 0x53, 0x20, 0x42, 0x65, 0x64, 0x72, 0x6F, 0x63, 0x6B, 0x20, 0x43,
      0x6C, 0x61, 0x75, 0x64, 0x65, 0x20, 0x517C, 0x5BB9, 0x6A21, 0x677F]"

definition lbl_guide_1 :: string where \<comment> \<open>title of a group of fields\<close>
  "lbl_guide_1 = utf8
     [0x5E38, 0x7528, 0x8BF7, 0x6C42, 0x5B57, 0x6BB5]"

definition lbl_guide_2 :: string where \<comment> \<open>title of a group of fields\<close>
  "lbl_guide_2 = utf8
     [0x4E0A, 0x4E0B, 0x6587, 0x5B57, 0x6BB5]"

definition lbl_guide_3 :: string where \<comment> \<open>title of a group of fields\<close>
  "lbl_guide_3 = utf8
     [0x8BF7, 0x6C42, 0x5934, 0x6620, 0x5C04, 0x5B57, 0x6BB5]"

definition lbl_field_model :: string where \<comment> \<open>label of model\<close>
  "lbl_field_model = utf8
     [0x6A21, 0x578B, 0x540D, 0x79F0]"

definition tip_field_model :: string where \<comment> \<open>hint for model\<close>
  "tip_field_model = utf8
     [0x652F, 0x6301, 0x591A, 0x7EA7, 0x6A21, 0x578B, 0x540D, 0xFF0C, 0x4F8B, 0x5982,
      0x20, 0x6F, 0x70, 0x65, 0x6E, 0x61, 0x69, 0x2F, 0x67, 0x70, 0x74, 0x2D, 0x34,
      0x6F, 0x2D, 0x6D, 0x69, 0x6E, 0x69]"

definition lbl_field_temperature :: string where \<comment> \<open>label of temperature\<close>
  "lbl_field_temperature = utf8
     [0x91C7, 0x6837, 0x6E29, 0x5EA6]"

definition tip_field_temperature :: string where \<comment> \<open>hint for temperature\<close>
  "tip_field_temperature = utf8
     [0x63A7, 0x5236, 0x8F93, 0x51FA, 0x968F, 0x673A, 0x6027]"

definition lbl_field_max_tokens :: string where \<comment> \<open>label of max_tokens\<close>
  "lbl_field_max_tokens = utf8
     [0x6700, 0x5927, 0x8F93, 0x51FA, 0x20, 0x54, 0x6F, 0x6B, 0x65, 0x6E]"

definition tip_field_max_tokens :: string where \<comment> \<open>hint for max_tokens\<close>
  "tip_field_max_tokens = utf8
     [0x63A7, 0x5236, 0x8F93, 0x51FA, 0x957F, 0x5EA6, 0x4E0A, 0x9650]"

definition lbl_field_messages_1_content :: string where \<comment> \<open>label of messages.-1.content\<close>
  "lbl_field_messages_1_content = utf8
     [0x6700, 0x540E, 0x4E00, 0x6761, 0x6D88, 0x606F, 0x5185, 0x5BB9]"

definition tip_field_messages_1_content :: string where \<comment> \<open>hint for messages.-1.content\<close>
  "tip_field_messages_1_content = utf8
     [0x5E38, 0x7528, 0x4E8E, 0x91CD, 0x5199, 0x7528, 0x6237, 0x8F93, 0x5165]"

definition lbl_field_retry_is_retry :: string where \<comment> \<open>label of retry.is_retry\<close>
  "lbl_field_retry_is_retry = utf8
     [0x662F, 0x5426, 0x91CD, 0x8BD5]"

definition tip_field_retry_is_retry :: string where \<comment> \<open>hint for retry.is_retry\<close>
  "tip_field_retry_is_retry = utf8
     [0x74, 0x72, 0x75, 0x65, 0x20, 0x8868, 0x793A, 0x91CD, 0x8BD5, 0x8BF7, 0x6C42]"

definition lbl_field_last_error_code :: string where \<comment> \<open>label of last_error.code\<close>
  "lbl_field_last_error_code = utf8
     [0x4E0A, 0x6B21, 0x9519, 0x8BEF, 0x7801]"

definition tip_field_last_error_code :: string where \<comment> \<open>hint for last_error.code\<close>
  "tip_field_last_error_code = utf8
     [0x914D, 0x5408, 0x91CD, 0x8BD5, 0x7B56, 0x7565, 0x4F7F, 0x7528]"

definition lbl_field_metadata_conversation_id :: string where \<comment> \<open>label of metadata.conversation_id\<close>
  "lbl_field_metadata_conversation_id = utf8
     [0x4F1A, 0x8BDD, 0x20, 0x49, 0x44]"

definition tip_field_metadata_conversation_id :: string where \<comment> \<open>hint for metadata.conversation_id\<close>
  "tip_field_metadata_conversation_id = utf8
     [0x53EF, 0x7528, 0x4E8E, 0x8DEF, 0x7531, 0x6216, 0x7F13, 0x5B58, 0x547D, 0x4E2D]"

definition lbl_field_header_override_normalized_authorization :: string where \<comment> \<open>label of header_override_normalized.authorization\<close>
  "lbl_field_header_override_normalized_authorization = utf8
     [0x6807, 0x51C6, 0x5316, 0x20, 0x41, 0x75, 0x74, 0x68, 0x6F, 0x72, 0x69, 0x7A,
      0x61, 0x74, 0x69, 0x6F, 0x6E]"

definition tip_field_header_override_normalized_authorization :: string where \<comment> \<open>hint for header_override_normalized.authorization\<close>
  "tip_field_header_override_normalized_authorization = utf8
     [0x7EDF, 0x4E00, 0x5C0F, 0x5199, 0x540E, 0x53EF, 0x7A33, 0x5B9A, 0x5339, 0x914D]"

definition lbl_field_header_override_normalized_x_debug_mode :: string where \<comment> \<open>label of header_override_normalized.x_debug_mode\<close>
  "lbl_field_header_override_normalized_x_debug_mode = utf8
     [0x6807, 0x51C6, 0x5316, 0x20, 0x58, 0x2D, 0x44, 0x65, 0x62, 0x75, 0x67, 0x2D,
      0x4D, 0x6F, 0x64, 0x65]"

definition tip_field_header_override_normalized_x_debug_mode :: string where \<comment> \<open>hint for header_override_normalized.x_debug_mode\<close>
  "tip_field_header_override_normalized_x_debug_mode = utf8
     [0x9002, 0x5408, 0x7070, 0x5EA6, 0x20, 0x2F, 0x20, 0x8C03, 0x8BD5, 0x5F00, 0x5173,
      0x5224, 0x65AD]"

definition lbl_fill_from :: string where \<comment> \<open>action label\<close>
  "lbl_fill_from = utf8
     [0x586B, 0x5165, 0x6765, 0x6E90]"

definition lbl_fill_to :: string where \<comment> \<open>action label\<close>
  "lbl_fill_to = utf8
     [0x586B, 0x5165, 0x76EE, 0x6807]"

definition lbl_fill_path :: string where \<comment> \<open>action label\<close>
  "lbl_fill_path = utf8
     [0x586B, 0x5165, 0x8DEF, 0x5F84]"

definition lbl_pg_image_done :: string where \<comment> \<open>image finished\<close>
  "lbl_pg_image_done = utf8
     [0x56FE, 0x7247, 0x751F, 0x6210, 0x5B8C, 0x6210, 0x3002, 0xA, 0xA]"

definition lbl_pg_image_failed :: string where \<comment> \<open>image failed\<close>
  "lbl_pg_image_failed = utf8
     [0x56FE, 0x7247, 0x751F, 0x6210, 0x5931, 0x8D25, 0xFF08, 0x73, 0x74, 0x61, 0x74,
      0x75, 0x73, 0x3D]"

definition lbl_pg_failed_end :: string where \<comment> \<open>end of a failure line\<close>
  "lbl_pg_failed_end = utf8
     [0xFF09, 0x3002, 0xA, 0xA]"

definition lbl_pg_image_running :: string where \<comment> \<open>image in progress\<close>
  "lbl_pg_image_running = utf8
     [0x56FE, 0x7247, 0x751F, 0x6210, 0x4E2D, 0xFF0C, 0x8BF7, 0x7A0D, 0x540E, 0x2026]"

definition lbl_pg_poll_http :: string where \<comment> \<open>video poll failed with an HTTP status\<close>
  "lbl_pg_poll_http = utf8
     [0x89C6, 0x9891, 0x8F6E, 0x8BE2, 0x5931, 0x8D25, 0xFF08, 0x48, 0x54, 0x54, 0x50,
      0x20]"

definition lbl_pg_poll_stopped :: string where \<comment> \<open>polling stopped\<close>
  "lbl_pg_poll_stopped = utf8
     [0xFF09, 0xFF0C, 0x5DF2, 0x505C, 0x6B62, 0x81EA, 0x52A8, 0x8F6E, 0x8BE2, 0x3002,
      0xA, 0xA]"

definition lbl_pg_poll_not_json :: string where \<comment> \<open>video poll returned no JSON\<close>
  "lbl_pg_poll_not_json = utf8
     [0x89C6, 0x9891, 0x8F6E, 0x8BE2, 0x5931, 0x8D25, 0xFF08, 0x8FD4, 0x56DE, 0x975E,
      0x20, 0x4A, 0x53, 0x4F, 0x4E, 0xFF09, 0xFF0C, 0x5DF2, 0x505C, 0x6B62, 0x81EA,
      0x52A8, 0x8F6E, 0x8BE2, 0x3002, 0xA, 0xA]"

definition lbl_pg_poll_network :: string where \<comment> \<open>video poll failed on the network\<close>
  "lbl_pg_poll_network = utf8
     [0x89C6, 0x9891, 0x8F6E, 0x8BE2, 0x5931, 0x8D25, 0xFF08, 0x7F51, 0x7EDC, 0x5F02,
      0x5E38, 0x20]"

definition lbl_pg_poll_times :: string where \<comment> \<open>number of failures, polling stopped\<close>
  "lbl_pg_poll_times = utf8
     [0x20, 0x6B21, 0xFF09, 0xFF0C, 0x5DF2, 0x505C, 0x6B62, 0x81EA, 0x52A8, 0x8F6E,
      0x8BE2, 0x3002, 0xA, 0xA]"

definition lbl_pg_video_running :: string where \<comment> \<open>video in progress\<close>
  "lbl_pg_video_running = utf8
     [0x89C6, 0x9891, 0x751F, 0x6210, 0x4E2D, 0xFF0C, 0x8BF7, 0x7A0D, 0x540E, 0x2026]"

definition lbl_pg_video_done :: string where \<comment> \<open>video finished\<close>
  "lbl_pg_video_done = utf8
     [0x89C6, 0x9891, 0x5DF2, 0x751F, 0x6210, 0x5B8C, 0x6210, 0x3002]"

definition lbl_pg_video_status :: string where \<comment> \<open>task status\<close>
  "lbl_pg_video_status = utf8
     [0xA, 0xA, 0x4EFB, 0x52A1, 0x72B6, 0x6001, 0xFF1A]"

definition lbl_pg_video_failed :: string where \<comment> \<open>video failed\<close>
  "lbl_pg_video_failed = utf8
     [0x89C6, 0x9891, 0x751F, 0x6210, 0x5931, 0x8D25, 0xFF1A]"

definition lbl_pg_video_failed_status :: string where \<comment> \<open>video failed with a status\<close>
  "lbl_pg_video_failed_status = utf8
     [0x89C6, 0x9891, 0x751F, 0x6210, 0x5931, 0x8D25, 0xFF08, 0x73, 0x74, 0x61, 0x74,
      0x75, 0x73, 0x3D]"

definition lbl_pg_video_timeout :: string where \<comment> \<open>video timed out\<close>
  "lbl_pg_video_timeout = utf8
     [0x89C6, 0x9891, 0x751F, 0x6210, 0x8D85, 0x65F6, 0xFF0C, 0x8BF7, 0x7A0D, 0x540E,
      0x5728, 0x4EFB, 0x52A1, 0x65E5, 0x5FD7, 0x4E2D, 0x67E5, 0x770B, 0x3002]"

definition lbl_pg_no_error_body :: string where \<comment> \<open>error body unreadable\<close>
  "lbl_pg_no_error_body = utf8
     [0x65E0, 0x6CD5, 0x8BFB, 0x53D6, 0x9519, 0x8BEF, 0x54CD, 0x5E94, 0x4F53]"

definition lbl_pg_not_json :: string where \<comment> \<open>endpoint returned no JSON\<close>
  "lbl_pg_not_json = utf8
     [0x63A5, 0x53E3, 0x672A, 0x8FD4, 0x56DE, 0x20, 0x4A, 0x53, 0x4F, 0x4E, 0xFF08,
      0x65, 0x6E, 0x64, 0x70, 0x6F, 0x69, 0x6E, 0x74, 0x3D]"

definition lbl_pg_snippet :: string where \<comment> \<open>response snippet\<close>
  "lbl_pg_snippet = utf8
     [0xFF09, 0xFF0C, 0x54CD, 0x5E94, 0x7247, 0x6BB5, 0x3A, 0x20]"

definition msg_pg_request_error_colon :: string where \<comment> \<open>request error prefix\<close>
  "msg_pg_request_error_colon = utf8
     [0x8BF7, 0x6C42, 0x53D1, 0x751F, 0x9519, 0x8BEF, 0x3A, 0x20]"

definition lbl_pg_parse_error :: string where \<comment> \<open>parse error\<close>
  "lbl_pg_parse_error = utf8
     [0x89E3, 0x6790, 0x9519, 0x8BEF, 0x3A, 0x20]"

definition msg_pg_parse_failed :: string where \<comment> \<open>error while parsing the response\<close>
  "msg_pg_parse_failed = utf8
     [0x89E3, 0x6790, 0x54CD, 0x5E94, 0x6570, 0x636E, 0x65F6, 0x53D1, 0x751F, 0x9519,
      0x8BEF]"

definition msg_pg_request_error :: string where \<comment> \<open>request error\<close>
  "msg_pg_request_error = utf8
     [0x8BF7, 0x6C42, 0x53D1, 0x751F, 0x9519, 0x8BEF]"

definition lbl_pg_http_status :: string where \<comment> \<open>HTTP status error\<close>
  "lbl_pg_http_status = utf8
     [0x48, 0x54, 0x54, 0x50, 0x72B6, 0x6001, 0x9519, 0x8BEF]"

definition msg_pg_disconnected :: string where \<comment> \<open>connection closed\<close>
  "msg_pg_disconnected = utf8
     [0x8FDE, 0x63A5, 0x5DF2, 0x65AD, 0x5F00]"

definition msg_pg_connect_failed :: string where \<comment> \<open>error while connecting\<close>
  "msg_pg_connect_failed = utf8
     [0x5EFA, 0x7ACB, 0x8FDE, 0x63A5, 0x65F6, 0x53D1, 0x751F, 0x9519, 0x8BEF]"

definition lbl_pg_stream_failed :: string where \<comment> \<open>stream failed to start\<close>
  "lbl_pg_stream_failed = utf8
     [0x53, 0x74, 0x72, 0x65, 0x61, 0x6D, 0x542F, 0x52A8, 0x5931, 0x8D25, 0x3A, 0xA]"

definition lbl_pg_unknown_error :: string where \<comment> \<open>unknown error\<close>
  "lbl_pg_unknown_error = utf8
     [0x672A, 0x77E5, 0x9519, 0x8BEF]"

definition lbl_pg_server_status :: string where \<comment> \<open>the server returned an error status\<close>
  "lbl_pg_server_status = utf8
     [0x670D, 0x52A1, 0x5668, 0x8FD4, 0x56DE, 0x4E86, 0x9519, 0x8BEF, 0x72B6, 0x6001,
      0x7801]"

definition lbl_pg_network_down :: string where \<comment> \<open>network failure\<close>
  "lbl_pg_network_down = utf8
     [0x7F51, 0x7EDC, 0x8FDE, 0x63A5, 0x5931, 0x8D25, 0x6216, 0x670D, 0x52A1, 0x5668,
      0x65E0, 0x54CD, 0x5E94]"

definition msg_pg_deleted_both :: string where \<comment> \<open>message and reply deleted\<close>
  "msg_pg_deleted_both = utf8
     [0x5DF2, 0x5220, 0x9664, 0x6D88, 0x606F, 0x53CA, 0x5176, 0x56DE, 0x590D]"

definition msg_pg_deleted :: string where \<comment> \<open>message deleted\<close>
  "msg_pg_deleted = utf8
     [0x6D88, 0x606F, 0x5DF2, 0x5220, 0x9664]"

definition msg_pg_role_system :: string where \<comment> \<open>switched to the system role\<close>
  "msg_pg_role_system = utf8
     [0x5DF2, 0x5207, 0x6362, 0x4E3A, 0x53, 0x79, 0x73, 0x74, 0x65, 0x6D, 0x89D2,
      0x8272]"

definition msg_pg_role_assistant :: string where \<comment> \<open>switched to the assistant role\<close>
  "msg_pg_role_assistant = utf8
     [0x5DF2, 0x5207, 0x6362, 0x4E3A, 0x41, 0x73, 0x73, 0x69, 0x73, 0x74, 0x61, 0x6E,
      0x74, 0x89D2, 0x8272]"

definition msg_pg_updated :: string where \<comment> \<open>message updated\<close>
  "msg_pg_updated = utf8
     [0x6D88, 0x606F, 0x5DF2, 0x66F4, 0x65B0]"

definition msg_pg_default_user :: string where \<comment> \<open>default user message\<close>
  "msg_pg_default_user = utf8
     [0x9ED8, 0x8BA4, 0x7528, 0x6237, 0x6D88, 0x606F]"

definition msg_pg_default_assistant :: string where \<comment> \<open>default assistant message\<close>
  "msg_pg_default_assistant = utf8
     [0x9ED8, 0x8BA4, 0x52A9, 0x624B, 0x6D88, 0x606F]"

definition lbl_pg_sample :: string where \<comment> \<open>sample message\<close>
  "lbl_pg_sample = utf8
     [0x793A, 0x4F8B, 0x6D88, 0x606F]"

definition lbl_pg_bad_body :: string where \<comment> \<open>custom body is not JSON\<close>
  "lbl_pg_bad_body = utf8
     [0x81EA, 0x5B9A, 0x4E49, 0x8BF7, 0x6C42, 0x4F53, 0x683C, 0x5F0F, 0x9519, 0x8BEF,
      0xFF0C, 0x8BF7, 0x68C0, 0x67E5, 0x4A, 0x53, 0x4F, 0x4E, 0x683C, 0x5F0F]"

definition lbl_paren_open :: string where \<comment> \<open>opening parenthesis\<close>
  "lbl_paren_open = utf8
     [0xFF08]"

definition lbl_paren_close :: string where \<comment> \<open>closing parenthesis\<close>
  "lbl_paren_close = utf8
     [0xFF09]"

definition lbl_pg_old_hello :: string where \<comment> \<open>old default user message\<close>
  "lbl_pg_old_hello = utf8
     [0x4F60, 0x597D]"

definition lbl_pg_old_reply :: string where \<comment> \<open>old default reply\<close>
  "lbl_pg_old_reply = utf8
     [0x4F60, 0x597D, 0xFF0C, 0x8BF7, 0x95EE, 0x6709, 0x4EC0, 0x4E48, 0x53EF, 0x4EE5,
      0x5E2E, 0x52A9, 0x60A8, 0x7684, 0x5417, 0xFF1F]"

definition lbl_pg_old_reply2 :: string where \<comment> \<open>second old default reply\<close>
  "lbl_pg_old_reply2 = utf8
     [0x4F60, 0x597D, 0xFF01, 0x5F88, 0x9AD8, 0x5174, 0x89C1, 0x5230, 0x4F60, 0x3002,
      0x6709, 0x4EC0, 0x4E48, 0x6211, 0x53EF, 0x4EE5, 0x5E2E, 0x52A9, 0x4F60, 0x7684,
      0x5417, 0xFF1F]"

definition lbl_pg_bad_config :: string where \<comment> \<open>invalid configuration file\<close>
  "lbl_pg_bad_config = utf8
     [0x914D, 0x7F6E, 0x6587, 0x4EF6, 0x683C, 0x5F0F, 0x65E0, 0x6548]"

definition lbl_pg_config_parse :: string where \<comment> \<open>configuration file is not JSON\<close>
  "lbl_pg_config_parse = utf8
     [0x89E3, 0x6790, 0x914D, 0x7F6E, 0x6587, 0x4EF6, 0x5931, 0x8D25, 0x3A, 0x20]"

definition lbl_pg_config_read :: string where \<comment> \<open>file could not be read\<close>
  "lbl_pg_config_read = utf8
     [0x8BFB, 0x53D6, 0x6587, 0x4EF6, 0x5931, 0x8D25]"

definition lbl_us_preset_official :: string where \<comment> \<open>name of the official ratio preset\<close>
  "lbl_us_preset_official = utf8
     [0x5B98, 0x65B9, 0x500D, 0x7387, 0x9884, 0x8BBE]"

definition lbl_us_preset_models_dev :: string where \<comment> \<open>name of the models.dev preset\<close>
  "lbl_us_preset_models_dev = utf8
     [0x6D, 0x6F, 0x64, 0x65, 0x6C, 0x73, 0x2E, 0x64, 0x65, 0x76, 0x20, 0x4EF7, 0x683C,
      0x9884, 0x8BBE]"

definition lbl_us_dash :: string where \<comment> \<open>no value\<close>
  "lbl_us_dash = utf8
     [0x2014]"

definition msg_us_unset :: string where \<comment> \<open>not set\<close>
  "msg_us_unset = utf8
     [0x672A, 0x8BBE, 0x7F6E]"

definition msg_us_channels_failed :: string where \<comment> \<open>channels could not be read\<close>
  "msg_us_channels_failed = utf8
     [0x83B7, 0x53D6, 0x6E20, 0x9053, 0x5931, 0x8D25, 0xFF1A]"

definition msg_us_select_one :: string where \<comment> \<open>select a channel\<close>
  "msg_us_select_one = utf8
     [0x8BF7, 0x81F3, 0x5C11, 0x9009, 0x62E9, 0x4E00, 0x4E2A, 0x6E20, 0x9053]"

definition msg_us_backend_failed :: string where \<comment> \<open>the server refused\<close>
  "msg_us_backend_failed = utf8
     [0x540E, 0x7AEF, 0x8BF7, 0x6C42, 0x5931, 0x8D25]"

definition msg_us_test_failed :: string where \<comment> \<open>some channels failed\<close>
  "msg_us_test_failed = utf8
     [0x90E8, 0x5206, 0x6E20, 0x9053, 0x6D4B, 0x8BD5, 0x5931, 0x8D25, 0xFF1A]"

definition msg_us_no_difference :: string where \<comment> \<open>no differences\<close>
  "msg_us_no_difference = utf8
     [0x672A, 0x627E, 0x5230, 0x5DEE, 0x5F02, 0x5316, 0x500D, 0x7387, 0xFF0C, 0x65E0,
      0x9700, 0x540C, 0x6B65]"

definition msg_us_request_failed :: string where \<comment> \<open>the request failed\<close>
  "msg_us_request_failed = utf8
     [0x8BF7, 0x6C42, 0x540E, 0x7AEF, 0x63A5, 0x53E3, 0x5931, 0x8D25, 0xFF1A]"

definition msg_us_models_failed :: string where \<comment> \<open>models of a channel could not be read\<close>
  "msg_us_models_failed = utf8
     [0x83B7, 0x53D6, 0x6E20, 0x9053, 0x6A21, 0x578B, 0x5217, 0x8868, 0x5931, 0x8D25]"

definition msg_us_fixed_price :: string where \<comment> \<open>fixed price\<close>
  "msg_us_fixed_price = utf8
     [0x56FA, 0x5B9A, 0x4EF7, 0x683C]"

definition msg_us_model_ratio :: string where \<comment> \<open>model ratio\<close>
  "msg_us_model_ratio = utf8
     [0x6A21, 0x578B, 0x500D, 0x7387]"

definition msg_us_output_ratio :: string where \<comment> \<open>output ratio\<close>
  "msg_us_output_ratio = utf8
     [0x8F93, 0x51FA, 0x500D, 0x7387]"

definition msg_us_nothing :: string where \<comment> \<open>nothing to save\<close>
  "msg_us_nothing = utf8
     [0x6CA1, 0x6709, 0x9700, 0x8981, 0x4FDD, 0x5B58, 0x7684, 0x53D8, 0x66F4]"

definition msg_us_synced :: string where \<comment> \<open>synchronised\<close>
  "msg_us_synced = utf8
     [0x540C, 0x6B65, 0x6210, 0x529F]"

definition msg_us_partly :: string where \<comment> \<open>some writes failed\<close>
  "msg_us_partly = utf8
     [0x90E8, 0x5206, 0x4FDD, 0x5B58, 0x5931, 0x8D25]"

definition msg_us_save_failed :: string where \<comment> \<open>saving failed\<close>
  "msg_us_save_failed = utf8
     [0x4FDD, 0x5B58, 0x5931, 0x8D25]"

end
