(* ===== verification/Tier_Pricing.thy ===== *)
theory Tier_Pricing
  imports Js_Json Messages
begin

text \<open>
  Tiered pricing rules: \<^verbatim>\<open>web/src/pages/Setting/Ratio/utils/requestTierPricing.js\<close>. A rule has
  four categories of rows; a row gives a ratio up to a bound, and the bound 0 stands for
  infinity. The translation function \<^verbatim>\<open>t\<close> is a parameter.
\<close>

section \<open>Rows and rules\<close>

record tier_row =
  up_to :: jsnum
  ratio :: jsnum

record tier_rule =
  tier_mode :: jsval
  tier_input :: "tier_row list"
  tier_output :: "tier_row list"
  tier_cache_read :: "tier_row list"
  tier_cache_write :: "tier_row list"

datatype tier_category = TC_input | TC_output | TC_cache_read | TC_cache_write

definition TIER_CATEGORIES :: "tier_category list" where
  "TIER_CATEGORIES = [TC_input, TC_output, TC_cache_read, TC_cache_write]"

primrec cat_key :: "tier_category \<Rightarrow> string" where
  "cat_key TC_input = ''input''"
| "cat_key TC_output = ''output''"
| "cat_key TC_cache_read = ''cache_read''"
| "cat_key TC_cache_write = ''cache_write''"

primrec cat_label :: "tier_category \<Rightarrow> string" where
  "cat_label TC_input = lbl_input_price"
| "cat_label TC_output = lbl_output_price"
| "cat_label TC_cache_read = lbl_cache_read_price"
| "cat_label TC_cache_write = lbl_cache_write_price"

primrec cat_rows :: "tier_rule \<Rightarrow> tier_category \<Rightarrow> tier_row list" where
  "cat_rows r TC_input = tier_input r"
| "cat_rows r TC_output = tier_output r"
| "cat_rows r TC_cache_read = tier_cache_read r"
| "cat_rows r TC_cache_write = tier_cache_write r"

definition emptyTierRule :: tier_rule where
  "emptyTierRule =
     \<lparr>tier_mode = Str ''progressive'', tier_input = [], tier_output = [], tier_cache_read = [], tier_cache_write = []\<rparr>"

definition emptyTierSegments :: jsval where
  "emptyTierSegments = Obj [(''segments'', Arr [])]"

text \<open>A row as the object the code builds.\<close>

definition tier_row_val :: "tier_row \<Rightarrow> jsval" where
  "tier_row_val r = Obj [(''up_to'', Num (up_to r)), (''ratio'', Num (ratio r))]"

definition tier_rows_val :: "tier_row list \<Rightarrow> jsval" where
  "tier_rows_val rs = Arr (map tier_row_val rs)"

section \<open>Normalisation\<close>

definition tier_row_of :: "jsval \<Rightarrow> tier_row" where
  "tier_row_of row =
     \<lparr>up_to = to_num (js_or (get row ''up_to'') (Num (Fin 0))),
      ratio = to_num (coalesce (get row ''ratio'') (Num (Fin 0)))\<rparr>"

definition finite_row :: "tier_row \<Rightarrow> bool" where
  "finite_row r \<longleftrightarrow> is_finite (up_to r) \<and> is_finite (ratio r)"

definition normalizeTierRows :: "jsval \<Rightarrow> tier_row list" where
  "normalizeTierRows rows = filter finite_row (map tier_row_of (arr_elems rows))"

definition object_or_empty :: "jsval \<Rightarrow> jsval" where
  "object_or_empty v = (if truthy v \<and> typeof_object v then v else Obj [])"

definition normalizeTierSegments :: "jsval \<Rightarrow> jsval" where
  "normalizeTierSegments tier =
     (let src = object_or_empty tier
      in Obj [(''segments'',
           tier_rows_val (filter finite_row (map tier_row_of (arr_elems (get src ''segments'')))))])"

definition hasTierSegments :: "jsval \<Rightarrow> bool" where
  "hasTierSegments tier = (arr_elems (get (normalizeTierSegments tier) ''segments'') \<noteq> [])"

text \<open>\<^verbatim>\<open>ensureFinalInfinityTierSegments\<close> reads \<^verbatim>\<open>up_to\<close> of the last element, which must exist.\<close>

definition infinity_row :: tier_row where
  "infinity_row = \<lparr>up_to = Fin 0, ratio = Fin 0\<rparr>"

definition ensureFinalInfinityTierSegments :: "jsval \<Rightarrow> jsval list res" where
  "ensureFinalInfinityTierSegments segments =
     (let normalized = arr_elems segments
      in if normalized = [] then Ok normalized
         else if nullish (last normalized) then Throw Type_Error
         else if strict_eq (get (last normalized) ''up_to'') (Num (Fin 0)) then Ok normalized
         else Ok (normalized @ [tier_row_val infinity_row]))"

definition number_props :: "(nat \<times> jsval) list \<Rightarrow> (string \<times> jsval) list" where
  "number_props ivs = map (\<lambda>(i, v). (''tpl_'' @ nat_str (i + 1), v)) ivs"

definition parseJSONMap :: "jsval \<Rightarrow> jsval" where
  "parseJSONMap raw =
     (if \<not> truthy raw \<or> trim (to_str raw) = [] then Obj []
      else case json_parse (to_str raw) of
        Throw _ \<Rightarrow> Obj []
      | Ok parsed \<Rightarrow>
          (case parsed of Arr vs \<Rightarrow> Obj (number_props (zip [0..<length vs] vs))
           | Obj ps \<Rightarrow> parsed | _ \<Rightarrow> Obj []))"

definition normalizeTierRule :: "jsval \<Rightarrow> tier_rule" where
  "normalizeTierRule rule =
     (let src = object_or_empty rule
      in \<lparr>tier_mode = js_or (get src ''mode'') (Str ''progressive''),
          tier_input = normalizeTierRows (get src ''input''),
          tier_output = normalizeTierRows (get src ''output''),
          tier_cache_read = normalizeTierRows (get src ''cache_read''),
          tier_cache_write = normalizeTierRows (get src ''cache_write'')\<rparr>)"

definition ensureFinalInfinityTierRows :: "jsval \<Rightarrow> tier_row list" where
  "ensureFinalInfinityTierRows rows =
     (let normalized = normalizeTierRows rows
      in if normalized = [] then normalized
         else if num_eq (up_to (last normalized)) (Fin 0) then normalized
         else normalized @ [infinity_row])"

definition hasTierRule :: "jsval \<Rightarrow> bool" where
  "hasTierRule rule =
     (let normalized = normalizeTierRule rule
      in list_ex (\<lambda>c. cat_rows normalized c \<noteq> []) TIER_CATEGORIES)"

section \<open>Presentation\<close>

definition cat_visible :: "jsval \<Rightarrow> tier_rule \<Rightarrow> tier_category \<Rightarrow> bool" where
  "cat_visible visibleCategories normalized c =
     (if visibleCategories \<noteq> Null
      then c = TC_input \<or> truthy (get visibleCategories (cat_key c))
      else cat_rows normalized c \<noteq> [])"

definition shown_categories :: "jsval \<Rightarrow> tier_rule \<Rightarrow> tier_category list" where
  "shown_categories visibleCategories normalized =
     filter (\<lambda>c. cat_rows normalized c \<noteq> [])
       (filter (cat_visible visibleCategories normalized) TIER_CATEGORIES)"

definition summarizeTierRule :: "jsval \<Rightarrow> (string \<Rightarrow> string) \<Rightarrow> jsval \<Rightarrow> string" where
  "summarizeTierRule rule t visibleCategories =
     (if \<not> hasTierRule rule then t msg_not_configured
      else (let normalized = normalizeTierRule rule
            in join '' / '' (map (\<lambda>c. t (cat_label c) @ '' '' @
                 nat_str (length (cat_rows normalized c)) @ t lbl_tiers)
                 (shown_categories visibleCategories normalized))))"

definition formatTierStartBound :: "jsnum \<Rightarrow> string" where
  "formatTierStartBound v = num_str v"

definition formatTierEndBound :: "jsnum \<Rightarrow> string" where
  "formatTierEndBound v = (if num_eq v (Fin 0) then lbl_infinity else num_str v)"

definition formatTierPrice :: "jsnum \<Rightarrow> string" where
  "formatTierPrice v =
     (if \<not> is_finite v then ''-'' else ''$'' @ num_str (to_number_str (to_fixed 6 v)))"

text \<open>Price and ratio, in USD per million tokens.\<close>

definition priceToRatio :: "jsnum \<Rightarrow> jsnum \<Rightarrow> jsnum" where
  "priceToRatio priceUSD tokenCount =
     (if \<not> truthy_num priceUSD \<or> \<not> truthy_num tokenCount \<or> js_le tokenCount (Fin 0) then Fin 0
      else js_max (Fin 0) (js_div (js_mul priceUSD (Fin 1000000)) tokenCount))"

definition ratioToPrice :: "jsnum \<Rightarrow> jsnum \<Rightarrow> jsnum" where
  "ratioToPrice r tokenCount =
     (if \<not> truthy_num r \<or> \<not> truthy_num tokenCount \<or> js_le tokenCount (Fin 0) then Fin 0
      else js_div (js_mul r tokenCount) (Fin 1000000))"

record tier_segment =
  seg_range :: string
  seg_price :: string
  seg_ratio :: jsnum

record tier_detail =
  det_key :: string
  det_label :: string
  det_segments :: "tier_segment list"

text \<open>The loop over the rows carries \<^verbatim>\<open>previous\<close>, the last non-zero bound.\<close>

fun detail_segments :: "jsnum \<Rightarrow> tier_row list \<Rightarrow> tier_segment list" where
  "detail_segments previous [] = []"
| "detail_segments previous (row # rows) =
     \<lparr>seg_range = formatTierStartBound previous @ lbl_tilde @ formatTierEndBound (up_to row),
      seg_price = formatTierPrice
        (if truthy_num (ratio row) then ratioToPrice (ratio row) (Fin 1000000) else Fin 0),
      seg_ratio = ratio row\<rparr>
     # detail_segments (if truthy_num (up_to row) then up_to row else previous) rows"

definition buildTierPriceDetails ::
  "jsval \<Rightarrow> (string \<Rightarrow> string) \<Rightarrow> jsval \<Rightarrow> tier_detail list" where
  "buildTierPriceDetails rule t visibleCategories =
     (if \<not> hasTierRule rule then []
      else (let normalized = normalizeTierRule rule
            in map (\<lambda>c. \<lparr>det_key = cat_key c, det_label = t (cat_label c),
                  det_segments = detail_segments (Fin 0)
                    (ensureFinalInfinityTierRows (tier_rows_val (cat_rows normalized c)))\<rparr>)
                 (shown_categories visibleCategories normalized)))"

section \<open>Validation and serialisation\<close>

fun validate_rows :: "(string \<Rightarrow> string) \<Rightarrow> string \<Rightarrow> jsnum \<Rightarrow> tier_row list \<Rightarrow> string" where
  "validate_rows t lbl previous [] = []"
| "validate_rows t lbl previous (row # rows) =
     (if num_eq (ratio row) (Fin 0) then t lbl @ '' '' @ t msg_price_required
      else if js_lt (ratio row) (Fin 0) then t lbl @ '' '' @ t msg_ratio_negative
      else if js_lt (up_to row) (Fin 0) then t lbl @ '' up_to '' @ t msg_not_negative
      else if num_eq (up_to row) (Fin 0) \<and> rows \<noteq> [] then t lbl @ '' '' @ t msg_zero_last_only
      else if \<not> num_eq (up_to row) (Fin 0) \<and> js_le (up_to row) previous
      then t lbl @ '' up_to '' @ t msg_increasing
      else validate_rows t lbl
             (if \<not> num_eq (up_to row) (Fin 0) then up_to row else previous) rows)"

primrec first_nonempty :: "string list \<Rightarrow> string" where
  "first_nonempty [] = []"
| "first_nonempty (s # ss) = (if s \<noteq> [] then s else first_nonempty ss)"

definition validateTierRule :: "jsval \<Rightarrow> (string \<Rightarrow> string) \<Rightarrow> string" where
  "validateTierRule rule t =
     (let normalized = normalizeTierRule rule
      in if \<not> strict_eq (tier_mode normalized) (Str ''progressive'') then t msg_progressive_only
         else first_nonempty (map (\<lambda>c. validate_rows t (cat_label c) (Fin 0) (cat_rows normalized c))
                TIER_CATEGORIES))"

definition serializeTierRule :: "jsval \<Rightarrow> jsval" where
  "serializeTierRule rule =
     (let normalized = normalizeTierRule rule
      in Obj ((''mode'', js_or (tier_mode normalized) (Str ''progressive'')) #
           map (\<lambda>c. (cat_key c, tier_rows_val (cat_rows normalized c)))
             (filter (\<lambda>c. cat_rows normalized c \<noteq> []) TIER_CATEGORIES)))"

section \<open>Normalisation is idempotent\<close>

lemma tier_row_of_val [simp]: "finite_row r \<Longrightarrow> tier_row_of (tier_row_val r) = r"
  by (cases r; cases "up_to r")
    (auto simp: tier_row_of_def tier_row_val_def js_or_def coalesce_def truthy_num_def finite_row_def)

lemma normalizeTierRows_val: "list_all finite_row rs \<Longrightarrow> normalizeTierRows (tier_rows_val rs) = rs"
  by (induction rs) (auto simp: normalizeTierRows_def tier_rows_val_def arr_elems_def)

lemma normalizeTierRows_finite: "list_all finite_row (normalizeTierRows v)"
  by (simp add: normalizeTierRows_def list_all_iff)

lemma cat_rows_finite: "list_all finite_row (cat_rows (normalizeTierRule v) c)"
  by (cases c) (simp_all add: normalizeTierRule_def Let_def normalizeTierRows_finite)

lemma normalizeTierRows_absent [simp]: "normalizeTierRows Undef = []"
  by (simp add: normalizeTierRows_def arr_elems_def)

lemma js_or_idem [simp]: "js_or (js_or a (Str s)) (Str s) = js_or a (Str s)"
  by (simp add: js_or_def)

lemma normalizeTierRows_stored:
  "normalizeTierRows (if cat_rows (normalizeTierRule v) c = [] then Undef
     else tier_rows_val (cat_rows (normalizeTierRule v) c)) = cat_rows (normalizeTierRule v) c"
  using cat_rows_finite [of v c] by (simp add: normalizeTierRows_val)

lemma serialize_get_cat:
  "get (serializeTierRule v) (cat_key c) =
     (if cat_rows (normalizeTierRule v) c = [] then Undef
      else tier_rows_val (cat_rows (normalizeTierRule v) c))"
  by (cases c) (simp_all add: serializeTierRule_def Let_def TIER_CATEGORIES_def)

lemma cat_key_distinct [simp]: "cat_key c \<noteq> ''mode''"
  by (cases c) simp_all

lemma serialize_get_mode:
  "get (serializeTierRule v) ''mode'' = js_or (tier_mode (normalizeTierRule v)) (Str ''progressive'')"
  by (simp add: serializeTierRule_def Let_def)

lemma tier_rule_eqI:
  "tier_mode a = tier_mode b \<Longrightarrow> (\<And>c. cat_rows a c = cat_rows b c) \<Longrightarrow> a = (b :: tier_rule)"
proof -
  assume m: "tier_mode a = tier_mode b" and c: "\<And>c. cat_rows a c = cat_rows b c"
  from c [of TC_input] c [of TC_output] c [of TC_cache_read] c [of TC_cache_write] m
  show ?thesis by (cases a; cases b) simp
qed

lemma cat_rows_normalize:
  "cat_rows (normalizeTierRule v) c = normalizeTierRows (get (object_or_empty v) (cat_key c))"
  by (cases c) (simp_all add: normalizeTierRule_def Let_def)

lemma object_or_empty_serialize [simp]: "object_or_empty (serializeTierRule v) = serializeTierRule v"
  by (simp add: object_or_empty_def serializeTierRule_def Let_def typeof_object_def)

text \<open>
  C17: storing a tier rule loses nothing: normalising a rule, serialising it for the
  option store and normalising what is read back gives the normalised rule again, for every
  value the editor may be handed.
\<close>

theorem normalize_serialize_tier_rule:
  "normalizeTierRule (serializeTierRule rule) = normalizeTierRule rule"
proof (rule tier_rule_eqI)
  show "tier_mode (normalizeTierRule (serializeTierRule rule)) = tier_mode (normalizeTierRule rule)"
    using serialize_get_mode [of rule] by (simp add: normalizeTierRule_def Let_def)
  show "cat_rows (normalizeTierRule (serializeTierRule rule)) c = cat_rows (normalizeTierRule rule) c" for c
    by (simp only: cat_rows_normalize [of "serializeTierRule rule"] object_or_empty_serialize
        serialize_get_cat normalizeTierRows_stored)
qed

lemma normalizeTierSegments_rows:
  "normalizeTierSegments v =
     Obj [(''segments'', tier_rows_val (normalizeTierRows (get (object_or_empty v) ''segments'')))]"
  by (simp add: normalizeTierSegments_def normalizeTierRows_def Let_def)

lemma normalizeTierSegments_idem: "normalizeTierSegments (normalizeTierSegments v) = normalizeTierSegments v"
proof -
  let ?rs = "normalizeTierRows (get (object_or_empty v) ''segments'')"
  have "get (object_or_empty (normalizeTierSegments v)) ''segments'' = tier_rows_val ?rs"
    by (simp add: object_or_empty_def normalizeTierSegments_rows typeof_object_def)
  then have "normalizeTierSegments (normalizeTierSegments v) =
      Obj [(''segments'', tier_rows_val (normalizeTierRows (tier_rows_val ?rs)))]"
    by (simp only: normalizeTierSegments_rows [of "normalizeTierSegments v"])
  then show ?thesis
    by (simp add: normalizeTierRows_val [OF normalizeTierRows_finite] normalizeTierSegments_rows)
qed

lemma hasTierSegments_normalize [simp]: "hasTierSegments (normalizeTierSegments v) = hasTierSegments v"
  by (simp add: hasTierSegments_def normalizeTierSegments_idem)

lemma hasTierSegments_Null [simp]: "\<not> hasTierSegments Null"
  by (simp add: hasTierSegments_def normalizeTierSegments_def object_or_empty_def arr_elems_def
      tier_rows_val_def)

section \<open>What validation accepts\<close>

text \<open>
  The rows of one category as the billing engine needs them: positive ratios, non-negative
  bounds, the infinite bound only at the end, finite bounds strictly increasing.
\<close>

definition valid_tiers :: "tier_row list \<Rightarrow> bool" where
  "valid_tiers rs \<longleftrightarrow>
     (\<forall>r \<in> set rs. js_lt (Fin 0) (ratio r) \<and> js_le (Fin 0) (up_to r)) \<and>
     (\<forall>r \<in> set (butlast rs). up_to r \<noteq> Fin 0) \<and>
     sorted_wrt (\<lambda>a b. js_lt (up_to a) (up_to b)) (filter (\<lambda>r. up_to r \<noteq> Fin 0) rs)"

lemma finite_row_cases:
  assumes "finite_row r"
  obtains u x where "up_to r = Fin u" "ratio r = Fin x"
  using assms by (cases "up_to r"; cases "ratio r") (auto simp: finite_row_def)

lemma validate_rows_iff:
  "list_all finite_row rs \<Longrightarrow> 0 \<le> p \<Longrightarrow>
   validate_rows t l (Fin p) rs = [] \<longleftrightarrow>
     valid_tiers rs \<and> (\<forall>r \<in> set rs. up_to r \<noteq> Fin 0 \<longrightarrow> js_lt (Fin p) (up_to r))"
proof (induction rs arbitrary: p)
  case Nil
  then show ?case by (simp add: valid_tiers_def)
next
  case (Cons r rs)
  obtain u x where ux: "up_to r = Fin u" "ratio r = Fin x"
    using Cons.prems finite_row_cases by auto
  show ?case
  proof (cases "x \<le> 0 \<or> u < 0 \<or> (u = 0 \<and> rs \<noteq> []) \<or> (u \<noteq> 0 \<and> u \<le> p)")
    case True
    then show ?thesis using ux Cons.prems by (auto simp: valid_tiers_def num_eq_def)
  next
    case False
    then have step: "validate_rows t l (Fin p) (r # rs) =
        validate_rows t l (Fin (if u \<noteq> 0 then u else p)) rs"
      using ux by (auto simp: num_eq_def)
    have "0 \<le> (if u \<noteq> 0 then u else p)" using False Cons.prems by auto
    with Cons.IH Cons.prems have ih: "validate_rows t l (Fin (if u \<noteq> 0 then u else p)) rs = [] \<longleftrightarrow>
        valid_tiers rs \<and> (\<forall>r \<in> set rs. up_to r \<noteq> Fin 0 \<longrightarrow> js_lt (Fin (if u \<noteq> 0 then u else p)) (up_to r))"
      by auto
    show ?thesis
    proof (cases "rs = []")
      case True
      then show ?thesis using False ux step by (auto simp: valid_tiers_def)
    next
      case rs: False
      then have u: "u \<noteq> 0" "p < u" using False by auto
      have tr: "js_lt (Fin p) v" if "js_lt (Fin u) v" for v
        using that u by (cases v) auto
      show ?thesis
        unfolding step ih using False ux u rs tr by (auto simp: valid_tiers_def)
    qed
  qed
qed

lemma first_nonempty_iff: "first_nonempty ss = [] \<longleftrightarrow> (\<forall>s \<in> set ss. s = [])"
  by (induction ss) auto

lemma valid_tiers_pos: "valid_tiers rs \<Longrightarrow> r \<in> set rs \<Longrightarrow> up_to r \<noteq> Fin 0 \<Longrightarrow> js_lt (Fin 0) (up_to r)"
  unfolding valid_tiers_def by (cases "up_to r") auto

text \<open>
  C12: \<^verbatim>\<open>validateTierRule\<close> accepts a rule exactly when its mode is \<^verbatim>\<open>progressive\<close> and every
  category has positive ratios, non-negative and strictly increasing bounds, and the infinite
  bound at most in the last row. (The translation of the mode message must not be empty.)
\<close>

theorem validateTierRule_iff:
  assumes "t msg_progressive_only \<noteq> []"
  shows "validateTierRule rule t = [] \<longleftrightarrow>
    tier_mode (normalizeTierRule rule) = Str ''progressive'' \<and>
    (\<forall>c. valid_tiers (cat_rows (normalizeTierRule rule) c))"
proof -
  let ?n = "normalizeTierRule rule"
  have m: "strict_eq v (Str s) \<longleftrightarrow> v = Str s" for v s by (cases v) auto
  have row: "validate_rows t l (Fin 0) (cat_rows ?n c) = [] \<longleftrightarrow> valid_tiers (cat_rows ?n c)" for l c
    using validate_rows_iff [OF cat_rows_finite, of 0 t l] valid_tiers_pos by auto
  have all: "(\<forall>c \<in> set TIER_CATEGORIES. P c) \<longleftrightarrow> (\<forall>c. P c)" for P
    by (auto simp: TIER_CATEGORIES_def) (metis tier_category.exhaust)
  show ?thesis
    using assms all [of "\<lambda>c. valid_tiers (cat_rows ?n c)"]
    by (simp add: validateTierRule_def Let_def m first_nonempty_iff row)
qed


section \<open>Displayed ranges\<close>

text \<open>The text of the ranges cut at the bounds \<open>us\<close>: each up to the next, the last to infinity.\<close>

fun range_texts :: "rat list \<Rightarrow> string list" where
  "range_texts [] = []"
| "range_texts [u] = [num_str (Fin u) @ lbl_tilde @ lbl_infinity]"
| "range_texts (u # v # us) = (num_str (Fin u) @ lbl_tilde @ num_str (Fin v)) # range_texts (v # us)"

definition fin_val :: "jsnum \<Rightarrow> rat" where
  "fin_val x = (case x of Fin q \<Rightarrow> q | _ \<Rightarrow> 0)"

lemma detail_ranges:
  assumes "list_all finite_row rs" "\<forall>r \<in> set rs. up_to r \<noteq> Fin 0"
  shows "map seg_range (detail_segments (Fin p) (rs @ [\<lparr>up_to = Fin 0, ratio = x\<rparr>])) =
    range_texts (p # map (\<lambda>r. fin_val (up_to r)) rs)"
  using assms
proof (induction rs arbitrary: p)
  case Nil
  then show ?case by (simp add: formatTierStartBound_def formatTierEndBound_def num_eq_def)
next
  case (Cons r rs)
  obtain u y where u: "up_to r = Fin u" "ratio r = Fin y"
    using Cons.prems finite_row_cases by auto
  then show ?case
    using Cons by (auto simp: formatTierStartBound_def formatTierEndBound_def num_eq_def
        truthy_num_def fin_val_def)
qed

lemma valid_tiers_split:
  assumes "valid_tiers rs" "list_all finite_row rs" "rs \<noteq> []"
  shows "\<exists>fs x. (if num_eq (up_to (last rs)) (Fin 0) then rs else rs @ [infinity_row]) =
      fs @ [\<lparr>up_to = Fin 0, ratio = x\<rparr>] \<and> list_all finite_row fs \<and>
      filter (\<lambda>r. up_to r \<noteq> Fin 0) rs = fs"
proof (cases "up_to (last rs) = Fin 0")
  case True
  have nz: "\<forall>r \<in> set (butlast rs). up_to r \<noteq> Fin 0" using assms(1) by (simp add: valid_tiers_def)
  have rs: "rs = butlast rs @ [\<lparr>up_to = Fin 0, ratio = ratio (last rs)\<rparr>]"
    using True assms(3) by (metis append_butlast_last_id surjective tier_row.surjective unit_eq)
  have "filter (\<lambda>r. up_to r \<noteq> Fin 0) rs = butlast rs"
    using nz by (subst rs) (simp add: filter_id_conv)
  moreover have "list_all finite_row (butlast rs)"
    using assms(2) by (auto simp: list_all_iff dest: in_set_butlastD)
  ultimately show ?thesis using True rs by (auto simp: num_eq_def)
next
  case False
  have "\<forall>r \<in> set rs. up_to r \<noteq> Fin 0"
    using False assms(1) in_set_butlast_or_last [of _ rs] by (auto simp: valid_tiers_def)
  then show ?thesis
    using False assms(2) by (auto simp: num_eq_def infinity_row_def filter_id_conv)
qed


lemma valid_tiers_bounds_sorted:
  assumes "valid_tiers rs" "list_all finite_row rs"
  shows "sorted_wrt (<) (0 # map (\<lambda>r. fin_val (up_to r)) (filter (\<lambda>r. up_to r \<noteq> Fin 0) rs))"
proof -
  let ?fs = "filter (\<lambda>r. up_to r \<noteq> Fin 0) rs"
  have v: "fin_val (up_to a) < fin_val (up_to b)"
    if "a \<in> set ?fs" "b \<in> set ?fs" "js_lt (up_to a) (up_to b)" for a b
    using that assms(2) by (cases "up_to a"; cases "up_to b") (auto simp: list_all_iff finite_row_def fin_val_def)
  have "sorted_wrt (\<lambda>a b. fin_val (up_to a) < fin_val (up_to b)) ?fs"
  proof (rule sorted_wrt_mono_rel [OF v])
    show "sorted_wrt (\<lambda>a b. js_lt (up_to a) (up_to b)) ?fs"
      using assms(1) by (simp add: valid_tiers_def)
  qed
  moreover have "0 < fin_val (up_to r)" if "r \<in> set ?fs" for r
    using that valid_tiers_pos [OF assms(1), of r] assms(2)
    by (cases "up_to r") (auto simp: fin_val_def list_all_iff finite_row_def)
  ultimately show ?thesis by (auto simp: sorted_wrt_map)
qed

text \<open>
  C18: for a rule that passes validation, the ranges shown for each category cut
  \<open>[0, \<infinity>)\<close> into consecutive pieces: there are strictly increasing positive bounds such that the
  first range starts at 0, each range ends where the next begins, and the last one is open.
\<close>

theorem tier_ranges_tile:
  assumes "validateTierRule rule t = []" "t msg_progressive_only \<noteq> []"
    "d \<in> set (buildTierPriceDetails rule t visibleCategories)"
  shows "\<exists>us. sorted_wrt (<) (0 # us) \<and> map seg_range (det_segments d) = range_texts (0 # us)"
proof -
  let ?n = "normalizeTierRule rule"
  obtain c where c: "cat_rows ?n c \<noteq> []"
    "det_segments d = detail_segments (Fin 0) (ensureFinalInfinityTierRows (tier_rows_val (cat_rows ?n c)))"
    using assms(3) by (auto simp: buildTierPriceDetails_def shown_categories_def Let_def split: if_splits)
  have v: "valid_tiers (cat_rows ?n c)" using assms validateTierRule_iff [of t rule] by simp
  note fin = cat_rows_finite [of rule c]
  obtain fs x where fs: "ensureFinalInfinityTierRows (tier_rows_val (cat_rows ?n c)) =
      fs @ [\<lparr>up_to = Fin 0, ratio = x\<rparr>]" "list_all finite_row fs"
      "filter (\<lambda>r. up_to r \<noteq> Fin 0) (cat_rows ?n c) = fs"
    using valid_tiers_split [OF v fin c(1)] c(1)
    by (auto simp: ensureFinalInfinityTierRows_def Let_def normalizeTierRows_val [OF fin])
  have "\<forall>r \<in> set fs. up_to r \<noteq> Fin 0" using fs(3) by auto
  then have "map seg_range (det_segments d) = range_texts (0 # map (\<lambda>r. fin_val (up_to r)) fs)"
    using c(2) fs(1) detail_ranges [OF fs(2)] by simp
  moreover have "sorted_wrt (<) (0 # map (\<lambda>r. fin_val (up_to r)) fs)"
    using valid_tiers_bounds_sorted [OF v fin] fs(3) by simp
  ultimately show ?thesis by blast
qed

section \<open>Witnesses\<close>

definition sample_rule :: jsval where
  "sample_rule = Obj [(''mode'', Str ''progressive''),
     (''input'', Arr [Obj [(''up_to'', Num (Fin 1000)), (''ratio'', Num (Fin 3))],
                      Obj [(''up_to'', Num (Fin 0)), (''ratio'', Num (Fin 2))]])]"

lemma sample_rule_normal:
  "normalizeTierRule sample_rule =
     \<lparr>tier_mode = Str ''progressive'',
      tier_input = [\<lparr>up_to = Fin 1000, ratio = Fin 3\<rparr>, \<lparr>up_to = Fin 0, ratio = Fin 2\<rparr>],
      tier_output = [], tier_cache_read = [], tier_cache_write = []\<rparr>"
  by (simp add: sample_rule_def normalizeTierRule_def Let_def object_or_empty_def typeof_object_def
      js_or_def normalizeTierRows_def arr_elems_def tier_row_of_def coalesce_def truthy_num_def finite_row_def)

lemma sample_rule_valid: "validateTierRule sample_rule (\<lambda>s. s @ ''!'') = []"
  by (simp add: validateTierRule_def sample_rule_normal Let_def TIER_CATEGORIES_def num_eq_def)

theorem validateTierRule_iff_witness:
  "validateTierRule sample_rule (\<lambda>s. s @ ''!'') = [] \<and>
   (\<forall>c. valid_tiers (cat_rows (normalizeTierRule sample_rule) c))"
  using validateTierRule_iff [of "\<lambda>s. s @ ''!''" sample_rule] sample_rule_valid by simp

theorem tier_ranges_tile_witness:
  "\<exists>d us. d \<in> set (buildTierPriceDetails sample_rule (\<lambda>s. s @ ''!'') Null) \<and>
     sorted_wrt (<) (0 # us) \<and> map seg_range (det_segments d) = range_texts (0 # us)"
proof -
  have "buildTierPriceDetails sample_rule (\<lambda>s. s @ ''!'') Null \<noteq> []"
    by (simp add: buildTierPriceDetails_def hasTierRule_def sample_rule_normal Let_def
        TIER_CATEGORIES_def shown_categories_def cat_visible_def)
  then obtain d where "d \<in> set (buildTierPriceDetails sample_rule (\<lambda>s. s @ ''!'') Null)"
    by (meson list.set_sel(1))
  then show ?thesis using tier_ranges_tile [OF sample_rule_valid, of d Null] by auto
qed

end
