(* ===== verification/Billing_Formula.thy ===== *)
theory Billing_Formula
  imports Js_Json Messages
begin

text \<open>
  The billing formula of the client: \<^verbatim>\<open>web/src/helpers/billingFormula.js\<close>, with the channel
  lookup of \<^verbatim>\<open>web/src/helpers/utils.jsx\<close>. Prices and ratios arrive as JSON values; every
  arithmetic step is the rounded double operation of the source, in the source's order.
\<close>

section \<open>Scalars\<close>

definition CLAUDE_CACHE_CREATE_1H_GLOBAL_MULT :: jsnum where
  "CLAUDE_CACHE_CREATE_1H_GLOBAL_MULT = js_div (Fin 6) (Fin (15 / 4))"

definition costDiscountMultiplier :: "jsval \<Rightarrow> jsnum" where
  "costDiscountMultiplier percent =
     (let n = to_num percent
      in if \<not> is_finite n \<or> js_le n (Fin 0) then Fin 1 else js_div n (Fin 100))"

definition num_or_0 :: "jsnum \<Rightarrow> jsnum" where
  "num_or_0 x = (if truthy_num x then x else Fin 0)"

definition markupRateFromPercent :: "jsval \<Rightarrow> jsnum" where
  "markupRateFromPercent percent = js_div (num_or_0 (to_num percent)) (Fin 100)"

definition numOrZero :: "jsval \<Rightarrow> jsnum" where
  "numOrZero v =
     (if nullish v \<or> v = Str [] then Fin 0
      else (let n = to_num v in if is_finite n then n else Fin 0))"

definition hasBillingRatioValue :: "jsval \<Rightarrow> bool" where
  "hasBillingRatioValue v \<longleftrightarrow> v \<noteq> Undef \<and> v \<noteq> Null \<and> v \<noteq> Str [] \<and> is_finite (to_num v)"

definition formatMatchingModelName :: "jsval \<Rightarrow> string" where
  "formatMatchingModelName name =
     (if nullish name then []
      else (let n = to_str name
            in if prefix ''gpt-4-gizmo'' n then ''gpt-4-gizmo-*''
               else if prefix ''gpt-4o-gizmo'' n then ''gpt-4o-gizmo-*'' else n))"

definition finite_number :: "jsval \<Rightarrow> bool" where
  "finite_number v = (case v of Num x \<Rightarrow> is_finite x | _ \<Rightarrow> False)"

text \<open>\<^verbatim>\<open>null\<close> is \<^term>\<open>None\<close>.\<close>

definition readChannelScopedModelFloat :: "jsval \<Rightarrow> jsval \<Rightarrow> jsnum option" where
  "readChannelScopedModelFloat byChannel modelName =
     (if \<not> truthy byChannel \<or> \<not> typeof_object byChannel \<or> nullish modelName then None
      else map_option (\<lambda>k. to_num (get byChannel k))
             (find (\<lambda>k. finite_number (get byChannel k))
                [to_str modelName, formatMatchingModelName modelName]))"

definition pickChannelScopedModelFloat :: "jsval \<Rightarrow> jsval \<Rightarrow> jsval \<Rightarrow> jsnum option" where
  "pickChannelScopedModelFloat channelMap channelId modelName =
     (if \<not> truthy channelMap \<or> nullish modelName then None
      else readChannelScopedModelFloat (get channelMap (to_str channelId)) modelName)"

definition opt_num :: "jsnum option \<Rightarrow> jsval" where
  "opt_num r = (case r of None \<Rightarrow> Null | Some x \<Rightarrow> Num x)"

definition resolveCostOptionChannelScalar ::
  "jsval \<Rightarrow> jsval \<Rightarrow> jsval \<Rightarrow> jsval \<Rightarrow> jsval \<Rightarrow> jsnum option" where
  "resolveCostOptionChannelScalar optionChannelValue channelMap channelId modelName globalValue =
     (if hasBillingRatioValue optionChannelValue then Some (to_num optionChannelValue)
      else (let fromChannelMap = opt_num (pickChannelScopedModelFloat channelMap channelId modelName)
            in if hasBillingRatioValue fromChannelMap then Some (to_num fromChannelMap)
               else if hasBillingRatioValue globalValue then Some (to_num globalValue) else None))"

definition modelRatioToDisplayUsdPerM :: "jsnum \<Rightarrow> jsnum" where
  "modelRatioToDisplayUsdPerM modelRatio = js_mul modelRatio (Fin 2)"

section \<open>Channel cost rates\<close>

text \<open>
  The twelve scalars of a pricing entry. For the field \<open>f\<close> the arguments of the source are
  \<open>optionVal f\<close> (\<^verbatim>\<open>optionModelRatio\<close>, ...), \<open>channelMap f\<close> (\<^verbatim>\<open>channelModelRatioMap\<close>, ...)
  and \<open>globalVal f\<close> (\<^verbatim>\<open>globalModelRatio\<close>, ...).
\<close>

datatype rate_field = ModelRatio | CompletionRatio | CacheRatio | CreateCacheRatio | ModelPrice
  | ImageRatio | ImagePrice | AudioRatio | AudioCompletionRatio
  | VideoRatio | VideoCompletionRatio | VideoPrice

record cost_args =
  channelId :: jsval
  modelName :: jsval
  optionVal :: "rate_field \<Rightarrow> jsval"
  channelMap :: "rate_field \<Rightarrow> jsval"
  globalVal :: "rate_field \<Rightarrow> jsval"
  priceDiscountPercent :: jsval
  skipImageTokenPricing :: bool
  skipImageFlatSimple :: bool
  skipVideoTokenPricing :: bool
  skipVideoFlatSimple :: bool
  quotaType :: jsval

text \<open>Defaults of the destructured parameters: an absent argument is \<^verbatim>\<open>undefined\<close>.\<close>

definition default_arg :: "jsval \<Rightarrow> jsval \<Rightarrow> jsval" where
  "default_arg v d = (if v = Undef then d else v)"

definition global_default :: "rate_field \<Rightarrow> jsval" where
  "global_default f =
     (case f of ModelRatio \<Rightarrow> Num (Fin 0) | ModelPrice \<Rightarrow> Num (Fin 0) | CompletionRatio \<Rightarrow> Num (Fin 0)
      | CacheRatio \<Rightarrow> Num (Fin 0) | CreateCacheRatio \<Rightarrow> Num (Fin 0)
      | ImagePrice \<Rightarrow> Num (Fin (-1)) | VideoPrice \<Rightarrow> Num (Fin (-1)) | _ \<Rightarrow> Undef)"

definition global_of :: "cost_args \<Rightarrow> rate_field \<Rightarrow> jsval" where
  "global_of a f = default_arg (globalVal a f) (global_default f)"

record cost_item =
  item_key :: string
  labelKey :: string
  displayUsdPerM :: jsnum
  isFixedPrice :: bool
  fixedUnitKey :: "string option"

definition token_item :: "string \<Rightarrow> string \<Rightarrow> jsnum \<Rightarrow> cost_item" where
  "token_item k l x =
     \<lparr>item_key = k, labelKey = l, displayUsdPerM = x, isFixedPrice = False, fixedUnitKey = None\<rparr>"

text \<open>The two local helpers that append an item, as the list of what they append.\<close>

definition pushTokenCostItem :: "string \<Rightarrow> string \<Rightarrow> jsnum \<Rightarrow> cost_item list" where
  "pushTokenCostItem k l usdPerM =
     (if \<not> is_finite usdPerM \<or> js_le usdPerM (Fin 0) then [] else [token_item k l usdPerM])"

definition pushFixedCostItem :: "jsnum \<Rightarrow> string \<Rightarrow> string \<Rightarrow> jsnum \<Rightarrow> string \<Rightarrow> cost_item list" where
  "pushFixedCostItem costDisc k l usdAmount unit =
     (if \<not> is_finite usdAmount \<or> js_lt usdAmount (Fin 0) then []
      else [\<lparr>item_key = k, labelKey = l, displayUsdPerM = js_mul usdAmount costDisc,
             isFixedPrice = True, fixedUnitKey = Some unit\<rparr>])"

definition resolve_field :: "cost_args \<Rightarrow> rate_field \<Rightarrow> jsval \<Rightarrow> jsnum option" where
  "resolve_field a f globalValue =
     resolveCostOptionChannelScalar (optionVal a f) (channelMap a f) (channelId a) (modelName a) globalValue"

definition price_fallback :: "jsval \<Rightarrow> jsval" where
  "price_fallback v =
     (if hasBillingRatioValue v \<and> js_le (Fin 0) (to_num v) then Num (to_num v) else Null)"

text \<open>The per-token items after the input price, each a function of the base ratio.\<close>

definition output_items :: "cost_args \<Rightarrow> jsnum \<Rightarrow> jsnum \<Rightarrow> cost_item list" where
  "output_items a costDisc baseMr =
     (case resolve_field a CompletionRatio (global_of a CompletionRatio) of
        Some r \<Rightarrow>
          if hasBillingRatioValue (global_of a CompletionRatio)
          then [token_item ''output'' lbl_output_price
                  (js_mul (js_mul (modelRatioToDisplayUsdPerM baseMr) r) costDisc)]
          else []
      | None \<Rightarrow> [])"

definition cache_read_items :: "cost_args \<Rightarrow> jsnum \<Rightarrow> jsnum \<Rightarrow> cost_item list" where
  "cache_read_items a costDisc baseMr =
     (case resolve_field a CacheRatio (global_of a CacheRatio) of
        Some r \<Rightarrow>
          if hasBillingRatioValue (global_of a CacheRatio)
          then [token_item ''cache_read'' lbl_cache_read_price
                  (js_mul (js_mul (modelRatioToDisplayUsdPerM baseMr) r) costDisc)]
          else []
      | None \<Rightarrow> [])"

definition cache_create_items :: "cost_args \<Rightarrow> jsnum \<Rightarrow> jsnum \<Rightarrow> cost_item list" where
  "cache_create_items a costDisc baseMr =
     (case resolve_field a CreateCacheRatio (global_of a CreateCacheRatio) of
        Some r \<Rightarrow>
          if hasBillingRatioValue (global_of a CreateCacheRatio)
          then pushTokenCostItem ''cache_create'' lbl_cache_create_price
                 (js_mul (js_mul (modelRatioToDisplayUsdPerM baseMr) r) costDisc)
          else []
      | None \<Rightarrow> [])"

definition image_items :: "cost_args \<Rightarrow> jsnum \<Rightarrow> jsnum \<Rightarrow> cost_item list" where
  "image_items a costDisc baseMr =
     (if \<not> skipImageTokenPricing a \<and> hasBillingRatioValue (global_of a ImageRatio)
      then (case resolve_field a ImageRatio (global_of a ImageRatio) of
              Some r \<Rightarrow> pushTokenCostItem ''image'' lbl_image_input_price
                (js_mul (js_mul (modelRatioToDisplayUsdPerM baseMr) r) costDisc)
            | None \<Rightarrow> [])
      else [])"

definition image_flat_items :: "cost_args \<Rightarrow> jsnum \<Rightarrow> cost_item list" where
  "image_flat_items a costDisc =
     (if \<not> skipImageFlatSimple a
      then (case resolve_field a ImagePrice (price_fallback (global_of a ImagePrice)) of
              Some x \<Rightarrow> if js_lt (Fin 0) x
                then pushFixedCostItem costDisc ''image_flat'' lbl_image_price x unit_sheets else []
            | None \<Rightarrow> [])
      else [])"

definition media_token_items ::
  "cost_args \<Rightarrow> jsnum \<Rightarrow> jsnum \<Rightarrow> rate_field \<Rightarrow> rate_field \<Rightarrow> string \<times> string \<Rightarrow> string \<times> string \<Rightarrow> cost_item list" where
  "media_token_items a costDisc baseMr f fc inp out =
     (if hasBillingRatioValue (global_of a f)
      then (case resolve_field a f (global_of a f) of
              Some r \<Rightarrow>
                pushTokenCostItem (fst inp) (snd inp)
                  (js_mul (js_mul (modelRatioToDisplayUsdPerM baseMr) r) costDisc) @
                (if hasBillingRatioValue (global_of a fc)
                 then (case resolve_field a fc (global_of a fc) of
                         Some rc \<Rightarrow> pushTokenCostItem (fst out) (snd out)
                           (js_mul (js_mul (js_mul (modelRatioToDisplayUsdPerM baseMr) r) rc) costDisc)
                       | None \<Rightarrow> [])
                 else [])
            | None \<Rightarrow> [])
      else [])"

definition audio_items :: "cost_args \<Rightarrow> jsnum \<Rightarrow> jsnum \<Rightarrow> cost_item list" where
  "audio_items a costDisc baseMr =
     media_token_items a costDisc baseMr AudioRatio AudioCompletionRatio
       (''audio_input'', lbl_audio_input_price) (''audio_output'', lbl_audio_output_price)"

definition video_items :: "cost_args \<Rightarrow> jsnum \<Rightarrow> jsnum \<Rightarrow> cost_item list" where
  "video_items a costDisc baseMr =
     (if \<not> skipVideoTokenPricing a
      then media_token_items a costDisc baseMr VideoRatio VideoCompletionRatio
             (''video_input'', lbl_video_input_price) (''video_output'', lbl_video_output_price)
      else [])"

definition video_flat_items :: "cost_args \<Rightarrow> jsnum \<Rightarrow> cost_item list" where
  "video_flat_items a costDisc =
     (if \<not> skipVideoFlatSimple a
      then (case resolve_field a VideoPrice (price_fallback (global_of a VideoPrice)) of
              Some x \<Rightarrow> if js_lt (Fin 0) x
                then pushFixedCostItem costDisc ''video_flat'' lbl_video_price x unit_times else []
            | None \<Rightarrow> [])
      else [])"

definition computeChannelCostRates :: "cost_args \<Rightarrow> cost_item list" where
  "computeChannelCostRates a =
     (let costDisc = costDiscountMultiplier (default_arg (priceDiscountPercent a) (Num (Fin 100)))
      in if \<not> strict_eq (default_arg (quotaType a) (Num (Fin 0))) (Num (Fin 0))
         then (case resolve_field a ModelPrice (global_of a ModelPrice) of
                 Some baseMp \<Rightarrow>
                   if js_le (Fin 0) baseMp
                   then [\<lparr>item_key = ''model_price'', labelKey = lbl_model_price,
                          displayUsdPerM = js_mul baseMp costDisc, isFixedPrice = True,
                          fixedUnitKey = None\<rparr>]
                   else []
               | None \<Rightarrow> [])
         else (case resolve_field a ModelRatio (global_of a ModelRatio) of
                 None \<Rightarrow> []
               | Some baseMr \<Rightarrow>
                   [token_item ''input'' lbl_input_price
                      (js_mul (modelRatioToDisplayUsdPerM baseMr) costDisc)] @
                   output_items a costDisc baseMr @
                   cache_read_items a costDisc baseMr @
                   cache_create_items a costDisc baseMr @
                   image_items a costDisc baseMr @
                   image_flat_items a costDisc @
                   audio_items a costDisc baseMr @
                   video_items a costDisc baseMr @
                   video_flat_items a costDisc))"

section \<open>Channel billing rates\<close>

record billing_args =
  channelModelRatio :: jsval
  channelCompletionRatio :: jsval
  channelCacheRatio :: jsval
  channelCreateCacheRatio :: jsval
  channelCreateCacheRatio5m :: jsval
  channelCreateCacheRatio1h :: jsval
  channelModelPrice :: jsval
  discountPercent :: jsval
  markupDiscountPercent :: jsval
  globalModelRatio :: jsval
  globalModelPrice :: jsval
  globalCompletionRatio :: jsval
  globalCacheRatio :: jsval
  globalCreateCacheRatio :: jsval

record billing_rates =
  costDisc :: jsnum
  markupRate :: jsnum
  effInputRate :: jsnum
  effOutputRate :: jsnum
  effCacheReadRate :: jsnum
  effCacheCreateRate :: jsnum
  effCacheCreate5mRate :: jsnum
  effCacheCreate1hRate :: jsnum
  effModelPrice :: jsnum
  inputRatioPrice :: jsnum
  completionRatioPrice :: jsnum
  cacheRatioPrice :: jsnum
  cacheCreationRatioPrice :: jsnum
  cacheCreationRatioPrice5m :: jsnum
  cacheCreationRatioPrice1h :: jsnum
  mp :: jsnum
  mr :: jsnum

text \<open>\<open>ch * r * costDisc + gl * g * markupRate\<close>, evaluated left to right.\<close>

definition eff_rate :: "jsnum \<Rightarrow> jsnum \<Rightarrow> jsnum \<Rightarrow> jsnum \<Rightarrow> jsnum \<Rightarrow> jsnum \<Rightarrow> jsnum" where
  "eff_rate ch r cd gl g mk = js_add (js_mul (js_mul ch r) cd) (js_mul (js_mul gl g) mk)"

definition computeChannelBillingRates :: "billing_args \<Rightarrow> billing_rates" where
  "computeChannelBillingRates a =
     (let cd = costDiscountMultiplier (default_arg (discountPercent a) (Num (Fin 100)));
          mk = markupRateFromPercent (default_arg (markupDiscountPercent a) (Num (Fin 0)));
          chMr = numOrZero (channelModelRatio a);
          globalMr = numOrZero (globalModelRatio a);
          cr = numOrZero (channelCompletionRatio a);
          cacheR = numOrZero (channelCacheRatio a);
          createCacheR = numOrZero (channelCreateCacheRatio a);
          createCacheR5m = (if \<not> nullish (channelCreateCacheRatio5m a)
                            then numOrZero (channelCreateCacheRatio5m a) else createCacheR);
          createCacheR1h = (if \<not> nullish (channelCreateCacheRatio1h a)
                            then numOrZero (channelCreateCacheRatio1h a) else createCacheR);
          globalCR = numOrZero (globalCompletionRatio a);
          globalCacheR = numOrZero (globalCacheRatio a);
          globalCreateCacheR = numOrZero (globalCreateCacheRatio a);
          globalCreateCacheR1h = js_mul globalCreateCacheR CLAUDE_CACHE_CREATE_1H_GLOBAL_MULT;
          inp = js_add (js_mul chMr cd) (js_mul globalMr mk);
          out = eff_rate chMr cr cd globalMr globalCR mk;
          cacheRead = eff_rate chMr cacheR cd globalMr globalCacheR mk;
          create = eff_rate chMr createCacheR cd globalMr globalCreateCacheR mk;
          create5m = eff_rate chMr createCacheR5m cd globalMr globalCreateCacheR mk;
          create1h = eff_rate chMr createCacheR1h cd globalMr globalCreateCacheR1h mk;
          cmp = default_arg (channelModelPrice a) (Num (Fin (-1)));
          price = (if strict_eq cmp (Num (Fin (-1))) \<or> cmp = Null then Fin (-1)
                else js_add (js_mul (numOrZero cmp) cd) (js_mul (numOrZero (globalModelPrice a)) mk))
      in \<lparr>costDisc = cd, markupRate = mk, effInputRate = inp, effOutputRate = out,
          effCacheReadRate = cacheRead, effCacheCreateRate = create,
          effCacheCreate5mRate = create5m, effCacheCreate1hRate = create1h, effModelPrice = price,
          inputRatioPrice = js_mul inp (Fin 2), completionRatioPrice = js_mul out (Fin 2),
          cacheRatioPrice = js_mul cacheRead (Fin 2), cacheCreationRatioPrice = js_mul create (Fin 2),
          cacheCreationRatioPrice5m = js_mul create5m (Fin 2),
          cacheCreationRatioPrice1h = js_mul create1h (Fin 2), mp = price, mr = inp\<rparr>)"

section \<open>Consumption log\<close>

record log_args =
  modelRatio :: jsval
  completionRatio :: jsval
  cacheRatio :: jsval
  cacheCreationRatio :: jsval
  cacheCreationRatio5m :: jsval
  cacheCreationRatio1h :: jsval
  modelPrice :: jsval
  channelPriceDiscountPercent :: jsval
  billingMeta :: jsval

definition meta_or :: "jsval \<Rightarrow> string \<Rightarrow> jsval \<Rightarrow> jsval" where
  "meta_or meta k v = (if \<not> nullish (get meta k) then get meta k else v)"

definition resolveConsumeLogBillingRates :: "log_args \<Rightarrow> billing_rates" where
  "resolveConsumeLogBillingRates a =
     (let meta = (if truthy (billingMeta a) \<and> typeof_object (billingMeta a) then billingMeta a else Obj [])
      in computeChannelBillingRates
        \<lparr>channelModelRatio = meta_or meta ''model_ratio'' (default_arg (modelRatio a) (Num (Fin 0))),
         channelCompletionRatio =
           meta_or meta ''completion_ratio'' (default_arg (completionRatio a) (Num (Fin 0))),
         channelCacheRatio = meta_or meta ''cache_ratio'' (default_arg (cacheRatio a) (Num (Fin 0))),
         channelCreateCacheRatio =
           meta_or meta ''cache_creation_ratio'' (default_arg (cacheCreationRatio a) (Num (Fin 0))),
         channelCreateCacheRatio5m = meta_or meta ''cache_creation_ratio_5m'' (cacheCreationRatio5m a),
         channelCreateCacheRatio1h = meta_or meta ''cache_creation_ratio_1h'' (cacheCreationRatio1h a),
         channelModelPrice =
           (if \<not> nullish (get meta ''model_price'') \<and>
               \<not> strict_eq (get meta ''model_price'') (Num (Fin (-1)))
            then get meta ''model_price'' else default_arg (modelPrice a) (Num (Fin (-1)))),
         discountPercent =
           coalesce (get meta ''channel_price_discount_percent'')
             (coalesce (default_arg (channelPriceDiscountPercent a) (Num (Fin 100))) (Num (Fin 100))),
         markupDiscountPercent = get meta ''markup_discount_rate'',
         globalModelRatio = get meta ''global_model_ratio'',
         globalModelPrice = get meta ''global_model_price'',
         globalCompletionRatio = get meta ''global_completion_ratio'',
         globalCacheRatio = get meta ''global_cache_ratio'',
         globalCreateCacheRatio = get meta ''global_create_cache_ratio''\<rparr>)"

section \<open>Display currency\<close>

text \<open>\<open>ls\<close> is \<^verbatim>\<open>localStorage.getItem\<close>.\<close>

record currency_config =
  cur_symbol :: jsval
  cur_rate :: jsval
  cur_type :: string

definition status_of :: "(string \<Rightarrow> string option) \<Rightarrow> jsval option" where
  "status_of ls =
     (case ls ''status'' of None \<Rightarrow> None
      | Some s \<Rightarrow> if s = [] then None
          else (case json_parse s of Ok v \<Rightarrow> Some v | Throw _ \<Rightarrow> None))"

definition getBillingCurrencyConfig :: "(string \<Rightarrow> string option) \<Rightarrow> currency_config" where
  "getBillingCurrencyConfig ls =
     (let quotaDisplayType = (case ls ''quota_display_type'' of None \<Rightarrow> ''USD''
            | Some s \<Rightarrow> if s = [] then ''USD'' else s)
      in if quotaDisplayType = ''CNY''
         then \<lparr>cur_symbol = Str sym_yen,
               cur_rate = (case status_of ls of None \<Rightarrow> Num (Fin 1)
                 | Some s \<Rightarrow> js_or (get s ''usd_exchange_rate'') (Num (Fin 7))),
               cur_type = quotaDisplayType\<rparr>
         else if quotaDisplayType = ''CUSTOM''
         then (case status_of ls of
                 None \<Rightarrow> \<lparr>cur_symbol = Str ''$'', cur_rate = Num (Fin 1), cur_type = quotaDisplayType\<rparr>
               | Some s \<Rightarrow>
                   \<lparr>cur_symbol = js_or (get s ''custom_currency_symbol'') (Str sym_currency),
                    cur_rate = js_or (get s ''custom_currency_exchange_rate'') (Num (Fin 1)),
                    cur_type = quotaDisplayType\<rparr>)
         else \<lparr>cur_symbol = Str ''$'', cur_rate = Num (Fin 1), cur_type = quotaDisplayType\<rparr>)"

definition formatBillingUsdDisplay :: "(string \<Rightarrow> string option) \<Rightarrow> jsval \<Rightarrow> string \<Rightarrow> string" where
  "formatBillingUsdDisplay ls usdAmount tokenUnit =
     (let cfg = getBillingCurrencyConfig ls;
          unitDivisor = (if tokenUnit = ''K'' then Fin 1000 else Fin 1);
          raw = js_mul (num_or_0 (to_num usdAmount)) (to_num (cur_rate cfg))
      in if \<not> is_finite raw then to_str (cur_symbol cfg) @ ''0''
         else to_str (cur_symbol cfg) @ num_str (parse_float (to_fixed 2 (js_div raw unitDivisor))))"

section \<open>Order and range of products\<close>

text \<open>\<open>nle k x y\<close>: finite doubles with \<open>0 \<le> x \<le> y \<le> 2 ^ k\<close>.\<close>

definition nle :: "nat \<Rightarrow> jsnum \<Rightarrow> jsnum \<Rightarrow> bool" where
  "nle k x y = (case (x, y) of (Fin p, Fin q) \<Rightarrow> 0 \<le> p \<and> p \<le> q \<and> q \<le> pow2 (int k) | _ \<Rightarrow> False)"

lemma nle_iff: "nle k x y \<longleftrightarrow> (\<exists>p q. x = Fin p \<and> y = Fin q \<and> 0 \<le> p \<and> p \<le> q \<and> q \<le> pow2 (int k))"
  by (cases x; cases y) (auto simp: nle_def)

lemma nle_rnd:
  assumes "0 \<le> p" "p \<le> q" "q \<le> pow2 (int k)" "k \<le> 1023"
  shows "nle k (rnd p) (rnd q)"
proof -
  have d: "is_dbl (pow2 (int k))" using assms(4) by (simp add: is_dbl_iff on_grid_pow2)
  have "js_le (Fin 0) (rnd p)" "js_le (rnd p) (rnd q)" "js_le (rnd q) (Fin (pow2 (int k)))"
    using assms d by (auto intro: rnd_nonneg rnd_mono rnd_le_dbl)
  then show ?thesis by (cases "rnd p"; cases "rnd q") (auto simp: nle_def)
qed

lemma nle_mul:
  assumes "nle k x x'" "nle l y y'" "k + l \<le> 1023"
  shows "nle (k + l) (js_mul x y) (js_mul x' y')"
proof -
  from assms obtain p p' q q' where *: "x = Fin p" "x' = Fin p'" "y = Fin q" "y' = Fin q'"
      "0 \<le> p" "p \<le> p'" "p' \<le> pow2 (int k)" "0 \<le> q" "q \<le> q'" "q' \<le> pow2 (int l)"
    by (auto simp: nle_iff)
  then have "p * q \<le> p' * q'" "p' * q' \<le> pow2 (int k) * pow2 (int l)" by (auto intro!: mult_mono)
  with * assms(3) show ?thesis by (auto intro!: nle_rnd simp: pow2_add)
qed

lemma nle_add:
  assumes "nle k x x'" "nle k y y'" "k < 1023"
  shows "nle (Suc k) (js_add x y) (js_add x' y')"
proof -
  have "pow2 (int (Suc k)) = 2 * pow2 (int k)" using pow2_add [of 1 "int k"] by (simp add: pow2_def [of 1])
  with assms show ?thesis by (auto simp: nle_iff [of k] intro!: nle_rnd)
qed

lemma nle_mono: "nle k x y \<Longrightarrow> k \<le> l \<Longrightarrow> nle l x y"
  unfolding nle_iff by (metis order_trans of_nat_le_iff pow2_le_iff)

lemma nle_div100:
  assumes "nle k x y" "k \<le> 1023"
  shows "nle k (js_div x (Fin 100)) (js_div y (Fin 100))"
proof -
  have "q / 100 \<le> pow2 (int k)" if "q \<le> pow2 (int k)" for q
    using that pow2_pos [of "int k"] by (simp add: field_simps, linarith)
  with assms show ?thesis by (auto simp: nle_iff [of k x] intro!: nle_rnd divide_right_mono)
qed

lemma nle_Fin_1 [simp]: "nle k (Fin 1) (Fin 1)"
  using pow2_le_iff [of 0 "int k"] by (simp add: nle_def del: pow2_le_iff)

lemma nle_finite: "nle k x y \<Longrightarrow> is_finite x \<and> is_finite y"
  by (auto simp: nle_iff)

lemma nle_js_le: "nle k x y \<Longrightarrow> js_le (Fin 0) x \<and> js_le x y"
  by (auto simp: nle_iff)

lemma nle_cost_discount:
  assumes "nle k (to_num v) (to_num w)" "to_num v \<noteq> Fin 0" "k \<le> 1023"
  shows "nle k (costDiscountMultiplier v) (costDiscountMultiplier w)"
  using assms nle_div100 [OF assms(1,3)]
  by (auto simp: costDiscountMultiplier_def nle_iff [of k "to_num v"])

lemma nle_num_or_0: "nle k x y \<Longrightarrow> nle k (num_or_0 x) (num_or_0 y)"
  by (auto simp: nle_iff num_or_0_def truthy_num_def)

lemma nle_markup:
  assumes "nle k (to_num v) (to_num w)" "k \<le> 1023"
  shows "nle k (markupRateFromPercent v) (markupRateFromPercent w)"
  using assms by (simp add: markupRateFromPercent_def nle_div100 nle_num_or_0)

lemma nle_mult_1h: "nle 1 CLAUDE_CACHE_CREATE_1H_GLOBAL_MULT CLAUDE_CACHE_CREATE_1H_GLOBAL_MULT"
  unfolding CLAUDE_CACHE_CREATE_1H_GLOBAL_MULT_def by (auto intro!: nle_rnd simp: pow2_def)

lemma nle_eff_rate:
  assumes "nle 200 ch ch'" "nle 201 r r'" "nle 200 cd cd'" "nle 200 gl gl'" "nle 201 g g'" "nle 200 mk mk'"
  shows "nle 602 (eff_rate ch r cd gl g mk) (eff_rate ch' r' cd' gl' g' mk')"
proof -
  have "nle 601 (js_mul (js_mul ch r) cd) (js_mul (js_mul ch' r') cd')"
    using nle_mul [OF nle_mul [OF assms(1,2)] assms(3)] by simp
  moreover have "nle 601 (js_mul (js_mul gl g) mk) (js_mul (js_mul gl' g') mk')"
    using nle_mul [OF nle_mul [OF assms(4,5)] assms(6)] by simp
  ultimately show ?thesis using nle_add [of 601] by (simp add: eff_rate_def)
qed

section \<open>Monotonicity of the billing rates\<close>

text \<open>
  \<open>billing_le a b\<close>: every ratio, price and percentage of \<open>a\<close> is at most that of \<open>b\<close>, all of them
  finite, non-negative and at most \<open>2 ^ 200\<close>, so that no product overflows; the optional arguments
  are given by both or by neither.
\<close>

definition no_price :: "jsval \<Rightarrow> bool" where
  "no_price v \<longleftrightarrow> nullish v \<or> strict_eq v (Num (Fin (-1)))"

definition billing_le :: "billing_args \<Rightarrow> billing_args \<Rightarrow> bool" where
  "billing_le a b \<longleftrightarrow>
     list_all (\<lambda>f. nle 200 (numOrZero (f a)) (numOrZero (f b)))
       [channelModelRatio, channelCompletionRatio, channelCacheRatio, channelCreateCacheRatio,
        channelCreateCacheRatio5m, channelCreateCacheRatio1h, globalModelRatio, globalModelPrice,
        globalCompletionRatio, globalCacheRatio, globalCreateCacheRatio] \<and>
     nle 200 (to_num (discountPercent a)) (to_num (discountPercent b)) \<and>
     to_num (discountPercent a) \<noteq> Fin 0 \<and>
     nle 200 (to_num (markupDiscountPercent a)) (to_num (markupDiscountPercent b)) \<and>
     list_all (\<lambda>f. nullish (f a) = nullish (f b))
       [channelCreateCacheRatio5m, channelCreateCacheRatio1h] \<and>
     (if no_price (channelModelPrice a) then no_price (channelModelPrice b)
      else \<not> no_price (channelModelPrice b) \<and>
        nle 200 (numOrZero (channelModelPrice a)) (numOrZero (channelModelPrice b)))"

lemma nle_default_percent:
  "nle k (to_num v) (to_num w) \<Longrightarrow> default_arg v d = v \<and> default_arg w d = w"
  by (auto simp: default_arg_def nle_iff to_num_simps)

lemma no_price_iff:
  "strict_eq (default_arg v (Num (Fin (-1)))) (Num (Fin (-1))) \<or> default_arg v (Num (Fin (-1))) = Null \<longleftrightarrow>
   no_price v"
  by (cases v) (auto simp: default_arg_def no_price_def nullish_def num_eq_def)

lemma price_given:
  "\<not> no_price v \<Longrightarrow> default_arg v d = v \<and> \<not> strict_eq v (Num (Fin (-1))) \<and> v \<noteq> Null"
  by (auto simp: no_price_def nullish_def default_arg_def)

lemmas rates_sel = computeChannelBillingRates_def Let_def billing_rates.simps

definition token_rates :: "(billing_rates \<Rightarrow> jsnum) list" where
  "token_rates = [effInputRate, effOutputRate, effCacheReadRate, effCacheCreateRate,
     effCacheCreate5mRate, effCacheCreate1hRate]"

lemma billing_le_parts:
  assumes "billing_le a b"
  shows "nle 200 (costDisc (computeChannelBillingRates a)) (costDisc (computeChannelBillingRates b))"
    and "nle 200 (markupRate (computeChannelBillingRates a)) (markupRate (computeChannelBillingRates b))"
proof -
  have d: "nle 200 (to_num (discountPercent a)) (to_num (discountPercent b))"
      "to_num (discountPercent a) \<noteq> Fin 0"
    and m: "nle 200 (to_num (markupDiscountPercent a)) (to_num (markupDiscountPercent b))"
    using assms by (auto simp: billing_le_def)
  show "nle 200 (costDisc (computeChannelBillingRates a)) (costDisc (computeChannelBillingRates b))"
    using nle_cost_discount [OF d] nle_default_percent [OF d(1)] by (simp add: rates_sel)
  show "nle 200 (markupRate (computeChannelBillingRates a)) (markupRate (computeChannelBillingRates b))"
    using nle_markup [OF m] nle_default_percent [OF m] by (simp add: rates_sel)
qed

lemma token_rates_mono:
  assumes "billing_le a b"
  shows "\<forall>f\<in>set token_rates. nle 602 (f (computeChannelBillingRates a)) (f (computeChannelBillingRates b))"
proof -
  let ?A = "computeChannelBillingRates a" and ?B = "computeChannelBillingRates b"
  have l: "nle 200 (numOrZero (f a)) (numOrZero (f b))"
    if "f \<in> {channelModelRatio, channelCompletionRatio, channelCacheRatio, channelCreateCacheRatio,
        channelCreateCacheRatio5m, channelCreateCacheRatio1h, globalModelRatio,
        globalCompletionRatio, globalCacheRatio, globalCreateCacheRatio}" for f
    using assms that by (auto simp: billing_le_def)
  have n: "nullish (channelCreateCacheRatio5m a) = nullish (channelCreateCacheRatio5m b)"
      "nullish (channelCreateCacheRatio1h a) = nullish (channelCreateCacheRatio1h b)"
    using assms by (auto simp: billing_le_def)
  note cd = billing_le_parts(1) [OF assms] and mk = billing_le_parts(2) [OF assms]
  have l1: "nle 201 x y" if "nle 200 x y" for x y using nle_mono [OF that] by simp
  have h: "nle 201 (js_mul (numOrZero (globalCreateCacheRatio a)) CLAUDE_CACHE_CREATE_1H_GLOBAL_MULT)
      (js_mul (numOrZero (globalCreateCacheRatio b)) CLAUDE_CACHE_CREATE_1H_GLOBAL_MULT)"
    using nle_mul [OF l nle_mult_1h, of globalCreateCacheRatio] by simp
  have "nle 602 (effInputRate ?A) (effInputRate ?B)"
    using nle_mono [OF nle_add [OF nle_mul [OF l cd, of channelModelRatio] nle_mul [OF l mk, of globalModelRatio]]]
    by (simp add: rates_sel)
  then show ?thesis
    using l h n cd mk by (auto simp: token_rates_def rates_sel intro!: nle_eff_rate l1)
qed


definition plain_args :: "rat \<Rightarrow> rat \<Rightarrow> billing_args" where
  "plain_args m d =
     \<lparr>channelModelRatio = Num (Fin m), channelCompletionRatio = Num (Fin 2), channelCacheRatio = Undef,
      channelCreateCacheRatio = Str [], channelCreateCacheRatio5m = Undef,
      channelCreateCacheRatio1h = Null, channelModelPrice = Num (Fin (-1)), discountPercent = Num (Fin d),
      markupDiscountPercent = Num (Fin 50), globalModelRatio = Num (Fin 2), globalModelPrice = Undef,
      globalCompletionRatio = Num (Fin 3), globalCacheRatio = Null, globalCreateCacheRatio = Num (Fin 1)\<rparr>"

lemma nle_small: "0 \<le> p \<Longrightarrow> p \<le> q \<Longrightarrow> q \<le> 1024 \<Longrightarrow> nle 200 (Fin p) (Fin q)"
  using pow2_le_iff [of 10 200] by (simp add: nle_def pow2_def [of 10] del: pow2_le_iff)


section \<open>The list price\<close>

lemma cost_discount_100: "costDiscountMultiplier (Num (Fin 100)) = Fin 1"
  by (simp add: costDiscountMultiplier_def to_num_simps)

lemma markup_0: "to_num v = Fin 0 \<Longrightarrow> markupRateFromPercent v = Fin 0"
  by (simp add: markupRateFromPercent_def num_or_0_def)

lemma mul_1: "wf_num x \<Longrightarrow> is_finite x \<Longrightarrow> js_mul x (Fin 1) = x"
  by (cases x) auto

lemma add_0: "wf_num x \<Longrightarrow> is_finite x \<Longrightarrow> js_add x (Fin 0) = x"
  by (cases x) auto

lemma mul_0: "is_finite x \<Longrightarrow> js_mul x (Fin 0) = Fin 0"
  by (cases x) auto

lemma numOrZero_finite [simp]: "is_finite (numOrZero v)"
  by (simp add: numOrZero_def Let_def)

text \<open>
  A channel at 100% cost and without markup is billed its own list price. The input rate is
  exactly the channel ratio and the output rate exactly the product of the channel ratio and its
  completion ratio; no global ratio contributes, whatever it is.
\<close>

theorem billing_rates_list_price:
  assumes "channelModelRatio a = Num (Fin m)" "channelCompletionRatio a = Num (Fin c)"
    and "is_dbl m" "is_finite (js_mul (Fin m) (Fin c))"
    and "is_finite (js_mul (numOrZero (globalModelRatio a)) (numOrZero (globalCompletionRatio a)))"
    and "discountPercent a = Num (Fin 100)" "to_num (markupDiscountPercent a) = Fin 0"
  shows "effInputRate (computeChannelBillingRates a) = Fin m \<and>
         effOutputRate (computeChannelBillingRates a) = js_mul (Fin m) (Fin c)"
proof -
  have "markupDiscountPercent a \<noteq> Undef" using assms(7) by (auto simp: to_num_simps)
  with assms have k: "costDiscountMultiplier (default_arg (discountPercent a) (Num (Fin 100))) = Fin 1"
      "markupRateFromPercent (default_arg (markupDiscountPercent a) (Num (Fin 0))) = Fin 0"
      "numOrZero (channelModelRatio a) = Fin m" "numOrZero (channelCompletionRatio a) = Fin c"
    by (simp_all add: default_arg_def cost_discount_100 markup_0 numOrZero_def nullish_def to_num_simps)
  have "js_add (js_mul (js_mul (Fin m) (Fin c)) (Fin 1)) (Fin 0) = js_mul (Fin m) (Fin c)"
    using assms(4) wf_num_mul [of "Fin m" "Fin c"] by (simp only: mul_1 add_0)
  then show ?thesis using k assms(3,5) by (simp add: rates_sel eff_rate_def mul_0 del: js_mul.simps(1)) simp
qed

theorem billing_rates_list_price_witness:
  "effInputRate (computeChannelBillingRates ((plain_args 3 100)\<lparr>markupDiscountPercent := Null\<rparr>)) = Fin 3"
  using billing_rates_list_price [of "(plain_args 3 100)\<lparr>markupDiscountPercent := Null\<rparr>" 3 2]
  by (simp add: plain_args_def to_num_simps numOrZero_def nullish_def)

section \<open>The consumption log\<close>

text \<open>The metadata a log row carries for a call billed with the arguments \<open>b\<close>.\<close>

definition log_meta :: "billing_args \<Rightarrow> jsval" where
  "log_meta b = Obj
     [(''model_ratio'', channelModelRatio b), (''completion_ratio'', channelCompletionRatio b),
      (''cache_ratio'', channelCacheRatio b), (''cache_creation_ratio'', channelCreateCacheRatio b),
      (''cache_creation_ratio_5m'', channelCreateCacheRatio5m b),
      (''cache_creation_ratio_1h'', channelCreateCacheRatio1h b),
      (''model_price'', channelModelPrice b),
      (''channel_price_discount_percent'', discountPercent b),
      (''markup_discount_rate'', markupDiscountPercent b),
      (''global_model_ratio'', globalModelRatio b), (''global_model_price'', globalModelPrice b),
      (''global_completion_ratio'', globalCompletionRatio b),
      (''global_cache_ratio'', globalCacheRatio b),
      (''global_create_cache_ratio'', globalCreateCacheRatio b)]"

lemma numOrZero_nullish: "nullish v \<Longrightarrow> numOrZero v = Fin 0"
  by (simp add: numOrZero_def)

lemma numOrZero_default_0: "numOrZero (default_arg v (Num (Fin 0))) = numOrZero v"
  by (simp add: default_arg_def numOrZero_def nullish_def to_num_simps)

text \<open>
  C16: The log view and the price card agree. For a log row whose metadata records the arguments of
  a billed call, and whatever stale ratios the row also carries, the rates of
  \<^verbatim>\<open>resolveConsumeLogBillingRates\<close> are those of \<^verbatim>\<open>computeChannelBillingRates\<close> on the
  recorded arguments.
\<close>

theorem log_rates_eq_card_rates:
  assumes "list_all (\<lambda>f. \<not> nullish (f b))
      [channelModelRatio, channelCompletionRatio, channelCacheRatio, channelCreateCacheRatio,
       channelCreateCacheRatio5m, channelCreateCacheRatio1h, discountPercent]"
    and "billingMeta a = log_meta b"
    and "no_price (channelModelPrice b) \<longrightarrow> no_price (modelPrice a)"
  shows "resolveConsumeLogBillingRates a = computeChannelBillingRates b"
proof -
  have m: "truthy (log_meta b) \<and> typeof_object (log_meta b)" by (simp add: log_meta_def typeof_object_def)
  let ?p = "if \<not> nullish (channelModelPrice b) \<and> \<not> strict_eq (channelModelPrice b) (Num (Fin (-1)))
      then channelModelPrice b else default_arg (modelPrice a) (Num (Fin (-1)))"
  have e: "computeChannelBillingRates (b\<lparr>channelModelPrice := ?p\<rparr>) = computeChannelBillingRates b"
  proof (cases "no_price (channelModelPrice b)")
    case True
    moreover from this assms(3) have "no_price (modelPrice a)" by simp
    then have "no_price (default_arg (modelPrice a) (Num (Fin (-1))))"
      by (auto simp: no_price_def default_arg_def num_eq_def)
    moreover have "?p = default_arg (modelPrice a) (Num (Fin (-1)))"
      using True by (auto simp: no_price_def)
    ultimately show ?thesis
      by (simp add: computeChannelBillingRates_def no_price_iff Let_def)
  next
    case False
    then show ?thesis by (simp add: no_price_def)
  qed
  have "resolveConsumeLogBillingRates a = computeChannelBillingRates (b\<lparr>channelModelPrice := ?p\<rparr>)"
    using assms(1,2) m
    by (cases b) (simp add: resolveConsumeLogBillingRates_def Let_def log_meta_def meta_or_def get_def coalesce_def)
  with e show ?thesis by simp
qed

theorem log_rates_eq_card_rates_witness:
  "let b = (plain_args 3 100)\<lparr>channelCacheRatio := Num (Fin 1), channelCreateCacheRatio5m := Num (Fin 1),
             channelCreateCacheRatio1h := Num (Fin 2)\<rparr>;
       a = \<lparr>modelRatio = Num (Fin 7), completionRatio = Undef, cacheRatio = Undef,
            cacheCreationRatio = Undef, cacheCreationRatio5m = Undef, cacheCreationRatio1h = Undef,
            modelPrice = Undef, channelPriceDiscountPercent = Undef, billingMeta = log_meta b\<rparr>
   in resolveConsumeLogBillingRates a = computeChannelBillingRates b"
  unfolding Let_def
  by (rule log_rates_eq_card_rates) (simp_all add: plain_args_def nullish_def no_price_def)

section \<open>The cost items\<close>

definition cost_keys :: "string list" where
  "cost_keys = [''input'', ''output'', ''cache_read'', ''cache_create'', ''image'', ''image_flat'',
     ''audio_input'', ''audio_output'', ''video_input'', ''video_output'', ''video_flat'']"

lemma subseq_app2: "subseq xs ys \<Longrightarrow> subseq xs' ys' \<Longrightarrow> subseq (xs @ xs') (ys @ ys')"
  by (rule list_emb_append_mono)

lemma push_keys:
  "subseq (map item_key (pushTokenCostItem k l x)) [k]"
  "subseq (map item_key (pushFixedCostItem c k l x u)) [k]"
  by (auto simp: pushTokenCostItem_def pushFixedCostItem_def token_item_def)

lemma part_keys:
  "subseq (map item_key (output_items a c m)) [''output'']"
  "subseq (map item_key (cache_read_items a c m)) [''cache_read'']"
  "subseq (map item_key (cache_create_items a c m)) [''cache_create'']"
  "subseq (map item_key (image_items a c m)) [''image'']"
  "subseq (map item_key (image_flat_items a c)) [''image_flat'']"
  "subseq (map item_key (video_flat_items a c)) [''video_flat'']"
  by (auto simp: output_items_def cache_read_items_def cache_create_items_def image_items_def
      image_flat_items_def video_flat_items_def token_item_def push_keys split: option.splits)

lemma media_keys: "subseq (map item_key (media_token_items a c m f fc i out)) ([fst i] @ [fst out])"
proof -
  have 1: "subseq (map item_key (pushTokenCostItem (fst i) (snd i) x) @ ks) ([fst i] @ [fst out])"
    if "subseq ks [fst out]" for x ks using that by (intro subseq_app2 push_keys)
  show ?thesis
    using 1 [of "[]"] 1 [OF push_keys(1)]
    by (auto simp: media_token_items_def split: option.splits)
qed

lemma distinct_subseq: "subseq xs ys \<Longrightarrow> distinct ys \<Longrightarrow> distinct xs"
  by (metis distinct_nthsI subseq_conv_nths)

lemma av_keys:
  "subseq (map item_key (audio_items a c m)) [''audio_input'', ''audio_output'']"
  "subseq (map item_key (video_items a c m)) [''video_input'', ''video_output'']"
  using media_keys [of a c m AudioRatio AudioCompletionRatio "(''audio_input'', lbl_audio_input_price)"
      "(''audio_output'', lbl_audio_output_price)"]
    media_keys [of a c m VideoRatio VideoCompletionRatio "(''video_input'', lbl_video_input_price)"
      "(''video_output'', lbl_video_output_price)"]
  by (auto simp: audio_items_def video_items_def)

text \<open>
  The cost breakdown lists each price at most once and in the fixed display order: the keys are
  a subsequence of the eleven token keys, or, for a model billed per request, at most the single
  key \<^verbatim>\<open>model_price\<close>.
\<close>

theorem cost_items_order:
  "subseq (map item_key (computeChannelCostRates a))
     (if strict_eq (default_arg (quotaType a) (Num (Fin 0))) (Num (Fin 0)) then cost_keys else [''model_price''])
   \<and> distinct (map item_key (computeChannelCostRates a))"
proof -
  have split: "cost_keys = [''input''] @ [''output''] @ [''cache_read''] @ [''cache_create''] @ [''image''] @
      [''image_flat''] @ [''audio_input'', ''audio_output''] @ [''video_input'', ''video_output''] @
      [''video_flat'']" by (simp add: cost_keys_def)
  have k: "subseq (map item_key (computeChannelCostRates a))
     (if strict_eq (default_arg (quotaType a) (Num (Fin 0))) (Num (Fin 0)) then cost_keys else [''model_price''])"
    unfolding split computeChannelCostRates_def Let_def
    by (auto split: option.splits simp del: append.simps intro!: subseq_app2 part_keys av_keys simp: token_item_def)
  moreover have "distinct cost_keys" by (simp add: cost_keys_def)
  ultimately show ?thesis using distinct_subseq [OF k] by simp
qed

section \<open>Cost price and billed price\<close>

text \<open>
  In the normal range doubling commutes with rounding. The cost breakdown doubles the ratio first
  and the price card doubles the rate last; the two orders give the same double.
\<close>

definition in_range :: "rat \<Rightarrow> bool" where
  "in_range q \<longleftrightarrow> q = 0 \<or> pow2 (-1022) \<le> \<bar>q\<bar> \<and> \<bar>q\<bar> \<le> pow2 1000"

lemma pow2_Suc: "pow2 (e + 1) = 2 * pow2 e"
  by (simp add: pow2_add pow2_def [of 1])

lemma ilog2_double: "0 < q \<Longrightarrow> ilog2 (2 * q) = ilog2 q + 1"
  using ilog2_bounds [of q] pow2_Suc [of "ilog2 q"] pow2_Suc [of "ilog2 q + 1"]
  by (intro ilog2_unique) linarith+

lemma grid_round_double:
  assumes "pow2 (-1022) \<le> \<bar>q\<bar>"
  shows "grid_round (2 * q) = 2 * grid_round q"
proof -
  have q: "0 < \<bar>q\<bar>" using assms pow2_pos [of "-1022"] by linarith
  have "-1022 \<le> ilog2 \<bar>q\<bar>"
    using assms ilog2_bounds(2) [OF q] pow2_less_iff [of "-1022" "ilog2 \<bar>q\<bar> + 1"] by linarith
  then have e: "expo (2 * q) = expo q + 1"
    using ilog2_double [OF q] by (simp add: expo_def abs_mult)
  have p: "pow2 (expo q + 1) = 2 * pow2 (expo q)" by (simp add: pow2_add pow2_def [of 1])
  show ?thesis using q by (simp add: grid_round_def e p)
qed

lemma grid_round_in_range: "in_range q \<Longrightarrow> grid_round (2 * q) = 2 * grid_round q"
  by (auto simp: in_range_def grid_round_double)

lemma in_range_bound: "in_range q \<Longrightarrow> \<bar>q\<bar> \<le> pow2 1000"
  by (auto simp: in_range_def)

lemma grid_round_abs_le: "\<bar>q\<bar> \<le> pow2 e \<Longrightarrow> -1074 \<le> e \<Longrightarrow> \<bar>grid_round q\<bar> \<le> pow2 e"
  using grid_round_le_grid [of q "pow2 e"] grid_round_ge_grid [of "- pow2 e" q]
  by (simp add: on_grid_pow2 abs_le_iff)

lemma rnd_in_range:
  assumes "in_range q"
  shows "rnd q = Fin (grid_round q)" and "rnd (2 * q) = Fin (2 * grid_round q)"
proof -
  have b: "\<bar>grid_round q\<bar> \<le> pow2 1000" using in_range_bound [OF assms] by (rule grid_round_abs_le) simp
  have p: "pow2 1000 < pow2 1024" "2 * pow2 1000 < pow2 1024"
    using pow2_less [of "1000 + 1" 1024] unfolding pow2_Suc by simp_all
  show "rnd q = Fin (grid_round q)" using b p unfolding rnd_def clip_def by (auto simp: abs_le_iff)
  show "rnd (2 * q) = Fin (2 * grid_round q)"
    using b p unfolding rnd_def clip_def grid_round_in_range [OF assms] by (auto simp: abs_le_iff)
qed

lemma mul_double_left:
  assumes "in_range (p * q)"
  shows "js_mul (Fin (2 * p)) (Fin q) = js_mul (js_mul (Fin p) (Fin q)) (Fin 2)"
proof -
  have d: "is_dbl (grid_round (p * q))" using rnd_in_range(1) [OF assms] by (rule rnd_Fin_dbl)
  have "rnd (2 * grid_round (p * q)) = Fin (2 * grid_round (p * q))"
    using rnd_in_range(2) [OF assms] rnd_double [OF d] rnd_Fin_dbl [of "2 * (p * q)"] by simp
  then show ?thesis using rnd_in_range [OF assms] by (simp add: mult.assoc mult.commute [of _ 2])
qed

lemma mul_2: "is_dbl p \<Longrightarrow> \<bar>p\<bar> \<le> pow2 1000 \<Longrightarrow> js_mul (Fin p) (Fin 2) = Fin (2 * p)"
  using rnd_double_exact [of p] le_less_trans [OF _ pow2_less, of "\<bar>p\<bar>" 1000 1023]
  by (simp add: mult.commute [of _ 2])

text \<open>
  C15: The cost breakdown and the price card show the same price. For a channel without markup,
  billed with the ratio the cost breakdown resolved, the input item of
  \<^verbatim>\<open>computeChannelCostRates\<close> is the \<^verbatim>\<open>inputRatioPrice\<close> of
  \<^verbatim>\<open>computeChannelBillingRates\<close>, to the last bit, although the two multiply by 2 at
  different points. The range condition excludes only overflow and subnormal products.
\<close>

theorem cost_input_eq_billing_input:
  assumes "strict_eq (default_arg (quotaType a) (Num (Fin 0))) (Num (Fin 0))"
    and "resolve_field a ModelRatio (global_of a ModelRatio) = Some (Fin m)"
    and "is_dbl m" "\<bar>m\<bar> \<le> pow2 1000"
    and "channelModelRatio b = Num (Fin m)" "discountPercent b = priceDiscountPercent a"
    and "costDiscountMultiplier (default_arg (priceDiscountPercent a) (Num (Fin 100))) = Fin cd"
    and "in_range (m * cd)"
    and "to_num (markupDiscountPercent b) = Fin 0"
  shows "displayUsdPerM (hd (computeChannelCostRates a)) = inputRatioPrice (computeChannelBillingRates b)"
proof -
  have mk: "markupRateFromPercent (default_arg (markupDiscountPercent b) (Num (Fin 0))) = Fin 0"
    using assms(9) by (auto simp: default_arg_def markup_0 to_num_simps)
  have m: "numOrZero (channelModelRatio b) = Fin m"
    using assms(5) by (simp add: numOrZero_def nullish_def to_num_simps)
  have cost: "displayUsdPerM (hd (computeChannelCostRates a)) = js_mul (Fin (2 * m)) (Fin cd)"
    using assms(1,2,7) mul_2 [OF assms(3,4)]
    by (simp add: computeChannelCostRates_def Let_def token_item_def modelRatioToDisplayUsdPerM_def
        del: js_mul.simps(1))
  have f: "is_finite (js_mul (Fin m) (Fin cd))" using rnd_in_range(1) [OF assms(8)] by simp
  have "inputRatioPrice (computeChannelBillingRates b) = js_mul (js_mul (Fin m) (Fin cd)) (Fin 2)"
    using m mk assms(6,7) add_0 [OF wf_num_mul f]
    by (simp add: rates_sel mul_0 del: js_mul.simps(1))
  then show ?thesis using cost mul_double_left [OF assms(8)] by simp
qed

definition plain_cost :: cost_args where
  "plain_cost = \<lparr>channelId = Str ''7'', modelName = Str ''gpt-4-gizmo-x'', optionVal = (\<lambda>_. Undef),
     channelMap = (\<lambda>f. if f = ModelRatio
       then Obj [(''7'', Obj [(''gpt-4-gizmo-*'', Num (Fin 3))])] else Undef),
     globalVal = (\<lambda>_. Num (Fin 1)), priceDiscountPercent = Num (Fin 50),
     skipImageTokenPricing = False, skipImageFlatSimple = True, skipVideoTokenPricing = True,
     skipVideoFlatSimple = True, quotaType = Num (Fin 0)\<rparr>"

lemma half_dbl: "rnd (1 / 2) = Fin (1 / 2)"
  using is_dbl_dyadic [of 1 1] by simp

lemma three_halves_in_range: "in_range (3 / 2)"
proof -
  have "pow2 (-1022) \<le> 1" "2 \<le> pow2 1000"
    using pow2_le_iff [of "-1022" 0] pow2_le_iff [of 1 1000] by (simp_all add: pow2_def [of 1] del: pow2_le_iff)
  then show ?thesis by (simp add: in_range_def)
qed

theorem cost_input_eq_billing_input_witness:
  "displayUsdPerM (hd (computeChannelCostRates plain_cost)) =
   inputRatioPrice (computeChannelBillingRates ((plain_args 3 50)\<lparr>markupDiscountPercent := Null\<rparr>))"
proof (rule cost_input_eq_billing_input [where m = 3 and cd = "1 / 2"])
  show "resolve_field plain_cost ModelRatio (global_of plain_cost ModelRatio) = Some (Fin 3)"
    by (simp add: resolve_field_def plain_cost_def resolveCostOptionChannelScalar_def hasBillingRatioValue_def
        pickChannelScopedModelFloat_def readChannelScopedModelFloat_def formatMatchingModelName_def
        get_def nullish_def typeof_object_def finite_number_def opt_num_def to_num_simps)
  have "3 \<le> pow2 1000"
    using pow2_le_iff [of 2 1000] by (simp add: pow2_def [of 2] del: pow2_le_iff)
  then show "\<bar>3\<bar> \<le> pow2 1000" by simp
qed (simp_all add: plain_cost_def plain_args_def default_arg_def num_eq_def costDiscountMultiplier_def
    to_num_simps half_dbl three_halves_in_range)

text \<open>
  A cost scalar is looked up in the documented order. The resolved value is the first usable
  one of the channel option, the channel map entry of the model (under its own name, then under the
  wildcard name of the gizmo families) and the global value; it is always a finite number, and the
  result is \<^verbatim>\<open>null\<close> exactly when none of the three is usable.
\<close>

theorem resolve_cost_precedence:
  "resolveCostOptionChannelScalar opt m cid name gl =
     map_option to_num (find hasBillingRatioValue [opt, opt_num (pickChannelScopedModelFloat m cid name), gl])
   \<and> (case resolveCostOptionChannelScalar opt m cid name gl of Some x \<Rightarrow> is_finite x | None \<Rightarrow> True)"
  by (auto simp: resolveCostOptionChannelScalar_def Let_def hasBillingRatioValue_def)

end
