(* ===== verification/Status_Code_Rules.thy ===== *)
theory Status_Code_Rules
  imports Js_Json Messages "HOL-Library.Char_ord" "HOL-Library.List_Lexorder"
    "HOL-Library.Product_Lexorder"
begin

text \<open>
  HTTP status code rules: the rule list parser of \<^verbatim>\<open>web/src/helpers/statusCodeRules.js\<close>, the
  redirect guard of \<^verbatim>\<open>web/src/components/table/channels/modals/statusCodeRiskGuard.js\<close> and the
  model list helper of \<^verbatim>\<open>web/src/hooks/channels/upstreamUpdateUtils.js\<close>.
\<close>

section \<open>Rule lists\<close>

record code_range =
  range_start :: nat
  range_end :: nat

record code_rules =
  rules_ok :: bool
  rules_ranges :: "code_range list"
  rules_tokens :: "string list"
  rules_normalized :: string
  rules_invalid :: "string list"

text \<open>\<^verbatim>\<open>Number.parseInt(s, 10)\<close> on a string of digits, and the integer in a number.\<close>

definition parse_int_digits :: "string \<Rightarrow> jsnum" where
  "parse_int_digits s = rnd (of_nat (digits_val s))"

definition int_of_num :: "jsnum \<Rightarrow> nat" where
  "int_of_num x = (case x of Fin q \<Rightarrow> nat \<lfloor>q\<rfloor> | _ \<Rightarrow> 0)"

definition isNumber :: "string \<Rightarrow> bool" where
  "isNumber s = all_digits s"

definition code_range_of :: "string \<Rightarrow> string \<Rightarrow> code_range option" where
  "code_range_of a b =
     (if \<not> isNumber a \<or> \<not> isNumber b then None
      else (let s = parse_int_digits a; e = parse_int_digits b
            in if \<not> is_finite s \<or> \<not> is_finite e then None
               else if js_lt e s then None
               else if js_lt s (Fin 100) \<or> js_lt (Fin 599) e then None
               else Some \<lparr>range_start = int_of_num s, range_end = int_of_num e\<rparr>))"

definition parseToken :: "string \<Rightarrow> code_range option" where
  "parseToken token =
     (let cleaned = filter (\<lambda>c. c \<noteq> CHR '' '') (trim token)
      in if cleaned = [] then None
         else if CHR ''-'' \<in> set cleaned
         then (case split_on CHR ''-'' cleaned of [a, b] \<Rightarrow> code_range_of a b | _ \<Rightarrow> None)
         else if \<not> isNumber cleaned then None
         else (let code = parse_int_digits cleaned
               in if \<not> is_finite code then None
                  else if js_lt code (Fin 100) \<or> js_lt (Fin 599) code then None
                  else Some \<lparr>range_start = int_of_num code, range_end = int_of_num code\<rparr>))"

text \<open>One turn of the merging loop; \<open>merged\<close> is never empty.\<close>

definition merge_step :: "code_range list \<Rightarrow> code_range \<Rightarrow> code_range list" where
  "merge_step merged current =
     (let lst = last merged
      in if range_start current \<le> range_end lst + 1
         then butlast merged @ [lst\<lparr>range_end := max (range_end lst) (range_end current)\<rparr>]
         else merged @ [current])"

definition mergeRanges :: "code_range list \<Rightarrow> code_range list" where
  "mergeRanges ranges =
     (case sort_key (\<lambda>r. (range_start r, range_end r)) ranges of
        [] \<Rightarrow> [] | r # rs \<Rightarrow> foldl merge_step [r] rs)"

definition range_token :: "code_range \<Rightarrow> string" where
  "range_token r =
     (if range_start r = range_end r then nat_str (range_start r)
      else nat_str (range_start r) @ ''-'' @ nat_str (range_end r))"

definition rule_segments :: "string \<Rightarrow> string list" where
  "rule_segments raw =
     filter (\<lambda>s. s \<noteq> [])
       (map trim (split_on CHR '',''
          (concat (map (\<lambda>ch. if ch = lbl_comma_wide then '','' else ch) (chars raw)))))"

definition parseHttpStatusCodeRules :: "jsval \<Rightarrow> code_rules" where
  "parseHttpStatusCodeRules input =
     (let raw = trim (to_str (coalesce input (Str [])))
      in if raw = []
         then \<lparr>rules_ok = True, rules_ranges = [], rules_tokens = [], rules_normalized = [],
               rules_invalid = []\<rparr>
         else
           (let segs = rule_segments raw;
                invalidTokens = filter (\<lambda>s. parseToken s = None) segs
            in if invalidTokens \<noteq> []
               then \<lparr>rules_ok = False, rules_ranges = [], rules_tokens = [], rules_normalized = raw,
                     rules_invalid = invalidTokens\<rparr>
               else
                 (let merged = mergeRanges (List.map_filter parseToken segs);
                      tokens = map range_token merged
                  in \<lparr>rules_ok = True, rules_ranges = merged, rules_tokens = tokens,
                      rules_normalized = join '','' tokens, rules_invalid = []\<rparr>)))"

section \<open>Redirect guard\<close>

definition NON_REDIRECTABLE_STATUS_CODES :: "nat list" where
  "NON_REDIRECTABLE_STATUS_CODES = [504, 524]"

text \<open>\<^verbatim>\<open>/^[1-5]\d{2}$/\<close>\<close>

definition is_code_str :: "string \<Rightarrow> bool" where
  "is_code_str s \<longleftrightarrow> length s = 3 \<and> all_digits s \<and> hd s \<in> set ''12345''"

definition parseStatusCodeKey :: "string \<Rightarrow> nat option" where
  "parseStatusCodeKey rawKey =
     (let normalized = trim rawKey
      in if is_code_str normalized then Some (digits_val normalized) else None)"

definition parseStatusCodeMappingTarget :: "jsval \<Rightarrow> nat option" where
  "parseStatusCodeMappingTarget rawValue =
     (case rawValue of
        Num x \<Rightarrow>
          if is_integer_num x
          then (if js_le (Fin 100) x \<and> js_le x (Fin 599) then Some (int_of_num x) else None)
          else None
      | Str s \<Rightarrow>
          (let normalized = trim s
           in if \<not> is_code_str normalized then None
              else (let code = digits_val normalized
                    in if 100 \<le> code \<and> code \<le> 599 then Some code else None))
      | _ \<Rightarrow> None)"

text \<open>The entries both collectors look at: none unless the string is a JSON object.\<close>

definition mapping_entries :: "jsval \<Rightarrow> (string \<times> jsval) list" where
  "mapping_entries v =
     (case v of
        Str s \<Rightarrow>
          if trim s = [] then []
          else (case json_parse s of
                  Throw _ \<Rightarrow> []
                | Ok parsed \<Rightarrow>
                    if \<not> truthy parsed \<or> \<not> typeof_object parsed \<or> is_array parsed then []
                    else obj_entries parsed)
      | _ \<Rightarrow> [])"

definition collectInvalidStatusCodeEntries :: "jsval \<Rightarrow> string list" where
  "collectInvalidStatusCodeEntries v =
     map (\<lambda>(rawKey, rawValue). rawKey @ '' '' @ lbl_arrow @ '' '' @ to_str rawValue)
       (filter (\<lambda>(rawKey, rawValue). parseStatusCodeKey rawKey = None
                  \<or> parseStatusCodeMappingTarget rawValue = None)
          (mapping_entries v))"

definition redirect_text :: "nat \<Rightarrow> nat \<Rightarrow> string" where
  "redirect_text f t = nat_str f @ '' -> '' @ nat_str t"

definition risky_mapping :: "string \<times> jsval \<Rightarrow> string option" where
  "risky_mapping e =
     (case (parseStatusCodeKey (fst e), parseStatusCodeMappingTarget (snd e)) of
        (Some f, Some t) \<Rightarrow>
          if f \<notin> set NON_REDIRECTABLE_STATUS_CODES then None
          else if f = t then None
          else Some (redirect_text f t)
      | _ \<Rightarrow> None)"

definition collectDisallowedStatusCodeRedirects :: "jsval \<Rightarrow> string list" where
  "collectDisallowedStatusCodeRedirects v =
     sort (dedup (List.map_filter risky_mapping (mapping_entries v)))"

definition collectNewDisallowedStatusCodeRedirects :: "jsval \<Rightarrow> jsval \<Rightarrow> string list" where
  "collectNewDisallowedStatusCodeRedirects original current =
     (let currentRisky = collectDisallowedStatusCodeRedirects current
      in if currentRisky = [] then []
         else (let originalRiskySet = set (collectDisallowedStatusCodeRedirects original)
               in filter (\<lambda>m. m \<notin> originalRiskySet) currentRisky))"

section \<open>Upstream update metadata\<close>

definition normalizeModelList :: "jsval \<Rightarrow> string list res" where
  "normalizeModelList models =
     (case js_or models (Arr []) of
        Arr vs \<Rightarrow> Ok (dedup (filter (\<lambda>s. s \<noteq> []) (map (\<lambda>m. trim (to_str (js_or m (Str [])))) vs)))
      | _ \<Rightarrow> Throw Type_Error)"

record update_meta =
  enabled :: bool
  pendingAddModels :: "string list"
  pendingRemoveModels :: "string list"

definition parseUpstreamUpdateMeta :: "jsval \<Rightarrow> update_meta res" where
  "parseUpstreamUpdateMeta settings =
     (let parsed =
        (if truthy settings \<and> typeof_object settings then settings
         else case settings of
           Str s \<Rightarrow> (case json_parse s of Ok v \<Rightarrow> v | Throw _ \<Rightarrow> Null)
         | _ \<Rightarrow> Null)
      in if \<not> truthy parsed \<or> \<not> typeof_object parsed
         then Ok \<lparr>enabled = False, pendingAddModels = [], pendingRemoveModels = []\<rparr>
         else bind_res (normalizeModelList (get parsed ''upstream_model_update_last_detected_models''))
           (\<lambda>add. bind_res (normalizeModelList (get parsed ''upstream_model_update_last_removed_models''))
           (\<lambda>rem. Ok \<lparr>enabled = strict_eq (get parsed ''upstream_model_update_check_enabled'') (Bool True),
                       pendingAddModels = add, pendingRemoveModels = rem\<rparr>)))"

section \<open>Merging ranges\<close>

text \<open>The codes a list of ranges stands for, and the canonical lists of ranges.\<close>

definition covered :: "code_range list \<Rightarrow> nat set" where
  "covered rs = (\<Union>r\<in>set rs. {range_start r..range_end r})"

definition wf_range :: "code_range \<Rightarrow> bool" where
  "wf_range r \<longleftrightarrow> 100 \<le> range_start r \<and> range_start r \<le> range_end r \<and> range_end r \<le> 599"

definition separated :: "code_range list \<Rightarrow> bool" where
  "separated rs \<longleftrightarrow> list_all wf_range rs \<and> sorted_wrt (\<lambda>r s. range_end r + 1 < range_start s) rs"

lemma covered_simps [simp]:
  "covered [] = {}"
  "covered (r # rs) = {range_start r..range_end r} \<union> covered rs"
  "covered (rs @ ss) = covered rs \<union> covered ss"
  by (auto simp: covered_def)

lemma covered_cong: "set rs = set ss \<Longrightarrow> covered rs = covered ss"
  by (simp add: covered_def)

lemma merge_step_inv:
  assumes "separated ms" "ms \<noteq> []" "wf_range c" "range_start (last ms) \<le> range_start c"
  shows "separated (merge_step ms c) \<and> merge_step ms c \<noteq> [] \<and>
         range_start (last (merge_step ms c)) \<le> range_start c \<and>
         covered (merge_step ms c) = covered ms \<union> {range_start c..range_end c}"
proof -
  from assms(2) obtain ns l where ms: "ms = ns @ [l]" by (metis append_butlast_last_id)
  show ?thesis
  proof (cases "range_start c \<le> range_end l + 1")
    case True
    then have "{range_start l..range_end l} \<union> {range_start c..range_end c} =
        {range_start l..max (range_end l) (range_end c)}"
      using assms(1,3,4) by (auto simp: ms wf_range_def separated_def)
    then show ?thesis
      using True assms by (auto simp: ms merge_step_def separated_def sorted_wrt_append wf_range_def)
  next
    case False
    then show ?thesis
      using assms by (fastforce simp: ms merge_step_def separated_def sorted_wrt_append wf_range_def)
  qed
qed

lemma merge_fold_inv:
  assumes "separated ms" "ms \<noteq> []" "list_all wf_range rs"
    and "sorted (map range_start rs)" "\<forall>r\<in>set rs. range_start (last ms) \<le> range_start r"
  shows "separated (foldl merge_step ms rs) \<and> covered (foldl merge_step ms rs) = covered ms \<union> covered rs"
  using assms
proof (induction rs arbitrary: ms)
  case (Cons c rs)
  then have s: "separated (merge_step ms c)" "merge_step ms c \<noteq> []"
      "range_start (last (merge_step ms c)) \<le> range_start c"
      "covered (merge_step ms c) = covered ms \<union> {range_start c..range_end c}"
    using merge_step_inv [of ms c] by auto
  have "\<forall>r\<in>set rs. range_start (last (merge_step ms c)) \<le> range_start r"
    using s(3) Cons.prems(4) by fastforce
  with Cons.IH [OF s(1,2)] Cons.prems show ?case by (auto simp: s(4))
qed simp

lemma sorted_starts: "sorted (map (\<lambda>r. (range_start r, range_end r)) rs) \<Longrightarrow> sorted (map range_start rs)"
  by (auto simp: sorted_map sorted_wrt_mono_rel intro: sorted_wrt_mono_rel [rotated])

lemma mergeRanges_spec:
  assumes "list_all wf_range rs"
  shows "separated (mergeRanges rs) \<and> covered (mergeRanges rs) = covered rs"
proof (cases "sort_key (\<lambda>r. (range_start r, range_end r)) rs")
  case Nil
  then have "rs = []" by (metis set_empty set_sort)
  then show ?thesis by (simp add: mergeRanges_def separated_def)
next
  case (Cons r qs)
  have set: "set (r # qs) = set rs" using Cons by (metis set_sort)
  have s: "sorted (map range_start (r # qs))"
    using sorted_starts [of "r # qs"] sorted_sort_key [of "\<lambda>r. (range_start r, range_end r)" rs] Cons by simp
  have w: "list_all wf_range (r # qs)" using assms set by (simp add: list_all_iff)
  have "separated (foldl merge_step [r] qs) \<and> covered (foldl merge_step [r] qs) = covered [r] \<union> covered qs"
    using w s by (intro merge_fold_inv) (auto simp: separated_def)
  then show ?thesis using Cons covered_cong [OF set] by (simp add: mergeRanges_def)
qed

text \<open>A set of codes has only one canonical list.\<close>

lemma separated_ConsD:
  assumes "separated (r # rs)"
  shows "wf_range r" "separated rs" "\<forall>c\<in>covered rs. range_end r + 1 < c"
  using assms by (auto simp: separated_def covered_def)

lemma separated_head:
  assumes "separated (r # rs)" "separated (s # ss)" "covered (r # rs) \<subseteq> covered (s # ss)"
  shows "range_start s \<le> range_start r"
proof -
  have "range_start r \<in> covered (s # ss)"
    using assms(3) separated_ConsD(1) [OF assms(1)] by (auto simp: wf_range_def)
  then show ?thesis using separated_ConsD(1,3) [OF assms(2)] by (fastforce simp: wf_range_def)
qed

lemma separated_head_end:
  assumes "separated (r # rs)" "separated (s # ss)" "covered (s # ss) \<subseteq> covered (r # rs)"
    and "range_start r = range_start s"
  shows "range_end s \<le> range_end r"
proof (rule ccontr)
  assume "\<not> range_end s \<le> range_end r"
  then have "range_end r + 1 \<in> covered (s # ss)"
    using separated_ConsD(1) [OF assms(1)] assms(4) by (auto simp: wf_range_def)
  then have "range_end r + 1 \<in> covered rs" using assms(3) by auto
  then show False using separated_ConsD(3) [OF assms(1)] by blast
qed

lemma separated_unique: "separated rs \<Longrightarrow> separated ss \<Longrightarrow> covered rs = covered ss \<Longrightarrow> rs = ss"
proof (induction rs ss rule: list_induct2')
  case (4 r rs s ss)
  have start: "range_start r = range_start s"
    using separated_head [OF 4(2,3) equalityD1 [OF 4(4)]] separated_head [OF 4(3,2) equalityD2 [OF 4(4)]]
    by (rule antisym [rotated])
  have "range_end r = range_end s"
    using separated_head_end [OF 4(2,3) equalityD2 [OF 4(4)] start]
      separated_head_end [OF 4(3,2) equalityD1 [OF 4(4)] start [symmetric]] by (rule antisym [rotated])
  with start have rs: "r = s" by (cases r; cases s) simp
  have "covered rs = {c \<in> covered (r # rs). range_end r < c}" "covered ss = {c \<in> covered (s # ss). range_end s < c}"
    using separated_ConsD(3) [OF 4(2)] separated_ConsD(3) [OF 4(3)] by fastforce+
  then have "covered rs = covered ss" using 4(4) rs by metis
  with 4(1) separated_ConsD(2) [OF 4(2)] separated_ConsD(2) [OF 4(3)] rs show ?case by simp
next
  case (2 r rs)
  then show ?case using separated_ConsD(1) [OF 2(1)] by (auto simp: wf_range_def)
next
  case (3 s ss)
  then show ?case using separated_ConsD(1) [OF 3(2)] by (auto simp: wf_range_def)
qed simp

lemma mergeRanges_separated: "separated rs \<Longrightarrow> mergeRanges rs = rs"
  using mergeRanges_spec [of rs] separated_unique [of "mergeRanges rs" rs] by (simp add: separated_def)

section \<open>Parsing rules\<close>

lemma int_of_num_nat [simp]: "int_of_num (Fin (of_nat n)) = n"
  by (simp add: int_of_num_def)

lemma small_dbl: "n \<le> 9007199254740992 \<Longrightarrow> is_dbl (of_nat n)"
  using is_dbl_int [of "int n"] by simp

lemma rnd_small: "n \<le> 9007199254740992 \<Longrightarrow> rnd (of_nat n) = Fin (of_nat n)"
  using rnd_dbl [OF small_dbl] .

text \<open>Rounding cannot move an integer into or out of the range of status codes.\<close>

lemma rnd_code_bounds:
  "js_lt (rnd (of_nat n)) (Fin 100) \<longleftrightarrow> n < 100"
  "js_lt (Fin 599) (rnd (of_nat n)) \<longleftrightarrow> 599 < n"
proof -
  have big: "js_le (Fin 600) (rnd (of_nat n))" if "600 \<le> n"
    using that rnd_ge_dbl [of 600 "of_nat n"] small_dbl [of 600] by simp
  show "js_lt (rnd (of_nat n)) (Fin 100) \<longleftrightarrow> n < 100"
  proof (cases "600 \<le> n")
    case True
    with big show ?thesis by (cases "rnd (of_nat n)") auto
  next
    case False
    then show ?thesis using rnd_small [of n] by simp
  qed
  show "js_lt (Fin 599) (rnd (of_nat n)) \<longleftrightarrow> 599 < n"
  proof (cases "600 \<le> n")
    case True
    with big show ?thesis by (cases "rnd (of_nat n)") auto
  next
    case False
    then show ?thesis using rnd_small [of n] by simp
  qed
qed

lemma code_range_of_iff:
  "code_range_of a b = Some r \<longleftrightarrow>
     all_digits a \<and> all_digits b \<and> r = \<lparr>range_start = digits_val a, range_end = digits_val b\<rparr> \<and> wf_range r"
proof (cases "digits_val a < 100 \<or> 599 < digits_val b")
  case True
  then show ?thesis
    by (auto simp: code_range_of_def isNumber_def parse_int_digits_def rnd_code_bounds wf_range_def Let_def)
next
  case False
  then have b: "rnd (of_nat (digits_val b)) = Fin (of_nat (digits_val b))" using rnd_small by simp
  show ?thesis
  proof (cases "digits_val a \<le> 599")
    case True
    then have "rnd (of_nat (digits_val a)) = Fin (of_nat (digits_val a))" using rnd_small by simp
    then show ?thesis using b False
      by (auto simp: code_range_of_def isNumber_def parse_int_digits_def wf_range_def Let_def)
  next
    case a: False
    then have "js_lt (Fin 599) (rnd (of_nat (digits_val a)))" using rnd_code_bounds(2) by simp
    then have "js_lt (Fin (of_nat (digits_val b))) (rnd (of_nat (digits_val a)))"
      using False by (cases "rnd (of_nat (digits_val a))") auto
    then show ?thesis using a b False
      by (auto simp: code_range_of_def isNumber_def parse_int_digits_def wf_range_def Let_def)
  qed
qed

lemma single_code: "code_range_of a a = (if \<not> isNumber a then None
     else (let code = parse_int_digits a
           in if \<not> is_finite code then None
              else if js_lt code (Fin 100) \<or> js_lt (Fin 599) code then None
              else Some \<lparr>range_start = int_of_num code, range_end = int_of_num code\<rparr>))"
  by (cases "parse_int_digits a") (auto simp: code_range_of_def Let_def)

lemma split_on_single: "split_on c xs = [y] \<Longrightarrow> c \<notin> set xs"
  by (induction xs arbitrary: y) (auto split: if_splits list.splits)

lemma parseToken_alt:
  "parseToken token =
     (case split_on CHR ''-'' (filter (\<lambda>c. c \<noteq> CHR '' '') (trim token)) of
        [a] \<Rightarrow> code_range_of a a | [a, b] \<Rightarrow> code_range_of a b | _ \<Rightarrow> None)"
proof (cases "CHR ''-'' \<in> set (filter (\<lambda>c. c \<noteq> CHR '' '') (trim token))")
  case True
  obtain p q where "split_on CHR ''-'' (filter (\<lambda>c. c \<noteq> CHR '' '') (trim token)) = p # q" "q \<noteq> []"
    using split_on_single [of "CHR ''-''" "filter (\<lambda>c. c \<noteq> CHR '' '') (trim token)"] True
    by (metis neq_Nil_conv split_on_nonempty)
  then show ?thesis using True by (auto simp: parseToken_def Let_def neq_Nil_conv)
next
  case False
  have "code_range_of [] [] = None" by (simp add: code_range_of_def isNumber_def all_digits_def)
  with False show ?thesis
    by (simp add: parseToken_def split_on_no_sep single_code [symmetric] Let_def del: set_filter)
qed

lemma parseToken_wf: "parseToken t = Some r \<Longrightarrow> wf_range r"
  by (auto simp: parseToken_alt code_range_of_iff split: list.splits)

lemma rule_char_plain: "c \<in> set (range_token r) \<Longrightarrow> is_digit c \<or> c = CHR ''-''"
  by (auto simp: range_token_def dest: nat_str_digits split: if_splits)

lemma dash_plain: "plain_char CHR ''-''" "\<not> is_digit CHR ''-''" "\<not> is_digit CHR '' ''"
    "\<not> is_digit CHR '',''" "plain_char CHR '',''"
  by (simp_all add: plain_char_def ascii_def ascii_ws_def is_digit_def)

lemma range_token_plain: "c \<in> set (range_token r) \<Longrightarrow> plain_char c \<and> c \<noteq> CHR '' '' \<and> c \<noteq> CHR '',''"
  using rule_char_plain [of c r] dash_plain by (auto intro: is_digit_plain)

lemma range_token_clean:
  "trim (range_token r) = range_token r"
  "filter (\<lambda>c. c \<noteq> CHR '' '') (range_token r) = range_token r"
  "range_token r \<noteq> []" "CHR '','' \<notin> set (range_token r)"
proof -
  show "trim (range_token r) = range_token r" using range_token_plain by (intro trim_plain) blast
  show "filter (\<lambda>c. c \<noteq> CHR '' '') (range_token r) = range_token r"
    unfolding filter_id_conv using range_token_plain by blast
  show "range_token r \<noteq> []" by (simp add: range_token_def)
  show "CHR '','' \<notin> set (range_token r)" using range_token_plain by blast
qed

lemma parseToken_range_token: "wf_range r \<Longrightarrow> parseToken (range_token r) = Some r"
proof -
  assume w: "wf_range r"
  have nd: "CHR ''-'' \<notin> set (nat_str n)" for n using nat_str_digits dash_plain by blast
  show ?thesis
  proof (cases "range_start r = range_end r")
    case True
    then have tok: "split_on CHR ''-'' (range_token r) = [nat_str (range_end r)]"
      using nd by (simp add: range_token_def split_on_no_sep)
    then show ?thesis using w True
      by (cases r) (simp add: parseToken_alt range_token_clean code_range_of_iff)
  next
    case False
    then have "split_on CHR ''-'' (range_token r) = [nat_str (range_start r), nat_str (range_end r)]"
      using nd by (simp add: range_token_def split_on_append_sep split_on_no_sep)
    then show ?thesis using w
      by (cases r) (simp add: parseToken_alt range_token_clean code_range_of_iff)
  qed
qed

lemma map_filter_wf: "list_all wf_range (List.map_filter parseToken ts)"
  by (induction ts) (auto simp: parseToken_wf split: option.splits)

lemma map_filter_range_token: "list_all wf_range rs \<Longrightarrow> List.map_filter parseToken (map range_token rs) = rs"
  by (induction rs) (auto simp: parseToken_range_token)

lemma comma_wide_not_single: "lbl_comma_wide \<noteq> [c]"
  by (simp add: lbl_comma_wide_def utf8_def)

lemma rule_segments_plain:
  assumes "\<And>c. c \<in> set raw \<Longrightarrow> plain_char c"
  shows "rule_segments raw = filter (\<lambda>s. s \<noteq> []) (map trim (split_on CHR '','' raw))"
proof -
  have "chars raw = map (\<lambda>c. [c]) raw" using assms by (intro chars_ascii) (auto simp: plain_char_def)
  moreover have "concat (map (\<lambda>ch. if ch = lbl_comma_wide then '','' else ch) (map (\<lambda>c. [c]) raw)) = raw"
    by (induction raw) (auto simp: comma_wide_not_single [symmetric])
  ultimately show ?thesis by (simp add: rule_segments_def)
qed

lemma set_join: "c \<in> set (join sep xs) \<Longrightarrow> c \<in> set sep \<or> (\<exists>x\<in>set xs. c \<in> set x)"
  by (induction sep xs rule: join.induct) auto

lemma normalized_plain: "c \<in> set (join '','' (map range_token rs)) \<Longrightarrow> plain_char c"
  using set_join [of c "'',''" "map range_token rs"] range_token_plain dash_plain(5) by auto

lemma rule_segments_normalized:
  assumes "rs \<noteq> []"
  shows "rule_segments (join '','' (map range_token rs)) = map range_token rs"
proof -
  have "split_on CHR '','' (join '','' (map range_token rs)) = map range_token rs"
    using assms by (intro split_on_join) (auto simp: range_token_clean)
  then show ?thesis
    by (simp add: rule_segments_plain normalized_plain map_idI range_token_clean filter_id_conv)
qed

lemma join_nonempty: "xs \<noteq> [] \<Longrightarrow> (\<And>x. x \<in> set xs \<Longrightarrow> x \<noteq> []) \<Longrightarrow> join sep xs \<noteq> []"
  by (induction sep xs rule: join.induct) auto

text \<open>The codes a rule text asks for, read off its segments.\<close>

definition rule_codes :: "jsval \<Rightarrow> nat set" where
  "rule_codes input = covered (List.map_filter parseToken (rule_segments (trim (to_str (coalesce input (Str []))))))"

lemma rule_segments_Nil [simp]: "rule_segments [] = []"
  by (simp add: rule_segments_def)

lemma parse_rules_ok_shape:
  assumes "rules_ok (parseHttpStatusCodeRules v)"
  shows "parseHttpStatusCodeRules v =
     (let merged = mergeRanges (List.map_filter parseToken (rule_segments (trim (to_str (coalesce v (Str []))))))
      in \<lparr>rules_ok = True, rules_ranges = merged, rules_tokens = map range_token merged,
          rules_normalized = join '','' (map range_token merged), rules_invalid = []\<rparr>)"
  using assms
  by (auto simp: parseHttpStatusCodeRules_def Let_def map_filter_simps mergeRanges_def split: if_splits)

lemma parse_normalized:
  assumes "separated rs"
  shows "parseHttpStatusCodeRules (Str (join '','' (map range_token rs))) =
     \<lparr>rules_ok = True, rules_ranges = rs, rules_tokens = map range_token rs,
      rules_normalized = join '','' (map range_token rs), rules_invalid = []\<rparr>"
proof (cases "rs = []")
  case True
  then show ?thesis by (simp add: parseHttpStatusCodeRules_def coalesce_def nullish_def)
next
  case False
  let ?n = "join '','' (map range_token rs)"
  have w: "list_all wf_range rs" using assms by (simp add: separated_def)
  have t: "trim ?n = ?n" by (rule trim_plain) (rule normalized_plain)
  have ne: "?n \<noteq> []" using False by (intro join_nonempty) (auto simp: range_token_clean)
  have ok: "filter (\<lambda>s. parseToken s = None) (map range_token rs) = []"
    using w parseToken_range_token by (auto simp: filter_empty_conv list_all_iff)
  have parsed: "mergeRanges (List.map_filter parseToken (map range_token rs)) = rs"
    using mergeRanges_separated [OF assms] by (simp add: map_filter_range_token [OF w])
  show ?thesis
    unfolding parseHttpStatusCodeRules_def
    by (simp add: coalesce_def nullish_def t ne rule_segments_normalized [OF False] ok parsed Let_def
        del: filter_map)
qed

text \<open>
  An accepted rule text is turned into the canonical list of its codes: the ranges lie within
  100 to 599, are ascending and leave a gap between neighbours, and together they contain exactly
  the codes that the segments of the text ask for.
\<close>

theorem parse_rules_canonical:
  assumes "rules_ok (parseHttpStatusCodeRules v)"
  shows "separated (rules_ranges (parseHttpStatusCodeRules v)) \<and>
         covered (rules_ranges (parseHttpStatusCodeRules v)) = rule_codes v"
  using parse_rules_ok_shape [OF assms] mergeRanges_spec [OF map_filter_wf]
  by (simp add: Let_def rule_codes_def)

text \<open>
  The normalised text is a fixed point: parsing it again gives the same ranges, tokens and
  text, so saving and reloading a rule list never changes it.
\<close>

theorem parse_rules_normalized:
  assumes "rules_ok (parseHttpStatusCodeRules v)"
  shows "parseHttpStatusCodeRules (Str (rules_normalized (parseHttpStatusCodeRules v))) =
         parseHttpStatusCodeRules v"
proof -
  let ?rs = "mergeRanges (List.map_filter parseToken (rule_segments (trim (to_str (coalesce v (Str []))))))"
  have "separated ?rs" using mergeRanges_spec [OF map_filter_wf] by simp
  from parse_normalized [OF this] show ?thesis
    using parse_rules_ok_shape [OF assms] by (simp add: Let_def)
qed

text \<open>
  C8: The normalised text identifies the rule list: two accepted texts have the same normalised
  form if and only if they ask for the same set of status codes.
\<close>

theorem parse_rules_normal_form:
  assumes "rules_ok (parseHttpStatusCodeRules v)" "rules_ok (parseHttpStatusCodeRules w)"
  shows "rules_normalized (parseHttpStatusCodeRules v) = rules_normalized (parseHttpStatusCodeRules w)
         \<longleftrightarrow> rule_codes v = rule_codes w"
proof -
  define merged where "merged v = mergeRanges (List.map_filter parseToken
      (rule_segments (trim (to_str (coalesce v (Str []))))))" for v
  have s: "separated (merged v) \<and> covered (merged v) = rule_codes v" for v
    using mergeRanges_spec [OF map_filter_wf] by (simp add: merged_def rule_codes_def)
  have n: "rules_normalized (parseHttpStatusCodeRules u) = join '','' (map range_token (merged u))"
    if "rules_ok (parseHttpStatusCodeRules u)" for u
    using parse_rules_ok_shape [OF that] by (simp add: merged_def Let_def)
  have inj: "merged v = merged w"
    if "join '','' (map range_token (merged v)) = join '','' (map range_token (merged w))"
    using parse_normalized [of "merged v"] parse_normalized [of "merged w"] s that
    by (metis code_rules.ext_inject)
  show ?thesis using n [OF assms(1)] n [OF assms(2)] s inj separated_unique by metis
qed

text \<open>A rule text with two segments out of order: a code and the range just below it.\<close>

definition sample_rules :: jsval where
  "sample_rules = Str ''404,400-403''"

lemma sample_plain: "c \<in> set ''404,400-403'' \<Longrightarrow> plain_char c"
  by (auto simp: plain_char_def ascii_def ascii_ws_def)

lemma sample_trim: "set s \<subseteq> set ''404,400-403'' \<Longrightarrow> trim s = s"
  using sample_plain by (intro trim_plain) blast

lemma sample_segments: "rule_segments ''404,400-403'' = [''404'', ''400-403'']"
  using sample_plain by (subst rule_segments_plain) (blast, simp add: sample_trim)

lemma sample_tokens:
  "parseToken ''404'' = Some \<lparr>range_start = 404, range_end = 404\<rparr>"
  "parseToken ''400-403'' = Some \<lparr>range_start = 400, range_end = 403\<rparr>"
  by (simp_all add: parseToken_alt sample_trim code_range_of_iff all_digits_def is_digit_def digits_val_def
      digit_val_def wf_range_def)

lemma sample_ok: "rules_ok (parseHttpStatusCodeRules sample_rules)"
  by (simp add: parseHttpStatusCodeRules_def sample_rules_def coalesce_def nullish_def sample_trim
      sample_segments sample_tokens Let_def)

lemma sample_codes: "rule_codes sample_rules = {400..404}"
  by (auto simp: rule_codes_def sample_rules_def coalesce_def nullish_def sample_trim sample_segments
      sample_tokens map_filter_simps)

theorem parse_rules_canonical_witness:
  "covered (rules_ranges (parseHttpStatusCodeRules sample_rules)) = {400..404}"
  using parse_rules_canonical [OF sample_ok] sample_codes by simp

theorem parse_rules_normalized_witness:
  "parseHttpStatusCodeRules (Str (rules_normalized (parseHttpStatusCodeRules sample_rules))) =
   parseHttpStatusCodeRules sample_rules"
  by (rule parse_rules_normalized [OF sample_ok])

theorem parse_rules_normal_form_witness:
  "rules_normalized (parseHttpStatusCodeRules sample_rules) \<noteq>
   rules_normalized (parseHttpStatusCodeRules (Str []))"
proof -
  have "rules_ok (parseHttpStatusCodeRules (Str []))"
    by (simp add: parseHttpStatusCodeRules_def coalesce_def nullish_def)
  moreover have "rule_codes (Str []) = {}"
    by (simp add: rule_codes_def coalesce_def nullish_def map_filter_simps)
  ultimately show ?thesis
    using parse_rules_normal_form [OF sample_ok, of "Str []"] sample_codes by simp
qed

text \<open>
  A rejected rule text reports its faults: parsing fails exactly when some non-empty segment is
  not a status code or an ascending range within 100 to 599, the reported segments are exactly
  those, in order, and the text is handed back unchanged with no ranges.
\<close>

theorem parse_rules_rejects:
  "rules_invalid (parseHttpStatusCodeRules (Str s)) =
     filter (\<lambda>t. parseToken t = None) (rule_segments (trim s))
   \<and> (rules_ok (parseHttpStatusCodeRules (Str s)) \<longleftrightarrow> rules_invalid (parseHttpStatusCodeRules (Str s)) = [])
   \<and> (rules_ok (parseHttpStatusCodeRules (Str s)) \<or>
      rules_normalized (parseHttpStatusCodeRules (Str s)) = trim s \<and>
      rules_ranges (parseHttpStatusCodeRules (Str s)) = [])"
  by (auto simp: parseHttpStatusCodeRules_def coalesce_def nullish_def Let_def)

section \<open>The redirect guard\<close>

text \<open>The redirects of a mapping that leave a code that must not be redirected.\<close>

definition risky_redirects :: "jsval \<Rightarrow> (nat \<times> nat) set" where
  "risky_redirects v = {(f, t). \<exists>(k, w)\<in>set (mapping_entries v).
     parseStatusCodeKey k = Some f \<and> parseStatusCodeMappingTarget w = Some t \<and>
     f \<in> set NON_REDIRECTABLE_STATUS_CODES \<and> f \<noteq> t}"

lemma redirect_text_inj: "redirect_text f t = redirect_text f' t' \<longleftrightarrow> f = f' \<and> t = t'"
proof
  assume e: "redirect_text f t = redirect_text f' t'"
  have ns: "CHR '' '' \<notin> set (nat_str n)" for n using nat_str_digits dash_plain(3) by blast
  have "takeWhile (\<lambda>c. c \<noteq> CHR '' '') (redirect_text f t) = nat_str f" for f t
    using ns by (simp add: redirect_text_def takeWhile_append)
  then have "f = f'" using e by (metis nat_str_inject)
  with e show "f = f' \<and> t = t'" by (simp add: redirect_text_def)
qed simp

lemma risky_mapping_Some:
  "risky_mapping e = Some x \<longleftrightarrow> (\<exists>f t. x = redirect_text f t \<and> parseStatusCodeKey (fst e) = Some f \<and>
     parseStatusCodeMappingTarget (snd e) = Some t \<and> f \<in> set NON_REDIRECTABLE_STATUS_CODES \<and> f \<noteq> t)"
  by (auto simp: risky_mapping_def split: option.splits)

lemma set_map_filter_Some: "set (List.map_filter f xs) = {y. \<exists>x\<in>set xs. f x = Some y}"
  by (induction xs) (auto simp: map_filter_simps split: option.splits)

lemma set_disallowed:
  "set (collectDisallowedStatusCodeRedirects v) = (\<lambda>(f, t). redirect_text f t) ` risky_redirects v"
  by (force simp: collectDisallowedStatusCodeRedirects_def set_map_filter_Some risky_mapping_Some
      risky_redirects_def image_iff)

text \<open>
  C19: The guard before saving a channel is exact. The redirects it reports as new are, without
  repetition and in ascending order, the texts of those redirects away from 504 and 524 that the
  edited mapping has and the original mapping does not; so nothing is reported exactly when the
  edit adds no such redirect.
\<close>

theorem new_redirects_exact:
  "set (collectNewDisallowedStatusCodeRedirects original current) =
     (\<lambda>(f, t). redirect_text f t) ` (risky_redirects current - risky_redirects original)
   \<and> distinct (collectNewDisallowedStatusCodeRedirects original current)
   \<and> sorted (collectNewDisallowedStatusCodeRedirects original current)
   \<and> (collectNewDisallowedStatusCodeRedirects original current = [] \<longleftrightarrow>
        risky_redirects current \<subseteq> risky_redirects original)"
proof -
  let ?new = "collectNewDisallowedStatusCodeRedirects original current"
  have inj: "inj (\<lambda>(f, t). redirect_text f t)" by (auto simp: inj_def redirect_text_inj)
  have n: "?new = filter (\<lambda>m. m \<notin> set (collectDisallowedStatusCodeRedirects original))
      (collectDisallowedStatusCodeRedirects current)"
    by (simp add: collectNewDisallowedStatusCodeRedirects_def Let_def)
  have s: "set ?new = (\<lambda>(f, t). redirect_text f t) ` (risky_redirects current - risky_redirects original)"
    unfolding n set_filter by (auto simp: set_disallowed image_set_diff [OF inj])
  have "distinct (collectDisallowedStatusCodeRedirects current)"
      "sorted (collectDisallowedStatusCodeRedirects current)"
    by (simp_all add: collectDisallowedStatusCodeRedirects_def)
  then have "distinct ?new" "sorted ?new" unfolding n by (auto intro: sorted_filter [of id, simplified])
  moreover have "?new = [] \<longleftrightarrow> risky_redirects current \<subseteq> risky_redirects original"
    using s by (metis Diff_eq_empty_iff image_is_empty set_empty)
  ultimately show ?thesis using s by blast
qed

end
