(* ===== verification/Pricing_Data.thy ===== *)
theory Pricing_Data
  imports Tier_Pricing
begin

text \<open>
  The data of the model pricing editor,
  \<^verbatim>\<open>web/src/pages/Setting/Ratio/hooks/useModelPricingEditorState.js\<close>: rule rows, models,
  currency rates, and the number helpers at the top of that file.

  Prices in a model are the strings of its input boxes. The fields of a rule row are JavaScript
  values, since rows come from parsed JSON; \<^const>\<open>Undef\<close> stands for an absent property.
\<close>

section \<open>Rows and models\<close>

record video_row =
  row_resolution :: jsval
  row_tokenPrice :: jsval
  row_videoPrice :: jsval
  row_noAudioPrice :: jsval
  row_withAudioPrice :: jsval
  row_pixelCompression :: jsval
  row_audioPricingEnabled :: jsval
  row_hasAudio :: jsval

record image_row =
  img_resolution :: jsval
  img_imagePrice :: jsval

definition no_row :: video_row where
  "no_row = \<lparr>row_resolution = Undef, row_tokenPrice = Undef, row_videoPrice = Undef,
     row_noAudioPrice = Undef, row_withAudioPrice = Undef, row_pixelCompression = Undef,
     row_audioPricingEnabled = Undef, row_hasAudio = Undef\<rparr>"

record raw_ratios =
  raw_modelRatio :: string
  raw_completionRatio :: string
  raw_cacheRatio :: string
  raw_createCacheRatio :: string
  raw_imageRatio :: string
  raw_audioRatio :: string
  raw_audioCompletionRatio :: string
  raw_videoRatio :: string
  raw_videoCompletionRatio :: string
  raw_videoPrice :: string
  raw_videoPricingRules :: jsval
  raw_imagePrice :: string
  raw_imagePricingRules :: jsval

record model =
  model_name :: string
  billingMode :: string
  fixedPrice :: string
  inputPrice :: string
  completionPrice :: string
  lockedCompletionRatio :: string
  completionRatioLocked :: bool
  cachePrice :: string
  createCachePrice :: string
  imagePrice :: string
  audioInputPrice :: string
  audioOutputPrice :: string
  videoBillingMode :: string
  videoPriceUnit :: string
  videoFixedPrice :: string
  videoTextToVideoRules :: "video_row list"
  videoImageToVideoRules :: "video_row list"
  videoUploadRules :: "video_row list"
  videoGenerateRules :: "video_row list"
  videoSimilarityThreshold :: string
  imageGenPriceUnit :: string
  imageGenFixedPrice :: string
  imageTextToImageRules :: "image_row list"
  imageImageToImageRules :: "image_row list"
  imageSimilarityThreshold :: string
  rawRatios :: raw_ratios
  modelTierRatio :: jsval
  completionTierRatio :: jsval
  cacheTierRatio :: jsval
  createCacheTierRatio :: jsval

definition EMPTY_MODEL :: model where
  "EMPTY_MODEL =
     \<lparr>model_name = [], billingMode = ''per-token'', fixedPrice = [], inputPrice = [], completionPrice = [],
      lockedCompletionRatio = [], completionRatioLocked = False, cachePrice = [],
      createCachePrice = [], imagePrice = [], audioInputPrice = [], audioOutputPrice = [],
      videoBillingMode = ''per-second'', videoPriceUnit = ''USD'', videoFixedPrice = [],
      videoTextToVideoRules = [], videoImageToVideoRules = [], videoUploadRules = [],
      videoGenerateRules = [], videoSimilarityThreshold = [], imageGenPriceUnit = ''USD'',
      imageGenFixedPrice = [], imageTextToImageRules = [], imageImageToImageRules = [],
      imageSimilarityThreshold = [],
      rawRatios =
        \<lparr>raw_modelRatio = [], raw_completionRatio = [], raw_cacheRatio = [],
         raw_createCacheRatio = [], raw_imageRatio = [], raw_audioRatio = [],
         raw_audioCompletionRatio = [], raw_videoRatio = [], raw_videoCompletionRatio = [],
         raw_videoPrice = [], raw_videoPricingRules = Null, raw_imagePrice = [],
         raw_imagePricingRules = Null\<rparr>,
      modelTierRatio = Null, completionTierRatio = Null, cacheTierRatio = Null,
      createCacheTierRatio = Null\<rparr>"

definition isTokenBillingMode :: "string \<Rightarrow> bool" where
  "isTokenBillingMode m \<longleftrightarrow> m = ''per-token'' \<or> m = ''tiered''"

section \<open>Values and numbers\<close>

definition hasValue :: "jsval \<Rightarrow> bool" where
  "hasValue v \<longleftrightarrow> v \<noteq> Str [] \<and> v \<noteq> Null \<and> v \<noteq> Undef \<and> v \<noteq> Bool False"

definition hasAnyTierPricing :: "model \<Rightarrow> bool" where
  "hasAnyTierPricing m \<longleftrightarrow>
     hasTierSegments (modelTierRatio m) \<or> hasTierSegments (completionTierRatio m) \<or>
     hasTierSegments (cacheTierRatio m) \<or> hasTierSegments (createCacheTierRatio m)"

definition getEffectiveBillingMode :: "model \<Rightarrow> string" where
  "getEffectiveBillingMode m =
     (if hasValue (Str (fixedPrice m)) then ''per-request''
      else if hasAnyTierPricing m then ''tiered'' else ''per-token'')"

definition toNumericString :: "jsval \<Rightarrow> string" where
  "toNumericString v =
     (if \<not> hasValue v \<and> \<not> strict_eq v (Num (Fin 0)) then []
      else (let num = to_num v in if is_finite num then num_str num else []))"

definition toNumberOrNull :: "jsval \<Rightarrow> jsnum option" where
  "toNumberOrNull v =
     (if \<not> hasValue v \<and> \<not> strict_eq v (Num (Fin 0)) then None
      else (let num = to_num v in if is_finite num then Some num else None))"

text \<open>\<^verbatim>\<open>1e-12\<close> and \<^verbatim>\<open>1e-9\<close>.\<close>

definition e_12 :: jsnum where
  "e_12 = rnd (1 / 10 ^ 12)"

definition e_9 :: jsnum where
  "e_9 = rnd (1 / 10 ^ 9)"

definition formatNumber :: "jsval \<Rightarrow> string" where
  "formatNumber v =
     (case toNumberOrNull v of
        None \<Rightarrow> []
      | Some num \<Rightarrow>
          (let rounded = to_number_str (to_fixed 12 num)
           in if js_lt (js_abs rounded) e_12 then ''0''
              else (let nearestInt = js_round rounded
                    in if js_lt (js_abs (js_sub rounded nearestInt)) e_9 then num_str nearestInt
                       else num_str rounded)))"

definition toNormalizedNumber :: "jsval \<Rightarrow> jsnum option" where
  "toNormalizedNumber v =
     (let formatted = formatNumber v in if formatted = [] then None else Some (to_number_str formatted))"

section \<open>Currencies\<close>

record currency_rates =
  rate_CNY :: jsnum
  rate_CUSTOM :: jsnum

definition rate_of :: "currency_rates \<Rightarrow> string \<Rightarrow> jsnum option" where
  "rate_of rates unit =
     (if unit = ''USD'' then Some (Fin 1)
      else if unit = ''CNY'' then Some (rate_CNY rates)
      else if unit = ''CUSTOM'' then Some (rate_CUSTOM rates) else None)"

text \<open>\<^verbatim>\<open>rates && rates[unit] > 0 ? rates[unit] : 1\<close>\<close>

definition positive_rate :: "currency_rates \<Rightarrow> string \<Rightarrow> jsnum" where
  "positive_rate rates unit =
     (case rate_of rates unit of
        Some r \<Rightarrow> if js_lt (Fin 0) r then r else Fin 1 | None \<Rightarrow> Fin 1)"

definition price_units :: "string list" where
  "price_units = [''USD'', ''CNY'', ''CUSTOM'']"

definition fromUSDToDisplay :: "jsval \<Rightarrow> string \<Rightarrow> currency_rates \<Rightarrow> string" where
  "fromUSDToDisplay v unit rates =
     (case toNumberOrNull v of None \<Rightarrow> []
      | Some num \<Rightarrow> formatNumber (Num (js_mul num (positive_rate rates unit))))"

definition mapVideoRuleRowsToDisplayUnit ::
  "video_row list \<Rightarrow> string \<Rightarrow> currency_rates \<Rightarrow> video_row list" where
  "mapVideoRuleRowsToDisplayUnit rows unit rates =
     map (\<lambda>row. row
       \<lparr>row_tokenPrice := Str (fromUSDToDisplay (row_tokenPrice row) unit rates),
        row_videoPrice := Str (fromUSDToDisplay (row_videoPrice row) unit rates),
        row_noAudioPrice := Str (fromUSDToDisplay (row_noAudioPrice row) unit rates),
        row_withAudioPrice := Str (fromUSDToDisplay (row_withAudioPrice row) unit rates)\<rparr>) rows"

definition mapImageRuleRowsToDisplayUnit ::
  "image_row list \<Rightarrow> string \<Rightarrow> currency_rates \<Rightarrow> image_row list" where
  "mapImageRuleRowsToDisplayUnit rows unit rates =
     map (\<lambda>row. row\<lparr>img_imagePrice := Str (fromUSDToDisplay (img_imagePrice row) unit rates)\<rparr>) rows"

section \<open>Option values\<close>

text \<open>An option value is a string; \<^const>\<open>None\<close> is a missing option.\<close>

definition parseOptionJSON :: "string option \<Rightarrow> jsval" where
  "parseOptionJSON rawValue =
     (case rawValue of
        None \<Rightarrow> Obj []
      | Some s \<Rightarrow>
          if trim s = [] then Obj []
          else (case json_parse s of
                  Ok parsed \<Rightarrow> if truthy parsed \<and> typeof_object parsed then parsed else Obj []
                | Throw _ \<Rightarrow> Obj []))"

definition isValidVideoResolution :: "jsval \<Rightarrow> bool" where
  "isValidVideoResolution r =
     (let s = to_str (js_or r (Str [])) in resolution_wxh s \<or> resolution_alias s)"

definition DEFAULT_TEXT_VIDEO_PIXEL_COMPRESSION :: string where
  "DEFAULT_TEXT_VIDEO_PIXEL_COMPRESSION = ''384''"

definition DEFAULT_IMAGE_VIDEO_PIXEL_COMPRESSION :: string where
  "DEFAULT_IMAGE_VIDEO_PIXEL_COMPRESSION = ''512''"

definition DEFAULT_VIDEO_VIDEO_PIXEL_COMPRESSION :: string where
  "DEFAULT_VIDEO_VIDEO_PIXEL_COMPRESSION = ''384''"

end
