(* ===== verification/Pricing_Rules.thy ===== *)
theory Pricing_Rules
  imports Pricing_Data
begin

text \<open>
  From stored options to an editable model: the rule parsers and \<^verbatim>\<open>buildModelState\<close> of
  \<^verbatim>\<open>web/src/pages/Setting/Ratio/hooks/useModelPricingEditorState.js\<close>.
\<close>

section \<open>Rule rows\<close>

definition normalizeVideoRuleRow :: "jsval \<Rightarrow> video_row" where
  "normalizeVideoRuleRow row =
     (let price = Str (toNumericString (get row ''token_price'')); audio = truthy (get row ''has_audio'')
      in no_row
        \<lparr>row_resolution := js_or (get row ''resolution'') (Str []),
         row_tokenPrice := price,
         row_pixelCompression := Str (toNumericString (get row ''pixel_compression'')),
         row_noAudioPrice := if audio then Str [] else price,
         row_withAudioPrice := if audio then price else Str [],
         row_audioPricingEnabled := Bool audio,
         row_hasAudio := Bool audio\<rparr>)"

definition normalizePerVideoRuleRow :: "jsval \<Rightarrow> video_row" where
  "normalizePerVideoRuleRow row =
     (let price = Str (toNumericString (get row ''video_price'')); audio = truthy (get row ''has_audio'')
      in no_row
        \<lparr>row_resolution := js_or (get row ''resolution'') (Str []),
         row_videoPrice := price,
         row_noAudioPrice := if audio then Str [] else price,
         row_withAudioPrice := if audio then price else Str [],
         row_audioPricingEnabled := Bool audio,
         row_hasAudio := Bool audio\<rparr>)"

definition normalizePerImageRuleRow :: "jsval \<Rightarrow> image_row" where
  "normalizePerImageRuleRow row =
     \<lparr>img_resolution = js_or (get row ''resolution'') (Str []),
      img_imagePrice = Str (toNumericString (get row ''image_price''))\<rparr>"

record image_rules =
  ir_textToImage :: "image_row list"
  ir_imageToImage :: "image_row list"
  ir_similarityThreshold :: string
  ir_priceUnit :: string

definition plain_object :: "jsval \<Rightarrow> bool" where
  "plain_object v \<longleftrightarrow> truthy v \<and> typeof_object v \<and> \<not> is_array v"

definition unit_text :: "jsval \<Rightarrow> string" where
  "unit_text rules = to_upper (trim (to_str (js_or (get rules ''price_unit'') (Str []))))"

definition parseImagePricingRules :: "jsval \<Rightarrow> image_rules" where
  "parseImagePricingRules rules =
     (if \<not> plain_object rules
      then \<lparr>ir_textToImage = [], ir_imageToImage = [], ir_similarityThreshold = [], ir_priceUnit = []\<rparr>
      else
        \<lparr>ir_textToImage = map normalizePerImageRuleRow (arr_elems (get rules ''text_to_image_per_image'')),
         ir_imageToImage = map normalizePerImageRuleRow (arr_elems (get rules ''image_to_image_per_image'')),
         ir_similarityThreshold = toNumericString (get rules ''similarity_threshold''),
         ir_priceUnit = unit_text rules\<rparr>)"

section \<open>Rows priced with and without audio\<close>

text \<open>The items of the map \<^verbatim>\<open>grouped\<close>: resolution, price without audio, price with audio.\<close>

record audio_item =
  item_resolution :: string
  item_noAudio :: string
  item_withAudio :: string

definition resolution_key :: "string \<Rightarrow> string" where
  "resolution_key r = to_lower (remove_ws r)"

definition audio_row_value :: "string \<Rightarrow> jsval \<Rightarrow> string" where
  "audio_row_value valueKey row =
     (if valueKey = ''video_price''
      then toNumericString (if get row ''video_price'' \<noteq> Undef then get row ''video_price'' else get row ''price'')
      else toNumericString (get row ''price''))"

definition put_price :: "bool \<Rightarrow> string \<Rightarrow> audio_item \<Rightarrow> audio_item" where
  "put_price audio v item = (if audio then item\<lparr>item_withAudio := v\<rparr> else item\<lparr>item_noAudio := v\<rparr>)"

definition group_row ::
  "string \<Rightarrow> (string \<times> audio_item) list \<Rightarrow> jsval \<Rightarrow> (string \<times> audio_item) list" where
  "group_row valueKey grouped row =
     (let resolution = to_str (js_or (get row ''resolution'') (Str []))
      in if resolution = [] then grouped
         else
           (let key = resolution_key resolution;
                grouped1 = (case map_of grouped key of
                    Some _ \<Rightarrow> grouped
                  | None \<Rightarrow> grouped @ [(key, \<lparr>item_resolution = resolution, item_noAudio = [], item_withAudio = []\<rparr>)]);
                v = audio_row_value valueKey row
            in if v = [] then grouped1
               else map (\<lambda>(k, item). (k, if k = key then put_price (truthy (get row ''has_audio'')) v item else item))
                      grouped1))"

text \<open>\<^verbatim>\<open>1e-6\<close>\<close>

definition e_6 :: jsnum where
  "e_6 = rnd (1 / 10 ^ 6)"

definition audio_item_row :: "string \<Rightarrow> audio_item \<Rightarrow> video_row" where
  "audio_item_row valueKey item =
     (let hasNoAudio = hasValue (Str (item_noAudio item));
          hasWithAudio = hasValue (Str (item_withAudio item));
          bothPresent = (hasNoAudio \<and> hasWithAudio);
          samePrice = (bothPresent \<and>
            (case (toNumberOrNull (Str (item_noAudio item)), toNumberOrNull (Str (item_withAudio item))) of
               (Some a, Some b) \<Rightarrow> js_lt (js_abs (js_sub a b)) e_6
             | _ \<Rightarrow> False));
          audioPricingEnabled = (bothPresent \<and> \<not> samePrice);
          unifiedPrice = (if hasNoAudio then item_noAudio item
                          else if hasWithAudio then item_withAudio item else [])
      in no_row
        \<lparr>row_resolution := Str (item_resolution item),
         row_tokenPrice := Str (if valueKey = ''price'' \<and> \<not> audioPricingEnabled then unifiedPrice else []),
         row_videoPrice := Str (if valueKey = ''video_price'' \<and> \<not> audioPricingEnabled then unifiedPrice else []),
         row_noAudioPrice := Str (item_noAudio item),
         row_withAudioPrice := Str (item_withAudio item),
         row_audioPricingEnabled := Bool audioPricingEnabled\<rparr>)"

definition normalizeAudioPricedRows :: "jsval \<Rightarrow> string \<Rightarrow> video_row list" where
  "normalizeAudioPricedRows rows valueKey =
     map (audio_item_row valueKey \<circ> snd) (foldl (group_row valueKey) [] (arr_elems rows))"

section \<open>Video rules\<close>

record video_rules =
  vr_textToVideo :: "video_row list"
  vr_imageToVideo :: "video_row list"
  vr_videoUpload :: "video_row list"
  vr_videoGenerate :: "video_row list"
  vr_textToVideoPerSecond :: "video_row list"
  vr_imageToVideoPerSecond :: "video_row list"
  vr_videoToVideoPerSecond :: "video_row list"
  vr_textToVideoPerVideo :: "video_row list"
  vr_imageToVideoPerVideo :: "video_row list"
  vr_videoUploadPerVideo :: "video_row list"
  vr_videoGeneratePerVideo :: "video_row list"
  vr_similarityThreshold :: string
  vr_priceUnit :: string

definition per_second_rows :: "jsval \<Rightarrow> video_row list" where
  "per_second_rows rows =
     map (\<lambda>row. row\<lparr>row_pixelCompression := Str []\<rparr>) (normalizeAudioPricedRows rows ''price'')"

definition per_video_rows :: "jsval \<Rightarrow> string \<Rightarrow> string \<Rightarrow> video_row list" where
  "per_video_rows rules perItem perVideo =
     normalizeAudioPricedRows (js_or (get rules perItem) (get rules perVideo)) ''video_price''"

definition if_empty :: "'a list \<Rightarrow> 'a list \<Rightarrow> 'a list" where
  "if_empty xs ys = (if xs \<noteq> [] then xs else ys)"

definition parseVideoPricingRules :: "jsval \<Rightarrow> video_rules" where
  "parseVideoPricingRules rules =
     (if \<not> plain_object rules
      then
        \<lparr>vr_textToVideo = [], vr_imageToVideo = [], vr_videoUpload = [], vr_videoGenerate = [],
         vr_textToVideoPerSecond = [], vr_imageToVideoPerSecond = [], vr_videoToVideoPerSecond = [],
         vr_textToVideoPerVideo = [], vr_imageToVideoPerVideo = [], vr_videoUploadPerVideo = [],
         vr_videoGeneratePerVideo = [], vr_similarityThreshold = [], vr_priceUnit = []\<rparr>
      else
        (let legacy = (\<lambda>k. map normalizeVideoRuleRow (arr_elems (get rules k)));
             videoToVideoPerSecond = per_second_rows (get rules ''video_to_video_per_second'');
             imageRule = js_or (get rules ''image_to_video'') Null
         in \<lparr>vr_textToVideo = legacy ''text_to_video'',
             vr_imageToVideo =
               if_empty (legacy ''image_to_video_rules'')
                 (if truthy imageRule \<and> truthy (get imageRule ''token_price'')
                  then [no_row\<lparr>row_resolution := Str ''1280x720'',
                          row_tokenPrice := Str (toNumericString (get imageRule ''token_price'')),
                          row_pixelCompression := Str (toNumericString (get imageRule ''pixel_compression''))\<rparr>]
                  else []),
             vr_videoUpload = legacy ''video_to_video_input'',
             vr_videoGenerate =
               if_empty (legacy ''video_to_video_output'')
                 (if_empty videoToVideoPerSecond (legacy ''video_to_video'')),
             vr_textToVideoPerSecond = per_second_rows (get rules ''text_to_video_per_second''),
             vr_imageToVideoPerSecond = per_second_rows (get rules ''image_to_video_per_second''),
             vr_videoToVideoPerSecond = videoToVideoPerSecond,
             vr_textToVideoPerVideo =
               per_video_rows rules ''text_to_video_per_item'' ''text_to_video_per_video'',
             vr_imageToVideoPerVideo =
               per_video_rows rules ''image_to_video_per_item'' ''image_to_video_per_video'',
             vr_videoUploadPerVideo =
               per_video_rows rules ''video_to_video_input_per_item'' ''video_to_video_input_per_video'',
             vr_videoGeneratePerVideo =
               if_empty (per_video_rows rules ''video_to_video_output_per_item'' ''video_to_video_output_per_video'')
                 (normalizeAudioPricedRows (get rules ''video_to_video_per_item'') ''video_price''),
             vr_similarityThreshold = toNumericString (get rules ''similarity_threshold''),
             vr_priceUnit = unit_text rules\<rparr>))"

section \<open>Models\<close>

definition ratioToBasePrice :: "string \<Rightarrow> string" where
  "ratioToBasePrice r =
     (case toNumberOrNull (Str r) of None \<Rightarrow> [] | Some num \<Rightarrow> formatNumber (Num (js_mul num (Fin 2))))"

record completion_meta =
  meta_locked :: bool
  meta_ratio :: string

definition normalizeCompletionRatioMeta :: "jsval \<Rightarrow> completion_meta" where
  "normalizeCompletionRatioMeta rawMeta =
     (if \<not> plain_object rawMeta then \<lparr>meta_locked = False, meta_ratio = []\<rparr>
      else \<lparr>meta_locked = truthy (get rawMeta ''locked''), meta_ratio = toNumericString (get rawMeta ''ratio'')\<rparr>)"

text \<open>The option maps the editor reads and writes.\<close>

datatype option_key = K_ModelPrice | K_ModelRatio | K_CompletionRatio | K_CompletionRatioMeta
  | K_CacheRatio | K_CreateCacheRatio | K_ImageRatio | K_AudioRatio | K_AudioCompletionRatio
  | K_VideoRatio | K_VideoCompletionRatio | K_VideoPrice | K_VideoPricingRules | K_ImagePrice
  | K_ImagePricingRules | K_ModelTierRatio | K_CompletionTierRatio | K_CacheTierRatio
  | K_CreateCacheTierRatio

record source_maps =
  option_map :: "option_key \<Rightarrow> jsval"
  VideoCurrencyRates :: currency_rates
  VideoPriceUnit :: string
  ImagePriceUnit :: string

definition source_at :: "source_maps \<Rightarrow> option_key \<Rightarrow> string \<Rightarrow> jsval" where
  "source_at maps k n = get (option_map maps k) n"

definition derived_price :: "jsnum option \<Rightarrow> string \<Rightarrow> string" where
  "derived_price base r =
     (case base of
        Some b \<Rightarrow> if hasValue (Str r) then formatNumber (Num (js_mul b (to_number_str r))) else []
      | None \<Rightarrow> [])"

definition tier_state :: "source_maps \<Rightarrow> option_key \<Rightarrow> string \<Rightarrow> jsval" where
  "tier_state maps k n =
     (let v = source_at maps k n in if truthy v then normalizeTierSegments v else Null)"

definition object_or_null :: "jsval \<Rightarrow> jsval" where
  "object_or_null v = (if truthy v \<and> typeof_object v then v else Null)"

definition legacy_row :: "string \<Rightarrow> string \<Rightarrow> video_row" where
  "legacy_row price compression =
     no_row\<lparr>row_resolution := Str ''1280x720'', row_tokenPrice := Str price, row_pixelCompression := Str compression\<rparr>"

definition unit_or :: "string \<Rightarrow> string \<Rightarrow> string" where
  "unit_or u fallback = (if u \<in> set price_units then u else fallback)"

definition nonempty_or :: "string \<Rightarrow> string \<Rightarrow> string" where
  "nonempty_or s d = (if s = [] then d else s)"

definition hasPerSecondTable :: "video_rules \<Rightarrow> bool" where
  "hasPerSecondTable r \<longleftrightarrow> vr_textToVideoPerSecond r \<noteq> [] \<or> vr_imageToVideoPerSecond r \<noteq> [] \<or>
     vr_videoToVideoPerSecond r \<noteq> []"

definition hasPerVideoTable :: "video_rules \<Rightarrow> bool" where
  "hasPerVideoTable r \<longleftrightarrow> vr_textToVideoPerVideo r \<noteq> [] \<or> vr_imageToVideoPerVideo r \<noteq> [] \<or>
     vr_videoUploadPerVideo r \<noteq> [] \<or> vr_videoGeneratePerVideo r \<noteq> []"

definition useLegacyRulesFallback :: "video_rules \<Rightarrow> string \<Rightarrow> bool" where
  "useLegacyRulesFallback r videoInputPrice \<longleftrightarrow>
     \<not> hasPerVideoTable r \<and> vr_textToVideo r = [] \<and> vr_videoGenerate r = [] \<and> vr_videoUpload r = [] \<and>
     vr_imageToVideo r = [] \<and> hasValue (Str videoInputPrice)"

text \<open>The rows of one section: per second, per video, the legacy default, or as stored.\<close>

definition section_rows ::
  "video_rules \<Rightarrow> string \<Rightarrow> video_row list \<Rightarrow> video_row list \<Rightarrow> video_row \<Rightarrow> video_row list \<Rightarrow> video_row list" where
  "section_rows r videoInputPrice perSecond perVideo legacy stored =
     (if hasPerSecondTable r then perSecond
      else if hasPerVideoTable r then perVideo
      else if useLegacyRulesFallback r videoInputPrice then [legacy] else stored)"

definition buildModelState :: "string \<Rightarrow> source_maps \<Rightarrow> model" where
  "buildModelState n maps =
     (let num = (\<lambda>k. toNumericString (source_at maps k n));
          modelRatio = num K_ModelRatio;
          completionRatio = num K_CompletionRatio;
          completionMeta = normalizeCompletionRatioMeta (source_at maps K_CompletionRatioMeta n);
          audioRatio = num K_AudioRatio;
          videoRatio = num K_VideoRatio;
          videoPrice = num K_VideoPrice;
          vr = parseVideoPricingRules (source_at maps K_VideoPricingRules n);
          ir = parseImagePricingRules (source_at maps K_ImagePricingRules n);
          hasPerImageTable = (ir_textToImage ir \<noteq> [] \<or> ir_imageToImage ir \<noteq> []);
          fixed = num K_ModelPrice;
          input = ratioToBasePrice modelRatio;
          base = toNumberOrNull (Str input);
          audioIn = derived_price base audioRatio;
          videoIn = derived_price base videoRatio;
          videoOut = derived_price (toNumberOrNull (Str videoIn)) (num K_VideoCompletionRatio);
          vUnit = unit_or (vr_priceUnit vr) (nonempty_or (VideoPriceUnit maps) ''USD'');
          iUnit = unit_or (ir_priceUnit ir)
                    (nonempty_or (ImagePriceUnit maps) (nonempty_or (VideoPriceUnit maps) ''USD''));
          vRows = (\<lambda>rows. mapVideoRuleRowsToDisplayUnit rows vUnit (VideoCurrencyRates maps));
          iRows = (\<lambda>rows. mapImageRuleRowsToDisplayUnit rows iUnit (VideoCurrencyRates maps));
          built = EMPTY_MODEL
            \<lparr>model_name := n,
             fixedPrice := fixed,
             inputPrice := input,
             completionRatioLocked := meta_locked completionMeta,
             lockedCompletionRatio := meta_ratio completionMeta,
             completionPrice :=
               derived_price base (if meta_locked completionMeta then meta_ratio completionMeta else completionRatio),
             cachePrice := derived_price base (num K_CacheRatio),
             createCachePrice := derived_price base (num K_CreateCacheRatio),
             imagePrice := derived_price base (num K_ImageRatio),
             audioInputPrice := audioIn,
             audioOutputPrice := derived_price (toNumberOrNull (Str audioIn)) (num K_AudioCompletionRatio),
             videoBillingMode :=
               (if hasPerSecondTable vr then ''per-second''
                else if hasPerVideoTable vr then ''per-item''
                else if hasValue (Str videoPrice) then ''per-item'' else ''per-second''),
             videoPriceUnit := vUnit,
             videoFixedPrice := fromUSDToDisplay (Str videoPrice) vUnit (VideoCurrencyRates maps),
             videoTextToVideoRules :=
               section_rows vr videoIn (vRows (vr_textToVideoPerSecond vr)) (vRows (vr_textToVideoPerVideo vr))
                 (legacy_row videoIn DEFAULT_TEXT_VIDEO_PIXEL_COMPRESSION) (vr_textToVideo vr),
             videoImageToVideoRules :=
               section_rows vr videoIn (vRows (vr_imageToVideoPerSecond vr)) (vRows (vr_imageToVideoPerVideo vr))
                 (legacy_row videoIn DEFAULT_IMAGE_VIDEO_PIXEL_COMPRESSION) (vr_imageToVideo vr),
             videoUploadRules :=
               section_rows vr videoIn (vRows (vr_videoToVideoPerSecond vr)) (vRows (vr_videoUploadPerVideo vr))
                 (legacy_row videoIn DEFAULT_VIDEO_VIDEO_PIXEL_COMPRESSION) (vr_videoUpload vr),
             videoGenerateRules :=
               section_rows vr videoIn (vRows (vr_videoToVideoPerSecond vr)) (vRows (vr_videoGeneratePerVideo vr))
                 (legacy_row (nonempty_or videoOut videoIn) DEFAULT_VIDEO_VIDEO_PIXEL_COMPRESSION)
                 (vr_videoGenerate vr),
             videoSimilarityThreshold := vr_similarityThreshold vr,
             imageGenPriceUnit := iUnit,
             imageGenFixedPrice := fromUSDToDisplay (Str (num K_ImagePrice)) iUnit (VideoCurrencyRates maps),
             imageTextToImageRules :=
               (if hasPerImageTable then iRows (ir_textToImage ir) else ir_textToImage ir),
             imageImageToImageRules :=
               (if hasPerImageTable then iRows (ir_imageToImage ir) else ir_imageToImage ir),
             imageSimilarityThreshold := ir_similarityThreshold ir,
             rawRatios :=
               \<lparr>raw_modelRatio = modelRatio, raw_completionRatio = completionRatio,
                raw_cacheRatio = num K_CacheRatio, raw_createCacheRatio = num K_CreateCacheRatio,
                raw_imageRatio = num K_ImageRatio, raw_audioRatio = audioRatio,
                raw_audioCompletionRatio = num K_AudioCompletionRatio, raw_videoRatio = videoRatio,
                raw_videoCompletionRatio = num K_VideoCompletionRatio, raw_videoPrice = videoPrice,
                raw_videoPricingRules = object_or_null (source_at maps K_VideoPricingRules n),
                raw_imagePrice = num K_ImagePrice,
                raw_imagePricingRules = object_or_null (source_at maps K_ImagePricingRules n)\<rparr>,
             modelTierRatio := tier_state maps K_ModelTierRatio n,
             completionTierRatio := tier_state maps K_CompletionTierRatio n,
             cacheTierRatio := tier_state maps K_CacheTierRatio n,
             createCacheTierRatio := tier_state maps K_CreateCacheTierRatio n\<rparr>
      in built\<lparr>billingMode := getEffectiveBillingMode built\<rparr>)"

end
