(* ===== verification/Pricing_Views.thy ===== *)
theory Pricing_Views
  imports Pricing_Rules
begin

text \<open>
  What the editor shows of a model: warnings, the summary line, the switches of the optional
  fields and the preview of the stored values
  (\<^verbatim>\<open>web/src/pages/Setting/Ratio/hooks/useModelPricingEditorState.js\<close>). The translation function
  \<open>t\<close> is a parameter.
\<close>

section \<open>Warnings\<close>

definition isBasePricingUnset :: "model \<Rightarrow> bool" where
  "isBasePricingUnset m \<longleftrightarrow>
     \<not> hasValue (Str (fixedPrice m)) \<and> \<not> hasValue (Str (inputPrice m)) \<and> \<not> hasAnyTierPricing m"

fun duplicate_key :: "string list \<Rightarrow> jsval list \<Rightarrow> bool" where
  "duplicate_key seen [] = False"
| "duplicate_key seen (r # rs) =
     (let key = resolution_key (to_str (js_or r (Str [])))
      in if key = [] then duplicate_key seen rs
         else if key \<in> set seen then True
         else duplicate_key (key # seen) rs)"

definition hasDuplicateResolution :: "jsval list \<Rightarrow> bool" where
  "hasDuplicateResolution resolutions = duplicate_key [] resolutions"

definition video_sections :: "model \<Rightarrow> video_row list list" where
  "video_sections m =
     [videoTextToVideoRules m, videoImageToVideoRules m, videoUploadRules m, videoGenerateRules m]"

definition image_sections :: "model \<Rightarrow> image_row list list" where
  "image_sections m = [imageTextToImageRules m, imageImageToImageRules m]"

definition token_prices :: "model \<Rightarrow> string list" where
  "token_prices m =
     [inputPrice m, completionPrice m, cachePrice m, createCachePrice m, imagePrice m,
      audioInputPrice m, audioOutputPrice m]"

definition has_some :: "string list \<Rightarrow> bool" where
  "has_some ss = list_ex (\<lambda>s. hasValue (Str s)) ss"

definition hasDerivedPricing :: "model \<Rightarrow> bool" where
  "hasDerivedPricing m \<longleftrightarrow> has_some (token_prices m) \<or> list_ex (\<lambda>rows. rows \<noteq> []) (video_sections m)"

definition hasTokenPricing :: "model \<Rightarrow> bool" where
  "hasTokenPricing m \<longleftrightarrow>
     has_some (token_prices m) \<or> hasValue (Str (videoFixedPrice m)) \<or>
     list_ex (\<lambda>rows. rows \<noteq> []) (video_sections m)"

definition extension_ratios :: "model \<Rightarrow> string list" where
  "extension_ratios m =
     (let r = rawRatios m
      in [raw_completionRatio r, raw_cacheRatio r, raw_createCacheRatio r, raw_imageRatio r, raw_audioRatio r,
          raw_audioCompletionRatio r, raw_videoRatio r, raw_videoCompletionRatio r])"

definition invalid_resolution :: "jsval \<Rightarrow> bool" where
  "invalid_resolution r \<longleftrightarrow> hasValue r \<and> \<not> isValidVideoResolution r"

definition invalid_price :: "jsval \<Rightarrow> bool" where
  "invalid_price p \<longleftrightarrow> hasValue p \<and> toNumberOrNull p = None"

definition duplicate_video_section :: "model \<Rightarrow> bool" where
  "duplicate_video_section m =
     list_ex (\<lambda>rows. hasDuplicateResolution (map row_resolution rows)) (video_sections m)"

definition duplicate_image_section :: "model \<Rightarrow> bool" where
  "duplicate_image_section m =
     list_ex (\<lambda>rows. hasDuplicateResolution (map img_resolution rows)) (image_sections m)"

definition per_second_warnings :: "model \<Rightarrow> translate \<Rightarrow> string list" where
  "per_second_warnings m t =
     (if isTokenBillingMode (billingMode m) \<and> videoBillingMode m = ''per-second''
      then
        (if list_ex (list_ex (\<lambda>row. invalid_resolution (row_resolution row))) (video_sections m)
         then [t msg_bad_resolution []] else []) @
        (if duplicate_video_section m then [t msg_dup_resolution []] else [])
      else [])"

definition per_item_warnings :: "model \<Rightarrow> translate \<Rightarrow> string list" where
  "per_item_warnings m t =
     (if isTokenBillingMode (billingMode m) \<and> videoBillingMode m = ''per-item''
      then
        (if list_ex (list_ex (\<lambda>row. invalid_resolution (row_resolution row) \<or> invalid_price (row_videoPrice row)))
              (video_sections m)
         then [t msg_bad_per_video []] else []) @
        (if duplicate_video_section m then [t msg_dup_resolution []] else [])
      else [])"

definition image_warnings :: "model \<Rightarrow> translate \<Rightarrow> string list" where
  "image_warnings m t =
     (if list_ex (list_ex (\<lambda>row. invalid_resolution (img_resolution row) \<or> invalid_price (img_imagePrice row)))
           (image_sections m)
      then [t msg_bad_per_image []] else []) @
     (if duplicate_image_section m then [t msg_dup_resolution []] else [])"

definition getModelWarnings :: "model option \<Rightarrow> translate \<Rightarrow> string list" where
  "getModelWarnings mo t =
     (case mo of
        None \<Rightarrow> []
      | Some m \<Rightarrow>
          (if hasValue (Str (fixedPrice m)) \<and> (hasAnyTierPricing m \<or> hasTokenPricing m)
           then [t msg_multi_pricing []]
           else if hasAnyTierPricing m \<and> hasTokenPricing m then [t msg_tier_text_only []] else []) @
          (if getEffectiveBillingMode m = ''per-request'' \<and> hasAnyTierPricing m
           then [t msg_tier_kept []] else []) @
          (if \<not> hasValue (Str (inputPrice m)) \<and> has_some (extension_ratios m)
           then [t msg_ratio_no_input []] else []) @
          (if isTokenBillingMode (billingMode m) \<and> hasDerivedPricing m \<and> \<not> hasValue (Str (inputPrice m))
           then [t msg_input_first []] else []) @
          (if isTokenBillingMode (billingMode m) \<and> hasValue (Str (audioOutputPrice m)) \<and>
              \<not> hasValue (Str (audioInputPrice m))
           then [t msg_audio_input_first []] else []) @
          per_second_warnings m t @
          per_item_warnings m t @
          image_warnings m t)"

section \<open>Summary and switches\<close>

definition buildSummaryText :: "model \<Rightarrow> translate \<Rightarrow> string" where
  "buildSummaryText m t =
     (let mode = getEffectiveBillingMode m
      in if mode = ''per-request'' \<and> hasValue (Str (fixedPrice m))
         then t lbl_per_request_short [] @ '' $'' @ fixedPrice m @ '' / '' @ t unit_times []
         else if mode = ''tiered'' \<and> hasAnyTierPricing m
         then t lbl_tiered [] @ lbl_bar_wide @ join '' / ''
                ((if hasTierSegments (modelTierRatio m) then [t lbl_input []] else []) @
                 (if hasTierSegments (completionTierRatio m) then [t lbl_output []] else []) @
                 (if hasTierSegments (cacheTierRatio m) then [t lbl_cache_read []] else []) @
                 (if hasTierSegments (createCacheTierRatio m) then [t lbl_cache_write []] else []))
         else if hasValue (Str (inputPrice m))
         then t lbl_input [] @ lbl_colon_wide @ ''$'' @ inputPrice m @ lbl_bar_wide @
              t lbl_output [] @ lbl_colon_wide @
              (if hasValue (Str (completionPrice m)) then ''$'' @ completionPrice m else ''-'')
         else t msg_price_unset [])"

datatype toggle_field = T_completionPrice | T_cachePrice | T_createCachePrice | T_imagePrice
  | T_audioInputPrice | T_audioOutputPrice | T_video | T_imageGeneration

definition buildOptionalFieldToggles :: "model \<Rightarrow> toggle_field \<Rightarrow> bool" where
  "buildOptionalFieldToggles m f =
     (case f of
        T_completionPrice \<Rightarrow> completionRatioLocked m \<or> hasValue (Str (completionPrice m))
      | T_cachePrice \<Rightarrow> hasValue (Str (cachePrice m))
      | T_createCachePrice \<Rightarrow> hasValue (Str (createCachePrice m))
      | T_imagePrice \<Rightarrow> hasValue (Str (imagePrice m))
      | T_audioInputPrice \<Rightarrow> hasValue (Str (audioInputPrice m))
      | T_audioOutputPrice \<Rightarrow> hasValue (Str (audioOutputPrice m))
      | T_video \<Rightarrow>
          list_ex (\<lambda>rows. rows \<noteq> []) (video_sections m) \<or> hasValue (Str (videoFixedPrice m)) \<or>
          list_ex (list_ex (\<lambda>row. hasValue (row_videoPrice row))) (video_sections m)
      | T_imageGeneration \<Rightarrow>
          list_ex (\<lambda>rows. rows \<noteq> []) (image_sections m) \<or> hasValue (Str (imageGenFixedPrice m)) \<or>
          list_ex (list_ex (\<lambda>row. hasValue (img_imagePrice row))) (image_sections m))"

section \<open>Preview\<close>

record preview_row =
  pv_key :: string
  pv_label :: string
  pv_value :: string

record preview_section =
  sec_key :: string
  sec_title :: string
  sec_description :: "string option"
  sec_rows :: "preview_row list"

definition pv :: "string \<Rightarrow> string \<Rightarrow> preview_row" where
  "pv k v = \<lparr>pv_key = k, pv_label = k, pv_value = v\<rparr>"

definition or_empty :: "translate \<Rightarrow> string \<Rightarrow> string" where
  "or_empty t s = (if hasValue (Str s) then s else t lbl_empty [])"

definition tier_count :: "translate \<Rightarrow> jsval \<Rightarrow> string" where
  "tier_count t tier =
     (if hasTierSegments tier
      then nat_str (length (arr_elems (get tier ''segments''))) @ t lbl_tiers []
      else t lbl_empty [])"

definition quotient_text :: "translate \<Rightarrow> jsnum option \<Rightarrow> jsnum \<Rightarrow> string" where
  "quotient_text t p base =
     (case p of Some x \<Rightarrow> formatNumber (Num (js_div x base)) | None \<Rightarrow> t lbl_empty [])"

definition has_priced_video_row :: "model \<Rightarrow> bool" where
  "has_priced_video_row m =
     list_ex (list_ex (\<lambda>row. hasValue (row_resolution row) \<and> hasValue (row_videoPrice row))) (video_sections m)"

definition has_priced_image_row :: "model \<Rightarrow> bool" where
  "has_priced_image_row m =
     list_ex (list_ex (\<lambda>row. hasValue (img_resolution row) \<and> hasValue (img_imagePrice row))) (image_sections m)"

definition token_preview_rows :: "model \<Rightarrow> translate \<Rightarrow> preview_row list" where
  "token_preview_rows m t =
     (let price = (\<lambda>f. toNumberOrNull (Str (f m)))
      in case price inputPrice of
        None \<Rightarrow>
          [pv ''ModelRatio'' (or_empty t (raw_modelRatio (rawRatios m))),
           pv ''CompletionRatio'' (or_empty t (raw_completionRatio (rawRatios m))),
           pv ''CacheRatio'' (or_empty t (raw_cacheRatio (rawRatios m))),
           pv ''CreateCacheRatio'' (or_empty t (raw_createCacheRatio (rawRatios m))),
           pv ''ImageRatio'' (or_empty t (raw_imageRatio (rawRatios m))),
           pv ''AudioRatio'' (or_empty t (raw_audioRatio (rawRatios m))),
           pv ''AudioCompletionRatio'' (or_empty t (raw_audioCompletionRatio (rawRatios m)))]
      | Some input \<Rightarrow>
          [pv ''ModelRatio'' (formatNumber (Num (js_div input (Fin 2)))),
           pv ''CompletionRatio''
             (if completionRatioLocked m
              then nonempty_or (lockedCompletionRatio m) (t lbl_empty []) @ '' ('' @ t lbl_backend_fixed [] @ '')''
              else quotient_text t (price completionPrice) input),
           pv ''CacheRatio'' (quotient_text t (price cachePrice) input),
           pv ''CreateCacheRatio'' (quotient_text t (price createCachePrice) input),
           pv ''ImageRatio'' (quotient_text t (price imagePrice) input),
           pv ''AudioRatio'' (quotient_text t (price audioInputPrice) input),
           pv ''AudioCompletionRatio''
             (case (price audioOutputPrice, price audioInputPrice) of
                (Some out, Some inp) \<Rightarrow>
                  if \<not> num_eq inp (Fin 0) then formatNumber (Num (js_div out inp)) else t lbl_empty []
              | _ \<Rightarrow> t lbl_empty [])])"

definition media_preview_rows :: "model \<Rightarrow> translate \<Rightarrow> preview_row list" where
  "media_preview_rows m t =
     (let videoPerToken = (videoBillingMode m = ''per-second'');
          videoPerVideo = (videoBillingMode m = ''per-item'');
          input = toNumberOrNull (Str (inputPrice m));
          videoFixed = toNumberOrNull (Str (videoFixedPrice m));
          perVideoRows = (videoPerVideo \<and> has_priced_video_row m);
          imageFixed = toNumberOrNull (Str (imageGenFixedPrice m));
          videoRules = raw_videoPricingRules (rawRatios m);
          imageRules = raw_imagePricingRules (rawRatios m)
      in [pv ''VideoRatio''
            (case (input, videoFixed) of
               (Some i, Some v) \<Rightarrow>
                 if videoPerToken then formatNumber (Num (js_div v i)) else or_empty t (raw_videoRatio (rawRatios m))
             | _ \<Rightarrow> or_empty t (raw_videoRatio (rawRatios m))),
          pv ''VideoCompletionRatio'' (or_empty t (raw_videoCompletionRatio (rawRatios m))),
          pv ''VideoPricingRules''
            (if (videoPerToken \<and>
                 (list_ex (\<lambda>rows. rows \<noteq> []) (video_sections m) \<or> (truthy videoRules \<and> typeof_object videoRules)))
                \<or> perVideoRows
             then t lbl_configured [] else t lbl_empty []),
          pv ''VideoPrice''
            (case videoFixed of
               Some v \<Rightarrow> if videoPerVideo \<and> \<not> perVideoRows then formatNumber (Num v)
                 else if videoPerVideo \<and> perVideoRows then t msg_see_video_rules [] else t lbl_empty []
             | None \<Rightarrow> if videoPerVideo \<and> perVideoRows then t msg_see_video_rules [] else t lbl_empty []),
          pv ''ImagePricingRules''
            (if has_priced_image_row m \<or> (truthy imageRules \<and> typeof_object imageRules)
             then t lbl_configured [] else t lbl_empty []),
          pv ''ImagePrice''
            (case imageFixed of
               Some v \<Rightarrow> if \<not> has_priced_image_row m then formatNumber (Num v) else t msg_see_image_rules []
             | None \<Rightarrow> if has_priced_image_row m then t msg_see_image_rules [] else t lbl_empty [])])"

definition buildPreviewRows :: "model option \<Rightarrow> translate \<Rightarrow> preview_section list" where
  "buildPreviewRows mo t =
     (case mo of
        None \<Rightarrow> []
      | Some m \<Rightarrow>
          [\<lparr>sec_key = ''per-request'', sec_title = t lbl_per_request [], sec_description = None,
            sec_rows = [pv ''ModelPrice'' (or_empty t (fixedPrice m))]\<rparr>,
           \<lparr>sec_key = ''tiered'', sec_title = t lbl_tiered [], sec_description = Some (t msg_text_only []),
            sec_rows =
              [pv ''ModelTierRatio'' (tier_count t (modelTierRatio m)),
               pv ''CompletionTierRatio'' (tier_count t (completionTierRatio m)),
               pv ''CacheTierRatio'' (tier_count t (cacheTierRatio m)),
               pv ''CreateCacheTierRatio'' (tier_count t (createCacheTierRatio m))]\<rparr>,
           \<lparr>sec_key = ''per-token'', sec_title = t lbl_per_token [], sec_description = Some (t msg_extension_prices []),
            sec_rows = token_preview_rows m t @ media_preview_rows m t\<rparr>])"

end
