(* ===== verification/Pricing_Serialize.thy ===== *)
theory Pricing_Serialize
  imports Pricing_Views
begin

text \<open>
  From an edited model to the stored option values: \<^verbatim>\<open>serializeModel\<close> of
  \<^verbatim>\<open>web/src/pages/Setting/Ratio/hooks/useModelPricingEditorState.js\<close>. The result maps each
  option to the value for the model; \<^const>\<open>Null\<close> leaves the option without an entry and the
  string \<^verbatim>\<open>REMOVE_OPTION_KEY\<close> removes one.
\<close>

definition REMOVE_OPTION_KEY :: string where
  "REMOVE_OPTION_KEY = ''__remove_option_key__''"

type_synonym serialized = "option_key \<Rightarrow> jsval"

text \<open>The keys of the result object, in its order.\<close>

definition serialized_keys :: "option_key list" where
  "serialized_keys =
     [K_ModelPrice, K_ModelRatio, K_CompletionRatio, K_CacheRatio, K_CreateCacheRatio, K_ImageRatio,
      K_AudioRatio, K_AudioCompletionRatio, K_VideoRatio, K_VideoCompletionRatio, K_VideoPrice,
      K_VideoPricingRules, K_ImagePrice, K_ImagePricingRules, K_ModelTierRatio, K_CompletionTierRatio,
      K_CacheTierRatio, K_CreateCacheTierRatio]"

definition num_or_null :: "jsnum option \<Rightarrow> jsval" where
  "num_or_null x = (case x of Some n \<Rightarrow> Num n | None \<Rightarrow> Null)"

definition positive :: "jsnum option \<Rightarrow> bool" where
  "positive x = (case x of Some n \<Rightarrow> js_lt (Fin 0) n | None \<Rightarrow> False)"

section \<open>Rule rows\<close>

text \<open>\<^verbatim>\<open>resolution.replace(...)\<close>: a type error on anything but a string.\<close>

definition resolution_text :: "jsval \<Rightarrow> string res" where
  "resolution_text r = (case r of Str s \<Rightarrow> Ok (remove_ws s) | _ \<Rightarrow> Throw Type_Error)"

definition image_row_out :: "image_row \<Rightarrow> (string \<times> jsnum option) res" where
  "image_row_out row =
     bind_res (resolution_text (img_resolution row)) (\<lambda>r. Ok (r, toNumberOrNull (img_imagePrice row)))"

definition image_row_val :: "string \<times> jsnum option \<Rightarrow> jsval" where
  "image_row_val e = Obj [(''resolution'', Str (fst e)), (''image_price'', num_or_null (snd e))]"

definition normalizePerImagePricingRows :: "image_row list \<Rightarrow> jsval list res" where
  "normalizePerImagePricingRows rows =
     bind_res
       (map_all_res image_row_out
          (filter (\<lambda>row. hasValue (img_resolution row) \<and> hasValue (img_imagePrice row) \<and>
                         isValidVideoResolution (img_resolution row)) rows))
       (\<lambda>es. Ok (map image_row_val (filter (\<lambda>e. positive (snd e)) es)))"

text \<open>
  A priced video row; the pixel compression that the per-second variant also computes reaches no
  output.
\<close>

record priced_row =
  pr_resolution :: string
  pr_price :: jsnum
  pr_audio :: bool

definition priced :: "string \<Rightarrow> bool \<Rightarrow> jsnum option \<Rightarrow> priced_row list" where
  "priced r audio p =
     (case p of
        Some x \<Rightarrow> if js_lt (Fin 0) x then [\<lparr>pr_resolution = r, pr_price = x, pr_audio = audio\<rparr>] else []
      | None \<Rightarrow> [])"

definition video_row_out :: "(video_row \<Rightarrow> jsval) \<Rightarrow> video_row \<Rightarrow> priced_row list res" where
  "video_row_out price_field row =
     bind_res (resolution_text (row_resolution row))
       (\<lambda>r. Ok
          (if truthy (row_audioPricingEnabled row)
           then priced r False (toNumberOrNull (row_noAudioPrice row)) @
                priced r True (toNumberOrNull (row_withAudioPrice row))
           else priced r False (toNumberOrNull (price_field row)) @
                priced r True (toNumberOrNull (price_field row))))"

definition row_selected :: "(video_row \<Rightarrow> jsval) \<Rightarrow> video_row \<Rightarrow> bool" where
  "row_selected price_field row \<longleftrightarrow>
     hasValue (row_resolution row) \<and>
     (hasValue (price_field row) \<or> hasValue (row_noAudioPrice row) \<or> hasValue (row_withAudioPrice row)) \<and>
     isValidVideoResolution (row_resolution row)"

definition priced_rows :: "(video_row \<Rightarrow> jsval) \<Rightarrow> video_row list \<Rightarrow> priced_row list res" where
  "priced_rows price_field rows =
     bind_res (map_all_res (video_row_out price_field) (filter (row_selected price_field) rows))
       (\<lambda>rss. Ok (dedup_by (\<lambda>r. (pr_resolution r, pr_audio r)) [] (concat rss)))"

definition normalizePerVideoPricingRows :: "video_row list \<Rightarrow> priced_row list res" where
  "normalizePerVideoPricingRows rows = priced_rows row_videoPrice rows"

definition normalizePerSecondRows :: "video_row list \<Rightarrow> priced_row list res" where
  "normalizePerSecondRows rows = priced_rows row_tokenPrice rows"

definition per_video_val :: "priced_row \<Rightarrow> jsval" where
  "per_video_val r =
     Obj [(''resolution'', Str (pr_resolution r)), (''video_price'', Num (pr_price r)),
          (''has_audio'', Bool (pr_audio r))]"

definition usd_row :: "jsnum \<Rightarrow> priced_row \<Rightarrow> priced_row" where
  "usd_row rate r = r\<lparr>pr_price := js_div (pr_price r) rate\<rparr>"

definition priced_val :: "priced_row \<Rightarrow> jsval" where
  "priced_val r =
     Obj [(''resolution'', Str (pr_resolution r)), (''has_audio'', Bool (pr_audio r)),
          (''price'', Num (pr_price r))]"

definition seen_key :: "priced_row \<Rightarrow> string" where
  "seen_key r =
     to_lower (pr_resolution r) @ ''|'' @ (if pr_audio r then ''1'' else ''0'') @ ''|'' @ num_str (pr_price r)"

text \<open>A property that is set only when its rows are not empty.\<close>

definition rows_prop :: "string \<Rightarrow> jsval list \<Rightarrow> (string \<times> jsval) list" where
  "rows_prop k vs = (if vs \<noteq> [] then [(k, Arr vs)] else [])"

definition threshold_prop :: "string \<Rightarrow> (string \<times> jsval) list" where
  "threshold_prop s =
     (let x = toNumberOrNull (Str s)
      in if positive x then [(''similarity_threshold'', num_or_null x)] else [])"

section \<open>The parts of the result\<close>

definition visible_category :: "jsval \<Rightarrow> string \<Rightarrow> bool" where
  "visible_category visibleCategories k \<longleftrightarrow> visibleCategories = Null \<or> truthy (get visibleCategories k)"

definition tier_value :: "bool \<Rightarrow> jsval \<Rightarrow> jsval" where
  "tier_value visible tier =
     (if visible \<and> hasTierSegments tier then Obj [(''segments'', get tier ''segments'')] else Null)"

definition base_result :: "model \<Rightarrow> jsval \<Rightarrow> serialized" where
  "base_result m visibleCategories =
     (\<lambda>_. Null)
       (K_ModelPrice :=
          (if getEffectiveBillingMode m = ''per-request'' \<and> hasValue (Str (fixedPrice m))
           then num_or_null (toNormalizedNumber (Str (fixedPrice m))) else Null),
        K_ModelTierRatio := tier_value True (modelTierRatio m),
        K_CompletionTierRatio := tier_value (visible_category visibleCategories ''output'') (completionTierRatio m),
        K_CacheTierRatio := tier_value (visible_category visibleCategories ''cache_read'') (cacheTierRatio m),
        K_CreateCacheTierRatio :=
          tier_value (visible_category visibleCategories ''cache_write'') (createCacheTierRatio m))"

definition hasDependentPrice :: "model \<Rightarrow> bool" where
  "hasDependentPrice m \<longleftrightarrow>
     list_ex (\<lambda>f. toNumberOrNull (Str (f m)) \<noteq> None)
       [completionPrice, cachePrice, createCachePrice, imagePrice, audioInputPrice, audioOutputPrice] \<or>
     (videoBillingMode m = ''per-second'' \<and> list_ex (\<lambda>rows. rows \<noteq> []) (video_sections m)) \<or>
     (videoBillingMode m = ''per-item'' \<and> has_priced_video_row m)"

definition raw_value :: "string \<Rightarrow> jsval" where
  "raw_value s = (if hasValue (Str s) then num_or_null (toNormalizedNumber (Str s)) else Null)"

definition usd_fixed :: "string \<Rightarrow> jsnum \<Rightarrow> jsval" where
  "usd_fixed s rate =
     (case toNumberOrNull (Str s) of
        Some x \<Rightarrow> num_or_null (toNormalizedNumber (Num (js_div x rate))) | None \<Rightarrow> Null)"

definition raw_ratio_result :: "model \<Rightarrow> serialized \<Rightarrow> serialized" where
  "raw_ratio_result m result =
     (let r = rawRatios m
      in result
        (K_ModelRatio := raw_value (raw_modelRatio r),
         K_CompletionRatio := raw_value (raw_completionRatio r),
         K_CacheRatio := raw_value (raw_cacheRatio r),
         K_CreateCacheRatio := raw_value (raw_createCacheRatio r),
         K_ImageRatio := raw_value (raw_imageRatio r),
         K_AudioRatio := raw_value (raw_audioRatio r),
         K_AudioCompletionRatio := raw_value (raw_audioCompletionRatio r)))"

text \<open>The result for a model without an input price.\<close>

definition result_without_input :: "model \<Rightarrow> jsnum \<Rightarrow> serialized \<Rightarrow> serialized res" where
  "result_without_input m fromRate result0 =
     (let r = rawRatios m; result = raw_ratio_result m result0
      in if videoBillingMode m = ''per-second''
         then Ok (result
           (K_VideoRatio := raw_value (raw_videoRatio r),
            K_VideoCompletionRatio := raw_value (raw_videoCompletionRatio r),
            K_VideoPricingRules := object_or_null (raw_videoPricingRules r)))
         else if videoBillingMode m = ''per-item''
         then
           bind_res (normalizePerVideoPricingRows (videoTextToVideoRules m)) (\<lambda>textPV.
           bind_res (normalizePerVideoPricingRows (videoImageToVideoRules m)) (\<lambda>imagePV.
           bind_res (normalizePerVideoPricingRows (videoGenerateRules m)) (\<lambda>genPV.
             (let props = rows_prop ''text_to_video_per_video'' (map per_video_val textPV) @
                          rows_prop ''image_to_video_per_video'' (map per_video_val imagePV) @
                          rows_prop ''video_to_video_output_per_video'' (map per_video_val genPV)
              in Ok (result
                (K_VideoPrice := usd_fixed (videoFixedPrice m) fromRate,
                 K_VideoPricingRules := (if props \<noteq> [] then Obj props else Null)))))))
         else Ok result)"

text \<open>Ratios relative to the input price.\<close>

definition ratio_value :: "string \<Rightarrow> jsnum \<Rightarrow> jsval" where
  "ratio_value s input =
     (case toNumberOrNull (Str s) of
        Some x \<Rightarrow> num_or_null (toNormalizedNumber (Num (js_div x input))) | None \<Rightarrow> Null)"

definition completion_value :: "model \<Rightarrow> jsnum \<Rightarrow> jsval" where
  "completion_value m input =
     (if completionRatioLocked m then raw_value (raw_completionRatio (rawRatios m))
      else ratio_value (completionPrice m) input)"

definition audio_completion_value :: "model \<Rightarrow> translate \<Rightarrow> jsval res" where
  "audio_completion_value m t =
     (case toNumberOrNull (Str (audioOutputPrice m)) of
        None \<Rightarrow> Ok Null
      | Some out \<Rightarrow>
          (case toNumberOrNull (Str (audioInputPrice m)) of
             None \<Rightarrow> Throw (Error_Msg (t msg_missing_audio_input [(''name'', model_name m)]))
           | Some inp \<Rightarrow>
               if num_eq inp (Fin 0)
               then Throw (Error_Msg (t msg_missing_audio_input [(''name'', model_name m)]))
               else Ok (num_or_null (toNormalizedNumber (Num (js_div out inp))))))"

definition ratio_result :: "model \<Rightarrow> jsnum \<Rightarrow> jsval \<Rightarrow> serialized \<Rightarrow> serialized" where
  "ratio_result m input audioCompletion result =
     result
       (K_ModelRatio := num_or_null (toNormalizedNumber (Num (js_div input (Fin 2)))),
        K_CompletionRatio := completion_value m input,
        K_CacheRatio := ratio_value (cachePrice m) input,
        K_CreateCacheRatio := ratio_value (createCachePrice m) input,
        K_ImageRatio := ratio_value (imagePrice m) input,
        K_AudioRatio := ratio_value (audioInputPrice m) input,
        K_AudioCompletionRatio := audioCompletion)"

text \<open>The rules of the video sections, in US dollars, under the keys of the billing mode.\<close>

definition video_rule_props ::
  "string \<Rightarrow> jsnum \<Rightarrow> priced_row list \<Rightarrow> priced_row list \<Rightarrow> priced_row list \<Rightarrow> (string \<times> jsval) list" where
  "video_rule_props sfx fromRate text img gen =
     rows_prop (''text_to_video_'' @ sfx) (map (priced_val \<circ> usd_row fromRate) text) @
     rows_prop (''image_to_video_'' @ sfx) (map (priced_val \<circ> usd_row fromRate) img) @
     rows_prop (''video_to_video_'' @ sfx)
       (map priced_val (dedup_by seen_key [] (map (usd_row fromRate) gen)))"

definition video_result :: "model \<Rightarrow> string \<Rightarrow> jsnum \<Rightarrow> serialized \<Rightarrow> serialized res" where
  "video_result m fromUnit fromRate result =
     (if videoBillingMode m = ''per-second''
      then
        bind_res (normalizePerSecondRows (videoTextToVideoRules m)) (\<lambda>text.
        bind_res (normalizePerSecondRows (videoImageToVideoRules m)) (\<lambda>img.
        bind_res (normalizePerSecondRows (videoGenerateRules m)) (\<lambda>gen.
          Ok (if text = [] \<and> img = [] \<and> gen = [] then result
              else result(K_VideoPricingRules :=
                Obj (video_rule_props ''per_second'' fromRate text img gen @
                     threshold_prop (videoSimilarityThreshold m) @ [(''price_unit'', Str fromUnit)]))))))
      else if videoBillingMode m = ''per-item''
      then
        bind_res (normalizePerVideoPricingRows (videoTextToVideoRules m)) (\<lambda>text.
        bind_res (normalizePerVideoPricingRows (videoImageToVideoRules m)) (\<lambda>img.
        bind_res (normalizePerVideoPricingRows (videoGenerateRules m)) (\<lambda>gen.
          Ok (result
            (K_VideoPrice := usd_fixed (videoFixedPrice m) fromRate,
             K_VideoPricingRules :=
               (if text = [] \<and> img = [] \<and> gen = []
                then (if toNumberOrNull (Str (videoFixedPrice m)) \<noteq> None
                      then Obj [(''price_unit'', Str fromUnit)] else result K_VideoPricingRules)
                else Obj (video_rule_props ''per_item'' fromRate text img gen @
                          [(''price_unit'', Str fromUnit)])))))))
      else Ok result)"

definition image_result :: "model \<Rightarrow> string \<Rightarrow> jsnum \<Rightarrow> serialized \<Rightarrow> serialized res" where
  "image_result m imageFromUnit imageFromRate result =
     bind_res (normalizePerImagePricingRows (imageTextToImageRules m)) (\<lambda>textPI.
     bind_res (normalizePerImagePricingRows (imageImageToImageRules m)) (\<lambda>imagePI.
       (let hasFixed = toNumberOrNull (Str (imageGenFixedPrice m)) \<noteq> None; r = rawRatios m
        in Ok
          (if textPI \<noteq> [] \<or> imagePI \<noteq> [] \<or> hasFixed
           then result
             (K_ImagePrice := usd_fixed (imageGenFixedPrice m) imageFromRate,
              K_ImagePricingRules :=
                Obj (rows_prop ''text_to_image_per_image'' textPI @
                     rows_prop ''image_to_image_per_image'' imagePI @
                     threshold_prop (imageSimilarityThreshold m) @ [(''price_unit'', Str imageFromUnit)]),
              K_ModelPrice :=
                (if textPI \<noteq> [] \<or> imagePI \<noteq> [] then Str REMOVE_OPTION_KEY else result K_ModelPrice))
           else if hasValue (raw_imagePricingRules r)
           then result(K_ImagePricingRules := raw_imagePricingRules r)
           else if hasValue (Str (raw_imagePrice r))
           then result(K_ImagePrice := num_or_null (toNormalizedNumber (Str (raw_imagePrice r))))
           else result))))"

definition serializeModel :: "model \<Rightarrow> translate \<Rightarrow> currency_rates \<Rightarrow> jsval \<Rightarrow> serialized res" where
  "serializeModel m t rates visibleCategories =
     (let fromUnit = unit_or (videoPriceUnit m) ''USD'';
          fromRate = positive_rate rates fromUnit;
          imageFromUnit = unit_or (imageGenPriceUnit m) ''USD'';
          imageFromRate = positive_rate rates imageFromUnit;
          result = base_result m visibleCategories
      in case toNumberOrNull (Str (inputPrice m)) of
           None \<Rightarrow>
             if hasDependentPrice m
             then Throw (Error_Msg (t msg_missing_input [(''name'', model_name m)]))
             else result_without_input m fromRate result
         | Some input \<Rightarrow>
             bind_res (audio_completion_value m t) (\<lambda>audioCompletion.
             bind_res (video_result m fromUnit fromRate (ratio_result m input audioCompletion result))
               (image_result m imageFromUnit imageFromRate)))"

end
