(* ===== verification/Video_Pricing_Json.thy ===== *)
theory Video_Pricing_Json
  imports Pricing_Data
begin

text \<open>
  The JSON view of video prices: \<^verbatim>\<open>web/src/pages/Setting/Ratio/utils/videoPricingJson.js\<close>. The
  editor shows the video rules of a model as commented JSON text and reads such text back.
\<close>

section \<open>Resolutions\<close>

definition RESOLUTION_TO_CANONICAL :: "(string \<times> string) list" where
  "RESOLUTION_TO_CANONICAL =
     [(''480'', ''854x480''), (''480p'', ''854x480''), (''854x480'', ''854x480''),
      (''540'', ''960x540''), (''540p'', ''960x540''), (''960x540'', ''960x540''),
      (''720'', ''1280x720''), (''720p'', ''1280x720''), (''1280x720'', ''1280x720''),
      (''1080'', ''1920x1080''), (''1080p'', ''1920x1080''), (''1920x1080'', ''1920x1080''),
      (''2k'', ''2560x1440''), (''2K'', ''2560x1440''), (''2560x1440'', ''2560x1440''),
      (''4k'', ''3840x2160''), (''4K'', ''3840x2160''), (''3840x2160'', ''3840x2160'')]"

definition CANONICAL_TO_SHORT :: "(string \<times> string) list" where
  "CANONICAL_TO_SHORT =
     [(''854x480'', ''480''), (''960x540'', ''540''), (''1280x720'', ''720''),
      (''1920x1080'', ''1080''), (''2560x1440'', ''2k''), (''3840x2160'', ''4k'')]"

definition VIDEO_PRICING_JSON_RESOLUTION_KEYS :: "string list" where
  "VIDEO_PRICING_JSON_RESOLUTION_KEYS = [''480'', ''540'', ''720'', ''1080'', ''2k'', ''4k'']"

definition SECTION_META :: "(string \<times> string) list" where
  "SECTION_META =
     [(''text_to_video'', lbl_text_to_video), (''image_to_video'', lbl_image_to_video),
      (''video_to_video'', lbl_video_to_video)]"

definition toNumericString_json :: "jsval \<Rightarrow> string" where
  "toNumericString_json v =
     (if v = Str [] \<or> v = Null \<or> v = Undef then []
      else (let num = to_num v in if is_finite num then num_str num else []))"

definition normalizeResolutionKey :: "jsval \<Rightarrow> string" where
  "normalizeResolutionKey key =
     (let raw = trim (to_str (js_or key (Str [])))
      in if raw = [] then []
         else case map_of RESOLUTION_TO_CANONICAL (to_lower raw) of
           Some c \<Rightarrow> c
         | None \<Rightarrow>
           (case map_of RESOLUTION_TO_CANONICAL raw of
              Some c \<Rightarrow> c
            | None \<Rightarrow>
                (if all_digits raw
                 then (case map_of RESOLUTION_TO_CANONICAL (raw @ ''p'') of
                         Some c \<Rightarrow> c | None \<Rightarrow> remove_ws raw)
                 else remove_ws raw)))"

definition resolutionToShortKey :: "jsval \<Rightarrow> string" where
  "resolutionToShortKey resolution =
     (let canon = normalizeResolutionKey resolution
      in case map_of CANONICAL_TO_SHORT canon of Some k \<Rightarrow> k | None \<Rightarrow> canon)"

section \<open>Comments\<close>

text \<open>
  The scanner of \<^verbatim>\<open>stripJsonLineComments\<close>; the flags are \<^verbatim>\<open>inString\<close> and \<^verbatim>\<open>escape\<close>. A comment
  is skipped with the line break that ends it.
\<close>

function strip_comments :: "bool \<Rightarrow> bool \<Rightarrow> string \<Rightarrow> string" where
  "strip_comments inString escape [] = []"
| "strip_comments inString escape (c # rest) =
     (if inString
      then c # (if escape then strip_comments True False rest
                else if c = backslash then strip_comments True True rest
                else if c = dquote then strip_comments False False rest
                else strip_comments True False rest)
      else if c = dquote then c # strip_comments True False rest
      else if c = CHR ''/'' \<and> rest \<noteq> [] \<and> hd rest = CHR ''/''
      then strip_comments False False (drop 1 (dropWhile (\<lambda>d. d \<noteq> CHR 0x0A) rest))
      else c # strip_comments False False rest)"
  by pat_completeness auto
termination
proof (relation "measure (\<lambda>(_, _, s). length s)")
  fix c :: char and rest :: string
  have "length (drop 1 (dropWhile (\<lambda>d. d \<noteq> CHR 0x0A) rest)) \<le> length rest"
    using length_dropWhile_le [of "\<lambda>d. d \<noteq> CHR 0x0A" rest] by simp
  then show "((False, False, drop 1 (dropWhile (\<lambda>d. d \<noteq> CHR 0x0A) rest)), inString, escape, c # rest)
      \<in> measure (\<lambda>(_, _, s). length s)" for inString escape by simp
qed auto

definition stripJsonLineComments :: "string \<Rightarrow> string" where
  "stripJsonLineComments text = strip_comments False False text"

text \<open>\<^verbatim>\<open>{ ok: false, message }\<close> is \<open>Inl message\<close>.\<close>

definition parseVideoPricingJsonText :: "string \<Rightarrow> string + jsval" where
  "parseVideoPricingJsonText text =
     (case json_parse (stripJsonLineComments (if text = [] then ''{}'' else text)) of
        Throw _ \<Rightarrow> Inl msg_bad_json
      | Ok parsed \<Rightarrow>
          if \<not> truthy parsed \<or> \<not> typeof_object parsed \<or> is_array parsed then Inl msg_bad_json
          else Inr parsed)"

section \<open>Writing\<close>

definition toPriceNumber :: "jsval \<Rightarrow> jsnum option" where
  "toPriceNumber v = (let s = toNumericString_json v in if s = [] then None else Some (to_number_str s))"

definition serializePricesFromRow :: "video_row \<Rightarrow> bool \<Rightarrow> (string \<times> jsnum list) option" where
  "serializePricesFromRow row perItem =
     (if \<not> truthy (row_resolution row) then None
      else
        (let shortKey = resolutionToShortKey (row_resolution row)
         in if truthy (row_audioPricingEnabled row)
            then (case (toPriceNumber (row_noAudioPrice row), toPriceNumber (row_withAudioPrice row)) of
                    (None, None) \<Rightarrow> None
                  | (Some noAudio, Some withAudio) \<Rightarrow>
                      if js_lt (js_abs (js_sub noAudio withAudio)) e_9 then Some (shortKey, [noAudio])
                      else Some (shortKey, [noAudio, withAudio])
                  | (Some noAudio, None) \<Rightarrow> Some (shortKey, [noAudio])
                  | (None, Some withAudio) \<Rightarrow> Some (shortKey, [withAudio]))
            else map_option (\<lambda>unified. (shortKey, [unified]))
                   (toPriceNumber (if perItem then row_videoPrice row else row_tokenPrice row))))"

definition enable_row ::
  "bool \<Rightarrow> (string \<times> jsnum list) list \<Rightarrow> video_row \<Rightarrow> (string \<times> jsnum list) list" where
  "enable_row perItem enabled row =
     (case serializePricesFromRow row perItem of
        None \<Rightarrow> enabled | Some (k, ps) \<Rightarrow> set_prop k ps enabled)"

definition section_out :: "(string \<times> jsnum list) list \<Rightarrow> jsval" where
  "section_out enabled =
     Obj (map (\<lambda>k. (k, Arr (map Num (case map_of enabled k of Some ps \<Rightarrow> ps | None \<Rightarrow> []))))
            VIDEO_PRICING_JSON_RESOLUTION_KEYS)"

definition serializeSectionMapFull :: "video_row list \<Rightarrow> bool \<Rightarrow> jsval" where
  "serializeSectionMapFull rows perItem = section_out (foldl (enable_row perItem) [] rows)"

definition serializeVideoToVideoSectionFull :: "video_row list \<Rightarrow> video_row list \<Rightarrow> bool \<Rightarrow> jsval" where
  "serializeVideoToVideoSectionFull uploadRules generateRules perItem =
     section_out (foldl (enable_row perItem) (foldl (enable_row perItem) [] uploadRules) generateRules)"

definition str_or :: "string \<Rightarrow> string \<Rightarrow> string" where
  "str_or s d = (if s = [] then d else s)"

definition buildVideoPricingJsonEditor :: "model option \<Rightarrow> jsval" where
  "buildVideoPricingJsonEditor mo =
     (case mo of
        None \<Rightarrow> Obj []
      | Some m \<Rightarrow>
          (let perItem = (videoBillingMode m = ''per-item'')
           in Obj
             [(''billing_mode'', Str (str_or (videoBillingMode m) ''per-second'')),
              (''price_unit'', Str (str_or (videoPriceUnit m) ''USD'')),
              (''fixed_price'', Str (videoFixedPrice m)),
              (''similarity_threshold'', Str (videoSimilarityThreshold m)),
              (''text_to_video'', serializeSectionMapFull (videoTextToVideoRules m) perItem),
              (''image_to_video'', serializeSectionMapFull (videoImageToVideoRules m) perItem),
              (''video_to_video'',
                 serializeVideoToVideoSectionFull (videoUploadRules m) (videoGenerateRules m) perItem)]))"

definition stringify_val :: "jsval \<Rightarrow> string" where
  "stringify_val v = (if v = Undef then ''undefined'' else json_str v)"

definition quoted :: "string \<Rightarrow> string" where
  "quoted s = [dquote] @ s @ [dquote]"

definition section_lines :: "jsval \<Rightarrow> nat \<Rightarrow> string list" where
  "section_lines data i =
     (let (key, comment) = SECTION_META ! i
      in [''  // '' @ comment, ''  '' @ quoted key @ '': {''] @
         map (\<lambda>j. let resKey = VIDEO_PRICING_JSON_RESOLUTION_KEYS ! j
                  in ''    '' @ quoted resKey @ '': '' @
                     stringify_val (coalesce (get (get data key) resKey) (Arr [])) @
                     (if j < length VIDEO_PRICING_JSON_RESOLUTION_KEYS - 1 then '','' else []))
           [0..<length VIDEO_PRICING_JSON_RESOLUTION_KEYS] @
         [''  }'' @ (if i = length SECTION_META - 1 then [] else '','')])"

definition editor_lines :: "jsval \<Rightarrow> string list" where
  "editor_lines data =
     [''{'',
      ''  '' @ cmt_billing_mode,
      ''  '' @ quoted ''billing_mode'' @ '': '' @ stringify_val (get data ''billing_mode'') @ '','',
      ''  // price_unit: USD | CNY | CUSTOM'',
      ''  '' @ quoted ''price_unit'' @ '': '' @ stringify_val (get data ''price_unit'') @ '','',
      ''  '' @ cmt_fixed_price,
      ''  '' @ quoted ''fixed_price'' @ '': '' @ stringify_val (get data ''fixed_price'') @ '','',
      ''  '' @ cmt_similarity,
      ''  '' @ quoted ''similarity_threshold'' @ '': '' @ stringify_val (get data ''similarity_threshold'') @ '','',
      ''  '' @ cmt_sections] @
     concat (map (section_lines data) [0..<length SECTION_META]) @
     [''}'']"

definition stringifyVideoPricingJsonEditor :: "model option \<Rightarrow> string" where
  "stringifyVideoPricingJsonEditor mo = join [CHR 0x0A] (editor_lines (buildVideoPricingJsonEditor mo))"

section \<open>Reading\<close>

definition default_compression :: "string \<Rightarrow> string" where
  "default_compression sect =
     (if sect = ''image'' then DEFAULT_IMAGE_VIDEO_PIXEL_COMPRESSION
      else if sect = ''text'' then DEFAULT_TEXT_VIDEO_PIXEL_COMPRESSION
      else DEFAULT_VIDEO_VIDEO_PIXEL_COMPRESSION)"

definition either_prop :: "jsval \<Rightarrow> string \<Rightarrow> string \<Rightarrow> jsval" where
  "either_prop v a b = coalesce (get v a) (get v b)"

definition parseLegacyRow :: "jsval \<Rightarrow> bool \<Rightarrow> string \<Rightarrow> video_row option" where
  "parseLegacyRow row perItem sect =
     (if \<not> truthy row \<or> \<not> typeof_object row \<or> is_array row then None
      else
        (let resolution = Str (normalizeResolutionKey (js_or (get row ''resolution'') (Str [])));
             audioEnabled = truthy (either_prop row ''audio_pricing_enabled'' ''audioPricingEnabled'');
             noAudio = Str (toNumericString_json (either_prop row ''no_audio_price'' ''noAudioPrice''));
             withAudio = Str (toNumericString_json (either_prop row ''with_audio_price'' ''withAudioPrice''));
             compression = Str (toNumericString_json
               (coalesce (either_prop row ''pixel_compression'' ''pixelCompression'')
                  (Str (default_compression sect))))
         in Some
           (if perItem then
              (if audioEnabled
               then no_row\<lparr>row_resolution := resolution, row_audioPricingEnabled := Bool True,
                      row_videoPrice := Str [], row_noAudioPrice := noAudio, row_withAudioPrice := withAudio\<rparr>
               else no_row\<lparr>row_resolution := resolution, row_audioPricingEnabled := Bool False,
                      row_videoPrice := Str (toNumericString_json (either_prop row ''video_price'' ''videoPrice'')),
                      row_noAudioPrice := Str [], row_withAudioPrice := Str []\<rparr>)
            else if audioEnabled
            then no_row\<lparr>row_resolution := resolution, row_audioPricingEnabled := Bool True,
                   row_tokenPrice := Str [], row_noAudioPrice := noAudio, row_withAudioPrice := withAudio,
                   row_pixelCompression := compression\<rparr>
            else no_row\<lparr>row_resolution := resolution, row_audioPricingEnabled := Bool False,
                   row_tokenPrice := Str (toNumericString_json (either_prop row ''token_price'' ''tokenPrice'')),
                   row_noAudioPrice := Str [], row_withAudioPrice := Str [],
                   row_pixelCompression := compression\<rparr>)))"

definition parseLegacyRowList :: "jsval \<Rightarrow> bool \<Rightarrow> string \<Rightarrow> video_row list" where
  "parseLegacyRowList rows perItem sect =
     (if \<not> is_array rows then []
      else filter (\<lambda>row. truthy (row_resolution row))
             (List.map_filter (\<lambda>row. parseLegacyRow row perItem sect) (arr_elems rows)))"

definition normalizePriceArray :: "jsval \<Rightarrow> jsnum list" where
  "normalizePriceArray prices =
     (if prices = Null \<or> prices = Undef then []
      else List.map_filter toPriceNumber (if is_array prices then arr_elems prices else [prices]))"

definition section_row :: "bool \<Rightarrow> string \<Rightarrow> string \<times> jsval \<Rightarrow> video_row option" where
  "section_row perItem sect e =
     (let resolution = normalizeResolutionKey (Str (fst e)); nums = normalizePriceArray (snd e)
      in if resolution = [] then None
         else (case nums of
             [] \<Rightarrow> None
           | [n] \<Rightarrow> Some
               (no_row\<lparr>row_resolution := Str resolution, row_audioPricingEnabled := Bool False,
                  row_videoPrice := Str (if perItem then num_str n else []),
                  row_tokenPrice := Str (if perItem then [] else num_str n),
                  row_noAudioPrice := Str [], row_withAudioPrice := Str [],
                  row_pixelCompression := Str (default_compression sect)\<rparr>)
           | n # n' # _ \<Rightarrow> Some
               (no_row\<lparr>row_resolution := Str resolution, row_audioPricingEnabled := Bool True,
                  row_videoPrice := Str [], row_tokenPrice := Str [],
                  row_noAudioPrice := Str (num_str n), row_withAudioPrice := Str (num_str n'),
                  row_pixelCompression := Str (default_compression sect)\<rparr>)))"

definition parseSectionMap :: "jsval \<Rightarrow> bool \<Rightarrow> string \<Rightarrow> video_row list" where
  "parseSectionMap data perItem sect =
     (if is_array data then parseLegacyRowList data perItem sect
      else if \<not> truthy data \<or> \<not> typeof_object data then []
      else List.map_filter (section_row perItem sect) (obj_entries data))"

definition legacy_row_prices :: "video_row \<Rightarrow> jsnum list" where
  "legacy_row_prices row =
     List.map_filter toPriceNumber
       (if truthy (row_audioPricingEnabled row) then [row_noAudioPrice row, row_withAudioPrice row]
        else [js_or (row_videoPrice row) (row_tokenPrice row)])"

definition apply_legacy_row :: "(string \<times> jsval) list \<Rightarrow> video_row \<Rightarrow> (string \<times> jsval) list" where
  "apply_legacy_row merged row =
     (let sk = resolutionToShortKey (row_resolution row); prices = legacy_row_prices row
      in if sk = [] \<or> prices = [] then merged else set_prop sk (Arr (map Num prices)) merged)"

definition apply_legacy_entry :: "(string \<times> jsval) list \<Rightarrow> string \<times> jsval \<Rightarrow> (string \<times> jsval) list" where
  "apply_legacy_entry merged e =
     (let sk = resolutionToShortKey (Str (fst e)) in if sk = [] then merged else set_prop sk (snd e) merged)"

definition applyMap :: "bool \<Rightarrow> (string \<times> jsval) list \<Rightarrow> jsval \<Rightarrow> (string \<times> jsval) list" where
  "applyMap perItem merged data =
     (if \<not> truthy data \<or> \<not> typeof_object data \<or> is_array data
      then (if is_array data then foldl apply_legacy_row merged (parseLegacyRowList data perItem ''videoUpload'')
            else merged)
      else foldl apply_legacy_entry merged (obj_entries data))"

definition parseVideoToVideoFromJson :: "jsval \<Rightarrow> bool \<Rightarrow> video_row list" where
  "parseVideoToVideoFromJson jsonObj perItem =
     (let primary = either_prop jsonObj ''video_to_video'' ''videoToVideo''
      in if primary \<noteq> Undef \<and> \<not> is_array primary then parseSectionMap primary perItem ''videoUpload''
         else
           (let merged = applyMap perItem
                  (applyMap perItem [] (either_prop jsonObj ''video_upload'' ''videoUpload''))
                  (either_prop jsonObj ''video_generate'' ''videoGenerate'')
            in if merged = [] then [] else parseSectionMap (Obj merged) perItem ''videoUpload''))"

definition merged_billing_mode :: "model \<Rightarrow> jsval \<Rightarrow> string" where
  "merged_billing_mode m jsonObj =
     (let raw = trim (to_str (coalesce (either_prop jsonObj ''billing_mode'' ''billingMode'')
                                (Str (videoBillingMode m))))
      in if raw = ''per-item'' then ''per-item''
         else if raw = ''per-second'' then ''per-second''
         else str_or (videoBillingMode m) ''per-second'')"

definition merged_price_unit :: "model \<Rightarrow> jsval \<Rightarrow> string" where
  "merged_price_unit m jsonObj =
     (let raw = to_upper (trim (to_str (coalesce (either_prop jsonObj ''price_unit'' ''priceUnit'')
                                          (Str (videoPriceUnit m)))))
      in if raw \<in> set price_units then raw else str_or (videoPriceUnit m) ''USD'')"

definition mergeVideoPricingFromJsonEditor :: "model option \<Rightarrow> jsval \<Rightarrow> string + model" where
  "mergeVideoPricingFromJsonEditor mo jsonObj =
     (case mo of
        None \<Rightarrow> Inl msg_no_model
      | Some m \<Rightarrow>
          if \<not> truthy jsonObj \<or> \<not> typeof_object jsonObj \<or> is_array jsonObj then Inl msg_bad_json
          else
            (let bm = merged_billing_mode m jsonObj;
                 perItem = (bm = ''per-item'');
                 v2v = parseVideoToVideoFromJson jsonObj perItem
             in Inr (m
               \<lparr>videoBillingMode := bm,
                videoPriceUnit := merged_price_unit m jsonObj,
                videoFixedPrice := toNumericString_json
                  (coalesce (either_prop jsonObj ''fixed_price'' ''fixedPrice'') (Str (videoFixedPrice m))),
                videoSimilarityThreshold := toNumericString_json
                  (coalesce (either_prop jsonObj ''similarity_threshold'' ''similarityThreshold'')
                     (Str (videoSimilarityThreshold m))),
                videoTextToVideoRules :=
                  parseSectionMap (either_prop jsonObj ''text_to_video'' ''textToVideo'') perItem ''text'',
                videoImageToVideoRules :=
                  parseSectionMap (either_prop jsonObj ''image_to_video'' ''imageToVideo'') perItem ''image'',
                videoUploadRules := v2v,
                videoGenerateRules := v2v\<rparr>)))"

end
