(* ===== verification/Pricing_Editor.thy ===== *)
theory Pricing_Editor
  imports Pricing_Serialize Video_Pricing_Json
begin

text \<open>
  The editor as a state machine: the hook \<^verbatim>\<open>useModelPricingEditorState\<close> of
  \<^verbatim>\<open>web/src/pages/Setting/Ratio/hooks/useModelPricingEditorState.js\<close>. The state is the record of
  its \<^verbatim>\<open>useState\<close> variables, one definition models each handler and each effect. A handler that
  replaces the list of models is followed by the effects that depend on it.
\<close>

section \<open>Arguments and state\<close>

type_synonym pricing_output = "option_key \<Rightarrow> (string \<times> jsval) list"

text \<open>
  The arguments of the hook. The translation, the comparison of \<^verbatim>\<open>localeCompare\<close>
  (\<open>localeLe a b\<close> for a result of at most 0), the HTTP client, the save callback, the refresh
  callback and the text of an engine error come from outside the sources and are parameters.
\<close>

record hook_args =
  options :: "string \<Rightarrow> string option"
  t_fn :: translate
  candidateModelNames :: "string list"
  strictCandidateModelNames :: bool
  filterMode :: string
  optionKeys :: "option_key \<Rightarrow> string"
  onSaveOutput :: "(pricing_output \<Rightarrow> unit res) option"
  visibleCategories :: jsval
  localeLe :: "string \<Rightarrow> string \<Rightarrow> bool"
  api_put :: "string \<Rightarrow> string \<Rightarrow> jsval res"
  refresh_fn :: "unit res"
  engineMessage :: "js_error \<Rightarrow> string"

text \<open>
  \<open>notices\<close> is the list of toasts shown so far, \<open>saving\<close> the deletions captured by the saves
  that are in progress.
\<close>

record editor =
  models :: "model list"
  initialVisibleModelNames :: "string list"
  selectedModelName :: string
  selectedModelNames :: "string list"
  searchText :: string
  currentPage :: int
  loading :: bool
  pendingDeleteModelNames :: "string list"
  optionalFieldToggles :: "string \<rightharpoonup> (toggle_field \<rightharpoonup> bool)"
  notices :: "notice list"
  saving :: "string list list"

definition initial_editor :: editor where
  "initial_editor =
     \<lparr>models = [], initialVisibleModelNames = [], selectedModelName = [], selectedModelNames = [],
      searchText = [], currentPage = 1, loading = False, pendingDeleteModelNames = [],
      optionalFieldToggles = Map.empty, notices = [], saving = []\<rparr>"

definition PAGE_SIZE :: int where
  "PAGE_SIZE = 10"

section \<open>Derived arguments\<close>

definition toPositiveNumber :: "jsval \<Rightarrow> jsnum \<Rightarrow> jsnum" where
  "toPositiveNumber v fallback =
     (let n = to_num v in if is_finite n \<and> js_lt (Fin 0) n then n else fallback)"

definition option_val :: "hook_args \<Rightarrow> string \<Rightarrow> jsval" where
  "option_val a k = (case options a k of Some s \<Rightarrow> Str s | None \<Rightarrow> Undef)"

definition videoCurrencyRates :: "hook_args \<Rightarrow> currency_rates" where
  "videoCurrencyRates a =
     \<lparr>rate_CNY = toPositiveNumber (option_val a ''USDExchangeRate'') (Fin 1),
      rate_CUSTOM = toPositiveNumber (option_val a ''general_setting.custom_currency_exchange_rate'') (Fin 1)\<rparr>"

definition defaultVideoPriceUnit :: "hook_args \<Rightarrow> string" where
  "defaultVideoPriceUnit a =
     (case options a ''general_setting.quota_display_type'' of
        Some u \<Rightarrow> if u \<in> set price_units then u else ''USD'' | None \<Rightarrow> ''USD'')"

definition key_name :: "option_key \<Rightarrow> string" where
  "key_name k =
     (case k of K_ModelPrice \<Rightarrow> ''ModelPrice'' | K_ModelRatio \<Rightarrow> ''ModelRatio''
      | K_CompletionRatio \<Rightarrow> ''CompletionRatio'' | K_CompletionRatioMeta \<Rightarrow> ''CompletionRatioMeta''
      | K_CacheRatio \<Rightarrow> ''CacheRatio'' | K_CreateCacheRatio \<Rightarrow> ''CreateCacheRatio''
      | K_ImageRatio \<Rightarrow> ''ImageRatio'' | K_AudioRatio \<Rightarrow> ''AudioRatio''
      | K_AudioCompletionRatio \<Rightarrow> ''AudioCompletionRatio'' | K_VideoRatio \<Rightarrow> ''VideoRatio''
      | K_VideoCompletionRatio \<Rightarrow> ''VideoCompletionRatio'' | K_VideoPrice \<Rightarrow> ''VideoPrice''
      | K_VideoPricingRules \<Rightarrow> ''VideoPricingRules'' | K_ImagePrice \<Rightarrow> ''ImagePrice''
      | K_ImagePricingRules \<Rightarrow> ''ImagePricingRules'' | K_ModelTierRatio \<Rightarrow> ''ModelTierRatio''
      | K_CompletionTierRatio \<Rightarrow> ''CompletionTierRatio'' | K_CacheTierRatio \<Rightarrow> ''CacheTierRatio''
      | K_CreateCacheTierRatio \<Rightarrow> ''CreateCacheTierRatio'')"

definition resolvedOptionKeys :: "hook_args \<Rightarrow> option_key \<Rightarrow> string" where
  "resolvedOptionKeys a k = nonempty_or (optionKeys a k) (key_name k)"

definition sourceMaps :: "hook_args \<Rightarrow> source_maps" where
  "sourceMaps a =
     \<lparr>option_map = (\<lambda>k. parseOptionJSON (options a (resolvedOptionKeys a k))),
      VideoCurrencyRates = videoCurrencyRates a, VideoPriceUnit = defaultVideoPriceUnit a,
      ImagePriceUnit = []\<rparr>"

definition collected_keys :: "option_key list" where
  "collected_keys =
     [K_ModelPrice, K_ModelRatio, K_CompletionRatio, K_CompletionRatioMeta, K_CacheRatio,
      K_CreateCacheRatio, K_ImageRatio, K_AudioRatio, K_AudioCompletionRatio, K_VideoRatio,
      K_VideoCompletionRatio, K_VideoPrice, K_VideoPricingRules, K_ImagePrice, K_ImagePricingRules,
      K_ModelTierRatio, K_CompletionTierRatio, K_CacheTierRatio, K_CreateCacheTierRatio]"

definition collectModelNamesFromPricingSourceMaps :: "source_maps \<Rightarrow> string list" where
  "collectModelNamesFromPricingSourceMaps maps =
     dedup (concat (map (\<lambda>k. let obj = option_map maps k
                             in if truthy obj \<and> typeof_object obj then obj_keys obj else []) collected_keys))"

definition editor_names :: "hook_args \<Rightarrow> string list" where
  "editor_names a =
     (let priced = collectModelNamesFromPricingSourceMaps (sourceMaps a)
      in if strictCandidateModelNames a
         then (if filterMode a = ''unset'' then dedup (candidateModelNames a)
               else dedup (filter (\<lambda>n. n \<in> set priced) (candidateModelNames a)))
         else dedup (candidateModelNames a @
                concat (map (\<lambda>k. obj_keys (option_map (sourceMaps a) k)) serialized_keys)))"

text \<open>A stable insertion sort by the comparison.\<close>

primrec insert_by :: "('a \<Rightarrow> 'a \<Rightarrow> bool) \<Rightarrow> 'a \<Rightarrow> 'a list \<Rightarrow> 'a list" where
  "insert_by le x [] = [x]"
| "insert_by le x (y # ys) = (if le x y then x # y # ys else y # insert_by le x ys)"

definition sort_by :: "('a \<Rightarrow> 'a \<Rightarrow> bool) \<Rightarrow> 'a list \<Rightarrow> 'a list" where
  "sort_by le xs = foldr (insert_by le) xs []"

definition nextModels :: "hook_args \<Rightarrow> model list" where
  "nextModels a =
     sort_by (\<lambda>m m'. localeLe a (model_name m) (model_name m'))
       (map (\<lambda>n. buildModelState n (sourceMaps a)) (editor_names a))"

section \<open>Derived state\<close>

definition visibleModels :: "hook_args \<Rightarrow> editor \<Rightarrow> model list" where
  "visibleModels a s =
     (if filterMode a = ''unset''
      then filter (\<lambda>m. model_name m \<in> set (initialVisibleModelNames s)) (models s) else models s)"

definition filteredModels :: "hook_args \<Rightarrow> editor \<Rightarrow> model list" where
  "filteredModels a s =
     filter (\<lambda>m. let keyword = to_lower (trim (searchText s))
                 in keyword = [] \<or> sublist keyword (to_lower (model_name m))) (visibleModels a s)"

text \<open>\<^verbatim>\<open>xs.slice(i, j)\<close>\<close>

definition js_slice :: "int \<Rightarrow> int \<Rightarrow> 'a list \<Rightarrow> 'a list" where
  "js_slice i j xs =
     (let n = int (length xs); pos = (\<lambda>k. nat (if k < 0 then max 0 (n + k) else min k n))
      in take (pos j - pos i) (drop (pos i) xs))"

definition pagedData :: "hook_args \<Rightarrow> editor \<Rightarrow> model list" where
  "pagedData a s =
     (let start = (currentPage s - 1) * PAGE_SIZE in js_slice start (start + PAGE_SIZE) (filteredModels a s))"

definition selectedModel :: "hook_args \<Rightarrow> editor \<Rightarrow> model option" where
  "selectedModel a s = find (\<lambda>m. model_name m = selectedModelName s) (visibleModels a s)"

section \<open>Effects\<close>

definition reset_page :: "editor \<Rightarrow> editor" where
  "reset_page s = s\<lparr>currentPage := 1\<rparr>"

definition prune_selection :: "hook_args \<Rightarrow> editor \<Rightarrow> editor" where
  "prune_selection a s =
     s\<lparr>selectedModelNames :=
         filter (\<lambda>n. list_ex (\<lambda>m. model_name m = n) (visibleModels a s)) (selectedModelNames s)\<rparr>"

definition fix_selected :: "hook_args \<Rightarrow> editor \<Rightarrow> editor" where
  "fix_selected a s =
     (case visibleModels a s of
        [] \<Rightarrow> s\<lparr>selectedModelName := []\<rparr>
      | m # _ \<Rightarrow>
          if list_ex (\<lambda>m'. model_name m' = selectedModelName s) (visibleModels a s) then s
          else s\<lparr>selectedModelName := model_name m\<rparr>)"

text \<open>The effects after the list of models has been replaced.\<close>

definition after_models :: "hook_args \<Rightarrow> editor \<Rightarrow> editor" where
  "after_models a s = fix_selected a (prune_selection a s)"

definition initial_toggles :: "model list \<Rightarrow> string \<rightharpoonup> (toggle_field \<rightharpoonup> bool)" where
  "initial_toggles ms = foldl (\<lambda>acc m. acc(model_name m \<mapsto> Some \<circ> buildOptionalFieldToggles m)) Map.empty ms"

definition load_effect :: "hook_args \<Rightarrow> editor \<Rightarrow> editor" where
  "load_effect a s =
     (let next = nextModels a;
          visible = (if filterMode a = ''unset'' then filter isBasePricingUnset next else next)
      in after_models a (s
        \<lparr>models := next,
         initialVisibleModelNames := map model_name visible,
         optionalFieldToggles := initial_toggles next,
         selectedModelName :=
           (if selectedModelName s \<noteq> [] \<and> list_ex (\<lambda>m. model_name m = selectedModelName s) next
            then selectedModelName s
            else (case visible of [] \<Rightarrow> [] | m # _ \<Rightarrow> model_name m)),
         pendingDeleteModelNames := []\<rparr>))"

section \<open>Editing a model\<close>

definition upsertModel :: "string \<Rightarrow> (model \<Rightarrow> model) \<Rightarrow> editor \<Rightarrow> editor" where
  "upsertModel n updater s =
     s\<lparr>models := map (\<lambda>m. if model_name m \<noteq> n then m else updater m) (models s)\<rparr>"

text \<open>The common shape: nothing without a selected model, otherwise update it and run the effects.\<close>

definition edit_selected :: "hook_args \<Rightarrow> (model \<Rightarrow> model) \<Rightarrow> editor \<Rightarrow> editor" where
  "edit_selected a updater s =
     (case selectedModel a s of
        None \<Rightarrow> s | Some sel \<Rightarrow> after_models a (upsertModel (model_name sel) updater s))"

definition isOptionalFieldEnabled :: "editor \<Rightarrow> model option \<Rightarrow> toggle_field \<Rightarrow> bool" where
  "isOptionalFieldEnabled s mo f =
     (case mo of
        None \<Rightarrow> False
      | Some m \<Rightarrow>
          (case optionalFieldToggles s (model_name m) of
             None \<Rightarrow> buildOptionalFieldToggles m f
           | Some tg \<Rightarrow> (case tg f of Some b \<Rightarrow> b | None \<Rightarrow> buildOptionalFieldToggles m f)))"

definition toggles_of :: "editor \<Rightarrow> string \<Rightarrow> toggle_field \<rightharpoonup> bool" where
  "toggles_of s n = (case optionalFieldToggles s n of Some tg \<Rightarrow> tg | None \<Rightarrow> Map.empty)"

definition updateOptionalFieldToggle :: "string \<Rightarrow> toggle_field \<Rightarrow> bool \<Rightarrow> editor \<Rightarrow> editor" where
  "updateOptionalFieldToggle n f checked s =
     s\<lparr>optionalFieldToggles := (optionalFieldToggles s)(n \<mapsto> (toggles_of s n)(f \<mapsto> checked))\<rparr>"

definition clear_field :: "toggle_field \<Rightarrow> model \<Rightarrow> model" where
  "clear_field f m =
     (case f of
        T_completionPrice \<Rightarrow> m\<lparr>completionPrice := []\<rparr>
      | T_cachePrice \<Rightarrow> m\<lparr>cachePrice := []\<rparr>
      | T_createCachePrice \<Rightarrow> m\<lparr>createCachePrice := []\<rparr>
      | T_imagePrice \<Rightarrow> m\<lparr>imagePrice := []\<rparr>
      | T_audioInputPrice \<Rightarrow> m\<lparr>audioInputPrice := [], audioOutputPrice := []\<rparr>
      | T_audioOutputPrice \<Rightarrow> m\<lparr>audioOutputPrice := []\<rparr>
      | T_video \<Rightarrow> m
          \<lparr>videoFixedPrice := [], videoTextToVideoRules := [], videoImageToVideoRules := [],
           videoUploadRules := [], videoGenerateRules := [], videoSimilarityThreshold := []\<rparr>
      | T_imageGeneration \<Rightarrow> m
          \<lparr>imageGenFixedPrice := [], imageTextToImageRules := [], imageImageToImageRules := [],
           imageSimilarityThreshold := []\<rparr>)"

definition handleOptionalFieldToggle :: "hook_args \<Rightarrow> toggle_field \<Rightarrow> bool \<Rightarrow> editor \<Rightarrow> editor" where
  "handleOptionalFieldToggle a f checked s =
     (case selectedModel a s of
        None \<Rightarrow> s
      | Some sel \<Rightarrow>
          (let n = model_name sel; s1 = updateOptionalFieldToggle n f checked s
           in if checked then s1
              else
                (let s2 = upsertModel n (clear_field f) s1;
                     s3 = (if f = T_audioInputPrice
                           then updateOptionalFieldToggle n T_audioOutputPrice False
                                  (updateOptionalFieldToggle n T_audioInputPrice False s2)
                           else s2)
                 in after_models a s3)))"

definition handleVideoBillingModeChange :: "hook_args \<Rightarrow> string \<Rightarrow> editor \<Rightarrow> editor" where
  "handleVideoBillingModeChange a v s = edit_selected a (\<lambda>m. m\<lparr>videoBillingMode := v\<rparr>) s"

definition handleBillingModeChange :: "hook_args \<Rightarrow> string \<Rightarrow> editor \<Rightarrow> editor" where
  "handleBillingModeChange a v s = edit_selected a (\<lambda>m. m\<lparr>billingMode := v\<rparr>) s"

section \<open>Currency of the video and image prices\<close>

text \<open>\<^verbatim>\<open>rates[unit] || 1\<close>\<close>

definition rate_or_1 :: "currency_rates \<Rightarrow> string \<Rightarrow> jsnum" where
  "rate_or_1 rates unit =
     (case rate_of rates unit of Some r \<Rightarrow> if truthy_num r then r else Fin 1 | None \<Rightarrow> Fin 1)"

definition convert :: "jsnum \<Rightarrow> jsnum \<Rightarrow> jsval \<Rightarrow> jsval" where
  "convert fromRate toRate v =
     (case toNumberOrNull v of
        None \<Rightarrow> v | Some num \<Rightarrow> Str (formatNumber (Num (js_mul (js_div num fromRate) toRate))))"

definition convert_str :: "jsnum \<Rightarrow> jsnum \<Rightarrow> string \<Rightarrow> string" where
  "convert_str fromRate toRate s = to_str (convert fromRate toRate (Str s))"

definition convert_video_row :: "jsnum \<Rightarrow> jsnum \<Rightarrow> video_row \<Rightarrow> video_row" where
  "convert_video_row fromRate toRate row =
     row\<lparr>row_tokenPrice := convert fromRate toRate (row_tokenPrice row),
         row_videoPrice := convert fromRate toRate (row_videoPrice row),
         row_noAudioPrice := convert fromRate toRate (row_noAudioPrice row),
         row_withAudioPrice := convert fromRate toRate (row_withAudioPrice row)\<rparr>"

definition handleVideoPriceUnitChange :: "hook_args \<Rightarrow> string \<Rightarrow> editor \<Rightarrow> editor" where
  "handleVideoPriceUnitChange a nextUnit s =
     (case selectedModel a s of
        None \<Rightarrow> s
      | Some sel \<Rightarrow>
          if nextUnit = [] \<or> nextUnit = videoPriceUnit sel then s
          else
            (let fromRate = rate_or_1 (videoCurrencyRates a) (videoPriceUnit sel);
                 toRate = rate_or_1 (videoCurrencyRates a) nextUnit;
                 rows = map (convert_video_row fromRate toRate)
             in edit_selected a (\<lambda>m. m
               \<lparr>videoPriceUnit := nextUnit,
                videoFixedPrice := convert_str fromRate toRate (videoFixedPrice m),
                videoTextToVideoRules := rows (videoTextToVideoRules m),
                videoImageToVideoRules := rows (videoImageToVideoRules m),
                videoUploadRules := rows (videoUploadRules m),
                videoGenerateRules := rows (videoGenerateRules m)\<rparr>) s))"

definition convert_image_row :: "jsnum \<Rightarrow> jsnum \<Rightarrow> image_row \<Rightarrow> image_row" where
  "convert_image_row fromRate toRate row =
     row\<lparr>img_imagePrice := convert fromRate toRate (img_imagePrice row)\<rparr>"

definition handleImageGenPriceUnitChange :: "hook_args \<Rightarrow> string \<Rightarrow> editor \<Rightarrow> editor" where
  "handleImageGenPriceUnitChange a nextUnit s =
     (case selectedModel a s of
        None \<Rightarrow> s
      | Some sel \<Rightarrow>
          if nextUnit = [] \<or> nextUnit = imageGenPriceUnit sel then s
          else
            (let fromRate = rate_or_1 (videoCurrencyRates a) (imageGenPriceUnit sel);
                 toRate = rate_or_1 (videoCurrencyRates a) nextUnit;
                 rows = map (convert_image_row fromRate toRate)
             in edit_selected a (\<lambda>m. m
               \<lparr>imageGenPriceUnit := nextUnit,
                imageGenFixedPrice := convert_str fromRate toRate (imageGenFixedPrice m),
                imageTextToImageRules := rows (imageTextToImageRules m),
                imageImageToImageRules := rows (imageImageToImageRules m)\<rparr>) s))"

section \<open>Rule rows\<close>

text \<open>A section name selects one of the row lists of a model.\<close>

definition video_section :: "string \<Rightarrow> ((model \<Rightarrow> video_row list) \<times> (video_row list \<Rightarrow> model \<Rightarrow> model)) option" where
  "video_section sect =
     (if sect = ''text'' then Some (videoTextToVideoRules, \<lambda>rs m. m\<lparr>videoTextToVideoRules := rs\<rparr>)
      else if sect = ''image'' then Some (videoImageToVideoRules, \<lambda>rs m. m\<lparr>videoImageToVideoRules := rs\<rparr>)
      else if sect = ''videoUpload'' then Some (videoUploadRules, \<lambda>rs m. m\<lparr>videoUploadRules := rs\<rparr>)
      else if sect = ''videoGenerate'' then Some (videoGenerateRules, \<lambda>rs m. m\<lparr>videoGenerateRules := rs\<rparr>)
      else None)"

text \<open>Adding and removing rows has no upload section.\<close>

definition video_section_add ::
  "string \<Rightarrow> ((model \<Rightarrow> video_row list) \<times> (video_row list \<Rightarrow> model \<Rightarrow> model)) option" where
  "video_section_add sect = (if sect = ''videoUpload'' then None else video_section sect)"

definition image_section :: "string \<Rightarrow> (model \<Rightarrow> image_row list) \<times> (image_row list \<Rightarrow> model \<Rightarrow> model)" where
  "image_section sect =
     (if sect = ''imageToImage'' then (imageImageToImageRules, \<lambda>rs m. m\<lparr>imageImageToImageRules := rs\<rparr>)
      else (imageTextToImageRules, \<lambda>rs m. m\<lparr>imageTextToImageRules := rs\<rparr>))"

definition update_row ::
  "(model \<Rightarrow> 'r list) \<times> ('r list \<Rightarrow> model \<Rightarrow> model) \<Rightarrow> nat \<Rightarrow> ('r \<Rightarrow> 'r) \<Rightarrow> model \<Rightarrow> model" where
  "update_row sec i f m =
     (let rows = fst sec m in if i < length rows then snd sec (rows[i := f (rows ! i)]) m else m)"

definition append_row ::
  "(model \<Rightarrow> 'r list) \<times> ('r list \<Rightarrow> model \<Rightarrow> model) \<Rightarrow> 'r \<Rightarrow> model \<Rightarrow> model" where
  "append_row sec r m = snd sec (fst sec m @ [r]) m"

definition delete_row ::
  "(model \<Rightarrow> 'r list) \<times> ('r list \<Rightarrow> model \<Rightarrow> model) \<Rightarrow> nat \<Rightarrow> model \<Rightarrow> model" where
  "delete_row sec i m = snd sec (remove_at i (fst sec m)) m"

definition set_row_key :: "string \<Rightarrow> jsval \<Rightarrow> video_row \<Rightarrow> video_row" where
  "set_row_key key v row =
     (if key = ''resolution'' then row\<lparr>row_resolution := v\<rparr>
      else if key = ''tokenPrice'' then row\<lparr>row_tokenPrice := v\<rparr>
      else if key = ''pixelCompression'' then row\<lparr>row_pixelCompression := v\<rparr>
      else if key = ''videoPrice'' then row\<lparr>row_videoPrice := v\<rparr>
      else if key = ''noAudioPrice'' then row\<lparr>row_noAudioPrice := v\<rparr>
      else if key = ''withAudioPrice'' then row\<lparr>row_withAudioPrice := v\<rparr> else row)"

definition enable_audio :: "bool \<Rightarrow> video_row \<Rightarrow> video_row" where
  "enable_audio b row =
     row\<lparr>row_audioPricingEnabled := Bool b,
         row_tokenPrice := js_or (row_tokenPrice row) (Str []),
         row_videoPrice := js_or (row_videoPrice row) (Str []),
         row_noAudioPrice := js_or (row_noAudioPrice row) (Str []),
         row_withAudioPrice := js_or (row_withAudioPrice row) (Str [])\<rparr>"

definition in_video_section ::
  "string \<Rightarrow> ((model \<Rightarrow> video_row list) \<times> (video_row list \<Rightarrow> model \<Rightarrow> model) \<Rightarrow> model \<Rightarrow> model) \<Rightarrow> model \<Rightarrow> model" where
  "in_video_section sect f m = (case video_section sect of None \<Rightarrow> m | Some sec \<Rightarrow> f sec m)"

definition updateVideoRuleRow :: "hook_args \<Rightarrow> string \<Rightarrow> nat \<Rightarrow> string \<Rightarrow> jsval \<Rightarrow> editor \<Rightarrow> editor" where
  "updateVideoRuleRow a sect i key v s =
     (if key = ''audioPricingEnabled''
      then edit_selected a (in_video_section sect (\<lambda>sec. update_row sec i (enable_audio (truthy v)))) s
      else if key \<notin> {''resolution'', ''tokenPrice'', ''pixelCompression'', ''videoPrice'', ''noAudioPrice'', ''withAudioPrice''}
      then s
      else if key \<noteq> ''resolution'' \<and> \<not> numeric_input (to_str v) then s
      else edit_selected a (in_video_section sect (\<lambda>sec. update_row sec i (set_row_key key v))) s)"

definition new_video_row :: "string \<Rightarrow> model \<Rightarrow> video_row" where
  "new_video_row sect m =
     (if videoBillingMode m = ''per-item''
      then no_row\<lparr>row_resolution := Str [], row_videoPrice := Str [], row_noAudioPrice := Str [],
             row_withAudioPrice := Str [], row_audioPricingEnabled := Bool False\<rparr>
      else no_row\<lparr>row_resolution := Str [], row_tokenPrice := Str [], row_noAudioPrice := Str [],
             row_withAudioPrice := Str [], row_audioPricingEnabled := Bool False,
             row_pixelCompression := Str (default_compression sect), row_hasAudio := Bool False\<rparr>)"

definition addVideoRuleRow :: "hook_args \<Rightarrow> string \<Rightarrow> editor \<Rightarrow> editor" where
  "addVideoRuleRow a sect s =
     edit_selected a (\<lambda>m. case video_section_add sect of
       None \<Rightarrow> m | Some sec \<Rightarrow> append_row sec (new_video_row sect m) m) s"

definition removeVideoRuleRow :: "hook_args \<Rightarrow> string \<Rightarrow> nat \<Rightarrow> editor \<Rightarrow> editor" where
  "removeVideoRuleRow a sect i s =
     edit_selected a (\<lambda>m. case video_section_add sect of None \<Rightarrow> m | Some sec \<Rightarrow> delete_row sec i m) s"

text \<open>\<^verbatim>\<open>{ ok: true }\<close> is \<open>Inr ()\<close>.\<close>

definition applyVideoPricingJson :: "hook_args \<Rightarrow> string \<Rightarrow> editor \<Rightarrow> (string + unit) \<times> editor" where
  "applyVideoPricingJson a jsonText s =
     (case selectedModel a s of
        None \<Rightarrow> (Inl msg_no_model, s)
      | Some sel \<Rightarrow>
          (case parseVideoPricingJsonText jsonText of
             Inl e \<Rightarrow> (Inl e, s)
           | Inr data \<Rightarrow>
               (case mergeVideoPricingFromJsonEditor (Some sel) data of
                  Inl e \<Rightarrow> (Inl e, s)
                | Inr merged \<Rightarrow> (Inr (), after_models a (upsertModel (model_name sel) (\<lambda>_. merged) s)))))"

definition getVideoPricingJsonText :: "hook_args \<Rightarrow> editor \<Rightarrow> string" where
  "getVideoPricingJsonText a s =
     (case selectedModel a s of None \<Rightarrow> ''{}'' | Some sel \<Rightarrow> stringifyVideoPricingJsonEditor (Some sel))"

definition set_image_key :: "string \<Rightarrow> jsval \<Rightarrow> image_row \<Rightarrow> image_row" where
  "set_image_key key v row =
     (if key = ''resolution'' then row\<lparr>img_resolution := v\<rparr> else row\<lparr>img_imagePrice := v\<rparr>)"

definition updateImageRuleRow :: "hook_args \<Rightarrow> string \<Rightarrow> nat \<Rightarrow> string \<Rightarrow> jsval \<Rightarrow> editor \<Rightarrow> editor" where
  "updateImageRuleRow a sect i key v s =
     (if key \<noteq> ''resolution'' \<and> key \<noteq> ''imagePrice'' then s
      else if key \<noteq> ''resolution'' \<and> \<not> numeric_input (to_str v) then s
      else edit_selected a (update_row (image_section sect) i (set_image_key key v)) s)"

definition addImageRuleRow :: "hook_args \<Rightarrow> string \<Rightarrow> editor \<Rightarrow> editor" where
  "addImageRuleRow a sect s =
     edit_selected a (append_row (image_section sect) \<lparr>img_resolution = Str [], img_imagePrice = Str []\<rparr>) s"

definition removeImageRuleRow :: "hook_args \<Rightarrow> string \<Rightarrow> nat \<Rightarrow> editor \<Rightarrow> editor" where
  "removeImageRuleRow a sect i s = edit_selected a (delete_row (image_section sect) i) s"

section \<open>Prices\<close>

definition filled :: "jsnum \<Rightarrow> string \<Rightarrow> string \<Rightarrow> string" where
  "filled base price raw =
     (if \<not> hasValue (Str price) \<and> hasValue (Str raw)
      then formatNumber (Num (js_mul base (to_number_str raw))) else price)"

definition fillDerivedPricesFromBase :: "model \<Rightarrow> string \<Rightarrow> model" where
  "fillDerivedPricesFromBase m nextInputPrice =
     (case toNumberOrNull (Str nextInputPrice) of
        None \<Rightarrow> m
      | Some base \<Rightarrow>
          (let r = rawRatios m
           in m
             \<lparr>completionPrice :=
                (if completionRatioLocked m \<and> hasValue (Str (lockedCompletionRatio m))
                 then formatNumber (Num (js_mul base (to_number_str (lockedCompletionRatio m))))
                 else filled base (completionPrice m) (raw_completionRatio r)),
              cachePrice := filled base (cachePrice m) (raw_cacheRatio r),
              createCachePrice := filled base (createCachePrice m) (raw_createCacheRatio r),
              imagePrice := filled base (imagePrice m) (raw_imageRatio r),
              audioInputPrice := filled base (audioInputPrice m) (raw_audioRatio r),
              audioOutputPrice :=
                (if \<not> hasValue (Str (audioOutputPrice m)) \<and> hasValue (Str (raw_audioRatio r)) \<and>
                    hasValue (Str (raw_audioCompletionRatio r))
                 then formatNumber (Num (js_mul (js_mul base (to_number_str (raw_audioRatio r)))
                        (to_number_str (raw_audioCompletionRatio r))))
                 else audioOutputPrice m)\<rparr>))"

text \<open>The fields the input boxes of the editor name.\<close>

datatype num_field = F_inputPrice | F_completionPrice | F_cachePrice | F_createCachePrice
  | F_imagePrice | F_audioInputPrice | F_audioOutputPrice | F_fixedPrice | F_videoFixedPrice
  | F_videoSimilarityThreshold | F_imageGenFixedPrice | F_imageSimilarityThreshold

definition set_num_field :: "num_field \<Rightarrow> string \<Rightarrow> model \<Rightarrow> model" where
  "set_num_field f v m =
     (case f of
        F_inputPrice \<Rightarrow> m\<lparr>inputPrice := v\<rparr> | F_completionPrice \<Rightarrow> m\<lparr>completionPrice := v\<rparr>
      | F_cachePrice \<Rightarrow> m\<lparr>cachePrice := v\<rparr> | F_createCachePrice \<Rightarrow> m\<lparr>createCachePrice := v\<rparr>
      | F_imagePrice \<Rightarrow> m\<lparr>imagePrice := v\<rparr> | F_audioInputPrice \<Rightarrow> m\<lparr>audioInputPrice := v\<rparr>
      | F_audioOutputPrice \<Rightarrow> m\<lparr>audioOutputPrice := v\<rparr> | F_fixedPrice \<Rightarrow> m\<lparr>fixedPrice := v\<rparr>
      | F_videoFixedPrice \<Rightarrow> m\<lparr>videoFixedPrice := v\<rparr>
      | F_videoSimilarityThreshold \<Rightarrow> m\<lparr>videoSimilarityThreshold := v\<rparr>
      | F_imageGenFixedPrice \<Rightarrow> m\<lparr>imageGenFixedPrice := v\<rparr>
      | F_imageSimilarityThreshold \<Rightarrow> m\<lparr>imageSimilarityThreshold := v\<rparr>)"

definition handleNumericFieldChange :: "hook_args \<Rightarrow> num_field \<Rightarrow> string \<Rightarrow> editor \<Rightarrow> editor" where
  "handleNumericFieldChange a f v s =
     (if \<not> numeric_input v then s
      else edit_selected a (\<lambda>m.
        (let updated = set_num_field f v m
         in if f = F_inputPrice then fillDerivedPricesFromBase updated v else updated)) s)"

section \<open>Adding and deleting models\<close>

definition notify :: "notice \<Rightarrow> editor \<Rightarrow> editor" where
  "notify x s = s\<lparr>notices := notices s @ [x]\<rparr>"

definition addModel :: "hook_args \<Rightarrow> string \<Rightarrow> editor \<Rightarrow> bool \<times> editor" where
  "addModel a modelName s =
     (let trimmedName = trim modelName
      in if trimmedName = [] then (False, notify (Shown_Error (t_fn a msg_enter_name [])) s)
         else if list_ex (\<lambda>m. model_name m = trimmedName) (models s)
         then (False, notify (Shown_Error (t_fn a msg_name_exists [])) s)
         else
           (let m = EMPTY_MODEL\<lparr>model_name := trimmedName\<rparr>
            in (True, after_models a (s
              \<lparr>models := m # models s,
               optionalFieldToggles := (optionalFieldToggles s)(trimmedName \<mapsto> Some \<circ> buildOptionalFieldToggles m),
               selectedModelName := trimmedName,
               currentPage := 1\<rparr>))))"

definition markModelForDelete :: "string \<Rightarrow> editor \<Rightarrow> editor" where
  "markModelForDelete n s =
     s\<lparr>pendingDeleteModelNames :=
         (if n \<in> set (pendingDeleteModelNames s) then pendingDeleteModelNames s
          else pendingDeleteModelNames s @ [n]),
       selectedModelNames := filter (\<lambda>x. x \<noteq> n) (selectedModelNames s)\<rparr>"

definition restorePendingDelete :: "string \<Rightarrow> editor \<Rightarrow> editor" where
  "restorePendingDelete n s =
     s\<lparr>pendingDeleteModelNames := filter (\<lambda>x. x \<noteq> n) (pendingDeleteModelNames s)\<rparr>"

definition removeDeletedModelsFromState :: "hook_args \<Rightarrow> string list \<Rightarrow> editor \<Rightarrow> editor" where
  "removeDeletedModelsFromState a names s =
     (if names = [] then s
      else
        (let next = filter (\<lambda>m. model_name m \<notin> set names) (models s)
         in after_models a (s
           \<lparr>models := next,
            selectedModelName :=
              (if selectedModelName s \<notin> set names then selectedModelName s
               else (case next of [] \<Rightarrow> [] | m # _ \<Rightarrow> model_name m)),
            optionalFieldToggles := (optionalFieldToggles s) |` (- set names),
            selectedModelNames := filter (\<lambda>x. x \<notin> set names) (selectedModelNames s)\<rparr>)))"

section \<open>Copying prices\<close>

definition copied_tier :: "jsval \<Rightarrow> jsval" where
  "copied_tier tier = (if truthy tier then normalizeTierSegments tier else Null)"

definition copy_prices :: "model \<Rightarrow> model \<Rightarrow> model" where
  "copy_prices sel m =
     m\<lparr>billingMode := billingMode sel, fixedPrice := fixedPrice sel, inputPrice := inputPrice sel,
       completionPrice := completionPrice sel, cachePrice := cachePrice sel,
       createCachePrice := createCachePrice sel, imagePrice := imagePrice sel,
       audioInputPrice := audioInputPrice sel, audioOutputPrice := audioOutputPrice sel,
       videoBillingMode := videoBillingMode sel, videoPriceUnit := videoPriceUnit sel,
       videoFixedPrice := videoFixedPrice sel, videoTextToVideoRules := videoTextToVideoRules sel,
       videoImageToVideoRules := videoImageToVideoRules sel, videoUploadRules := videoUploadRules sel,
       videoGenerateRules := videoGenerateRules sel,
       videoSimilarityThreshold := videoSimilarityThreshold sel,
       imageGenPriceUnit := imageGenPriceUnit sel, imageGenFixedPrice := imageGenFixedPrice sel,
       imageTextToImageRules := imageTextToImageRules sel,
       imageImageToImageRules := imageImageToImageRules sel,
       imageSimilarityThreshold := imageSimilarityThreshold sel,
       modelTierRatio := copied_tier (modelTierRatio sel),
       completionTierRatio := copied_tier (completionTierRatio sel),
       cacheTierRatio := copied_tier (cacheTierRatio sel),
       createCacheTierRatio := copied_tier (createCacheTierRatio sel)\<rparr>"

definition relock_completion :: "model \<Rightarrow> model" where
  "relock_completion m =
     (if isTokenBillingMode (billingMode m) \<and> completionRatioLocked m \<and> hasValue (Str (inputPrice m)) \<and>
         hasValue (Str (lockedCompletionRatio m))
      then m\<lparr>completionPrice :=
               formatNumber (Num (js_mul (to_number_str (inputPrice m)) (to_number_str (lockedCompletionRatio m))))\<rparr>
      else m)"

definition copied_toggles :: "(toggle_field \<rightharpoonup> bool) \<Rightarrow> model option \<Rightarrow> toggle_field \<rightharpoonup> bool" where
  "copied_toggles src target f =
     (let on = (\<lambda>g. src g = Some True)
      in Some (case f of
           T_completionPrice \<Rightarrow> (case target of Some m \<Rightarrow> completionRatioLocked m | None \<Rightarrow> False) \<or> on f
         | T_audioOutputPrice \<Rightarrow> on T_audioInputPrice \<and> on T_audioOutputPrice
         | _ \<Rightarrow> on f))"

definition applySelectedModelPricing :: "hook_args \<Rightarrow> editor \<Rightarrow> bool \<times> editor" where
  "applySelectedModelPricing a s =
     (case selectedModel a s of
        None \<Rightarrow> (False, notify (Shown_Error (t_fn a msg_select_template [])) s)
      | Some sel \<Rightarrow>
          if selectedModelNames s = []
          then (False, notify (Shown_Error (t_fn a msg_check_targets [])) s)
          else
            (let src = toggles_of s (model_name sel);
                 s1 = s
                   \<lparr>models := map (\<lambda>m. if model_name m \<notin> set (selectedModelNames s) then m
                                       else relock_completion (copy_prices sel m)) (models s),
                    optionalFieldToggles :=
                      foldl (\<lambda>tg n. tg(n \<mapsto> copied_toggles src (find (\<lambda>m. model_name m = n) (models s))))
                        (optionalFieldToggles s) (selectedModelNames s)\<rparr>
             in (True,
                 notify (Shown_Success (t_fn a msg_applied
                   [(''name'', model_name sel), (''count'', nat_str (length (selectedModelNames s)))]))
                   (after_models a s1))))"

section \<open>Saving\<close>

definition empty_output :: pricing_output where
  "empty_output = (\<lambda>_. [])"

definition put_value :: "string \<Rightarrow> serialized \<Rightarrow> pricing_output \<Rightarrow> option_key \<Rightarrow> pricing_output" where
  "put_value n ser out k =
     (if strict_eq (ser k) (Str REMOVE_OPTION_KEY) then out(k := delete_prop n (out k))
      else if ser k \<noteq> Null then out(k := set_prop n (ser k) (out k))
      else out)"

primrec output_from :: "hook_args \<Rightarrow> model list \<Rightarrow> pricing_output \<Rightarrow> pricing_output res" where
  "output_from a [] out = Ok out"
| "output_from a (m # ms) out =
     bind_res (serializeModel m (t_fn a) (videoCurrencyRates a) (visibleCategories a))
       (\<lambda>ser. output_from a ms (foldl (put_value (model_name m) ser) out serialized_keys))"

definition buildPricingOutputFromModels :: "hook_args \<Rightarrow> model list \<Rightarrow> pricing_output res" where
  "buildPricingOutputFromModels a modelList = output_from a modelList empty_output"

text \<open>The first unsuccessful response stops the save.\<close>

primrec check_responses :: "hook_args \<Rightarrow> jsval list \<Rightarrow> unit res" where
  "check_responses a [] = Ok ()"
| "check_responses a (r # rs) =
     (let data = get r ''data''
      in if \<not> truthy (get data ''success'')
         then Throw (Error_Msg (to_str (js_or (get data ''message'') (Str (t_fn a msg_save_failed [])))))
         else check_responses a rs)"

definition persistPricingOutput :: "hook_args \<Rightarrow> pricing_output \<Rightarrow> unit res" where
  "persistPricingOutput a out =
     bind_res
       (case onSaveOutput a of
          Some save \<Rightarrow> save out
        | None \<Rightarrow>
            bind_res
              (map_all_res (\<lambda>k. api_put a (nonempty_or (resolvedOptionKeys a k) (key_name k))
                                   (json_pretty [] (Obj (out k)))) serialized_keys)
              (check_responses a))
       (\<lambda>_. refresh_fn a)"

definition error_text :: "hook_args \<Rightarrow> js_error \<Rightarrow> string" where
  "error_text a e =
     nonempty_or (case e of Error_Msg msg \<Rightarrow> msg | _ \<Rightarrow> engineMessage a e) (t_fn a msg_save_failed [])"

text \<open>
  A save has three stages: up to the first await, and after the save succeeded or failed. What it
  captured at the start is the list of names to delete.
\<close>

definition submit_output :: "hook_args \<Rightarrow> editor \<Rightarrow> pricing_output res" where
  "submit_output a s =
     buildPricingOutputFromModels a (filter (\<lambda>m. model_name m \<notin> set (pendingDeleteModelNames s)) (models s))"

definition submit_failed :: "hook_args \<Rightarrow> js_error \<Rightarrow> editor \<Rightarrow> editor" where
  "submit_failed a e s = (notify (Shown_Error (error_text a e)) s)\<lparr>loading := False\<rparr>"

definition submit_start :: "hook_args \<Rightarrow> editor \<Rightarrow> editor" where
  "submit_start a s =
     (case submit_output a s of
        Throw e \<Rightarrow> submit_failed a e s
      | Ok _ \<Rightarrow> s\<lparr>loading := True, saving := saving s @ [pendingDeleteModelNames s]\<rparr>)"

definition submit_done :: "hook_args \<Rightarrow> string list \<Rightarrow> editor \<Rightarrow> editor" where
  "submit_done a deletedNames s =
     (notify (Shown_Success (t_fn a msg_saved []))
       ((removeDeletedModelsFromState a deletedNames s)\<lparr>pendingDeleteModelNames := []\<rparr>))\<lparr>loading := False\<rparr>"

text \<open>A save that nothing interrupts.\<close>

definition handleSubmit :: "hook_args \<Rightarrow> editor \<Rightarrow> editor" where
  "handleSubmit a s =
     (case bind_res (submit_output a s) (persistPricingOutput a) of
        Ok _ \<Rightarrow> submit_done a (pendingDeleteModelNames s) s
      | Throw e \<Rightarrow> submit_failed a e s)"

section \<open>Tiers\<close>

definition updateModelTierRatio :: "hook_args \<Rightarrow> jsval \<Rightarrow> editor \<Rightarrow> editor" where
  "updateModelTierRatio a tier s = edit_selected a (\<lambda>m. m\<lparr>modelTierRatio := copied_tier tier\<rparr>) s"

definition updateCompletionTierRatio :: "hook_args \<Rightarrow> jsval \<Rightarrow> editor \<Rightarrow> editor" where
  "updateCompletionTierRatio a tier s = edit_selected a (\<lambda>m. m\<lparr>completionTierRatio := copied_tier tier\<rparr>) s"

definition updateCacheTierRatio :: "hook_args \<Rightarrow> jsval \<Rightarrow> editor \<Rightarrow> editor" where
  "updateCacheTierRatio a tier s = edit_selected a (\<lambda>m. m\<lparr>cacheTierRatio := copied_tier tier\<rparr>) s"

definition updateCreateCacheTierRatio :: "hook_args \<Rightarrow> jsval \<Rightarrow> editor \<Rightarrow> editor" where
  "updateCreateCacheTierRatio a tier s = edit_selected a (\<lambda>m. m\<lparr>createCacheTierRatio := copied_tier tier\<rparr>) s"

definition clearAllTierRatios :: "hook_args \<Rightarrow> editor \<Rightarrow> editor" where
  "clearAllTierRatios a s =
     edit_selected a (\<lambda>m. m\<lparr>modelTierRatio := Null, completionTierRatio := Null, cacheTierRatio := Null,
       createCacheTierRatio := Null\<rparr>) s"

definition rows_tier :: "tier_row list \<Rightarrow> jsval" where
  "rows_tier rows = (if rows \<noteq> [] then Obj [(''segments'', tier_rows_val rows)] else Null)"

definition template_model :: "tier_rule \<Rightarrow> model \<Rightarrow> model" where
  "template_model rule m =
     m\<lparr>modelTierRatio := (if tier_input rule \<noteq> [] then rows_tier (tier_input rule) else modelTierRatio m),
       completionTierRatio := rows_tier (tier_output rule),
       cacheTierRatio := rows_tier (tier_cache_read rule),
       createCacheTierRatio := rows_tier (tier_cache_write rule)\<rparr>"

definition template_categories :: "tier_rule \<Rightarrow> bool \<Rightarrow> string list" where
  "template_categories rule opened =
     map cat_key (filter (\<lambda>c. (cat_rows rule c \<noteq> []) = opened) [TC_output, TC_cache_read, TC_cache_write])"

text \<open>The result is the categories to open and to close as they stand once the updater has run;
  \<^verbatim>\<open>undefined\<close> is \<^const>\<open>None\<close>.\<close>

definition applyTierTemplate ::
  "hook_args \<Rightarrow> jsval \<Rightarrow> editor \<Rightarrow> (string list \<times> string list) option \<times> editor" where
  "applyTierTemplate a template s =
     (case selectedModel a s of
        None \<Rightarrow> (None, s)
      | Some sel \<Rightarrow>
          if \<not> truthy template then (None, s)
          else
            (let rule = normalizeTierRule (js_or (get template ''RequestTierPricingRule'') template)
             in (Some (template_categories rule True, template_categories rule False),
                 edit_selected a (template_model rule) s)))"

end
