(* ===== verification/Price_Format.thy ===== *)
theory Price_Format
  imports Pricing_Data
begin

text \<open>
  What the number formatting of \<open>Pricing_Data\<close> (\<^verbatim>\<open>formatNumber\<close>, \<^verbatim>\<open>toNormalizedNumber\<close>) does to a
  price: integers are kept, and every result is a fixed point.
\<close>

section \<open>Formatting is stable\<close>

text \<open>The value that \<^verbatim>\<open>Number(num.toFixed(12))\<close> gives.\<close>

definition fixed12 :: "rat \<Rightarrow> jsnum" where
  "fixed12 q = to_number_str (to_fixed 12 (Fin q))"

lemma fixed12_eq:
  "is_dbl q \<Longrightarrow> fixed12 q =
    (if 10 ^ 21 \<le> \<bar>q\<bar> then Fin q else if q < 0 then js_neg (rnd (dec_round 12 (- q))) else rnd (dec_round 12 q))"
  unfolding fixed12_def by (rule to_number_to_fixed) simp

definition fmt_num :: "jsnum \<Rightarrow> string" where
  "fmt_num rounded =
     (if js_lt (js_abs rounded) e_12 then ''0''
      else if js_lt (js_abs (js_sub rounded (js_round rounded))) e_9 then num_str (js_round rounded)
      else num_str rounded)"

lemma toNumberOrNull_Num [simp]: "toNumberOrNull (Num (Fin q)) = Some (Fin q)"
  by (simp add: toNumberOrNull_def hasValue_def)

lemma formatNumber_Fin: "toNumberOrNull v = Some (Fin q) \<Longrightarrow> formatNumber v = fmt_num (fixed12 q)"
  by (simp add: formatNumber_def fmt_num_def fixed12_def Let_def)

lemma toNumberOrNull_Some: "toNumberOrNull v = Some x \<Longrightarrow> x = to_num v \<and> is_finite x"
  by (auto simp: toNumberOrNull_def Let_def split: if_splits)

lemma fixed12_uminus:
  assumes "is_dbl q" "q \<noteq> 0"
  shows "fixed12 (- q) = js_neg (fixed12 q)"
proof -
  have "js_neg (js_neg x) = x" for x by (cases x) auto
  then show ?thesis using assms by (auto simp: fixed12_eq)
qed

lemma fixed12_int: "is_dbl (of_int n) \<Longrightarrow> fixed12 (of_int n) = Fin (of_int n)"
  using dec_round_int [of 12 "- n"] by (auto simp: fixed12_eq simp del: dec_round_int) (simp_all add: is_dbl_uminus)

lemma on_grid_10_21: "on_grid (10 ^ 21)"
proof -
  have "(10 ^ 21 :: rat) = of_int (5 ^ 21) * pow2 21" by (simp add: pow2_def)
  then show ?thesis unfolding on_grid_def by (intro exI [of _ "5 ^ 21"] exI [of _ 21]) simp
qed

lemma ten21_less: "(10 ^ 21 :: rat) < pow2 1024"
proof -
  have "(10 ^ 21 :: rat) < pow2 70" by (simp add: pow2_def)
  also have "\<dots> < pow2 1024" by simp
  finally show ?thesis .
qed

lemma fixed12_stable_pos:
  assumes q: "is_dbl q" "0 \<le> q"
  shows "\<exists>r. fixed12 q = Fin r \<and> is_dbl r \<and> fixed12 r = Fin r \<and> 0 \<le> r"
proof (cases "10 ^ 21 \<le> q")
  case True
  then show ?thesis using q by (intro exI [of _ q]) (simp add: fixed12_eq)
next
  case False
  let ?n = "\<lfloor>q * 10 ^ 12 + 1 / 2\<rfloor>"
  let ?r = "grid_round (dec_round 12 q)"
  have n0: "0 \<le> ?n" using q(2) by simp
  have "q * 10 ^ 12 + 1 / 2 < of_int (10 ^ 33 + 1)" using False by simp
  then have "?n \<le> 10 ^ 33" by (simp only: floor_less_iff [symmetric])
  then have "(of_int ?n :: rat) \<le> of_int (10 ^ 33)" by (simp only: of_int_le_iff)
  then have "dec_round 12 q \<le> 10 ^ 21" by (simp add: dec_round_def)
  then have r21: "?r \<le> 10 ^ 21" by (rule grid_round_le_grid [OF _ on_grid_10_21])
  have r0: "0 \<le> ?r" using n0 by (intro grid_round_sgn) (simp add: dec_round_def)
  have f: "rnd (dec_round 12 q) = Fin ?r"
    using r21 r0 ten21_less pow2_pos [of 1024] by (simp add: rnd_def clip_def)
  then have fq: "fixed12 q = Fin ?r" "is_dbl ?r"
    using False q rnd_Fin_dbl by (auto simp: fixed12_eq)
  have "fixed12 ?r = Fin ?r"
  proof (cases "\<exists>i. ?r = of_int i")
    case True
    then show ?thesis using fixed12_int fq(2) by auto
  next
    case ni: False
    then have "?n \<noteq> 0" by (auto simp: dec_round_def intro: exI [of _ 0])
    then have "0 < ?n" using n0 by linarith
    then have "grid_round (dec_round 12 ?r) = ?r"
      using ni by (intro dec_round_stable [of ?n]) (simp_all add: dec_round_def)
    moreover have "?r \<noteq> 10 ^ 21" using ni by (auto dest: spec [of _ "10 ^ 21"])
    ultimately show ?thesis
      using fq(2) r21 r0 f by (auto simp: fixed12_eq rnd_def clip_def split: if_splits)
  qed
  then show ?thesis using fq r0 by blast
qed

lemma fixed12_stable:
  assumes "is_dbl q"
  obtains r where "fixed12 q = Fin r" "is_dbl r" "fixed12 r = Fin r"
proof (cases "0 \<le> q")
  case True
  then show thesis using fixed12_stable_pos [OF assms] that by blast
next
  case False
  then obtain r where r: "fixed12 (- q) = Fin r" "is_dbl r" "fixed12 r = Fin r" "0 \<le> r"
    using fixed12_stable_pos [of "- q"] assms by auto
  have "fixed12 q = Fin (- r)" using fixed12_uminus [of "- q"] r assms False by simp
  moreover have "fixed12 (- r) = Fin (- r)"
    using fixed12_uminus [OF r(2)] r fixed12_int [of 0] by (cases "r = 0") auto
  ultimately show thesis using that [of "- r"] r by simp
qed

text \<open>The nearest integer of a double is a double.\<close>

lemma is_dbl_round:
  assumes "is_dbl r"
  shows "is_dbl (of_int \<lfloor>r + 1 / 2\<rfloor>)"
proof (cases "\<bar>r\<bar> \<le> 2 ^ 52")
  case True
  then have "- (2 ^ 53) \<le> \<lfloor>r + 1 / 2\<rfloor> \<and> \<lfloor>r + 1 / 2\<rfloor> \<le> 2 ^ 53" by (auto simp: abs_le_iff floor_le_iff le_floor_iff)
  then have "\<bar>\<lfloor>r + 1 / 2\<rfloor>\<bar> \<le> 2 ^ 53" by linarith
  then show ?thesis by (rule is_dbl_int)
next
  case False
  have "ilog2 (2 ^ 52) = 52" by (rule ilog2_unique) (simp_all add: pow2_def)
  then have "expo (2 ^ 52) = 0" by (simp add: expo_def)
  then obtain n where "r = of_int n"
    using on_grid_multiple [of r "2 ^ 52"] assms False by (fastforce simp: is_dbl_iff)
  then have "\<lfloor>r + 1 / 2\<rfloor> = n" by (simp add: floor_eq_iff)
  then show ?thesis using assms \<open>r = of_int n\<close> by simp
qed

lemma eps_bounds: "\<exists>a. e_12 = Fin a \<and> 0 < a \<and> a \<le> 1" "\<exists>a. e_9 = Fin a \<and> 0 < a \<and> a \<le> 1"
proof -
  have b: "\<exists>a. rnd x = Fin a \<and> 0 < a \<and> a \<le> 1" if "pow2 (-1074) \<le> x" "x \<le> 1" for x
  proof -
    have "pow2 (-1074) \<le> grid_round x" "grid_round x \<le> 1"
      using that grid_round_ge_grid on_grid_pow2 [of "-1074"] grid_round_le_grid [of x 1] on_grid_int [of 1] by auto
    moreover have "(0 :: rat) < pow2 (-1074)" "1 < pow2 1024" using pow2_less_iff [of 0 1024] by (simp_all del: pow2_less_iff)
    ultimately have "0 < grid_round x" "grid_round x < pow2 1024" "- pow2 1024 < grid_round x" by linarith+
    then show ?thesis using \<open>grid_round x \<le> 1\<close> by (simp add: rnd_def clip_def)
  qed
  have "pow2 (-1074) \<le> pow2 (-40)" by simp
  also have "\<dots> \<le> 1 / 10 ^ 12" by (simp add: pow2_def)
  finally have p: "pow2 (-1074) \<le> 1 / 10 ^ 12" .
  show "\<exists>a. e_12 = Fin a \<and> 0 < a \<and> a \<le> 1" unfolding e_12_def using p by (intro b) auto
  show "\<exists>a. e_9 = Fin a \<and> 0 < a \<and> a \<le> 1" unfolding e_9_def using p by (intro b) auto
qed

lemma fmt_num_int:
  assumes "is_dbl (of_int n)"
  shows "fmt_num (Fin (of_int n)) = num_str (Fin (of_int n))"
proof (cases "n = 0")
  case True
  obtain a where a: "e_12 = Fin a" "0 < a" using eps_bounds by blast
  show ?thesis using True a(2) unfolding fmt_num_def a(1) by simp
next
  case False
  obtain a b where ab: "e_12 = Fin a" "a \<le> 1" "e_9 = Fin b" "0 < b" using eps_bounds by blast
  have "\<bar>of_int n :: rat\<bar> \<ge> 1" using False by linarith
  moreover have "\<lfloor>of_int n + 1 / 2 :: rat\<rfloor> = n" by (simp add: floor_eq_iff)
  ultimately show ?thesis using ab(2,4) unfolding fmt_num_def ab(1,3) by (auto simp: js_sub_def)
qed

lemma num_str_nonempty:
  assumes "is_dbl q"
  shows "num_str (Fin q) \<noteq> []"
proof
  assume n: "num_str (Fin q) = []"
  then have "q = 0" using to_number_num_str [of "Fin q"] assms by (simp add: to_number_str_def)
  with n show False by simp
qed

lemma normalized_Fin:
  assumes "is_dbl q"
  obtains y where "to_number_str (fmt_num (fixed12 q)) = Fin y" "is_dbl y"
    "to_number_str (fmt_num (fixed12 y)) = Fin y" "fmt_num (fixed12 q) \<noteq> []" "fmt_num (fixed12 y) = fmt_num (fixed12 q)"
proof -
  note result = that
  have int: thesis if n: "is_dbl (of_int n)" "fmt_num (fixed12 q) = num_str (Fin (of_int n))" for n
  proof -
    have t: "to_number_str (num_str (Fin (of_int n))) = Fin (of_int n)"
      using to_number_num_str [of "Fin (of_int n)"] n by simp
    have "num_str (Fin (of_int n)) \<noteq> []" using num_str_nonempty [OF n(1)] .
    then show thesis
      using result [of "of_int n"] n t fixed12_int [OF n(1)] fmt_num_int [OF n(1)] by simp
  qed
  obtain r where r: "fixed12 q = Fin r" "is_dbl r" "fixed12 r = Fin r" using fixed12_stable [OF assms] .
  consider "fmt_num (Fin r) = num_str (Fin (of_int 0))" | "fmt_num (Fin r) = num_str (Fin (of_int \<lfloor>r + 1 / 2\<rfloor>))"
    | "fmt_num (Fin r) = num_str (Fin r)" "r \<noteq> 0"
  proof -
    obtain a where a: "e_12 = Fin a" "0 < a" using eps_bounds by blast
    have "r = 0 \<Longrightarrow> fmt_num (Fin r) = num_str (Fin (of_int 0))" using a(2) unfolding fmt_num_def a(1) by simp
    moreover have "fmt_num (Fin r) \<in> {num_str (Fin (of_int 0)), num_str (Fin (of_int \<lfloor>r + 1 / 2\<rfloor>)), num_str (Fin r)}"
      unfolding fmt_num_def js_round.simps by simp
    ultimately show thesis using that by blast
  qed
  then show thesis
  proof cases
    case 1 then show ?thesis using int [of 0] r by simp
  next
    case 2 then show ?thesis using int is_dbl_round [OF r(2)] r by simp
  next
    case 3
    have t: "to_number_str (num_str (Fin r)) = Fin r" using to_number_num_str [of "Fin r"] r by simp
    then have "num_str (Fin r) \<noteq> []" using 3(2) by (auto simp: to_number_str_def simp del: num_str.simps)
    then show ?thesis using result [of r] r t 3 by simp
  qed
qed

lemma formatNumber_int: "is_dbl (of_int n) \<Longrightarrow> formatNumber (Num (Fin (of_int n))) = num_str (Fin (of_int n))"
  by (simp only: formatNumber_Fin [OF toNumberOrNull_Num] fixed12_int fmt_num_int)

lemma toNormalizedNumber_int:
  "is_dbl (of_int n) \<Longrightarrow> toNormalizedNumber (Num (Fin (of_int n))) = Some (Fin (of_int n))"
  using num_str_nonempty [of "of_int n"] to_number_num_str [of "Fin (of_int n)"]
  by (simp add: toNormalizedNumber_def formatNumber_int del: num_str.simps)

text \<open>
  C21: Normalising a price is idempotent. Whatever number or text is entered, the number that is
  saved for it is a fixed point: formatting and reading it again gives the same double and the same
  text, so repeated loads and saves never move a price. This holds through the rounding to twelve
  decimals, the snapping to integers and both conversions between text and double.
\<close>

theorem normalized_fixed_point:
  assumes "\<And>x. v = Num x \<Longrightarrow> wf_num x" "toNormalizedNumber v = Some y"
  shows "toNormalizedNumber (Num y) = Some y \<and> formatNumber (Num y) = formatNumber v"
proof -
  obtain q where q: "toNumberOrNull v = Some (Fin q)" "is_dbl q"
  proof (cases "toNumberOrNull v")
    case None
    then show thesis using assms(2) by (simp add: toNormalizedNumber_def formatNumber_def)
  next
    case (Some x)
    then obtain q where "x = Fin q" "to_num v = Fin q"
      using toNumberOrNull_Some [OF Some] by (cases x) (auto intro: sym)
    then show thesis using that Some wf_to_num [of v] assms(1) by simp
  qed
  obtain z where z: "to_number_str (fmt_num (fixed12 q)) = Fin z" "is_dbl z"
    "to_number_str (fmt_num (fixed12 z)) = Fin z" "fmt_num (fixed12 q) \<noteq> []" "fmt_num (fixed12 z) = fmt_num (fixed12 q)"
    using normalized_Fin [OF q(2)] .
  have y: "y = Fin z" using assms(2) z by (simp add: toNormalizedNumber_def formatNumber_Fin [OF q(1)])
  show ?thesis
    using z by (simp add: y toNormalizedNumber_def formatNumber_Fin [OF q(1)] formatNumber_Fin [of "Num (Fin z)" z])
qed

theorem normalized_fixed_point_witness:
  "toNormalizedNumber (Num (Fin 5)) = Some (Fin 5) \<and> formatNumber (Num (Fin 5)) = formatNumber (Num (Fin 5))"
  using normalized_fixed_point [of "Num (Fin 5)" "Fin 5"] toNormalizedNumber_int [of 5] by simp

end
