(* ===== verification/Editor_Machine.thy ===== *)
theory Editor_Machine
  imports Pricing_Editor Price_Format "HOL-Library.Multiset"
begin

text \<open>
  The runs of the editor. A configuration is the arguments of the hook and its state; a step is a
  change of the arguments, a handler, or a stage of a save. The invariants that hold in every
  reachable configuration are proved by rule induction, once, in the locale
  \<open>editor_invariant\<close>, and each of them is an interpretation of it.
\<close>

section \<open>Steps\<close>

datatype event =
    Ev_optional toggle_field bool
  | Ev_video_mode string
  | Ev_billing_mode string
  | Ev_video_unit string
  | Ev_image_unit string
  | Ev_video_row string nat string jsval
  | Ev_add_video_row string
  | Ev_remove_video_row string nat
  | Ev_json string
  | Ev_image_row string nat string jsval
  | Ev_add_image_row string
  | Ev_remove_image_row string nat
  | Ev_numeric num_field string
  | Ev_add_model string
  | Ev_mark string
  | Ev_restore string
  | Ev_apply
  | Ev_model_tier jsval
  | Ev_completion_tier jsval
  | Ev_cache_tier jsval
  | Ev_create_cache_tier jsval
  | Ev_clear_tiers
  | Ev_template jsval
  | Ev_search string
  | Ev_page int
  | Ev_select string
  | Ev_check "string list"

definition run_event :: "hook_args \<Rightarrow> event \<Rightarrow> editor \<Rightarrow> editor" where
  "run_event a ev s =
     (case ev of
        Ev_optional f b \<Rightarrow> handleOptionalFieldToggle a f b s
      | Ev_video_mode v \<Rightarrow> handleVideoBillingModeChange a v s
      | Ev_billing_mode v \<Rightarrow> handleBillingModeChange a v s
      | Ev_video_unit u \<Rightarrow> handleVideoPriceUnitChange a u s
      | Ev_image_unit u \<Rightarrow> handleImageGenPriceUnitChange a u s
      | Ev_video_row sect i k v \<Rightarrow> updateVideoRuleRow a sect i k v s
      | Ev_add_video_row sect \<Rightarrow> addVideoRuleRow a sect s
      | Ev_remove_video_row sect i \<Rightarrow> removeVideoRuleRow a sect i s
      | Ev_json x \<Rightarrow> snd (applyVideoPricingJson a x s)
      | Ev_image_row sect i k v \<Rightarrow> updateImageRuleRow a sect i k v s
      | Ev_add_image_row sect \<Rightarrow> addImageRuleRow a sect s
      | Ev_remove_image_row sect i \<Rightarrow> removeImageRuleRow a sect i s
      | Ev_numeric f v \<Rightarrow> handleNumericFieldChange a f v s
      | Ev_add_model n \<Rightarrow> snd (addModel a n s)
      | Ev_mark n \<Rightarrow> markModelForDelete n s
      | Ev_restore n \<Rightarrow> restorePendingDelete n s
      | Ev_apply \<Rightarrow> snd (applySelectedModelPricing a s)
      | Ev_model_tier v \<Rightarrow> updateModelTierRatio a v s
      | Ev_completion_tier v \<Rightarrow> updateCompletionTierRatio a v s
      | Ev_cache_tier v \<Rightarrow> updateCacheTierRatio a v s
      | Ev_create_cache_tier v \<Rightarrow> updateCreateCacheTierRatio a v s
      | Ev_clear_tiers \<Rightarrow> clearAllTierRatios a s
      | Ev_template v \<Rightarrow> snd (applyTierTemplate a v s)
      | Ev_search x \<Rightarrow> reset_page (s\<lparr>searchText := x\<rparr>)
      | Ev_page p \<Rightarrow> s\<lparr>currentPage := p\<rparr>
      | Ev_select n \<Rightarrow> fix_selected a (s\<lparr>selectedModelName := n\<rparr>)
      | Ev_check ns \<Rightarrow> s\<lparr>selectedModelNames := ns\<rparr>)"

text \<open>The arguments whose change reloads the models.\<close>

definition same_source :: "hook_args \<Rightarrow> hook_args \<Rightarrow> bool" where
  "same_source a a' \<longleftrightarrow>
     options a = options a' \<and> candidateModelNames a = candidateModelNames a' \<and>
     strictCandidateModelNames a = strictCandidateModelNames a' \<and> filterMode a = filterMode a' \<and>
     optionKeys a = optionKeys a'"

definition reload :: "hook_args \<Rightarrow> hook_args \<Rightarrow> editor \<Rightarrow> editor" where
  "reload a a' s =
     load_effect a' (if filterMode a = filterMode a' \<and> candidateModelNames a = candidateModelNames a'
                     then s else reset_page s)"

inductive step :: "hook_args \<times> editor \<Rightarrow> hook_args \<times> editor \<Rightarrow> bool" where
  handler: "step (a, s) (a, run_event a ev s)"
| reloaded: "step (a, s) (a', reload a a' s)"
| rewired: "same_source a a' \<Longrightarrow> step (a, s) (a', s)"
| save_start: "step (a, s) (a, submit_start a s)"
| save_done: "ds \<in> set (saving s) \<Longrightarrow> step (a, s) (a, submit_done a ds (s\<lparr>saving := remove1 ds (saving s)\<rparr>))"
| save_failed: "ds \<in> set (saving s) \<Longrightarrow> step (a, s) (a, submit_failed a e (s\<lparr>saving := remove1 ds (saving s)\<rparr>))"

inductive reachable :: "hook_args \<times> editor \<Rightarrow> bool" where
  mount: "reachable (a, load_effect a initial_editor)"
| run: "reachable c \<Longrightarrow> step c c' \<Longrightarrow> reachable c'"

inductive_cases stepE: "step (a, s) (a', s')"

section \<open>Invariants\<close>

locale editor_invariant =
  fixes inv :: "hook_args \<Rightarrow> editor \<Rightarrow> bool"
  assumes inv_load: "inv a (load_effect a s)"
    and inv_event: "inv a s \<Longrightarrow> inv a (run_event a ev s)"
    and inv_rewired: "inv a s \<Longrightarrow> same_source a a' \<Longrightarrow> inv a' s"
    and inv_start: "inv a s \<Longrightarrow> inv a (submit_start a s)"
    and inv_saving: "inv a s \<Longrightarrow> inv a (s\<lparr>saving := xs\<rparr>)"
    and inv_done: "inv a s \<Longrightarrow> inv a (submit_done a ds s)"
    and inv_failed: "inv a s \<Longrightarrow> inv a (submit_failed a e s)"
begin

lemma inv_step: "step c c' \<Longrightarrow> inv (fst c) (snd c) \<Longrightarrow> inv (fst c') (snd c')"
  by (induction rule: step.induct)
    (simp_all add: inv_load inv_event inv_rewired inv_start inv_saving inv_done inv_failed reload_def)

lemma inv_reachable: "reachable c \<Longrightarrow> inv (fst c) (snd c)"
  by (induction rule: reachable.induct) (auto simp: inv_load intro: inv_step)

end

section \<open>What the building blocks keep\<close>

lemma after_models_simps [simp]:
  "models (after_models a s) = models s"
  "initialVisibleModelNames (after_models a s) = initialVisibleModelNames s"
  "optionalFieldToggles (after_models a s) = optionalFieldToggles s"
  "pendingDeleteModelNames (after_models a s) = pendingDeleteModelNames s"
  "saving (after_models a s) = saving s"
  "notices (after_models a s) = notices s"
  by (simp_all add: after_models_def fix_selected_def prune_selection_def split: list.splits)

lemma fix_selected_simps [simp]:
  "models (fix_selected a s) = models s"
  "initialVisibleModelNames (fix_selected a s) = initialVisibleModelNames s"
  "optionalFieldToggles (fix_selected a s) = optionalFieldToggles s"
  "pendingDeleteModelNames (fix_selected a s) = pendingDeleteModelNames s"
  by (simp_all add: fix_selected_def split: list.splits)

lemma notify_simps [simp]:
  "models (notify x s) = models s"
  "initialVisibleModelNames (notify x s) = initialVisibleModelNames s"
  "optionalFieldToggles (notify x s) = optionalFieldToggles s"
  "pendingDeleteModelNames (notify x s) = pendingDeleteModelNames s"
  "selectedModelName (notify x s) = selectedModelName s"
  "selectedModelNames (notify x s) = selectedModelNames s"
  by (simp_all add: notify_def)

lemma visibleModels_cong:
  "models s = models s' \<Longrightarrow> initialVisibleModelNames s = initialVisibleModelNames s' \<Longrightarrow>
   visibleModels a s = visibleModels a s'"
  by (simp add: visibleModels_def)

lemma sort_by_set [simp]: "set (sort_by le xs) = set xs"
proof -
  have "set (insert_by le x ys) = insert x (set ys)" for x ys by (induction ys) auto
  then show ?thesis by (induction xs) (auto simp: sort_by_def)
qed

lemma sort_by_mset: "mset (sort_by le xs) = mset xs"
proof -
  have "mset (insert_by le x ys) = add_mset x (mset ys)" for x ys by (induction ys) auto
  then show ?thesis by (induction xs) (auto simp: sort_by_def)
qed

lemma buildModelState_name [simp]: "model_name (buildModelState n maps) = n"
  by (simp add: buildModelState_def Let_def EMPTY_MODEL_def)

lemma nextModels_names: "distinct (map model_name (nextModels a))"
proof -
  have "distinct (editor_names a)" by (simp add: editor_names_def Let_def)
  moreover have "mset (map model_name (nextModels a)) = mset (editor_names a)"
    unfolding nextModels_def mset_map sort_by_mset by (simp flip: mset_map add: comp_def)
  ultimately show ?thesis by (metis mset_eq_imp_distinct_iff)
qed

text \<open>
  The stored form of a tier field: absent, or the normal form of a segment list.
\<close>

definition tier_normal :: "jsval \<Rightarrow> bool" where
  "tier_normal v \<longleftrightarrow> v = Null \<or> normalizeTierSegments v = v"

definition tiers_normal :: "model \<Rightarrow> bool" where
  "tiers_normal m \<longleftrightarrow> tier_normal (modelTierRatio m) \<and> tier_normal (completionTierRatio m) \<and>
     tier_normal (cacheTierRatio m) \<and> tier_normal (createCacheTierRatio m)"

lemma tier_normal_simps [simp]:
  "tier_normal Null" "tier_normal (normalizeTierSegments v)" "tier_normal (copied_tier v)"
  by (simp_all add: tier_normal_def normalizeTierSegments_idem copied_tier_def)

lemma tier_normal_rows: "list_all finite_row rows \<Longrightarrow> tier_normal (rows_tier rows)"
  by (simp add: rows_tier_def tier_normal_def normalizeTierSegments_rows object_or_empty_def
      typeof_object_def normalizeTierRows_val)

lemma tiers_normal_build: "tiers_normal (buildModelState n maps)"
  by (simp add: buildModelState_def Let_def tiers_normal_def tier_state_def)

text \<open>An updater that keeps the name and the normal form of the tiers.\<close>

definition tame :: "(model \<Rightarrow> model) \<Rightarrow> bool" where
  "tame f \<longleftrightarrow> (\<forall>m. model_name (f m) = model_name m \<and> (tiers_normal m \<longrightarrow> tiers_normal (f m)))"

lemma tameI:
  "(\<And>m. model_name (f m) = model_name m) \<Longrightarrow> (\<And>m. tiers_normal m \<Longrightarrow> tiers_normal (f m)) \<Longrightarrow> tame f"
  by (simp add: tame_def)

lemma tame_comp: "tame f \<Longrightarrow> tame g \<Longrightarrow> tame (\<lambda>m. f (g m))"
  by (simp add: tame_def)

lemma tame_clear: "tame (clear_field f)"
  by (cases f) (auto intro!: tameI simp: clear_field_def tiers_normal_def)

lemma tame_numeric: "tame (set_num_field f v)"
  by (cases f) (auto intro!: tameI simp: set_num_field_def tiers_normal_def)

lemma tame_fill: "tame (\<lambda>m. fillDerivedPricesFromBase m v)"
  by (auto intro!: tameI simp: fillDerivedPricesFromBase_def Let_def tiers_normal_def split: option.split)

definition tame_section :: "(model \<Rightarrow> 'r list) \<times> ('r list \<Rightarrow> model \<Rightarrow> model) \<Rightarrow> bool" where
  "tame_section sec \<longleftrightarrow> (\<forall>rs. tame (snd sec rs))"

lemma tame_video_section: "video_section sect = Some sec \<Longrightarrow> tame_section sec"
  by (auto simp: video_section_def tame_section_def tame_def tiers_normal_def split: if_splits)

lemma tame_video_section_add: "video_section_add sect = Some sec \<Longrightarrow> tame_section sec"
  by (auto simp: video_section_add_def tame_video_section split: if_splits)

lemma tame_image_section: "tame_section (image_section sect)"
  by (auto simp: image_section_def tame_section_def tame_def tiers_normal_def)

lemma tame_rows:
  assumes "tame_section sec"
  shows "tame (update_row sec i f)" "tame (append_row sec r)" "tame (delete_row sec i)"
    "tame (\<lambda>m. append_row sec (g m) m)"
  using assms
  by (auto simp: tame_section_def tame_def update_row_def append_row_def delete_row_def Let_def)

lemma tame_in_video_section: "(\<And>sec. tame_section sec \<Longrightarrow> tame (f sec)) \<Longrightarrow> tame (in_video_section sect f)"
  by (auto simp: in_video_section_def tame_def dest: tame_video_section split: option.splits)

lemma tame_merge: "mergeVideoPricingFromJsonEditor (Some m) data = Inr m' \<Longrightarrow>
    model_name m' = model_name m \<and> (tiers_normal m \<longrightarrow> tiers_normal m')"
  by (auto simp: mergeVideoPricingFromJsonEditor_def Let_def tiers_normal_def split: if_splits)

lemma tame_template: "tame (template_model (normalizeTierRule v))"
  using cat_rows_finite [of v TC_input] cat_rows_finite [of v TC_output]
    cat_rows_finite [of v TC_cache_read] cat_rows_finite [of v TC_cache_write]
  by (auto intro!: tameI simp: template_model_def tiers_normal_def tier_normal_rows)

lemma copy_prices_name [simp]: "model_name (relock_completion (copy_prices sel m)) = model_name m"
  by (simp add: relock_completion_def copy_prices_def)

lemma tiers_normal_copy: "tiers_normal (relock_completion (copy_prices sel m))"
  by (simp add: relock_completion_def copy_prices_def tiers_normal_def)

section \<open>Names, selection and switches\<close>

text \<open>
  Model names are distinct, every model has its switches, the tiers are in normal form, no name is
  marked for deletion twice, and the selected name is that of a visible model unless there is none.
\<close>

definition selection_ok :: "hook_args \<Rightarrow> editor \<Rightarrow> bool" where
  "selection_ok a s \<longleftrightarrow>
     (if visibleModels a s = [] then selectedModelName s = []
      else selectedModelName s \<in> set (map model_name (visibleModels a s)))"

definition table_ok :: "editor \<Rightarrow> bool" where
  "table_ok s \<longleftrightarrow>
     distinct (map model_name (models s)) \<and>
     set (map model_name (models s)) \<subseteq> dom (optionalFieldToggles s) \<and>
     list_all tiers_normal (models s) \<and>
     distinct (pendingDeleteModelNames s)"

lemma fix_selected_ok: "selection_ok a (fix_selected a s)"
proof (cases "visibleModels a s")
  case Nil
  then show ?thesis
    using visibleModels_cong [of "fix_selected a s" s a]
    by (simp add: selection_ok_def) (simp add: fix_selected_def)
next
  case (Cons m ms)
  have "visibleModels a (fix_selected a s) = m # ms"
    using visibleModels_cong [of "fix_selected a s" s a] Cons by simp
  then show ?thesis using Cons by (auto simp: selection_ok_def fix_selected_def list_ex_iff intro: rev_image_eqI)
qed

lemma after_models_ok: "selection_ok a (after_models a s)"
  by (simp add: after_models_def fix_selected_ok)

lemma selection_ok_cong:
  "models s = models s' \<Longrightarrow> initialVisibleModelNames s = initialVisibleModelNames s' \<Longrightarrow>
   selectedModelName s = selectedModelName s' \<Longrightarrow> selection_ok a s = selection_ok a s'"
  using visibleModels_cong [of s s' a] by (simp add: selection_ok_def)

lemma table_ok_after_models [simp]: "table_ok (after_models a s) = table_ok s"
  by (simp add: table_ok_def)

lemma map_upsert_names: "tame f \<Longrightarrow> map model_name (models (upsertModel n f s)) = map model_name (models s)"
  by (auto simp: upsertModel_def tame_def)

lemma table_ok_upsert:
  assumes "table_ok s" "tame f"
  shows "table_ok (upsertModel n f s)"
proof -
  have "list_all tiers_normal (models (upsertModel n f s))"
    using assms by (auto simp: table_ok_def upsertModel_def tame_def list_all_iff)
  then show ?thesis using assms map_upsert_names [OF assms(2), of n s]
    by (simp add: table_ok_def) (simp add: upsertModel_def)
qed

lemma edit_selected_ok:
  assumes "table_ok s" "selection_ok a s" "tame f"
  shows "table_ok (edit_selected a f s) \<and> selection_ok a (edit_selected a f s)"
  using assms table_ok_upsert by (auto simp: edit_selected_def after_models_ok split: option.split)

lemma updateOptionalFieldToggle_simps [simp]:
  "models (updateOptionalFieldToggle n f b s) = models s"
  "initialVisibleModelNames (updateOptionalFieldToggle n f b s) = initialVisibleModelNames s"
  "selectedModelName (updateOptionalFieldToggle n f b s) = selectedModelName s"
  "pendingDeleteModelNames (updateOptionalFieldToggle n f b s) = pendingDeleteModelNames s"
  "dom (optionalFieldToggles (updateOptionalFieldToggle n f b s)) = insert n (dom (optionalFieldToggles s))"
  by (simp_all add: updateOptionalFieldToggle_def)

lemma table_ok_toggle: "table_ok s \<Longrightarrow> table_ok (updateOptionalFieldToggle n f b s)"
  by (auto simp: table_ok_def)

definition good :: "hook_args \<Rightarrow> editor \<Rightarrow> bool" where
  "good a s \<longleftrightarrow> table_ok s \<and> selection_ok a s"

lemma good_edit: "good a s \<Longrightarrow> tame f \<Longrightarrow> good a (edit_selected a f s)"
  by (simp add: good_def edit_selected_ok)

lemma good_cong:
  "good a s \<Longrightarrow> models s' = models s \<Longrightarrow> initialVisibleModelNames s' = initialVisibleModelNames s \<Longrightarrow>
   selectedModelName s' = selectedModelName s \<Longrightarrow> optionalFieldToggles s' = optionalFieldToggles s \<Longrightarrow>
   distinct (pendingDeleteModelNames s') \<Longrightarrow> good a s'"
  using selection_ok_cong [of s' s a] by (simp add: good_def table_ok_def)

lemma good_pending: "good a s \<Longrightarrow> distinct (pendingDeleteModelNames s)"
  by (simp add: good_def table_ok_def)

lemma good_toggle_field: "good a s \<Longrightarrow> good a (handleOptionalFieldToggle a f b s)"
proof -
  assume g: "good a s"
  have c: "good a (updateOptionalFieldToggle n f b s)" for n
    using g table_ok_toggle selection_ok_cong [of "updateOptionalFieldToggle n f b s" s a]
    by (simp add: good_def)
  have "table_ok (upsertModel n (clear_field f) (updateOptionalFieldToggle n f False s))" for n
    using g by (intro table_ok_upsert table_ok_toggle tame_clear) (simp add: good_def)
  then show ?thesis
    using g c unfolding handleOptionalFieldToggle_def
    by (auto simp: Let_def good_def after_models_ok table_ok_toggle split: option.split)
qed

lemma good_units:
  "good a s \<Longrightarrow> good a (handleVideoPriceUnitChange a u s)"
  "good a s \<Longrightarrow> good a (handleImageGenPriceUnitChange a u s)"
  by (auto simp: handleVideoPriceUnitChange_def handleImageGenPriceUnitChange_def Let_def tiers_normal_def
      intro!: good_edit tameI split: option.split)

lemma good_video_rows:
  "good a s \<Longrightarrow> good a (updateVideoRuleRow a sect i k v s)"
  "good a s \<Longrightarrow> good a (addVideoRuleRow a sect s)"
  "good a s \<Longrightarrow> good a (removeVideoRuleRow a sect i s)"
proof -
  assume g: "good a s"
  show "good a (updateVideoRuleRow a sect i k v s)"
    using g unfolding updateVideoRuleRow_def
    by (auto intro!: good_edit tame_in_video_section tame_rows simp del: insert_iff)
  have "tame (\<lambda>m. case video_section_add sect of None \<Rightarrow> m | Some sec \<Rightarrow> append_row sec (new_video_row sect m) m)"
    by (cases "video_section_add sect") (auto simp: tame_def [of "\<lambda>m. m"] intro: tame_rows tame_video_section_add)
  then show "good a (addVideoRuleRow a sect s)" using g unfolding addVideoRuleRow_def by (intro good_edit)
  have "tame (\<lambda>m. case video_section_add sect of None \<Rightarrow> m | Some sec \<Rightarrow> delete_row sec i m)"
    by (cases "video_section_add sect") (auto simp: tame_def [of "\<lambda>m. m"] intro: tame_rows tame_video_section_add)
  then show "good a (removeVideoRuleRow a sect i s)" using g unfolding removeVideoRuleRow_def by (intro good_edit)
qed

lemma good_image_rows:
  "good a s \<Longrightarrow> good a (updateImageRuleRow a sect i k v s)"
  "good a s \<Longrightarrow> good a (addImageRuleRow a sect s)"
  "good a s \<Longrightarrow> good a (removeImageRuleRow a sect i s)"
  unfolding updateImageRuleRow_def addImageRuleRow_def removeImageRuleRow_def
  by (auto intro!: good_edit tame_rows tame_image_section)

lemma selectedModel_in: "selectedModel a s = Some m \<Longrightarrow> m \<in> set (models s) \<and> model_name m = selectedModelName s"
proof -
  assume "selectedModel a s = Some m"
  then have "m \<in> set (visibleModels a s)" "model_name m = selectedModelName s"
    by (auto simp: selectedModel_def find_Some_iff)
  then show ?thesis by (auto simp: visibleModels_def split: if_splits)
qed

lemma good_json: "good a s \<Longrightarrow> good a (snd (applyVideoPricingJson a x s))"
proof -
  assume g: "good a s"
  have "good a (after_models a (upsertModel (model_name sel) (\<lambda>_. m') s))"
    if "selectedModel a s = Some sel" "mergeVideoPricingFromJsonEditor (Some sel) data = Inr m'" for sel data m'
  proof -
    have sel: "sel \<in> set (models s)" using selectedModel_in [OF that(1)] by simp
    have m': "model_name m' = model_name sel" "tiers_normal m'"
      using tame_merge [OF that(2)] sel g by (auto simp: good_def table_ok_def list_all_iff)
    have n: "map model_name (models (upsertModel (model_name sel) (\<lambda>_. m') s)) = map model_name (models s)"
      using m' by (auto simp: upsertModel_def)
    have t: "list_all tiers_normal (models (upsertModel (model_name sel) (\<lambda>_. m') s))"
      using g m' by (auto simp: good_def table_ok_def upsertModel_def list_all_iff)
    have "table_ok (upsertModel (model_name sel) (\<lambda>_. m') s)"
      using g n t unfolding good_def table_ok_def by (simp only: n t) (simp add: upsertModel_def)
    then show ?thesis by (simp add: good_def after_models_ok)
  qed
  then show ?thesis using g
    by (auto simp: applyVideoPricingJson_def split: option.split sum.split)
qed

lemma good_numeric: "good a s \<Longrightarrow> good a (handleNumericFieldChange a f v s)"
  using tame_comp [OF tame_fill [of v] tame_numeric [of f v]] tame_numeric [of f v]
  by (cases "f = F_inputPrice") (auto simp: handleNumericFieldChange_def Let_def intro!: good_edit)

lemma tiers_normal_empty [simp]: "tiers_normal (EMPTY_MODEL\<lparr>model_name := n\<rparr>)"
  by (simp add: tiers_normal_def EMPTY_MODEL_def)

lemma good_notify [simp]: "good a (notify x s) = good a s"
  using selection_ok_cong [of "notify x s" s a] by (simp add: good_def table_ok_def)

lemma good_add_model: "good a s \<Longrightarrow> good a (snd (addModel a n s))"
  by (auto simp: addModel_def Let_def good_def [of a "after_models a _"] after_models_ok)
    (auto simp: good_def table_ok_def list_ex_iff)

lemma good_mark: "good a s \<Longrightarrow> good a (markModelForDelete n s)" "good a s \<Longrightarrow> good a (restorePendingDelete n s)"
  using good_pending [of a s]
  by (auto intro!: good_cong [of a s] simp: markModelForDelete_def restorePendingDelete_def)

lemma foldl_map_dom: "dom (foldl (\<lambda>tg n. tg(n \<mapsto> f n)) m ns) = dom m \<union> set ns"
  by (induction ns arbitrary: m) auto

lemma good_apply: "good a s \<Longrightarrow> good a (snd (applySelectedModelPricing a s))"
proof -
  assume g: "good a s"
  have n: "map model_name (map (\<lambda>m. if model_name m \<notin> set ns then m else relock_completion (copy_prices sel m)) ms)
      = map model_name ms" for ns sel ms by simp
  have t: "list_all tiers_normal (map (\<lambda>m. if model_name m \<notin> set ns then m
      else relock_completion (copy_prices sel m)) (models s))" for ns sel
    using g by (auto simp: good_def table_ok_def list_all_iff tiers_normal_copy)
  have "table_ok (s\<lparr>models := map (\<lambda>m. if model_name m \<notin> set ns then m
        else relock_completion (copy_prices sel m)) (models s),
      optionalFieldToggles := foldl (\<lambda>tg n. tg(n \<mapsto> f n)) (optionalFieldToggles s) ns\<rparr>)" for ns sel f
    using g n [of ns sel "models s"] t [of ns sel]
    by (auto simp: good_def table_ok_def foldl_map_dom simp del: map_map)
  then have "good a (after_models a (s\<lparr>models := map (\<lambda>m. if model_name m \<notin> set ns then m
        else relock_completion (copy_prices sel m)) (models s),
      optionalFieldToggles := foldl (\<lambda>tg n. tg(n \<mapsto> f n)) (optionalFieldToggles s) ns\<rparr>))" for ns sel f
    by (simp add: good_def after_models_ok)
  then show ?thesis using g by (simp add: applySelectedModelPricing_def Let_def split: option.split)
qed

lemma good_tiers:
  "good a s \<Longrightarrow> good a (updateModelTierRatio a v s)"
  "good a s \<Longrightarrow> good a (updateCompletionTierRatio a v s)"
  "good a s \<Longrightarrow> good a (updateCacheTierRatio a v s)"
  "good a s \<Longrightarrow> good a (updateCreateCacheTierRatio a v s)"
  "good a s \<Longrightarrow> good a (clearAllTierRatios a s)"
  "good a s \<Longrightarrow> good a (snd (applyTierTemplate a v s))"
  by (auto simp: updateModelTierRatio_def updateCompletionTierRatio_def updateCacheTierRatio_def
      updateCreateCacheTierRatio_def clearAllTierRatios_def applyTierTemplate_def Let_def tiers_normal_def
      intro!: good_edit tameI tame_template split: option.split)

lemma good_modes:
  "good a s \<Longrightarrow> good a (handleVideoBillingModeChange a v s)"
  "good a s \<Longrightarrow> good a (handleBillingModeChange a v s)"
  by (auto simp: handleVideoBillingModeChange_def handleBillingModeChange_def tiers_normal_def
      intro!: good_edit tameI)

lemma good_small:
  "good a s \<Longrightarrow> good a (reset_page (s\<lparr>searchText := x\<rparr>))"
  "good a s \<Longrightarrow> good a (s\<lparr>currentPage := p\<rparr>)"
  "good a s \<Longrightarrow> good a (s\<lparr>selectedModelNames := ns\<rparr>)"
  "good a s \<Longrightarrow> good a (s\<lparr>saving := dss\<rparr>)"
  using good_pending [of a s] by (auto intro: good_cong [of a s] simp: reset_page_def)

lemma good_select: "good a s \<Longrightarrow> good a (fix_selected a (s\<lparr>selectedModelName := n\<rparr>))"
  using fix_selected_ok [of a "s\<lparr>selectedModelName := n\<rparr>"] by (simp add: good_def table_ok_def)

lemmas good_handlers = good_toggle_field good_units good_video_rows good_image_rows good_json good_numeric
  good_add_model good_mark good_apply good_tiers good_modes good_small good_select

lemma good_event: "good a s \<Longrightarrow> good a (run_event a ev s)"
  by (cases ev) (simp_all add: run_event_def good_handlers)

lemma foldl_model_dom: "dom (foldl (\<lambda>acc m. acc(model_name m \<mapsto> f m)) m0 ms) = dom m0 \<union> model_name ` set ms"
  by (induction ms arbitrary: m0) auto

lemma good_load: "good a (load_effect a s)"
proof -
  have d: "dom (initial_toggles ms) = set (map model_name ms)" for ms
    unfolding initial_toggles_def by (simp add: foldl_model_dom)
  have "list_all tiers_normal (nextModels a)"
    by (auto simp: nextModels_def list_all_iff tiers_normal_build)
  then show ?thesis using nextModels_names [of a]
    by (simp add: load_effect_def Let_def good_def after_models_ok table_ok_def d)
qed

lemma good_removed: "good a s \<Longrightarrow> good a (removeDeletedModelsFromState a names s)"
proof -
  assume g: "good a s"
  have "distinct (map model_name (filter (\<lambda>m. model_name m \<notin> set names) (models s)))"
    using g distinct_map_filter by (auto simp: good_def table_ok_def)
  then show ?thesis using g
    by (auto simp: removeDeletedModelsFromState_def Let_def good_def after_models_ok)
      (auto simp: table_ok_def list_all_iff)
qed

lemma good_done: "good a s \<Longrightarrow> good a (submit_done a ds s)"
proof -
  assume "good a s"
  then have g: "good a (removeDeletedModelsFromState a ds s)" by (rule good_removed)
  show ?thesis unfolding submit_done_def
    by (rule good_cong [OF g]) (simp_all add: notify_def)
qed

lemma good_failed: "good a s \<Longrightarrow> good a (submit_failed a e s)"
  unfolding submit_failed_def by (rule good_cong) (simp_all add: notify_def good_pending)

lemma good_start: "good a s \<Longrightarrow> good a (submit_start a s)"
  unfolding submit_start_def
  by (auto simp: good_failed split: res.split) (rule good_cong, simp_all add: good_pending)

lemma good_rewired: "good a s \<Longrightarrow> same_source a a' \<Longrightarrow> good a' s"
proof -
  assume "good a s" "same_source a a'"
  moreover from this have "visibleModels a' s = visibleModels a s" by (simp add: visibleModels_def same_source_def)
  ultimately show ?thesis by (auto simp: good_def selection_ok_def split: if_splits)
qed

interpretation table: editor_invariant good
  by unfold_locales
    (simp_all add: good_load good_event good_rewired good_start good_small good_done good_failed)


text \<open>A hook with two candidate models and no stored options.\<close>

definition sample_args :: hook_args where
  "sample_args =
     \<lparr>options = (\<lambda>_. None), t_fn = (\<lambda>k _. k), candidateModelNames = [''b'', ''a''],
      strictCandidateModelNames = False, filterMode = ''all'', optionKeys = (\<lambda>_. []),
      onSaveOutput = Some (\<lambda>_. Ok ()), visibleCategories = Null,
      localeLe = (\<lambda>x y. length x < length y \<or> x = y \<or> x = ''a''), api_put = (\<lambda>_ _. Ok Null), refresh_fn = Ok (),
      engineMessage = (\<lambda>_. ''error'')\<rparr>"


section \<open>The set of models\<close>

text \<open>
  What the editor promises about its set of model names, as an abstract machine: only adding a
  model changes the set, and only with a new, non-empty, trimmed name.
\<close>

definition model_names :: "editor \<Rightarrow> string set" where
  "model_names s = set (map model_name (models s))"

fun spec_names :: "event \<Rightarrow> string set \<Rightarrow> string set" where
  "spec_names (Ev_add_model n) N = (if trim n = [] then N else insert (trim n) N)"
| "spec_names _ N = N"

lemma names_after_models [simp]: "model_names (after_models a s) = model_names s"
  by (simp add: model_names_def)

lemma names_edit: "tame f \<Longrightarrow> model_names (edit_selected a f s) = model_names s"
  using map_upsert_names [of f _ s]
  by (auto simp: edit_selected_def model_names_def simp flip: set_map split: option.split)

lemma names_toggle: "model_names (handleOptionalFieldToggle a f b s) = model_names s"
proof -
  have "model_names (upsertModel n (clear_field f) s') = model_names s'" for n s'
    using map_upsert_names [OF tame_clear, of n f s'] by (simp add: model_names_def flip: set_map)
  moreover have "model_names (updateOptionalFieldToggle n g b s') = model_names s'" for n g b s'
    by (simp add: model_names_def)
  ultimately show ?thesis by (auto simp: handleOptionalFieldToggle_def Let_def split: option.split)
qed

lemma names_units:
  "model_names (handleVideoPriceUnitChange a u s) = model_names s"
  "model_names (handleImageGenPriceUnitChange a u s) = model_names s"
  by (auto simp: handleVideoPriceUnitChange_def handleImageGenPriceUnitChange_def Let_def tiers_normal_def
      intro!: names_edit tameI split: option.split)

lemma names_video_rows:
  "model_names (updateVideoRuleRow a sect i k v s) = model_names s"
  "model_names (addVideoRuleRow a sect s) = model_names s"
  "model_names (removeVideoRuleRow a sect i s) = model_names s"
proof -
  show "model_names (updateVideoRuleRow a sect i k v s) = model_names s"
    unfolding updateVideoRuleRow_def
    by (auto intro!: names_edit tame_in_video_section tame_rows simp del: insert_iff)
  show "model_names (addVideoRuleRow a sect s) = model_names s" "model_names (removeVideoRuleRow a sect i s) = model_names s"
    unfolding addVideoRuleRow_def removeVideoRuleRow_def
    by (cases "video_section_add sect";
        auto intro!: names_edit simp: tame_def [of "\<lambda>m. m"] intro: tame_rows tame_video_section_add)+
qed

lemma names_image_rows:
  "model_names (updateImageRuleRow a sect i k v s) = model_names s"
  "model_names (addImageRuleRow a sect s) = model_names s"
  "model_names (removeImageRuleRow a sect i s) = model_names s"
  unfolding updateImageRuleRow_def addImageRuleRow_def removeImageRuleRow_def
  by (auto intro!: names_edit tame_rows tame_image_section)

lemma names_json: "model_names (snd (applyVideoPricingJson a x s)) = model_names s"
proof -
  have "model_names (upsertModel (model_name sel) (\<lambda>_. m') s) = model_names s"
    if "mergeVideoPricingFromJsonEditor (Some sel) data = Inr m'" for sel data m'
  proof -
    have "map model_name (models (upsertModel (model_name sel) (\<lambda>_. m') s)) = map model_name (models s)"
      using tame_merge [OF that] by (auto simp: upsertModel_def)
    then show ?thesis by (simp add: model_names_def flip: set_map)
  qed
  then show ?thesis by (auto simp: applyVideoPricingJson_def split: option.split sum.split)
qed

lemma names_numeric: "model_names (handleNumericFieldChange a f v s) = model_names s"
  using tame_comp [OF tame_fill [of v] tame_numeric [of f v]] tame_numeric [of f v]
  by (cases "f = F_inputPrice") (auto simp: handleNumericFieldChange_def Let_def intro!: names_edit)

lemma names_add: "model_names (snd (addModel a n s)) = spec_names (Ev_add_model n) (model_names s)"
  by (auto simp: addModel_def Let_def model_names_def list_ex_iff intro: rev_image_eqI)

lemma names_apply: "model_names (snd (applySelectedModelPricing a s)) = model_names s"
proof -
  have "\<exists>f. models (snd (applySelectedModelPricing a s)) = map f (models s) \<and> (\<forall>m. model_name (f m) = model_name m)"
  proof (cases "selectedModel a s = None \<or> selectedModelNames s = []")
    case True
    then show ?thesis
      by (intro exI [of _ "\<lambda>m. m"]) (auto simp: applySelectedModelPricing_def split: option.split)
  next
    case False
    then obtain sel where "selectedModel a s = Some sel" by auto
    with False show ?thesis
      by (intro exI [of _ "\<lambda>m. if model_name m \<notin> set (selectedModelNames s) then m
          else relock_completion (copy_prices sel m)"]) (simp add: applySelectedModelPricing_def Let_def)
  qed
  then obtain f where "models (snd (applySelectedModelPricing a s)) = map f (models s)"
      "\<And>m. model_name (f m) = model_name m" by blast
  then show ?thesis by (simp add: model_names_def image_image)
qed

lemma names_tiers:
  "model_names (updateModelTierRatio a v s) = model_names s"
  "model_names (updateCompletionTierRatio a v s) = model_names s"
  "model_names (updateCacheTierRatio a v s) = model_names s"
  "model_names (updateCreateCacheTierRatio a v s) = model_names s"
  "model_names (clearAllTierRatios a s) = model_names s"
  "model_names (snd (applyTierTemplate a v s)) = model_names s"
  "model_names (handleVideoBillingModeChange a m s) = model_names s"
  "model_names (handleBillingModeChange a m s) = model_names s"
  by (auto simp: updateModelTierRatio_def updateCompletionTierRatio_def updateCacheTierRatio_def
      updateCreateCacheTierRatio_def clearAllTierRatios_def applyTierTemplate_def Let_def tiers_normal_def
      handleVideoBillingModeChange_def handleBillingModeChange_def
      intro!: names_edit tameI tame_template split: option.split)

lemmas names_handlers = names_toggle names_units names_video_rows names_image_rows names_json names_numeric
  names_add names_apply names_tiers


section \<open>The saved values\<close>

text \<open>
  What saving needs of the objects it fills: a store with lookup, insertion and deletion. Writing
  one action per name, the result holds exactly the inserted values.
\<close>

datatype 'v store_action = Keep | Drop | Store 'v

locale prop_store =
  fixes look :: "'s \<Rightarrow> 'k \<Rightarrow> 'v option" and put :: "'k \<Rightarrow> 'v \<Rightarrow> 's \<Rightarrow> 's"
    and del :: "'k \<Rightarrow> 's \<Rightarrow> 's" and none :: 's
  assumes look_none: "look none k = None"
    and look_put: "look (put k v st) k' = (if k' = k then Some v else look st k')"
    and look_del: "look (del k st) k' = (if k' = k then None else look st k')"
begin

definition act :: "'s \<Rightarrow> 'k \<times> 'v store_action \<Rightarrow> 's" where
  "act st e = (case snd e of Keep \<Rightarrow> st | Drop \<Rightarrow> del (fst e) st | Store v \<Rightarrow> put (fst e) v st)"

lemma look_act_other: "n \<noteq> fst e \<Longrightarrow> look (act st e) n = look st n"
  by (auto simp: act_def look_put look_del split: store_action.split)

lemma look_acts_other: "n \<notin> fst ` set es \<Longrightarrow> look (foldl act st es) n = look st n"
  by (induction es arbitrary: st) (auto simp: look_act_other)

lemma look_acts:
  assumes "distinct (map fst es)"
  shows "look (foldl act none es) n = (case map_of es n of Some (Store v) \<Rightarrow> Some v | _ \<Rightarrow> None)"
proof -
  have "look (foldl act st es) n =
      (case map_of es n of None \<Rightarrow> look st n | Some Keep \<Rightarrow> look st n | Some Drop \<Rightarrow> None | Some (Store v) \<Rightarrow> Some v)"
    for st using assms
  proof (induction es arbitrary: st)
    case (Cons e es)
    show ?case
    proof (cases "n = fst e")
      case True
      then have "look (foldl act (act st e) es) n = look (act st e) n"
        using Cons.prems by (intro look_acts_other) (auto simp: image_iff)
      moreover have "look (act st e) n = (case snd e of Keep \<Rightarrow> look st n | Drop \<Rightarrow> None | Store v \<Rightarrow> Some v)"
        using True by (auto simp: act_def look_put look_del split: store_action.split)
      ultimately show ?thesis using True by (cases e) (simp split: store_action.split)
    next
      case False
      then show ?thesis using Cons.IH [of "act st e"] Cons.prems
        by (cases e) (auto simp: look_act_other split: option.split store_action.split)
    qed
  qed simp
  then show ?thesis by (auto simp: look_none split: option.split store_action.split)
qed

end

interpretation props: prop_store map_of set_prop delete_prop "[]"
  by unfold_locales auto

definition ser_action :: "serialized \<Rightarrow> option_key \<Rightarrow> jsval store_action" where
  "ser_action ser k =
     (if strict_eq (ser k) (Str REMOVE_OPTION_KEY) then Drop else if ser k \<noteq> Null then Store (ser k) else Keep)"

lemma put_value_act: "put_value n ser out k = out(k := props.act (out k) (n, ser_action ser k))"
  by (auto simp: put_value_def props.act_def ser_action_def)

lemma put_values:
  "distinct ks \<Longrightarrow>
   foldl (put_value n ser) out ks k = (if k \<in> set ks then props.act (out k) (n, ser_action ser k) else out k)"
  by (induction ks arbitrary: out) (auto simp: put_value_act)

lemma distinct_serialized_keys: "distinct serialized_keys"
  by (simp add: serialized_keys_def)

definition ser_of :: "hook_args \<Rightarrow> model \<Rightarrow> serialized" where
  "ser_of a m =
     (case serializeModel m (t_fn a) (videoCurrencyRates a) (visibleCategories a) of Ok ser \<Rightarrow> ser | Throw _ \<Rightarrow> (\<lambda>_. Null))"

lemma output_from_acts:
  "output_from a ms out = Ok out' \<Longrightarrow> k \<in> set serialized_keys \<Longrightarrow>
   out' k = foldl props.act (out k) (map (\<lambda>m. (model_name m, ser_action (ser_of a m) k)) ms)"
proof (induction ms arbitrary: out)
  case (Cons m ms)
  then obtain ser where s: "serializeModel m (t_fn a) (videoCurrencyRates a) (visibleCategories a) = Ok ser"
      "output_from a ms (foldl (put_value (model_name m) ser) out serialized_keys) = Ok out'"
    by (auto simp: bind_res_Ok_iff)
  show ?case using Cons.IH [OF s(2) Cons.prems(2)] Cons.prems(2)
    by (simp add: put_values [OF distinct_serialized_keys] ser_of_def s(1))
qed simp

lemma output_from_other: "output_from a ms out = Ok out' \<Longrightarrow> k \<notin> set serialized_keys \<Longrightarrow> out' k = out k"
  by (induction ms arbitrary: out) (auto simp: bind_res_Ok_iff put_values [OF distinct_serialized_keys])

lemma map_of_names:
  "map_of (map (\<lambda>m. (model_name m, f m)) ms) n = map_option f (find (\<lambda>m. model_name m = n) ms)"
  by (induction ms) auto

text \<open>
  C3: A save writes exactly the serialised values. When the values of a list of models with
  distinct names are collected, the entry of a name under an option is the value that
  \<^verbatim>\<open>serializeModel\<close> gives for the model of that name; there is no entry when that value is
  \<^verbatim>\<open>null\<close> or the removal mark, or when no model has the name. No model overwrites or removes the
  entry of another.
\<close>

theorem saved_output_exact:
  assumes "buildPricingOutputFromModels a ms = Ok out" "distinct (map model_name ms)" "k \<in> set serialized_keys"
  shows "map_of (out k) n =
           (case find (\<lambda>m. model_name m = n) ms of
              None \<Rightarrow> None
            | Some m \<Rightarrow> (case serializeModel m (t_fn a) (videoCurrencyRates a) (visibleCategories a) of
                Ok ser \<Rightarrow> if strict_eq (ser k) (Str REMOVE_OPTION_KEY) \<or> ser k = Null then None else Some (ser k)
              | Throw _ \<Rightarrow> None))"
proof -
  let ?es = "map (\<lambda>m. (model_name m, ser_action (ser_of a m) k)) ms"
  have out: "out k = foldl props.act [] ?es"
    using output_from_acts [of a ms empty_output out k] assms(1,3)
    by (simp add: buildPricingOutputFromModels_def empty_output_def)
  have "distinct (map fst ?es)" using assms(2) by (simp add: comp_def)
  then have "map_of (out k) n = (case map_of ?es n of Some (Store v) \<Rightarrow> Some v | _ \<Rightarrow> None)"
    unfolding out by (rule props.look_acts)
  then show ?thesis
    by (cases "find (\<lambda>m. model_name m = n) ms")
      (auto simp: map_of_names ser_action_def ser_of_def split: res.split)
qed

text \<open>
  Deleted models disappear from the store. Whatever a save sends, no option has an entry under
  a name that was marked for deletion when the save started, and every entry belongs to a model of
  the editor.
\<close>

theorem saved_output_no_deleted:
  assumes "submit_output a s = Ok out" "(n, v) \<in> set (out k)"
  shows "n \<in> model_names s \<and> n \<notin> set (pendingDeleteModelNames s)"
proof -
  let ?ms = "filter (\<lambda>m. model_name m \<notin> set (pendingDeleteModelNames s)) (models s)"
  have o: "output_from a ?ms empty_output = Ok out"
    using assms(1) by (simp add: submit_output_def buildPricingOutputFromModels_def)
  have "n \<in> model_name ` set ?ms"
  proof (rule ccontr)
    assume n: "n \<notin> model_name ` set ?ms"
    have "map_of (out k) n = None"
    proof (cases "k \<in> set serialized_keys")
      case True
      let ?es = "map (\<lambda>m. (model_name m, ser_action (ser_of a m) k)) ?ms"
      have "n \<notin> fst ` set ?es" using n by (simp add: image_image)
      then show ?thesis
        using output_from_acts [OF o True] props.look_acts_other [of n ?es "[]"]
        by (simp add: empty_output_def)
    next
      case False
      then show ?thesis using output_from_other [OF o] by (simp add: empty_output_def)
    qed
    then show False using assms(2) by (metis map_of_eq_None_iff fst_conv image_eqI)
  qed
  then show ?thesis by (auto simp: model_names_def)
qed

text \<open>A model with a single tier and no other price.\<close>

definition tier_model :: "string \<Rightarrow> model" where
  "tier_model n = EMPTY_MODEL\<lparr>model_name := n,
     modelTierRatio := Obj [(''segments'', Arr [Obj [(''up_to'', Num (Fin 0)), (''ratio'', Num (Fin 2))]])]\<rparr>"

lemma serialize_tier_model:
  "serializeModel (tier_model n) t rates Null =
     Ok ((\<lambda>_. Null)(K_ModelTierRatio :=
       Obj [(''segments'', Arr [Obj [(''up_to'', Num (Fin 0)), (''ratio'', Num (Fin 2))]])]))"
proof -
  let ?t = "Obj [(''segments'', Arr [Obj [(''up_to'', Num (Fin 0)), (''ratio'', Num (Fin 2))]])]"
  have t: "hasTierSegments ?t"
    by (simp add: hasTierSegments_def normalizeTierSegments_def object_or_empty_def typeof_object_def
        arr_elems_def tier_rows_val_def tier_row_of_def finite_row_def js_or_def coalesce_def truthy_num_def)
  have e: "toNumberOrNull (Str []) = None" "\<not> hasValue (Str [])" by (simp_all add: toNumberOrNull_def hasValue_def)
  show ?thesis
    by (simp add: serializeModel_def tier_model_def EMPTY_MODEL_def Let_def e hasDependentPrice_def
        video_sections_def result_without_input_def raw_ratio_result_def raw_value_def object_or_null_def
        base_result_def tier_value_def t visible_category_def getEffectiveBillingMode_def fun_eq_iff)
qed

theorem saved_output_exact_witness:
  "\<exists>out. buildPricingOutputFromModels sample_args [tier_model ''x'', tier_model ''y''] = Ok out \<and>
     map_of (out K_ModelTierRatio) ''y'' = Some (modelTierRatio (tier_model ''y'')) \<and>
     map_of (out K_ModelRatio) ''y'' = None"
proof -
  obtain out where o: "buildPricingOutputFromModels sample_args [tier_model ''x'', tier_model ''y''] = Ok out"
    by (simp add: buildPricingOutputFromModels_def sample_args_def serialize_tier_model)
  have n: "model_name (tier_model n) = n" for n by (simp add: tier_model_def)
  have d: "distinct (map model_name [tier_model ''x'', tier_model ''y''])" by (simp add: n)
  show ?thesis
    using o saved_output_exact [OF o d, of K_ModelTierRatio "''y''"] saved_output_exact [OF o d, of K_ModelRatio "''y''"]
    by (simp add: n serialized_keys_def sample_args_def serialize_tier_model) (simp add: tier_model_def)
qed

theorem saved_output_no_deleted_witness:
  "\<exists>s out v. submit_output sample_args s = Ok out \<and> (''y'', v) \<in> set (out K_ModelTierRatio) \<and>
     ''y'' \<in> model_names s \<and> ''y'' \<notin> set (pendingDeleteModelNames s) \<and> ''x'' \<in> set (pendingDeleteModelNames s)"
proof -
  let ?s = "initial_editor\<lparr>models := [tier_model ''x'', tier_model ''y''], pendingDeleteModelNames := [''x'']\<rparr>"
  let ?v = "Obj [(''segments'', Arr [Obj [(''up_to'', Num (Fin 0)), (''ratio'', Num (Fin 2))]])]"
  have n: "model_name (tier_model n) = n" for n by (simp add: tier_model_def)
  obtain out where o: "submit_output sample_args ?s = Ok out" "output_from sample_args [tier_model ''y''] empty_output = Ok out"
    by (simp add: submit_output_def buildPricingOutputFromModels_def sample_args_def serialize_tier_model n)
  have "out K_ModelTierRatio = [(''y'', ?v)]"
    using output_from_acts [OF o(2), of K_ModelTierRatio]
    by (simp add: serialized_keys_def empty_output_def ser_of_def sample_args_def serialize_tier_model n
        props.act_def ser_action_def)
  then have "(''y'', ?v) \<in> set (out K_ModelTierRatio)" by simp
  from o this saved_output_no_deleted [OF o(1) this] show ?thesis by (intro exI [of _ ?s]) auto
qed


end
