(* ===== verification/Json_Laws.thy ===== *)
theory Json_Laws
  imports Js_Json
begin

text \<open>
  The laws of \<^verbatim>\<open>JSON.parse\<close> and \<^verbatim>\<open>JSON.stringify\<close>: reading back what was written, compactly or
  indented, gives the value with its properties in enumeration order (\<open>json_parse_stringify\<close>,
  \<open>json_parse_pretty\<close>), the parser only builds values JSON can carry (\<open>json_parse_ok\<close>), and writing
  is insensitive to that reordering (\<open>json_str_canon\<close>, \<open>json_pretty_canon\<close>).
\<close>

section \<open>Strings\<close>

lemma hex_digit_val: "n < 16 \<Longrightarrow> hex_val (hex_digit n) = n"
  by (simp add: hex_digit_def hex_val_def Let_def)

lemma quote_chars [simp]: "dquote \<noteq> backslash" "backslash \<noteq> dquote" "dquote \<noteq> CHR ''u''" "backslash \<noteq> CHR ''u''"
  by (simp_all add: dquote_def backslash_def)

lemma lex_escape_unicode:
  "hex4 [a, b, c, d] = Some n \<Longrightarrow> n < 0xD800 \<Longrightarrow>
   lex_escape (CHR ''u'' # a # b # c # d # r) = Some (utf8_char n, r)"
  by (simp add: lex_escape_def Let_def del: utf8_char.simps)

lemma lex_escape_simple:
  "simple_escape c = Some d \<Longrightarrow> c \<noteq> CHR ''u'' \<Longrightarrow> lex_escape (c # r) = Some ([d], r)"
  by (simp add: lex_escape_def)

lemma lex_str_backslash:
  "lex_escape s = Some (t, r) \<Longrightarrow>
   lex_str (backslash # s) = map_option (\<lambda>(u, r'). (t @ u, r')) (lex_str r)"
  by simp

lemma escape_cases:
  obtains (simple) e where "escape_char c = [backslash, e]" "simple_escape e = Some c" "e \<noteq> CHR ''u''"
  | (unicode) a b where "escape_char c = [backslash, CHR ''u'', CHR ''0'', CHR ''0'', a, b]"
      "hex4 [CHR ''0'', CHR ''0'', a, b] = Some (of_char c)" "(of_char c :: nat) < 32"
  | (plain) "escape_char c = [c]" "c \<noteq> dquote" "c \<noteq> backslash" "32 \<le> (of_char c :: nat)"
proof (cases "c \<in> {dquote, backslash, CHR 0x08, CHR 0x0C, CHR 0x0A, CHR 0x0D, CHR 0x09}")
  case True
  then show thesis
    using simple [of c] simple [of "CHR ''b''"] simple [of "CHR ''f''"] simple [of "CHR ''n''"]
      simple [of "CHR ''r''"] simple [of "CHR ''t''"]
    by (elim insertE emptyE) (simp_all add: escape_char_def simple_escape_def dquote_def backslash_def)
next
  case False
  let ?n = "of_char c :: nat"
  have "hex4 [CHR ''0'', CHR ''0'', hex_digit (?n div 16), hex_digit (?n mod 16)] = Some ?n" if "?n < 32"
    using that by (simp add: hex4_def hex_digit_val hex_val_def [of "CHR ''0''"])
  then show thesis using False unicode plain by (cases "?n < 32") (auto simp: escape_char_def)
qed

lemma lex_str_escape:
  "lex_str (escape_char c @ r) = map_option (\<lambda>(u, r'). (c # u, r')) (lex_str r)"
proof (cases c rule: escape_cases)
  case (simple e)
  then show ?thesis using lex_str_backslash [OF lex_escape_simple] by simp
next
  case (unicode a b)
  then have "utf8_char (of_char c) = [c]" by simp
  then show ?thesis
    using unicode lex_str_backslash [OF lex_escape_unicode [of "CHR ''0''" "CHR ''0''" a b "of_char c" r]] by simp
next
  case plain
  then show ?thesis by simp
qed

lemma lex_str_escapes: "lex_str (concat (map escape_char s) @ dquote # r) = Some (s, r)"
  by (induction s) (simp_all add: lex_str_escape)

section \<open>Numbers\<close>

lemma nat_str_head: "0 < n \<Longrightarrow> hd (nat_str n) \<noteq> CHR ''0''"
proof (induction n rule: nat_str.induct)
  case (1 n)
  show ?case
  proof (cases "n < 10")
    case True
    then have "(of_char (digit_char n) :: nat) \<noteq> 48" using "1.prems" by (simp add: digit_char_def)
    then show ?thesis using True by (auto simp: nat_str.simps [of n])
  next
    case False
    then show ?thesis using "1.IH" by (simp add: nat_str.simps [of n])
  qed
qed

lemma pos_str_digits:
  assumes "is_dbl q" "0 < q"
  obtains s n where "0 < s" "pos_str q = layout (nat_str s) n"
proof -
  obtain s k where sk: "first_cand q (dec_exp q) [1..<18] = Some (s, k)" "10 ^ (k - 1) \<le> s"
    using first_cand_17 [OF assms] by metis
  have "0 < s" using sk(2) by (meson less_le_trans zero_less_numeral zero_less_power)
  moreover have "nat_str 1 = ''1''" by code_simp
  ultimately show thesis
    using that [of 1 "dec_exp q + 1"] that [of "nat s" "dec_exp q"] sk(1)
    by (cases "s = 10 ^ k") (simp_all add: pos_str_def)
qed

lemma json_unsigned_int:
  assumes "digit_list ip" "ip \<noteq> []" "hd ip = CHR ''0'' \<longrightarrow> length ip = 1" "json_exp_ok r" "no_digit_head r"
    "r = [] \<or> hd r \<noteq> CHR ''.''"
  shows "json_unsigned_ok (ip @ r)"
  using span_digits [OF assms(1,5)] assms by (auto simp: json_unsigned_ok_def Let_def)

lemma json_unsigned_point:
  assumes "digit_list ip" "ip \<noteq> []" "hd ip = CHR ''0'' \<longrightarrow> length ip = 1" "digit_list fp" "fp \<noteq> []"
    "json_exp_ok r" "no_digit_head r"
  shows "json_unsigned_ok (ip @ ''.'' @ fp @ r)"
proof -
  have n: "no_digit_head (''.'' @ fp @ r)" by (simp add: no_digit_head_def)
  show ?thesis
    using span_digits [OF assms(1) n] span_digits [OF assms(4,7)] assms
    by (auto simp: json_unsigned_ok_def Let_def)
qed

lemma json_exp_ok_simps [simp]: "json_exp_ok []" "json_exp_ok (CHR ''e'' # exp_str e)"
  using parse_exp_str [of e] by (simp_all add: json_exp_ok_def)

lemma json_layout:
  assumes ds: "digit_list ds" "ds \<noteq> []" "hd ds \<noteq> CHR ''0''"
  shows "json_unsigned_ok (layout ds n)"
proof -
  let ?k = "int (length ds)"
  have k: "1 \<le> ?k" using ds(2) by (cases ds) auto
  have e: "no_digit_head (CHR ''e'' # exp_str (n - 1))" by (simp add: no_digit_head_def)
  consider (a) "?k \<le> n" "n \<le> 21" | (b) "0 < n" "n < ?k" "n \<le> 21" | (c) "-6 < n" "n \<le> 0"
    | (d) "n \<le> -6 \<or> 21 < n" "?k = 1" | (e) "n \<le> -6 \<or> 21 < n" "1 < ?k"
    using k by linarith
  then show ?thesis
  proof cases
    case a
    then show ?thesis
      using json_unsigned_int [of "ds @ replicate (nat (n - ?k)) CHR ''0''" "[]"] ds
      by (simp add: layout_def Let_def no_digit_head_def)
  next
    case b
    then show ?thesis
      using json_unsigned_point [of "take (nat n) ds" "drop (nat n) ds" "[]"] ds
      by (simp add: layout_def Let_def no_digit_head_def)
  next
    case c
    then show ?thesis
      using k json_unsigned_point [of "''0''" "replicate (nat (- n)) CHR ''0'' @ ds" "[]"] ds
      by (simp add: layout_def Let_def no_digit_head_def is_digit_def)
  next
    case d
    then show ?thesis
      using json_unsigned_int [of ds "CHR ''e'' # exp_str (n - 1)"] ds e by (auto simp: layout_def Let_def)
  next
    case e': e
    have "drop 1 ds \<noteq> []" using e' by simp
    moreover have "hd (take 1 ds) = hd ds" "take 1 ds \<noteq> []" using ds(2) by (cases ds; simp)+
    ultimately have "json_unsigned_ok (take 1 ds @ ''.'' @ drop 1 ds @ CHR ''e'' # exp_str (n - 1))"
      using ds e by (intro json_unsigned_point) auto
    then show ?thesis using e' by (auto simp: layout_def Let_def)
  qed
qed

lemma json_num_str:
  assumes "is_dbl q"
  shows "json_num_ok (num_str (Fin q))" "list_all json_num_char (num_str (Fin q))"
    "num_str (Fin q) \<noteq> []" "is_digit (hd (num_str (Fin q))) \<or> hd (num_str (Fin q)) = CHR ''-''"
proof -
  have pos: "json_unsigned_ok (pos_str r) \<and> list_all json_num_char (pos_str r) \<and> pos_str r \<noteq> [] \<and> is_digit (hd (pos_str r))"
    if r: "is_dbl r" "0 < r" for r
  proof -
    obtain s n where s: "0 < s" "pos_str r = layout (nat_str s) n" using pos_str_digits [OF r] .
    have "num_head (layout (nat_str s) n)" by (rule layout_head) auto
    moreover have "list_all json_num_char (layout (nat_str s) n)"
      using layout_chars [of "nat_str s" n] by (auto simp: list_all_iff num_char_def json_num_char_def)
    ultimately show ?thesis using json_layout [of "nat_str s" n] s nat_str_head by (auto simp: num_head_def)
  qed
  have z: "json_num_ok ''0''"
    using json_unsigned_int [of "''0''" "[]"] by (simp add: json_num_ok_def no_digit_head_def is_digit_def)
  have dash: "\<not> is_digit CHR ''-''" by (simp add: is_digit_def)
  have "CHR ''-'' \<noteq> hd (pos_str r)" if "is_dbl r" "0 < r" for r
    using pos [OF that] dash by metis
  note nodash = this
  consider "q = 0" | "0 < q" | "q < 0" by linarith
  then have "json_num_ok (num_str (Fin q)) \<and> list_all json_num_char (num_str (Fin q)) \<and> num_str (Fin q) \<noteq> [] \<and>
    (is_digit (hd (num_str (Fin q))) \<or> hd (num_str (Fin q)) = CHR ''-'')"
  proof cases
    case 1 then show ?thesis using z by (simp add: json_num_char_def is_digit_def)
  next
    case 2
    then have "hd (pos_str q) \<noteq> CHR ''-''" using nodash [OF assms] by metis
    then show ?thesis using 2 pos [OF assms 2] by (simp add: json_num_ok_def)
  next
    case 3 then show ?thesis using pos [of "- q"] assms by (simp add: json_num_ok_def json_num_char_def)
  qed
  then show "json_num_ok (num_str (Fin q))" "list_all json_num_char (num_str (Fin q))"
    "num_str (Fin q) \<noteq> []" "is_digit (hd (num_str (Fin q))) \<or> hd (num_str (Fin q)) = CHR ''-''"
    by blast+
qed

section \<open>The tokens of a printed value\<close>

lemma insort_key_map: "insort_key k (f x) (map f xs) = map f (insort_key (\<lambda>x. k (f x)) x xs)"
  by (induction xs) auto

lemma sort_key_map: "sort_key k (map f xs) = map f (sort_key (\<lambda>x. k (f x)) xs)"
  by (induction xs) (simp_all add: sort_key_def insort_key_map)

lemma prop_entries_map:
  "prop_entries (map (\<lambda>(k, v). (k, f k v)) ps) = map (\<lambda>(k, v). (k, f k v)) (prop_entries ps)"
proof -
  let ?h = "\<lambda>(k, v). (k, f k v)"
  have fk: "(case ?h x of (k, _) \<Rightarrow> g k) = (case x of (k, _) \<Rightarrow> g k)" for g :: "string \<Rightarrow> 'c" and x by (cases x) simp
  have "filter (\<lambda>(k, _). P k) (map ?h ps) = map ?h (filter (\<lambda>(k, _). P k) ps)" for P
    by (simp add: filter_map comp_def fk)
  then show ?thesis by (simp add: prop_entries_def sort_key_map fk)
qed

text \<open>Texts that lex to given tokens, before any continuation or before a delimiter.\<close>

definition delim :: "string \<Rightarrow> bool" where
  "delim r \<longleftrightarrow> r = [] \<or> (\<not> json_num_char (hd r) \<and> \<not> json_word_char (hd r))"

definition emits_any :: "string \<Rightarrow> tok list \<Rightarrow> bool" where
  "emits_any s ts \<longleftrightarrow> (\<forall>r. lex (s @ r) = map_option (\<lambda>u. ts @ u) (lex r))"

definition emits :: "string \<Rightarrow> tok list \<Rightarrow> bool" where
  "emits s ts \<longleftrightarrow> (\<forall>r. delim r \<longrightarrow> lex (s @ r) = map_option (\<lambda>u. ts @ u) (lex r))"

lemma emits_any_emits: "emits_any s ts \<Longrightarrow> emits s ts"
  by (simp add: emits_any_def emits_def)

lemma emits_any_Nil [simp]: "emits_any [] []"
  by (simp add: emits_any_def option.map_ident)

lemma emits_any_append: "emits_any s ts \<Longrightarrow> emits_any s' ts' \<Longrightarrow> emits_any (s @ s') (ts @ ts')"
  by (simp add: emits_any_def option.map_comp comp_def)

lemma emits_any_emits_append: "emits_any s ts \<Longrightarrow> emits s' ts' \<Longrightarrow> emits (s @ s') (ts @ ts')"
  by (simp add: emits_any_def emits_def option.map_comp comp_def)

lemma emits_append: "emits s ts \<Longrightarrow> emits_any s' ts' \<Longrightarrow> s' \<noteq> [] \<Longrightarrow> delim s' \<Longrightarrow> emits_any (s @ s') (ts @ ts')"
  by (simp add: emits_any_def emits_def delim_def option.map_comp comp_def)

lemma emits_lex: "emits s ts \<Longrightarrow> lex s = Some ts"
  unfolding emits_def by (drule spec [of _ "[]"]) (simp add: delim_def)

lemma emits_any_punct: "lex_punct c = Some t \<Longrightarrow> emits_any [c] [t]"
proof -
  assume c: "lex_punct c = Some t"
  then have "\<not> json_ws c" by (auto simp: lex_punct_def json_ws_def split: if_splits)
  with c show ?thesis by (simp add: emits_any_def)
qed

lemma emits_any_ws: "json_ws c \<Longrightarrow> emits_any [c] []"
  by (simp add: emits_any_def option.map_ident)

lemma emits_any_wss: "list_all json_ws s \<Longrightarrow> emits_any s []"
proof (induction s)
  case (Cons c s)
  then show ?case using emits_any_append [OF emits_any_ws [of c], of s "[]"] by simp
qed simp

lemma emits_any_quote: "emits_any (quote_str s) [TStr s]"
proof -
  have q: "\<not> json_ws dquote" "lex_punct dquote = None" by (simp_all add: dquote_def json_ws_def lex_punct_def)
  show ?thesis by (simp add: emits_any_def quote_str_def q lex_str_escapes)
qed

lemma takeWhile_delim:
  "list_all P w \<Longrightarrow> r = [] \<or> \<not> P (hd r) \<Longrightarrow> takeWhile P (w @ r) = w"
  by (cases r) (auto simp: list_all_iff)

lemma lex_word_app:
  assumes "list_all json_word_char (c # w)" "lex_word (c # w) = Some t" "delim r"
  shows "lex (c # w @ r) = map_option ((#) t) (lex r)"
proof -
  have c: "97 \<le> (of_char c :: nat)" "(of_char c :: nat) \<le> 122" using assms(1) by (simp_all add: json_word_char_def)
  then have "\<not> json_ws c" "\<not> is_digit c" "c \<noteq> dquote" "c \<noteq> CHR ''-''"
    by (auto simp: json_ws_def is_digit_def dquote_def)
  moreover have "lex_punct c = None"
    using assms(2) by (auto simp: lex_word_def lex_punct_def split: if_splits)
  moreover have "takeWhile json_word_char (c # w @ r) = c # w"
    using takeWhile_delim [of json_word_char "c # w" r] assms(1,3) by (auto simp: delim_def)
  ultimately show ?thesis using assms(2) by (simp add: Let_def)
qed

lemma emits_word:
  "emits ''null'' [TNull]" "emits ''true'' [TTrue]" "emits ''false'' [TFalse]"
  using lex_word_app [of "CHR ''n''" "''ull''" TNull] lex_word_app [of "CHR ''t''" "''rue''" TTrue]
    lex_word_app [of "CHR ''f''" "''alse''" TFalse]
  by (simp_all add: emits_def json_word_char_def lex_word_def del: lex.simps)

lemma emits_num:
  assumes "is_dbl q"
  shows "emits (num_str (Fin q)) [TNum (Fin q)]"
  unfolding emits_def
proof (intro allI impI)
  fix r assume r: "delim r"
  obtain c w where cw: "num_str (Fin q) = c # w" using json_num_str(3) [OF assms] by (cases "num_str (Fin q)") auto
  have c: "is_digit c \<or> c = CHR ''-''" using json_num_str(4) [OF assms] cw by simp
  then have "\<not> json_ws c" "lex_punct c = None" "c \<noteq> dquote"
    by (auto simp: is_digit_def json_ws_def lex_punct_def dquote_def)
  moreover have "takeWhile json_num_char (c # w @ r) = c # w"
    using takeWhile_delim [of json_num_char "c # w" r] json_num_str(2) [OF assms] r unfolding cw by (auto simp: delim_def)
  moreover have "json_num_ok (c # w)" "to_number_str (c # w) = Fin q"
    using json_num_str(1) [OF assms] to_number_num_str [of "Fin q"] assms unfolding cw by simp_all
  ultimately show "lex (num_str (Fin q) @ r) = map_option (\<lambda>u. [TNum (Fin q)] @ u) (lex r)"
    unfolding cw using c by (simp add: Let_def)
qed

lemma emits_join:
  assumes "\<And>x. x \<in> set xs \<Longrightarrow> emits (f x) (g x)" "emits_any sep [Comma]" "sep \<noteq> []" "delim sep"
  shows "emits (join sep (map f xs)) (join [Comma] (map g xs))"
  using assms(1)
proof (induction xs rule: induct_list012)
  case 1
  then show ?case by (simp add: emits_any_emits)
next
  case (3 x y zs)
  have "emits_any (f x @ sep) (g x @ [Comma])" using 3 assms by (intro emits_append) auto
  then have "emits ((f x @ sep) @ join sep (map f (y # zs))) ((g x @ [Comma]) @ join [Comma] (map g (y # zs)))"
    using 3 by (intro emits_any_emits_append) auto
  then show ?case by simp
qed simp

text \<open>
  The values JSON can carry, and what is read back for them: the properties of an object come in
  enumeration order and an infinite number has become \<^verbatim>\<open>null\<close>.
\<close>

fun json_ok :: "jsval \<Rightarrow> bool" where
  "json_ok Undef = False"
| "json_ok (Num x) = wf_num x"
| "json_ok (Arr vs) = list_all json_ok vs"
| "json_ok (Obj ps) = (distinct (map fst ps) \<and> list_all (\<lambda>(k, v). json_ok v) ps)"
| "json_ok _ = True"

fun canon :: "jsval \<Rightarrow> jsval" where
  "canon (Arr vs) = Arr (map canon vs)"
| "canon (Obj ps) = Obj (prop_entries (map (\<lambda>(k, v). (k, canon v)) ps))"
| "canon (Num x) = (if is_finite x then Num x else Null)"
| "canon v = v"

fun toks :: "jsval \<Rightarrow> tok list" where
  "toks (Bool b) = [if b then TTrue else TFalse]"
| "toks (Num x) = [if is_finite x then TNum x else TNull]"
| "toks (Str s) = [TStr s]"
| "toks (Arr vs) = LBrack # join [Comma] (map toks vs) @ [RBrack]"
| "toks (Obj ps) =
     LBrace # join [Comma] (map (\<lambda>(k, t). TStr k # Colon # t) (prop_entries (map (\<lambda>(k, v). (k, toks v)) ps))) @ [RBrace]"
| "toks _ = [TNull]"

lemma set_prop_entries_ok:
  "list_all (\<lambda>(k, v). json_ok v) ps \<Longrightarrow> (k, v) \<in> set (prop_entries ps) \<Longrightarrow> json_ok v"
  by (auto simp: set_prop_entries list_all_iff)

text \<open>The entries that a printer keeps are all entries.\<close>

lemma printed_entries:
  assumes "list_all (\<lambda>(k, v). json_ok v) ps"
  shows "filter (\<lambda>(k, u, t). \<not> u) (prop_entries (map (\<lambda>(k, v). (k, v = Undef, f v)) ps)) =
    map (\<lambda>(k, v). (k, False, f v)) (prop_entries ps)"
proof -
  have "v \<noteq> Undef" if "(k, v) \<in> set (prop_entries ps)" for k v
    using set_prop_entries_ok [OF assms that] by auto
  then have "map (\<lambda>(k, v). (k, v = Undef, f v)) (prop_entries ps) = map (\<lambda>(k, v). (k, False, f v)) (prop_entries ps)"
    by (auto intro!: map_cong)
  then show ?thesis using prop_entries_map [of "\<lambda>k v. (v = Undef, f v)" ps] by (simp add: filter_map comp_def split_def)
qed

lemma toks_Obj: "toks (Obj ps) = LBrace # join [Comma] (map (\<lambda>(k, v). TStr k # Colon # toks v) (prop_entries ps)) @ [RBrace]"
  unfolding toks.simps prop_entries_map [of "\<lambda>_ v. toks v"] by (simp add: comp_def split_def)

lemma json_str_Obj:
  "list_all (\<lambda>(k, v). json_ok v) ps \<Longrightarrow>
   json_str (Obj ps) = ''{'' @ join '','' (map (\<lambda>(k, v). quote_str k @ '':'' @ json_str v) (prop_entries ps)) @ ''}''"
  unfolding json_str.simps by (simp only: printed_entries) (simp add: comp_def split_def)

lemma json_pretty_Obj:
  "list_all (\<lambda>(k, v). json_ok v) ps \<Longrightarrow> prop_entries ps \<noteq> [] \<Longrightarrow>
   json_pretty ind (Obj ps) = ''{'' @ [CHR 0x0A] @
     join ('','' @ [CHR 0x0A]) (map (\<lambda>x. ind @ ''  '' @ (case x of (k, v) \<Rightarrow> quote_str k @ '': '' @ json_pretty (ind @ ''  '') v))
       (prop_entries ps)) @ [CHR 0x0A] @ ind @ ''}''"
  unfolding json_pretty.simps Let_def by (simp only: printed_entries) (simp add: comp_def split_def)

lemma emits_any_members:
  "emits_any '':'' [Colon]" "emits_any '': '' [Colon]" "emits_any '','' [Comma]"
  "emits_any ('','' @ [CHR 0x0A]) [Comma]" "emits_any ''['' [LBrack]" "emits_any '']'' [RBrack]"
  "emits_any ''{'' [LBrace]" "emits_any ''}'' [RBrace]" "emits_any [CHR 0x0A] []" "emits_any ''  '' []"
proof -
  have w: "json_ws CHR 0x0A" "json_ws CHR '' ''" by (simp_all add: json_ws_def)
  show "emits_any '':'' [Colon]" "emits_any '','' [Comma]" "emits_any ''['' [LBrack]" "emits_any '']'' [RBrack]"
    "emits_any ''{'' [LBrace]" "emits_any ''}'' [RBrace]" by (auto intro!: emits_any_punct simp: lex_punct_def)
  then show "emits_any '': '' [Colon]" "emits_any ('','' @ [CHR 0x0A]) [Comma]"
    using emits_any_append [OF _ emits_any_ws [OF w(2)], of "'':''" "[Colon]"]
      emits_any_append [OF _ emits_any_ws [OF w(1)], of "'',''" "[Comma]"] by simp_all
  show "emits_any [CHR 0x0A] []" "emits_any ''  '' []" using w by (auto intro: emits_any_wss)
qed

lemma delim_punct: "delim ('','' @ s)" "delim ('']'' @ s)" "delim (''}'' @ s)" "delim (CHR 0x0A # s)"
  by (simp_all add: delim_def json_num_char_def json_word_char_def is_digit_def)

lemma emits_bracket:
  assumes "emits_any l [a]" "emits s ts" "emits_any r [b]" "r \<noteq> []" "delim r"
  shows "emits (l @ s @ r) (a # ts @ [b])"
  using emits_any_append [OF assms(1) emits_append [OF assms(2-5)]] by (simp add: emits_any_emits)

lemma emits_member: "emits_any c [Colon] \<Longrightarrow> emits s ts \<Longrightarrow> emits (quote_str k @ c @ s) (TStr k # Colon # ts)"
  using emits_any_emits_append [OF emits_any_append [OF emits_any_quote]] by fastforce

lemma emits_json_str: "json_ok v \<Longrightarrow> emits (json_str v) (toks v)"
proof (induction v rule: json_str.induct)
  case (4 x)
  then show ?case using emits_word by (cases x) (simp_all add: emits_num del: num_str.simps)
next
  case (5 s)
  then show ?case by (simp add: emits_any_emits emits_any_quote)
next
  case (6 vs)
  have "emits (join '','' (map json_str vs)) (join [Comma] (map toks vs))"
    using 6 by (intro emits_join) (auto simp: list_all_iff emits_any_members delim_punct [of "[]", simplified])
  then show ?case using emits_bracket [of "''[''" LBrack _ _ "'']''" RBrack] delim_punct(2) [of "[]"]
    by (simp add: emits_any_members)
next
  case (7 ps)
  let ?es = "prop_entries ps"
  have ok: "list_all (\<lambda>(k, v). json_ok v) ps" using "7.prems" by simp
  have "emits (json_str v) (toks v)" if "(k, v) \<in> set ?es" for k v
    using "7.IH" [of "(k, v)"] that set_prop_entries_ok [OF ok that] by (simp add: set_prop_entries)
  then have "emits (join '','' (map (\<lambda>(k, v). quote_str k @ '':'' @ json_str v) ?es))
      (join [Comma] (map (\<lambda>(k, v). TStr k # Colon # toks v) ?es))"
    by (intro emits_join)
      (auto simp: emits_any_members emits_member [OF emits_any_members(1), simplified] delim_punct [of "[]", simplified])
  then have "emits (''{'' @ join '','' (map (\<lambda>(k, v). quote_str k @ '':'' @ json_str v) ?es) @ ''}'')
      (LBrace # join [Comma] (map (\<lambda>(k, v). TStr k # Colon # toks v) ?es) @ [RBrace])"
    using delim_punct(3) [of "[]"] by (intro emits_bracket) (simp_all add: emits_any_members)
  then show ?case unfolding toks_Obj json_str_Obj [OF ok] .
qed (use emits_word in auto)


lemma emits_pad: "list_all json_ws ind \<Longrightarrow> emits s ts \<Longrightarrow> emits (ind @ s) ts"
  using emits_any_emits_append [OF emits_any_wss] by fastforce

text \<open>A block of an opening bracket, one item per line and a closing bracket.\<close>

lemma emits_block:
  assumes "emits_any l [a]" "emits_any r [b]" "list_all json_ws ind"
    and items: "\<And>x. x \<in> set xs \<Longrightarrow> emits (f x) (g x)"
  shows "emits (l @ [CHR 0x0A] @ join ('','' @ [CHR 0x0A]) (map (\<lambda>x. ind @ ''  '' @ f x) xs) @ [CHR 0x0A] @ ind @ r)
    (a # join [Comma] (map g xs) @ [b])"
proof -
  have sp: "list_all json_ws (ind @ ''  '')" using assms(3) by (simp add: json_ws_def [of "CHR '' ''"])
  have "emits (join ('','' @ [CHR 0x0A]) (map (\<lambda>x. ind @ ''  '' @ f x) xs)) (join [Comma] (map g xs))"
    using items emits_pad [OF sp] by (intro emits_join) (auto simp: emits_any_members(4) [simplified] delim_punct(1) [simplified])
  moreover have "emits_any ([CHR 0x0A] @ ind @ r) [b]"
    using emits_any_append [OF emits_any_members(9) emits_any_append [OF emits_any_wss [OF assms(3)] assms(2)]] by simp
  moreover have "emits_any (l @ [CHR 0x0A]) [a]" using emits_any_append [OF assms(1) emits_any_members(9)] by simp
  ultimately show ?thesis
    using emits_bracket [of "l @ [CHR 0x0A]" a _ _ "[CHR 0x0A] @ ind @ r" b] delim_punct(4) by simp
qed

lemma emits_json_pretty: "json_ok v \<Longrightarrow> list_all json_ws ind \<Longrightarrow> emits (json_pretty ind v) (toks v)"
proof (induction ind v rule: json_pretty.induct)
  case (1 ind vs)
  have sp: "list_all json_ws (ind @ ''  '')" using "1.prems" by (simp add: json_ws_def [of "CHR '' ''"])
  show ?case
  proof (cases "vs = []")
    case True
    then show ?thesis
      using emits_any_append [OF emits_any_members(5) emits_any_members(6)] by (simp add: emits_any_emits)
  next
    case False
    have "emits (json_pretty (ind @ ''  '') v) (toks v)" if "v \<in> set vs" for v
      using "1.IH" [OF False that _ sp] that "1.prems"(1) by (simp add: list_all_iff)
    from emits_block [OF emits_any_members(5,6) "1.prems"(2), of vs "json_pretty (ind @ ''  '')" toks, OF this]
    show ?thesis unfolding json_pretty.simps toks.simps if_not_P [OF False] .
  qed
next
  case (2 ind ps)
  have sp: "list_all json_ws (ind @ ''  '')" using "2.prems" by (simp add: json_ws_def [of "CHR '' ''"])
  let ?es = "prop_entries ps"
  have ok: "list_all (\<lambda>(k, v). json_ok v) ps" using "2.prems" by simp
  show ?case
  proof (cases "?es = []")
    case True
    then show ?thesis unfolding toks_Obj
      using emits_any_append [OF emits_any_members(7) emits_any_members(8)]
      by (simp add: printed_entries [OF ok] emits_any_emits)
  next
    case False
    have "emits (case x of (k, v) \<Rightarrow> quote_str k @ '': '' @ json_pretty (ind @ ''  '') v)
        (case x of (k, v) \<Rightarrow> TStr k # Colon # toks v)" if "x \<in> set ?es" for x
    proof -
      obtain k v where x: "x = (k, v)" by fastforce
      then have "emits (json_pretty (ind @ ''  '') v) (toks v)"
        using that set_prop_entries_ok [OF ok, of k v] sp
        by (intro "2.IH" [of x k v]) (simp_all add: set_prop_entries)
      then show ?thesis using emits_member [OF emits_any_members(2)] x by simp
    qed
    from emits_block [OF emits_any_members(7,8) "2.prems"(2), of ?es
        "\<lambda>x. case x of (k, v) \<Rightarrow> quote_str k @ '': '' @ json_pretty (ind @ ''  '') v"
        "\<lambda>x. case x of (k, v) \<Rightarrow> TStr k # Colon # toks v", OF this]
    show ?thesis unfolding toks_Obj json_pretty_Obj [OF ok False] .
  qed
qed (simp_all only: json_pretty.simps, (rule emits_json_str, assumption)+)

section \<open>The parser on the tokens of a value\<close>

lemma join_Cons: "join [c] (x # xs) = x @ concat (map ((#) c) xs)"
  by (induction xs arbitrary: x) auto

lemma set_prop_fresh: "k \<notin> fst ` set ps \<Longrightarrow> set_prop k v ps = ps @ [(k, v)]"
  by (induction k v ps rule: set_prop.induct) auto

text \<open>What it means that a token list is read as the value \<open>v\<close>, in any context.\<close>

definition reads :: "tok list \<Rightarrow> jsval \<Rightarrow> bool" where
  "reads ts v \<longleftrightarrow> (\<forall>m fs r. m = PVal \<or> m = PValOrEnd \<longrightarrow>
     prun m fs (ts @ r) = prun (fst (put v fs)) (snd (put v fs)) r)"

lemma readsD: "reads ts v \<Longrightarrow> m = PVal \<or> m = PValOrEnd \<Longrightarrow> put v fs = (m', fs') \<Longrightarrow> prun m fs (ts @ r) = prun m' fs' r"
  by (auto simp: reads_def)

lemma pstep_first: "t \<noteq> RBrack \<Longrightarrow> pstep PValOrEnd fs t = start_val t fs"
  by (cases "(PValOrEnd, fs, t)" rule: pstep.cases) auto

lemma reads_start:
  assumes "t \<noteq> RBrack" "\<And>fs r. (case start_val t fs of None \<Rightarrow> None | Some (m', fs') \<Rightarrow> prun m' fs' (ts @ r)) =
    prun (fst (put v fs)) (snd (put v fs)) r"
  shows "reads (t # ts) v"
  using assms by (auto simp: reads_def pstep_first)

lemma reads_more:
  assumes "\<And>v. v \<in> set vs \<Longrightarrow> reads (toks v) (canon v)"
  shows "prun PAfter (FArr acc # fs) (concat (map ((#) Comma) (map toks vs)) @ RBrack # r) =
    prun (fst (put (Arr (acc @ map canon vs)) fs)) (snd (put (Arr (acc @ map canon vs)) fs)) r"
  using assms
proof (induction vs arbitrary: acc)
  case (Cons v vs)
  then have "prun PVal (FArr acc # fs) (toks v @ u) = prun PAfter (FArr (acc @ [canon v]) # fs) u" for u
    by (intro readsD [of _ "canon v"]) auto
  then show ?case using Cons.IH [of "acc @ [canon v]"] Cons.prems by simp
qed (simp split: prod.split)

lemma reads_Arr:
  assumes "\<And>v. v \<in> set vs \<Longrightarrow> reads (toks v) (canon v)"
  shows "reads (toks (Arr vs)) (canon (Arr vs))"
proof (cases vs)
  case Nil
  then show ?thesis by (auto intro!: reads_start split: prod.split)
next
  case (Cons v ws)
  have "prun PValOrEnd (FArr [] # fs) (toks v @ u) = prun PAfter (FArr [canon v] # fs) u" for fs u
    using assms Cons by (intro readsD [of _ "canon v"]) auto
  then show ?thesis
    using reads_more [of ws "[canon v]"] assms Cons by (auto intro!: reads_start simp: join_Cons)
qed

lemma reads_props:
  assumes "\<And>k v. (k, v) \<in> set es \<Longrightarrow> reads (toks v) (canon v)"
    and "distinct (map fst es)" "fst ` set es \<inter> fst ` set acc = {}"
  shows "prun PAfter (FKey acc # fs) (concat (map ((#) Comma) (map (\<lambda>(k, v). TStr k # Colon # toks v) es)) @ RBrace # r) =
    prun (fst (put (Obj (acc @ map (\<lambda>(k, v). (k, canon v)) es)) fs))
      (snd (put (Obj (acc @ map (\<lambda>(k, v). (k, canon v)) es)) fs)) r"
  using assms
proof (induction es arbitrary: acc)
  case (Cons e es)
  obtain k v where e: "e = (k, v)" by fastforce
  have "k \<notin> fst ` set acc" using Cons.prems(3) e by auto
  then have "put (canon v) (FVal acc k # fs) = (PAfter, FKey (acc @ [(k, canon v)]) # fs)" by (simp add: set_prop_fresh)
  then have "prun PVal (FVal acc k # fs) (toks v @ u) = prun PAfter (FKey (acc @ [(k, canon v)]) # fs) u" for u
    using Cons.prems(1) e by (intro readsD [of _ "canon v"]) auto
  moreover have "fst ` set es \<inter> fst ` set (acc @ [(k, canon v)]) = {}" using Cons.prems(2,3) e by auto
  moreover have "\<And>k v. (k, v) \<in> set es \<Longrightarrow> reads (toks v) (canon v)" using Cons.prems(1) by (meson list.set_intros(2))
  ultimately show ?case using Cons.IH [of "acc @ [(k, canon v)]"] Cons.prems(2) e by simp
qed (simp split: prod.split)

lemma canon_Obj: "canon (Obj ps) = Obj (map (\<lambda>(k, v). (k, canon v)) (prop_entries ps))"
  by (simp add: prop_entries_map [of "\<lambda>_ v. canon v"])

lemma reads_Obj:
  assumes "\<And>k v. (k, v) \<in> set ps \<Longrightarrow> reads (toks v) (canon v)" "distinct (map fst ps)"
  shows "reads (toks (Obj ps)) (canon (Obj ps))"
proof -
  have r: "\<And>k v. (k, v) \<in> set (prop_entries ps) \<Longrightarrow> reads (toks v) (canon v)" using assms(1) by (simp add: set_prop_entries)
  have d: "distinct (map fst (prop_entries ps))" by (rule distinct_prop_entries [OF assms(2)])
  show ?thesis
  proof (cases "prop_entries ps")
    case Nil
    then show ?thesis unfolding toks_Obj canon_Obj by (auto intro!: reads_start split: prod.split)
  next
    case (Cons e es)
    obtain k v where e: "e = (k, v)" by fastforce
    have "prun PVal (FVal [] k # fs) (toks v @ u) = prun PAfter (FKey [(k, canon v)] # fs) u" for fs u
      using r Cons e by (intro readsD [of _ "canon v"]) auto
    moreover have "fst ` set es \<inter> fst ` set [(k, canon v)] = {}" using d Cons e by auto
    moreover have r': "\<And>k v. (k, v) \<in> set es \<Longrightarrow> reads (toks v) (canon v)" using r Cons by (metis list.set_intros(2))
    ultimately show ?thesis unfolding toks_Obj canon_Obj
      using reads_props [of es "[(k, canon v)]", OF r'] d Cons e by (auto intro!: reads_start simp: join_Cons)
  qed
qed

lemma reads_toks: "json_ok v \<Longrightarrow> reads (toks v) (canon v)"
proof (induction v rule: json_ok.induct)
  case (3 vs)
  then show ?case by (intro reads_Arr) (auto simp: list_all_iff)
next
  case (4 ps)
  then show ?case by (intro reads_Obj) (auto simp: list_all_iff)
qed (auto intro!: reads_start simp: reads_def pstep_first split: prod.split)

section \<open>Round trips\<close>

lemma parse_toks:
  assumes "json_ok v" "lex s = Some (toks v)"
  shows "json_parse s = Ok (canon v)"
  using readsD [OF reads_toks [OF assms(1)], of PVal "[]" "PDone (canon v)" "[]" "[]"] assms(2)
  by (simp add: json_parse_def)

lemma json_parse_stringify: "json_ok v \<Longrightarrow> json_parse (json_str v) = Ok (canon v)"
  by (rule parse_toks) (simp_all add: emits_lex emits_json_str)

lemma json_parse_pretty: "json_ok v \<Longrightarrow> list_all json_ws ind \<Longrightarrow> json_parse (json_pretty ind v) = Ok (canon v)"
  by (rule parse_toks) (simp_all add: emits_lex emits_json_pretty)

text \<open>The parser only builds values that JSON can carry.\<close>

fun frame_ok :: "frame \<Rightarrow> bool" where
  "frame_ok (FArr vs) = list_all json_ok vs"
| "frame_ok (FKey ps) = json_ok (Obj ps)"
| "frame_ok (FVal ps k) = json_ok (Obj ps)"

fun mode_ok :: "pmode \<Rightarrow> bool" where
  "mode_ok (PDone v) = json_ok v"
| "mode_ok _ = True"

fun tok_ok :: "tok \<Rightarrow> bool" where
  "tok_ok (TNum x) = wf_num x"
| "tok_ok _ = True"

lemma json_ok_set_prop: "json_ok (Obj ps) \<Longrightarrow> json_ok v \<Longrightarrow> json_ok (Obj (set_prop k v ps))"
proof -
  have "list_all (\<lambda>(k, v). json_ok v) (set_prop k v ps)" if "list_all (\<lambda>(k, v). json_ok v) ps" "json_ok v"
    using that by (induction k v ps rule: set_prop.induct) auto
  then show "json_ok (Obj ps) \<Longrightarrow> json_ok v \<Longrightarrow> json_ok (Obj (set_prop k v ps))" by (simp add: set_prop_distinct)
qed

definition conf_ok :: "pmode \<times> frame list \<Rightarrow> bool" where
  "conf_ok c \<longleftrightarrow> mode_ok (fst c) \<and> list_all frame_ok (snd c)"

lemma put_ok: "json_ok v \<Longrightarrow> list_all frame_ok fs \<Longrightarrow> conf_ok (put v fs)"
  by (cases "(v, fs)" rule: put.cases) (auto simp: conf_ok_def json_ok_set_prop simp del: json_ok.simps(4))

lemma start_val_ok: "start_val t fs = Some c \<Longrightarrow> tok_ok t \<Longrightarrow> list_all frame_ok fs \<Longrightarrow> conf_ok c"
  by (cases t) (auto simp: put_ok conf_ok_def [of "(_, _)"])

lemma pstep_ok:
  assumes "pstep m fs t = Some c" "tok_ok t" "list_all frame_ok fs"
  shows "conf_ok c"
  using assms
  by (cases "(m, fs, t)" rule: pstep.cases)
    (auto intro: start_val_ok simp: put_ok conf_ok_def [of "(_, _)"] simp del: start_val.simps json_ok.simps(4))

lemma prun_ok:
  "prun m fs ts = Some v \<Longrightarrow> conf_ok (m, fs) \<Longrightarrow> list_all tok_ok ts \<Longrightarrow> json_ok v"
proof (induction m fs ts rule: prun.induct)
  case (3 m fs t ts)
  then obtain m' fs' where "pstep m fs t = Some (m', fs')" "prun m' fs' ts = Some v" by (auto split: option.splits)
  then show ?case using pstep_ok [of m fs t] "3.IH" "3.prems" by (auto simp: conf_ok_def [of "(m, fs)"])
qed (auto simp: conf_ok_def split: if_splits)

lemma lex_tok_ok: "lex s = Some ts \<Longrightarrow> list_all tok_ok ts"
proof (induction s arbitrary: ts rule: lex.induct)
  case (2 c s)
  have "tok_ok (the (lex_punct c))" if "lex_punct c \<noteq> None"
    using that by (auto simp: lex_punct_def split: if_splits)
  moreover have "tok_ok t" if "lex_word w = Some t" for w t using that by (auto simp: lex_word_def split: if_splits)
  ultimately show ?case using 2
    by (auto simp: Let_def simp del: lex_str.simps split: if_splits option.splits)
qed simp

lemma json_parse_ok: "json_parse s = Ok v \<Longrightarrow> json_ok v"
  using prun_ok [of PVal "[]" _ v] lex_tok_ok [of s] by (auto simp: json_parse_def conf_ok_def split: option.splits)

text \<open>Printing does not depend on the order of the properties.\<close>

lemma prop_entries_idem [simp]: "prop_entries (prop_entries ps) = prop_entries ps"
proof -
  let ?S = "sort_key (\<lambda>(k, _). digits_val k) (filter (\<lambda>(k, _). is_index_key k) ps)"
  have "filter (\<lambda>(k, _). is_index_key k) ?S = ?S" "filter (\<lambda>(k, _). \<not> is_index_key k) ?S = []"
    by (auto simp: filter_id_conv filter_empty_conv)
  moreover have "sort_key (\<lambda>(k, _). digits_val k) ?S = ?S" by (rule sort_key_id_if_sorted) simp
  moreover have "filter (\<lambda>(k, _). is_index_key k) (filter (\<lambda>(k, _). \<not> is_index_key k) ps) = []"
    by (auto simp: filter_empty_conv)
  ultimately show ?thesis by (simp add: prop_entries_def)
qed

lemma json_ok_canon: "json_ok v \<Longrightarrow> json_ok (canon v)"
proof (induction v rule: json_ok.induct)
  case (4 ps)
  have "map fst (map (\<lambda>(k, v). (k, canon v)) (prop_entries ps)) = map fst (prop_entries ps)" by auto
  then show ?case unfolding canon_Obj using 4 distinct_prop_entries [of ps]
    by (auto simp: list_all_iff set_prop_entries simp del: map_map)
qed (auto simp: list_all_iff)

lemma canon_entries: "prop_entries (map (\<lambda>(k, v). (k, canon v)) (prop_entries ps)) = map (\<lambda>(k, v). (k, canon v)) (prop_entries ps)"
  by (simp add: prop_entries_map [of "\<lambda>_ v. canon v"])

lemma canon_canon [simp]: "canon (canon v) = canon v"
proof (induction v rule: canon.induct)
  case (2 ps)
  have "canon (canon v) = canon v" if "(k, v) \<in> set (prop_entries ps)" for k v
    using 2 [of "(k, v)" k v] that by (simp add: set_prop_entries)
  then show ?case unfolding canon_Obj canon_entries by auto
qed auto

lemma json_str_canon: "json_ok v \<Longrightarrow> json_str (canon v) = json_str v"
proof (induction v rule: json_ok.induct)
  case (3 vs)
  have "map (\<lambda>v. json_str (canon v)) vs = map json_str vs" using 3 by (auto simp: list_all_iff)
  then show ?case by (simp add: comp_def del: map_eq_conv)
next
  case (4 ps)
  have ok: "list_all (\<lambda>(k, v). json_ok v) ps" using "4.prems" by simp
  have ok': "list_all (\<lambda>(k, v). json_ok v) (map (\<lambda>(k, v). (k, canon v)) (prop_entries ps))"
    using json_ok_canon [OF "4.prems"] unfolding canon_Obj by simp
  have "json_str (canon v) = json_str v" if "(k, v) \<in> set (prop_entries ps)" for k v
    using 4 set_prop_entries_ok [OF ok that] that by (auto simp: set_prop_entries)
  then show ?case unfolding canon_Obj json_str_Obj [OF ok] json_str_Obj [OF ok'] canon_entries
    by (auto intro!: arg_cong [where f = "join _"])
qed auto

lemma json_pretty_canon: "json_ok v \<Longrightarrow> json_pretty ind (canon v) = json_pretty ind v"
proof (induction ind v rule: json_pretty.induct)
  case (1 ind vs)
  have "map (\<lambda>v. ind @ ''  '' @ json_pretty (ind @ ''  '') (canon v)) vs = map (\<lambda>v. ind @ ''  '' @ json_pretty (ind @ ''  '') v) vs"
    using 1 by (cases "vs = []") (auto simp: list_all_iff)
  then show ?case by (simp add: comp_def del: map_eq_conv)
next
  case (2 ind ps)
  have ok: "list_all (\<lambda>(k, v). json_ok v) ps" using "2.prems" by simp
  have ok': "list_all (\<lambda>(k, v). json_ok v) (map (\<lambda>(k, v). (k, canon v)) (prop_entries ps))"
    using json_ok_canon [OF "2.prems"] unfolding canon_Obj by simp
  have eq: "json_pretty (ind @ ''  '') (canon v) = json_pretty (ind @ ''  '') v" if "(k, v) \<in> set (prop_entries ps)" for k v
    using set_prop_entries_ok [OF ok that] that by (intro "2.IH" [of "(k, v)" k v]) (simp_all add: set_prop_entries)
  show ?case
  proof (cases "prop_entries ps = []")
    case True
    then have "ps = []" using set_prop_entries [of ps] by simp
    then show ?thesis by (simp add: prop_entries_def)
  next
    case False
    then show ?thesis unfolding canon_Obj json_pretty_Obj [OF ok False] using eq
      by (subst json_pretty_Obj [OF ok'], unfold canon_entries) (auto intro!: arg_cong [where f = "join _"])
  qed
qed (auto simp del: json_str.simps, simp_all)

text \<open>Formatting a text twice is formatting it once.\<close>

lemma json_reformat:
  assumes "json_parse s = Ok v" "list_all json_ws ind"
  shows "json_parse (json_pretty ind v) = Ok (canon v) \<and> json_pretty ind' (canon v) = json_pretty ind' v"
  using json_parse_pretty json_pretty_canon json_parse_ok [OF assms(1)] assms(2) by blast

lemma get_canon: "json_ok (Obj ps) \<Longrightarrow> get (canon (Obj ps)) k = canon (get (Obj ps) k)"
  by (simp add: canon_Obj get_def map_of_map map_of_prop_entries split: option.split del: canon.simps(2))

end
