(* ===== verification/Param_Override.thy ===== *)
theory Param_Override
  imports Json_Laws Messages
begin

text \<open>
  Parameter overrides of a channel: the data and conversions of
  \<^verbatim>\<open>web/src/components/table/channels/modals/ParamOverrideEditorModal.jsx\<close>. An override is a JSON
  text, either a plain object (the old format) or a list of operations. The editor turns the text
  into operations with texts for all fields, checks them, and writes the JSON text back. New
  objects get an id of the clock and a running number; \<open>clock n\<close> is what \<^verbatim>\<open>Date.now()\<close> returns when
  the id with number \<open>n\<close> is made.
\<close>

section \<open>Modes\<close>

definition OPERATION_MODE_OPTIONS :: "(string \<times> string) list" where
  "OPERATION_MODE_OPTIONS =
     [(''set'', lbl_mode_set), (''delete'', lbl_mode_delete), (''append'', lbl_mode_append),
      (''prepend'', lbl_mode_prepend), (''copy'', lbl_mode_copy), (''move'', lbl_mode_move),
      (''replace'', lbl_mode_replace), (''regex_replace'', lbl_mode_regex_replace),
      (''trim_prefix'', lbl_mode_trim_prefix), (''trim_suffix'', lbl_mode_trim_suffix),
      (''ensure_prefix'', lbl_mode_ensure_prefix), (''ensure_suffix'', lbl_mode_ensure_suffix),
      (''trim_space'', lbl_mode_trim_space), (''to_lower'', lbl_mode_to_lower),
      (''to_upper'', lbl_mode_to_upper), (''return_error'', lbl_mode_return_error),
      (''prune_objects'', lbl_mode_prune_objects), (''pass_headers'', lbl_mode_pass_headers),
      (''sync_fields'', lbl_mode_sync_fields), (''set_header'', lbl_mode_set_header),
      (''delete_header'', lbl_mode_delete_header), (''copy_header'', lbl_mode_copy_header),
      (''move_header'', lbl_mode_move_header)]"

definition OPERATION_MODE_VALUES :: "string list" where
  "OPERATION_MODE_VALUES = map fst OPERATION_MODE_OPTIONS"

definition CONDITION_MODE_VALUES :: "string list" where
  "CONDITION_MODE_VALUES =
     [''full'', ''prefix'', ''suffix'', ''contains'', ''gt'', ''gte'', ''lt'', ''lte'']"

text \<open>The fields an operation of a mode has.\<close>

definition MODE_META :: "(string \<times> string list) list" where
  "MODE_META =
     [(''delete'', [''path'']),
      (''set'', [''path'', ''value'', ''keepOrigin'']),
      (''append'', [''path'', ''value'', ''keepOrigin'']),
      (''prepend'', [''path'', ''value'', ''keepOrigin'']),
      (''copy'', [''from'', ''to'']),
      (''move'', [''from'', ''to'']),
      (''replace'', [''path'', ''from'']),
      (''regex_replace'', [''path'', ''from'']),
      (''trim_prefix'', [''path'', ''value'']),
      (''trim_suffix'', [''path'', ''value'']),
      (''ensure_prefix'', [''path'', ''value'']),
      (''ensure_suffix'', [''path'', ''value'']),
      (''trim_space'', [''path'']),
      (''to_lower'', [''path'']),
      (''to_upper'', [''path'']),
      (''return_error'', [''value'']),
      (''prune_objects'', [''pathOptional'', ''value'']),
      (''pass_headers'', [''value'', ''keepOrigin'']),
      (''sync_fields'', [''from'', ''to'']),
      (''set_header'', [''path'', ''value'', ''keepOrigin'']),
      (''delete_header'', [''path'']),
      (''copy_header'', [''from'', ''to'', ''keepOrigin'', ''pathAlias'']),
      (''move_header'', [''from'', ''to'', ''keepOrigin'', ''pathAlias''])]"

text \<open>\<^verbatim>\<open>(MODE_META[mode] || MODE_META.set)[field]\<close>\<close>

definition meta :: "string \<Rightarrow> string \<Rightarrow> bool" where
  "meta mode field \<longleftrightarrow>
     field \<in> set (case map_of MODE_META mode of Some fs \<Rightarrow> fs | None \<Rightarrow> [''path'', ''value'', ''keepOrigin''])"

definition VALUE_REQUIRED_MODES :: "string list" where
  "VALUE_REQUIRED_MODES =
     [''trim_prefix'', ''trim_suffix'', ''ensure_prefix'', ''ensure_suffix'', ''set_header'',
      ''return_error'', ''prune_objects'', ''pass_headers'']"

definition FROM_REQUIRED_MODES :: "string list" where
  "FROM_REQUIRED_MODES =
     [''copy'', ''move'', ''replace'', ''regex_replace'', ''copy_header'', ''move_header'', ''sync_fields'']"

definition TO_REQUIRED_MODES :: "string list" where
  "TO_REQUIRED_MODES = [''copy'', ''move'', ''copy_header'', ''move_header'', ''sync_fields'']"

section \<open>Identifiers\<close>

definition nextLocalId :: "(nat \<Rightarrow> nat) \<Rightarrow> nat \<Rightarrow> string" where
  "nextLocalId clock seed = ''param_override_'' @ nat_str (clock seed) @ ''_'' @ nat_str seed"

text \<open>\<^verbatim>\<open>xs.map(f)\<close> where \<open>f\<close> draws ids and may throw.\<close>

primrec map_fresh :: "(nat \<Rightarrow> 'a \<Rightarrow> ('b \<times> nat) res) \<Rightarrow> nat \<Rightarrow> 'a list \<Rightarrow> ('b list \<times> nat) res" where
  "map_fresh f n [] = Ok ([], n)"
| "map_fresh f n (x # xs) =
     bind_res (f n x) (\<lambda>(y, n1). bind_res (map_fresh f n1 xs) (\<lambda>(ys, n2). Ok (y # ys, n2)))"

section \<open>Values and texts\<close>

definition toValueText :: "jsval \<Rightarrow> string" where
  "toValueText v = (case v of Undef \<Rightarrow> [] | Str s \<Rightarrow> s | _ \<Rightarrow> json_str v)"

definition parseLooseValue :: "string \<Rightarrow> jsval" where
  "parseLooseValue raw =
     (if trim raw = [] then Str []
      else case json_parse raw of Ok v \<Rightarrow> v | Throw _ \<Rightarrow> Str raw)"

text \<open>\<^verbatim>\<open>String(v ?? '').trim()\<close>, \<^verbatim>\<open>String(v || '').trim()\<close>\<close>

definition trimmed :: "jsval \<Rightarrow> string" where
  "trimmed v = trim (to_str (coalesce v (Str [])))"

definition trimmed_or :: "jsval \<Rightarrow> string" where
  "trimmed_or v = trim (to_str (js_or v (Str [])))"

definition non_blank :: "string list \<Rightarrow> string list" where
  "non_blank xs = filter (\<lambda>s. s \<noteq> []) xs"

definition parsePassHeaderNames :: "jsval \<Rightarrow> string list" where
  "parsePassHeaderNames rawValue =
     (case rawValue of
        Arr vs \<Rightarrow> non_blank (map trimmed vs)
      | Obj _ \<Rightarrow>
          (case get rawValue ''headers'' of
             Arr vs \<Rightarrow> non_blank (map trimmed vs)
           | _ \<Rightarrow> if get rawValue ''header'' \<noteq> Undef
                  then (let single = trimmed (get rawValue ''header'') in if single \<noteq> [] then [single] else [])
                  else [])
      | Str s \<Rightarrow> non_blank (map trim (split_on (CHR '','') s))
      | _ \<Rightarrow> [])"

text \<open>\<^verbatim>\<open>v && typeof v === 'object' && !Array.isArray(v)\<close>\<close>

definition is_plain :: "jsval \<Rightarrow> bool" where
  "is_plain v = (case v of Obj _ \<Rightarrow> True | _ \<Rightarrow> False)"

section \<open>Error drafts\<close>

record error_draft =
  rd_message :: string
  rd_statusCode :: jsnum
  rd_code :: string
  rd_type :: string
  rd_skipRetry :: bool
  rd_simpleMode :: bool

definition error_defaults :: error_draft where
  "error_defaults =
     \<lparr>rd_message = [], rd_statusCode = Fin 400, rd_code = [], rd_type = [],
      rd_skipRetry = True, rd_simpleMode = True\<rparr>"

definition status_or_400 :: "jsnum \<Rightarrow> jsnum" where
  "status_or_400 x = (if is_integer_num x \<and> js_le (Fin 100) x \<and> js_le x (Fin 599) then x else Fin 400)"

definition parseReturnErrorDraft :: "string \<Rightarrow> error_draft" where
  "parseReturnErrorDraft valueText =
     (let raw = trim valueText in
      if raw = [] then error_defaults
      else
        (case json_parse raw of
           Ok (Obj ps) \<Rightarrow>
             (let parsed = Obj ps;
                  statusRaw = (if get parsed ''status_code'' \<noteq> Undef then get parsed ''status_code'' else get parsed ''status'')
              in error_defaults
                   \<lparr>rd_message := trimmed_or (js_or (get parsed ''message'') (get parsed ''msg'')),
                    rd_statusCode := status_or_400 (to_num statusRaw),
                    rd_code := trimmed_or (get parsed ''code''),
                    rd_type := trimmed_or (get parsed ''type''),
                    rd_skipRetry := (get parsed ''skip_retry'' \<noteq> Bool False),
                    rd_simpleMode := False\<rparr>)
         | _ \<Rightarrow> error_defaults\<lparr>rd_message := raw, rd_simpleMode := True\<rparr>))"

text \<open>An assignment \<^verbatim>\<open>payload.k = v\<close> under a condition.\<close>

definition set_if :: "bool \<Rightarrow> string \<Rightarrow> jsval \<Rightarrow> (string \<times> jsval) list \<Rightarrow> (string \<times> jsval) list" where
  "set_if c k v ps = (if c then set_prop k v ps else ps)"

definition buildReturnErrorValueText :: "error_draft \<Rightarrow> string" where
  "buildReturnErrorValueText draft =
     (let message = trim (rd_message draft) in
      if rd_simpleMode draft then message
      else
        (let code = trim (rd_code draft); ty = trim (rd_type draft);
             payload = [(''message'', Str message), (''status_code'', Num (status_or_400 (rd_statusCode draft)))]
         in json_str (Obj (set_if (\<not> rd_skipRetry draft) ''skip_retry'' (Bool False)
              (set_if (ty \<noteq> []) ''type'' (Str ty) (set_if (code \<noteq> []) ''code'' (Str code) payload))))))"

section \<open>Conditions and prune rules\<close>

record condition =
  cond_id :: string
  cond_path :: string
  cond_mode :: string
  cond_value_text :: string
  cond_invert :: bool
  cond_pass_missing :: bool

definition str_field :: "jsval \<Rightarrow> string \<Rightarrow> string" where
  "str_field v k = (case get v k of Str s \<Rightarrow> s | _ \<Rightarrow> [])"

text \<open>\<^verbatim>\<open>VALUES.has(v[k]) ? v[k] : dflt\<close>\<close>

definition mode_field :: "string list \<Rightarrow> jsval \<Rightarrow> string \<Rightarrow> string \<Rightarrow> string" where
  "mode_field vals v k dflt = (case get v k of Str s \<Rightarrow> if s \<in> set vals then s else dflt | _ \<Rightarrow> dflt)"

definition normalizeCondition :: "(nat \<Rightarrow> nat) \<Rightarrow> nat \<Rightarrow> jsval \<Rightarrow> (condition \<times> nat) res" where
  "normalizeCondition clock n v =
     (if v = Null then Throw Type_Error
      else Ok (\<lparr>cond_id = nextLocalId clock n, cond_path = str_field v ''path'',
                cond_mode = mode_field CONDITION_MODE_VALUES v ''mode'' ''full'',
                cond_value_text = toValueText (get v ''value''),
                cond_invert = (get v ''invert'' = Bool True),
                cond_pass_missing = (get v ''pass_missing_key'' = Bool True)\<rparr>, Suc n))"

definition normalizePruneRule :: "(nat \<Rightarrow> nat) \<Rightarrow> nat \<Rightarrow> jsval \<Rightarrow> (condition \<times> nat) res" where
  "normalizePruneRule clock n v =
     (if v = Null then Throw Type_Error
      else Ok (\<lparr>cond_id = nextLocalId clock n, cond_path = str_field v ''path'',
                cond_mode = mode_field CONDITION_MODE_VALUES v ''mode'' ''full'',
                cond_value_text = toValueText (get v ''value''),
                cond_invert = (get v ''invert'' = Bool True),
                cond_pass_missing = (get v ''pass_missing_key'' = Bool True)\<rparr>, Suc n))"

definition createDefaultCondition :: "(nat \<Rightarrow> nat) \<Rightarrow> nat \<Rightarrow> condition \<times> nat" where
  "createDefaultCondition clock n =
     (\<lparr>cond_id = nextLocalId clock n, cond_path = [], cond_mode = ''full'', cond_value_text = [],
       cond_invert = False, cond_pass_missing = False\<rparr>, Suc n)"

record prune_draft =
  pd_simpleMode :: bool
  pd_typeText :: string
  pd_logic :: string
  pd_recursive :: bool
  pd_rules :: "condition list"

definition prune_defaults :: prune_draft where
  "prune_defaults =
     \<lparr>pd_simpleMode = True, pd_typeText = [], pd_logic = ''AND'', pd_recursive = True, pd_rules = []\<rparr>"

definition full_rule :: "string \<times> jsval \<Rightarrow> jsval" where
  "full_rule e = Obj [(''path'', Str (fst e)), (''mode'', Str ''full''), (''value'', snd e)]"

text \<open>The values that become rules of a draft: the entries of \<^verbatim>\<open>where\<close>, then the conditions.\<close>

definition prune_sources :: "jsval \<Rightarrow> jsval list" where
  "prune_sources parsed =
     (if is_plain (get parsed ''where'') then map full_rule (obj_entries (get parsed ''where'')) else []) @
     (case get parsed ''conditions'' of
        Arr vs \<Rightarrow> filter (\<lambda>v. truthy v \<and> typeof_object v) vs
      | Obj ps \<Rightarrow> map full_rule (obj_entries (Obj ps))
      | _ \<Rightarrow> [])"

definition logic_field :: "jsval \<Rightarrow> string \<Rightarrow> string" where
  "logic_field v dflt = to_upper (to_str (js_or v (Str dflt)))"

definition parsePruneObjectsDraft :: "(nat \<Rightarrow> nat) \<Rightarrow> nat \<Rightarrow> string \<Rightarrow> prune_draft \<times> nat" where
  "parsePruneObjectsDraft clock n valueText =
     (let raw = trim valueText in
      if raw = [] then (prune_defaults, n)
      else
        (case json_parse raw of
           Throw _ \<Rightarrow> (prune_defaults\<lparr>pd_typeText := raw\<rparr>, n)
         | Ok (Str s) \<Rightarrow> (prune_defaults\<lparr>pd_typeText := trim s\<rparr>, n)
         | Ok (Obj ps) \<Rightarrow>
             (let parsed = Obj ps in
              case map_fresh (normalizePruneRule clock) n (prune_sources parsed) of
                Throw _ \<Rightarrow> (prune_defaults\<lparr>pd_typeText := raw\<rparr>, n)
              | Ok (rules, n') \<Rightarrow>
                  (prune_defaults
                     \<lparr>pd_simpleMode := (get parsed ''logic'' = Undef \<and> get parsed ''recursive'' = Undef \<and>
                        get parsed ''where'' = Undef \<and> get parsed ''conditions'' = Undef),
                      pd_typeText := (if get parsed ''type'' = Undef then [] else trim (to_str (get parsed ''type''))),
                      pd_logic := (if logic_field (get parsed ''logic'') ''AND'' = ''OR'' then ''OR'' else ''AND''),
                      pd_recursive := (get parsed ''recursive'' \<noteq> Bool False),
                      pd_rules := rules\<rparr>, n'))
         | Ok v \<Rightarrow> (prune_defaults\<lparr>pd_typeText := trimmed v\<rparr>, n)))"

definition prune_condition :: "condition \<Rightarrow> jsval" where
  "prune_condition rule =
     (let valueRaw = trim (cond_value_text rule)
      in Obj (set_if (cond_pass_missing rule) ''pass_missing_key'' (Bool True)
           (set_if (cond_invert rule) ''invert'' (Bool True)
             (set_if (valueRaw \<noteq> []) ''value'' (parseLooseValue valueRaw)
               [(''path'', Str (trim (cond_path rule))),
                (''mode'', Str (if cond_mode rule \<in> set CONDITION_MODE_VALUES then cond_mode rule else ''full''))]))))"

definition buildPruneObjectsValueText :: "prune_draft \<Rightarrow> string" where
  "buildPruneObjectsValueText draft =
     (let typeText = trim (pd_typeText draft) in
      if pd_simpleMode draft then typeText
      else
        (let conditions = map prune_condition (filter (\<lambda>r. trim (cond_path r) \<noteq> []) (pd_rules draft));
             payload = set_if (conditions \<noteq> []) ''conditions'' (Arr conditions)
               (set_if (\<not> pd_recursive draft) ''recursive'' (Bool False)
                 (set_if (logic_field (Str (pd_logic draft)) ''AND'' = ''OR'') ''logic'' (Str ''OR'')
                   (set_if (typeText \<noteq> []) ''type'' (Str typeText) [])))
         in if typeText = [] \<and> conditions = [] then json_str (Obj [(''logic'', Str ''AND'')])
            else json_str (Obj payload)))"

section \<open>Sync targets\<close>

definition parseSyncTargetSpec :: "string \<Rightarrow> string \<times> string" where
  "parseSyncTargetSpec spec =
     (let raw = trim spec in
      if raw = [] then (''json'', [])
      else if CHR '':'' \<notin> set raw then (''json'', raw)
      else
        (let pre = to_lower (trim (takeWhile (\<lambda>c. c \<noteq> CHR '':'') raw));
             key = trim (tl (dropWhile (\<lambda>c. c \<noteq> CHR '':'') raw))
         in if pre = ''header'' then (''header'', key) else (''json'', key)))"

definition buildSyncTargetSpec :: "string \<Rightarrow> string \<Rightarrow> string" where
  "buildSyncTargetSpec ty key =
     (let normalizedType = (if ty = ''header'' then ''header'' else ''json''); normalizedKey = trim key
      in if normalizedKey = [] then [] else normalizedType @ '':'' @ normalizedKey)"

section \<open>Operations\<close>

record operation =
  op_id :: string
  op_description :: string
  op_path :: string
  op_mode :: string
  op_value_text :: string
  op_keep_origin :: bool
  op_from :: string
  op_to :: string
  op_logic :: string
  op_conditions :: "condition list"

definition normalizeOperation :: "(nat \<Rightarrow> nat) \<Rightarrow> nat \<Rightarrow> jsval \<Rightarrow> (operation \<times> nat) res" where
  "normalizeOperation clock n v =
     (if v = Null then Throw Type_Error
      else
        bind_res
          (case get v ''conditions'' of
             Arr cs \<Rightarrow> map_fresh (normalizeCondition clock) (Suc n) cs
           | _ \<Rightarrow> Ok ([], Suc n))
          (\<lambda>(conds, n').
             Ok (\<lparr>op_id = nextLocalId clock n,
                  op_description = str_field v ''description'',
                  op_path = str_field v ''path'',
                  op_mode = mode_field OPERATION_MODE_VALUES v ''mode'' ''set'',
                  op_value_text = toValueText (get v ''value''),
                  op_keep_origin = (get v ''keep_origin'' = Bool True),
                  op_from = str_field v ''from'',
                  op_to = str_field v ''to'',
                  op_logic = (if logic_field (get v ''logic'') ''OR'' = ''AND'' then ''AND'' else ''OR''),
                  op_conditions = conds\<rparr>, n')))"

definition createDefaultOperation :: "(nat \<Rightarrow> nat) \<Rightarrow> nat \<Rightarrow> operation \<times> nat" where
  "createDefaultOperation clock n =
     (\<lparr>op_id = nextLocalId clock n, op_description = [], op_path = [], op_mode = ''set'', op_value_text = [],
       op_keep_origin = False, op_from = [], op_to = [], op_logic = ''OR'', op_conditions = []\<rparr>, Suc n)"

definition find_index :: "('a \<Rightarrow> bool) \<Rightarrow> 'a list \<Rightarrow> nat option" where
  "find_index P xs = (if \<exists>x \<in> set xs. P x then Some (length (takeWhile (\<lambda>x. \<not> P x) xs)) else None)"

definition insert_at :: "nat \<Rightarrow> 'a \<Rightarrow> 'a list \<Rightarrow> 'a list" where
  "insert_at i x xs = take i xs @ x # drop i xs"

definition reorderOperations :: "operation list \<Rightarrow> string \<Rightarrow> string \<Rightarrow> string \<Rightarrow> operation list" where
  "reorderOperations ops sourceId targetId position =
     (if sourceId = [] \<or> targetId = [] \<or> sourceId = targetId then ops
      else
        (case find_index (\<lambda>x. op_id x = sourceId) ops of
           None \<Rightarrow> ops
         | Some i \<Rightarrow>
             (let rest = remove_at i ops in
              case find_index (\<lambda>x. op_id x = targetId) rest of
                None \<Rightarrow> ops
              | Some j \<Rightarrow> insert_at (if position = ''after'' then j + 1 else j) (ops ! i) rest)))"

definition first_non_blank :: "string list \<Rightarrow> string" where
  "first_non_blank xs = (case filter (\<lambda>s. s \<noteq> []) xs of [] \<Rightarrow> ''-'' | s # _ \<Rightarrow> s)"

definition getOperationSummary :: "operation \<Rightarrow> nat \<Rightarrow> string" where
  "getOperationSummary x index =
     (let mode = (if op_mode x = [] then ''set'' else op_mode x);
          modeLabel = (case map_of OPERATION_MODE_OPTIONS mode of Some l \<Rightarrow> l | None \<Rightarrow> mode)
      in nat_str (index + 1) @ ''. '' @ modeLabel @ lbl_middot @
         (if mode = ''sync_fields'' then first_non_blank [trim (op_from x), trim (op_to x)]
          else first_non_blank [trim (op_path x), trim (op_from x), trim (op_to x)]))"

definition has_sub :: "string \<Rightarrow> string \<Rightarrow> bool" where
  "has_sub t s \<longleftrightarrow> (\<exists>u \<in> set (suffixes s). \<exists>p \<in> set (prefixes u). p = t)"

definition getOperationModeTagColor :: "string \<Rightarrow> string" where
  "getOperationModeTagColor mode =
     (if has_sub ''header'' mode then ''cyan''
      else if has_sub ''replace'' mode \<or> has_sub ''trim'' mode then ''violet''
      else if has_sub ''copy'' mode \<or> has_sub ''move'' mode then ''blue''
      else if has_sub ''error'' mode \<or> has_sub ''prune'' mode then ''red''
      else if has_sub ''sync'' mode then ''green'' else ''grey'')"

section \<open>Reading an override\<close>

definition verifyJSON :: "string \<Rightarrow> bool" where
  "verifyJSON s = (case json_parse s of Ok _ \<Rightarrow> True | Throw _ \<Rightarrow> False)"

definition operations_of :: "jsval \<Rightarrow> jsval list option" where
  "operations_of v = (case v of Obj _ \<Rightarrow> (case get v ''operations'' of Arr os \<Rightarrow> Some os | _ \<Rightarrow> None) | _ \<Rightarrow> None)"

text \<open>\<^verbatim>\<open>os.length > 0 ? os.map(normalizeOperation) : [createDefaultOperation()]\<close>\<close>

definition load_operations :: "(nat \<Rightarrow> nat) \<Rightarrow> nat \<Rightarrow> jsval list \<Rightarrow> (operation list \<times> nat) res" where
  "load_operations clock n os =
     (if os \<noteq> [] then map_fresh (normalizeOperation clock) n os
      else (case createDefaultOperation clock n of (x, n') \<Rightarrow> Ok ([x], n')))"

record initial_state =
  in_editMode :: string
  in_visualMode :: string
  in_legacyValue :: string
  in_operations :: "operation list"
  in_jsonText :: string
  in_jsonError :: string

definition pretty :: "jsval \<Rightarrow> string" where
  "pretty v = json_pretty [] v"

definition parseInitialState :: "(nat \<Rightarrow> nat) \<Rightarrow> nat \<Rightarrow> jsval \<Rightarrow> (initial_state \<times> nat) res" where
  "parseInitialState clock n rawValue =
     (let text = (case rawValue of Str s \<Rightarrow> s | _ \<Rightarrow> []); trimmed = trim text;
          (dflt, n1) = createDefaultOperation clock n;
          base = \<lparr>in_editMode = ''visual'', in_visualMode = ''operations'', in_legacyValue = [],
                  in_operations = [dflt], in_jsonText = [], in_jsonError = []\<rparr>
      in if trimmed = [] then Ok (base, n1)
         else
           (case json_parse trimmed of
              Throw _ \<Rightarrow>
                Ok (base\<lparr>in_editMode := ''json'', in_jsonText := text, in_jsonError := msg_po_json_invalid\<rparr>, n1)
            | Ok parsed \<Rightarrow>
                (case operations_of parsed of
                   Some os \<Rightarrow>
                     bind_res (load_operations clock n os) (\<lambda>(ops, n').
                       Ok (base\<lparr>in_operations := ops, in_jsonText := pretty parsed\<rparr>, n'))
                 | None \<Rightarrow>
                     if is_plain parsed
                     then Ok (base\<lparr>in_visualMode := ''legacy'', in_legacyValue := pretty parsed,
                                   in_jsonText := pretty parsed\<rparr>, n1)
                     else Ok (base\<lparr>in_editMode := ''json'', in_jsonText := pretty parsed\<rparr>, n1))))"

section \<open>Checking and writing\<close>

definition isOperationBlank :: "operation \<Rightarrow> bool" where
  "isOperationBlank x \<longleftrightarrow>
     op_mode x = ''set'' \<and> trim (op_path x) = [] \<and> trim (op_from x) = [] \<and> trim (op_to x) = [] \<and>
     trim (op_value_text x) = [] \<and> \<not> op_keep_origin x \<and>
     \<not> (\<exists>c \<in> set (op_conditions x). trim (cond_path c) \<noteq> [] \<or> trim (cond_value_text c) \<noteq> [] \<or>
          cond_mode c \<noteq> ''full'' \<or> cond_invert c \<or> cond_pass_missing c)"

definition buildConditionPayload :: "condition \<Rightarrow> jsval option" where
  "buildConditionPayload c =
     (let path = trim (cond_path c) in
      if path = [] then None
      else Some (Obj (set_if (cond_pass_missing c) ''pass_missing_key'' (Bool True)
             (set_if (cond_invert c) ''invert'' (Bool True)
               [(''path'', Str path),
                (''mode'', Str (if cond_mode c = [] then ''full'' else cond_mode c)),
                (''value'', parseLooseValue (cond_value_text c))]))))"

definition non_empty_object :: "jsval \<Rightarrow> bool" where
  "non_empty_object v \<longleftrightarrow> is_plain v \<and> obj_keys v \<noteq> []"

definition prune_has_condition :: "jsval \<Rightarrow> bool" where
  "prune_has_condition parsed \<longleftrightarrow>
     (get parsed ''type'' \<noteq> Undef \<and> trim (to_str (get parsed ''type'')) \<noteq> []) \<or>
     non_empty_object (get parsed ''where'') \<or>
     arr_elems (get parsed ''conditions'') \<noteq> [] \<or>
     non_empty_object (get parsed ''conditions'')"

text \<open>The check of one operation: the message key of the first failed test.\<close>

definition validate_operation :: "operation \<Rightarrow> string option" where
  "validate_operation x =
     (let mode = (if op_mode x = [] then ''set'' else op_mode x);
          pathValue = trim (op_path x); fromValue = trim (op_from x); toValue = trim (op_to x);
          raw = trim (op_value_text x)
      in if meta mode ''path'' \<and> pathValue = [] then Some msg_po_no_path
         else if mode \<in> set FROM_REQUIRED_MODES \<and> fromValue = [] \<and> \<not> (meta mode ''pathAlias'' \<and> pathValue \<noteq> [])
         then Some msg_po_no_from
         else if mode \<in> set TO_REQUIRED_MODES \<and> toValue = [] \<and> \<not> (meta mode ''pathAlias'' \<and> pathValue \<noteq> [])
         then Some msg_po_no_to
         else if meta mode ''from'' \<and> fromValue = [] then Some msg_po_no_from
         else if meta mode ''to'' \<and> toValue = [] then Some msg_po_no_to
         else if mode \<in> set VALUE_REQUIRED_MODES \<and> raw = [] then Some msg_po_no_value
         else if mode = ''return_error'' then
           (if raw = [] then Some msg_po_no_value
            else case json_parse raw of
                Ok (Obj ps) \<Rightarrow> (if trimmed_or (get (Obj ps) ''message'') = [] then Some msg_po_error_message else None)
              | _ \<Rightarrow> None)
         else if mode = ''prune_objects'' then
           (if raw = [] then Some msg_po_prune_missing
            else case json_parse raw of
                Ok (Obj ps) \<Rightarrow> (if \<not> prune_has_condition (Obj ps) then Some msg_po_prune_condition else None)
              | _ \<Rightarrow> None)
         else if mode = ''pass_headers'' then
           (if raw = [] then Some msg_po_headers_missing
            else if parsePassHeaderNames (parseLooseValue raw) = [] then Some msg_po_headers_invalid else None)
         else None)"

primrec validate_from :: "nat \<Rightarrow> operation list \<Rightarrow> translate \<Rightarrow> string" where
  "validate_from line [] t = []"
| "validate_from line (x # os) t =
     (case validate_operation x of
        Some m \<Rightarrow> t m [(''line'', nat_str line)]
      | None \<Rightarrow> validate_from (line + 1) os t)"

definition validateOperations :: "operation list \<Rightarrow> translate \<Rightarrow> string" where
  "validateOperations os t = validate_from 1 os t"

definition operation_payload :: "operation \<Rightarrow> jsval" where
  "operation_payload x =
     (let mode = (if op_mode x = [] then ''set'' else op_mode x);
          descriptionValue = trim (op_description x); pathValue = trim (op_path x);
          fromValue = trim (op_from x); toValue = trim (op_to x);
          p1 = set_if (descriptionValue \<noteq> []) ''description'' (Str descriptionValue) [(''mode'', Str mode)];
          p2 = set_if (meta mode ''path'') ''path'' (Str pathValue) p1;
          p3 = set_if (meta mode ''pathOptional'' \<and> pathValue \<noteq> []) ''path'' (Str pathValue) p2;
          p4 = set_if (meta mode ''value'') ''value'' (parseLooseValue (op_value_text x)) p3;
          p5 = set_if (meta mode ''keepOrigin'' \<and> op_keep_origin x) ''keep_origin'' (Bool True) p4;
          p6 = set_if (meta mode ''from'') ''from'' (Str fromValue) p5;
          p7 = set_if (\<not> meta mode ''to'' \<and> toValue \<noteq> []) ''to'' (Str toValue) p6;
          p8 = set_if (meta mode ''to'') ''to'' (Str toValue) p7;
          p9 = set_if (meta mode ''pathAlias'' \<and> \<not> truthy (get (Obj p8) ''from'') \<and> pathValue \<noteq> []) ''from'' (Str pathValue) p8;
          p10 = set_if (meta mode ''pathAlias'' \<and> \<not> truthy (get (Obj p9) ''to'') \<and> pathValue \<noteq> []) ''to'' (Str pathValue) p9;
          conditions = List.map_filter buildConditionPayload (op_conditions x)
      in Obj (set_if (conditions \<noteq> []) ''logic'' (Str (if op_logic x = ''AND'' then ''AND'' else ''OR''))
           (set_if (conditions \<noteq> []) ''conditions'' (Arr conditions) p10)))"

definition buildOperationsJson :: "translate \<Rightarrow> operation list \<Rightarrow> bool \<Rightarrow> string res" where
  "buildOperationsJson t sourceOperations validate =
     (let filteredOps = filter (\<lambda>x. \<not> isOperationBlank x) sourceOperations in
      if filteredOps = [] then Ok []
      else
        (let message = validateOperations filteredOps t in
         if validate \<and> message \<noteq> [] then Throw (Error_Msg message)
         else Ok (pretty (Obj [(''operations'', Arr (map operation_payload filteredOps))]))))"

definition buildVisualJson :: "translate \<Rightarrow> string \<Rightarrow> string \<Rightarrow> operation list \<Rightarrow> string res" where
  "buildVisualJson t visualMode legacyValue ops =
     (if visualMode = ''legacy'' then
        (let trimmed = trim legacyValue in
         if trimmed = [] then Ok []
         else
           (case json_parse trimmed of
              Throw _ \<Rightarrow> Throw (Error_Msg (t msg_po_json_required []))
            | Ok parsed \<Rightarrow>
                if \<not> is_plain parsed then Throw (Error_Msg (t msg_po_legacy_object []))
                else Ok (pretty parsed)))
      else buildOperationsJson t ops True)"

end
