(* ===== verification/Param_Editor.thy ===== *)
theory Param_Editor
  imports Param_Override
begin

text \<open>
  The editor of parameter overrides: the state and the handlers of the component
  \<^verbatim>\<open>ParamOverrideEditorModal\<close>, the templates it offers and those of
  \<^verbatim>\<open>constants/channel-affinity-template.constants.js\<close>. A handler takes the state and gives the next
  one; an exception that leaves a handler is a \<open>Throw\<close>, and then no state was set.
\<close>

section \<open>Templates\<close>

definition LEGACY_TEMPLATE :: jsval where
  "LEGACY_TEMPLATE = Obj [(''temperature'', Num (Fin 0)), (''max_tokens'', Num (Fin 1000))]"

definition cond_val :: "string \<Rightarrow> string \<Rightarrow> string \<Rightarrow> jsval" where
  "cond_val path mode v = Obj [(''path'', Str path), (''mode'', Str mode), (''value'', Str v)]"

definition OPERATION_TEMPLATE :: jsval where
  "OPERATION_TEMPLATE = Obj [(''operations'', Arr [Obj
     [(''description'', Str ''Set default temperature for openai/* models.''),
      (''path'', Str ''temperature''), (''mode'', Str ''set''), (''value'', Num (rnd (7 / 10))),
      (''conditions'', Arr [cond_val ''model'' ''prefix'' ''openai/'']),
      (''logic'', Str ''AND'')]])]"

definition HEADER_PASSTHROUGH_TEMPLATE :: jsval where
  "HEADER_PASSTHROUGH_TEMPLATE = Obj [(''operations'', Arr [Obj
     [(''description'', Str ''Pass through X-Request-Id header to upstream.''),
      (''mode'', Str ''pass_headers''), (''value'', Arr [Str ''X-Request-Id'']),
      (''keep_origin'', Bool True)]])]"

definition GEMINI_IMAGE_4K_TEMPLATE :: jsval where
  "GEMINI_IMAGE_4K_TEMPLATE = Obj [(''operations'', Arr [Obj
     [(''description'', Str ''Set imageSize to 4K when model contains gemini/image and ends with 4k.''),
      (''mode'', Str ''set''), (''path'', Str ''generationConfig.imageConfig.imageSize''),
      (''value'', Str ''4K''),
      (''conditions'', Arr [cond_val ''original_model'' ''contains'' ''gemini'',
         cond_val ''original_model'' ''contains'' ''image'', cond_val ''original_model'' ''suffix'' ''4k'']),
      (''logic'', Str ''AND'')]])]"

definition AWS_BEDROCK_ANTHROPIC_COMPAT_TEMPLATE :: jsval where
  "AWS_BEDROCK_ANTHROPIC_COMPAT_TEMPLATE = Obj [(''operations'', Arr [
     Obj [(''description'', Str ''Normalize anthropic-beta header tokens for Bedrock compatibility.''),
       (''mode'', Str ''set_header''), (''path'', Str ''anthropic-beta''),
       (''value'', Obj
         [(''advanced-tool-use-2025-11-20'', Str ''tool-search-tool-2025-10-19''),
          (''bash_20241022'', Null), (''bash_20250124'', Null), (''code-execution-2025-08-25'', Null),
          (''compact-2026-01-12'', Str ''compact-2026-01-12''),
          (''computer-use-2025-01-24'', Str ''computer-use-2025-01-24''),
          (''computer-use-2025-11-24'', Str ''computer-use-2025-11-24''),
          (''context-1m-2025-08-07'', Str ''context-1m-2025-08-07''),
          (''context-management-2025-06-27'', Str ''context-management-2025-06-27''),
          (''effort-2025-11-24'', Null), (''fast-mode-2026-02-01'', Null), (''files-api-2025-04-14'', Null),
          (''fine-grained-tool-streaming-2025-05-14'', Null),
          (''interleaved-thinking-2025-05-14'', Str ''interleaved-thinking-2025-05-14''),
          (''mcp-client-2025-11-20'', Null), (''mcp-client-2025-04-04'', Null),
          (''mcp-servers-2025-12-04'', Null), (''output-128k-2025-02-19'', Null),
          (''structured-output-2024-03-01'', Null), (''prompt-caching-scope-2026-01-05'', Null),
          (''skills-2025-10-02'', Null), (''structured-outputs-2025-11-13'', Null),
          (''text_editor_20241022'', Null), (''text_editor_20250124'', Null),
          (''token-efficient-tools-2025-02-19'', Null),
          (''tool-search-tool-2025-10-19'', Str ''tool-search-tool-2025-10-19''),
          (''web-fetch-2025-09-10'', Null), (''web-search-2025-03-05'', Null), (''oauth-2025-04-20'', Null)])],
     Obj [(''description'', Str ''Remove all tools[*].custom.input_examples before upstream relay.''),
       (''mode'', Str ''delete''), (''path'', Str ''tools.*.custom.input_examples'')]])]"

definition buildPassHeadersTemplate :: "string list \<Rightarrow> jsval" where
  "buildPassHeadersTemplate headers = Obj [(''operations'', Arr [Obj
     [(''mode'', Str ''pass_headers''), (''value'', Arr (map Str headers)), (''keep_origin'', Bool True)]])]"

definition CODEX_CLI_HEADER_PASSTHROUGH_HEADERS :: "string list" where
  "CODEX_CLI_HEADER_PASSTHROUGH_HEADERS =
     [''Originator'', ''Session_id'', ''User-Agent'', ''X-Codex-Beta-Features'', ''X-Codex-Turn-Metadata'']"

definition CLAUDE_CLI_HEADER_PASSTHROUGH_HEADERS :: "string list" where
  "CLAUDE_CLI_HEADER_PASSTHROUGH_HEADERS =
     [''X-Stainless-Arch'', ''X-Stainless-Lang'', ''X-Stainless-Os'', ''X-Stainless-Package-Version'',
      ''X-Stainless-Retry-Count'', ''X-Stainless-Runtime'', ''X-Stainless-Runtime-Version'',
      ''X-Stainless-Timeout'', ''User-Agent'', ''X-App'', ''Anthropic-Beta'',
      ''Anthropic-Dangerous-Direct-Browser-Access'', ''Anthropic-Version'']"

definition CODEX_CLI_HEADER_PASSTHROUGH_TEMPLATE :: jsval where
  "CODEX_CLI_HEADER_PASSTHROUGH_TEMPLATE = buildPassHeadersTemplate CODEX_CLI_HEADER_PASSTHROUGH_HEADERS"

definition CLAUDE_CLI_HEADER_PASSTHROUGH_TEMPLATE :: jsval where
  "CLAUDE_CLI_HEADER_PASSTHROUGH_TEMPLATE = buildPassHeadersTemplate CLAUDE_CLI_HEADER_PASSTHROUGH_HEADERS"

definition affinity_rule :: "string \<Rightarrow> string \<Rightarrow> string \<Rightarrow> string \<Rightarrow> jsval \<Rightarrow> jsval" where
  "affinity_rule rule_name model path key template = Obj
     [(''name'', Str rule_name), (''model_regex'', Arr [Str model]), (''path_regex'', Arr [Str path]),
      (''key_sources'', Arr [Obj [(''type'', Str ''gjson''), (''path'', Str key)]]),
      (''param_override_template'', template), (''value_regex'', Str []), (''ttl_seconds'', Num (Fin 0)),
      (''skip_retry_on_failure'', Bool True), (''include_using_group'', Bool True), (''include_rule_name'', Bool True)]"

definition CHANNEL_AFFINITY_RULE_TEMPLATES :: "(string \<times> jsval) list" where
  "CHANNEL_AFFINITY_RULE_TEMPLATES =
     [(''codexCli'', affinity_rule ''codex cli trace'' ''^gpt-.*$'' ''/v1/responses'' ''prompt_cache_key''
         CODEX_CLI_HEADER_PASSTHROUGH_TEMPLATE),
      (''claudeCli'', affinity_rule ''claude cli trace'' ''^claude-.*$'' ''/v1/messages'' ''metadata.user_id''
         CLAUDE_CLI_HEADER_PASSTHROUGH_TEMPLATE)]"

definition cloneChannelAffinityTemplate :: "jsval \<Rightarrow> jsval res" where
  "cloneChannelAffinityTemplate template = json_parse (json_str (js_or template (Obj [])))"

record preset =
  pre_group :: string
  pre_label :: string
  pre_kind :: string
  pre_payload :: jsval

definition preset_of :: "string \<Rightarrow> string \<Rightarrow> string \<Rightarrow> jsval \<Rightarrow> preset" where
  "preset_of g l k p = \<lparr>pre_group = g, pre_label = l, pre_kind = k, pre_payload = p\<rparr>"

definition TEMPLATE_PRESET_CONFIG :: "(string \<times> preset) list" where
  "TEMPLATE_PRESET_CONFIG =
     [(''operations_default'', preset_of ''basic'' lbl_preset_operations ''operations'' OPERATION_TEMPLATE),
      (''legacy_default'', preset_of ''basic'' lbl_preset_legacy ''legacy'' LEGACY_TEMPLATE),
      (''pass_headers_auth'', preset_of ''scenario'' lbl_preset_pass_headers ''operations'' HEADER_PASSTHROUGH_TEMPLATE),
      (''gemini_image_4k'', preset_of ''scenario'' lbl_preset_gemini ''operations'' GEMINI_IMAGE_4K_TEMPLATE),
      (''claude_cli_headers_passthrough'',
         preset_of ''scenario'' lbl_preset_claude ''operations'' CLAUDE_CLI_HEADER_PASSTHROUGH_TEMPLATE),
      (''codex_cli_headers_passthrough'',
         preset_of ''scenario'' lbl_preset_codex ''operations'' CODEX_CLI_HEADER_PASSTHROUGH_TEMPLATE),
      (''aws_bedrock_anthropic_beta_override'',
         preset_of ''scenario'' lbl_preset_aws ''operations'' AWS_BEDROCK_ANTHROPIC_COMPAT_TEMPLATE)]"

section \<open>State\<close>

text \<open>
  The state hooks of the component, the next number for an id (the module variable
  \<^verbatim>\<open>localIdSeed\<close>), the toasts shown and the texts handed to \<^verbatim>\<open>onSave\<close>, newest first.
\<close>

record po_editor =
  editMode :: string
  visualMode :: string
  legacyValue :: string
  operations :: "operation list"
  jsonText :: string
  jsonError :: string
  operationSearch :: string
  selectedOperationId :: string
  expandedConditionMap :: "(string \<times> string list) list"
  draggedOperationId :: string
  dragOverOperationId :: string
  dragOverPosition :: string
  templateGroupKey :: string
  templatePresetKey :: string
  headerValueExampleVisible :: bool
  fieldGuideVisible :: bool
  fieldGuideTarget :: string
  fieldGuideKeyword :: string
  localIdSeed :: nat
  po_notices :: "notice list"
  saved_texts :: "string list"

definition initial_po :: "(nat \<Rightarrow> nat) \<Rightarrow> nat \<Rightarrow> po_editor" where
  "initial_po clock n =
     (case createDefaultOperation clock n of (x, n') \<Rightarrow>
        \<lparr>editMode = ''visual'', visualMode = ''operations'', legacyValue = [], operations = [x],
         jsonText = [], jsonError = [], operationSearch = [], selectedOperationId = [],
         expandedConditionMap = [], draggedOperationId = [], dragOverOperationId = [],
         dragOverPosition = ''before'', templateGroupKey = ''basic'', templatePresetKey = ''operations_default'',
         headerValueExampleVisible = False, fieldGuideVisible = False, fieldGuideTarget = ''path'',
         fieldGuideKeyword = [], localIdSeed = n', po_notices = [], saved_texts = []\<rparr>)"

definition first_id :: "operation list \<Rightarrow> string" where
  "first_id ops = (case ops of [] \<Rightarrow> [] | x # _ \<Rightarrow> op_id x)"

definition po_show :: "notice \<Rightarrow> po_editor \<Rightarrow> po_editor" where
  "po_show m s = s\<lparr>po_notices := m # po_notices s\<rparr>"

text \<open>The effect that runs when the dialog is opened or its value changes.\<close>

definition open_effect :: "(nat \<Rightarrow> nat) \<Rightarrow> jsval \<Rightarrow> po_editor \<Rightarrow> po_editor res" where
  "open_effect clock value s =
     bind_res (parseInitialState clock (localIdSeed s) value) (\<lambda>(st, n).
       Ok (s\<lparr>editMode := in_editMode st, visualMode := in_visualMode st, legacyValue := in_legacyValue st,
             operations := in_operations st, jsonText := in_jsonText st, jsonError := in_jsonError st,
             operationSearch := [], selectedOperationId := first_id (in_operations st),
             expandedConditionMap := [], draggedOperationId := [], dragOverOperationId := [],
             dragOverPosition := ''before'', templateGroupKey := ''basic'',
             templatePresetKey := (if in_visualMode st = ''legacy'' then ''legacy_default'' else ''operations_default''),
             headerValueExampleVisible := False, fieldGuideVisible := False, fieldGuideTarget := ''path'',
             fieldGuideKeyword := [], localIdSeed := n\<rparr>))"

text \<open>The effects that keep the selection and the chosen template valid.\<close>

definition fix_selection :: "po_editor \<Rightarrow> po_editor" where
  "fix_selection s =
     (if operations s = [] then s\<lparr>selectedOperationId := []\<rparr>
      else if \<exists>x \<in> set (operations s). op_id x = selectedOperationId s then s
      else s\<lparr>selectedOperationId := op_id (hd (operations s))\<rparr>)"

definition templatePresetOptions :: "po_editor \<Rightarrow> (string \<times> string) list" where
  "templatePresetOptions s =
     map (\<lambda>(k, p). (k, pre_label p)) (filter (\<lambda>(k, p). pre_group p = templateGroupKey s) TEMPLATE_PRESET_CONFIG)"

definition fix_preset :: "po_editor \<Rightarrow> po_editor" where
  "fix_preset s =
     (let keys = map fst (templatePresetOptions s)
      in if keys = [] then s else if templatePresetKey s \<in> set keys then s else s\<lparr>templatePresetKey := hd keys\<rparr>)"

section \<open>Derived values\<close>

definition operationCount :: "po_editor \<Rightarrow> nat" where
  "operationCount s = length (filter (\<lambda>x. \<not> isOperationBlank x) (operations s))"

definition filteredOperations :: "po_editor \<Rightarrow> operation list" where
  "filteredOperations s =
     (let keyword = to_lower (trim (operationSearch s)) in
      if keyword = [] then operations s
      else filter (\<lambda>x. has_sub keyword (to_lower (join '' '' (non_blank
             [op_description x, op_mode x, op_path x, op_from x, op_to x, op_value_text x])))) (operations s))"

definition selectedOperation :: "po_editor \<Rightarrow> operation option" where
  "selectedOperation s = find (\<lambda>x. op_id x = selectedOperationId s) (operations s)"

definition returnErrorDraft :: "po_editor \<Rightarrow> error_draft option" where
  "returnErrorDraft s =
     (case selectedOperation s of
        Some x \<Rightarrow> if op_mode x = ''return_error'' then Some (parseReturnErrorDraft (op_value_text x)) else None
      | None \<Rightarrow> None)"

definition pruneObjectsDraft :: "(nat \<Rightarrow> nat) \<Rightarrow> po_editor \<Rightarrow> prune_draft option" where
  "pruneObjectsDraft clock s =
     (case selectedOperation s of
        Some x \<Rightarrow> if op_mode x = ''prune_objects''
                  then Some (fst (parsePruneObjectsDraft clock (localIdSeed s) (op_value_text x))) else None
      | None \<Rightarrow> None)"

text \<open>The four most frequent modes; entries with the same count keep their order.\<close>

definition mode_counts :: "operation list \<Rightarrow> (string \<times> nat) list" where
  "mode_counts ops = foldl (\<lambda>acc x.
     (let mode = (if op_mode x = [] then ''set'' else op_mode x)
      in set_prop mode (case map_of acc mode of Some k \<Rightarrow> k + 1 | None \<Rightarrow> 1) acc)) [] ops"

definition topOperationModes :: "po_editor \<Rightarrow> (string \<times> nat) list" where
  "topOperationModes s = take 4 (sort_key (\<lambda>(m, k). - int k) (prop_entries (mode_counts (operations s))))"

definition visualValidationError :: "translate \<Rightarrow> po_editor \<Rightarrow> string" where
  "visualValidationError t s =
     (if editMode s \<noteq> ''visual'' then []
      else case buildVisualJson t (visualMode s) (legacyValue s) (operations s) of
          Ok _ \<Rightarrow> []
        | Throw (Error_Msg m) \<Rightarrow> (if m = [] then t msg_po_bad_config [] else m)
        | Throw _ \<Rightarrow> t msg_po_bad_config [])"

section \<open>Switching between the views\<close>

definition switchToJsonMode :: "translate \<Rightarrow> po_editor \<Rightarrow> po_editor" where
  "switchToJsonMode t s =
     (if editMode s = ''json'' then s
      else
        (case buildVisualJson t (visualMode s) (legacyValue s) (operations s) of
           Ok text \<Rightarrow> s\<lparr>jsonText := text, jsonError := [], editMode := ''json''\<rparr>
         | Throw e \<Rightarrow>
             (let message = (case e of Error_Msg m \<Rightarrow> m | _ \<Rightarrow> []);
                  text = (if visualMode s = ''legacy'' then legacyValue s
                          else case buildOperationsJson t (operations s) False of Ok u \<Rightarrow> u | Throw _ \<Rightarrow> [])
              in (po_show (Shown_Error message) s)
                   \<lparr>jsonText := text, jsonError := (if message \<noteq> [] then message else t msg_po_bad_config []),
                    editMode := ''json''\<rparr>)))"

definition single_operation :: "(nat \<Rightarrow> nat) \<Rightarrow> po_editor \<Rightarrow> po_editor" where
  "single_operation clock s =
     (case createDefaultOperation clock (localIdSeed s) of (fallback, n) \<Rightarrow>
        s\<lparr>operations := [fallback], selectedOperationId := op_id fallback, localIdSeed := n\<rparr>)"

definition switchToVisualMode :: "(nat \<Rightarrow> nat) \<Rightarrow> translate \<Rightarrow> po_editor \<Rightarrow> po_editor res" where
  "switchToVisualMode clock t s =
     (let trimmed = trim (jsonText s) in
      if editMode s = ''visual'' then Ok s
      else if trimmed = [] then
        Ok ((single_operation clock s)\<lparr>visualMode := ''operations'', legacyValue := [], jsonError := [], editMode := ''visual''\<rparr>)
      else
        (case json_parse trimmed of
           Throw _ \<Rightarrow> Ok (po_show (Shown_Error (t msg_po_json_required [])) s)
         | Ok parsed \<Rightarrow>
             (case operations_of parsed of
                Some os \<Rightarrow>
                  bind_res (load_operations clock (localIdSeed s) os) (\<lambda>(ops, n).
                    Ok (s\<lparr>visualMode := ''operations'', operations := ops, selectedOperationId := first_id ops,
                          legacyValue := [], jsonError := [], editMode := ''visual'', templateGroupKey := ''basic'',
                          templatePresetKey := ''operations_default'', localIdSeed := n\<rparr>))
              | None \<Rightarrow>
                  if is_plain parsed
                  then Ok ((single_operation clock s)\<lparr>visualMode := ''legacy'', legacyValue := pretty parsed,
                         jsonError := [], editMode := ''visual'', templateGroupKey := ''basic'',
                         templatePresetKey := ''legacy_default''\<rparr>)
                  else Ok (po_show (Shown_Error (t msg_po_json_object [])) s))))"

section \<open>Templates in use\<close>

definition fillLegacyTemplate :: "(nat \<Rightarrow> nat) \<Rightarrow> jsval \<Rightarrow> po_editor \<Rightarrow> po_editor" where
  "fillLegacyTemplate clock payload s =
     (let text = pretty payload
      in (single_operation clock s)\<lparr>visualMode := ''legacy'', legacyValue := text, expandedConditionMap := [],
           jsonText := text, jsonError := [], editMode := ''visual''\<rparr>)"

definition fillOperationsTemplate :: "(nat \<Rightarrow> nat) \<Rightarrow> jsval list \<Rightarrow> po_editor \<Rightarrow> po_editor res" where
  "fillOperationsTemplate clock payload s =
     bind_res (load_operations clock (localIdSeed s) payload) (\<lambda>(ops, n).
       Ok (s\<lparr>visualMode := ''operations'', operations := ops, selectedOperationId := first_id ops,
             expandedConditionMap := [], jsonText := pretty (Obj [(''operations'', Arr payload)]),
             jsonError := [], editMode := ''visual'', localIdSeed := n\<rparr>))"

text \<open>\<^verbatim>\<open>{ ...a, ...b }\<close>\<close>

definition spread :: "jsval \<Rightarrow> jsval \<Rightarrow> jsval" where
  "spread a b = Obj (foldl (\<lambda>ps (k, v). set_prop k v ps) (obj_entries a) (obj_entries b))"

definition appendLegacyTemplate :: "(nat \<Rightarrow> nat) \<Rightarrow> translate \<Rightarrow> jsval \<Rightarrow> po_editor \<Rightarrow> po_editor" where
  "appendLegacyTemplate clock t payload s =
     (let trimmed = trim (legacyValue s);
          merge = (\<lambda>current.
            let text = pretty (spread payload current)
            in (single_operation clock s)\<lparr>visualMode := ''legacy'', legacyValue := text, expandedConditionMap := [],
                 jsonText := text, jsonError := [], editMode := ''visual''\<rparr>)
      in if visualMode s = ''legacy'' \<and> trimmed \<noteq> [] then
           (case json_parse trimmed of
              Throw _ \<Rightarrow> po_show (Shown_Error (t msg_po_append_bad_json [])) s
            | Ok parsed \<Rightarrow>
                if \<not> is_plain parsed then po_show (Shown_Error (t msg_po_append_not_object [])) s
                else merge parsed)
         else merge (Obj []))"

definition appendOperationsTemplate :: "(nat \<Rightarrow> nat) \<Rightarrow> jsval list \<Rightarrow> po_editor \<Rightarrow> po_editor res" where
  "appendOperationsTemplate clock payload s =
     bind_res (map_fresh (normalizeOperation clock) (localIdSeed s) payload) (\<lambda>(appended, n).
       (let existing = (if visualMode s = ''operations'' then filter (\<lambda>x. \<not> isOperationBlank x) (operations s) else []);
            next_ops = existing @ appended
        in Ok (s\<lparr>visualMode := ''operations'', operations := next_ops,
                 selectedOperationId := first_id next_ops, expandedConditionMap := [], legacyValue := [],
                 jsonError := [], editMode := ''visual'', jsonText := [], localIdSeed := n\<rparr>)))"

definition clearValue :: "(nat \<Rightarrow> nat) \<Rightarrow> po_editor \<Rightarrow> po_editor" where
  "clearValue clock s =
     (single_operation clock s)\<lparr>visualMode := ''operations'', legacyValue := [], expandedConditionMap := [],
       jsonText := [], jsonError := [], templateGroupKey := ''basic'', templatePresetKey := ''operations_default''\<rparr>"

definition resetEditorState :: "(nat \<Rightarrow> nat) \<Rightarrow> po_editor \<Rightarrow> po_editor" where
  "resetEditorState clock s = (clearValue clock s)\<lparr>editMode := ''visual''\<rparr>"

definition getSelectedTemplatePreset :: "po_editor \<Rightarrow> preset" where
  "getSelectedTemplatePreset s =
     (case map_of TEMPLATE_PRESET_CONFIG (templatePresetKey s) of
        Some p \<Rightarrow> p | None \<Rightarrow> snd (hd TEMPLATE_PRESET_CONFIG))"

definition fillTemplateFromLibrary :: "(nat \<Rightarrow> nat) \<Rightarrow> po_editor \<Rightarrow> po_editor res" where
  "fillTemplateFromLibrary clock s =
     (let p = getSelectedTemplatePreset s in
      if pre_kind p = ''legacy'' then Ok (fillLegacyTemplate clock (pre_payload p) s)
      else fillOperationsTemplate clock (arr_elems (get (pre_payload p) ''operations'')) s)"

definition appendTemplateFromLibrary :: "(nat \<Rightarrow> nat) \<Rightarrow> translate \<Rightarrow> po_editor \<Rightarrow> po_editor res" where
  "appendTemplateFromLibrary clock t s =
     (let p = getSelectedTemplatePreset s in
      if pre_kind p = ''legacy'' then Ok (appendLegacyTemplate clock t (pre_payload p) s)
      else appendOperationsTemplate clock (arr_elems (get (pre_payload p) ''operations'')) s)"

section \<open>Editing operations\<close>

text \<open>\<^verbatim>\<open>updateOperation(id, patch)\<close>, with the patch as a function.\<close>

definition update_op :: "string \<Rightarrow> (operation \<Rightarrow> operation) \<Rightarrow> po_editor \<Rightarrow> po_editor" where
  "update_op i f s = s\<lparr>operations := map (\<lambda>x. if op_id x = i then f x else x) (operations s)\<rparr>"

datatype op_patch = P_mode string | P_path string | P_description string | P_value string
  | P_keep bool | P_from string | P_to string | P_from_to string string | P_logic string

fun apply_patch :: "op_patch \<Rightarrow> operation \<Rightarrow> operation" where
  "apply_patch (P_mode m) x = x\<lparr>op_mode := m\<rparr>"
| "apply_patch (P_path p) x = x\<lparr>op_path := p\<rparr>"
| "apply_patch (P_description d) x = x\<lparr>op_description := d\<rparr>"
| "apply_patch (P_value v) x = x\<lparr>op_value_text := v\<rparr>"
| "apply_patch (P_keep b) x = x\<lparr>op_keep_origin := b\<rparr>"
| "apply_patch (P_from f) x = x\<lparr>op_from := f\<rparr>"
| "apply_patch (P_to u) x = x\<lparr>op_to := u\<rparr>"
| "apply_patch (P_from_to f u) x = x\<lparr>op_from := f, op_to := u\<rparr>"
| "apply_patch (P_logic l) x = x\<lparr>op_logic := l\<rparr>"

definition updateOperation :: "string \<Rightarrow> op_patch \<Rightarrow> po_editor \<Rightarrow> po_editor" where
  "updateOperation i p s = update_op i (apply_patch p) s"

definition applyBuiltinField :: "translate \<Rightarrow> string \<Rightarrow> string \<Rightarrow> po_editor \<Rightarrow> po_editor" where
  "applyBuiltinField t fieldKey target s =
     (case selectedOperation s of
        None \<Rightarrow> po_show (Shown_Error (t msg_po_select_first [])) s
      | Some x \<Rightarrow>
          (let mode = (if op_mode x = [] then ''set'' else op_mode x);
               spec = (if mode = ''sync_fields'' then buildSyncTargetSpec ''json'' fieldKey else fieldKey)
           in if target = ''path'' \<and> (meta mode ''path'' \<or> meta mode ''pathOptional'' \<or> meta mode ''pathAlias'')
              then updateOperation (op_id x) (P_path fieldKey) s
              else if target = ''from'' \<and> (meta mode ''from'' \<or> meta mode ''pathAlias'' \<or> mode = ''sync_fields'')
              then updateOperation (op_id x) (P_from spec) s
              else if target = ''to'' \<and> (meta mode ''to'' \<or> mode = ''sync_fields'')
              then updateOperation (op_id x) (P_to spec) s
              else po_show (Shown_Error (t msg_po_unsupported_target [])) s))"

definition copyBuiltinField :: "translate \<Rightarrow> string \<Rightarrow> bool \<Rightarrow> po_editor \<Rightarrow> po_editor" where
  "copyBuiltinField t fieldKey ok s =
     (if ok then po_show (Shown_Success (t msg_po_copied [(''name'', fieldKey)])) s
      else po_show (Shown_Error (t msg_po_copy_failed [])) s)"

definition formatSelectedOperationValueAsJson :: "translate \<Rightarrow> po_editor \<Rightarrow> po_editor" where
  "formatSelectedOperationValueAsJson t s =
     (case selectedOperation s of
        None \<Rightarrow> s
      | Some x \<Rightarrow>
          (let raw = trim (op_value_text x) in
           if raw = [] then s
           else case json_parse raw of
               Throw _ \<Rightarrow> po_show (Shown_Error (t msg_po_not_json [])) s
             | Ok v \<Rightarrow> po_show (Shown_Success (t msg_po_formatted [])) (updateOperation (op_id x) (P_value (pretty v)) s)))"

datatype error_patch = E_simple bool | E_message string | E_status string | E_code string | E_type string
  | E_skip bool | E_preset nat string string

fun apply_error_patch :: "error_patch \<Rightarrow> error_draft \<Rightarrow> error_draft" where
  "apply_error_patch (E_simple b) d = d\<lparr>rd_simpleMode := b\<rparr>"
| "apply_error_patch (E_message m) d = d\<lparr>rd_message := m\<rparr>"
| "apply_error_patch (E_status u) d =
     d\<lparr>rd_statusCode := (if truthy_num (parse_int u) then parse_int u else Fin 400)\<rparr>"
| "apply_error_patch (E_code c) d = d\<lparr>rd_code := c\<rparr>"
| "apply_error_patch (E_type c) d = d\<lparr>rd_type := c\<rparr>"
| "apply_error_patch (E_skip b) d = d\<lparr>rd_skipRetry := b\<rparr>"
| "apply_error_patch (E_preset k c y) d = d\<lparr>rd_statusCode := Fin (of_nat k), rd_code := c, rd_type := y\<rparr>"

definition updateReturnErrorDraft :: "string \<Rightarrow> error_patch \<Rightarrow> po_editor \<Rightarrow> po_editor" where
  "updateReturnErrorDraft i patch s =
     (case find (\<lambda>x. op_id x = i) (operations s) of
        None \<Rightarrow> s
      | Some x \<Rightarrow> updateOperation i
          (P_value (buildReturnErrorValueText (apply_error_patch patch (parseReturnErrorDraft (op_value_text x))))) s)"

text \<open>The updater gets the draft and the next id number.\<close>

definition updatePruneObjectsDraft ::
  "(nat \<Rightarrow> nat) \<Rightarrow> string \<Rightarrow> (nat \<Rightarrow> prune_draft \<Rightarrow> prune_draft \<times> nat) \<Rightarrow> po_editor \<Rightarrow> po_editor" where
  "updatePruneObjectsDraft clock i updater s =
     (case find (\<lambda>x. op_id x = i) (operations s) of
        None \<Rightarrow> s
      | Some x \<Rightarrow>
          (case parsePruneObjectsDraft clock (localIdSeed s) (op_value_text x) of (draft, n) \<Rightarrow>
             (case updater n draft of (next_draft, n') \<Rightarrow>
                (updateOperation i (P_value (buildPruneObjectsValueText next_draft)) s)\<lparr>localIdSeed := n'\<rparr>)))"

datatype prune_patch = D_simple bool | D_type string | D_logic string | D_recursive bool

fun apply_prune_patch :: "prune_patch \<Rightarrow> prune_draft \<Rightarrow> prune_draft" where
  "apply_prune_patch (D_simple b) d = d\<lparr>pd_simpleMode := b\<rparr>"
| "apply_prune_patch (D_type u) d = d\<lparr>pd_typeText := u\<rparr>"
| "apply_prune_patch (D_logic l) d = d\<lparr>pd_logic := (if l = [] then ''AND'' else l)\<rparr>"
| "apply_prune_patch (D_recursive b) d = d\<lparr>pd_recursive := b\<rparr>"

definition addPruneRule :: "(nat \<Rightarrow> nat) \<Rightarrow> string \<Rightarrow> po_editor \<Rightarrow> po_editor" where
  "addPruneRule clock i s =
     updatePruneObjectsDraft clock i (\<lambda>n draft.
       (case createDefaultCondition clock n of (rule, n') \<Rightarrow>
          (draft\<lparr>pd_simpleMode := False, pd_rules := pd_rules draft @ [rule]\<rparr>, n'))) s"

datatype cond_patch = C_path string | C_mode string | C_value string | C_invert bool | C_pass bool

fun apply_cond_patch :: "cond_patch \<Rightarrow> condition \<Rightarrow> condition" where
  "apply_cond_patch (C_path p) c = c\<lparr>cond_path := p\<rparr>"
| "apply_cond_patch (C_mode m) c = c\<lparr>cond_mode := m\<rparr>"
| "apply_cond_patch (C_value v) c = c\<lparr>cond_value_text := v\<rparr>"
| "apply_cond_patch (C_invert b) c = c\<lparr>cond_invert := b\<rparr>"
| "apply_cond_patch (C_pass b) c = c\<lparr>cond_pass_missing := b\<rparr>"

definition update_cond :: "string \<Rightarrow> cond_patch \<Rightarrow> condition list \<Rightarrow> condition list" where
  "update_cond i p cs = map (\<lambda>c. if cond_id c = i then apply_cond_patch p c else c) cs"

definition remove_cond :: "string \<Rightarrow> condition list \<Rightarrow> condition list" where
  "remove_cond i cs = filter (\<lambda>c. cond_id c \<noteq> i) cs"

definition updatePruneRule :: "(nat \<Rightarrow> nat) \<Rightarrow> string \<Rightarrow> string \<Rightarrow> cond_patch \<Rightarrow> po_editor \<Rightarrow> po_editor" where
  "updatePruneRule clock i ruleId patch s =
     updatePruneObjectsDraft clock i
       (\<lambda>n draft. (draft\<lparr>pd_rules := update_cond ruleId patch (pd_rules draft)\<rparr>, n)) s"

definition removePruneRule :: "(nat \<Rightarrow> nat) \<Rightarrow> string \<Rightarrow> string \<Rightarrow> po_editor \<Rightarrow> po_editor" where
  "removePruneRule clock i ruleId s =
     updatePruneObjectsDraft clock i
       (\<lambda>n draft. (draft\<lparr>pd_rules := remove_cond ruleId (pd_rules draft)\<rparr>, n)) s"

definition addOperation :: "(nat \<Rightarrow> nat) \<Rightarrow> po_editor \<Rightarrow> po_editor" where
  "addOperation clock s =
     (case createDefaultOperation clock (localIdSeed s) of (created, n) \<Rightarrow>
        s\<lparr>operations := operations s @ [created], selectedOperationId := op_id created, localIdSeed := n\<rparr>)"

section \<open>Reordering\<close>

definition resetOperationDragState :: "po_editor \<Rightarrow> po_editor" where
  "resetOperationDragState s = s\<lparr>draggedOperationId := [], dragOverOperationId := [], dragOverPosition := ''before''\<rparr>"

definition moveOperation :: "string \<Rightarrow> string \<Rightarrow> string \<Rightarrow> po_editor \<Rightarrow> po_editor" where
  "moveOperation sourceId targetId position s =
     (if sourceId = [] \<or> targetId = [] \<or> sourceId = targetId then s
      else s\<lparr>operations := reorderOperations (operations s) sourceId targetId position, selectedOperationId := sourceId\<rparr>)"

definition handleOperationDragStart :: "string \<Rightarrow> po_editor \<Rightarrow> po_editor" where
  "handleOperationDragStart i s = s\<lparr>draggedOperationId := i, selectedOperationId := i\<rparr>"

text \<open>\<open>lower_half\<close>: the pointer is in the lower half of the row.\<close>

definition handleOperationDragOver :: "bool \<Rightarrow> string \<Rightarrow> po_editor \<Rightarrow> po_editor" where
  "handleOperationDragOver lower_half i s =
     (if draggedOperationId s = [] \<or> draggedOperationId s = i then s
      else s\<lparr>dragOverOperationId := i, dragOverPosition := (if lower_half then ''after'' else ''before'')\<rparr>)"

text \<open>\<open>transfer\<close>: the text the drag carries.\<close>

definition handleOperationDrop :: "string \<Rightarrow> string \<Rightarrow> po_editor \<Rightarrow> po_editor" where
  "handleOperationDrop transfer i s =
     (let sourceId = (if draggedOperationId s \<noteq> [] then draggedOperationId s else transfer);
          position = (if dragOverOperationId s = i then dragOverPosition s else ''before'')
      in resetOperationDragState (moveOperation sourceId i position s))"

section \<open>Copying and removing\<close>

definition clone_source :: "operation \<Rightarrow> jsval" where
  "clone_source x = Obj
     [(''description'', Str (op_description x)), (''path'', Str (op_path x)), (''mode'', Str (op_mode x)),
      (''value'', parseLooseValue (op_value_text x)), (''keep_origin'', Bool (op_keep_origin x)),
      (''from'', Str (op_from x)), (''to'', Str (op_to x)), (''logic'', Str (op_logic x)),
      (''conditions'', Arr (map (\<lambda>c. Obj
         [(''path'', Str (cond_path c)), (''mode'', Str (cond_mode c)),
          (''value'', parseLooseValue (cond_value_text c)), (''invert'', Bool (cond_invert c)),
          (''pass_missing_key'', Bool (cond_pass_missing c))]) (op_conditions x)))]"

text \<open>
  The id of the copy is read right after the state update was queued; \<open>eager\<close> tells whether the
  updater had already run by then.
\<close>

definition duplicateOperation :: "(nat \<Rightarrow> nat) \<Rightarrow> bool \<Rightarrow> string \<Rightarrow> po_editor \<Rightarrow> po_editor res" where
  "duplicateOperation clock eager i s =
     (case find_index (\<lambda>x. op_id x = i) (operations s) of
        None \<Rightarrow> Ok s
      | Some k \<Rightarrow>
          bind_res (normalizeOperation clock (localIdSeed s) (clone_source (operations s ! k))) (\<lambda>(cloned, n).
            (let s' = s\<lparr>operations := insert_at (k + 1) cloned (operations s), localIdSeed := n\<rparr>
             in Ok (if eager then s'\<lparr>selectedOperationId := op_id cloned\<rparr> else s'))))"

definition removeOperation :: "(nat \<Rightarrow> nat) \<Rightarrow> string \<Rightarrow> po_editor \<Rightarrow> po_editor" where
  "removeOperation clock i s =
     (let m = delete_prop i (expandedConditionMap s) in
      if length (operations s) \<le> 1 then
        (case createDefaultOperation clock (localIdSeed s) of (x, n) \<Rightarrow>
           s\<lparr>operations := [x], expandedConditionMap := m, localIdSeed := n\<rparr>)
      else s\<lparr>operations := filter (\<lambda>x. op_id x \<noteq> i) (operations s), expandedConditionMap := m\<rparr>)"

section \<open>Conditions\<close>

definition expanded_of :: "po_editor \<Rightarrow> string \<Rightarrow> string list" where
  "expanded_of s i = (case map_of (expandedConditionMap s) i of Some ks \<Rightarrow> ks | None \<Rightarrow> [])"

definition set_expanded :: "string \<Rightarrow> string list \<Rightarrow> po_editor \<Rightarrow> po_editor" where
  "set_expanded i ks s = s\<lparr>expandedConditionMap := set_prop i ks (expandedConditionMap s)\<rparr>"

definition addCondition :: "(nat \<Rightarrow> nat) \<Rightarrow> string \<Rightarrow> po_editor \<Rightarrow> po_editor" where
  "addCondition clock i s =
     (case createDefaultCondition clock (localIdSeed s) of (c, n) \<Rightarrow>
        set_expanded i (expanded_of s i @ [cond_id c])
          ((update_op i (\<lambda>x. x\<lparr>op_conditions := op_conditions x @ [c]\<rparr>) s)\<lparr>localIdSeed := n\<rparr>))"

definition updateCondition :: "string \<Rightarrow> string \<Rightarrow> cond_patch \<Rightarrow> po_editor \<Rightarrow> po_editor" where
  "updateCondition i cid patch s =
     update_op i (\<lambda>x. x\<lparr>op_conditions := update_cond cid patch (op_conditions x)\<rparr>) s"

definition removeCondition :: "string \<Rightarrow> string \<Rightarrow> po_editor \<Rightarrow> po_editor" where
  "removeCondition i cid s =
     set_expanded i (filter (\<lambda>k. k \<noteq> cid) (expanded_of s i))
       (update_op i (\<lambda>x. x\<lparr>op_conditions := remove_cond cid (op_conditions x)\<rparr>) s)"

definition handleConditionCollapseChange :: "string \<Rightarrow> string list \<Rightarrow> po_editor \<Rightarrow> po_editor" where
  "handleConditionCollapseChange i activeKeys s = set_expanded i (non_blank activeKeys) s"

definition expandAllSelectedConditions :: "po_editor \<Rightarrow> po_editor" where
  "expandAllSelectedConditions s =
     (case selectedOperation s of
        None \<Rightarrow> s
      | Some x \<Rightarrow> if selectedOperationId s = [] then s
                  else set_expanded (selectedOperationId s) (map cond_id (op_conditions x)) s)"

definition collapseAllSelectedConditions :: "po_editor \<Rightarrow> po_editor" where
  "collapseAllSelectedConditions s =
     (if selectedOperationId s = [] then s else set_expanded (selectedOperationId s) [] s)"

section \<open>The JSON view and saving\<close>

definition handleJsonChange :: "translate \<Rightarrow> string \<Rightarrow> po_editor \<Rightarrow> po_editor" where
  "handleJsonChange t nextValue s =
     s\<lparr>jsonText := nextValue,
       jsonError := (if trim nextValue = [] \<or> verifyJSON (trim nextValue) then [] else t msg_po_json_error [])\<rparr>"

definition formatJson :: "translate \<Rightarrow> po_editor \<Rightarrow> po_editor" where
  "formatJson t s =
     (let trimmed = trim (jsonText s) in
      if trimmed = [] then s
      else case json_parse trimmed of
          Throw _ \<Rightarrow> po_show (Shown_Error (t msg_po_json_required [])) s
        | Ok v \<Rightarrow> s\<lparr>jsonText := pretty v, jsonError := []\<rparr>)"

definition save_text :: "translate \<Rightarrow> po_editor \<Rightarrow> string res" where
  "save_text t s =
     (if editMode s = ''json'' then
        (let trimmed = trim (jsonText s) in
         if trimmed = [] then Ok []
         else case json_parse trimmed of
             Throw _ \<Rightarrow> Throw (Error_Msg (t msg_po_json_required []))
           | Ok v \<Rightarrow> Ok (pretty v))
      else buildVisualJson t (visualMode s) (legacyValue s) (operations s))"

definition po_handleSave :: "translate \<Rightarrow> po_editor \<Rightarrow> po_editor" where
  "po_handleSave t s =
     (case save_text t s of
        Ok result \<Rightarrow> s\<lparr>saved_texts := result # saved_texts s\<rparr>
      | Throw e \<Rightarrow> po_show (Shown_Error (case e of Error_Msg m \<Rightarrow> m | _ \<Rightarrow> [])) s)"

section \<open>The field guide\<close>

record guide_field =
  gf_key :: string
  gf_label :: string
  gf_tip :: string

definition gf :: "string \<Rightarrow> string \<Rightarrow> string \<Rightarrow> guide_field" where
  "gf k l p = \<lparr>gf_key = k, gf_label = l, gf_tip = p\<rparr>"

definition BUILTIN_FIELD_SECTIONS :: "(string \<times> guide_field list) list" where
  "BUILTIN_FIELD_SECTIONS =
     [(lbl_guide_1,
        [gf ''model'' lbl_field_model tip_field_model,
         gf ''temperature'' lbl_field_temperature tip_field_temperature,
         gf ''max_tokens'' lbl_field_max_tokens tip_field_max_tokens,
         gf ''messages.-1.content'' lbl_field_messages_1_content tip_field_messages_1_content]),
      (lbl_guide_2,
        [gf ''retry.is_retry'' lbl_field_retry_is_retry tip_field_retry_is_retry,
         gf ''last_error.code'' lbl_field_last_error_code tip_field_last_error_code,
         gf ''metadata.conversation_id'' lbl_field_metadata_conversation_id tip_field_metadata_conversation_id]),
      (lbl_guide_3,
        [gf ''header_override_normalized.authorization'' lbl_field_header_override_normalized_authorization
           tip_field_header_override_normalized_authorization,
         gf ''header_override_normalized.x_debug_mode'' lbl_field_header_override_normalized_x_debug_mode
           tip_field_header_override_normalized_x_debug_mode])]"

definition filteredFieldGuideSections :: "po_editor \<Rightarrow> (string \<times> guide_field list) list" where
  "filteredFieldGuideSections s =
     (let keyword = to_lower (trim (fieldGuideKeyword s)) in
      if keyword = [] then BUILTIN_FIELD_SECTIONS
      else filter (\<lambda>(title, fields). fields \<noteq> [])
        (map (\<lambda>(title, fields). (title, filter (\<lambda>f. has_sub keyword
           (to_lower (join '' '' (non_blank [gf_key f, gf_label f, gf_tip f])))) fields)) BUILTIN_FIELD_SECTIONS))"

definition fieldGuideActionLabel :: "translate \<Rightarrow> po_editor \<Rightarrow> string" where
  "fieldGuideActionLabel t s =
     (if fieldGuideTarget s = ''from'' then t lbl_fill_from []
      else if fieldGuideTarget s = ''to'' then t lbl_fill_to [] else t lbl_fill_path [])"

definition fieldGuideFieldCount :: "po_editor \<Rightarrow> nat" where
  "fieldGuideFieldCount s = sum_list (map (\<lambda>(title, fields). length fields) (filteredFieldGuideSections s))"

definition openFieldGuide :: "string \<Rightarrow> po_editor \<Rightarrow> po_editor" where
  "openFieldGuide target s = s\<lparr>fieldGuideTarget := target, fieldGuideVisible := True\<rparr>"

end
