(* ===== verification/Param_Machine.thy ===== *)
theory Param_Machine
  imports Param_Editor "HOL-Library.Multiset"
begin

text \<open>
  The parameter override editor as a state machine: every handler of
  \<^verbatim>\<open>ParamOverrideEditorModal.jsx\<close> is an event, a step runs one handler to its end and
  then the effects. The ids of operations and conditions come from one running number, so they
  never clash, and the state stays well formed in every run.
\<close>

section \<open>Identifiers are unique\<close>

lemma nat_str_no_underscore: "CHR ''_'' \<notin> set (nat_str n)"
  using nat_str_digits [of "CHR ''_''" n] by (auto simp: is_digit_def)

lemma nextLocalId_inject [simp]: "nextLocalId clock i = nextLocalId clock j \<longleftrightarrow> i = j"
proof
  assume "nextLocalId clock i = nextLocalId clock j"
  then have "nat_str (clock i) @ CHR ''_'' # nat_str i = nat_str (clock j) @ CHR ''_'' # nat_str j"
    by (simp add: nextLocalId_def)
  then have "split_on (CHR ''_'') (nat_str (clock i) @ CHR ''_'' # nat_str i) =
      split_on (CHR ''_'') (nat_str (clock j) @ CHR ''_'' # nat_str j)" by simp
  then show "i = j" by (simp add: split_on_append_sep split_on_no_sep nat_str_no_underscore)
qed simp

lemma nextLocalId_nonempty [simp]: "nextLocalId clock i \<noteq> []"
  by (simp add: nextLocalId_def)

text \<open>The ids drawn between two numbers.\<close>

definition ids_in :: "(nat \<Rightarrow> nat) \<Rightarrow> nat \<Rightarrow> nat \<Rightarrow> string set" where
  "ids_in clock m n = nextLocalId clock ` {m..<n}"

lemma ids_in_mono: "m' \<le> m \<Longrightarrow> n \<le> n' \<Longrightarrow> ids_in clock m n \<subseteq> ids_in clock m' n'"
  by (auto simp: ids_in_def)

lemma ids_in_disjoint: "n \<le> m' \<Longrightarrow> ids_in clock m n \<inter> ids_in clock m' n' = {}"
  by (auto simp: ids_in_def)

lemma nextLocalId_in [simp]: "nextLocalId clock i \<in> ids_in clock m n \<longleftrightarrow> m \<le> i \<and> i < n"
  by (auto simp: ids_in_def)

text \<open>
  What the code relies on when it builds a list of new objects: each construction draws its ids
  from the running number. Then a whole list has one element per input, with new and distinct ids.
\<close>

locale fresh_maker =
  fixes make :: "nat \<Rightarrow> 'a \<Rightarrow> ('b \<times> nat) res" and ident :: "'b \<Rightarrow> string" and idents :: "'b \<Rightarrow> string set"
    and clock :: "nat \<Rightarrow> nat" and good :: "'b \<Rightarrow> bool"
  assumes made: "make k x = Ok (y, k') \<Longrightarrow> k < k' \<and> idents y \<subseteq> ids_in clock k k' \<and> good y"
    and ident_in: "ident y \<in> idents y"
begin

lemma made_list:
  "map_fresh make n xs = Ok (ys, n') \<Longrightarrow>
   n \<le> n' \<and> length ys = length xs \<and> \<Union> (idents ` set ys) \<subseteq> ids_in clock n n' \<and> distinct (map ident ys) \<and> list_all good ys"
proof (induction xs arbitrary: n ys n')
  case (Cons x xs)
  then obtain y k zs where y: "make n x = Ok (y, k)" "map_fresh make k xs = Ok (zs, n')" "ys = y # zs"
    by (auto simp: bind_res_Ok_iff split: prod.splits)
  have s: "n < k" "idents y \<subseteq> ids_in clock n k" "good y" using made [OF y(1)] by auto
  have i: "k \<le> n'" "length zs = length xs" "\<Union> (idents ` set zs) \<subseteq> ids_in clock k n'" "distinct (map ident zs)" "list_all good zs"
    using Cons.IH [OF y(2)] by auto
  have "ident y \<notin> ident ` set zs"
  proof
    assume "ident y \<in> ident ` set zs"
    then obtain z where z: "z \<in> set zs" "ident y = ident z" by auto
    have "ident y \<in> ids_in clock n k" using s(2) ident_in by (rule subsetD)
    moreover have "ident z \<in> ids_in clock k n'" using i(3) z(1) ident_in [of z] by (meson UN_I subsetD)
    ultimately show False using ids_in_disjoint [of k k clock n n'] z(2) by (metis IntI empty_iff order_refl)
  qed
  moreover have "ids_in clock n k \<subseteq> ids_in clock n n'" "ids_in clock k n' \<subseteq> ids_in clock n n'"
    using s i by (intro ids_in_mono; simp)+
  then have "idents y \<subseteq> ids_in clock n n'" "\<Union> (idents ` set zs) \<subseteq> ids_in clock n n'"
    using s(2) i(3) by (meson order_trans)+
  ultimately show ?case using s(1,3) i(1,2,4,5) y(3) by simp
qed simp

end

text \<open>Well-formed conditions and operations, with all ids below a number.\<close>

definition cond_ok :: "condition \<Rightarrow> bool" where
  "cond_ok c \<longleftrightarrow> cond_mode c \<in> set CONDITION_MODE_VALUES"

definition op_ok :: "operation \<Rightarrow> bool" where
  "op_ok x \<longleftrightarrow> op_mode x \<in> set OPERATION_MODE_VALUES \<and> op_logic x \<in> {''AND'', ''OR''} \<and>
     list_all cond_ok (op_conditions x) \<and> distinct (map cond_id (op_conditions x))"

lemma mode_field_in: "d \<in> set vals \<Longrightarrow> mode_field vals v k d \<in> set vals"
  by (auto simp: mode_field_def split: jsval.splits)

lemma set_in_modes [simp]: "''set'' \<in> set OPERATION_MODE_VALUES" "''full'' \<in> set CONDITION_MODE_VALUES"
  by (simp_all add: OPERATION_MODE_VALUES_def OPERATION_MODE_OPTIONS_def CONDITION_MODE_VALUES_def)

lemma normalizeCondition_Ok:
  "normalizeCondition clock n v = Ok (c, n') \<Longrightarrow> n' = Suc n \<and> cond_id c = nextLocalId clock n \<and> cond_ok c"
  by (auto simp: normalizeCondition_def cond_ok_def mode_field_in split: if_splits)

lemma normalizePruneRule_Ok:
  "normalizePruneRule clock n v = Ok (c, n') \<Longrightarrow> n' = Suc n \<and> cond_id c = nextLocalId clock n \<and> cond_ok c"
  by (auto simp: normalizePruneRule_def cond_ok_def mode_field_in split: if_splits)

interpretation made_cond: fresh_maker "normalizeCondition clock" cond_id "\<lambda>c. {cond_id c}" clock cond_ok for clock
  by unfold_locales (auto dest: normalizeCondition_Ok)

interpretation made_rule: fresh_maker "normalizePruneRule clock" cond_id "\<lambda>c. {cond_id c}" clock cond_ok for clock
  by unfold_locales (auto dest: normalizePruneRule_Ok)

lemma normalizeOperation_Ok:
  assumes "normalizeOperation clock n v = Ok (x, n')"
  shows "n < n' \<and> op_id x \<in> ids_in clock n n' \<and>
    op_id x = nextLocalId clock n \<and> op_ok x \<and> cond_id ` set (op_conditions x) \<subseteq> ids_in clock (Suc n) n'"
proof -
  obtain cs where cs: "(case get v ''conditions'' of Arr ds \<Rightarrow> map_fresh (normalizeCondition clock) (Suc n) ds | _ \<Rightarrow> Ok ([], Suc n)) = Ok (cs, n')"
      "op_conditions x = cs" and x: "op_id x = nextLocalId clock n" "op_mode x = mode_field OPERATION_MODE_VALUES v ''mode'' ''set''"
      "op_logic x \<in> {''AND'', ''OR''}"
    using assms by (auto simp: normalizeOperation_def bind_res_Ok_iff split: if_splits)
  have "Suc n \<le> n' \<and> cond_id ` set cs \<subseteq> ids_in clock (Suc n) n' \<and> distinct (map cond_id cs) \<and> list_all cond_ok cs"
  proof (cases "\<exists>ds. get v ''conditions'' = Arr ds")
    case True
    then obtain ds where "map_fresh (normalizeCondition clock) (Suc n) ds = Ok (cs, n')" using cs(1) by auto
    from made_cond.made_list [OF this] show ?thesis by auto
  next
    case False
    then show ?thesis using cs(1) by (auto split: jsval.splits)
  qed
  then show ?thesis using x cs(2) mode_field_in [of "''set''" OPERATION_MODE_VALUES v "''mode''"] by (simp add: op_ok_def)
qed

definition op_ids :: "operation \<Rightarrow> string set" where
  "op_ids x = insert (op_id x) (cond_id ` set (op_conditions x))"

lemma normalizeOperation_ids: "normalizeOperation clock n v = Ok (x, n') \<Longrightarrow> op_ids x \<subseteq> ids_in clock n n'"
  using normalizeOperation_Ok [of clock n v x n'] ids_in_mono [of n "Suc n" n' n' clock]
  by (auto simp: op_ids_def)

interpretation made_op: fresh_maker "normalizeOperation clock" op_id op_ids clock op_ok for clock
proof unfold_locales
  show "k < k' \<and> op_ids y \<subseteq> ids_in clock k k' \<and> op_ok y" if "normalizeOperation clock k x = Ok (y, k')" for k x y k'
    using normalizeOperation_Ok [OF that] normalizeOperation_ids [OF that] by simp
qed (simp add: op_ids_def)

section \<open>Runs of the editor\<close>

datatype po_event =
    Po_open jsval | Po_to_json | Po_to_visual | Po_group string | Po_preset string | Po_fill | Po_append
  | Po_reset | Po_legacy string | Po_add | Po_search string | Po_select string
  | Po_drag_start string | Po_drag_over bool string | Po_drop string string | Po_drag_end
  | Po_duplicate bool string | Po_remove string | Po_update string op_patch | Po_error string error_patch
  | Po_prune string prune_patch | Po_add_rule string | Po_update_rule string string cond_patch
  | Po_remove_rule string string | Po_format_value | Po_expand_all | Po_collapse_all | Po_add_cond string
  | Po_collapse string "string list" | Po_remove_cond string string | Po_update_cond string string cond_patch
  | Po_format_json | Po_json string | Po_example bool | Po_guide_open string | Po_guide_close
  | Po_guide_keyword string | Po_guide_target string | Po_copy_field string bool | Po_apply_field string string
  | Po_save

primrec run_po :: "(nat \<Rightarrow> nat) \<Rightarrow> translate \<Rightarrow> po_event \<Rightarrow> po_editor \<Rightarrow> po_editor res" where
  "run_po clock t (Po_open v) s = open_effect clock v s"
| "run_po clock t Po_to_json s = Ok (switchToJsonMode t s)"
| "run_po clock t Po_to_visual s = switchToVisualMode clock t s"
| "run_po clock t (Po_group g) s = Ok (s\<lparr>templateGroupKey := (if g = [] then ''basic'' else g)\<rparr>)"
| "run_po clock t (Po_preset k) s = Ok (s\<lparr>templatePresetKey := (if k = [] then ''operations_default'' else k)\<rparr>)"
| "run_po clock t Po_fill s = fillTemplateFromLibrary clock s"
| "run_po clock t Po_append s = appendTemplateFromLibrary clock t s"
| "run_po clock t Po_reset s = Ok (resetEditorState clock s)"
| "run_po clock t (Po_legacy v) s = Ok (s\<lparr>legacyValue := v\<rparr>)"
| "run_po clock t Po_add s = Ok (addOperation clock s)"
| "run_po clock t (Po_search v) s = Ok (s\<lparr>operationSearch := v\<rparr>)"
| "run_po clock t (Po_select i) s = Ok (s\<lparr>selectedOperationId := i\<rparr>)"
| "run_po clock t (Po_drag_start i) s = Ok (handleOperationDragStart i s)"
| "run_po clock t (Po_drag_over b i) s = Ok (handleOperationDragOver b i s)"
| "run_po clock t (Po_drop v i) s = Ok (handleOperationDrop v i s)"
| "run_po clock t Po_drag_end s = Ok (resetOperationDragState s)"
| "run_po clock t (Po_duplicate e i) s = duplicateOperation clock e i s"
| "run_po clock t (Po_remove i) s = Ok (removeOperation clock i s)"
| "run_po clock t (Po_update i p) s = Ok (updateOperation i p s)"
| "run_po clock t (Po_error i p) s = Ok (updateReturnErrorDraft i p s)"
| "run_po clock t (Po_prune i p) s = Ok (updatePruneObjectsDraft clock i (\<lambda>n d. (apply_prune_patch p d, n)) s)"
| "run_po clock t (Po_add_rule i) s = Ok (addPruneRule clock i s)"
| "run_po clock t (Po_update_rule i r p) s = Ok (updatePruneRule clock i r p s)"
| "run_po clock t (Po_remove_rule i r) s = Ok (removePruneRule clock i r s)"
| "run_po clock t Po_format_value s = Ok (formatSelectedOperationValueAsJson t s)"
| "run_po clock t Po_expand_all s = Ok (expandAllSelectedConditions s)"
| "run_po clock t Po_collapse_all s = Ok (collapseAllSelectedConditions s)"
| "run_po clock t (Po_add_cond i) s = Ok (addCondition clock i s)"
| "run_po clock t (Po_collapse i ks) s = Ok (handleConditionCollapseChange i ks s)"
| "run_po clock t (Po_remove_cond i c) s = Ok (removeCondition i c s)"
| "run_po clock t (Po_update_cond i c p) s = Ok (updateCondition i c p s)"
| "run_po clock t Po_format_json s = Ok (formatJson t s)"
| "run_po clock t (Po_json v) s = Ok (handleJsonChange t v s)"
| "run_po clock t (Po_example b) s = Ok (s\<lparr>headerValueExampleVisible := b\<rparr>)"
| "run_po clock t (Po_guide_open g) s = Ok (openFieldGuide g s)"
| "run_po clock t Po_guide_close s = Ok (s\<lparr>fieldGuideVisible := False\<rparr>)"
| "run_po clock t (Po_guide_keyword k) s = Ok (s\<lparr>fieldGuideKeyword := k\<rparr>)"
| "run_po clock t (Po_guide_target k) s = Ok (s\<lparr>fieldGuideTarget := (if k = [] then ''path'' else k)\<rparr>)"
| "run_po clock t (Po_copy_field k b) s = Ok (copyBuiltinField t k b s)"
| "run_po clock t (Po_apply_field k g) s = Ok (applyBuiltinField t k g s)"
| "run_po clock t Po_save s = Ok (po_handleSave t s)"

text \<open>
  What the dialog offers: modes, logic and templates are chosen from their lists; the other
  inputs are free.
\<close>

definition offered :: "po_event \<Rightarrow> bool" where
  "offered ev =
     (case ev of
        Po_update i p \<Rightarrow> (case p of P_mode m \<Rightarrow> m \<in> set OPERATION_MODE_VALUES | P_logic l \<Rightarrow> l \<in> {''AND'', ''OR''} | _ \<Rightarrow> True)
      | Po_update_cond i c p \<Rightarrow> (case p of C_mode m \<Rightarrow> m \<in> set CONDITION_MODE_VALUES | _ \<Rightarrow> True)
      | Po_group g \<Rightarrow> g \<in> {[], ''basic'', ''scenario''}
      | Po_preset k \<Rightarrow> k = [] \<or> k \<in> set (map fst TEMPLATE_PRESET_CONFIG)
      | _ \<Rightarrow> True)"

text \<open>
  One step: the component may have rendered any number of times, which draws ids that are thrown
  away; then a handler runs to its end and the effects run. A handler that throws sets no state.
\<close>

inductive po_step :: "(nat \<Rightarrow> nat) \<Rightarrow> translate \<Rightarrow> po_editor \<Rightarrow> po_editor \<Rightarrow> bool" for clock t where
  event: "offered ev \<Longrightarrow> localIdSeed s \<le> n \<Longrightarrow> run_po clock t ev (s\<lparr>localIdSeed := n\<rparr>) = Ok s' \<Longrightarrow>
    po_step clock t s (fix_preset (fix_selection s'))"
| abort: "offered ev \<Longrightarrow> localIdSeed s \<le> n \<Longrightarrow> run_po clock t ev (s\<lparr>localIdSeed := n\<rparr>) = Throw e \<Longrightarrow>
    po_step clock t s (s\<lparr>localIdSeed := n\<rparr>)"

text \<open>The invariant of the operations, and of the whole state once the effects have run.\<close>

definition ops_ok :: "(nat \<Rightarrow> nat) \<Rightarrow> nat \<Rightarrow> operation list \<Rightarrow> bool" where
  "ops_ok clock n ops \<longleftrightarrow> ops \<noteq> [] \<and> distinct (map op_id ops) \<and> list_all op_ok ops \<and>
     \<Union> (op_ids ` set ops) \<subseteq> ids_in clock 0 n"

definition po_pre :: "(nat \<Rightarrow> nat) \<Rightarrow> po_editor \<Rightarrow> bool" where
  "po_pre clock s \<longleftrightarrow> ops_ok clock (localIdSeed s) (operations s) \<and> editMode s \<in> {''visual'', ''json''} \<and>
     visualMode s \<in> {''operations'', ''legacy''} \<and> templateGroupKey s \<in> {''basic'', ''scenario''} \<and>
     templatePresetKey s \<in> set (map fst TEMPLATE_PRESET_CONFIG)"

definition po_ok :: "(nat \<Rightarrow> nat) \<Rightarrow> po_editor \<Rightarrow> bool" where
  "po_ok clock s \<longleftrightarrow> po_pre clock s \<and> (\<exists>x \<in> set (operations s). op_id x = selectedOperationId s) \<and>
     templatePresetKey s \<in> set (map fst (templatePresetOptions s))"

section \<open>The operations stay well formed\<close>

lemma ops_ok_mono: "ops_ok clock n ops \<Longrightarrow> n \<le> n' \<Longrightarrow> ops_ok clock n' ops"
  using ids_in_mono [of 0 0 n n' clock] unfolding ops_ok_def by (meson order_refl order_trans)

lemma createDefaultOperation_ok:
  "createDefaultOperation clock n = (x, n') \<Longrightarrow> ops_ok clock n' [x] \<and> n' = Suc n \<and> op_ok x \<and> op_ids x = {nextLocalId clock n} \<and> op_id x = nextLocalId clock n"
  by (auto simp: createDefaultOperation_def ops_ok_def op_ok_def op_ids_def)

lemma load_operations_ok:
  assumes "load_operations clock n os = Ok (ops, n')"
  shows "ops_ok clock n' ops \<and> n \<le> n'"
proof (cases "os = []")
  case True
  then show ?thesis using assms createDefaultOperation_ok [of clock n]
    by (cases "createDefaultOperation clock n") (auto simp: load_operations_def)
next
  case False
  then have "map_fresh (normalizeOperation clock) n os = Ok (ops, n')" using assms by (simp add: load_operations_def)
  from made_op.made_list [OF this] False ids_in_mono [of 0 n n' n' clock] show ?thesis
    by (auto simp: ops_ok_def)
qed

lemma ops_ok_append:
  assumes "ops_ok clock n xs \<or> xs = []" "list_all op_ok ys" "distinct (map op_id ys)" "\<Union> (op_ids ` set ys) \<subseteq> ids_in clock n n'"
    "n \<le> n'" "xs @ ys \<noteq> []"
  shows "ops_ok clock n' (xs @ ys)"
proof -
  have x: "distinct (map op_id xs)" "list_all op_ok xs" "\<Union> (op_ids ` set xs) \<subseteq> ids_in clock 0 n"
    using assms(1) by (auto simp: ops_ok_def)
  have "op_id x \<noteq> op_id y" if "x \<in> set xs" "y \<in> set ys" for x y
  proof -
    have "op_id x \<in> ids_in clock 0 n" "op_id y \<in> ids_in clock n n'" using that x(3) assms(4) by (auto simp: op_ids_def)
    then show ?thesis using ids_in_disjoint [of n n clock 0 n'] by auto
  qed
  moreover have "ids_in clock 0 n \<subseteq> ids_in clock 0 n'" "ids_in clock n n' \<subseteq> ids_in clock 0 n'"
    using assms(5) by (intro ids_in_mono; simp)+
  ultimately show ?thesis using x assms(2-4,6) by (auto simp: ops_ok_def)
qed

lemma ops_ok_subset:
  "ops_ok clock n ops \<Longrightarrow> set xs \<subseteq> set ops \<Longrightarrow> distinct (map op_id xs) \<Longrightarrow> xs \<noteq> [] \<Longrightarrow> ops_ok clock n xs"
  by (auto simp: ops_ok_def list_all_iff)

lemma ops_ok_map:
  assumes "ops_ok clock n ops" "n \<le> n'"
    and "\<And>x. x \<in> set ops \<Longrightarrow> op_ok x \<Longrightarrow> op_ids x \<subseteq> ids_in clock 0 n \<Longrightarrow>
      op_id (f x) = op_id x \<and> op_ok (f x) \<and> op_ids (f x) \<subseteq> ids_in clock 0 n'"
  shows "ops_ok clock n' (map f ops)"
proof -
  have f: "op_id (f x) = op_id x \<and> op_ok (f x) \<and> op_ids (f x) \<subseteq> ids_in clock 0 n'" if "x \<in> set ops" for x
    using assms(3) [OF that] assms(1) that by (auto simp: ops_ok_def list_all_iff)
  then have "map op_id (map f ops) = map op_id ops" by simp
  then show ?thesis using assms(1) f by (auto simp: ops_ok_def list_all_iff simp del: map_map)
qed

lemma update_op_ok:
  assumes "ops_ok clock n (operations s)" "n \<le> n'"
    and "\<And>x. op_ok x \<Longrightarrow> op_ids x \<subseteq> ids_in clock 0 n \<Longrightarrow> op_id (f x) = op_id x \<and> op_ok (f x) \<and> op_ids (f x) \<subseteq> ids_in clock 0 n'"
  shows "ops_ok clock n' (operations (update_op i f s))"
proof -
  have m: "ids_in clock 0 n \<subseteq> ids_in clock 0 n'" using assms(2) by (intro ids_in_mono) auto
  have "op_id (if op_id x = i then f x else x) = op_id x \<and> op_ok (if op_id x = i then f x else x) \<and>
      op_ids (if op_id x = i then f x else x) \<subseteq> ids_in clock 0 n'"
    if x: "op_ok x" "op_ids x \<subseteq> ids_in clock 0 n" for x
    using assms(3) [OF x] x(1) subset_trans [OF x(2) m] by (cases "op_id x = i") simp_all
  then show ?thesis unfolding update_op_def using ops_ok_map [OF assms(1,2)] by simp
qed


text \<open>The parts of the state that a handler may change, and the seed it may advance.\<close>

lemma single_operation_simps [simp]:
  "editMode (single_operation clock s) = editMode s" "visualMode (single_operation clock s) = visualMode s"
  "templateGroupKey (single_operation clock s) = templateGroupKey s"
  "templatePresetKey (single_operation clock s) = templatePresetKey s"
  by (simp_all add: single_operation_def split: prod.split)

lemma single_operation_ok:
  "ops_ok clock (localIdSeed (single_operation clock s)) (operations (single_operation clock s)) \<and>
   localIdSeed s \<le> localIdSeed (single_operation clock s)"
  using createDefaultOperation_ok [of clock "localIdSeed s"]
  by (cases "createDefaultOperation clock (localIdSeed s)") (simp add: single_operation_def)

lemma apply_patch_ok:
  assumes "offered (Po_update i p)" "op_ok x"
  shows "op_id (apply_patch p x) = op_id x \<and> op_ok (apply_patch p x) \<and> op_ids (apply_patch p x) = op_ids x"
  using assms by (cases p) (simp_all add: offered_def op_ok_def op_ids_def)

lemma updateOperation_ok:
  "ops_ok clock n (operations s) \<Longrightarrow> n \<le> n' \<Longrightarrow> offered (Po_update i p) \<Longrightarrow> ops_ok clock n' (operations (updateOperation i p s))"
  unfolding updateOperation_def using ids_in_mono [of 0 0 n n' clock]
  by (erule_tac update_op_ok) (simp_all add: apply_patch_ok subset_trans)

lemma op_cond_update_ok:
  assumes "op_ok x" "op_ids x \<subseteq> ids_in clock 0 n" "n \<le> n'" "list_all cond_ok cs" "distinct (map cond_id cs)"
    "cond_id ` set cs \<subseteq> ids_in clock 0 n'"
  shows "op_ok (x\<lparr>op_conditions := cs\<rparr>) \<and> op_ids (x\<lparr>op_conditions := cs\<rparr>) \<subseteq> ids_in clock 0 n'"
  using assms ids_in_mono [of 0 0 n n' clock] by (auto simp: op_ok_def op_ids_def)

lemma update_cond_ids [simp]: "map cond_id (update_cond i p cs) = map cond_id cs"
  by (auto simp: update_cond_def intro: cond_patch.exhaust [of p])

lemma update_cond_ok: "list_all cond_ok cs \<Longrightarrow> offered (Po_update_cond j i p) \<Longrightarrow> list_all cond_ok (update_cond i p cs)"
  by (cases p) (auto simp: update_cond_def list_all_iff cond_ok_def offered_def)

lemma remove_at_set: "distinct xs \<Longrightarrow> i < length xs \<Longrightarrow> set (remove_at i xs) = set xs - {xs ! i}"
proof -
  assume d: "distinct xs" "i < length xs"
  then have "xs = take i xs @ xs ! i # drop (Suc i) xs" by (simp add: id_take_nth_drop)
  then have "set xs = set (take i xs) \<union> insert (xs ! i) (set (drop (Suc i) xs))" "distinct (take i xs @ xs ! i # drop (Suc i) xs)"
    using d(1) by (metis list.simps(15) set_append, simp)
  then show "set (remove_at i xs) = set xs - {xs ! i}" by (auto simp: remove_at_def)
qed

lemma find_index_Some: "find_index P xs = Some i \<Longrightarrow> i < length xs \<and> P (xs ! i) \<and> (\<forall>j < i. \<not> P (xs ! j))"
proof -
  assume f: "find_index P xs = Some i"
  then have ex: "\<exists>x \<in> set xs. P x" and i: "i = length (takeWhile (\<lambda>x. \<not> P x) xs)"
    by (auto simp: find_index_def split: if_splits)
  have "takeWhile (\<lambda>x. \<not> P x) xs \<noteq> xs" using ex by (auto simp: takeWhile_eq_all_conv)
  then have "i < length xs" unfolding i by (metis length_takeWhile_le linorder_neqE_nat not_le takeWhile_eq_take take_all_iff order_refl)
  moreover have "P (xs ! i)" using nth_length_takeWhile [of "\<lambda>x. \<not> P x" xs] calculation i by simp
  moreover have "\<not> P (xs ! j)" if "j < i" for j using that i by (metis nth_mem set_takeWhileD takeWhile_nth)
  ultimately show ?thesis by blast
qed

lemma find_index_None: "find_index P xs = None \<longleftrightarrow> (\<forall>x \<in> set xs. \<not> P x)"
  by (simp add: find_index_def)

lemma reorder_cases:
  obtains "reorderOperations ops a b p = ops"
  | i j where "i < length ops" "op_id (ops ! i) = a" "j < length (remove_at i ops)" "op_id (remove_at i ops ! j) = b" "a \<noteq> b"
      "reorderOperations ops a b p = insert_at (if p = ''after'' then j + 1 else j) (ops ! i) (remove_at i ops)"
proof (cases "a = [] \<or> b = [] \<or> a = b \<or> find_index (\<lambda>x. op_id x = a) ops = None")
  case True
  then show thesis using that(1) by (auto simp: reorderOperations_def)
next
  case False
  then obtain i where i: "find_index (\<lambda>x. op_id x = a) ops = Some i" by auto
  show thesis
  proof (cases "find_index (\<lambda>x. op_id x = b) (remove_at i ops)")
    case None
    then show ?thesis using that(1) False i by (simp add: reorderOperations_def)
  next
    case (Some j)
    then show ?thesis using that(2) [of i j] False i find_index_Some [OF i] find_index_Some [OF Some]
      by (simp add: reorderOperations_def)
  qed
qed

lemma mset_remove_at: "i < length xs \<Longrightarrow> mset (remove_at i xs) = mset xs - {#xs ! i#}"
  using id_take_nth_drop [of i xs] by (metis add_mset_remove_trivial mset.simps(2) mset_append remove_at_def union_mset_add_mset_right)

lemma mset_insert_at: "mset (insert_at i x xs) = add_mset x (mset xs)"
  by (metis append_take_drop_id insert_at_def mset.simps(2) mset_append union_mset_add_mset_right)

lemma mset_reorder: "mset (reorderOperations ops a b p) = mset ops"
  by (rule reorder_cases [of ops a b p]) (auto simp: mset_insert_at mset_remove_at)

lemma ops_ok_mset:
  assumes "mset xs = mset ops"
  shows "ops_ok clock n xs = ops_ok clock n ops"
proof -
  have "set xs = set ops" using assms by (rule mset_eq_setD)
  moreover have "distinct (map op_id xs) = distinct (map op_id ops)"
    using assms by (metis mset_eq_imp_distinct_iff mset_map)
  moreover have "xs = [] \<longleftrightarrow> ops = []" using assms by (metis mset_zero_iff)
  ultimately show ?thesis by (simp add: ops_ok_def list_all_iff)
qed

section \<open>Every handler keeps the invariant\<close>

lemma preset_keys: "''operations_default'' \<in> set (map fst TEMPLATE_PRESET_CONFIG)" "''legacy_default'' \<in> set (map fst TEMPLATE_PRESET_CONFIG)"
  by (simp_all add: TEMPLATE_PRESET_CONFIG_def)

lemma po_preD:
  "po_pre clock s \<Longrightarrow> ops_ok clock (localIdSeed s) (operations s)"
  by (simp add: po_pre_def)

lemma po_pre_ops:
  assumes "po_pre clock s" "ops_ok clock n ops" "operations s' = ops" "localIdSeed s' = n" "editMode s' \<in> {''visual'', ''json''}"
    "visualMode s' \<in> {''operations'', ''legacy''}" "templateGroupKey s' \<in> {templateGroupKey s, ''basic''}"
    "templatePresetKey s' \<in> {templatePresetKey s, ''operations_default'', ''legacy_default''}"
  shows "po_pre clock s'"
  using assms preset_keys by (simp add: po_pre_def del: set_map) (metis insertE singletonD)

lemma po_pre_irrelevant [simp]:
  "po_pre clock (s\<lparr>legacyValue := a\<rparr>) = po_pre clock s" "po_pre clock (s\<lparr>operationSearch := a\<rparr>) = po_pre clock s"
  "po_pre clock (s\<lparr>selectedOperationId := a\<rparr>) = po_pre clock s" "po_pre clock (s\<lparr>draggedOperationId := a\<rparr>) = po_pre clock s"
  "po_pre clock (s\<lparr>dragOverOperationId := a\<rparr>) = po_pre clock s" "po_pre clock (s\<lparr>dragOverPosition := a\<rparr>) = po_pre clock s"
  "po_pre clock (s\<lparr>expandedConditionMap := m\<rparr>) = po_pre clock s" "po_pre clock (s\<lparr>jsonText := a\<rparr>) = po_pre clock s"
  "po_pre clock (s\<lparr>jsonError := a\<rparr>) = po_pre clock s" "po_pre clock (s\<lparr>headerValueExampleVisible := b\<rparr>) = po_pre clock s"
  "po_pre clock (s\<lparr>fieldGuideVisible := b\<rparr>) = po_pre clock s" "po_pre clock (s\<lparr>fieldGuideTarget := a\<rparr>) = po_pre clock s"
  "po_pre clock (s\<lparr>fieldGuideKeyword := a\<rparr>) = po_pre clock s" "po_pre clock (s\<lparr>saved_texts := l\<rparr>) = po_pre clock s"
  "po_pre clock (po_show m' s) = po_pre clock s"
  by (simp_all add: po_pre_def po_show_def)

lemma po_pre_seed: "po_pre clock s \<Longrightarrow> localIdSeed s \<le> n \<Longrightarrow> po_pre clock (s\<lparr>localIdSeed := n\<rparr>)"
  by (auto simp: po_pre_def intro: ops_ok_mono)

lemma set_expanded_pre [simp]: "po_pre clock (set_expanded i ks s) = po_pre clock s"
  by (simp add: set_expanded_def)

lemma parseInitialState_Ok:
  assumes "parseInitialState clock n v = Ok (st, n')"
  shows "ops_ok clock n' (in_operations st) \<and> in_editMode st \<in> {''visual'', ''json''} \<and> in_visualMode st \<in> {''operations'', ''legacy''}"
proof -
  obtain d k where d: "createDefaultOperation clock n = (d, k)" by (cases "createDefaultOperation clock n")
  note dk = conjunct1 [OF createDefaultOperation_ok [OF d]]
  show ?thesis using assms dk
    by (clarsimp simp: parseInitialState_def d Let_def bind_res_Ok_iff split: if_splits res.splits option.splits)
      (drule load_operations_ok, simp)+
qed

lemma open_effect_pre:
  assumes "po_pre clock s" "open_effect clock v s = Ok s'"
  shows "po_pre clock s'"
proof -
  obtain st n where st: "parseInitialState clock (localIdSeed s) v = Ok (st, n)"
    and s': "operations s' = in_operations st" "localIdSeed s' = n" "editMode s' = in_editMode st" "visualMode s' = in_visualMode st"
      "templateGroupKey s' = ''basic''" "templatePresetKey s' \<in> {''legacy_default'', ''operations_default''}"
    using assms(2) by (simp add: open_effect_def bind_res_Ok_iff) force
  show ?thesis
    by (rule po_pre_ops [OF assms(1)]) (use parseInitialState_Ok [OF st] s' in auto)
qed

lemma single_pre:
  assumes "po_pre clock s" "operations s' = operations (single_operation clock s)" "localIdSeed s' = localIdSeed (single_operation clock s)"
    "editMode s' \<in> {''visual'', ''json''}" "visualMode s' \<in> {''operations'', ''legacy''}"
    "templateGroupKey s' \<in> {templateGroupKey s, ''basic''}"
    "templatePresetKey s' \<in> {templatePresetKey s, ''operations_default'', ''legacy_default''}"
  shows "po_pre clock s'"
  using po_pre_ops [OF assms(1) _ refl refl assms(4-7)] single_operation_ok [of clock s] assms(2,3) by simp

lemma switchToJsonMode_pre: "po_pre clock s \<Longrightarrow> po_pre clock (switchToJsonMode t s)"
proof -
  assume s: "po_pre clock s"
  have "operations (switchToJsonMode t s) = operations s" "localIdSeed (switchToJsonMode t s) = localIdSeed s"
    "visualMode (switchToJsonMode t s) = visualMode s" "templateGroupKey (switchToJsonMode t s) = templateGroupKey s"
    "templatePresetKey (switchToJsonMode t s) = templatePresetKey s" "editMode (switchToJsonMode t s) = ''json''"
    by (simp_all add: switchToJsonMode_def Let_def po_show_def split: res.split)
  then show ?thesis using s by (simp add: po_pre_def)
qed

lemma load_pre:
  assumes "po_pre clock s" "load_operations clock (localIdSeed s) os = Ok (ops, n)" "operations s' = ops" "localIdSeed s' = n"
    "editMode s' \<in> {''visual'', ''json''}" "visualMode s' \<in> {''operations'', ''legacy''}"
    "templateGroupKey s' \<in> {templateGroupKey s, ''basic''}"
    "templatePresetKey s' \<in> {templatePresetKey s, ''operations_default'', ''legacy_default''}"
  shows "po_pre clock s'"
  using po_pre_ops [OF assms(1) _ assms(3-8)] load_operations_ok [OF assms(2)] by blast

lemma switchToVisualMode_pre:
  "po_pre clock s \<Longrightarrow> switchToVisualMode clock t s = Ok s' \<Longrightarrow> po_pre clock s'"
  by (clarsimp simp: switchToVisualMode_def Let_def bind_res_Ok_iff split: if_splits res.splits option.splits;
      (erule (1) load_pre | erule single_pre)?; simp)

lemma presets_have_operations:
  "list_all (\<lambda>(k, p). pre_kind p = ''legacy'' \<or> arr_elems (get (pre_payload p) ''operations'') \<noteq> []) TEMPLATE_PRESET_CONFIG"
  by (simp add: TEMPLATE_PRESET_CONFIG_def preset_of_def OPERATION_TEMPLATE_def HEADER_PASSTHROUGH_TEMPLATE_def
      GEMINI_IMAGE_4K_TEMPLATE_def CLAUDE_CLI_HEADER_PASSTHROUGH_TEMPLATE_def CODEX_CLI_HEADER_PASSTHROUGH_TEMPLATE_def
      AWS_BEDROCK_ANTHROPIC_COMPAT_TEMPLATE_def buildPassHeadersTemplate_def arr_elems_def)

lemma preset_operations:
  "pre_kind (getSelectedTemplatePreset s) \<noteq> ''legacy'' \<Longrightarrow> arr_elems (get (pre_payload (getSelectedTemplatePreset s)) ''operations'') \<noteq> []"
proof -
  have "TEMPLATE_PRESET_CONFIG \<noteq> []" by (simp add: TEMPLATE_PRESET_CONFIG_def)
  then have "\<exists>k. (k, getSelectedTemplatePreset s) \<in> set TEMPLATE_PRESET_CONFIG"
    by (auto simp: getSelectedTemplatePreset_def dest: map_of_SomeD split: option.split) (metis list.set_sel(1) prod.collapse)
  then show "pre_kind (getSelectedTemplatePreset s) \<noteq> ''legacy'' \<Longrightarrow> ?thesis"
    using presets_have_operations by (auto simp: list_all_iff)
qed

lemma fillTemplateFromLibrary_pre:
  "po_pre clock s \<Longrightarrow> fillTemplateFromLibrary clock s = Ok s' \<Longrightarrow> po_pre clock s'"
  by (clarsimp simp: fillTemplateFromLibrary_def fillLegacyTemplate_def fillOperationsTemplate_def Let_def bind_res_Ok_iff split: if_splits;
      (erule (1) load_pre | erule single_pre)?; simp)

lemma appendLegacyTemplate_pre: "po_pre clock s \<Longrightarrow> po_pre clock (appendLegacyTemplate clock t payload s)"
  by (simp add: appendLegacyTemplate_def Let_def split: res.split; intro conjI impI allI; erule single_pre; simp)

lemma appendOperationsTemplate_pre:
  assumes "po_pre clock s" "payload \<noteq> []" "appendOperationsTemplate clock payload s = Ok s'"
  shows "po_pre clock s'"
proof -
  obtain ys n where y: "map_fresh (normalizeOperation clock) (localIdSeed s) payload = Ok (ys, n)"
    and s': "operations s' = (if visualMode s = ''operations'' then filter (\<lambda>x. \<not> isOperationBlank x) (operations s) else []) @ ys"
      "localIdSeed s' = n" "editMode s' = ''visual''" "visualMode s' = ''operations''"
      "templateGroupKey s' = templateGroupKey s" "templatePresetKey s' = templatePresetKey s"
    using assms(3) by (auto simp: appendOperationsTemplate_def bind_res_Ok_iff Let_def)
  have m: "localIdSeed s \<le> n" "length ys = length payload" "\<Union> (op_ids ` set ys) \<subseteq> ids_in clock (localIdSeed s) n" "distinct (map op_id ys)" "list_all op_ok ys"
    using made_op.made_list [OF y] by auto
  let ?xs = "if visualMode s = ''operations'' then filter (\<lambda>x. \<not> isOperationBlank x) (operations s) else []"
  have "ops_ok clock (localIdSeed s) ?xs \<or> ?xs = []"
    using ops_ok_subset [OF po_preD [OF assms(1)], of ?xs] po_preD [OF assms(1)]
    by (auto simp: ops_ok_def distinct_map_filter)
  then have "ops_ok clock n (?xs @ ys)" using m assms(2) by (intro ops_ok_append) auto
  then show ?thesis using s' by (intro po_pre_ops [OF assms(1)]) auto
qed

lemma appendTemplateFromLibrary_pre:
  "po_pre clock s \<Longrightarrow> appendTemplateFromLibrary clock t s = Ok s' \<Longrightarrow> po_pre clock s'"
  by (cases "pre_kind (getSelectedTemplatePreset s) = ''legacy''")
    (auto simp: appendTemplateFromLibrary_def Let_def appendLegacyTemplate_pre intro: appendOperationsTemplate_pre [OF _ preset_operations])

lemma resetEditorState_pre: "po_pre clock s \<Longrightarrow> po_pre clock (resetEditorState clock s)"
  by (simp add: resetEditorState_def clearValue_def, erule single_pre) simp_all

lemma update_op_simps [simp]:
  "localIdSeed (update_op i f s) = localIdSeed s" "editMode (update_op i f s) = editMode s" "visualMode (update_op i f s) = visualMode s"
  "templateGroupKey (update_op i f s) = templateGroupKey s" "templatePresetKey (update_op i f s) = templatePresetKey s"
  by (simp_all add: update_op_def)

lemma update_op_pre:
  assumes "po_pre clock s" "localIdSeed s \<le> n"
    and "\<And>x. op_ok x \<Longrightarrow> op_ids x \<subseteq> ids_in clock 0 (localIdSeed s) \<Longrightarrow>
      op_id (f x) = op_id x \<and> op_ok (f x) \<and> op_ids (f x) \<subseteq> ids_in clock 0 n"
  shows "po_pre clock ((update_op i f s)\<lparr>localIdSeed := n\<rparr>)"
  using update_op_ok [OF po_preD [OF assms(1)] assms(2,3), of i] assms(1) by (simp add: po_pre_def)

lemma updateOperation_pre:
  assumes "po_pre clock s" "offered (Po_update i p)"
  shows "po_pre clock (updateOperation i p s)"
  using updateOperation_ok [OF po_preD [OF assms(1)] order_refl assms(2)] assms(1)
  by (simp add: po_pre_def updateOperation_def)

lemma offered_text [simp]:
  "offered (Po_update i (P_value v))" "offered (Po_update i (P_path v))" "offered (Po_update i (P_from v))" "offered (Po_update i (P_to v))"
  by (simp_all add: offered_def)

lemma field_pre:
  assumes "po_pre clock s"
  shows "po_pre clock (applyBuiltinField t k g s)" "po_pre clock (formatSelectedOperationValueAsJson t s)"
    "po_pre clock (updateReturnErrorDraft i e s)" "po_pre clock (copyBuiltinField t k b s)"
  using assms
  by (simp_all add: applyBuiltinField_def formatSelectedOperationValueAsJson_def updateReturnErrorDraft_def copyBuiltinField_def
      Let_def updateOperation_pre split: option.split res.split)

lemma parsePruneObjectsDraft_seed: "n \<le> snd (parsePruneObjectsDraft clock n u)"
proof (cases "trim u = []")
  case False
  show ?thesis
    using False by (auto simp: parsePruneObjectsDraft_def Let_def dest: made_rule.made_list split: res.split jsval.split)
qed (simp add: parsePruneObjectsDraft_def)

lemma prune_pre:
  assumes "po_pre clock s" "\<And>n d. n \<le> snd (f n d)"
  shows "po_pre clock (updatePruneObjectsDraft clock i f s)"
proof (cases "find (\<lambda>x. op_id x = i) (operations s)")
  case (Some x)
  obtain d n where d: "parsePruneObjectsDraft clock (localIdSeed s) (op_value_text x) = (d, n)"
    by (cases "parsePruneObjectsDraft clock (localIdSeed s) (op_value_text x)")
  obtain d' n' where d': "f n d = (d', n')" by (cases "f n d")
  have "localIdSeed s \<le> n'" using parsePruneObjectsDraft_seed [of "localIdSeed s" clock "op_value_text x"] assms(2) [of n d] d d' by simp
  then have "po_pre clock ((updateOperation i (P_value (buildPruneObjectsValueText d')) s)\<lparr>localIdSeed := n'\<rparr>)"
    by (intro po_pre_seed updateOperation_pre assms(1)) (simp_all add: updateOperation_def)
  then show ?thesis by (simp add: updatePruneObjectsDraft_def Some d d')
qed (simp add: updatePruneObjectsDraft_def assms(1))

lemma prune_rule_pre:
  assumes "po_pre clock s"
  shows "po_pre clock (addPruneRule clock i s)" "po_pre clock (updatePruneRule clock i r p s)" "po_pre clock (removePruneRule clock i r s)"
  unfolding addPruneRule_def updatePruneRule_def removePruneRule_def
  by (rule prune_pre [OF assms]; simp add: createDefaultCondition_def)+

lemma createDefaultOperation_new:
  "createDefaultOperation clock n = (x, n') \<Longrightarrow> n \<le> n' \<and> list_all op_ok [x] \<and> distinct (map op_id [x]) \<and> \<Union> (op_ids ` set [x]) \<subseteq> ids_in clock n n'"
  using createDefaultOperation_ok [of clock n x n'] by simp

lemma addOperation_pre:
  assumes "po_pre clock s"
  shows "po_pre clock (addOperation clock s)"
proof -
  obtain x n where x: "createDefaultOperation clock (localIdSeed s) = (x, n)" by (cases "createDefaultOperation clock (localIdSeed s)")
  have "ops_ok clock n (operations s @ [x])"
    using createDefaultOperation_new [OF x] po_preD [OF assms] by (intro ops_ok_append [where n = "localIdSeed s"]) blast+
  then show ?thesis using assms by (simp add: addOperation_def x po_pre_def)
qed

lemma drop_pre: "po_pre clock s \<Longrightarrow> po_pre clock (handleOperationDrop v i s)"
  by (simp add: handleOperationDrop_def resetOperationDragState_def moveOperation_def Let_def)
    (simp add: po_pre_def ops_ok_mset [OF mset_reorder])

lemma duplicateOperation_pre:
  assumes "po_pre clock s" "duplicateOperation clock e i s = Ok s'"
  shows "po_pre clock s'"
proof (cases "find_index (\<lambda>x. op_id x = i) (operations s)")
  case (Some k)
  obtain x n where x: "normalizeOperation clock (localIdSeed s) (clone_source (operations s ! k)) = Ok (x, n)"
    and s': "operations s' = insert_at (k + 1) x (operations s)" "localIdSeed s' = n" "editMode s' = editMode s"
      "visualMode s' = visualMode s" "templateGroupKey s' = templateGroupKey s" "templatePresetKey s' = templatePresetKey s"
    using assms(2) Some by (fastforce simp: duplicateOperation_def bind_res_Ok_iff Let_def)
  have "ops_ok clock n (operations s @ [x])"
    using made_op.made [OF x] po_preD [OF assms(1)] by (intro ops_ok_append [where n = "localIdSeed s"]) simp_all
  then have "ops_ok clock n (operations s')"
    by (simp add: s'(1) ops_ok_mset [of "insert_at (Suc k) x (operations s)" "operations s @ [x]"] mset_insert_at)
  then show ?thesis using s' assms(1) by (simp add: po_pre_def)
qed (use assms in \<open>simp add: duplicateOperation_def\<close>)

lemma removeOperation_pre:
  assumes "po_pre clock s"
  shows "po_pre clock (removeOperation clock i s)"
proof (cases "length (operations s) \<le> 1")
  case True
  obtain x n where x: "createDefaultOperation clock (localIdSeed s) = (x, n)" by (cases "createDefaultOperation clock (localIdSeed s)")
  then show ?thesis using True conjunct1 [OF createDefaultOperation_ok [OF x]] assms by (simp add: removeOperation_def Let_def po_pre_def)
next
  case False
  have o: "ops_ok clock (localIdSeed s) (operations s)" using assms by (rule po_preD)
  have "filter (\<lambda>x. op_id x \<noteq> i) (operations s) \<noteq> []"
  proof
    assume "filter (\<lambda>x. op_id x \<noteq> i) (operations s) = []"
    then have "\<forall>x \<in> set (operations s). op_id x = i" by (auto simp: filter_empty_conv)
    then have "set (map op_id (operations s)) \<subseteq> {i}" by auto
    then have "length (map op_id (operations s)) \<le> 1"
      using o by (metis ops_ok_def card_mono distinct_card finite.emptyI finite_insert is_singletonI is_singleton_altdef)
    then show False using False by simp
  qed
  then have "ops_ok clock (localIdSeed s) (filter (\<lambda>x. op_id x \<noteq> i) (operations s))"
    using o by (intro ops_ok_subset [OF o]) (simp_all add: ops_ok_def distinct_map_filter)
  then show ?thesis using False assms by (simp add: removeOperation_def Let_def po_pre_def)
qed

lemma addCondition_pre:
  assumes "po_pre clock s"
  shows "po_pre clock (addCondition clock i s)"
proof -
  let ?n = "localIdSeed s"
  obtain c where c: "createDefaultCondition clock ?n = (c, Suc ?n)" "cond_id c = nextLocalId clock ?n" "cond_ok c"
    by (simp add: createDefaultCondition_def cond_ok_def)
  have "po_pre clock ((update_op i (\<lambda>x. x\<lparr>op_conditions := op_conditions x @ [c]\<rparr>) s)\<lparr>localIdSeed := Suc ?n\<rparr>)"
  proof (rule update_op_pre [OF assms])
    fix x assume x: "op_ok x" "op_ids x \<subseteq> ids_in clock 0 ?n"
    then have "nextLocalId clock ?n \<notin> op_ids x" by (metis less_irrefl nextLocalId_in subsetD)
    then show "op_id (x\<lparr>op_conditions := op_conditions x @ [c]\<rparr>) = op_id x \<and> op_ok (x\<lparr>op_conditions := op_conditions x @ [c]\<rparr>) \<and>
        op_ids (x\<lparr>op_conditions := op_conditions x @ [c]\<rparr>) \<subseteq> ids_in clock 0 (Suc ?n)"
      using x c(2,3) ids_in_mono [of 0 0 ?n "Suc ?n" clock] by (auto simp: op_ok_def op_ids_def)
  qed simp
  then show ?thesis by (simp add: addCondition_def c)
qed

lemma cond_edit_pre:
  assumes "po_pre clock s"
    and "\<And>cs. list_all cond_ok cs \<Longrightarrow> list_all cond_ok (g cs)" "\<And>cs. distinct (map cond_id cs) \<Longrightarrow> distinct (map cond_id (g cs))"
    and "\<And>cs. cond_id ` set (g cs) \<subseteq> cond_id ` set cs"
  shows "po_pre clock (update_op i (\<lambda>x. x\<lparr>op_conditions := g (op_conditions x)\<rparr>) s)"
proof -
  have "po_pre clock ((update_op i (\<lambda>x. x\<lparr>op_conditions := g (op_conditions x)\<rparr>) s)\<lparr>localIdSeed := localIdSeed s\<rparr>)"
  proof (rule update_op_pre [OF assms(1)])
    fix x assume x: "op_ok x" "op_ids x \<subseteq> ids_in clock 0 (localIdSeed s)"
    show "op_id (x\<lparr>op_conditions := g (op_conditions x)\<rparr>) = op_id x \<and> op_ok (x\<lparr>op_conditions := g (op_conditions x)\<rparr>) \<and>
        op_ids (x\<lparr>op_conditions := g (op_conditions x)\<rparr>) \<subseteq> ids_in clock 0 (localIdSeed s)"
      using x assms(2-3) [of "op_conditions x"] assms(4) [of "op_conditions x"] by (auto simp: op_ok_def op_ids_def)
  qed simp
  then show ?thesis by (simp add: update_op_def)
qed

lemma conditions_pre:
  assumes "po_pre clock s"
  shows "offered (Po_update_cond i c p) \<Longrightarrow> po_pre clock (updateCondition i c p s)" "po_pre clock (removeCondition i c s)"
proof -
  show "po_pre clock (updateCondition i c p s)" if "offered (Po_update_cond i c p)"
    unfolding updateCondition_def
  proof (rule cond_edit_pre [OF assms, where g = "update_cond c p"])
    show "cond_id ` set (update_cond c p cs) \<subseteq> cond_id ` set cs" for cs by (metis list.set_map order_refl update_cond_ids)
  qed (use that update_cond_ok in \<open>simp_all\<close>)
  show "po_pre clock (removeCondition i c s)" unfolding removeCondition_def set_expanded_pre
    by (rule cond_edit_pre [OF assms, where g = "remove_cond c"]; simp add: remove_cond_def list_all_iff distinct_map_filter image_subset_iff)
qed

lemma view_pre:
  assumes "po_pre clock s"
  shows "po_pre clock (handleJsonChange t v s)" "po_pre clock (formatJson t s)" "po_pre clock (po_handleSave t s)"
    "po_pre clock (handleConditionCollapseChange i ks s)" "po_pre clock (expandAllSelectedConditions s)"
    "po_pre clock (collapseAllSelectedConditions s)" "po_pre clock (openFieldGuide g s)" "po_pre clock (handleOperationDragStart i s)"
    "po_pre clock (handleOperationDragOver b i s)" "po_pre clock (resetOperationDragState s)"
  using assms
  by (simp_all add: handleJsonChange_def formatJson_def po_handleSave_def handleConditionCollapseChange_def
      expandAllSelectedConditions_def collapseAllSelectedConditions_def openFieldGuide_def handleOperationDragStart_def
      handleOperationDragOver_def resetOperationDragState_def Let_def split: res.split option.split)

lemmas handler_pre = switchToJsonMode_pre resetEditorState_pre addOperation_pre drop_pre removeOperation_pre
  updateOperation_pre field_pre prune_rule_pre addCondition_pre conditions_pre view_pre

lemma choice_pre:
  assumes "po_pre clock s"
  shows "g \<in> {''basic'', ''scenario''} \<Longrightarrow> po_pre clock (s\<lparr>templateGroupKey := g\<rparr>)"
    "k \<in> set (map fst TEMPLATE_PRESET_CONFIG) \<Longrightarrow> po_pre clock (s\<lparr>templatePresetKey := k\<rparr>)"
  using assms by (simp_all add: po_pre_def)

lemma run_po_pre:
  assumes "po_pre clock s" "offered ev" "run_po clock t ev s = Ok s'"
  shows "po_pre clock s'"
proof (cases ev)
  case (Po_group g)
  then have "s' = s\<lparr>templateGroupKey := (if g = [] then ''basic'' else g)\<rparr>" using assms(3) by simp
  moreover have "(if g = [] then ''basic'' else g) \<in> {''basic'', ''scenario''}" using assms(2) Po_group by (simp add: offered_def) blast
  ultimately show ?thesis using choice_pre(1) [OF assms(1)] by blast
next
  case (Po_preset k)
  then have "s' = s\<lparr>templatePresetKey := (if k = [] then ''operations_default'' else k)\<rparr>" using assms(3) by simp
  moreover have "(if k = [] then ''operations_default'' else k) \<in> set (map fst TEMPLATE_PRESET_CONFIG)"
    using assms(2) Po_preset preset_keys(1) by (simp add: offered_def) blast
  ultimately show ?thesis using choice_pre(2) [OF assms(1)] by blast
next
  case (Po_prune i p)
  then show ?thesis using assms prune_pre [OF assms(1), of "\<lambda>n d. (apply_prune_patch p d, n)" i] by simp
next
  case (Po_open v)
  then show ?thesis using open_effect_pre [OF assms(1)] assms(3) by (simp only: run_po.simps)
next
  case Po_to_visual
  then show ?thesis using switchToVisualMode_pre [OF assms(1)] assms(3) by (simp only: run_po.simps)
next
  case Po_fill
  then show ?thesis using fillTemplateFromLibrary_pre [OF assms(1)] assms(3) by (simp only: run_po.simps)
next
  case Po_append
  then show ?thesis using appendTemplateFromLibrary_pre [OF assms(1)] assms(3) by (simp only: run_po.simps)
next
  case (Po_duplicate e i)
  then show ?thesis using duplicateOperation_pre [OF assms(1)] assms(3) by (simp only: run_po.simps)
qed (insert assms, (simp only: run_po.simps res.inject, hypsubst, simp add: handler_pre)+)


lemma fix_selection_ok:
  assumes "po_pre clock s"
  shows "po_pre clock (fix_selection s) \<and> (\<exists>x \<in> set (operations (fix_selection s)). op_id x = selectedOperationId (fix_selection s))"
proof -
  have "operations s \<noteq> []" using po_preD [OF assms] by (simp add: ops_ok_def)
  then have "hd (operations s) \<in> set (operations s)" by simp
  then have "\<exists>x \<in> set (operations s). op_id x = op_id (hd (operations s))" by (intro bexI [of _ "hd (operations s)"]) simp_all
  then show ?thesis using assms \<open>operations s \<noteq> []\<close> by (simp add: fix_selection_def)
qed

lemma preset_options_nonempty: "g \<in> {''basic'', ''scenario''} \<Longrightarrow> templateGroupKey s = g \<Longrightarrow> templatePresetOptions s \<noteq> []"
  by (elim insertE) (simp_all add: templatePresetOptions_def TEMPLATE_PRESET_CONFIG_def preset_of_def)

lemma fix_preset_simps [simp]:
  "operations (fix_preset s) = operations s" "selectedOperationId (fix_preset s) = selectedOperationId s"
  "templateGroupKey (fix_preset s) = templateGroupKey s" "templatePresetOptions (fix_preset s) = templatePresetOptions s"
  by (simp_all add: fix_preset_def Let_def templatePresetOptions_def)

lemma preset_options_known: "set (map fst (templatePresetOptions s)) \<subseteq> set (map fst TEMPLATE_PRESET_CONFIG)"
  by (force simp: templatePresetOptions_def)

lemma fix_preset_ok:
  assumes "po_pre clock s"
  shows "po_pre clock (fix_preset s) \<and> templatePresetKey (fix_preset s) \<in> set (map fst (templatePresetOptions s))"
proof (cases "templatePresetKey s \<in> set (map fst (templatePresetOptions s))")
  case True
  then have "fix_preset s = s" unfolding fix_preset_def Let_def by (simp only: if_True if_cancel)
  then show ?thesis using assms True by (simp only: simp_thms)
next
  case False
  have n: "map fst (templatePresetOptions s) \<noteq> []"
    using preset_options_nonempty [of "templateGroupKey s" s] assms by (simp add: po_pre_def)
  then have h: "hd (map fst (templatePresetOptions s)) \<in> set (map fst (templatePresetOptions s))" by (rule hd_in_set)
  have e: "fix_preset s = s\<lparr>templatePresetKey := hd (map fst (templatePresetOptions s))\<rparr>"
    unfolding fix_preset_def Let_def using n False by (simp only: if_False)
  show ?thesis unfolding e
    using choice_pre(2) [OF assms subsetD [OF preset_options_known h]] h by (simp del: set_map)
qed

lemma effects_ok: "po_pre clock s \<Longrightarrow> po_ok clock (fix_preset (fix_selection s))"
  using fix_selection_ok [of clock s] fix_preset_ok [of clock "fix_selection s"] unfolding po_ok_def by simp

lemma po_ok_seed:
  assumes "po_ok clock s" "localIdSeed s \<le> n"
  shows "po_ok clock (s\<lparr>localIdSeed := n\<rparr>)"
  using assms po_pre_seed [of clock s n] by (simp add: po_ok_def templatePresetOptions_def)

lemma po_step_ok: "po_step clock t s s' \<Longrightarrow> po_ok clock s \<Longrightarrow> po_ok clock s'"
proof (induction rule: po_step.induct)
  case (event ev s n s')
  then have "po_pre clock (s\<lparr>localIdSeed := n\<rparr>)" by (simp add: po_ok_def po_pre_seed)
  then show ?case using effects_ok run_po_pre event.hyps by blast
next
  case (abort ev s n e)
  then show ?case by (simp add: po_ok_seed)
qed

text \<open>A mounted dialog: the first render, then the effects.\<close>

lemma initial_po_ok: "po_ok clock (fix_preset (fix_selection (initial_po clock n)))"
proof (rule effects_ok)
  obtain x n' where x: "createDefaultOperation clock n = (x, n')" by (cases "createDefaultOperation clock n")
  show "po_pre clock (initial_po clock n)"
    using conjunct1 [OF createDefaultOperation_ok [OF x]] preset_keys by (simp add: initial_po_def x po_pre_def)
qed

end
