(* ===== verification/Param_Laws.thy ===== *)
theory Param_Laws
  imports Param_Machine
begin

text \<open>
  What the texts of the parameter override editor mean: values survive being shown and read again,
  saved operations have the fields their mode needs, and opening a saved override and saving it
  again gives the same text.
\<close>

section \<open>Texts of values\<close>

lemma digit_plain: "is_digit c \<Longrightarrow> plain_char c"
  by (auto simp: plain_char_def is_digit_def ascii_def ascii_ws_def)

lemma json_str_head: "json_ok v \<Longrightarrow> \<exists>c u. json_str v = c # u \<and> plain_char c"
proof (cases v)
  case (Num x)
  moreover assume "json_ok v"
  moreover have "\<exists>c u. num_str (Fin q) = c # u \<and> plain_char c" if "is_dbl q" for q
    using json_num_str(3,4) [OF that] digit_plain
    by (cases "num_str (Fin q)") (auto simp: plain_char_def [of "CHR ''-''"] ascii_def ascii_ws_def)
  ultimately show ?thesis by (cases x) (auto simp: plain_char_def ascii_def ascii_ws_def simp del: num_str.simps)
qed (auto simp: quote_str_def plain_char_def ascii_def ascii_ws_def dquote_def)

lemma json_str_visible: "json_ok v \<Longrightarrow> trim (json_str v) \<noteq> []"
  using json_str_head trim_visible by metis

lemma pretty_trim [simp]: "trim (pretty (Obj ps)) = pretty (Obj ps)"
proof -
  have p: "plain_char (CHR ''{'')" "plain_char (CHR ''}'')" by (simp_all add: plain_char_def ascii_def ascii_ws_def)
  have "\<exists>u. pretty (Obj ps) = CHR ''{'' # u" by (simp add: pretty_def Let_def)
  moreover have "\<exists>v. pretty (Obj ps) = v @ ''}''"
  proof (rule exI)
    show "pretty (Obj ps) = butlast (pretty (Obj ps)) @ ''}''"
      by (simp add: pretty_def Let_def butlast_append)
  qed
  ultimately show ?thesis using trim_ends [OF p] by blast
qed

lemma json_ok_loose [simp]: "json_ok (parseLooseValue raw)"
  using json_parse_ok by (auto simp: parseLooseValue_def split: res.split)

text \<open>
  A value text is stable if reading it does not leave a string that reads as another value, as a
  quoted number does.
\<close>

definition stable_text :: "string \<Rightarrow> bool" where
  "stable_text raw = (case parseLooseValue raw of Str s \<Rightarrow> parseLooseValue s = Str s | _ \<Rightarrow> True)"

lemma loose_json_str: "json_ok v \<Longrightarrow> parseLooseValue (json_str v) = canon v"
  by (simp add: parseLooseValue_def json_str_visible json_parse_stringify del: json_str.simps canon.simps)

lemma toValueText_canon: "json_ok v \<Longrightarrow> \<forall>s. v \<noteq> Str s \<Longrightarrow> toValueText (canon v) = json_str v"
proof -
  assume v: "json_ok v" "\<forall>s. v \<noteq> Str s"
  then have "toValueText (canon v) = json_str (canon v)" by (cases v) (simp_all add: toValueText_def)
  then show "toValueText (canon v) = json_str v" using json_str_canon [OF v(1)] by simp
qed

lemma loose_text:
  assumes "stable_text raw"
  shows "parseLooseValue (toValueText (canon (parseLooseValue raw))) = canon (parseLooseValue raw)"
proof (cases "\<exists>s. parseLooseValue raw = Str s")
  case True
  then show ?thesis using assms by (auto simp: stable_text_def toValueText_def)
next
  case False
  then show ?thesis using toValueText_canon [of "parseLooseValue raw"] loose_json_str by simp
qed

section \<open>Payloads\<close>

lemma map_of_set_if [simp]: "map_of (set_if c k v ps) k' = (if c \<and> k' = k then Some v else map_of ps k')"
  by (simp add: set_if_def)

lemma json_ok_set_if: "json_ok (Obj ps) \<Longrightarrow> json_ok v \<Longrightarrow> json_ok (Obj (set_if c k v ps))"
  by (simp add: set_if_def json_ok_set_prop del: json_ok.simps)

lemma json_ok_buildCondition: "buildConditionPayload c = Some w \<Longrightarrow> json_ok w"
  by (auto simp: buildConditionPayload_def Let_def simp del: json_ok.simps(4) intro!: json_ok_set_if split: if_splits) simp_all

lemma json_ok_payload: "json_ok (operation_payload x)"
proof -
  have "list_all json_ok (List.map_filter buildConditionPayload (op_conditions x))"
    by (auto simp: list_all_iff List.map_filter_def dest: json_ok_buildCondition)
  then show ?thesis unfolding operation_payload_def Let_def
    by (intro json_ok_set_if json_ok_loose) simp_all
qed

text \<open>Objects that differ only in the order inside their values print alike.\<close>

definition same_props :: "(string \<times> jsval) list \<Rightarrow> (string \<times> jsval) list \<Rightarrow> bool" where
  "same_props ps qs \<longleftrightarrow> map (\<lambda>(k, v). (k, canon v)) ps = map (\<lambda>(k, v). (k, canon v)) qs"

lemma same_props_canon: "same_props ps qs \<Longrightarrow> canon (Obj ps) = canon (Obj qs)"
  by (simp add: same_props_def)

lemma map_set_prop: "map (\<lambda>(k, v). (k, f v)) (set_prop k v ps) = set_prop k (f v) (map (\<lambda>(k, v). (k, f v)) ps)"
  by (induction k v ps rule: set_prop.induct) auto

lemma same_props_set: "same_props ps qs \<Longrightarrow> (c \<Longrightarrow> canon v = canon w) \<Longrightarrow> same_props (set_if c k v ps) (set_if c k w qs)"
  by (simp add: same_props_def set_if_def map_set_prop)

section \<open>Opening what was saved\<close>

text \<open>The properties of an operation that is written, as a function of the fields it is built from.\<close>

definition payload_fields ::
  "string \<Rightarrow> string \<Rightarrow> string \<Rightarrow> jsval \<Rightarrow> bool \<Rightarrow> string \<Rightarrow> string \<Rightarrow> jsval list \<Rightarrow> string \<Rightarrow> (string \<times> jsval) list" where
  "payload_fields m d p v k f u cs l =
     set_if (cs \<noteq> []) ''logic'' (Str l) (set_if (cs \<noteq> []) ''conditions'' (Arr cs)
     (set_if (meta m ''to'') ''to'' (Str u) (set_if (\<not> meta m ''to'' \<and> u \<noteq> []) ''to'' (Str u)
     (set_if (meta m ''from'') ''from'' (Str f) (set_if (meta m ''keepOrigin'' \<and> k) ''keep_origin'' (Bool True)
     (set_if (meta m ''value'') ''value'' v (set_if (meta m ''pathOptional'' \<and> p \<noteq> []) ''path'' (Str p)
     (set_if (meta m ''path'') ''path'' (Str p) (set_if (d \<noteq> []) ''description'' (Str d) [(''mode'', Str m)])))))))))"

abbreviation cond_payloads :: "operation \<Rightarrow> jsval list" where
  "cond_payloads x \<equiv> List.map_filter buildConditionPayload (op_conditions x)"

abbreviation alias_filled :: "operation \<Rightarrow> bool" where
  "alias_filled x \<equiv> meta (op_mode x) ''pathAlias'' \<longrightarrow> trim (op_from x) \<noteq> [] \<and> trim (op_to x) \<noteq> []"

lemma alias_modes: "meta m ''pathAlias'' \<Longrightarrow> meta m ''from'' \<and> meta m ''to'' \<and> \<not> meta m ''path'' \<and> \<not> meta m ''pathOptional''"
  by (auto simp: meta_def MODE_META_def split: if_splits)

lemma validated_fields:
  assumes "validate_operation x = None" "op_mode x \<noteq> []"
  shows "meta (op_mode x) ''path'' \<Longrightarrow> trim (op_path x) \<noteq> []" "meta (op_mode x) ''from'' \<Longrightarrow> trim (op_from x) \<noteq> []"
    "meta (op_mode x) ''to'' \<Longrightarrow> trim (op_to x) \<noteq> []" "op_mode x \<in> set VALUE_REQUIRED_MODES \<Longrightarrow> trim (op_value_text x) \<noteq> []"
proof -
  show "trim (op_path x) \<noteq> []" if "meta (op_mode x) ''path''"
    using assms that by (intro notI) (simp add: validate_operation_def)
  show "trim (op_from x) \<noteq> []" if "meta (op_mode x) ''from''"
  proof
    assume "trim (op_from x) = []"
    then have "validate_operation x \<noteq> None" using that assms(2) unfolding validate_operation_def Let_def by simp
    then show False using assms(1) by simp
  qed
  show "trim (op_to x) \<noteq> []" if "meta (op_mode x) ''to''"
  proof
    assume "trim (op_to x) = []"
    then have "validate_operation x \<noteq> None" using that assms(2) unfolding validate_operation_def Let_def by simp
    then show False using assms(1) by simp
  qed
  show "trim (op_value_text x) \<noteq> []" if "op_mode x \<in> set VALUE_REQUIRED_MODES"
  proof
    assume "trim (op_value_text x) = []"
    then have "validate_operation x \<noteq> None" using that assms(2) unfolding validate_operation_def Let_def by simp
    then show False using assms(1) by simp
  qed
qed

lemma validated_alias: "validate_operation x = None \<Longrightarrow> op_mode x \<noteq> [] \<Longrightarrow> alias_filled x"
  using alias_modes [of "op_mode x"] validated_fields(2,3) [of x] by blast

lemma logic_cases: "op_ok x \<Longrightarrow> (if op_logic x = ''AND'' then ''AND'' else ''OR'') = op_logic x"
  by (auto simp: op_ok_def)

lemma mode_nonempty: "op_ok x \<Longrightarrow> op_mode x \<noteq> []"
  by (auto simp: op_ok_def OPERATION_MODE_VALUES_def OPERATION_MODE_OPTIONS_def)

lemma payload_eq:
  assumes "op_ok x" "alias_filled x"
  shows "operation_payload x = Obj (payload_fields (op_mode x) (trim (op_description x)) (trim (op_path x))
    (parseLooseValue (op_value_text x)) (op_keep_origin x) (trim (op_from x)) (trim (op_to x)) (cond_payloads x) (op_logic x))"
  using assms(2) alias_modes [of "op_mode x"] mode_nonempty [OF assms(1)] logic_cases [OF assms(1)]
  unfolding operation_payload_def payload_fields_def Let_def
  by (cases "meta (op_mode x) ''pathAlias''") (simp_all add: set_if_def [of "_ \<and> \<not> truthy _ \<and> _"] set_if_def [of False])

lemma map_of_payload:
  "map_of (payload_fields m d p v k f u cs l) key =
    (if key = ''logic'' then (if cs \<noteq> [] then Some (Str l) else None)
     else if key = ''conditions'' then (if cs \<noteq> [] then Some (Arr cs) else None)
     else if key = ''to'' then (if meta m ''to'' \<or> u \<noteq> [] then Some (Str u) else None)
     else if key = ''from'' then (if meta m ''from'' then Some (Str f) else None)
     else if key = ''keep_origin'' then (if meta m ''keepOrigin'' \<and> k then Some (Bool True) else None)
     else if key = ''value'' then (if meta m ''value'' then Some v else None)
     else if key = ''path'' then (if meta m ''path'' \<or> meta m ''pathOptional'' \<and> p \<noteq> [] then Some (Str p) else None)
     else if key = ''description'' then (if d \<noteq> [] then Some (Str d) else None)
     else if key = ''mode'' then Some (Str m) else None)"
  unfolding payload_fields_def by (simp split: if_splits)

lemma map_fresh_all:
  assumes "\<And>v n. v \<in> set vs \<Longrightarrow> \<exists>y n'. f n v = Ok (y, n') \<and> Q v y"
  shows "\<exists>ys n'. map_fresh f n vs = Ok (ys, n') \<and> list_all2 Q vs ys"
  using assms
proof (induction vs arbitrary: n)
  case (Cons v vs)
  obtain y n1 where y: "f n v = Ok (y, n1)" "Q v y" using Cons.prems [of v n] by auto
  obtain ys n2 where "map_fresh f n1 vs = Ok (ys, n2)" "list_all2 Q vs ys" using Cons.IH [of n1] Cons.prems by force
  then show ?case using y by simp
qed simp

lemma canon_simple: "canon v = Str s \<longleftrightarrow> v = Str s" "canon v = Bool b \<longleftrightarrow> v = Bool b"
  by (cases v; simp)+

lemma str_field_canon: "json_ok (Obj ps) \<Longrightarrow> str_field (canon (Obj ps)) k = str_field (Obj ps) k"
  unfolding str_field_def get_canon by (cases "get (Obj ps) k") simp_all

lemma mode_field_canon: "json_ok (Obj ps) \<Longrightarrow> mode_field vals (canon (Obj ps)) k d = mode_field vals (Obj ps) k d"
  unfolding mode_field_def get_canon by (cases "get (Obj ps) k") simp_all

lemma reload_condition:
  assumes "cond_ok c" "stable_text (cond_value_text c)" "buildConditionPayload c = Some w"
  shows "\<exists>c' n'. normalizeCondition clock n (canon w) = Ok (c', n') \<and>
    (\<exists>w'. buildConditionPayload c' = Some w' \<and> canon w' = canon w)"
proof -
  have p: "trim (cond_path c) \<noteq> []" and m: "cond_mode c \<noteq> []" "cond_mode c \<in> set CONDITION_MODE_VALUES"
    using assms by (auto simp: buildConditionPayload_def Let_def cond_ok_def CONDITION_MODE_VALUES_def split: if_splits)
  define ps where "ps = set_if (cond_pass_missing c) ''pass_missing_key'' (Bool True) (set_if (cond_invert c) ''invert'' (Bool True)
     [(''path'', Str (trim (cond_path c))), (''mode'', Str (cond_mode c)), (''value'', parseLooseValue (cond_value_text c))])"
  have w: "w = Obj ps" using assms(3) p m by (simp add: buildConditionPayload_def Let_def ps_def)
  have ok: "json_ok (Obj ps)" using json_ok_buildCondition assms(3) w by blast
  let ?c = "\<lparr>cond_id = nextLocalId clock n, cond_path = trim (cond_path c), cond_mode = cond_mode c,
    cond_value_text = toValueText (canon (parseLooseValue (cond_value_text c))), cond_invert = cond_invert c, cond_pass_missing = cond_pass_missing c\<rparr>"
  have "normalizeCondition clock n (canon (Obj ps)) = Ok (?c, Suc n)"
    unfolding normalizeCondition_def str_field_canon [OF ok] mode_field_canon [OF ok] get_canon [OF ok] canon_simple
    using m by (simp add: canon_Obj ps_def str_field_def mode_field_def get_def del: canon.simps(2))
  moreover have "buildConditionPayload ?c = Some (Obj (set_if (cond_pass_missing c) ''pass_missing_key'' (Bool True) (set_if (cond_invert c) ''invert'' (Bool True)
     [(''path'', Str (trim (cond_path c))), (''mode'', Str (cond_mode c)), (''value'', canon (parseLooseValue (cond_value_text c)))])))"
    using p m by (simp add: buildConditionPayload_def Let_def loose_text [OF assms(2)])
  moreover have "same_props (set_if (cond_pass_missing c) ''pass_missing_key'' (Bool True) (set_if (cond_invert c) ''invert'' (Bool True)
     [(''path'', Str (trim (cond_path c))), (''mode'', Str (cond_mode c)), (''value'', canon (parseLooseValue (cond_value_text c)))])) ps"
    unfolding ps_def by (intro same_props_set) (simp_all add: same_props_def)
  ultimately show ?thesis unfolding w using same_props_canon by blast
qed

definition stable_op :: "operation \<Rightarrow> bool" where
  "stable_op x \<longleftrightarrow> stable_text (op_value_text x) \<and> (\<forall>c \<in> set (op_conditions x). stable_text (cond_value_text c))"

lemma to_upper_logic: "to_upper ''AND'' = ''AND''" "to_upper ''OR'' = ''OR''"
  by (simp_all add: to_upper_def upper_special_def upper_ascii_def cont_byte_def)

lemma same_props_step:
  "same_props ps qs \<Longrightarrow> c = c' \<Longrightarrow> (c \<Longrightarrow> canon v = canon w) \<Longrightarrow> same_props (set_if c k v ps) (set_if c' k w qs)"
  using same_props_set by blast

lemma reload_conditions:
  assumes "op_ok x" "stable_op x"
  shows "\<exists>cs' n'. map_fresh (normalizeCondition clock) n (map canon (cond_payloads x)) = Ok (cs', n') \<and>
    map canon (List.map_filter buildConditionPayload cs') = map canon (cond_payloads x)"
proof -
  define Q where "Q = (\<lambda>v c'. \<exists>w'. buildConditionPayload c' = Some w' \<and> canon w' = v)"
  have one: "\<exists>c' n'. normalizeCondition clock n v = Ok (c', n') \<and> Q v c'" if v: "v \<in> set (map canon (cond_payloads x))" for v n
  proof -
    obtain c w where "c \<in> set (op_conditions x)" "buildConditionPayload c = Some w" "v = canon w"
      using v by (fastforce simp: List.map_filter_def)
    then show ?thesis using reload_condition [of c w clock n] assms by (auto simp: op_ok_def stable_op_def list_all_iff Q_def)
  qed
  from map_fresh_all [of "map canon (cond_payloads x)" "normalizeCondition clock" Q n, OF one]
  obtain cs' n' where cs: "map_fresh (normalizeCondition clock) n (map canon (cond_payloads x)) = Ok (cs', n')"
      "list_all2 Q (map canon (cond_payloads x)) cs'" by auto
  have "list_all2 Q vs cs \<Longrightarrow> map canon (List.map_filter buildConditionPayload cs) = vs" for vs cs
    by (induction rule: list_all2_induct) (auto simp: List.map_filter_def Q_def)
  then show ?thesis using cs by blast
qed

lemma reload_fields:
  assumes "op_ok x" "alias_filled x" "stable_op x"
  obtains x' n' where "normalizeOperation clock n (canon (operation_payload x)) = Ok (x', n')"
    "op_description x' = trim (op_description x)" "op_mode x' = op_mode x"
    "op_path x' = (if meta (op_mode x) ''path'' \<or> meta (op_mode x) ''pathOptional'' then trim (op_path x) else [])"
    "op_value_text x' = (if meta (op_mode x) ''value'' then toValueText (canon (parseLooseValue (op_value_text x))) else [])"
    "op_keep_origin x' \<longleftrightarrow> meta (op_mode x) ''keepOrigin'' \<and> op_keep_origin x"
    "op_from x' = (if meta (op_mode x) ''from'' then trim (op_from x) else [])" "op_to x' = trim (op_to x)"
    "op_logic x' = (if cond_payloads x \<noteq> [] then op_logic x else ''OR'')"
    "map canon (cond_payloads x') = map canon (cond_payloads x)"
proof -
  define ps where "ps = payload_fields (op_mode x) (trim (op_description x)) (trim (op_path x))
    (parseLooseValue (op_value_text x)) (op_keep_origin x) (trim (op_from x)) (trim (op_to x)) (cond_payloads x) (op_logic x)"
  have p: "operation_payload x = Obj ps" unfolding ps_def by (rule payload_eq [OF assms(1,2)])
  have ok: "json_ok (Obj ps)" using json_ok_payload [of x] p by simp
  obtain cs' n' where cs: "map_fresh (normalizeCondition clock) (Suc n) (map canon (cond_payloads x)) = Ok (cs', n')"
      "map canon (List.map_filter buildConditionPayload cs') = map canon (cond_payloads x)"
    using reload_conditions [OF assms(1,3)] by blast
  have g: "get (Obj ps) k = (case map_of ps k of Some v \<Rightarrow> v | None \<Rightarrow> Undef)" for k by (simp add: get_def)
  have c: "(case canon (get (Obj ps) ''conditions'') of Arr ds \<Rightarrow> map_fresh (normalizeCondition clock) (Suc n) ds | _ \<Rightarrow> Ok ([], Suc n)) =
      Ok (cs', if cond_payloads x = [] then Suc n else n')" 
    using cs(1) by (auto simp: g ps_def map_of_payload)
  have l: "logic_field (Str ''AND'') ''OR'' = ''AND''" "logic_field (Str ''OR'') ''OR'' = ''OR''" "logic_field Undef ''OR'' = ''OR''"
    by (simp_all add: logic_field_def js_or_def to_upper_logic)
  have m: "op_mode x \<in> set OPERATION_MODE_VALUES" "op_logic x \<in> {''AND'', ''OR''}" using assms(1) by (simp_all add: op_ok_def)
  obtain x' n'' where x': "normalizeOperation clock n (canon (Obj ps)) = Ok (x', n'')"
    "op_description x' = str_field (Obj ps) ''description''" "op_mode x' = mode_field OPERATION_MODE_VALUES (Obj ps) ''mode'' ''set''"
    "op_path x' = str_field (Obj ps) ''path''" "op_value_text x' = toValueText (canon (get (Obj ps) ''value''))"
    "op_keep_origin x' \<longleftrightarrow> get (Obj ps) ''keep_origin'' = Bool True" "op_from x' = str_field (Obj ps) ''from''" "op_to x' = str_field (Obj ps) ''to''"
    "op_logic x' = (if logic_field (canon (get (Obj ps) ''logic'')) ''OR'' = ''AND'' then ''AND'' else ''OR'')" "op_conditions x' = cs'"
    unfolding normalizeOperation_def str_field_canon [OF ok] mode_field_canon [OF ok] get_canon [OF ok] canon_simple c
    by (simp add: canon_Obj del: canon.simps(2))
  show thesis
  proof (rule that)
    show "normalizeOperation clock n (canon (operation_payload x)) = Ok (x', n'')" using x'(1) p by simp
    show "op_logic x' = (if cond_payloads x \<noteq> [] then op_logic x else ''OR'')"
      using x'(9) l m(2) by (auto simp: g ps_def map_of_payload)
    show "map canon (cond_payloads x') = map canon (cond_payloads x)" using cs(2) x'(10) by simp
  qed (use x' m in \<open>simp_all add: g str_field_def mode_field_def ps_def map_of_payload toValueText_def [of Undef]\<close>)
qed


lemma reload_operation:
  assumes "op_ok x" "validate_operation x = None" "stable_op x"
  shows "\<exists>x' n'. normalizeOperation clock n (canon (operation_payload x)) = Ok (x', n') \<and>
    canon (operation_payload x') = canon (operation_payload x) \<and> \<not> isOperationBlank x'"
proof -
  note m = mode_nonempty [OF assms(1)]
  have al: "alias_filled x" using assms(2) m by (rule validated_alias)
  obtain x' n' where x': "normalizeOperation clock n (canon (operation_payload x)) = Ok (x', n')"
    "op_description x' = trim (op_description x)" "op_mode x' = op_mode x"
    "op_path x' = (if meta (op_mode x) ''path'' \<or> meta (op_mode x) ''pathOptional'' then trim (op_path x) else [])"
    "op_value_text x' = (if meta (op_mode x) ''value'' then toValueText (canon (parseLooseValue (op_value_text x))) else [])"
    "op_keep_origin x' \<longleftrightarrow> meta (op_mode x) ''keepOrigin'' \<and> op_keep_origin x"
    "op_from x' = (if meta (op_mode x) ''from'' then trim (op_from x) else [])" "op_to x' = trim (op_to x)"
    "op_logic x' = (if cond_payloads x \<noteq> [] then op_logic x else ''OR'')"
    "map canon (cond_payloads x') = map canon (cond_payloads x)"
    using reload_fields [OF assms(1) al assms(3)] .
  have ok': "op_ok x'" using normalizeOperation_Ok [OF x'(1)] by simp
  have al': "alias_filled x'" using al alias_modes [of "op_mode x"] x'(3,7,8) by simp
  have n: "cond_payloads x' = [] \<longleftrightarrow> cond_payloads x = []" using x'(10) by (metis map_is_Nil_conv)
  have v: "meta (op_mode x) ''value'' \<Longrightarrow> canon (parseLooseValue (op_value_text x')) = canon (parseLooseValue (op_value_text x))"
    using loose_text [of "op_value_text x"] assms(3) x'(5) by (simp add: stable_op_def)
  have "same_props (payload_fields (op_mode x') (trim (op_description x')) (trim (op_path x'))
      (parseLooseValue (op_value_text x')) (op_keep_origin x') (trim (op_from x')) (trim (op_to x')) (cond_payloads x') (op_logic x'))
    (payload_fields (op_mode x) (trim (op_description x)) (trim (op_path x))
      (parseLooseValue (op_value_text x)) (op_keep_origin x) (trim (op_from x)) (trim (op_to x)) (cond_payloads x) (op_logic x))"
    unfolding payload_fields_def x'(2,3) trim_trim
    by (intro same_props_step) (simp_all add: same_props_def n v x'(4,6-8,9,10))
  then have "canon (operation_payload x') = canon (operation_payload x)"
    unfolding payload_eq [OF assms(1) al] payload_eq [OF ok' al'] by (rule same_props_canon)
  moreover have "\<not> isOperationBlank x'"
  proof
    assume b: "isOperationBlank x'"
    then have "op_mode x = ''set''" "trim (op_path x') = []" using x'(3) by (simp_all add: isOperationBlank_def)
    moreover have "meta ''set'' ''path''" by (simp add: meta_def MODE_META_def)
    ultimately show False using validated_fields(1) [OF assms(2) m] x'(4) by simp
  qed
  ultimately show ?thesis using x'(1) by blast
qed

lemma validate_from_None: "(\<And>m a. t m a \<noteq> []) \<Longrightarrow> validate_from k os t = [] \<Longrightarrow> list_all (\<lambda>x. validate_operation x = None) os"
  by (induction os arbitrary: k) (auto split: option.splits)

lemma canon_operations: "canon (Obj [(''operations'', Arr vs)]) = Obj [(''operations'', Arr (map canon vs))]"
  by (simp add: canon_Obj prop_entries_def is_index_key_def del: canon.simps(2))


text \<open>One operation that sets a value under a condition, as the user may have entered it.\<close>

definition sample_op :: operation where
  "sample_op = \<lparr>op_id = ''a'', op_description = [], op_path = ''stream'', op_mode = ''set'', op_value_text = ''true'',
     op_keep_origin = False, op_from = [], op_to = [], op_logic = ''AND'',
     op_conditions = [\<lparr>cond_id = ''b'', cond_path = ''model'', cond_mode = ''prefix'', cond_value_text = ''null'',
       cond_invert = True, cond_pass_missing = False\<rparr>]\<rparr>"

definition sample_payload :: jsval where
  "sample_payload = Obj [(''mode'', Str ''set''), (''path'', Str ''stream''), (''value'', Bool True),
     (''conditions'', Arr [Obj [(''path'', Str ''model''), (''mode'', Str ''prefix''), (''value'', Null), (''invert'', Bool True)]]),
     (''logic'', Str ''AND'')]"

lemma loose_words: "parseLooseValue ''true'' = Bool True" "parseLooseValue ''null'' = Null"
  using loose_json_str [of "Bool True"] loose_json_str [of Null] by simp_all

lemma trim_words: "trim ''stream'' = ''stream''" "trim ''model'' = ''model''"
  by (rule trim_plain, auto simp: plain_char_def ascii_def ascii_ws_def)+

lemma meta_set: "meta ''set'' k \<longleftrightarrow> k \<in> {''path'', ''value'', ''keepOrigin''}"
  by (simp add: meta_def MODE_META_def)

lemma sample_op_ok: "op_ok sample_op" "stable_op sample_op" "\<not> isOperationBlank sample_op"
  by (simp_all add: sample_op_def op_ok_def cond_ok_def CONDITION_MODE_VALUES_def stable_op_def stable_text_def loose_words
      isOperationBlank_def trim_words)

lemma sample_fields: "op_mode sample_op = ''set''" "op_description sample_op = []" "op_path sample_op = ''stream''"
  "op_value_text sample_op = ''true''" "op_keep_origin sample_op = False" "op_from sample_op = []" "op_to sample_op = []"
  "op_logic sample_op = ''AND''"
  by (simp_all add: sample_op_def)

lemma sample_op_payload: "operation_payload sample_op = sample_payload"
proof -
  have c: "cond_payloads sample_op = [Obj [(''path'', Str ''model''), (''mode'', Str ''prefix''), (''value'', Null), (''invert'', Bool True)]]"
    by (simp add: sample_op_def List.map_filter_def buildConditionPayload_def trim_words loose_words set_if_def)
  have al: "alias_filled sample_op" by (simp add: sample_op_def meta_set)
  have f: "payload_fields ''set'' [] ''stream'' (Bool True) False [] [] [v] ''AND'' =
      [(''mode'', Str ''set''), (''path'', Str ''stream''), (''value'', Bool True), (''conditions'', Arr [v]), (''logic'', Str ''AND'')]" for v
    by (simp add: payload_fields_def meta_set set_if_def)
  show ?thesis unfolding payload_eq [OF sample_op_ok(1) al] c sample_fields trim_words loose_words trim_Nil f sample_payload_def ..
qed

lemma sample_op_valid: "validate_operation sample_op = None"
  by (simp add: sample_op_def validate_operation_def trim_words meta_set FROM_REQUIRED_MODES_def TO_REQUIRED_MODES_def VALUE_REQUIRED_MODES_def)

lemma sample_saved:
  "buildOperationsJson (\<lambda>m a. m @ ''.'') [sample_op] True = Ok (pretty (Obj [(''operations'', Arr [sample_payload])]))"
  "pretty (Obj [(''operations'', Arr [sample_payload])]) \<noteq> []"
  by (simp add: buildOperationsJson_def validateOperations_def sample_op_ok sample_op_valid sample_op_payload) (simp add: pretty_def Let_def)


section \<open>What a saved override contains\<close>

lemma built_operations:
  assumes "buildOperationsJson t ops True = Ok text" "text \<noteq> []" "\<And>m a. t m a \<noteq> []"
  obtains fo where "set fo \<subseteq> set ops" "fo \<noteq> []" "list_all (\<lambda>x. validate_operation x = None) fo"
    "json_parse text = Ok (Obj [(''operations'', Arr (map canon (map operation_payload fo)))])"
proof -
  define fo where "fo = filter (\<lambda>x. \<not> isOperationBlank x) ops"
  have fo: "fo \<noteq> []" "validateOperations fo t = []" and tx: "text = pretty (Obj [(''operations'', Arr (map operation_payload fo))])"
    using assms(1,2) by (auto simp: buildOperationsJson_def Let_def fo_def split: if_splits)
  have "json_ok (Obj [(''operations'', Arr (map operation_payload fo))])" using json_ok_payload by (auto simp: list_all_iff)
  then have "json_parse text = Ok (Obj [(''operations'', Arr (map canon (map operation_payload fo)))])"
    using json_parse_pretty [of _ "[]"] unfolding tx pretty_def canon_operations [symmetric] by (simp only: list.pred_inject(1))
  moreover have "list_all (\<lambda>x. validate_operation x = None) fo"
    using validate_from_None [of t 1 fo] assms(3) fo(2) by (simp add: validateOperations_def)
  moreover have "set fo \<subseteq> set ops" by (auto simp: fo_def)
  ultimately show thesis using that fo(1) by blast
qed

definition text_at :: "jsval \<Rightarrow> string \<Rightarrow> bool" where
  "text_at v k = (case get v k of Str s \<Rightarrow> s \<noteq> [] \<and> trim s = s | _ \<Rightarrow> False)"



section \<open>Texts handed over\<close>

text \<open>A formatted text: JSON that formatting does not change.\<close>

definition formatted :: "string \<Rightarrow> bool" where
  "formatted u = (case json_parse u of Ok v \<Rightarrow> pretty v = u | Throw _ \<Rightarrow> False)"

lemma formatted_pretty: "json_ok v \<Longrightarrow> formatted (pretty v)"
  using json_parse_pretty [of v "[]"] json_pretty_canon [of v "[]"] by (simp add: formatted_def pretty_def)

lemma json_ok_operations: "json_ok (Obj [(''operations'', Arr (map operation_payload xs))])"
  using json_ok_payload by (simp add: list_all_iff)

lemma buildOperationsJson_formatted: "buildOperationsJson t ops b = Ok u \<Longrightarrow> u = [] \<or> formatted u"
  using formatted_pretty [OF json_ok_operations] by (auto simp: buildOperationsJson_def Let_def split: if_splits)

lemma save_text_formatted: "save_text t s = Ok u \<Longrightarrow> u = [] \<or> formatted u"
  using formatted_pretty json_parse_ok buildOperationsJson_formatted
  by (auto simp: save_text_def buildVisualJson_def Let_def split: if_splits res.splits)

definition saved_ok :: "po_editor \<Rightarrow> bool" where
  "saved_ok s \<longleftrightarrow> list_all (\<lambda>u. u = [] \<or> formatted u) (saved_texts s)"

lemma single_saved [simp]: "saved_texts (single_operation clock s) = saved_texts s"
  by (simp add: single_operation_def split: prod.split)

lemma po_show_saved [simp]: "saved_texts (po_show m s) = saved_texts s"
  by (simp add: po_show_def)

lemma update_saved [simp]: "saved_texts (update_op i f s) = saved_texts s" "saved_texts (updateOperation i p s) = saved_texts s"
  "saved_texts (set_expanded i ks s) = saved_texts s"
  by (simp_all add: update_op_def updateOperation_def set_expanded_def)

lemma prune_saved [simp]: "saved_texts (updatePruneObjectsDraft clock i f s) = saved_texts s"
  by (simp add: updatePruneObjectsDraft_def split: option.split prod.split)

text \<open>Only saving hands over a text.\<close>

lemma run_po_saved:
  assumes "run_po clock t ev s = Ok s'" "ev \<noteq> Po_save"
  shows "saved_texts s' = saved_texts s"
proof (cases ev)
  case Po_append
  then show ?thesis using assms(1)
    by (auto simp: appendTemplateFromLibrary_def appendLegacyTemplate_def appendOperationsTemplate_def Let_def bind_res_Ok_iff
        split: if_splits res.splits)
next
  case Po_to_visual
  then show ?thesis using assms(1)
    by (auto simp: switchToVisualMode_def Let_def bind_res_Ok_iff split: if_splits res.splits option.splits)
next
  case (Po_open v)
  then show ?thesis using assms(1) by (auto simp: open_effect_def bind_res_Ok_iff)
next
  case Po_fill
  then show ?thesis using assms(1)
    by (auto simp: fillTemplateFromLibrary_def fillLegacyTemplate_def fillOperationsTemplate_def Let_def bind_res_Ok_iff split: if_splits)
next
  case (Po_duplicate e i)
  then show ?thesis using assms(1) by (auto simp: duplicateOperation_def Let_def bind_res_Ok_iff split: option.splits if_splits)
next
  case Po_to_json
  then show ?thesis using assms(1) by (auto simp: switchToJsonMode_def Let_def split: res.splits)
qed (use assms in \<open>auto simp: resetEditorState_def clearValue_def addOperation_def handleOperationDragStart_def
    handleOperationDragOver_def handleOperationDrop_def moveOperation_def resetOperationDragState_def removeOperation_def
    updateReturnErrorDraft_def addPruneRule_def updatePruneRule_def removePruneRule_def formatSelectedOperationValueAsJson_def
    expandAllSelectedConditions_def collapseAllSelectedConditions_def addCondition_def handleConditionCollapseChange_def
    removeCondition_def updateCondition_def formatJson_def handleJsonChange_def openFieldGuide_def copyBuiltinField_def
    applyBuiltinField_def Let_def split: option.splits res.splits prod.splits if_splits\<close>)

lemma saved_ok_step:
  assumes "po_step clock t s s'" "saved_ok s"
  shows "saved_ok s'"
  using assms
proof cases
  case (event ev n s1)
  have "saved_texts s' = saved_texts s1" by (simp add: event fix_preset_def fix_selection_def Let_def)
  moreover have "saved_texts s1 = saved_texts s \<or> (\<exists>u. saved_texts s1 = u # saved_texts s \<and> (u = [] \<or> formatted u))"
  proof (cases "ev = Po_save")
    case True
    then show ?thesis using event(4) save_text_formatted [of t "s\<lparr>localIdSeed := n\<rparr>"]
      by (auto simp: po_handleSave_def split: res.splits)
  next
    case False
    then show ?thesis using run_po_saved [OF event(4)] by simp
  qed
  ultimately show ?thesis using assms(2) by (auto simp: saved_ok_def)
qed (simp add: saved_ok_def)

text \<open>The dialog after it has been mounted and its effects have run once.\<close>

definition mounted :: "(nat \<Rightarrow> nat) \<Rightarrow> nat \<Rightarrow> po_editor" where
  "mounted clock n = fix_preset (fix_selection (initial_po clock n))"

lemma mounted_saved: "saved_ok (mounted clock n)"
  by (simp add: mounted_def saved_ok_def fix_preset_def fix_selection_def initial_po_def Let_def split: prod.split)

interpretation dialog: run_invariant "\<lambda>s. \<exists>n. s = mounted clock n" "po_step clock t" "\<lambda>s. po_ok clock s \<and> saved_ok s" for clock t
proof unfold_locales
  show "po_ok clock s \<and> saved_ok s" if "\<exists>n. s = mounted clock n" for s
    using that initial_po_ok mounted_saved by (auto simp: mounted_def [symmetric])
  show "po_ok clock s' \<and> saved_ok s'" if "po_step clock t s s'" "po_ok clock s \<and> saved_ok s" for s s'
    using that po_step_ok saved_ok_step by blast
qed

lemma find_op_Some: "x \<in> set ops \<Longrightarrow> op_id x = i \<Longrightarrow> \<exists>y \<in> set ops. find (\<lambda>x. op_id x = i) ops = Some y"
  by (induction ops) auto

text \<open>
  C22: In every state the parameter override dialog can reach, after any sequence of edits, drags,
  template insertions, view switches, failed handlers and saves: there is at least one operation,
  operations have pairwise distinct ids and so have the conditions of each operation, every id was
  drawn from the running number and lies below its current value, every mode and logic is one the
  menus offer, the selected operation exists, and the chosen template belongs to the chosen group.
\<close>

theorem dialog_state_ok:
  assumes "(po_step clock t)\<^sup>*\<^sup>* (mounted clock n) s"
  shows "operations s \<noteq> [] \<and> distinct (map op_id (operations s)) \<and>
    (\<forall>x \<in> set (operations s). op_mode x \<in> set OPERATION_MODE_VALUES \<and> op_logic x \<in> {''AND'', ''OR''} \<and>
       distinct (map cond_id (op_conditions x)) \<and> (\<forall>c \<in> set (op_conditions x). cond_mode c \<in> set CONDITION_MODE_VALUES) \<and>
       insert (op_id x) (cond_id ` set (op_conditions x)) \<subseteq> nextLocalId clock ` {..<localIdSeed s}) \<and>
    (\<exists>x \<in> set (operations s). selectedOperation s = Some x) \<and>
    templatePresetKey s \<in> set (map fst (templatePresetOptions s))"
proof -
  have ok: "po_ok clock s" using dialog.inv_run [OF assms] by blast
  then have o: "ops_ok clock (localIdSeed s) (operations s)" by (simp add: po_ok_def po_pre_def)
  have "insert (op_id x) (cond_id ` set (op_conditions x)) \<subseteq> nextLocalId clock ` {..<localIdSeed s}" if "x \<in> set (operations s)" for x
  proof -
    have "op_ids x \<subseteq> ids_in clock 0 (localIdSeed s)" using o that by (auto simp: ops_ok_def)
    then show ?thesis by (simp only: op_ids_def ids_in_def atLeast0LessThan)
  qed
  moreover have "op_mode x \<in> set OPERATION_MODE_VALUES \<and> op_logic x \<in> {''AND'', ''OR''} \<and>
       distinct (map cond_id (op_conditions x)) \<and> (\<forall>c \<in> set (op_conditions x). cond_mode c \<in> set CONDITION_MODE_VALUES)"
    if "x \<in> set (operations s)" for x
    using o that by (simp add: ops_ok_def op_ok_def list_all_iff cond_ok_def)
  moreover have "\<exists>x \<in> set (operations s). selectedOperation s = Some x"
    using ok find_op_Some by (simp add: po_ok_def selectedOperation_def) blast
  ultimately show ?thesis using o ok by (simp add: ops_ok_def po_ok_def del: set_map)
qed

definition mount_and_add :: po_editor where
  "mount_and_add = fix_preset (fix_selection (addOperation (\<lambda>_. 0) (mounted (\<lambda>_. 0) 0)))"

lemma effects_simps [simp]:
  "operations (fix_selection s) = operations s" "editMode (fix_selection s) = editMode s" "editMode (fix_preset s) = editMode s"
  "visualMode (fix_selection s) = visualMode s" "visualMode (fix_preset s) = visualMode s"
  "saved_texts (fix_selection s) = saved_texts s" "saved_texts (fix_preset s) = saved_texts s"
  by (simp_all add: fix_selection_def fix_preset_def Let_def)

lemma one_event:
  assumes "offered ev" "run_po clock t ev s = Ok s'"
  shows "(po_step clock t)\<^sup>*\<^sup>* s (fix_preset (fix_selection s'))"
proof (rule r_into_rtranclp, rule po_step.event [OF assms(1) order_refl])
  show "run_po clock t ev (s\<lparr>localIdSeed := localIdSeed s\<rparr>) = Ok s'" using assms(2) by simp
qed

theorem dialog_state_ok_witness:
  "length (operations mount_and_add) = 2 \<and> distinct (map op_id (operations mount_and_add)) \<and>
   (\<exists>x \<in> set (operations mount_and_add). selectedOperation mount_and_add = Some x)"
proof -
  have "(po_step (\<lambda>_. 0) (\<lambda>m a. m))\<^sup>*\<^sup>* (mounted (\<lambda>_. 0) 0) mount_and_add"
    unfolding mount_and_add_def by (rule one_event [of Po_add]) (simp_all add: offered_def)
  note dialog_state_ok [OF this]
  moreover have "length (operations mount_and_add) = 2"
    by (simp add: mount_and_add_def addOperation_def mounted_def initial_po_def createDefaultOperation_def)
  ultimately show ?thesis by blast
qed

text \<open>
  C23: Whatever the dialog hands over to the channel form is empty or well-formed JSON in the
  formatted layout, which formatting leaves alone; this holds for every text saved in any run, from
  the visual view, the legacy view and the JSON view.
\<close>

theorem saved_texts_formatted:
  assumes "(po_step clock t)\<^sup>*\<^sup>* (mounted clock n) s" "u \<in> set (saved_texts s)"
  shows "u = [] \<or> (\<exists>v. json_parse u = Ok v \<and> pretty v = u)"
proof -
  have "saved_ok s" using dialog.inv_run [OF assms(1)] by blast
  then have "u = [] \<or> formatted u" using assms(2) by (auto simp: saved_ok_def list_all_iff)
  then show ?thesis by (auto simp: formatted_def split: res.splits)
qed

text \<open>Switching to the JSON view, entering \<^verbatim>\<open>true\<close> and saving.\<close>

definition in_json_view :: po_editor where
  "in_json_view = fix_preset (fix_selection (switchToJsonMode (\<lambda>m a. m) (mounted (\<lambda>_. 0) 0)))"

definition with_text :: po_editor where
  "with_text = fix_preset (fix_selection (handleJsonChange (\<lambda>m a. m) ''true'' in_json_view))"

definition after_save :: po_editor where
  "after_save = fix_preset (fix_selection (po_handleSave (\<lambda>m a. m) with_text))"

lemma effects_text [simp]: "jsonText (fix_preset (fix_selection s)) = jsonText s"
  by (simp add: fix_selection_def fix_preset_def Let_def)

lemma in_json_view_simps: "editMode in_json_view = ''json''" "saved_texts in_json_view = []"
  by (simp_all add: in_json_view_def switchToJsonMode_def mounted_def initial_po_def createDefaultOperation_def Let_def split: res.split)

lemma after_save_texts: "saved_texts after_save = [''true'']"
proof -
  have "json_parse ''true'' = Ok (Bool True)" using json_parse_stringify [of "Bool True"] by simp
  moreover have "trim ''true'' = ''true''" by (rule trim_plain) (auto simp: plain_char_def ascii_def ascii_ws_def)
  ultimately show ?thesis
    by (simp add: after_save_def with_text_def in_json_view_simps po_handleSave_def save_text_def handleJsonChange_def pretty_def)
qed

theorem saved_texts_formatted_witness:
  "saved_texts after_save = [''true''] \<and> (\<exists>v. json_parse ''true'' = Ok v \<and> pretty v = ''true'')"
proof -
  have "(po_step (\<lambda>_. 0) (\<lambda>m a. m))\<^sup>*\<^sup>* (mounted (\<lambda>_. 0) 0) in_json_view"
    unfolding in_json_view_def by (rule one_event [of Po_to_json]) (simp_all add: offered_def)
  also have "(po_step (\<lambda>_. 0) (\<lambda>m a. m))\<^sup>*\<^sup>* in_json_view with_text"
    unfolding with_text_def by (rule one_event [of "Po_json ''true''"]) (simp_all add: offered_def)
  also have "(po_step (\<lambda>_. 0) (\<lambda>m a. m))\<^sup>*\<^sup>* with_text after_save"
    unfolding after_save_def by (rule one_event [of Po_save]) (simp_all add: offered_def)
  finally show ?thesis using saved_texts_formatted [of _ _ _ after_save "''true''"] after_save_texts by auto
qed

end
