(* ===== verification/Param_Drafts.thy ===== *)
theory Param_Drafts
  imports Param_Laws
begin

text \<open>
  Single operations of the parameter override dialog: dragging, the drafts behind error replies and
  prune rules, and the one way in which opening a stored override can fail.
\<close>

section \<open>Dragging an operation\<close>

lemma filter_remove_at:
  assumes "distinct (map op_id ops)" "i < length ops" "op_id (ops ! i) = a"
  shows "filter (\<lambda>x. op_id x \<noteq> a) ops = remove_at i ops"
proof -
  have s: "ops = take i ops @ ops ! i # drop (Suc i) ops" using assms(2) by (rule id_take_nth_drop)
  then have "distinct (map op_id (take i ops @ ops ! i # drop (Suc i) ops))" using assms(1) by simp
  then have "filter (\<lambda>x. op_id x \<noteq> a) (take i ops) = take i ops" "filter (\<lambda>x. op_id x \<noteq> a) (drop (Suc i) ops) = drop (Suc i) ops"
    using assms(3) by (auto simp: filter_id_conv image_iff)
  then show ?thesis using s assms(3) by (metis (mono_tags, lifting) append_eq_append_conv2 filter.simps(2) filter_append remove_at_def)
qed

lemma filter_insert_at: "\<not> P x \<Longrightarrow> filter P (insert_at k x xs) = filter P xs"
  by (metis append_take_drop_id filter.simps(2) filter_append insert_at_def)

text \<open>
  Dropping an operation on another one moves exactly that operation: the list stays a
  permutation, all other operations keep their relative order, and the moved operation ends up
  directly before or directly after the target, as the drop position says. Dropping it on itself,
  or with an id that is not in the list, changes nothing.
\<close>

theorem reorder_moves_one:
  assumes "distinct (map op_id ops)" "[] \<notin> op_id ` set ops"
  shows "if a \<in> op_id ` set ops \<and> b \<in> op_id ` set ops \<and> a \<noteq> b
    then mset (reorderOperations ops a b p) = mset ops \<and>
      filter (\<lambda>x. op_id x \<noteq> a) (reorderOperations ops a b p) = filter (\<lambda>x. op_id x \<noteq> a) ops \<and>
      (\<exists>us x y vs. reorderOperations ops a b p = us @ (if p = ''after'' then [y, x] else [x, y]) @ vs \<and> op_id x = a \<and> op_id y = b)
    else reorderOperations ops a b p = ops"
proof (cases "a \<in> op_id ` set ops \<and> b \<in> op_id ` set ops \<and> a \<noteq> b")
  case True
  then obtain i where i: "find_index (\<lambda>x. op_id x = a) ops = Some i" "i < length ops" "op_id (ops ! i) = a"
    using find_index_None [of "\<lambda>x. op_id x = a" ops] find_index_Some [of "\<lambda>x. op_id x = a" ops]
    by (metis (mono_tags, lifting) imageE option.exhaust)
  note fr = filter_remove_at [OF assms(1) i(2,3)]
  have "b \<in> op_id ` set (remove_at i ops)" using True unfolding fr [symmetric] by auto
  then obtain j where j: "find_index (\<lambda>x. op_id x = b) (remove_at i ops) = Some j" "j < length (remove_at i ops)"
      "op_id (remove_at i ops ! j) = b"
    using find_index_None [of "\<lambda>x. op_id x = b" "remove_at i ops"] find_index_Some [of "\<lambda>x. op_id x = b" "remove_at i ops"]
    by (metis (mono_tags, lifting) imageE option.exhaust)
  let ?k = "if p = ''after'' then j + 1 else j"
  have "a \<noteq> []" "b \<noteq> []" using True assms(2) by metis+
  then have r: "reorderOperations ops a b p = insert_at ?k (ops ! i) (remove_at i ops)"
    using True i(1) j(1) by (simp add: reorderOperations_def)
  have s: "remove_at i ops = take j (remove_at i ops) @ remove_at i ops ! j # drop (Suc j) (remove_at i ops)"
    using j(2) by (rule id_take_nth_drop)
  have "filter (\<lambda>x. op_id x \<noteq> a) (remove_at i ops) = remove_at i ops" unfolding fr [symmetric] by simp
  then have "filter (\<lambda>x. op_id x \<noteq> a) (insert_at ?k (ops ! i) (remove_at i ops)) = remove_at i ops"
    using i(3) by (simp add: filter_insert_at)
  have "reorderOperations ops a b p = take j (remove_at i ops) @
      (if p = ''after'' then [remove_at i ops ! j, ops ! i] else [ops ! i, remove_at i ops ! j]) @ drop (Suc j) (remove_at i ops)"
    unfolding r insert_at_def using j(2) by (simp add: take_Suc_conv_app_nth Cons_nth_drop_Suc)
  then have "\<exists>us x y vs. reorderOperations ops a b p = us @ (if p = ''after'' then [y, x] else [x, y]) @ vs \<and> op_id x = a \<and> op_id y = b"
    using i(3) j(3) by blast
  moreover from \<open>filter _ (insert_at _ _ _) = _\<close>
  have "filter (\<lambda>x. op_id x \<noteq> a) (reorderOperations ops a b p) = filter (\<lambda>x. op_id x \<noteq> a) ops" by (simp only: r fr)
  ultimately show ?thesis using True mset_reorder by (simp only: if_True simp_thms)
next
  case False
  have "find_index (\<lambda>x. op_id x = b) (remove_at i ops) = None" if "b \<notin> op_id ` set ops" for i
    using that by (auto simp: find_index_None remove_at_def dest: in_set_takeD in_set_dropD)
  moreover have "find_index (\<lambda>x. op_id x = a) ops = None" if "a \<notin> op_id ` set ops"
    using that by (auto simp: find_index_None)
  ultimately have "reorderOperations ops a b p = ops"
    using False by (auto simp: reorderOperations_def Let_def split: option.split)
  then show ?thesis using False by (simp only: if_False)
qed

section \<open>Error replies\<close>

lemma status_ok: "wf_num (status_or_400 x) \<and> is_finite (status_or_400 x) \<and> status_or_400 (status_or_400 x) = status_or_400 x"
proof -
  have "wf_num x \<and> is_finite x" if "is_integer_num x" "js_le (Fin 100) x" "js_le x (Fin 599)"
  proof (cases x)
    case (Fin q)
    then have q: "of_int \<lfloor>q\<rfloor> = q" "100 \<le> q" "q \<le> 599" using that by simp_all
    then have "\<bar>\<lfloor>q\<rfloor>\<bar> \<le> 599" by linarith
    then have "is_dbl (of_int \<lfloor>q\<rfloor>)" by (intro is_dbl_int) simp
    then show ?thesis using Fin q(1) by simp
  qed (use that in simp_all)
  then show ?thesis by (simp add: status_or_400_def)
qed

lemma json_str_trim [simp]: "trim (json_str (Obj ps)) = json_str (Obj ps)"
  by (rule trim_ends [of "CHR ''{''" "CHR ''}''"]) (auto simp: plain_char_def ascii_def ascii_ws_def)

definition error_props :: "error_draft \<Rightarrow> (string \<times> jsval) list" where
  "error_props d = set_if (\<not> rd_skipRetry d) ''skip_retry'' (Bool False)
     (set_if (trim (rd_type d) \<noteq> []) ''type'' (Str (trim (rd_type d))) (set_if (trim (rd_code d) \<noteq> []) ''code'' (Str (trim (rd_code d)))
       [(''message'', Str (trim (rd_message d))), (''status_code'', Num (status_or_400 (rd_statusCode d)))]))"

lemma error_props_ok: "json_ok (Obj (error_props d))"
  unfolding error_props_def using status_ok by (intro json_ok_set_if) simp_all

text \<open>
  An error reply that is edited in its structured form survives the text it is stored as:
  reading the stored text gives back the draft with its texts trimmed and its status code replaced
  by 400 if it is not an integer from 100 to 599, and storing that again gives the same text.
\<close>

theorem error_draft_roundtrip:
  assumes "\<not> rd_simpleMode d"
  shows "parseReturnErrorDraft (buildReturnErrorValueText d) =
      d\<lparr>rd_message := trim (rd_message d), rd_statusCode := status_or_400 (rd_statusCode d), rd_code := trim (rd_code d),
        rd_type := trim (rd_type d)\<rparr> \<and>
    buildReturnErrorValueText (parseReturnErrorDraft (buildReturnErrorValueText d)) = buildReturnErrorValueText d"
proof -
  have b: "buildReturnErrorValueText d = json_str (Obj (error_props d))"
    using assms by (simp add: buildReturnErrorValueText_def Let_def error_props_def)
  obtain qs where q: "canon (Obj (error_props d)) = Obj qs" by (simp add: canon_Obj del: canon.simps(2))
  have g: "get (Obj qs) k = canon (case map_of (error_props d) k of Some v \<Rightarrow> v | None \<Rightarrow> Undef)" for k
    unfolding q [symmetric] get_canon [OF error_props_ok] by (simp add: get_def)
  have "json_parse (json_str (Obj (error_props d))) = Ok (Obj qs)"
    using json_parse_stringify [OF error_props_ok, of d] q by simp
  moreover have "json_str (Obj (error_props d)) \<noteq> []" by simp
  moreover have "trimmed_or (js_or (get (Obj qs) ''message'') (get (Obj qs) ''msg'')) = trim (rd_message d)"
      "trimmed_or (get (Obj qs) ''code'') = trim (rd_code d)" "trimmed_or (get (Obj qs) ''type'') = trim (rd_type d)"
      "get (Obj qs) ''status_code'' = Num (status_or_400 (rd_statusCode d))" "get (Obj qs) ''skip_retry'' \<noteq> Bool False \<longleftrightarrow> rd_skipRetry d"
    using status_ok [of "rd_statusCode d"] unfolding g by (simp_all add: error_props_def trimmed_or_def js_or_def)
  ultimately have p: "parseReturnErrorDraft (buildReturnErrorValueText d) = 
      d\<lparr>rd_message := trim (rd_message d), rd_statusCode := status_or_400 (rd_statusCode d), rd_code := trim (rd_code d),
        rd_type := trim (rd_type d)\<rparr>"
    using assms status_ok [of "rd_statusCode d"]
    by (simp add: b parseReturnErrorDraft_def Let_def error_defaults_def del: json_str.simps get_simps)
  moreover have "buildReturnErrorValueText (d\<lparr>rd_message := trim (rd_message d), rd_statusCode := status_or_400 (rd_statusCode d), rd_code := trim (rd_code d),
        rd_type := trim (rd_type d)\<rparr>) = buildReturnErrorValueText d"
    using assms status_ok [of "rd_statusCode d"] by (simp add: buildReturnErrorValueText_def Let_def)
  ultimately show ?thesis by simp
qed


definition sample_error :: error_draft where
  "sample_error = \<lparr>rd_message = ''busy'', rd_statusCode = Fin 1000, rd_code = [], rd_type = ''limit'', rd_skipRetry = False, rd_simpleMode = False\<rparr>"

theorem error_draft_roundtrip_witness:
  "parseReturnErrorDraft (buildReturnErrorValueText sample_error) = sample_error\<lparr>rd_statusCode := Fin 400\<rparr>"
proof -
  have "trim ''busy'' = ''busy''" "trim ''limit'' = ''limit''"
    by (rule trim_plain, auto simp: plain_char_def ascii_def ascii_ws_def)+
  then show ?thesis using error_draft_roundtrip [of sample_error]
    by (simp add: sample_error_def status_or_400_def del: get_simps)
qed

theorem reorder_moves_one_witness:
  "\<exists>us x y vs. reorderOperations [sample_op, sample_op\<lparr>op_id := ''z''\<rparr>] ''z'' ''a'' ''before'' = us @ [x, y] @ vs \<and> op_id x = ''z'' \<and> op_id y = ''a''"
proof -
  have "op_id sample_op = ''a''" by (simp add: sample_op_def)
  then show ?thesis using reorder_moves_one [of "[sample_op, sample_op\<lparr>op_id := ''z''\<rparr>]" "''z''" "''a''" "''before''"] by simp
qed

section \<open>Rules of a prune operation\<close>

lemma parsed_rule_ids:
  assumes "parsePruneObjectsDraft clock n u = (d, k)"
  shows "n \<le> k \<and> cond_id ` set (pd_rules d) \<subseteq> ids_in clock n k"
proof (cases "\<exists>ps rules k'. trim u \<noteq> [] \<and> json_parse (trim u) = Ok (Obj ps) \<and> map_fresh (normalizePruneRule clock) n (prune_sources (Obj ps)) = Ok (rules, k')")
  case True
  then obtain ps rules k' where r: "trim u \<noteq> []" "json_parse (trim u) = Ok (Obj ps)"
      "map_fresh (normalizePruneRule clock) n (prune_sources (Obj ps)) = Ok (rules, k')" by blast
  then have "k = k'" "pd_rules d = rules" using assms by (auto simp: parsePruneObjectsDraft_def Let_def)
  then show ?thesis using made_rule.made_list [OF r(3)] by auto
next
  case False
  then have "k = n \<and> pd_rules d = []"
    using assms by (auto simp: parsePruneObjectsDraft_def Let_def prune_defaults_def split: if_splits res.splits jsval.splits)
  then show ?thesis by simp
qed

lemma update_cond_absent: "i \<notin> cond_id ` set cs \<Longrightarrow> update_cond i p cs = cs" "i \<notin> cond_id ` set cs \<Longrightarrow> remove_cond i cs = cs"
  by (auto simp: update_cond_def remove_cond_def image_iff intro!: map_idI filter_True)

text \<open>
  C24: Editing or removing a rule of a prune operation has no effect. The rules that are displayed
  come from reading the operation's text, which draws new ids; the handler reads the text again,
  with ids that are newer, so the rule it is asked to change is never found: both handlers only
  write the text back as it was read.
\<close>

theorem prune_rule_edit_lost:
  assumes "parsePruneObjectsDraft clock m u = (d, k)" "rule \<in> set (pd_rules d)" "k \<le> localIdSeed s"
  shows "updatePruneRule clock i (cond_id rule) patch s = updatePruneObjectsDraft clock i (\<lambda>n d. (d, n)) s \<and>
    removePruneRule clock i (cond_id rule) s = updatePruneObjectsDraft clock i (\<lambda>n d. (d, n)) s"
proof -
  have r: "cond_id rule \<in> ids_in clock m k" using parsed_rule_ids [OF assms(1)] assms(2) by blast
  have "cond_id rule \<notin> cond_id ` set (pd_rules d')" if "parsePruneObjectsDraft clock (localIdSeed s) v = (d', n)" for v d' n
    using parsed_rule_ids [OF that] r ids_in_disjoint [OF assms(3), of clock m n] by blast
  then show ?thesis
    by (auto simp: updatePruneRule_def removePruneRule_def updatePruneObjectsDraft_def update_cond_absent split: option.split prod.split)
qed

definition sample_prune :: jsval where
  "sample_prune = Obj [(''conditions'', Arr [Obj [(''path'', Str ''role'')]])]"

theorem prune_rule_edit_lost_witness:
  "\<exists>rule \<in> set (pd_rules (fst (parsePruneObjectsDraft (\<lambda>_. 0) 0 (json_str sample_prune)))).
     removePruneRule (\<lambda>_. 0) ''i'' (cond_id rule) (initial_po (\<lambda>_. 0) 1) =
       updatePruneObjectsDraft (\<lambda>_. 0) ''i'' (\<lambda>n d. (d, n)) (initial_po (\<lambda>_. 0) 1)"
proof -
  have "canon sample_prune = sample_prune" by (simp add: sample_prune_def prop_entries_def is_index_key_def)
  then have "json_parse (json_str sample_prune) = Ok sample_prune"
    using json_parse_stringify [of sample_prune] by (simp add: sample_prune_def)
  moreover have "trim (json_str sample_prune) = json_str sample_prune" unfolding sample_prune_def by (rule json_str_trim)
  moreover have "json_str sample_prune \<noteq> []" by (simp add: sample_prune_def)
  ultimately obtain d where d: "parsePruneObjectsDraft (\<lambda>_. 0) 0 (json_str sample_prune) = (d, 1)" "pd_rules d \<noteq> []"
    by (simp add: parsePruneObjectsDraft_def sample_prune_def prune_sources_def is_plain_def typeof_object_def normalizePruneRule_def
        del: json_str.simps)
  have "1 \<le> localIdSeed (initial_po (\<lambda>_. 0) 1)" by (simp add: initial_po_def createDefaultOperation_def)
  then show ?thesis using prune_rule_edit_lost [OF d(1), of "hd (pd_rules d)"] d by (intro bexI [of _ "hd (pd_rules d)"]) simp_all
qed

section \<open>Loading\<close>

definition bad_operation :: "jsval \<Rightarrow> bool" where
  "bad_operation v \<longleftrightarrow> v = Null \<or> Null \<in> set (arr_elems (get v ''conditions''))"

lemma map_fresh_Throw:
  assumes "\<And>n v. bad v \<Longrightarrow> f n v = Throw Type_Error" "\<And>n v. \<not> bad v \<Longrightarrow> \<exists>y n'. f n v = Ok (y, n')"
  shows "map_fresh f n vs = Throw e \<longleftrightarrow> e = Type_Error \<and> (\<exists>v \<in> set vs. bad v)"
proof (induction vs arbitrary: n)
  case (Cons v vs)
  show ?case
  proof (cases "bad v")
    case True
    then show ?thesis using assms(1) by auto
  next
    case False
    then obtain y n' where "f n v = Ok (y, n')" using assms(2) by blast
    then show ?thesis using Cons.IH [of n'] False by (cases "map_fresh f n' vs") auto
  qed
qed simp

lemma conditions_Throw: "map_fresh (normalizeCondition clock) n vs = Throw e \<longleftrightarrow> e = Type_Error \<and> Null \<in> set vs"
  by (subst map_fresh_Throw [where bad = "\<lambda>v. v = Null"]) (auto simp: normalizeCondition_def)

lemma normalizeOperation_Throw: "normalizeOperation clock n v = Throw e \<longleftrightarrow> e = Type_Error \<and> bad_operation v"
proof (cases "\<exists>cs. get v ''conditions'' = Arr cs \<and> v \<noteq> Null")
  case True
  then obtain cs where cs: "get v ''conditions'' = Arr cs" "v \<noteq> Null" by blast
  then show ?thesis using conditions_Throw [of clock "Suc n" cs e]
    by (cases "map_fresh (normalizeCondition clock) (Suc n) cs")
      (auto simp: normalizeOperation_def bad_operation_def arr_elems_def split: prod.split)
next
  case False
  then show ?thesis by (auto simp: normalizeOperation_def bad_operation_def arr_elems_def split: jsval.splits)
qed

lemma operations_Throw: "map_fresh (normalizeOperation clock) n vs = Throw e \<longleftrightarrow> e = Type_Error \<and> (\<exists>v \<in> set vs. bad_operation v)"
proof (rule map_fresh_Throw)
  show "\<exists>y n'. normalizeOperation clock n v = Ok (y, n')" if "\<not> bad_operation v" for n v
    using that normalizeOperation_Throw [of clock n v] by (cases "normalizeOperation clock n v") auto
qed (simp add: normalizeOperation_Throw)

text \<open>
  C25: Opening the dialog fails in exactly one situation. Texts that are empty, not JSON, or JSON of
  any other shape are all shown in some view; the dialog throws a type error if and only if the
  stored override has an operation list in which an operation or one of its conditions is
  \<^verbatim>\<open>null\<close>.
\<close>

theorem parseInitialState_throws:
  "parseInitialState clock n (Str text) = Throw e \<longleftrightarrow> e = Type_Error \<and>
     (\<exists>v os. trim text \<noteq> [] \<and> json_parse (trim text) = Ok v \<and> operations_of v = Some os \<and>
        (\<exists>x \<in> set os. x = Null \<or> Null \<in> set (arr_elems (get x ''conditions''))))"
proof -
  have l: "load_operations clock n os = Throw e \<longleftrightarrow> e = Type_Error \<and> (\<exists>v \<in> set os. bad_operation v)" for os
    using operations_Throw [of clock n os e] by (cases "os = []") (auto simp: load_operations_def createDefaultOperation_def)
  obtain d n1 where d: "createDefaultOperation clock n = (d, n1)" by (cases "createDefaultOperation clock n")
  show ?thesis
  proof (cases "\<exists>v os. trim text \<noteq> [] \<and> json_parse (trim text) = Ok v \<and> operations_of v = Some os")
    case True
    then obtain v os where v: "trim text \<noteq> []" "json_parse (trim text) = Ok v" "operations_of v = Some os" by blast
    then have "parseInitialState clock n (Str text) = Throw e \<longleftrightarrow> load_operations clock n os = Throw e"
      by (cases "load_operations clock n os") (auto simp: parseInitialState_def d Let_def)
    then show ?thesis using v l [of os] by (auto simp: bad_operation_def)
  next
    case False
    then show ?thesis by (auto simp: parseInitialState_def d Let_def split: res.split option.split)
  qed
qed

end
