(* ===== verification/Playground_Text.thy ===== *)
theory Playground_Text
  imports Js_Json Messages
begin

text \<open>
  The text helpers of the playground (\<^verbatim>\<open>helpers/utils.jsx\<close>): splitting the thoughts of a model
  from its reply at \<^verbatim>\<open><think>\<close> tags, and building messages. A message is a JavaScript object, so
  it is modelled as a \<^typ>\<open>jsval\<close>; \<open>with_field\<close> is the spread \<^verbatim>\<open>{ ...m, k: v }\<close>.
\<close>

section \<open>Objects\<close>

definition own_props :: "jsval \<Rightarrow> (string \<times> jsval) list" where
  "own_props m = (case m of Obj ps \<Rightarrow> ps | _ \<Rightarrow> obj_entries m)"

definition with_field :: "string \<Rightarrow> jsval \<Rightarrow> jsval \<Rightarrow> jsval" where
  "with_field k v m = Obj (set_prop k v (own_props m))"

lemma get_with_field [simp]:
  "get (with_field k v (Obj ps)) k' = (if k' = k then v else get (Obj ps) k')"
  by (simp add: with_field_def own_props_def)

lemma with_field_Obj: "\<exists>ps. with_field k v m = Obj ps"
  by (simp add: with_field_def)

definition with_fields :: "(string \<times> jsval) list \<Rightarrow> jsval \<Rightarrow> jsval" where
  "with_fields kvs m = foldl (\<lambda>acc (k, v). with_field k v acc) m kvs"

text \<open>\<^verbatim>\<open>a && b\<close>, \<^verbatim>\<open>!a\<close>, \<^verbatim>\<open>a + b\<close>\<close>

definition js_and :: "jsval \<Rightarrow> jsval \<Rightarrow> jsval" where
  "js_and a b = (if truthy a then b else a)"

definition js_not :: "jsval \<Rightarrow> jsval" where
  "js_not a = Bool (\<not> truthy a)"

definition stringy :: "jsval \<Rightarrow> bool" where
  "stringy v = (case v of Str _ \<Rightarrow> True | Arr _ \<Rightarrow> True | Obj _ \<Rightarrow> True | _ \<Rightarrow> False)"

definition js_plus :: "jsval \<Rightarrow> jsval \<Rightarrow> jsval" where
  "js_plus a b = (if stringy a \<or> stringy b then Str (to_str a @ to_str b) else Num (js_add (to_num a) (to_num b)))"

section \<open>Searching in texts\<close>

text \<open>
  The text before and after the first occurrence of a non-empty pattern, and after the last one.
  Patterns are ASCII, so bytes can be compared.
\<close>

fun cut_at :: "string \<Rightarrow> string \<Rightarrow> (string \<times> string) option" where
  "cut_at p [] = (if p = [] then Some ([], []) else None)"
| "cut_at p (c # s) =
     (if prefix p (c # s) then Some ([], drop (length p) (c # s))
      else map_option (\<lambda>(a, b). (c # a, b)) (cut_at p s))"

fun cut_last :: "string \<Rightarrow> string \<Rightarrow> (string \<times> string) option" where
  "cut_last p [] = (if p = [] then Some ([], []) else None)"
| "cut_last p (c # s) =
     (case cut_last p s of
        Some (a, b) \<Rightarrow> Some (c # a, b)
      | None \<Rightarrow> if prefix p (c # s) then Some ([], drop (length p) (c # s)) else None)"

definition has_text :: "string \<Rightarrow> string \<Rightarrow> bool" where
  "has_text s p \<longleftrightarrow> cut_at p s \<noteq> None"

lemma cut_Some: "cut_at p s = Some (a, b) \<Longrightarrow> s = a @ p @ b"
  by (induction p s arbitrary: a b rule: cut_at.induct) (auto simp: prefix_def split: if_splits)

lemma cut_shorter: "cut_at p s = Some (a, b) \<Longrightarrow> p \<noteq> [] \<Longrightarrow> length b < length s"
  using cut_Some [of p s a b] by auto

text \<open>How often a non-empty pattern occurs, without overlaps: \<^verbatim>\<open>s.match(/p/g).length\<close>.\<close>

function occurrences :: "string \<Rightarrow> string \<Rightarrow> nat" where
  "occurrences p s =
     (if p = [] then 0 else case cut_at p s of None \<Rightarrow> 0 | Some (a, b) \<Rightarrow> Suc (occurrences p b))"
  by pat_completeness auto
termination
  by (relation "measure (\<lambda>(p, s). length s)") (auto dest: cut_shorter)

declare occurrences.simps [simp del]

section \<open>Think tags\<close>

abbreviation open_tag :: string where
  "open_tag \<equiv> ''<think>''"

abbreviation close_tag :: string where
  "close_tag \<equiv> ''</think>''"

text \<open>
  The loop over \<^verbatim>\<open>/<think>([\s\S]*?)<\/think>/g\<close>: the thoughts and the parts between them. A match
  starts at the first opening tag and ends at the first closing tag after it; an opening tag
  without a closing tag behind it ends the loop.
\<close>

function think_parts :: "string \<Rightarrow> string list \<times> string list" where
  "think_parts s =
     (case cut_at open_tag s of
        None \<Rightarrow> ([], [s])
      | Some (a, r) \<Rightarrow>
          (case cut_at close_tag r of
             None \<Rightarrow> ([], [s])
           | Some (t, b) \<Rightarrow> (case think_parts b of (ts, rs) \<Rightarrow> (t # ts, a # rs))))"
  by pat_completeness auto
termination
  by (relation "measure length") (auto dest!: cut_shorter)

declare think_parts.simps [simp del]

text \<open>\<^verbatim>\<open>s.replace(/<\/?think>/g, '')\<close>\<close>

function drop_tags :: "string \<Rightarrow> string" where
  "drop_tags [] = []"
| "drop_tags (c # s) =
     (if prefix open_tag (c # s) then drop_tags (drop 7 (c # s))
      else if prefix close_tag (c # s) then drop_tags (drop 8 (c # s))
      else c # drop_tags s)"
  by pat_completeness auto
termination
  by (relation "measure length") auto

definition thought_sep :: string where
  "thought_sep = [CHR 0x0A, CHR 0x0A] @ ''---'' @ [CHR 0x0A, CHR 0x0A]"

text \<open>\<^verbatim>\<open>r && t ? `${r}\n\n---\n\n${t}` : r || t\<close>\<close>

definition add_thoughts :: "jsval \<Rightarrow> string \<Rightarrow> jsval" where
  "add_thoughts r t =
     (if truthy r \<and> t \<noteq> [] then Str (to_str r @ thought_sep @ t) else js_or r (Str t))"

definition dflt :: "jsval \<Rightarrow> jsval \<Rightarrow> jsval" where
  "dflt d v = (if v = Undef then d else v)"

definition processThinkTags :: "jsval \<Rightarrow> jsval \<Rightarrow> (jsval \<times> jsval) res" where
  "processThinkTags content reasoning =
     (let reasoningContent = dflt (Str []) reasoning in
      if \<not> truthy content then Ok (content, reasoningContent)
      else
        (case content of
           Str s \<Rightarrow>
             if \<not> has_text s open_tag then Ok (content, reasoningContent)
             else
               (case think_parts s of (thoughts, replyParts) \<Rightarrow>
                  Ok (Str (trim (drop_tags (concat replyParts))),
                      add_thoughts reasoningContent (join thought_sep thoughts)))
         | Arr vs \<Rightarrow> if Str open_tag \<in> set vs then Throw Type_Error else Ok (content, reasoningContent)
         | _ \<Rightarrow> Throw Type_Error))"

definition processIncompleteThinkTags :: "jsval \<Rightarrow> jsval \<Rightarrow> (jsval \<times> jsval) res" where
  "processIncompleteThinkTags content reasoning =
     (let reasoningContent = dflt (Str []) reasoning in
      if \<not> truthy content then Ok (Str [], reasoningContent)
      else
        (case content of
           Str s \<Rightarrow>
             (case cut_last open_tag s of
                None \<Rightarrow> processThinkTags content reasoningContent
              | Some (a, b) \<Rightarrow>
                  if has_text (open_tag @ b) close_tag then processThinkTags content reasoningContent
                  else
                    (let unclosed = trim b
                     in processThinkTags (Str a)
                          (if unclosed = [] then reasoningContent
                           else if truthy reasoningContent then Str (to_str reasoningContent @ thought_sep @ unclosed)
                           else Str unclosed)))
         | Arr vs \<Rightarrow> if Str open_tag \<in> set vs then Throw Type_Error else processThinkTags content reasoningContent
         | _ \<Rightarrow> Throw Type_Error))"

section \<open>Messages\<close>

text \<open>\<^verbatim>\<open>xs.find(p)\<close> on values, \<^verbatim>\<open>undefined\<close> if there is none; reading a field of null throws.\<close>

definition field_of :: "jsval \<Rightarrow> string \<Rightarrow> jsval res" where
  "field_of v k = (if nullish v then Throw Type_Error else Ok (get v k))"

fun find_type :: "string \<Rightarrow> jsval list \<Rightarrow> jsval res" where
  "find_type ty [] = Ok Undef"
| "find_type ty (x # xs) =
     bind_res (field_of x ''type'') (\<lambda>k. if k = Str ty then Ok x else find_type ty xs)"

definition getTextContent :: "jsval \<Rightarrow> jsval res" where
  "getTextContent m =
     (if \<not> truthy m \<or> \<not> truthy (get m ''content'') then Ok (Str [])
      else
        (case get m ''content'' of
           Arr items \<Rightarrow> bind_res (find_type ''text'' items) (\<lambda>x. Ok (js_or (get x ''text'') (Str [])))
         | Str s \<Rightarrow> Ok (Str s)
         | _ \<Rightarrow> Ok (Str [])))"

definition buildMessageContent :: "jsval \<Rightarrow> string list \<Rightarrow> bool \<Rightarrow> jsval" where
  "buildMessageContent textContent imageUrls imageEnabled =
     (let validImageUrls = filter (\<lambda>u. trim u \<noteq> []) imageUrls in
      if \<not> truthy textContent \<and> imageUrls = [] then Str []
      else if imageEnabled \<and> validImageUrls \<noteq> [] then
        Arr (Obj [(''type'', Str ''text''), (''text'', js_or textContent (Str []))] #
             map (\<lambda>u. Obj [(''type'', Str ''image_url''), (''image_url'', Obj [(''url'', Str (trim u))])]) validImageUrls)
      else js_or textContent (Str []))"

text \<open>The id and the time of a new message come from outside.\<close>

definition createMessage :: "string \<Rightarrow> jsval \<Rightarrow> jsnum \<Rightarrow> string \<Rightarrow> (string \<times> jsval) list \<Rightarrow> jsval" where
  "createMessage role content now ident options =
     with_fields options (Obj [(''role'', Str role), (''content'', content), (''createAt'', Num now), (''id'', Str ident)])"

definition createLoadingAssistantMessage :: "jsnum \<Rightarrow> string \<Rightarrow> jsval" where
  "createLoadingAssistantMessage now ident =
     createMessage ''assistant'' (Str []) now ident
       [(''reasoningContent'', Str []), (''isReasoningExpanded'', Bool True), (''isThinkingComplete'', Bool False),
        (''hasAutoCollapsed'', Bool False), (''status'', Str ''loading'')]"

definition formatMessageForAPI :: "jsval \<Rightarrow> jsval" where
  "formatMessageForAPI m =
     (if \<not> truthy m then Null else Obj [(''role'', get m ''role''), (''content'', get m ''content'')])"

definition isValidMessage :: "jsval \<Rightarrow> bool" where
  "isValidMessage m \<longleftrightarrow>
     truthy m \<and> truthy (get m ''role'') \<and> (truthy (get m ''content'') \<or> get m ''content'' = Str [])"

text \<open>\<^verbatim>\<open>getDefaultMessages\<close>\<close>

definition getDefaultMessages :: "translate \<Rightarrow> jsval list" where
  "getDefaultMessages t =
     [Obj [(''role'', Str ''user''), (''id'', Str ''2''), (''createAt'', Num (Fin 1715676751919)),
           (''content'', Str (t msg_pg_default_user []))],
      Obj [(''role'', Str ''assistant''), (''id'', Str ''3''), (''createAt'', Num (Fin 1715676751919)),
           (''content'', Str (t msg_pg_default_assistant [])), (''reasoningContent'', Str []),
           (''isReasoningExpanded'', Bool False)]]"

end
