(* ===== verification/Playground_Media.thy ===== *)
theory Playground_Media
  imports Playground_Text
begin

text \<open>
  Images and videos in playground messages: finding the sources in a response body
  (\<^verbatim>\<open>helpers/playgroundImageUtils.js\<close>, \<^verbatim>\<open>helpers/playgroundVideoUtils.js\<close> and the first part of
  \<^verbatim>\<open>hooks/playground/useApiRequest.jsx\<close>), writing them into a message and reading them back.
\<close>

section \<open>Image sources\<close>

text \<open>\<^verbatim>\<open>typeof v === 'string' ? v.trim() : ''\<close>\<close>

definition str_trim :: "jsval \<Rightarrow> string" where
  "str_trim v = (case v of Str s \<Rightarrow> trim s | _ \<Rightarrow> [])"

definition is_url :: "string \<Rightarrow> bool" where
  "is_url s \<longleftrightarrow> prefix ''data:'' s \<or> prefix ''http://'' s \<or> prefix ''https://'' s"

definition normalizeBase64ImageSrc :: "jsval \<Rightarrow> string \<Rightarrow> string" where
  "normalizeBase64ImageSrc value mime =
     (let s = trim (to_str (js_or value (Str []))) in
      if s = [] then [] else if is_url s then s else ''data:'' @ mime @ '';base64,'' @ s)"

definition itemToImageSrc :: "jsval \<Rightarrow> string" where
  "itemToImageSrc item =
     (if \<not> truthy item then []
      else
        (case item of
           Str u \<Rightarrow> (let s = trim u in if s = [] then [] else if is_url s then s
                      else normalizeBase64ImageSrc (Str s) ''image/png'')
         | _ \<Rightarrow>
             if \<not> typeof_object item then []
             else if str_trim (get item ''url'') \<noteq> [] then str_trim (get item ''url'')
             else if str_trim (get item ''image_url'') \<noteq> [] then str_trim (get item ''image_url'')
             else
               (let b64 = coalesce (get item ''b64_json'') (coalesce (get item ''base64'') (coalesce (get item ''binary'')
                            (coalesce (get item ''image_base64'') (get item ''data''))))
                in if str_trim b64 \<noteq> []
                   then normalizeBase64ImageSrc b64
                     (if str_trim (get item ''mime_type'') \<noteq> [] then str_trim (get item ''mime_type'') else ''image/png'')
                   else [])))"

definition collectSourcesFromList :: "jsval \<Rightarrow> string list" where
  "collectSourcesFromList v = filter (\<lambda>s. s \<noteq> []) (map itemToImageSrc (arr_elems v))"

definition dedupeImageSources :: "string list \<Rightarrow> string list" where
  "dedupeImageSources sources = dedup (filter (\<lambda>s. s \<noteq> []) sources)"

function extractImageSources :: "jsval \<Rightarrow> nat \<Rightarrow> string list" where
  "extractImageSources obj depth =
     (if \<not> truthy obj \<or> \<not> typeof_object obj \<or> depth > 6 then []
      else
        dedupeImageSources
          (collectSourcesFromList (get obj ''data'') @ collectSourcesFromList (get obj ''image_urls'') @
           collectSourcesFromList (get obj ''images'') @ collectSourcesFromList (get obj ''outputs'') @
           filter (\<lambda>s. s \<noteq> []) (map (\<lambda>b. normalizeBase64ImageSrc b ''image/png'') (arr_elems (get obj ''binary_data_base64''))) @
           filter (\<lambda>s. s \<noteq> []) (map (\<lambda>k. str_trim (get obj k)) [''url'', ''image_url'', ''output_url'', ''result_url'']) @
           (let v = get obj ''output'' in if truthy v \<and> typeof_object v then extractImageSources v (depth + 1) else []) @
           (let v = get obj ''result'' in if truthy v \<and> typeof_object v then extractImageSources v (depth + 1) else []) @
           (let v = get obj ''data'' in if truthy v \<and> typeof_object v \<and> \<not> is_array v then extractImageSources v (depth + 1) else [])))"
  by pat_completeness auto
termination
  by (relation "measure (\<lambda>(obj, depth). 7 - depth)") auto

declare extractImageSources.simps [simp del]

definition image_ref :: "nat \<Rightarrow> string \<Rightarrow> string" where
  "image_ref i src = ''![generated-image-'' @ nat_str i @ '']('' @ src @ '')''"

definition image_refs :: "string list \<Rightarrow> string list" where
  "image_refs sources = map (\<lambda>(i, src). image_ref (i + 1) src) (enumerate 0 sources)"

definition buildImageMarkdown :: "string list \<Rightarrow> string" where
  "buildImageMarkdown sources = join [CHR 0x0A, CHR 0x0A] (image_refs (dedupeImageSources sources))"

text \<open>The images and the content of the patch, or null.\<close>

definition buildImageMessageContentPatch :: "string list \<Rightarrow> (string list \<times> string) option" where
  "buildImageMessageContentPatch sources =
     (let images = dedupeImageSources sources in
      if images = [] then None else Some (images, buildImageMarkdown images))"

section \<open>Reading image references\<close>

text \<open>
  One match of \<^verbatim>\<open>/!\[generated-image-\d+\]\(([\s\S]*?)\)/\<close> at the start of a text: the source and
  what follows.
\<close>

definition image_match :: "string \<Rightarrow> (string \<times> string) option" where
  "image_match s =
     (if prefix ''![generated-image-'' s then
        (let r = drop 18 s; d = takeWhile is_digit r; r' = drop (length d) r
         in if d \<noteq> [] \<and> prefix '']('' r' then cut_at '')'' (drop 2 r') else None)
      else None)"

lemma image_match_shorter: "image_match s = Some (u, r) \<Longrightarrow> length r < length s"
proof -
  assume m: "image_match s = Some (u, r)"
  define r' where "r' = drop (length (takeWhile is_digit (drop 18 s))) (drop 18 s)"
  have "cut_at '')'' (drop 2 r') = Some (u, r)" "prefix ''![generated-image-'' s"
    using m by (auto simp: image_match_def Let_def r'_def split: if_splits)
  then have "length r < length (drop 2 r')" using cut_shorter [of "'')''" "drop 2 r'" u r] by simp
  also have "\<dots> \<le> length s" by (simp add: r'_def)
  finally show ?thesis .
qed

function md_images :: "string \<Rightarrow> string list" where
  "md_images [] = []"
| "md_images (c # s) =
     (case image_match (c # s) of Some (src, r) \<Rightarrow> trim src # md_images r | None \<Rightarrow> md_images s)"
  by pat_completeness auto
termination
  by (relation "measure length") (auto dest: image_match_shorter)

declare md_images.simps(2) [simp del]

definition extractGeneratedImagesFromMarkdown :: "string \<Rightarrow> string list" where
  "extractGeneratedImagesFromMarkdown s = (if trim s = [] then [] else dedupeImageSources (md_images s))"

text \<open>
  Values of an array without repetition; objects are compared by identity, and no two entries of a
  stored array are the same object.
\<close>

fun dedupe_values :: "jsval list \<Rightarrow> jsval list \<Rightarrow> jsval list" where
  "dedupe_values seen [] = []"
| "dedupe_values seen (v # vs) =
     (if \<not> truthy v \<or> v \<in> set seen \<and> \<not> typeof_object v then dedupe_values seen vs
      else v # dedupe_values (v # seen) vs)"

definition resolveMessageGeneratedImages :: "jsval \<Rightarrow> jsval list" where
  "resolveMessageGeneratedImages m =
     (let fromField = filter truthy (arr_elems (get m ''generatedImages'')) in
      if fromField \<noteq> [] then dedupe_values [] fromField
      else case get m ''content'' of Str s \<Rightarrow> map Str (extractGeneratedImagesFromMarkdown s) | _ \<Rightarrow> [])"

lemma length_drop_ws: "length (drop_ws s) \<le> length s"
proof -
  have "length (concat (dropWhile P xs)) \<le> length (concat xs)" for P and xs :: "string list"
    by (induction xs) auto
  moreover have "concat (chars s) = s" by (induction s rule: chars.induct) auto
  ultimately show ?thesis unfolding drop_ws_def by metis
qed

function drop_images :: "string \<Rightarrow> string" where
  "drop_images [] = []"
| "drop_images (c # s) =
     (case image_match (c # s) of Some (src, r) \<Rightarrow> drop_images (drop_ws r) | None \<Rightarrow> c # drop_images s)"
  by pat_completeness auto
termination
proof (relation "measure length")
  show "(drop_ws r, c # s) \<in> measure length" if "image_match (c # s) = Some x" "(src, r) = x" for c s x src r
    using image_match_shorter [of "c # s" src r] that length_drop_ws [of r] by auto
qed auto

text \<open>\<^verbatim>\<open>s.replace(/\n{3,}/g, '\n\n')\<close>\<close>

function squeeze_lines :: "string \<Rightarrow> string" where
  "squeeze_lines [] = []"
| "squeeze_lines (c # s) =
     (if c = CHR 0x0A then
        (let run = takeWhile (\<lambda>d. d = CHR 0x0A) s
         in (if length run \<ge> 2 then [CHR 0x0A, CHR 0x0A] else c # run) @
            squeeze_lines (dropWhile (\<lambda>d. d = CHR 0x0A) s))
      else c # squeeze_lines s)"
  by pat_completeness auto
termination
  by (relation "measure length") (auto simp: le_imp_less_Suc length_dropWhile_le)

definition stripGeneratedImageMarkdown :: "string \<Rightarrow> string" where
  "stripGeneratedImageMarkdown s = (if trim s = [] then [] else trim (squeeze_lines (drop_images s)))"

section \<open>Video helpers\<close>

definition line_end_free :: "string \<Rightarrow> bool" where
  "line_end_free s \<longleftrightarrow> CHR 0x0A \<notin> set s \<and> CHR 0x0D \<notin> set s \<and>
     \<not> has_text s (utf8_char 0x2028) \<and> \<not> has_text s (utf8_char 0x2029)"

text \<open>\<^verbatim>\<open>/\.(ext)(\?.*)?$/i\<close> for one of the extensions\<close>

definition ends_with_ext :: "string list \<Rightarrow> string \<Rightarrow> bool" where
  "ends_with_ext exts s \<longleftrightarrow>
     list_ex (\<lambda>u. list_ex (\<lambda>e.
       prefix (CHR ''.'' # e) (map lower_ascii u) \<and>
       (let r = drop (length e + 1) u in r = [] \<or> hd r = CHR ''?'' \<and> line_end_free (tl r))) exts) (suffixes s)"

definition isVideoURL :: "string \<Rightarrow> bool" where
  "isVideoURL url = ends_with_ext [''mp4'', ''mov'', ''avi'', ''mkv'', ''webm''] (trim url)"

definition isAudioURL :: "string \<Rightarrow> bool" where
  "isAudioURL url = ends_with_ext [''mp3'', ''wav'', ''m4a'', ''aac'', ''ogg'', ''flac''] (trim url)"

definition dedupeUrls :: "string list \<Rightarrow> string list" where
  "dedupeUrls urls = dedup (filter (\<lambda>s. s \<noteq> []) (map trim urls))"

definition image_url_of :: "jsval \<Rightarrow> string" where
  "image_url_of item =
     (if get item ''type'' \<noteq> Str ''image_url'' then []
      else
        (let url = (case get item ''image_url'' of Str s \<Rightarrow> Str s | v \<Rightarrow> get v ''url'')
         in if truthy url then trim (to_str url) else []))"

definition extractImageUrlsFromMessages :: "jsval list \<Rightarrow> string list" where
  "extractImageUrlsFromMessages messages =
     (case filter (\<lambda>m. get m ''role'' = Str ''user'') (rev messages) of
        [] \<Rightarrow> []
      | m # _ \<Rightarrow> filter (\<lambda>s. s \<noteq> []) (map image_url_of (arr_elems (get m ''content''))))"

record media_urls =
  mu_images :: "string list"
  mu_videos :: "string list"
  mu_audios :: "string list"
  mu_all :: "string list"

definition non_blank_urls :: "jsval list \<Rightarrow> string list" where
  "non_blank_urls us = filter (\<lambda>s. s \<noteq> []) (map (\<lambda>u. trim (to_str (js_or u (Str [])))) us)"

definition collectVideoMediaUrls :: "jsval list \<Rightarrow> jsval list \<Rightarrow> jsval list \<Rightarrow> media_urls" where
  "collectVideoMediaUrls sidebarImageUrls sidebarVideoUrls messages =
     (let fromImages = dedupeUrls (non_blank_urls sidebarImageUrls @ extractImageUrlsFromMessages messages);
          images = filter (\<lambda>u. \<not> isVideoURL u \<and> \<not> isAudioURL u) fromImages;
          audios = filter isAudioURL fromImages;
          videos = dedupeUrls (non_blank_urls sidebarVideoUrls @ filter isVideoURL fromImages)
      in \<lparr>mu_images = images, mu_videos = videos, mu_audios = audios, mu_all = dedupeUrls (images @ videos @ audios)\<rparr>)"

definition media_item :: "string \<Rightarrow> string \<Rightarrow> jsval" where
  "media_item ty url = Obj [(''type'', Str ty), (''url'', Str url)]"

definition buildImageMediaItems :: "jsval list \<Rightarrow> jsval list" where
  "buildImageMediaItems imageUrls =
     (case non_blank_urls imageUrls of
        [] \<Rightarrow> []
      | [u] \<Rightarrow> [media_item ''first_frame'' u]
      | u # us \<Rightarrow> media_item ''first_frame'' u # map (media_item ''reference_image'') (butlast us) @
          [media_item ''last_frame'' (last us)])"

definition applyVideoFrameMetadata :: "jsval \<Rightarrow> string list \<Rightarrow> jsval" where
  "applyVideoFrameMetadata metadata imageUrls =
     (let images = filter (\<lambda>s. s \<noteq> []) (map trim imageUrls) in
      if images = [] then metadata
      else
        (let m = with_field ''first_frame_url'' (Str (hd images)) metadata
         in if length images \<ge> 2 then with_field ''last_frame_url'' (Str (last images)) m else m))"

definition buildVideoNativeInput :: "jsval \<Rightarrow> jsval" where
  "buildVideoNativeInput prompt = Obj [(''prompt'', Str (trim (to_str (js_or prompt (Str [])))))]"

definition formatVideoTaskError :: "jsval \<Rightarrow> string" where
  "formatVideoTaskError d =
     (if \<not> truthy d \<or> \<not> typeof_object d then []
      else
        (let err = get d ''error'';
             msg = js_or (get err ''message'') (get err ''msg''); code = js_or (get err ''code'') (get err ''type'');
             inner = get d ''data'';
             taskPayload = (if truthy inner \<and> typeof_object inner \<and> \<not> is_array inner then inner else d)
         in if truthy err \<and> typeof_object err \<and> truthy msg
            then (if truthy code then to_str msg @ lbl_paren_open @ to_str code @ lbl_paren_close else to_str msg)
            else if truthy (get taskPayload ''message'') then to_str (get taskPayload ''message'') else []))"

section \<open>Video tasks\<close>

definition getVideoTaskPayload :: "jsval \<Rightarrow> jsval" where
  "getVideoTaskPayload obj =
     (if \<not> truthy obj \<or> \<not> typeof_object obj then Obj []
      else
        (let d = get obj ''data'' in
         if truthy d \<and> typeof_object d \<and> \<not> is_array d \<and>
            (truthy (get d ''task_id'') \<or> truthy (get d ''id'') \<or> truthy (get d ''status'') \<or> truthy (get d ''url''))
         then d else obj))"

definition first_text :: "string list \<Rightarrow> string" where
  "first_text ss = (case filter (\<lambda>s. s \<noteq> []) ss of [] \<Rightarrow> [] | s # _ \<Rightarrow> s)"

definition object_at :: "jsval \<Rightarrow> string \<Rightarrow> bool" where
  "object_at obj k \<longleftrightarrow> truthy (get obj k) \<and> typeof_object (get obj k)"

lemma size_elem: "x \<in> set (arr_elems v) \<Longrightarrow> size x < size v"
proof -
  assume x: "x \<in> set (arr_elems v)"
  then obtain vs where v: "v = Arr vs" by (auto simp: arr_elems_def split: jsval.splits)
  have "size x \<le> size_list size vs" using x v by (intro size_list_estimation' [of x]) (simp_all add: arr_elems_def)
  then show ?thesis using v by simp
qed

lemma size_prop: "(k, v) \<in> set ps \<Longrightarrow> size v < size (Obj ps)"
proof -
  assume "(k, v) \<in> set ps"
  then have "size v \<le> size_list (size_prod (\<lambda>_. 0) size) ps" by (rule size_list_estimation') simp
  then show ?thesis by simp
qed

lemma size_get: "get v k \<noteq> Undef \<Longrightarrow> size (get v k) < size v"
proof (cases v)
  case (Obj ps)
  moreover assume "get v k \<noteq> Undef"
  ultimately obtain w where "map_of ps k = Some w" "get v k = w" by (auto split: option.splits)
  then show ?thesis using Obj size_prop map_of_SomeD by metis
next
  case (Arr vs)
  moreover assume "get v k \<noteq> Undef"
  ultimately have "get v k \<in> set (arr_elems v)" by (auto simp: get_def arr_elems_def split: if_splits)
  then show ?thesis by (rule size_elem)
qed (simp_all add: get_def)

lemma object_at_size: "object_at obj k \<Longrightarrow> size (get obj k) < size obj"
  by (rule size_get) (auto simp: object_at_def)

function extractVideoPlayableURL :: "jsval \<Rightarrow> string" where
  "extractVideoPlayableURL obj =
     (if \<not> truthy obj \<or> \<not> typeof_object obj then []
      else
        first_text
          ((if object_at obj ''output''
            then [trim (case get (get obj ''output'') ''video_url'' of
                          Str s \<Rightarrow> s
                        | _ \<Rightarrow> (case get (get obj ''output'') ''videoUrl'' of Str s \<Rightarrow> s | _ \<Rightarrow> []))]
            else []) @
           map (\<lambda>k. str_trim (get obj k)) [''url'', ''video_url'', ''content_url'', ''output_url''] @
           map extractVideoPlayableURL (arr_elems (get obj ''data'')) @
           (if object_at obj ''video'' then [extractVideoPlayableURL (get obj ''video'')] else []) @
           (if object_at obj ''result'' then [extractVideoPlayableURL (get obj ''result'')] else []) @
           (if object_at obj ''data'' \<and> \<not> is_array (get obj ''data'') then [extractVideoPlayableURL (get obj ''data'')] else [])))"
  by pat_completeness auto
termination
proof (relation "measure size")
  show "(x, obj) \<in> measure size" if "x \<in> set (arr_elems (get obj ''data''))" for obj x
  proof -
    have "size x < size (get obj ''data'')" using that by (rule size_elem)
    moreover have "get obj ''data'' \<noteq> Undef" using that by (auto simp: arr_elems_def)
    ultimately show ?thesis using size_get [of obj "''data''"] by simp
  qed
qed (auto simp: object_at_size)

declare extractVideoPlayableURL.simps [simp del]

end
