(* ===== verification/Playground_Payload.thy ===== *)
theory Playground_Payload
  imports Playground_Media
begin

text \<open>
  The request body of a playground message (\<^verbatim>\<open>buildApiPayload\<close> in \<^verbatim>\<open>helpers/api.js\<close>) for the chat,
  image and video modes, and the description of a failed request.
\<close>

definition js_min :: "jsnum \<Rightarrow> jsnum \<Rightarrow> jsnum" where
  "js_min a b = (if a = NaN \<or> b = NaN then NaN else if js_lt a b then a else b)"

text \<open>\<^verbatim>\<open>Number(v) || d\<close>\<close>

definition num_or :: "jsval \<Rightarrow> jsnum \<Rightarrow> jsnum" where
  "num_or v d = (if truthy_num (to_num v) then to_num v else d)"

definition display_mode :: "jsval \<Rightarrow> jsval" where
  "display_mode inputs = js_or (get inputs ''display_mode'') (Str ''text'')"

definition processed_messages :: "jsval list \<Rightarrow> jsval \<Rightarrow> jsval list" where
  "processed_messages messages systemPrompt =
     (let ms = filter truthy (map formatMessageForAPI (filter isValidMessage messages))
      in case systemPrompt of
           Str s \<Rightarrow> if trim s \<noteq> [] then Obj [(''role'', Str ''system''), (''content'', Str (trim s))] # ms else ms
         | _ \<Rightarrow> ms)"

fun prompt_in :: "jsval list \<Rightarrow> jsval" where
  "prompt_in [] = Str []"
| "prompt_in (m # ms) =
     (if get m ''role'' \<noteq> Str ''user'' then prompt_in ms
      else
        (case get m ''content'' of
           Str s \<Rightarrow> Str s
         | Arr items \<Rightarrow>
             js_or (get (case find (\<lambda>i. get i ''type'' = Str ''text'') items of Some x \<Rightarrow> x | None \<Rightarrow> Undef) ''text'') (Str [])
         | _ \<Rightarrow> prompt_in ms))"

definition getLastUserPrompt :: "jsval list \<Rightarrow> jsval" where
  "getLastUserPrompt ms = prompt_in (rev ms)"

definition modelWithRoute :: "jsval \<Rightarrow> jsval" where
  "modelWithRoute inputs =
     (let slug = get inputs ''selected_route_slug''; routeSlug = (if truthy slug then trim (to_str slug) else [])
      in if routeSlug \<noteq> [] then Str (to_str (get inputs ''model'') @ ''/'' @ routeSlug) else get inputs ''model'')"

definition ratioOptions :: "(string \<times> jsnum) list" where
  "ratioOptions =
     [(''16:9'', js_div (Fin 16) (Fin 9)), (''9:16'', js_div (Fin 9) (Fin 16)), (''1:1'', Fin 1),
      (''4:3'', js_div (Fin 4) (Fin 3)), (''3:4'', js_div (Fin 3) (Fin 4)), (''21:9'', js_div (Fin 21) (Fin 9))]"

definition video_duration :: "jsval \<Rightarrow> jsnum" where
  "video_duration v =
     js_max (Fin 3) (js_min (Fin 30) (if is_finite (to_num v) \<and> js_lt (Fin 0) (to_num v) then js_round (to_num v) else Fin 5))"

definition video_resolution :: "jsnum \<Rightarrow> jsnum \<Rightarrow> string" where
  "video_resolution width height =
     (let shortSide = js_min width height
      in if js_le (Fin 1080) shortSide then ''1080p'' else if js_le (Fin 720) shortSide then ''720p'' else ''480p'')"

definition video_ratio :: "jsnum \<Rightarrow> jsnum \<Rightarrow> string" where
  "video_ratio width height =
     (case find (\<lambda>(v, r). js_lt (js_abs (js_sub (js_div width height) r)) (rnd (3 / 100))) ratioOptions of
        Some (v, r) \<Rightarrow> v | None \<Rightarrow> ''adaptive'')"

definition opt_field :: "bool \<Rightarrow> string \<Rightarrow> jsval \<Rightarrow> (string \<times> jsval) list" where
  "opt_field c k v = (if c then [(k, v)] else [])"

definition video_payload :: "jsval list \<Rightarrow> jsval \<Rightarrow> jsval" where
  "video_payload ms inputs =
     (let width = num_or (get inputs ''video_width'') (Fin 1280); height = num_or (get inputs ''video_height'') (Fin 720);
          motionValue = to_num (get inputs ''video_motion'');
          motion = (if is_finite motionValue then motionValue else rnd (4 / 10));
          duration = video_duration (get inputs ''video_duration'');
          prompt = getLastUserPrompt ms;
          media = collectVideoMediaUrls (arr_elems (get inputs ''imageUrls'')) (arr_elems (get inputs ''videoUrls'')) ms;
          metadata = applyVideoFrameMetadata
            (Obj ([(''duration'', Num duration), (''resolution'', Str (video_resolution width height)),
                   (''ratio'', Str (video_ratio width height)), (''generate_audio'', Bool False)] @
                  opt_field (mu_videos media \<noteq> []) ''video_urls'' (Arr (map Str (mu_videos media))) @
                  opt_field (mu_audios media \<noteq> []) ''audio_urls'' (Arr (map Str (mu_audios media)))))
            (mu_images media);
          metadata' = (if truthy prompt \<or> mu_images media \<noteq> [] \<or> mu_videos media \<noteq> []
                       then with_field ''input'' (buildVideoNativeInput prompt) metadata else metadata)
      in Obj ([(''model'', modelWithRoute inputs), (''prompt'', prompt),
               (''n'', Num (js_max (Fin 1) (js_min (Fin 3) (num_or (get inputs ''video_n'') (Fin 1))))),
               (''size'', Str (num_str width @ ''x'' @ num_str height)), (''fps'', Num (num_or (get inputs ''video_fps'') (Fin 24))),
               (''duration'', Num duration), (''motion'', Num motion), (''negative_prompt'', Str []), (''seed'', Null),
               (''images'', Arr (map Str (mu_images media)))] @
              opt_field (mu_images media = [] \<and> mu_videos media \<noteq> []) ''input_reference'' (Str (hd (mu_videos media))) @
              [(''metadata'', metadata'), (''__endpoint'', Str ''video'')]))"

definition image_payload :: "jsval list \<Rightarrow> jsval \<Rightarrow> jsval" where
  "image_payload ms inputs =
     Obj [(''model'', modelWithRoute inputs), (''prompt'', getLastUserPrompt ms),
          (''size'', js_or (get inputs ''image_size'') (Str ''1024x1024'')), (''n'', Num (num_or (get inputs ''image_n'') (Fin 1))),
          (''__endpoint'', Str ''image'')]"

definition parameterMappings :: "string list" where
  "parameterMappings = [''temperature'', ''max_tokens'', ''frequency_penalty'', ''presence_penalty'', ''seed'']"

definition chat_payload :: "jsval list \<Rightarrow> jsval \<Rightarrow> jsval \<Rightarrow> jsval" where
  "chat_payload ms inputs parameterEnabled =
     with_fields (map (\<lambda>k. (k, get inputs k))
         (filter (\<lambda>k. truthy (get parameterEnabled k) \<and> \<not> nullish (get inputs k)) parameterMappings))
       (Obj [(''model'', modelWithRoute inputs), (''messages'', Arr ms), (''stream'', get inputs ''stream''),
             (''__endpoint'', Str ''chat'')])"

definition buildApiPayload :: "jsval list \<Rightarrow> jsval \<Rightarrow> jsval \<Rightarrow> jsval \<Rightarrow> jsval" where
  "buildApiPayload messages systemPrompt inputs parameterEnabled =
     (let ms = processed_messages messages systemPrompt; mode = display_mode inputs
      in if mode = Str ''video'' then video_payload ms inputs
         else if mode = Str ''image'' then image_payload ms inputs
         else chat_payload ms inputs parameterEnabled)"

text \<open>
  The description of an error: its message, the time and the stack trace come from the runtime;
  the status of the response is there if a response is.
\<close>

definition handleApiError :: "string \<Rightarrow> string \<Rightarrow> string \<Rightarrow> (nat \<times> string) option \<Rightarrow> jsval" where
  "handleApiError message now stack response =
     Obj ([(''error'', Str (if message = [] then lbl_pg_unknown_error else message)), (''timestamp'', Str now), (''stack'', Str stack)] @
          (case response of None \<Rightarrow> [] | Some (st, tx) \<Rightarrow> [(''status'', Num (Fin (of_nat st))), (''statusText'', Str tx)]) @
          (if has_text message ''HTTP error'' then [(''details'', Str lbl_pg_server_status)]
           else if has_text message ''Failed to fetch'' then [(''details'', Str lbl_pg_network_down)] else []))"

end
