(* ===== verification/Playground_Chat.thy ===== *)
theory Playground_Chat
  imports Playground_Payload
begin

text \<open>
  The conversation of the playground: unique message ids and the repair of stored conversations
  (\<^verbatim>\<open>hooks/playground/usePlaygroundState.js\<close>), streamed and plain replies and the polling of image and
  video tasks (\<^verbatim>\<open>hooks/playground/useApiRequest.jsx\<close>), and the actions on single messages
  (\<^verbatim>\<open>useMessageActions.jsx\<close>, \<^verbatim>\<open>useMessageEdit.jsx\<close>). Everything here works on one list of messages;
  the page with its three lists is in \<open>Playground_Page\<close>.

  The current time, as a text, is an argument wherever the code calls \<^verbatim>\<open>Date.now()\<close>.
\<close>

section \<open>Message lists\<close>

definition last_msg :: "jsval list \<Rightarrow> jsval" where
  "last_msg ms = (if ms = [] then Undef else last ms)"

definition set_last :: "jsval \<Rightarrow> jsval list \<Rightarrow> jsval list" where
  "set_last m ms = butlast ms @ [m]"

definition is_status :: "jsval \<Rightarrow> string \<Rightarrow> bool" where
  "is_status m st \<longleftrightarrow> get m ''status'' = Str st"

definition generating :: "jsval \<Rightarrow> bool" where
  "generating m \<longleftrightarrow> is_status m ''loading'' \<or> is_status m ''incomplete''"

definition finished :: "jsval \<Rightarrow> bool" where
  "finished m \<longleftrightarrow> is_status m ''complete'' \<or> is_status m ''error''"

fun unique_from :: "string \<Rightarrow> nat \<Rightarrow> string list \<Rightarrow> jsval list \<Rightarrow> jsval list" where
  "unique_from now index seen [] = []"
| "unique_from now index seen (m # ms) =
     (let i = get m ''id'';
          baseId = (if \<not> nullish i \<and> to_str i \<noteq> [] then to_str i else ''msg-'' @ now @ ''-'' @ nat_str index);
          nextId = (if baseId \<in> set seen then baseId @ ''-'' @ now @ ''-'' @ nat_str index else baseId)
      in with_field ''id'' (Str nextId) m # unique_from now (Suc index) (nextId # seen) ms)"

definition ensureUniqueMessageIds :: "string \<Rightarrow> jsval list \<Rightarrow> jsval list" where
  "ensureUniqueMessageIds now ms = unique_from now 0 [] ms"

definition needsPersistedTailNormalize :: "jsval list \<Rightarrow> bool" where
  "needsPersistedTailNormalize ms \<longleftrightarrow>
     ms \<noteq> [] \<and> truthy (last ms) \<and> get (last ms) ''role'' = Str ''assistant'' \<and> generating (last ms)"

definition normalizePersistedPlaygroundMessages :: "jsval list \<Rightarrow> jsval list res" where
  "normalizePersistedPlaygroundMessages ms =
     (if \<not> needsPersistedTailNormalize ms then Ok ms
      else
        (let m = last ms in
         bind_res (processIncompleteThinkTags (js_or (get m ''content'') (Str [])) (js_or (get m ''reasoningContent'') (Str [])))
           (\<lambda>(content, reasoning).
              Ok (set_last (with_fields [(''status'', Str ''complete''), (''content'', content),
                    (''reasoningContent'', js_or reasoning Null), (''isThinkingComplete'', Bool True)] m) ms))))"

section \<open>Replies\<close>

text \<open>The fields that close the display of the thoughts once thinking is complete.\<close>

definition applyAutoCollapseLogic :: "jsval \<Rightarrow> jsval \<Rightarrow> (string \<times> jsval) list" where
  "applyAutoCollapseLogic m thought =
     (let isThinkingComplete = dflt (Bool True) thought;
          shouldAutoCollapse = js_and isThinkingComplete (js_not (get m ''hasAutoCollapsed''))
      in [(''isThinkingComplete'', isThinkingComplete),
          (''hasAutoCollapsed'', js_or shouldAutoCollapse (get m ''hasAutoCollapsed'')),
          (''isReasoningExpanded'', if truthy shouldAutoCollapse then Bool False else get m ''isReasoningExpanded'')])"

text \<open>Whether the closing tags of a text have caught up with its opening tags.\<close>

definition tags_closed :: "string \<Rightarrow> bool" where
  "tags_closed s \<longleftrightarrow> 0 < occurrences open_tag s \<and> 0 < occurrences close_tag s \<and>
     occurrences open_tag s \<le> occurrences close_tag s"

definition stream_reasoning :: "jsval \<Rightarrow> jsval \<Rightarrow> jsval" where
  "stream_reasoning chunk m =
     with_fields [(''reasoningContent'', js_plus (js_or (get m ''reasoningContent'') (Str [])) chunk),
       (''status'', Str ''incomplete''), (''isThinkingComplete'', Bool False)] m"

definition stream_content :: "jsval \<Rightarrow> jsval \<Rightarrow> jsval res" where
  "stream_content chunk m =
     (let newContent = js_plus (js_or (get m ''content'') (Str [])) chunk;
          finish = (\<lambda>fromTags.
            let thought = js_or (js_and (get m ''reasoningContent'') (js_not (get m ''isThinkingComplete''))) fromTags
            in Ok (with_fields ([(''content'', newContent), (''status'', Str ''incomplete'')] @ applyAutoCollapseLogic m thought) m))
      in if truthy (get m ''isReasoningExpanded'') then
           (case newContent of
              Str s \<Rightarrow> finish (if has_text s close_tag \<and> tags_closed s then Bool True else get m ''isThinkingComplete'')
            | _ \<Rightarrow> Throw Type_Error)
         else finish (get m ''isThinkingComplete''))"

definition streamMessageUpdate :: "jsval \<Rightarrow> string \<Rightarrow> jsval list \<Rightarrow> jsval list res" where
  "streamMessageUpdate chunk ty ms =
     (let m = last_msg ms in
      if \<not> truthy m \<or> get m ''role'' \<noteq> Str ''assistant'' \<or> is_status m ''error'' \<or> \<not> generating m then Ok ms
      else if ty = ''reasoning'' then Ok (set_last (stream_reasoning chunk m) ms)
      else if ty = ''content'' then bind_res (stream_content chunk m) (\<lambda>m'. Ok (set_last m' ms))
      else Ok ms)"

text \<open>The second component is the list that is saved afterwards.\<close>

definition completeMessage :: "string \<Rightarrow> jsval list \<Rightarrow> (jsval list \<times> jsval list option) res" where
  "completeMessage st ms =
     (let m = last_msg ms in
      if nullish m then Throw Type_Error
      else if finished m then Ok (ms, None)
      else
        (let ms' = set_last (with_fields ([(''status'', Str st)] @ applyAutoCollapseLogic m (Bool True)) m) ms
         in Ok (ms', if st = ''complete'' \<or> st = ''error'' then Some ms' else None)))"

definition stopped :: "jsval list \<Rightarrow> (jsval list \<times> jsval list option) res" where
  "stopped ms =
     (if ms = [] then Ok (ms, None)
      else
        (let m = last ms in
         if nullish m then Throw Type_Error
         else if generating m then
           bind_res (processIncompleteThinkTags (js_or (get m ''content'') (Str [])) (js_or (get m ''reasoningContent'') (Str [])))
             (\<lambda>(content, reasoning).
                (let ms' = set_last (with_fields ([(''status'', Str ''complete''), (''reasoningContent'', js_or reasoning Null),
                             (''content'', content)] @ applyAutoCollapseLogic m (Bool True)) m) ms
                 in Ok (ms', Some ms')))
         else Ok (ms, None)))"

text \<open>A reply that arrives at once replaces a loading message and no other.\<close>

definition fill_loading :: "(string \<times> jsval) list \<Rightarrow> jsval list \<Rightarrow> jsval list" where
  "fill_loading fs ms =
     (let m = last_msg ms in
      if is_status m ''loading'' then set_last (with_fields (fs @ applyAutoCollapseLogic m (Bool True)) m) ms else ms)"

text \<open>A patch of a polled task on the last message.\<close>

definition apply_task_patch :: "string list \<Rightarrow> jsval \<Rightarrow> jsval \<Rightarrow> jsval" where
  "apply_task_patch keys patch m =
     with_fields
       (map (\<lambda>k. (k, get patch k))
         (filter (\<lambda>k. if k = ''status'' then truthy (get patch k) else get patch k \<noteq> Undef) keys)) m"

definition patch_last :: "string list \<Rightarrow> jsval \<Rightarrow> jsval list \<Rightarrow> jsval list" where
  "patch_last keys patch ms =
     (let m = last_msg ms in
      if \<not> truthy m \<or> get m ''role'' \<noteq> Str ''assistant'' then ms else set_last (apply_task_patch keys patch m) ms)"

section \<open>Plain replies\<close>

text \<open>\<^verbatim>\<open>v?.[0]\<close>\<close>

definition index0 :: "jsval \<Rightarrow> jsval" where
  "index0 v =
     (case v of Arr (x # _) \<Rightarrow> x | Str s \<Rightarrow> (case chars s of [] \<Rightarrow> Undef | c # _ \<Rightarrow> Str c) | Obj _ \<Rightarrow> get v ''0'' | _ \<Rightarrow> Undef)"

definition chat_fields :: "jsval \<Rightarrow> (string \<times> jsval) list res" where
  "chat_fields choice =
     (let msg = get choice ''message'' in
      bind_res (processThinkTags (js_or (get msg ''content'') (Str []))
                  (js_or (get msg ''reasoning_content'') (js_or (get msg ''reasoning'') (Str []))))
        (\<lambda>(content, reasoning).
           Ok [(''content'', content), (''reasoningContent'', reasoning), (''status'', Str ''complete'')]))"

definition task_data :: "jsval \<Rightarrow> jsval" where
  "task_data d = (if truthy (get d ''data'') \<and> typeof_object (get d ''data'') then get d ''data'' else d)"

definition image_task_id :: "jsval \<Rightarrow> jsval" where
  "image_task_id d =
     (let k = task_data d in js_or (get k ''task_id'') (js_or (get k ''id'') (js_or (get d ''task_id'') (get d ''id''))))"

definition should_poll_image :: "jsval \<Rightarrow> bool" where
  "should_poll_image d \<longleftrightarrow>
     truthy (image_task_id d) \<and>
     to_lower (to_str (js_or (get (task_data d) ''status'') (js_or (get d ''status'') (Str []))))
       \<in> {''queued'', ''processing'', ''in_progress'', ''running''}"

definition image_fields :: "jsval \<Rightarrow> (string \<times> jsval) list" where
  "image_fields d =
     (case buildImageMessageContentPatch (extractImageSources d 0) of
        Some (images, content) \<Rightarrow>
          [(''content'', Str content), (''generatedImages'', Arr (map Str images)), (''status'', Str ''complete'')]
      | None \<Rightarrow>
          [(''content'', Str (if should_poll_image d then lbl_pg_image_running else lbl_pg_image_done @ json_pretty [] d)),
           (''status'', Str ''complete'')])"

definition video_task_id :: "jsval \<Rightarrow> jsval" where
  "video_task_id d =
     (let k = getVideoTaskPayload d in js_or (get k ''task_id'') (js_or (get k ''id'') (js_or (get d ''task_id'') (get d ''id''))))"

definition other_fields :: "bool \<Rightarrow> jsval \<Rightarrow> (string \<times> jsval) list" where
  "other_fields video d =
     (let k = getVideoTaskPayload d in
      [(''content'', Str (if video then lbl_pg_video_running else json_pretty [] d)), (''status'', Str ''complete''),
       (''videoTask'',
         if video \<and> truthy (video_task_id d)
         then Obj [(''taskId'', video_task_id d),
                   (''status'', Str (to_lower (to_str (js_or (get k ''status'') (js_or (get d ''status'') (Str ''queued'')))))),
                   (''progress'', Num (to_num (js_or (get k ''progress'') (js_or (get d ''progress'') (Num (Fin 0))))))]
         else Undef)])"

text \<open>What the reply starts: nothing, or the polling of an image or video task.\<close>

datatype follow_up = No_Poll | Poll_Image jsval | Poll_Video jsval

text \<open>
  The fields written into the loading message by a decoded reply, and what is started. Reading a
  field of \<^verbatim>\<open>null\<close> throws.
\<close>

definition reply_fields :: "jsval \<Rightarrow> jsval \<Rightarrow> ((string \<times> jsval) list \<times> follow_up) res" where
  "reply_fields endpoint d =
     bind_res (field_of d ''choices'') (\<lambda>choices.
       if truthy (index0 choices) then bind_res (chat_fields (index0 choices)) (\<lambda>fs. Ok (fs, No_Poll))
       else if endpoint = Str ''image'' then
         Ok (image_fields d, if should_poll_image d then Poll_Image (image_task_id d) else No_Poll)
       else
         (let video = (endpoint = Str ''video'')
          in Ok (other_fields video d, if video \<and> truthy (video_task_id d) then Poll_Video (video_task_id d) else No_Poll)))"

section \<open>Polling\<close>

text \<open>
  The outcome of one request: no answer with the error's message, an error status with its body,
  a body that arrives, or a body that cannot be read.
\<close>

datatype poll_answer = Net_Fail string | Bad_Status nat string | Body string

definition video_task :: "jsval \<Rightarrow> string \<Rightarrow> jsnum \<Rightarrow> jsval" where
  "video_task taskId st progress = Obj [(''taskId'', taskId), (''status'', Str st), (''progress'', Num progress)]"

definition error_patch_of :: "jsval \<Rightarrow> string \<Rightarrow> jsval" where
  "error_patch_of taskId content =
     Obj [(''content'', Str content), (''status'', Str ''error''), (''videoTask'', video_task taskId ''error'' (Fin 0))]"

text \<open>\<^verbatim>\<open>s.slice(0, n)\<close>; a character outside the basic plane counts twice.\<close>

fun take_units :: "nat \<Rightarrow> string list \<Rightarrow> string" where
  "take_units n [] = []"
| "take_units n (c # cs) =
     (let u = (if length c = 4 then 2 else 1) in if u \<le> n then c @ take_units (n - u) cs else [])"

text \<open>\<^verbatim>\<open>text ? JSON.parse(text) : {}\<close>\<close>

definition decode_body :: "string \<Rightarrow> jsval res" where
  "decode_body s = (if s = [] then Ok (Obj []) else json_parse s)"

text \<open>What a decoded answer means for a video task: patches, and whether polling ends.\<close>

definition video_answer :: "jsval \<Rightarrow> jsval \<Rightarrow> jsval list \<times> bool" where
  "video_answer taskId d =
     (let k = getVideoTaskPayload d; st = to_lower (to_str (js_or (get k ''status'') (Str [])));
          progress = to_num (js_or (get k ''progress'') (Num (Fin 0))); playable = extractVideoPlayableURL d;
          tick = Obj [(''content'', Str lbl_pg_video_running), (''videoTask'', video_task taskId (if st = [] then ''queued'' else st) progress)]
      in if playable \<noteq> [] then
           ([tick, Obj [(''content'', Str lbl_pg_video_done), (''status'', Str ''complete''),
               (''videoTask'', with_field ''playableUrl'' (Str playable) (video_task taskId ''completed'' (Fin 100)))]], True)
         else if st \<in> {''succeeded'', ''success'', ''completed''} then
           ([tick, Obj [(''content'', Str (lbl_pg_video_done @ lbl_pg_video_status @ st @ [CHR 0x0A, CHR 0x0A] @ json_pretty [] k)),
               (''status'', Str ''complete''), (''videoTask'', video_task taskId ''completed'' (Fin 100))]], True)
         else if st \<in> {''failed'', ''error'', ''cancelled''} then
           ([tick, Obj [(''content'', Str (let e = formatVideoTaskError d in
                 if e \<noteq> [] then lbl_pg_video_failed @ e
                 else lbl_pg_video_failed_status @ st @ lbl_pg_failed_end @ json_pretty [] d)),
               (''status'', Str ''error''), (''videoTask'', video_task taskId st progress)]], True)
         else ([tick], False))"

text \<open>
  The loop of \<^verbatim>\<open>pollVideoTaskUntilReady\<close>, with the number of attempts left and the number of
  consecutive network failures: the patches sent, in order, and the number of requests made.
\<close>

primrec poll_video :: "(nat \<Rightarrow> poll_answer) \<Rightarrow> jsval \<Rightarrow> nat \<Rightarrow> nat \<Rightarrow> nat \<Rightarrow> jsval list \<times> nat" where
  "poll_video answer taskId i fails 0 =
     ([Obj [(''content'', Str lbl_pg_video_timeout), (''status'', Str ''error''), (''videoTask'', video_task taskId ''timeout'' (Fin 0))]], i)"
| "poll_video answer taskId i fails (Suc left) =
     (case answer i of
        Net_Fail e \<Rightarrow>
          if Suc fails \<ge> 3
          then ([error_patch_of taskId (trim (lbl_pg_poll_network @ nat_str (Suc fails) @ lbl_pg_poll_times @ e))], Suc i)
          else
            (case poll_video answer taskId (Suc i) (Suc fails) left of (ps, n) \<Rightarrow>
               (Obj [(''content'', Str lbl_pg_video_running), (''videoTask'', video_task taskId ''queued'' (Fin 0))] # ps, n))
      | Bad_Status code body \<Rightarrow>
          ([error_patch_of taskId (trim (lbl_pg_poll_http @ nat_str code @ lbl_pg_poll_stopped @ body))], Suc i)
      | Body s \<Rightarrow>
          (case decode_body s of
             Throw _ \<Rightarrow> ([error_patch_of taskId (trim (lbl_pg_poll_not_json @ take_units 300 (chars s)))], Suc i)
           | Ok d \<Rightarrow>
               (case video_answer taskId d of (qs, ends) \<Rightarrow>
                  if ends then (qs, Suc i)
                  else (case poll_video answer taskId (Suc i) 0 left of (ps, n) \<Rightarrow> (qs @ ps, n)))))"

definition pollVideoTaskUntilReady :: "(nat \<Rightarrow> poll_answer) \<Rightarrow> jsval \<Rightarrow> jsval list \<times> nat" where
  "pollVideoTaskUntilReady answer taskId = (if \<not> truthy taskId then ([], 0) else poll_video answer taskId 0 0 120)"

definition clamp_percent :: "jsnum \<Rightarrow> jsnum" where
  "clamp_percent x = js_max (Fin 0) (js_min (Fin 100) x)"

definition image_answer :: "jsval \<Rightarrow> jsval list \<times> bool" where
  "image_answer d =
     (let k = task_data d; st = to_lower (to_str (js_or (get k ''status'') (Str [])));
          progress = to_num (js_or (get k ''progress'') (Num (Fin 0)))
      in case buildImageMessageContentPatch (extractImageSources d 0) of
           Some (images, content) \<Rightarrow>
             ([Obj [(''generatedImages'', Arr (map Str images)), (''content'', Str content), (''status'', Str ''complete'')]], True)
         | None \<Rightarrow>
             if st \<in> {''completed'', ''succeeded'', ''success''} then
               ([Obj [(''content'', Str (lbl_pg_image_done @ json_pretty [] k)), (''status'', Str ''complete'')]], True)
             else if st \<in> {''failed'', ''error'', ''cancelled''} then
               ([Obj [(''content'', Str (lbl_pg_image_failed @ st @ lbl_pg_failed_end @ json_pretty [] k)), (''status'', Str ''error'')]], True)
             else ([Obj [(''content'', Str (lbl_pg_image_running @ '' ('' @ num_str (clamp_percent progress) @ ''%)''))]], False))"

primrec poll_image :: "(nat \<Rightarrow> poll_answer) \<Rightarrow> nat \<Rightarrow> nat \<Rightarrow> jsval list \<times> nat" where
  "poll_image answer i 0 = ([], i)"
| "poll_image answer i (Suc left) =
     (case answer i of
        Net_Fail e \<Rightarrow> poll_image answer (Suc i) left
      | Bad_Status code body \<Rightarrow> ([], Suc i)
      | Body s \<Rightarrow>
          (case decode_body s of
             Throw _ \<Rightarrow> poll_image answer (Suc i) left
           | Ok d \<Rightarrow>
               (case image_answer d of (qs, ends) \<Rightarrow>
                  if ends then (qs, Suc i)
                  else (case poll_image answer (Suc i) left of (ps, n) \<Rightarrow> (qs @ ps, n)))))"

definition pollImageTaskUntilReady :: "(nat \<Rightarrow> poll_answer) \<Rightarrow> jsval \<Rightarrow> jsval list \<times> nat" where
  "pollImageTaskUntilReady answer taskId = (if \<not> truthy taskId then ([], 0) else poll_image answer 0 120)"

end
