(* ===== verification/Playground_Actions.thy ===== *)
theory Playground_Actions
  imports Playground_Chat
begin

text \<open>
  What the user does with single messages of a conversation: regenerating, deleting, switching the
  role, editing (\<^verbatim>\<open>useMessageActions.jsx\<close>, \<^verbatim>\<open>useMessageEdit.jsx\<close>), unfolding the thoughts and
  recording the size of a loaded picture (\<^verbatim>\<open>pages/Playground/index.jsx\<close>), and keeping the
  conversation and the hand-written request body in step (\<^verbatim>\<open>useSyncMessageAndCustomBody.js\<close>).

  The code first looks a message up by object identity and then by id. Identity is not part of the
  model: the position found by identity, if any, is the argument \<open>same\<close>.
\<close>

section \<open>Looking up\<close>

definition has_id :: "jsval \<Rightarrow> jsval \<Rightarrow> bool" where
  "has_id ident m = strict_eq (get m ''id'') ident"

definition has_role :: "string \<Rightarrow> jsval \<Rightarrow> bool" where
  "has_role r m \<longleftrightarrow> get m ''role'' = Str r"

definition find_pos :: "('a \<Rightarrow> bool) \<Rightarrow> 'a list \<Rightarrow> nat option" where
  "find_pos P xs = find (\<lambda>i. P (xs ! i)) [0..<length xs]"

definition target_pos :: "nat option \<Rightarrow> jsval \<Rightarrow> jsval list \<Rightarrow> nat option" where
  "target_pos same ident ms = (case same of Some i \<Rightarrow> Some i | None \<Rightarrow> find_pos (has_id ident) ms)"

section \<open>Message actions\<close>

text \<open>The position of the last user message before a position.\<close>

fun user_before :: "jsval list \<Rightarrow> nat \<Rightarrow> nat option" where
  "user_before ms 0 = None"
| "user_before ms (Suc i) = (if has_role ''user'' (ms ! i) then Some i else user_before ms i)"

text \<open>The new list, and the text that is sent again a moment later.\<close>

definition handleMessageReset :: "nat option \<Rightarrow> jsval \<Rightarrow> jsval list \<Rightarrow> (jsval list \<times> jsval option) res" where
  "handleMessageReset same target ms =
     (case target_pos same (get target ''id'') ms of
        None \<Rightarrow> Ok (ms, None)
      | Some i \<Rightarrow>
          if has_role ''user'' target then bind_res (getTextContent target) (\<lambda>c. Ok (take i ms, Some c))
          else if has_role ''assistant'' target \<or> has_role ''system'' target then
            (case user_before ms i of
               None \<Rightarrow> Ok (ms, None)
             | Some j \<Rightarrow> bind_res (getTextContent (ms ! j)) (\<lambda>c. Ok (take j ms, Some c)))
          else Ok (ms, None))"

definition handleMessageDelete ::
  "translate \<Rightarrow> nat option \<Rightarrow> jsval \<Rightarrow> jsval list \<Rightarrow> jsval list \<times> (jsval list \<times> notice) option" where
  "handleMessageDelete t same target ms =
     (case target_pos same (get target ''id'') ms of
        None \<Rightarrow> (ms, None)
      | Some i \<Rightarrow>
          if has_role ''user'' target \<and> i + 1 < length ms \<and> has_role ''assistant'' (ms ! (i + 1)) then
            (let ms' = nths ms (- {i, i + 1}) in (ms', Some (ms', Shown_Success (t msg_pg_deleted_both []))))
          else
            (let ms' = filter (\<lambda>m. \<not> has_id (get target ''id'') m) ms
             in (ms', Some (ms', Shown_Success (t msg_pg_deleted [])))))"

definition handleRoleToggle :: "jsval \<Rightarrow> jsval list \<Rightarrow> jsval list option" where
  "handleRoleToggle target ms =
     (if \<not> (has_role ''assistant'' target \<or> has_role ''system'' target) then None
      else
        Some (map (\<lambda>m. if has_id (get target ''id'') m \<and> (has_role ''assistant'' m \<or> has_role ''system'' m)
                        then with_field ''role'' (Str (if has_role ''assistant'' target then ''system'' else ''assistant'')) m
                        else m) ms))"

definition toggleReasoningExpansion :: "jsval \<Rightarrow> jsval list \<Rightarrow> jsval list" where
  "toggleReasoningExpansion messageId ms =
     map (\<lambda>m. if has_id messageId m \<and> has_role ''assistant'' m
               then with_field ''isReasoningExpanded'' (js_not (get m ''isReasoningExpanded'')) m else m) ms"

definition dim_of :: "jsval \<Rightarrow> string \<Rightarrow> jsnum" where
  "dim_of d k = to_num (js_or (get d k) (Num (Fin 0)))"

definition has_dimensions :: "string \<Rightarrow> jsval \<Rightarrow> jsval \<Rightarrow> bool" where
  "has_dimensions url dims m \<longleftrightarrow>
     num_eq (dim_of (get (get m ''mediaDimensions'') url) ''width'') (dim_of dims ''width'') \<and>
     num_eq (dim_of (get (get m ''mediaDimensions'') url) ''height'') (dim_of dims ''height'')"

definition set_dimensions :: "jsval \<Rightarrow> string \<Rightarrow> jsval \<Rightarrow> jsval \<Rightarrow> jsval" where
  "set_dimensions messageId url dims m =
     (if \<not> has_id messageId m \<or> has_dimensions url dims m then m
      else with_field ''mediaDimensions''
             (with_field url (Obj [(''width'', Num (dim_of dims ''width'')), (''height'', Num (dim_of dims ''height''))])
                (js_or (get m ''mediaDimensions'') (Obj []))) m)"

text \<open>Nothing to do, or the new list.\<close>

definition handleMediaDimensionsChange :: "jsval \<Rightarrow> string \<Rightarrow> jsval \<Rightarrow> jsval list \<Rightarrow> jsval list option" where
  "handleMediaDimensionsChange messageId url dims ms =
     (if \<not> truthy messageId \<or> url = [] \<or> \<not> truthy_num (dim_of dims ''width'') \<or> \<not> truthy_num (dim_of dims ''height'') then None
      else if list_ex (\<lambda>m. has_id messageId m \<and> \<not> has_dimensions url dims m) ms
      then Some (map (set_dimensions messageId url dims) ms) else None)"

section \<open>Editing\<close>

record edit_state =
  editingMessageId :: jsval
  editValue :: jsval

definition no_edit :: edit_state where
  "no_edit = \<lparr>editingMessageId = Null, editValue = Str []\<rparr>"

definition handleMessageEdit :: "jsval \<Rightarrow> edit_state res" where
  "handleMessageEdit target =
     bind_res (getTextContent target) (\<lambda>c. Ok \<lparr>editingMessageId = get target ''id'', editValue = c\<rparr>)"

definition edited_content :: "string \<Rightarrow> jsval \<Rightarrow> jsval res" where
  "edited_content v m =
     (case get m ''content'' of
        Arr items \<Rightarrow>
          bind_res (map_all_res (\<lambda>x. bind_res (field_of x ''type'') (\<lambda>ty.
              Ok (if ty = Str ''text'' then with_field ''text'' (Str v) x else x))) items) (\<lambda>xs. Ok (Arr xs))
      | _ \<Rightarrow> Ok (Str v))"

text \<open>
  Saving an edit: ignored, stored at once, or, for a user message with a reply behind it, a question
  whether the replies are to be dropped (the list up to the message) or kept. A message that is no
  longer there throws.
\<close>

datatype edit_result =
    Edit_Ignored
  | Edit_Saved "jsval list"
  | Edit_Ask "jsval list" "jsval list"

definition save_edit :: "nat option \<Rightarrow> jsval \<Rightarrow> string \<Rightarrow> jsval list \<Rightarrow> edit_result res" where
  "save_edit same ident v ms =
     (case target_pos same ident ms of
        None \<Rightarrow> Throw Type_Error
      | Some i \<Rightarrow>
          bind_res (edited_content v (ms ! i)) (\<lambda>newContent.
            let ms' = map (\<lambda>m. if has_id ident m then with_field ''content'' newContent m else m) ms
            in if has_role ''user'' (ms ! i) \<and> i + 1 < length ms \<and> has_role ''assistant'' (ms ! (i + 1))
               then Ok (Edit_Ask (take (i + 1) ms') ms')
               else Ok (Edit_Saved ms')))"

definition handleEditSave :: "nat option \<Rightarrow> edit_state \<Rightarrow> jsval list \<Rightarrow> edit_result res" where
  "handleEditSave same e ms =
     (if \<not> truthy (editingMessageId e) then Ok Edit_Ignored
      else
        (case editValue e of
           Str v \<Rightarrow> if trim v = [] then Ok Edit_Ignored else save_edit same (editingMessageId e) (trim v) ms
         | _ \<Rightarrow> Throw Type_Error))"

section \<open>The hand-written request body\<close>

record sync_state =
  isUpdatingFromMessage :: bool
  isUpdatingFromCustomBody :: bool
  lastMessageHash :: string
  lastCustomBodyHash :: string

definition getMessageHash :: "jsval list \<Rightarrow> string" where
  "getMessageHash ms =
     json_str (Arr (map (\<lambda>m. Obj [(''id'', get m ''id''), (''role'', get m ''role''), (''content'', get m ''content'')]) ms))"

definition getCustomBodyHash :: "string \<Rightarrow> string" where
  "getCustomBodyHash body =
     (case json_parse body of
        Throw _ \<Rightarrow> []
      | Ok p \<Rightarrow> if nullish p then [] else json_str (js_or (get p ''messages'') (Arr [])))"

definition default_body :: "jsval \<Rightarrow> jsval" where
  "default_body inputs =
     Obj [(''model'', js_or (get inputs ''model'') (Str ''gpt-4o'')), (''messages'', Arr []),
          (''temperature'', js_or (get inputs ''temperature'') (Num (rnd (7 / 10)))),
          (''stream'', Bool (get inputs ''stream'' \<noteq> Bool False))]"

text \<open>
  The new body and the hashes; a body that is the JSON text \<^verbatim>\<open>null\<close> or a primitive throws on the
  assignment to its field.
\<close>

definition body_messages :: "jsval list \<Rightarrow> jsval" where
  "body_messages ms = Arr (map (\<lambda>m. Obj [(''role'', get m ''role''), (''content'', get m ''content'')]) ms)"

definition syncMessageToCustomBody ::
  "bool \<Rightarrow> jsval \<Rightarrow> jsval list \<Rightarrow> string \<times> sync_state \<Rightarrow> (string \<times> sync_state) res" where
  "syncMessageToCustomBody customRequestMode inputs ms st =
     (case st of (body, h) \<Rightarrow>
        if \<not> customRequestMode \<or> isUpdatingFromCustomBody h \<or> getMessageHash ms = lastMessageHash h then Ok (body, h)
        else
          (let p = (case json_parse (if body = [] then ''{}'' else body) of Ok p \<Rightarrow> p | Throw _ \<Rightarrow> default_body inputs)
           in case p of
                Obj ps \<Rightarrow>
                  (let body' = json_pretty [] (Obj (set_prop ''messages'' (body_messages ms) ps))
                   in Ok (body', h\<lparr>isUpdatingFromMessage := False, lastMessageHash := getMessageHash ms,
                                   lastCustomBodyHash := getCustomBodyHash body'\<rparr>))
              | Arr vs \<Rightarrow>
                  (let body' = json_pretty [] p
                   in Ok (body', h\<lparr>isUpdatingFromMessage := False, lastMessageHash := getMessageHash ms,
                                   lastCustomBodyHash := getCustomBodyHash body'\<rparr>))
              | _ \<Rightarrow> Throw Type_Error))"

text \<open>The random part of a new id is given for each position.\<close>

definition message_of_body :: "jsnum \<Rightarrow> (nat \<Rightarrow> string) \<Rightarrow> nat \<Rightarrow> jsval \<Rightarrow> jsval res" where
  "message_of_body now rand i m =
     bind_res (field_of m ''id'') (\<lambda>ident.
       Ok (Obj ([(''id'', js_or ident (Str (''custom-'' @ num_str now @ ''-'' @ nat_str i @ ''-'' @ rand i))),
                 (''role'', js_or (get m ''role'') (Str ''user'')), (''content'', js_or (get m ''content'') (Str [])),
                 (''createAt'', Num now)] @
                (if has_role ''assistant'' m
                 then [(''reasoningContent'', js_or (get m ''reasoningContent'') (Str [])), (''isReasoningExpanded'', Bool False)]
                 else []))))"

text \<open>The new conversation, if it is replaced, and the hashes; errors are only logged.\<close>

definition syncCustomBodyToMessage ::
  "bool \<Rightarrow> jsnum \<Rightarrow> (nat \<Rightarrow> string) \<Rightarrow> string \<Rightarrow> sync_state \<Rightarrow> jsval list option \<times> sync_state" where
  "syncCustomBodyToMessage customRequestMode now rand body h =
     (if \<not> customRequestMode \<or> isUpdatingFromMessage h \<or> getCustomBodyHash body = lastCustomBodyHash h then (None, h)
      else
        (let h' = h\<lparr>isUpdatingFromCustomBody := False\<rparr> in
         case json_parse (if body = [] then ''{}'' else body) of
           Throw _ \<Rightarrow> (None, h')
         | Ok p \<Rightarrow>
             (case get p ''messages'' of
                Arr vs \<Rightarrow>
                  (case map_all_res (\<lambda>(i, m). message_of_body now rand i m) (enumerate 0 vs) of
                     Throw _ \<Rightarrow> (None, h')
                   | Ok ms \<Rightarrow>
                       (Some ms, h'\<lparr>lastCustomBodyHash := getCustomBodyHash body, lastMessageHash := getMessageHash ms\<rparr>))
              | _ \<Rightarrow> (None, h'))))"

end
