(* ===== verification/Playground_Page.thy ===== *)
theory Playground_Page
  imports Playground_Actions
begin

text \<open>
  The playground page (\<^verbatim>\<open>pages/Playground/index.jsx\<close>) with its three conversations, the open event
  streams, the plain requests and the polling loops of \<^verbatim>\<open>hooks/playground/useApiRequest.jsx\<close>, and
  the deferred saves. The page is a record; \<open>pg_step\<close> is the reaction to one event of the browser:
  an action of the user, a message of an event stream, an answer, a timer, or the effects that run
  after a rendering. What the browser decides (the time, identifiers, error texts, the answers of
  the server) is part of the event or of the \<open>runtime\<close> argument. A step whose code
  throws, in the handler or in an updater, is \<open>Throw\<close>.
\<close>

section \<open>State\<close>

record runtime =
  rt_now :: nat
  rt_iso :: string
  rt_stack :: string
  rt_rand :: "nat \<Rightarrow> string"
  rt_text :: "js_error \<Rightarrow> string"
  rt_t :: translate

record debug_data =
  dbg_request :: jsval
  dbg_response :: jsval
  dbg_timestamp :: jsval
  dbg_sse :: "string list option"
  dbg_streaming :: bool

record stream_state =
  st_mode :: string
  st_data :: string
  st_first :: bool
  st_complete :: bool

datatype poll_kind = Image_Poll | Video_Poll | Resumed_Poll jsval

record poller =
  pl_kind :: poll_kind
  pl_task :: jsval
  pl_mode :: string
  pl_patches :: "jsval list"

record page =
  pg_mode :: string
  pg_store :: "(string \<times> jsval list) list"
  pg_message :: "jsval list"
  pg_seen :: "jsval list"
  pg_changed :: bool
  pg_init :: bool
  pg_pending :: "(jsval list \<times> string) list"
  pg_disk :: "(string \<times> jsval list) list option"
  pg_debug :: debug_data
  pg_tab :: string
  pg_streams :: "stream_state list"
  pg_source :: "nat option"
  pg_requests :: "(jsval \<times> string) option list"
  pg_pollers :: "poller list"
  pg_active :: "jsval list"
  pg_inputs :: jsval
  pg_enabled :: jsval
  pg_custom :: bool
  pg_body :: string
  pg_edit :: edit_state
  pg_asks :: "(jsval list \<times> jsval list) list"
  pg_regen :: "jsval list list"
  pg_resend :: "jsval list"
  pg_counter :: nat
  pg_notices :: "notice list"

type_synonym updater = "jsval list \<Rightarrow> (jsval list \<times> jsval list option) res"

definition plain :: "(jsval list \<Rightarrow> jsval list) \<Rightarrow> updater" where
  "plain f ms = Ok (f ms, None)"

definition saving :: "(jsval list \<Rightarrow> jsval list) \<Rightarrow> updater" where
  "saving f ms = Ok (f ms, Some (f ms))"

definition now_text :: "runtime \<Rightarrow> string" where
  "now_text rt = nat_str (rt_now rt)"

text \<open>\<^verbatim>\<open>inputs.display_mode || 'text'\<close>, as a key\<close>

definition mode_of :: "jsval \<Rightarrow> string" where
  "mode_of inputs = to_str (display_mode inputs)"

section \<open>Conversations by mode\<close>

definition store_get :: "string \<Rightarrow> page \<Rightarrow> jsval list" where
  "store_get mode s = (case map_of (pg_store s) mode of Some ms \<Rightarrow> ms | None \<Rightarrow> [])"

definition store_put :: "string \<Rightarrow> jsval list \<Rightarrow> page \<Rightarrow> page" where
  "store_put mode ms s = s\<lparr>pg_store := set_prop mode ms (pg_store s)\<rparr>"

definition persistModeMessages :: "page \<Rightarrow> page" where
  "persistModeMessages s = s\<lparr>pg_disk := Some (pg_store s)\<rparr>"

text \<open>The mode in force: the one asked for, the shown one, the one of the inputs.\<close>

definition current_mode :: "page \<Rightarrow> string" where
  "current_mode s = (if pg_mode s \<noteq> [] then pg_mode s else mode_of (pg_inputs s))"

definition target_mode :: "string \<Rightarrow> page \<Rightarrow> string" where
  "target_mode mode s = (if mode \<noteq> [] then mode else current_mode s)"

definition saveMessagesForMode :: "jsval list \<Rightarrow> string \<Rightarrow> page \<Rightarrow> page" where
  "saveMessagesForMode ms mode s = persistModeMessages (store_put (target_mode mode s) ms s)"

definition defer_save :: "jsval list option \<Rightarrow> string \<Rightarrow> page \<Rightarrow> page" where
  "defer_save sv mode s =
     (case sv of None \<Rightarrow> s | Some ms \<Rightarrow> s\<lparr>pg_pending := pg_pending s @ [(ms, mode)]\<rparr>)"

definition setMessage :: "runtime \<Rightarrow> updater \<Rightarrow> string \<Rightarrow> page \<Rightarrow> page res" where
  "setMessage rt upd mode s =
     bind_res (upd (pg_message s)) (\<lambda>(ms, sv).
       Ok (defer_save sv mode (s\<lparr>pg_message := ensureUniqueMessageIds (now_text rt) ms, pg_changed := True\<rparr>)))"

definition setMessageForMode :: "runtime \<Rightarrow> updater \<Rightarrow> string \<Rightarrow> page \<Rightarrow> page res" where
  "setMessageForMode rt upd mode s =
     (if target_mode mode s = current_mode s then setMessage rt upd mode s
      else
        bind_res (upd (store_get (target_mode mode s) s)) (\<lambda>(ms, sv).
          Ok (defer_save sv mode (persistModeMessages (store_put (target_mode mode s) ms s)))))"

section \<open>Event streams\<close>

definition set_debug :: "(debug_data \<Rightarrow> debug_data) \<Rightarrow> string \<Rightarrow> page \<Rightarrow> page" where
  "set_debug f tab s = s\<lparr>pg_debug := f (pg_debug s), pg_tab := tab\<rparr>"

definition sse_list :: "debug_data \<Rightarrow> string list" where
  "sse_list d = (case dbg_sse d of None \<Rightarrow> [] | Some xs \<Rightarrow> xs)"

definition update_stream :: "nat \<Rightarrow> (stream_state \<Rightarrow> stream_state) \<Rightarrow> page \<Rightarrow> page" where
  "update_stream i f s = s\<lparr>pg_streams := (pg_streams s)[i := f (pg_streams s ! i)]\<rparr>"

definition stream_text :: "runtime \<Rightarrow> jsval \<Rightarrow> string \<Rightarrow> string \<Rightarrow> page \<Rightarrow> page res" where
  "stream_text rt chunk ty mode s =
     setMessageForMode rt (\<lambda>ms. bind_res (streamMessageUpdate chunk ty ms) (\<lambda>ms'. Ok (ms', None))) mode s"

definition end_message :: "runtime \<Rightarrow> string \<Rightarrow> string \<Rightarrow> page \<Rightarrow> page res" where
  "end_message rt st mode s = setMessageForMode rt (completeMessage st) mode s"

definition fail_message :: "runtime \<Rightarrow> string \<Rightarrow> string \<Rightarrow> page \<Rightarrow> page res" where
  "fail_message rt tx mode s =
     bind_res (stream_text rt (Str tx) ''content'' mode s) (\<lambda>s'. end_message rt ''error'' mode s')"

abbreviation nl2 :: string where
  "nl2 \<equiv> [CHR 0x0A, CHR 0x0A]"

definition api_error_text :: "string \<Rightarrow> runtime \<Rightarrow> (string \<times> jsval) list \<Rightarrow> string" where
  "api_error_text message rt extra = json_pretty [] (with_fields extra (handleApiError message (rt_iso rt) (rt_stack rt) None))"

text \<open>The \<^verbatim>\<open>[DONE]\<close> message.\<close>

definition sse_done :: "runtime \<Rightarrow> nat \<Rightarrow> page \<Rightarrow> page res" where
  "sse_done rt i s =
     (let st = pg_streams s ! i; s1 = update_stream i (\<lambda>x. x\<lparr>st_complete := True\<rparr>) s;
          s2 = set_debug (\<lambda>d. d\<lparr>dbg_response := Str (st_data st), dbg_sse := Some (sse_list d @ [''[DONE]'']), dbg_streaming := False\<rparr>)
                 (pg_tab s1) (s1\<lparr>pg_source := None\<rparr>)
      in end_message rt ''complete'' (st_mode st) s2)"

definition sse_bad :: "runtime \<Rightarrow> nat \<Rightarrow> string \<Rightarrow> js_error \<Rightarrow> page \<Rightarrow> page res" where
  "sse_bad rt i data e s =
     (let st = pg_streams s ! i;
          s1 = set_debug (\<lambda>d. d\<lparr>dbg_response := Str (st_data st @ nl2 @ ''Error: '' @ lbl_pg_parse_error @ rt_text rt e),
                                dbg_sse := Some (sse_list d @ [data]), dbg_streaming := False\<rparr>) ''response'' s
      in fail_message rt (rt_t rt msg_pg_parse_failed []) (st_mode st) s1)"

definition stream_if :: "runtime \<Rightarrow> jsval \<Rightarrow> string \<Rightarrow> string \<Rightarrow> page \<Rightarrow> page res" where
  "stream_if rt v ty mode s = (if truthy v then stream_text rt v ty mode s else Ok s)"

text \<open>
  The three parts of a delta. Only the last can throw, inside the code's \<^verbatim>\<open>try\<close>, which sees it when
  the conversation is not the shown one; otherwise it is thrown by the next rendering.
\<close>

definition sse_delta :: "runtime \<Rightarrow> nat \<Rightarrow> string \<Rightarrow> jsval \<Rightarrow> page \<Rightarrow> page res" where
  "sse_delta rt i data delta s =
     (let mode = st_mode (pg_streams s ! i) in
      bind_res (stream_if rt (get delta ''reasoning_content'') ''reasoning'' mode s) (\<lambda>s1.
      bind_res (stream_if rt (get delta ''reasoning'') ''reasoning'' mode s1) (\<lambda>s2.
        case stream_if rt (get delta ''content'') ''content'' mode s2 of
          Ok s3 \<Rightarrow> Ok s3
        | Throw e \<Rightarrow> if target_mode mode s = current_mode s then Throw e else sse_bad rt i data e s2)))"

definition sse_data :: "runtime \<Rightarrow> nat \<Rightarrow> string \<Rightarrow> page \<Rightarrow> page res" where
  "sse_data rt i data s =
     (case json_parse data of
        Throw e \<Rightarrow> sse_bad rt i data e s
      | Ok p \<Rightarrow>
          (let st = pg_streams s ! i;
               s1 = update_stream i (\<lambda>x. x\<lparr>st_data := st_data x @ data @ [CHR 0x0A], st_first := True\<rparr>) s;
               s2 = set_debug (\<lambda>d. d\<lparr>dbg_sse := Some (sse_list d @ [data])\<rparr>) (if st_first st then pg_tab s else ''response'') s1
           in case field_of p ''choices'' of
                Throw e \<Rightarrow> sse_bad rt i data e s2
              | Ok choices \<Rightarrow> sse_delta rt i data (get (index0 choices) ''delta'') s2))"

definition sse_message :: "runtime \<Rightarrow> nat \<Rightarrow> string \<Rightarrow> page \<Rightarrow> page res" where
  "sse_message rt i data s = (if data = ''[DONE]'' then sse_done rt i s else sse_data rt i data s)"

definition sse_error :: "runtime \<Rightarrow> nat \<Rightarrow> string \<Rightarrow> int \<Rightarrow> page \<Rightarrow> page res" where
  "sse_error rt i data readyState s =
     (let st = pg_streams s ! i in
      if \<not> st_complete st \<and> readyState \<noteq> 2 then
        (let errorMessage = (if data \<noteq> [] then data else rt_t rt msg_pg_request_error []);
             s1 = set_debug (\<lambda>d. d\<lparr>dbg_response := Str (st_data st @ nl2 @ ''SSE Error:'' @ [CHR 0x0A] @
                    api_error_text errorMessage rt [(''readyState'', Num (Fin (of_int readyState)))])\<rparr>) ''response'' s
         in bind_res (fail_message rt errorMessage (st_mode st) s1) (\<lambda>s2. Ok (s2\<lparr>pg_source := None\<rparr>)))
      else Ok s)"

definition sse_ready :: "runtime \<Rightarrow> nat \<Rightarrow> int \<Rightarrow> nat option \<Rightarrow> page \<Rightarrow> page res" where
  "sse_ready rt i readyState code s =
     (let st = pg_streams s ! i in
      case code of
        Some c \<Rightarrow>
          if readyState \<ge> 2 \<and> c \<noteq> 200 \<and> \<not> st_complete st then
            (let s1 = set_debug (\<lambda>d. d\<lparr>dbg_response := Str (st_data st @ nl2 @ ''HTTP Error:'' @ [CHR 0x0A] @
                        api_error_text lbl_pg_http_status rt
                          [(''status'', Num (Fin (of_nat c))), (''readyState'', Num (Fin (of_int readyState)))])\<rparr>) ''response'' s
             in fail_message rt (rt_t rt msg_pg_disconnected []) (st_mode st) s1)
          else Ok s
      | None \<Rightarrow> Ok s)"

section \<open>Requests\<close>

definition resolveEndpoint :: "jsval \<Rightarrow> string" where
  "resolveEndpoint payload =
     (if get payload ''__endpoint'' = Str ''image'' then ''/api/playground/images/generations''
      else if get payload ''__endpoint'' = Str ''video'' then ''/api/playground/videos''
      else ''/api/playground/chat/completions'')"

definition stripLocalFields :: "jsval \<Rightarrow> jsval" where
  "stripLocalFields payload =
     (if \<not> truthy payload \<or> \<not> typeof_object payload then payload
      else Obj (delete_prop ''__endpoint'' (own_props payload)))"

text \<open>Opening a stream; \<open>failed\<close> is the message of the error if the stream cannot be started.\<close>

definition handleSSE :: "runtime \<Rightarrow> jsval \<Rightarrow> string \<Rightarrow> string option \<Rightarrow> page \<Rightarrow> page res" where
  "handleSSE rt payload mode failed s =
     (let s1 = set_debug (\<lambda>d. d\<lparr>dbg_request := stripLocalFields payload, dbg_timestamp := Str (rt_iso rt), dbg_response := Null,
                                dbg_sse := Some [], dbg_streaming := True\<rparr>) ''request'' s;
          s2 = s1\<lparr>pg_source := Some (length (pg_streams s1)),
                 pg_streams := pg_streams s1 @ [\<lparr>st_mode = mode, st_data = [], st_first = False, st_complete = False\<rparr>]\<rparr>
      in case failed of
           None \<Rightarrow> Ok s2
         | Some e \<Rightarrow>
             fail_message rt (rt_t rt msg_pg_connect_failed []) mode
               (set_debug (\<lambda>d. d\<lparr>dbg_response := Str (lbl_pg_stream_failed @ api_error_text e rt [])\<rparr>) ''response'' s2))"

definition handleNonStreamRequest :: "runtime \<Rightarrow> jsval \<Rightarrow> string \<Rightarrow> page \<Rightarrow> page" where
  "handleNonStreamRequest rt payload mode s =
     (set_debug (\<lambda>d. d\<lparr>dbg_request := stripLocalFields payload, dbg_timestamp := Str (rt_iso rt), dbg_response := Null,
                       dbg_sse := None, dbg_streaming := False\<rparr>) ''request'' s)
       \<lparr>pg_requests := pg_requests s @ [Some (payload, mode)]\<rparr>"

definition sendRequest :: "runtime \<Rightarrow> jsval \<Rightarrow> bool \<Rightarrow> string \<Rightarrow> string option \<Rightarrow> page \<Rightarrow> page res" where
  "sendRequest rt payload isStream mode failed s =
     (if isStream then handleSSE rt payload mode failed s else Ok (handleNonStreamRequest rt payload mode s))"

text \<open>
  The end of a plain request: no answer or an unreadable one, with the error's message, an error
  status with its text and body, or a body.
\<close>

datatype api_reply = No_Reply string | Http_Error nat string "string option" | Reply_Body string

definition show_response :: "jsval \<Rightarrow> page \<Rightarrow> page" where
  "show_response v s = set_debug (\<lambda>d. d\<lparr>dbg_response := Str (json_pretty [] v)\<rparr>) ''response'' s"

definition request_failed :: "runtime \<Rightarrow> string \<Rightarrow> string \<Rightarrow> page \<Rightarrow> page res" where
  "request_failed rt message mode s =
     setMessageForMode rt
       (plain (fill_loading [(''content'', Str (rt_t rt msg_pg_request_error_colon [] @ message)), (''status'', Str ''error'')])) mode
       (show_response (handleApiError message (rt_iso rt) (rt_stack rt) None) s)"

definition start_poll :: "(nat \<Rightarrow> poll_answer) \<Rightarrow> follow_up \<Rightarrow> string \<Rightarrow> page \<Rightarrow> page" where
  "start_poll answer f mode s =
     (case f of
        No_Poll \<Rightarrow> s
      | Poll_Image k \<Rightarrow> s\<lparr>pg_pollers := pg_pollers s @
          [\<lparr>pl_kind = Image_Poll, pl_task = k, pl_mode = mode, pl_patches = fst (pollImageTaskUntilReady answer k)\<rparr>]\<rparr>
      | Poll_Video k \<Rightarrow> s\<lparr>pg_pollers := pg_pollers s @
          [\<lparr>pl_kind = Video_Poll, pl_task = k, pl_mode = mode, pl_patches = fst (pollVideoTaskUntilReady answer k)\<rparr>]\<rparr>)"

definition body_reply ::
  "runtime \<Rightarrow> (nat \<Rightarrow> poll_answer) \<Rightarrow> jsval \<Rightarrow> string \<Rightarrow> string \<Rightarrow> page \<Rightarrow> page res" where
  "body_reply rt answer payload mode raw s =
     (case decode_body raw of
        Throw _ \<Rightarrow>
          request_failed rt (lbl_pg_not_json @ resolveEndpoint payload @ lbl_pg_snippet @ take_units 120 (chars raw)) mode s
      | Ok d \<Rightarrow>
          (let s1 = show_response d s in
           case reply_fields (get payload ''__endpoint'') d of
             Throw e \<Rightarrow> request_failed rt (rt_text rt e) mode s1
           | Ok (fs, f) \<Rightarrow>
               bind_res (setMessageForMode rt (plain (fill_loading fs)) mode s1) (\<lambda>s2. Ok (start_poll answer f mode s2))))"

definition handle_reply ::
  "runtime \<Rightarrow> (nat \<Rightarrow> poll_answer) \<Rightarrow> jsval \<Rightarrow> string \<Rightarrow> api_reply \<Rightarrow> page \<Rightarrow> page res" where
  "handle_reply rt answer payload mode reply s =
     (case reply of
        No_Reply e \<Rightarrow> request_failed rt e mode s
      | Http_Error code tx body \<Rightarrow>
          (let message = ''HTTP error! status: '' @ nat_str code @ '', body: '' @
                 (case body of Some b \<Rightarrow> b | None \<Rightarrow> lbl_pg_no_error_body)
           in request_failed rt message mode
                (show_response (handleApiError message (rt_iso rt) (rt_stack rt) (Some (code, tx))) s))
      | Reply_Body raw \<Rightarrow> body_reply rt answer payload mode raw s)"

definition onStopGenerator :: "runtime \<Rightarrow> page \<Rightarrow> page res" where
  "onStopGenerator rt s = setMessageForMode rt stopped [] (s\<lparr>pg_source := None\<rparr>)"

section \<open>Sending\<close>

text \<open>\<^verbatim>\<open>urls.filter((url) => url.trim() !== '')\<close>; a value that is no list, or an entry that is no text, throws.\<close>

definition text_of :: "jsval \<Rightarrow> string res" where
  "text_of v = (case v of Str u \<Rightarrow> Ok u | _ \<Rightarrow> Throw Type_Error)"

definition valid_urls :: "jsval \<Rightarrow> string list res" where
  "valid_urls v =
     (case v of
        Arr us \<Rightarrow> bind_res (map_all_res text_of us) (\<lambda>ss. Ok (filter (\<lambda>u. trim u \<noteq> []) ss))
      | _ \<Rightarrow> Throw Type_Error)"

text \<open>A fresh identifier and the page with the counter moved on.\<close>

definition generateMessageId :: "runtime \<Rightarrow> page \<Rightarrow> string \<times> page" where
  "generateMessageId rt s =
     (let n = pg_counter s + 1
      in (now_text rt @ ''-'' @ nat_str n @ ''-'' @ rt_rand rt n, s\<lparr>pg_counter := n\<rparr>))"

definition new_message :: "runtime \<Rightarrow> string \<Rightarrow> jsval \<Rightarrow> page \<Rightarrow> jsval \<times> page" where
  "new_message rt role content s =
     (case generateMessageId rt s of (i, s') \<Rightarrow> (createMessage role content (Fin (of_nat (rt_now rt))) i [], s'))"

definition new_loading :: "runtime \<Rightarrow> page \<Rightarrow> jsval \<times> page" where
  "new_loading rt s =
     (case generateMessageId rt s of (i, s') \<Rightarrow> (createLoadingAssistantMessage (Fin (of_nat (rt_now rt))) i, s'))"

definition send_custom :: "runtime \<Rightarrow> jsval \<Rightarrow> jsval \<Rightarrow> string option \<Rightarrow> page \<Rightarrow> page res" where
  "send_custom rt userMessage loadingMessage failed s =
     (case json_parse (pg_body s) of
        Throw _ \<Rightarrow> Ok (s\<lparr>pg_notices := pg_notices s @ [Shown_Error lbl_pg_bad_body]\<rparr>)
      | Ok p \<Rightarrow>
          (let mode = mode_of (pg_inputs s) in
           bind_res (field_of p ''stream'') (\<lambda>stream.
           bind_res (setMessage rt (saving (\<lambda>ms. ms @ [userMessage, loadingMessage])) mode s) (\<lambda>s1.
             sendRequest rt p (stream \<noteq> Bool False) mode failed s1))))"

definition send_default :: "runtime \<Rightarrow> jsval \<Rightarrow> jsval \<Rightarrow> string option \<Rightarrow> page \<Rightarrow> page res" where
  "send_default rt content loadingMessage failed s =
     (let mode = mode_of (pg_inputs s); allowMedia = (mode = ''image'' \<or> mode = ''video'') in
      bind_res (if allowMedia then valid_urls (get (pg_inputs s) ''imageUrls'') else Ok []) (\<lambda>urls.
        case new_message rt ''user'' (buildMessageContent content urls allowMedia) s of
          (userMessage, s1) \<Rightarrow>
            (let newMessages = pg_message s1 @ [userMessage];
                 payload = buildApiPayload newMessages Null (pg_inputs s1) (pg_enabled s1)
             in bind_res (setMessage rt (saving (\<lambda>_. newMessages @ [loadingMessage])) mode s1) (\<lambda>s2.
                  sendRequest rt payload
                    (get payload ''__endpoint'' = Str ''chat'' \<and> truthy (get (pg_inputs s2) ''stream'')) mode failed s2))))"

definition onMessageSend :: "runtime \<Rightarrow> jsval \<Rightarrow> string option \<Rightarrow> page \<Rightarrow> page res" where
  "onMessageSend rt content failed s =
     (case new_message rt ''user'' content s of (userMessage, s1) \<Rightarrow>
      case new_loading rt s1 of (loadingMessage, s2) \<Rightarrow>
        if pg_custom s2 \<and> pg_body s2 \<noteq> [] then send_custom rt userMessage loadingMessage failed s2
        else send_default rt content loadingMessage failed s2)"

text \<open>The regeneration after an edited user message.\<close>

definition regenerate :: "runtime \<Rightarrow> jsval list \<Rightarrow> string option \<Rightarrow> page \<Rightarrow> page res" where
  "regenerate rt ms failed s =
     (let mode = mode_of (pg_inputs s); payload = buildApiPayload ms Null (pg_inputs s) (pg_enabled s) in
      case new_loading rt s of (loadingMessage, s1) \<Rightarrow>
        bind_res (setMessageForMode rt (plain (\<lambda>prev. prev @ [loadingMessage])) [] s1) (\<lambda>s2.
          sendRequest rt payload
            (get payload ''__endpoint'' = Str ''chat'' \<and> truthy (get (pg_inputs s2) ''stream'')) mode failed s2))"

definition handleClearMessages :: "runtime \<Rightarrow> page \<Rightarrow> page res" where
  "handleClearMessages rt s =
     (let mode = mode_of (pg_inputs s);
          s1 = persistModeMessages ((store_put mode [] s)\<lparr>pg_seen := []\<rparr>)
      in setMessage rt (\<lambda>_. Ok ([], Some [])) mode s1)"

section \<open>Polling\<close>

definition terminalStatuses :: "string list" where
  "terminalStatuses = [''completed'', ''succeeded'', ''success'', ''failed'', ''error'', ''cancelled'', ''timeout'']"

definition shouldResumeStatuses :: "string list" where
  "shouldResumeStatuses = [''queued'', ''processing'', ''in_progress'', ''running'', ''pending'', ''submitted'', []]"

definition status_text :: "jsval \<Rightarrow> string" where
  "status_text v = to_lower (to_str (js_or (get v ''status'') (Str [])))"

definition resumable :: "jsval \<Rightarrow> bool" where
  "resumable m \<longleftrightarrow>
     (let k = get m ''videoTask'' in
      has_role ''assistant'' m \<and> truthy (get k ''taskId'') \<and> \<not> truthy (get k ''playableUrl'') \<and>
      status_text k \<notin> set terminalStatuses \<and> status_text k \<in> set shouldResumeStatuses)"

definition resume_poll :: "(jsval \<Rightarrow> nat \<Rightarrow> poll_answer) \<Rightarrow> jsval \<Rightarrow> page \<Rightarrow> page" where
  "resume_poll answer m s =
     (let k = get (get m ''videoTask'') ''taskId'' in
      if k \<in> set (pg_active s) then s
      else s\<lparr>pg_active := pg_active s @ [k],
             pg_pollers := pg_pollers s @
               [\<lparr>pl_kind = Resumed_Poll (get m ''id''), pl_task = k, pl_mode = ''video'',
                 pl_patches = fst (pollVideoTaskUntilReady (answer k) k)\<rparr>]\<rparr>)"

definition terminal_patch :: "jsval \<Rightarrow> bool" where
  "terminal_patch patch \<longleftrightarrow>
     status_text (get patch ''videoTask'') \<in> set terminalStatuses \<or> status_text patch \<in> {''complete'', ''error''}"

definition video_keys :: "string list" where
  "video_keys = [''content'', ''status'', ''videoTask'']"

definition image_keys :: "string list" where
  "image_keys = [''content'', ''generatedImages'', ''status'']"

definition patch_by_id :: "jsval \<Rightarrow> jsval \<Rightarrow> jsval list \<Rightarrow> jsval list" where
  "patch_by_id ident patch ms = map (\<lambda>m. if has_id ident m then apply_task_patch video_keys patch m else m) ms"

text \<open>The next patch of a polling loop.\<close>

definition deliver_patch :: "runtime \<Rightarrow> poller \<Rightarrow> jsval \<Rightarrow> page \<Rightarrow> page res" where
  "deliver_patch rt pl patch s =
     (case pl_kind pl of
        Image_Poll \<Rightarrow> setMessageForMode rt (plain (patch_last image_keys patch)) (pl_mode pl) s
      | Video_Poll \<Rightarrow> setMessageForMode rt (plain (patch_last video_keys patch)) (pl_mode pl) s
      | Resumed_Poll ident \<Rightarrow>
          setMessageForMode rt (saving (patch_by_id ident patch)) ''video''
            (if terminal_patch patch then s\<lparr>pg_active := removeAll (pl_task pl) (pg_active s)\<rparr> else s))"

definition poll_tick :: "runtime \<Rightarrow> nat \<Rightarrow> page \<Rightarrow> page res" where
  "poll_tick rt j s =
     (if j < length (pg_pollers s) then
        (let pl = pg_pollers s ! j in
         case pl_patches pl of
           [] \<Rightarrow> Ok s
         | patch # rest \<Rightarrow> deliver_patch rt pl patch (s\<lparr>pg_pollers := (pg_pollers s)[j := pl\<lparr>pl_patches := rest\<rparr>]\<rparr>))
      else Ok s)"

section \<open>Effects\<close>

text \<open>
  The effects after a rendering in which the messages or the mode changed, in the order of the
  code: the reference to the shown messages, polling of unfinished video tasks, streaming off for
  pictures and videos, the first entry of the store, the shown messages into the store, and the
  change of the mode.
\<close>

definition set_input :: "string \<Rightarrow> jsval \<Rightarrow> page \<Rightarrow> page" where
  "set_input k v s = s\<lparr>pg_inputs := with_field k v (pg_inputs s)\<rparr>"

definition streaming_off :: "page \<Rightarrow> page" where
  "streaming_off s =
     (if mode_of (pg_inputs s) \<in> {''image'', ''video''} \<and> truthy (get (pg_inputs s) ''stream'')
      then set_input ''stream'' (Bool False) s else s)"

definition init_store :: "page \<Rightarrow> page" where
  "init_store s =
     (if pg_init s then s
      else (store_put (mode_of (pg_inputs s)) (pg_message s) s)\<lparr>pg_mode := mode_of (pg_inputs s), pg_init := True\<rparr>)"

definition switch_mode :: "runtime \<Rightarrow> page \<Rightarrow> page" where
  "switch_mode rt s =
     (let nextMode = mode_of (pg_inputs s); prevMode = (if pg_mode s \<noteq> [] then pg_mode s else nextMode) in
      if \<not> pg_init s \<or> nextMode = prevMode then s
      else
        (let s1 = store_put prevMode (pg_seen s) s
         in s1\<lparr>pg_message := ensureUniqueMessageIds (now_text rt) (store_get nextMode s1), pg_mode := nextMode, pg_changed := True\<rparr>))"

definition run_effects :: "runtime \<Rightarrow> (jsval \<Rightarrow> nat \<Rightarrow> poll_answer) \<Rightarrow> page \<Rightarrow> page" where
  "run_effects rt answer s =
     (if \<not> pg_changed s then s
      else
        (let s1 = s\<lparr>pg_changed := False, pg_seen := pg_message s\<rparr>;
             s2 = foldl (\<lambda>acc m. resume_poll answer m acc) s1 (filter resumable (pg_message s1));
             s3 = init_store (streaming_off s2);
             s4 = store_put (current_mode s3) (pg_message s3) s3
         in switch_mode rt s4))"

text \<open>A change of an input; the effect that switches streaming off also follows its own input.\<close>

definition handleInputChange :: "string \<Rightarrow> jsval \<Rightarrow> page \<Rightarrow> page" where
  "handleInputChange k v s =
     (let s1 = set_input k v s in
      if k = ''stream'' then streaming_off s1
      else s1\<lparr>pg_changed := pg_changed s \<or> k = ''display_mode'' \<and> get (pg_inputs s) k \<noteq> v\<rparr>)"

text \<open>The timer that runs the oldest deferred save.\<close>

definition run_save :: "page \<Rightarrow> page" where
  "run_save s =
     (case pg_pending s of
        [] \<Rightarrow> s
      | (ms, mode) # rest \<Rightarrow> saveMessagesForMode ms mode (s\<lparr>pg_pending := rest\<rparr>))"

section \<open>Restoring\<close>

definition stored_list :: "jsval \<Rightarrow> string \<Rightarrow> jsval list \<Rightarrow> jsval list" where
  "stored_list parsed k dflt_ms = (case get parsed k of Arr (m # ms) \<Rightarrow> m # ms | _ \<Rightarrow> dflt_ms)"

text \<open>The restored store from what was found in storage, if anything.\<close>

definition restored_store :: "translate \<Rightarrow> jsval \<Rightarrow> (string \<times> jsval list) list" where
  "restored_store t parsed =
     map (\<lambda>k. (k, stored_list parsed k (getDefaultMessages t))) [''text'', ''image'', ''video'']"

definition restoreModeMessages :: "runtime \<Rightarrow> jsval \<Rightarrow> page \<Rightarrow> page" where
  "restoreModeMessages rt parsed s =
     (let s1 = s\<lparr>pg_store := restored_store (rt_t rt) parsed\<rparr>; mode = mode_of (pg_inputs s)
      in s1\<lparr>pg_message := ensureUniqueMessageIds (now_text rt) (store_get mode s1), pg_changed := True,
            pg_mode := mode, pg_init := True\<rparr>)"

section \<open>Events\<close>

datatype pg_event =
    Send jsval "string option"
  | Sse_Message nat string
  | Sse_Error nat string int
  | Sse_Ready nat int "nat option"
  | Stop
  | Reply nat api_reply "nat \<Rightarrow> poll_answer"
  | Poll_Tick nat
  | Effects "jsval \<Rightarrow> nat \<Rightarrow> poll_answer"
  | Run_Save
  | Persist
  | Restore jsval
  | Input_Change string jsval
  | Custom_Mode bool
  | Custom_Body string
  | Clear
  | Reset "nat option" jsval
  | Resend "string option"
  | Delete "nat option" jsval
  | Role_Toggle jsval
  | Reasoning_Toggle jsval
  | Dimensions jsval string jsval
  | Edit_Start jsval
  | Edit_Value string
  | Edit_Save "nat option"
  | Edit_Cancel
  | Ask_Ok
  | Ask_Cancel
  | Regenerate "string option"

definition notify :: "notice \<Rightarrow> page \<Rightarrow> page" where
  "notify x s = s\<lparr>pg_notices := pg_notices s @ [x]\<rparr>"

definition on_stream :: "nat \<Rightarrow> (page \<Rightarrow> page res) \<Rightarrow> page \<Rightarrow> page res" where
  "on_stream i f s = (if i < length (pg_streams s) then f s else Ok s)"

definition on_reply :: "runtime \<Rightarrow> nat \<Rightarrow> api_reply \<Rightarrow> (nat \<Rightarrow> poll_answer) \<Rightarrow> page \<Rightarrow> page res" where
  "on_reply rt j reply answer s =
     (if j < length (pg_requests s) then
        (case pg_requests s ! j of
           None \<Rightarrow> Ok s
         | Some (payload, mode) \<Rightarrow> handle_reply rt answer payload mode reply (s\<lparr>pg_requests := (pg_requests s)[j := None]\<rparr>))
      else Ok s)"

definition on_reset :: "runtime \<Rightarrow> nat option \<Rightarrow> jsval \<Rightarrow> page \<Rightarrow> page res" where
  "on_reset rt same target s =
     bind_res (handleMessageReset same target (pg_message s)) (\<lambda>(ms, c).
     bind_res (setMessage rt (plain (\<lambda>_. ms)) [] s) (\<lambda>s1.
       Ok (case c of None \<Rightarrow> s1 | Some v \<Rightarrow> s1\<lparr>pg_resend := pg_resend s1 @ [v]\<rparr>)))"

definition on_delete :: "runtime \<Rightarrow> nat option \<Rightarrow> jsval \<Rightarrow> page \<Rightarrow> page res" where
  "on_delete rt same target s =
     (case handleMessageDelete (rt_t rt) same target (pg_message s) of (ms, x) \<Rightarrow>
        setMessage rt (\<lambda>_. Ok (ms, map_option fst x)) [] (case x of None \<Rightarrow> s | Some (_, n) \<Rightarrow> notify n s))"

definition on_role_toggle :: "runtime \<Rightarrow> jsval \<Rightarrow> page \<Rightarrow> page res" where
  "on_role_toggle rt target s =
     (case handleRoleToggle target (pg_message s) of
        None \<Rightarrow> Ok s
      | Some ms \<Rightarrow>
          setMessage rt (saving (\<lambda>_. ms)) []
            (notify (Shown_Success (rt_t rt (if has_role ''assistant'' target then msg_pg_role_system else msg_pg_role_assistant) [])) s))"

definition on_dimensions :: "runtime \<Rightarrow> jsval \<Rightarrow> string \<Rightarrow> jsval \<Rightarrow> page \<Rightarrow> page res" where
  "on_dimensions rt messageId url dims s =
     (if \<not> truthy messageId \<or> url = [] \<or> \<not> truthy_num (dim_of dims ''width'') \<or> \<not> truthy_num (dim_of dims ''height'') then Ok s
      else setMessageForMode rt
             (\<lambda>ms. Ok (case handleMediaDimensionsChange messageId url dims ms of None \<Rightarrow> (ms, None) | Some ms' \<Rightarrow> (ms', Some ms')))
             (current_mode s) s)"

definition edit_ended :: "runtime \<Rightarrow> page \<Rightarrow> page" where
  "edit_ended rt s = notify (Shown_Success (rt_t rt msg_pg_updated [])) (s\<lparr>pg_edit := no_edit\<rparr>)"

definition on_edit_save :: "runtime \<Rightarrow> nat option \<Rightarrow> page \<Rightarrow> page res" where
  "on_edit_save rt same s =
     bind_res (handleEditSave same (pg_edit s) (pg_message s)) (\<lambda>r.
       case r of
         Edit_Ignored \<Rightarrow> Ok s
       | Edit_Saved ms \<Rightarrow> bind_res (setMessageForMode rt (saving (\<lambda>_. ms)) [] s) (\<lambda>s1. Ok (edit_ended rt s1))
       | Edit_Ask cut_ms ms \<Rightarrow>
           bind_res (setMessageForMode rt (plain (\<lambda>prev. prev)) [] s) (\<lambda>s1.
             Ok (edit_ended rt (s1\<lparr>pg_asks := pg_asks s1 @ [(cut_ms, ms)]\<rparr>))))"

text \<open>The answer to the oldest question: drop the replies and generate again, or only store the edit.\<close>

definition on_ask :: "runtime \<Rightarrow> bool \<Rightarrow> page \<Rightarrow> page res" where
  "on_ask rt ok s =
     (case pg_asks s of
        [] \<Rightarrow> Ok s
      | (cut_ms, ms) # rest \<Rightarrow>
          (let s0 = s\<lparr>pg_asks := rest\<rparr> in
           if ok then
             bind_res (setMessageForMode rt (saving (\<lambda>_. cut_ms)) [] s0) (\<lambda>s1. Ok (s1\<lparr>pg_regen := pg_regen s1 @ [cut_ms]\<rparr>))
           else setMessageForMode rt (saving (\<lambda>_. ms)) [] s0))"

primrec pg_step :: "runtime \<Rightarrow> pg_event \<Rightarrow> page \<Rightarrow> page res" where
  "pg_step rt (Send content failed) s = onMessageSend rt content failed s"
| "pg_step rt (Sse_Message i data) s = on_stream i (sse_message rt i data) s"
| "pg_step rt (Sse_Error i data rs) s = on_stream i (sse_error rt i data rs) s"
| "pg_step rt (Sse_Ready i rs code) s = on_stream i (sse_ready rt i rs code) s"
| "pg_step rt Stop s = onStopGenerator rt s"
| "pg_step rt (Reply j reply answer) s = on_reply rt j reply answer s"
| "pg_step rt (Poll_Tick j) s = poll_tick rt j s"
| "pg_step rt (Effects answer) s = Ok (run_effects rt answer s)"
| "pg_step rt Run_Save s = Ok (run_save s)"
| "pg_step rt Persist s = Ok (persistModeMessages s)"
| "pg_step rt (Restore parsed) s = Ok (restoreModeMessages rt parsed s)"
| "pg_step rt (Input_Change k v) s = Ok (handleInputChange k v s)"
| "pg_step rt (Custom_Mode b) s = Ok (s\<lparr>pg_custom := b\<rparr>)"
| "pg_step rt (Custom_Body b) s = Ok (s\<lparr>pg_body := b\<rparr>)"
| "pg_step rt Clear s = handleClearMessages rt s"
| "pg_step rt (Reset same target) s = on_reset rt same target s"
| "pg_step rt (Resend failed) s =
     (case pg_resend s of [] \<Rightarrow> Ok s | c # rest \<Rightarrow> onMessageSend rt c failed (s\<lparr>pg_resend := rest\<rparr>))"
| "pg_step rt (Delete same target) s = on_delete rt same target s"
| "pg_step rt (Role_Toggle target) s = on_role_toggle rt target s"
| "pg_step rt (Reasoning_Toggle ident) s = setMessage rt (plain (toggleReasoningExpansion ident)) [] s"
| "pg_step rt (Dimensions ident url dims) s = on_dimensions rt ident url dims s"
| "pg_step rt (Edit_Start target) s = bind_res (handleMessageEdit target) (\<lambda>e. Ok (s\<lparr>pg_edit := e\<rparr>))"
| "pg_step rt (Edit_Value v) s = Ok (s\<lparr>pg_edit := (pg_edit s)\<lparr>editValue := Str v\<rparr>\<rparr>)"
| "pg_step rt (Edit_Save same) s = on_edit_save rt same s"
| "pg_step rt Edit_Cancel s = Ok (s\<lparr>pg_edit := no_edit\<rparr>)"
| "pg_step rt Ask_Ok s = on_ask rt True s"
| "pg_step rt Ask_Cancel s = on_ask rt False s"
| "pg_step rt (Regenerate failed) s =
     (case pg_regen s of [] \<Rightarrow> Ok s | ms # rest \<Rightarrow> regenerate rt ms failed (s\<lparr>pg_regen := rest\<rparr>))"

text \<open>A sequence of events, each with what the browser supplies at that moment.\<close>

primrec run_pg :: "(runtime \<times> pg_event) list \<Rightarrow> page \<Rightarrow> page res" where
  "run_pg [] s = Ok s"
| "run_pg (x # xs) s = bind_res (pg_step (fst x) (snd x) s) (run_pg xs)"

text \<open>The page when it is first shown, with no stored conversation.\<close>

definition initial_page :: "runtime \<Rightarrow> jsval \<Rightarrow> jsval \<Rightarrow> page" where
  "initial_page rt inputs enabled =
     \<lparr>pg_mode = ''text'', pg_store = [(''text'', []), (''image'', []), (''video'', [])],
      pg_message = ensureUniqueMessageIds (now_text rt) (getDefaultMessages (rt_t rt)), pg_seen = [],
      pg_changed = True, pg_init = False, pg_pending = [], pg_disk = None,
      pg_debug = \<lparr>dbg_request = Null, dbg_response = Null, dbg_timestamp = Null, dbg_sse = None, dbg_streaming = False\<rparr>,
      pg_tab = ''preview'', pg_streams = [], pg_source = None, pg_requests = [], pg_pollers = [], pg_active = [],
      pg_inputs = inputs, pg_enabled = enabled, pg_custom = False, pg_body = [], pg_edit = no_edit,
      pg_asks = [], pg_regen = [], pg_resend = [], pg_counter = 4, pg_notices = []\<rparr>"

end
