(* ===== verification/Playground_Storage.thy ===== *)
theory Playground_Storage
  imports Playground_Page
begin

text \<open>
  What the playground keeps between visits: the configuration and the conversation in
  \<^verbatim>\<open>localStorage\<close> (\<^verbatim>\<open>components/playground/configStorage.js\<close>), the three conversations in the
  localforage database (\<^verbatim>\<open>messageStorage.js\<close>), and the code of \<^verbatim>\<open>usePlaygroundState.js\<close> and
  \<^verbatim>\<open>pages/Playground/index.jsx\<close> that reads them back.

  \<^verbatim>\<open>localStorage\<close> is a map from keys to texts, the database a map from keys to values. Whether the
  browser accepts a write (it may be out of space) is an argument; a refused write is logged by the
  code and changes nothing.
\<close>

section \<open>Local storage\<close>

type_synonym storage = "string \<Rightarrow> string option"

definition set_item :: "(string \<Rightarrow> bool) \<Rightarrow> string \<Rightarrow> string \<Rightarrow> storage \<Rightarrow> storage" where
  "set_item accepts k v st = (if accepts v then st(k \<mapsto> v) else st)"

definition remove_item :: "string \<Rightarrow> storage \<Rightarrow> storage" where
  "remove_item k st = st(k := None)"

text \<open>\<^verbatim>\<open>STORAGE_KEYS\<close>\<close>

definition CONFIG_KEY :: string where
  "CONFIG_KEY = ''playground_config''"

definition MESSAGES_KEY :: string where
  "MESSAGES_KEY = ''playground_messages''"

definition messages_key :: "jsval \<Rightarrow> string" where
  "messages_key userId = (if truthy userId then MESSAGES_KEY @ ''_'' @ to_str userId else MESSAGES_KEY)"

text \<open>\<^verbatim>\<open>{ ...a, ...b }\<close>\<close>

definition spread_over :: "jsval \<Rightarrow> jsval \<Rightarrow> jsval" where
  "spread_over a b =
     (case b of
        Str s \<Rightarrow> with_fields (map (\<lambda>(i, c). (nat_str i, Str c)) (enumerate 0 (chars s))) a
      | _ \<Rightarrow> with_fields (own_props b) a)"

section \<open>Configuration\<close>

definition DEFAULT_INPUTS :: jsval where
  "DEFAULT_INPUTS = Obj
     [(''display_mode'', Str ''text''), (''model'', Str ''gpt-4o''), (''model_type'', Str []), (''selected_route_slug'', Str []),
      (''group'', Str []), (''temperature'', Num (rnd (7 / 10))), (''top_p'', Num (Fin 1)), (''max_tokens'', Num (Fin 4096)),
      (''frequency_penalty'', Num (Fin 0)), (''presence_penalty'', Num (Fin 0)), (''seed'', Null), (''stream'', Bool True),
      (''imageEnabled'', Bool False), (''imageUrls'', Arr [Str []]), (''videoUrls'', Arr [Str []]), (''selected_model_tags'', Arr []),
      (''image_size'', Str ''1280x720''), (''image_n'', Num (Fin 1)), (''image_quality'', Str ''standard''),
      (''image_response_format'', Str ''url''), (''image_style'', Str ''vivid''), (''video_duration'', Num (Fin 5)),
      (''video_resolution_preset'', Str ''1280x720''), (''video_width'', Num (Fin 1280)), (''video_height'', Num (Fin 720)),
      (''video_fps'', Num (Fin 24)), (''video_motion'', Num (rnd (4 / 10))), (''video_n'', Num (Fin 1))]"

definition DEFAULT_ENABLED :: jsval where
  "DEFAULT_ENABLED = Obj
     [(''temperature'', Bool True), (''top_p'', Bool True), (''max_tokens'', Bool False), (''frequency_penalty'', Bool True),
      (''presence_penalty'', Bool True), (''seed'', Bool False)]"

definition DEFAULT_CONFIG :: jsval where
  "DEFAULT_CONFIG = Obj
     [(''inputs'', DEFAULT_INPUTS), (''parameterEnabled'', DEFAULT_ENABLED), (''systemPrompt'', Str []),
      (''showDebugPanel'', Bool False), (''customRequestMode'', Bool False), (''customRequestBody'', Str [])]"

definition saveConfig :: "(string \<Rightarrow> bool) \<Rightarrow> string \<Rightarrow> jsval \<Rightarrow> storage \<Rightarrow> storage" where
  "saveConfig accepts stamp_text config st = set_item accepts CONFIG_KEY (json_str (with_field ''timestamp'' (Str stamp_text) config)) st"

definition merged_config :: "jsval \<Rightarrow> jsval" where
  "merged_config p = Obj
     [(''inputs'', spread_over DEFAULT_INPUTS (get p ''inputs'')), (''parameterEnabled'', spread_over DEFAULT_ENABLED (get p ''parameterEnabled'')),
      (''showDebugPanel'', js_or (get p ''showDebugPanel'') (Bool False)),
      (''customRequestMode'', js_or (get p ''customRequestMode'') (Bool False)),
      (''customRequestBody'', js_or (get p ''customRequestBody'') (Str []))]"

definition loadConfig :: "storage \<Rightarrow> jsval" where
  "loadConfig st =
     (case st CONFIG_KEY of
        None \<Rightarrow> DEFAULT_CONFIG
      | Some s \<Rightarrow>
          if s = [] then DEFAULT_CONFIG
          else case json_parse s of Ok p \<Rightarrow> if nullish p then DEFAULT_CONFIG else merged_config p | Throw _ \<Rightarrow> DEFAULT_CONFIG)"

definition hasStoredConfig :: "storage \<Rightarrow> bool" where
  "hasStoredConfig st \<longleftrightarrow> st CONFIG_KEY \<noteq> None"

definition getConfigTimestamp :: "storage \<Rightarrow> jsval" where
  "getConfigTimestamp st =
     (case st CONFIG_KEY of
        None \<Rightarrow> Null
      | Some s \<Rightarrow> if s = [] then Null else case json_parse s of Ok p \<Rightarrow> js_or (get p ''timestamp'') Null | Throw _ \<Rightarrow> Null)"

section \<open>The conversation in local storage\<close>

definition saveMessages :: "(string \<Rightarrow> bool) \<Rightarrow> string \<Rightarrow> jsval \<Rightarrow> jsval \<Rightarrow> storage \<Rightarrow> storage" where
  "saveMessages accepts stamp_text messages userId st =
     set_item accepts (messages_key userId)
       (json_str (Obj [(''messages'', messages), (''timestamp'', Str stamp_text), (''userId'', userId)])) st"

definition has_own :: "jsval \<Rightarrow> string \<Rightarrow> bool" where
  "has_own v k = (case v of Obj ps \<Rightarrow> map_of ps k \<noteq> None | _ \<Rightarrow> False)"

definition same_user :: "jsval \<Rightarrow> jsval \<Rightarrow> bool" where
  "same_user userId p \<longleftrightarrow> \<not> truthy userId \<or> nullish (get p ''userId'') \<or> to_str (get p ''userId'') = to_str userId"

definition loadMessages :: "jsval \<Rightarrow> storage \<Rightarrow> jsval" where
  "loadMessages userId st =
     (case st (messages_key userId) of
        None \<Rightarrow> Null
      | Some s \<Rightarrow>
          if s = [] then Null
          else
            (case json_parse s of
               Throw _ \<Rightarrow> Null
             | Ok p \<Rightarrow> if truthy p \<and> has_own p ''messages'' \<and> same_user userId p then get p ''messages'' else Null))"

definition clearMessages :: "jsval \<Rightarrow> storage \<Rightarrow> storage" where
  "clearMessages userId st = remove_item (messages_key userId) st"

definition clearConfig :: "jsval \<Rightarrow> storage \<Rightarrow> storage" where
  "clearConfig userId st = remove_item (messages_key userId) (remove_item CONFIG_KEY st)"

section \<open>Files\<close>

text \<open>The text of the exported file.\<close>

definition exportConfig :: "string \<Rightarrow> jsval \<Rightarrow> jsval \<Rightarrow> jsval \<Rightarrow> storage \<Rightarrow> string" where
  "exportConfig stamp_text config messages userId st =
     json_pretty [] (with_fields [(''messages'', if truthy messages then messages else loadMessages userId st),
       (''exportTime'', Str stamp_text), (''version'', Str ''1.0'')] config)"

text \<open>The import of a file: its text, or nothing if it could not be read; errors carry their message.\<close>

definition importConfig ::
  "(js_error \<Rightarrow> string) \<Rightarrow> (string \<Rightarrow> bool) \<Rightarrow> string \<Rightarrow> string option \<Rightarrow> jsval \<Rightarrow> storage \<Rightarrow> jsval res \<times> storage" where
  "importConfig msg accepts stamp_text file userId st =
     (case file of
        None \<Rightarrow> (Throw (Error_Msg lbl_pg_config_read), st)
      | Some s \<Rightarrow>
          (case bind_res (json_parse s) (\<lambda>c. bind_res (field_of c ''inputs'') (\<lambda>_. Ok c)) of
             Throw e \<Rightarrow> (Throw (Error_Msg (lbl_pg_config_parse @ msg e)), st)
           | Ok c \<Rightarrow>
               if truthy (get c ''inputs'') \<and> truthy (get c ''parameterEnabled'')
               then (Ok c, if is_array (get c ''messages'') then saveMessages accepts stamp_text (get c ''messages'') userId st else st)
               else (Throw (Error_Msg lbl_pg_bad_config), st)))"

section \<open>The database of conversations\<close>

type_synonym database = "string \<Rightarrow> jsval option"

definition getMessageStorageKey :: "jsval \<Rightarrow> string" where
  "getMessageStorageKey userId = ''playground_mode_messages_'' @ to_str (js_or userId (Str ''guest''))"

definition saveModeMessages :: "bool \<Rightarrow> string \<Rightarrow> jsval \<Rightarrow> jsval \<Rightarrow> database \<Rightarrow> database" where
  "saveModeMessages works stamp_text userId modeMessages db =
     (if works
      then db(getMessageStorageKey userId \<mapsto>
        with_fields [(''timestamp'', Str stamp_text), (''userId'', js_or userId (Str ''guest''))] (spread_over (Obj []) modeMessages))
      else db)"

definition loadModeMessages :: "bool \<Rightarrow> jsval \<Rightarrow> database \<Rightarrow> jsval" where
  "loadModeMessages works userId db =
     (case db (getMessageStorageKey userId) of
        Some v \<Rightarrow> if works \<and> truthy v \<and> typeof_object v then v else Null
      | None \<Rightarrow> Null)"

definition clearModeMessages :: "bool \<Rightarrow> jsval \<Rightarrow> database \<Rightarrow> database" where
  "clearModeMessages works userId db = (if works then db(getMessageStorageKey userId := None) else db)"

section \<open>Moving old conversations\<close>

definition mode_record :: "jsval \<Rightarrow> jsval \<Rightarrow> jsval" where
  "mode_record old defaults = Obj [(''text'', old), (''image'', defaults), (''video'', defaults)]"

definition migrateLegacyMessages ::
  "bool \<Rightarrow> string \<Rightarrow> translate \<Rightarrow> jsval \<Rightarrow> storage \<times> database \<Rightarrow> storage \<times> database" where
  "migrateLegacyMessages works stamp_text t userId sd =
     (case sd of (st, db) \<Rightarrow>
        if truthy (loadModeMessages works userId db) then (st, db)
        else
          (case st (messages_key userId) of
             None \<Rightarrow> (st, db)
           | Some s \<Rightarrow>
               if s = [] then (st, db)
               else
                 (case json_parse s of
                    Throw _ \<Rightarrow> (st, db)
                  | Ok p \<Rightarrow>
                      (case get p ''messages'' of
                         Arr (m # ms) \<Rightarrow>
                           (remove_item (messages_key userId) st,
                            saveModeMessages works stamp_text userId (mode_record (Arr (m # ms)) (Arr (getDefaultMessages t))) db)
                       | _ \<Rightarrow> (remove_item (messages_key userId) st, db)))))"

text \<open>
  The search for stored conversations when the page opens: the database, then two older places, which
  are moved into the database. A parse error ends the search.
\<close>

definition restore_mode_key ::
  "bool \<Rightarrow> string \<Rightarrow> jsval \<Rightarrow> storage \<times> database \<Rightarrow> (jsval \<times> storage \<times> database) res" where
  "restore_mode_key works stamp_text userId sd =
     (case sd of (st, db) \<Rightarrow>
        (case st (getMessageStorageKey userId) of
           None \<Rightarrow> Ok (Null, st, db)
         | Some s \<Rightarrow>
             if s = [] then Ok (Null, st, db)
             else bind_res (json_parse s) (\<lambda>p.
                    Ok (p, remove_item (getMessageStorageKey userId) st, saveModeMessages works stamp_text userId p db))))"

definition restore_legacy ::
  "bool \<Rightarrow> string \<Rightarrow> translate \<Rightarrow> jsval \<Rightarrow> storage \<times> database \<Rightarrow> (jsval \<times> storage \<times> database) res" where
  "restore_legacy works stamp_text t userId sd =
     (case sd of (st, db) \<Rightarrow>
        (case st (messages_key userId) of
           None \<Rightarrow> Ok (Null, st, db)
         | Some s \<Rightarrow>
             if s = [] then Ok (Null, st, db)
             else bind_res (json_parse s) (\<lambda>p.
                    case get p ''messages'' of
                      Arr ms \<Rightarrow>
                        (let r = mode_record (Arr ms) (Arr (getDefaultMessages t))
                         in Ok (r, remove_item (messages_key userId) st, saveModeMessages works stamp_text userId r db))
                    | _ \<Rightarrow> Ok (Null, st, db))))"

definition find_stored ::
  "bool \<Rightarrow> string \<Rightarrow> translate \<Rightarrow> jsval \<Rightarrow> storage \<times> database \<Rightarrow> (jsval \<times> storage \<times> database) res" where
  "find_stored works stamp_text t userId sd =
     (let v = loadModeMessages works userId (snd sd) in
      if truthy v then Ok (v, sd)
      else
        bind_res (restore_mode_key works stamp_text userId sd) (\<lambda>(p, sd1).
          if truthy p then Ok (p, sd1) else restore_legacy works stamp_text t userId sd1))"

section \<open>The state hook\<close>

text \<open>The stored value as a list: absent, or not a list and then shown as an empty conversation.\<close>

definition loaded_list :: "jsval \<Rightarrow> jsval list option" where
  "loaded_list v = (case v of Arr ms \<Rightarrow> Some ms | _ \<Rightarrow> if truthy v then Some [] else None)"

definition is_old_default :: "jsval list \<Rightarrow> bool res" where
  "is_old_default ms =
     (case ms of
        [a, b] \<Rightarrow>
          bind_res (field_of a ''id'') (\<lambda>i.
            if i \<noteq> Str ''2'' then Ok False
            else
              bind_res (field_of b ''id'') (\<lambda>j.
                Ok (j = Str ''3'' \<and>
                    (get a ''content'' = Str lbl_pg_old_hello \<or> get b ''content'' = Str lbl_pg_old_reply \<or>
                     get b ''content'' = Str lbl_pg_old_reply2))))
      | _ \<Rightarrow> Ok False)"

text \<open>
  The first conversation, from the stored list: nothing, or the list with its last message closed,
  and what is written back.
\<close>

definition initial_messages ::
  "(string \<Rightarrow> bool) \<Rightarrow> string \<Rightarrow> jsval \<Rightarrow> jsval list option \<Rightarrow> storage \<Rightarrow> (jsval list option \<times> storage) res" where
  "initial_messages accepts stamp_text userId loaded st =
     (case loaded of
        None \<Rightarrow> Ok (None, st)
      | Some ms \<Rightarrow>
          bind_res (is_old_default ms) (\<lambda>old.
            if old then Ok (None, remove_item MESSAGES_KEY st)
            else
              bind_res (normalizePersistedPlaygroundMessages ms) (\<lambda>ms'.
                Ok (Some ms', if needsPersistedTailNormalize ms then saveMessages accepts stamp_text (Arr ms') userId st else st))))"

text \<open>The effect that loads the conversation of another user.\<close>

definition load_user ::
  "runtime \<Rightarrow> (string \<Rightarrow> bool) \<Rightarrow> jsval \<Rightarrow> jsval list option \<Rightarrow> page \<times> storage \<Rightarrow> (page \<times> storage) res" where
  "load_user rt accepts userId loaded ps =
     (case ps of (s, st) \<Rightarrow>
        (case loaded of
           None \<Rightarrow> bind_res (setMessage rt (plain (\<lambda>_. getDefaultMessages (rt_t rt))) [] s) (\<lambda>s'. Ok (s', st))
         | Some ms \<Rightarrow>
             bind_res (normalizePersistedPlaygroundMessages ms) (\<lambda>ms'.
             bind_res (setMessage rt (plain (\<lambda>_. ms')) [] s) (\<lambda>s'.
               Ok (s', if needsPersistedTailNormalize ms then saveMessages accepts (rt_iso rt) (Arr ms') userId st else st)))))"

definition saveMessagesImmediately ::
  "runtime \<Rightarrow> (string \<Rightarrow> bool) \<Rightarrow> jsval \<Rightarrow> jsval list option \<Rightarrow> page \<Rightarrow> storage \<Rightarrow> storage" where
  "saveMessagesImmediately rt accepts userId ms s st =
     saveMessages accepts (rt_iso rt)
       (Arr (ensureUniqueMessageIds (now_text rt) (case ms of Some x \<Rightarrow> x | None \<Rightarrow> pg_message s))) userId st"

definition handleParameterToggle :: "string \<Rightarrow> page \<Rightarrow> page" where
  "handleParameterToggle k s = s\<lparr>pg_enabled := with_field k (js_not (get (pg_enabled s) k)) (pg_enabled s)\<rparr>"

text \<open>The timer of \<^verbatim>\<open>debouncedSaveConfig\<close>; the debug panel is not part of the page.\<close>

definition save_page_config :: "(string \<Rightarrow> bool) \<Rightarrow> string \<Rightarrow> bool \<Rightarrow> page \<Rightarrow> storage \<Rightarrow> storage" where
  "save_page_config accepts stamp_text showDebugPanel s st =
     saveConfig accepts stamp_text
       (Obj [(''inputs'', pg_inputs s), (''parameterEnabled'', pg_enabled s), (''showDebugPanel'', Bool showDebugPanel),
             (''customRequestMode'', Bool (pg_custom s)), (''customRequestBody'', Str (pg_body s))]) st"

text \<open>New inputs at once, with the effect that follows the streaming input.\<close>

definition set_inputs :: "jsval \<Rightarrow> page \<Rightarrow> page" where
  "set_inputs v s =
     (if mode_of v = mode_of (pg_inputs s) then streaming_off (s\<lparr>pg_inputs := v\<rparr>)
      else s\<lparr>pg_inputs := v, pg_changed := True\<rparr>)"

text \<open>
  Importing: only truthy parts count, so a configuration cannot switch the custom mode off. A custom
  body is a text.
\<close>

definition handleConfigImport :: "runtime \<Rightarrow> jsval \<Rightarrow> page \<Rightarrow> page res" where
  "handleConfigImport rt c s =
     (let s1 = (if truthy (get c ''inputs'') then set_inputs (spread_over (pg_inputs s) (get c ''inputs'')) s else s);
          s2 = (if truthy (get c ''parameterEnabled'')
                then s1\<lparr>pg_enabled := spread_over (pg_enabled s1) (get c ''parameterEnabled'')\<rparr> else s1);
          s3 = (if truthy (get c ''customRequestMode'') then s2\<lparr>pg_custom := True\<rparr> else s2);
          s4 = (case get c ''customRequestBody'' of Str b \<Rightarrow> if b \<noteq> [] then s3\<lparr>pg_body := b\<rparr> else s3 | _ \<Rightarrow> s3)
      in case get c ''messages'' of
           Arr ms \<Rightarrow> setMessage rt (plain (\<lambda>_. ensureUniqueMessageIds (now_text rt) ms)) [] s4
         | _ \<Rightarrow> Ok s4)"

text \<open>Resetting; the default messages follow in a timer.\<close>

definition handleConfigReset :: "runtime \<Rightarrow> bool \<Rightarrow> page \<Rightarrow> page res" where
  "handleConfigReset rt resetMessages s =
     (let s1 = (set_inputs DEFAULT_INPUTS s)\<lparr>pg_enabled := DEFAULT_ENABLED, pg_custom := False, pg_body := []\<rparr>
      in if resetMessages then setMessage rt (plain (\<lambda>_. [])) [] s1 else Ok s1)"

definition reset_timer :: "runtime \<Rightarrow> page \<Rightarrow> page res" where
  "reset_timer rt s = setMessage rt (plain (\<lambda>_. getDefaultMessages (rt_t rt))) [] s"

section \<open>Preview\<close>

text \<open>
  The last user message with the pictures of the side bar. The code runs inside a \<^verbatim>\<open>try\<close>, so an
  exception gives no preview.
\<close>

definition last_user :: "jsval list \<Rightarrow> nat option" where
  "last_user ms = user_before ms (length ms)"

definition preview_messages :: "jsval \<Rightarrow> jsval list \<Rightarrow> jsval list res" where
  "preview_messages inputs ms =
     (case last_user ms of
        None \<Rightarrow> Ok ms
      | Some i \<Rightarrow>
          if mode_of inputs \<in> {''image'', ''video''} \<and> truthy (get inputs ''imageUrls'') then
            bind_res (valid_urls (get inputs ''imageUrls'')) (\<lambda>urls.
              if urls = [] then Ok ms
              else
                bind_res (getTextContent (ms ! i)) (\<lambda>c.
                  Ok (ms[i := with_field ''content'' (buildMessageContent (js_or c (Str lbl_pg_sample)) urls True) (ms ! i)])))
          else Ok ms)"

definition constructPreviewPayload :: "page \<Rightarrow> jsval" where
  "constructPreviewPayload s =
     (let default_preview =
            (case preview_messages (pg_inputs s) (pg_message s) of
               Ok ms \<Rightarrow> buildApiPayload ms Null (pg_inputs s) (pg_enabled s)
             | Throw _ \<Rightarrow> Null)
      in if pg_custom s \<and> trim (pg_body s) \<noteq> []
         then (case json_parse (pg_body s) of Ok p \<Rightarrow> p | Throw _ \<Rightarrow> default_preview)
         else default_preview)"

end
