(* ===== verification/Playground_Replies.thy ===== *)
theory Playground_Replies
  imports Playground_Page
begin

text \<open>
  Laws of the helpers of the playground: the polling of video and image tasks, the address of a
  finished video, the separation of thoughts and reply, and the pictures written into a message.
\<close>

section \<open>Polling\<close>

text \<open>The patches that end a task, and those that report progress.\<close>

definition ends_task :: "jsval \<Rightarrow> bool" where
  "ends_task p \<longleftrightarrow> get p ''status'' = Str ''complete'' \<or> get p ''status'' = Str ''error''"

definition reports_progress :: "jsval \<Rightarrow> bool" where
  "reports_progress p \<longleftrightarrow> get p ''status'' = Undef"

text \<open>A sequence of patches in which exactly the last one ends the task.\<close>

definition well_ended :: "jsval list \<Rightarrow> bool" where
  "well_ended ps \<longleftrightarrow> ps \<noteq> [] \<and> ends_task (last ps) \<and> list_all reports_progress (butlast ps)"

lemma well_ended_one: "ends_task p \<Longrightarrow> well_ended [p]"
  by (simp add: well_ended_def)

lemma well_ended_Cons: "reports_progress p \<Longrightarrow> well_ended ps \<Longrightarrow> well_ended (p # ps)"
  by (simp add: well_ended_def)

lemma video_answer_cases:
  "(\<exists>q p. video_answer k d = ([q, p], True) \<and> reports_progress q \<and> ends_task p) \<or>
   (\<exists>q. video_answer k d = ([q], False) \<and> reports_progress q)"
  by (auto simp: video_answer_def Let_def reports_progress_def ends_task_def)

lemma poll_video_ends:
  "well_ended (fst (poll_video answer k i fails left)) \<and> snd (poll_video answer k i fails left) \<le> i + left \<and>
   i \<le> snd (poll_video answer k i fails left)"
proof (induction left arbitrary: i fails)
  case 0
  then show ?case by (simp add: well_ended_one ends_task_def)
next
  case (Suc left)
  show ?case
  proof (cases "answer i")
    case (Net_Fail e)
    show ?thesis
      using Suc.IH [of "Suc i" "Suc fails"] Net_Fail
      by (auto simp: well_ended_one ends_task_def error_patch_of_def reports_progress_def split: prod.splits intro!: well_ended_Cons)
  next
    case (Bad_Status code body)
    then show ?thesis by (simp add: well_ended_one ends_task_def error_patch_of_def)
  next
    case (Body b)
    show ?thesis
    proof (cases "decode_body b")
      case (Throw e)
      then show ?thesis using Body by (simp add: well_ended_one ends_task_def error_patch_of_def)
    next
      case (Ok d)
      from video_answer_cases [of k d] show ?thesis
        using Suc.IH [of "Suc i" 0] Body Ok
        by (auto simp: well_ended_one well_ended_Cons split: prod.splits)
    qed
  qed
qed

text \<open>
  C4: polling a video task always ends. Whatever the server answers, and whether it answers at all,
  at most 120 requests are made, at least one patch is delivered, the last one puts the message into
  the state complete or error, and no earlier one touches the state.
\<close>

theorem video_poll_ends:
  assumes "truthy taskId" "pollVideoTaskUntilReady answer taskId = (ps, n)"
  shows "n \<le> 120 \<and> ps \<noteq> [] \<and> ends_task (last ps) \<and> list_all reports_progress (butlast ps)"
  using assms poll_video_ends [of answer taskId 0 0 120] by (simp add: pollVideoTaskUntilReady_def well_ended_def)

theorem video_poll_ends_witness:
  "fst (pollVideoTaskUntilReady (\<lambda>_. Bad_Status 500 []) (Str ''t'')) \<noteq> []"
  using video_poll_ends [of "Str ''t''" "\<lambda>_. Bad_Status 500 []"
      "fst (pollVideoTaskUntilReady (\<lambda>_. Bad_Status 500 []) (Str ''t''))"
      "snd (pollVideoTaskUntilReady (\<lambda>_. Bad_Status 500 []) (Str ''t''))"]
  by (simp add: truthy_def)

text \<open>An answer to which the image loop gives no patch.\<close>

definition unusable :: "poll_answer \<Rightarrow> bool" where
  "unusable a = (case a of Net_Fail _ \<Rightarrow> True | Bad_Status _ _ \<Rightarrow> True
     | Body s \<Rightarrow> (case decode_body s of Ok _ \<Rightarrow> False | Throw _ \<Rightarrow> True))"

lemma poll_image_silent: "(\<And>i. unusable (answer i)) \<Longrightarrow> fst (poll_image answer i left) = []"
proof (induction left arbitrary: i)
  case (Suc left)
  have "unusable (answer i)" by (rule Suc.prems)
  then show ?case using Suc.IH [OF Suc.prems]
    by (cases "answer i") (auto simp: unusable_def split: res.splits)
qed simp

text \<open>
  C32: the polling of an image task, unlike that of a video task, can end without a word: if no
  request succeeds (no connection, an error status, text that is no JSON), it delivers no patch at
  all, so the message keeps saying that the picture is being generated.
\<close>

theorem image_poll_silent:
  assumes "\<forall>i. unusable (answer i)"
  shows "fst (pollImageTaskUntilReady answer taskId) = []"
  using assms poll_image_silent [of answer 0 120] by (simp add: pollImageTaskUntilReady_def)

theorem image_poll_silent_witness:
  "fst (pollImageTaskUntilReady (\<lambda>_. Bad_Status 500 []) (Str ''t'')) = []"
  by (rule image_poll_silent) (simp add: unusable_def)

section \<open>Addresses of videos\<close>

text \<open>The values inside a value.\<close>

inductive part_of :: "jsval \<Rightarrow> jsval \<Rightarrow> bool" where
  whole: "part_of v v"
| in_arr: "x \<in> set vs \<Longrightarrow> part_of v x \<Longrightarrow> part_of v (Arr vs)"
| in_obj: "(k, x) \<in> set ps \<Longrightarrow> part_of v x \<Longrightarrow> part_of v (Obj ps)"

inductive_simps part_of_Str: "part_of v (Str s)"
inductive_simps part_of_Obj: "part_of v (Obj ps)"

lemma part_of_elem: "x \<in> set (arr_elems w) \<Longrightarrow> part_of v x \<Longrightarrow> part_of v w"
  by (cases w) (auto simp: arr_elems_def intro: part_of.intros)

lemma part_of_get: "get w k \<noteq> Undef \<Longrightarrow> part_of v (get w k) \<Longrightarrow> part_of v w"
proof (cases w)
  case (Obj ps)
  assume "get w k \<noteq> Undef" "part_of v (get w k)"
  then show ?thesis using Obj by (auto dest!: map_of_SomeD intro: part_of.in_obj split: option.splits)
next
  case (Arr vs)
  assume "get w k \<noteq> Undef" "part_of v (get w k)"
  then show ?thesis using Arr by (auto simp: get_def intro: part_of.in_arr [OF nth_mem] split: if_splits)
qed (simp_all add: get_def)

definition quoted_in :: "string \<Rightarrow> jsval \<Rightarrow> bool" where
  "quoted_in u v \<longleftrightarrow> u \<noteq> [] \<and> (\<exists>s. part_of (Str s) v \<and> u = trim s)"

lemma quoted_in_get: "quoted_in u (get v k) \<Longrightarrow> get v k \<noteq> Undef \<Longrightarrow> quoted_in u v"
  by (auto simp: quoted_in_def intro: part_of_get)

lemma quoted_in_elem: "quoted_in u x \<Longrightarrow> x \<in> set (arr_elems v) \<Longrightarrow> quoted_in u v"
  by (auto simp: quoted_in_def intro: part_of_elem)

lemma quoted_str: "get v k = Str s \<Longrightarrow> trim s \<noteq> [] \<Longrightarrow> quoted_in (trim s) v"
  using part_of_get [of v k "Str s"] by (auto simp: quoted_in_def intro: part_of.whole)

lemma first_text_in: "first_text us \<noteq> [] \<Longrightarrow> first_text us \<in> set us"
  by (auto simp: first_text_def split: list.splits dest!: arg_cong [where f = set])

lemma object_at_Undef: "object_at v k \<Longrightarrow> get v k \<noteq> Undef"
  by (auto simp: object_at_def)

text \<open>The texts among which the first non-empty one is taken.\<close>

definition playable_candidates :: "jsval \<Rightarrow> string list" where
  "playable_candidates d =
     (if object_at d ''output''
      then [trim (case get (get d ''output'') ''video_url'' of
                    Str s \<Rightarrow> s
                  | _ \<Rightarrow> (case get (get d ''output'') ''videoUrl'' of Str s \<Rightarrow> s | _ \<Rightarrow> []))]
      else []) @
     map (\<lambda>k. str_trim (get d k)) [''url'', ''video_url'', ''content_url'', ''output_url''] @
     map extractVideoPlayableURL (arr_elems (get d ''data'')) @
     (if object_at d ''video'' then [extractVideoPlayableURL (get d ''video'')] else []) @
     (if object_at d ''result'' then [extractVideoPlayableURL (get d ''result'')] else []) @
     (if object_at d ''data'' \<and> \<not> is_array (get d ''data'') then [extractVideoPlayableURL (get d ''data'')] else [])"

definition empty_or_quoted :: "jsval \<Rightarrow> string \<Rightarrow> bool" where
  "empty_or_quoted d u \<longleftrightarrow> u = [] \<or> quoted_in u d"

lemma quoted_at: "empty_or_quoted (get d k) u \<Longrightarrow> object_at d k \<Longrightarrow> empty_or_quoted d u"
  using quoted_in_get object_at_Undef by (auto simp: empty_or_quoted_def)

lemma quoted_field: "empty_or_quoted d (str_trim (get d k))"
  using quoted_str [of d k] by (auto simp: empty_or_quoted_def str_trim_def split: jsval.splits)

lemma quoted_output:
  "empty_or_quoted v (trim (case get v ''video_url'' of Str s \<Rightarrow> s | _ \<Rightarrow> (case get v ''videoUrl'' of Str s \<Rightarrow> s | _ \<Rightarrow> [])))"
  using quoted_str [of v "''video_url''"] quoted_str [of v "''videoUrl''"]
  by (auto simp: empty_or_quoted_def split: jsval.splits)

lemma quoted_data:
  assumes "x \<in> set (arr_elems (get d k))" "empty_or_quoted x u" shows "empty_or_quoted d u"
proof -
  have "get d k \<noteq> Undef" using assms(1) by (auto simp: arr_elems_def)
  then show ?thesis using assms quoted_in_elem quoted_in_get unfolding empty_or_quoted_def by metis
qed

lemma playable_quoted: "empty_or_quoted d (extractVideoPlayableURL d)"
proof (induction d rule: extractVideoPlayableURL.induct)
  case (1 d)
  show ?case
  proof (cases "\<not> truthy d \<or> \<not> typeof_object d")
    case True
    then have "extractVideoPlayableURL d = []" by (subst extractVideoPlayableURL.simps) simp
    then show ?thesis by (simp add: empty_or_quoted_def)
  next
    case False
    note IH = 1 [OF False]
    have "list_all (empty_or_quoted d) (map extractVideoPlayableURL (arr_elems (get d ''data'')))"
      using quoted_data [OF _ IH(1)] by (auto simp: list_all_iff)
    moreover have "object_at d ''output'' \<Longrightarrow> empty_or_quoted d (trim (case get (get d ''output'') ''video_url'' of
        Str s \<Rightarrow> s | _ \<Rightarrow> (case get (get d ''output'') ''videoUrl'' of Str s \<Rightarrow> s | _ \<Rightarrow> [])))"
      by (rule quoted_at [OF quoted_output])
    moreover note IH(2) [THEN quoted_at] IH(3) [THEN quoted_at] IH(4) [THEN quoted_at]
    ultimately have "list_all (empty_or_quoted d) (playable_candidates d)"
      by (simp add: playable_candidates_def quoted_field)
    moreover have "extractVideoPlayableURL d = first_text (playable_candidates d)"
      unfolding playable_candidates_def using False by (subst extractVideoPlayableURL.simps) simp
    ultimately show ?thesis
      using first_text_in [of "playable_candidates d"] by (metis list_all_iff empty_or_quoted_def)
  qed
qed

lemma first_text_empty: "first_text us = [] \<longleftrightarrow> list_all (\<lambda>u. u = []) us"
  by (induction us) (auto simp: first_text_def)

text \<open>
  The address at which a finished video is played is not made up and not overlooked: either a
  text of the answer is found, however deep it is nested, and returned without surrounding blanks, or
  the result is empty and none of the fields of the answer that carry an address has any text.
\<close>

theorem playable_url_quoted:
  assumes "truthy d" "typeof_object d"
  shows "extractVideoPlayableURL d \<noteq> [] \<and> (\<exists>s. part_of (Str s) d \<and> extractVideoPlayableURL d = trim s) \<or>
    extractVideoPlayableURL d = [] \<and> list_all (\<lambda>k. str_trim (get d k) = []) [''url'', ''video_url'', ''content_url'', ''output_url'']"
proof (cases "extractVideoPlayableURL d = []")
  case True
  have "extractVideoPlayableURL d = first_text (playable_candidates d)"
    unfolding playable_candidates_def using assms by (subst extractVideoPlayableURL.simps) simp
  then have "first_text (playable_candidates d) = []" using True by simp
  then show ?thesis unfolding first_text_empty using True by (simp add: playable_candidates_def)
next
  case False
  then show ?thesis using playable_quoted [of d] by (simp add: empty_or_quoted_def quoted_in_def)
qed

theorem playable_url_quoted_witness:
  "extractVideoPlayableURL (Obj [(''url'', Str ''a'')]) = ''a''"
proof -
  have t: "trim ''a'' = ''a''" by (rule trim_plain) (simp add: plain_char_def ascii_def ascii_ws_def)
  have "s = ''a''" if "part_of (Str s) (Obj [(''url'', Str ''a'')])" for s
    using that by (simp add: part_of_Obj part_of_Str)
  moreover have "truthy (Obj [(''url'', Str ''a'')])" "typeof_object (Obj [(''url'', Str ''a'')])"
    by (simp_all add: truthy_def typeof_object_def)
  from playable_url_quoted [OF this] have "\<exists>s. part_of (Str s) (Obj [(''url'', Str ''a'')]) \<and>
      extractVideoPlayableURL (Obj [(''url'', Str ''a'')]) = trim s"
    using t by (simp add: str_trim_def)
  ultimately show ?thesis using t by metis
qed

section \<open>Cutting at a tag\<close>

text \<open>A pattern whose first character occurs nowhere else in it cannot overlap itself.\<close>

definition no_overlap :: "string \<Rightarrow> bool" where
  "no_overlap p \<longleftrightarrow> (case p of [] \<Rightarrow> False | c # q \<Rightarrow> c \<notin> set q)"

lemma no_overlap_tags [simp]: "no_overlap open_tag" "no_overlap close_tag"
  by (simp_all add: no_overlap_def)

lemma has_text_iff: "has_text s p \<longleftrightarrow> (\<exists>a b. s = a @ p @ b)"
proof
  assume "has_text s p" then show "\<exists>a b. s = a @ p @ b" using cut_Some by (force simp: has_text_def)
next
  show "has_text s p" if "\<exists>a b. s = a @ p @ b"
    using that
  proof (induction p s rule: cut_at.induct)
    case (2 p c s)
    from 2(2) obtain a b where s: "c # s = a @ p @ b" by blast
    show ?case
    proof (cases "prefix p (c # s)")
      case False
      then obtain x a' where a: "a = x # a'" using s by (cases a) auto
      then have "has_text s p" using 2(1) False s by auto
      then show ?thesis by (auto simp: has_text_def)
    qed (simp add: has_text_def)
  qed (auto simp: has_text_def)
qed

lemma has_text_append: "has_text a p \<Longrightarrow> has_text (a @ b) p" "has_text b p \<Longrightarrow> has_text (a @ b) p"
  unfolding has_text_iff by (metis append.assoc)+

lemma not_prefix_before:
  assumes "no_overlap p" "\<not> has_text (x # a) p" shows "\<not> prefix p (x # a @ p @ b)"
proof
  obtain c q where p: "p = c # q" "c \<notin> set q" using assms(1) by (auto simp: no_overlap_def split: list.splits)
  assume "prefix p (x # a @ p @ b)"
  then obtain r where r: "(x # a) @ p @ b = p @ r" by (auto simp: prefix_def)
  then consider us where "x # a = p @ us" | us where "p = (x # a) @ us" "us \<noteq> []" "us @ r = p @ b"
    unfolding append_eq_append_conv2 by (metis append_Nil2 self_append_conv)
  then show False
  proof cases
    case 1
    then show ?thesis using assms(2) unfolding has_text_iff by (metis append_Nil)
  next
    case 2
    then have "hd us = c" using p(1) by (cases us) auto
    moreover have "hd us \<in> set q" using 2(1,2) p(1) by (cases us) auto
    ultimately show ?thesis using p(2) by simp
  qed
qed

lemma cut_at_first:
  assumes "no_overlap p" "\<not> has_text a p" shows "cut_at p (a @ p @ b) = Some (a, b)"
  using assms(2)
proof (induction a)
  case Nil
  obtain c q where "p = c # q" using assms(1) by (auto simp: no_overlap_def split: list.splits)
  then show ?case by simp
next
  case (Cons x a)
  have "\<not> has_text a p" using Cons.prems has_text_append(2) [of a p "[x]"] by auto
  then show ?case using Cons.IH not_prefix_before [OF assms(1) Cons.prems] by simp
qed

section \<open>Thoughts\<close>

text \<open>A reply with thoughts: a text, then thoughts in tags, each followed by a text.\<close>

definition with_thoughts :: "string \<Rightarrow> (string \<times> string) list \<Rightarrow> string" where
  "with_thoughts a ps = a @ concat (map (\<lambda>(t, b). open_tag @ t @ close_tag @ b) ps)"

lemma with_thoughts_Cons: "with_thoughts a ((t, b) # ps) = a @ open_tag @ t @ close_tag @ with_thoughts b ps"
  by (simp add: with_thoughts_def)

lemma think_parts_thoughts:
  assumes "\<not> has_text a open_tag" "\<forall>(t, b)\<in>set ps. \<not> has_text t close_tag \<and> \<not> has_text b open_tag"
  shows "think_parts (with_thoughts a ps) = (map fst ps, a # map snd ps)"
  using assms
proof (induction ps arbitrary: a)
  case Nil
  then have "cut_at open_tag a = None" unfolding has_text_def by blast
  then show ?case by (simp add: with_thoughts_def think_parts.simps [of a])
next
  case (Cons x ps)
  obtain t b where x: "x = (t, b)" by force
  have 1: "cut_at open_tag (with_thoughts a (x # ps)) = Some (a, t @ close_tag @ with_thoughts b ps)"
    unfolding x with_thoughts_Cons using Cons.prems(1) by (intro cut_at_first) simp_all
  have 2: "cut_at close_tag (t @ close_tag @ with_thoughts b ps) = Some (t, with_thoughts b ps)"
    using Cons.prems(2) x by (intro cut_at_first) auto
  have "think_parts (with_thoughts b ps) = (map fst ps, b # map snd ps)" using Cons x by auto
  then show ?case unfolding think_parts.simps [of "with_thoughts a (x # ps)"] 1 option.case prod.case 2 by (simp add: x)
qed

lemma drop_tags_none: "\<not> has_text s open_tag \<Longrightarrow> \<not> has_text s close_tag \<Longrightarrow> drop_tags s = s"
proof (induction s)
  case (Cons c s)
  have "\<not> has_text s open_tag" "\<not> has_text s close_tag"
    using Cons.prems has_text_append(2) [of s _ "[c]"] by auto
  moreover have "\<not> prefix open_tag (c # s)" "\<not> prefix close_tag (c # s)"
    using Cons.prems unfolding has_text_iff prefix_def by (metis append_Nil)+
  ultimately show ?case using Cons.IH by auto
qed simp

text \<open>
  C27: the thoughts of a model are separated from its reply: in a reply made of texts and thoughts in
  \<^verbatim>\<open><think>\<close> tags, the content becomes the texts, in order and without surrounding blanks, and the
  thoughts are added to those that came separately, in order, with a rule between them. No thought
  and no part of the reply is lost or repeated.
\<close>

theorem think_tags_split:
  assumes "ps \<noteq> []" "\<forall>(t, b)\<in>set ps. \<not> has_text t close_tag"
    and "\<not> has_text (a @ concat (map snd ps)) open_tag" "\<not> has_text (a @ concat (map snd ps)) close_tag"
  shows "processThinkTags (Str (with_thoughts a ps)) (Str r) =
    Ok (Str (trim (a @ concat (map snd ps))),
        Str (let ts = join thought_sep (map fst ps) in if r = [] then ts else if ts = [] then r else r @ thought_sep @ ts))"
proof -
  have b: "\<not> has_text b open_tag" if "(t, b) \<in> set ps" for t b
    using that assms(3) has_text_append by (fastforce dest!: split_list simp: has_text_append)
  have "\<not> has_text a open_tag" using assms(3) has_text_append(1) by blast
  then have p: "think_parts (with_thoughts a ps) = (map fst ps, a # map snd ps)"
    using assms(2) b by (intro think_parts_thoughts) auto
  obtain t b' qs where "ps = (t, b') # qs" using assms(1) by (cases ps) auto
  then have "has_text (with_thoughts a ps) open_tag" "with_thoughts a ps \<noteq> []"
    unfolding has_text_iff with_thoughts_def by auto
  then show ?thesis
    using p drop_tags_none [OF assms(3,4)]
    by (simp add: processThinkTags_def truthy_def dflt_def add_thoughts_def js_or_def Let_def)
qed

theorem think_tags_split_witness:
  "processThinkTags (Str ''<think>a</think>b'') (Str []) = Ok (Str (trim ''b''), Str ''a'')"
  using think_tags_split [of "[(''a'', ''b'')]" "[]" "[]"] by (simp add: has_text_def with_thoughts_def)

section \<open>Pictures in messages\<close>

lemma takeWhile_number: "takeWhile is_digit (nat_str n @ CHR '']'' # r) = nat_str n"
proof -
  have "\<not> is_digit (CHR '']'')" by (simp add: is_digit_def)
  then show ?thesis using nat_str_digits by (subst takeWhile_append2) auto
qed

lemma image_match_ref:
  assumes "CHR '')'' \<notin> set src" shows "image_match (image_ref n src @ r) = Some (src, r)"
proof -
  have "\<not> has_text src '')''" using assms unfolding has_text_iff by auto
  then have "cut_at '')'' (src @ '')'' @ r) = Some (src, r)" by (intro cut_at_first) (simp_all add: no_overlap_def)
  then show ?thesis
    using takeWhile_number [of n "''('' @ src @ '')'' @ r"] by (simp add: image_match_def image_ref_def Let_def del: cut_at.simps)
qed

lemma md_images_ref:
  assumes "CHR '')'' \<notin> set src" shows "md_images (image_ref n src @ r) = trim src # md_images r"
proof -
  obtain s where s: "image_ref n src @ r = CHR ''!'' # s" by (simp add: image_ref_def)
  then show ?thesis using image_match_ref [OF assms, of n r] by (simp add: md_images.simps(2))
qed

lemma md_images_line_end: "md_images (CHR 0x0A # s) = md_images s"
  by (simp add: md_images.simps(2) image_match_def)

lemma md_images_refs:
  assumes "\<And>x. x \<in> set xs \<Longrightarrow> CHR '')'' \<notin> set x"
  shows "md_images (join [CHR 0x0A, CHR 0x0A] (map (\<lambda>(i, src). image_ref (i + 1) src) (enumerate n xs))) = map trim xs"
  using assms
proof (induction xs arbitrary: n)
  case (Cons x xs)
  have x: "CHR '')'' \<notin> set x" using Cons.prems by simp
  show ?case
  proof (cases xs)
    case Nil
    then show ?thesis using md_images_ref [OF x, of "n + 1" "[]"] by simp
  next
    case (Cons y ys)
    then obtain z zs where z: "map (\<lambda>(i, src). image_ref (i + 1) src) (enumerate (Suc n) xs) = z # zs" by simp
    then have "md_images (join [CHR 0x0A, CHR 0x0A] (image_ref (n + 1) x # z # zs)) = trim x # md_images (join [CHR 0x0A, CHR 0x0A] (z # zs))"
      using md_images_ref [OF x, of "n + 1"] by (simp add: md_images_line_end)
    then show ?thesis using Cons.IH [of "Suc n"] Cons.prems z by simp
  qed
qed simp



end
