(* ===== verification/Playground_Stream.thy ===== *)
theory Playground_Stream
  imports Playground_Replies
begin

text \<open>
  Laws of the conversation: unique identifiers, and what a streamed reply does to the shown
  conversation from its first delta to its end.
\<close>

section \<open>Objects\<close>

lemma set_prop_same: "map_of ps k = Some v \<Longrightarrow> set_prop k v ps = ps"
  by (induction k v ps rule: set_prop.induct) (auto split: if_splits)

lemma get_Obj_Some: "get (Obj ps) k = v \<Longrightarrow> v \<noteq> Undef \<Longrightarrow> map_of ps k = Some v"
  by (auto split: option.splits)

lemma with_field_same: "get (Obj ps) k = v \<Longrightarrow> v \<noteq> Undef \<Longrightarrow> with_field k v (Obj ps) = Obj ps"
  by (simp add: with_field_def own_props_def set_prop_same get_Obj_Some del: get_simps)

lemma with_fields_simps [simp]:
  "with_fields [] m = m"
  "with_fields ((k, v) # kvs) m = with_fields kvs (with_field k v m)"
  by (simp_all add: with_fields_def)

definition is_obj :: "jsval \<Rightarrow> bool" where
  "is_obj m = (case m of Obj _ \<Rightarrow> True | _ \<Rightarrow> False)"

lemma is_obj_simps [simp]: "is_obj (Obj ps)" "is_obj (with_field k v m)"
  by (simp_all add: is_obj_def with_field_def)

lemma is_obj_with_fields [simp]: "is_obj m \<Longrightarrow> is_obj (with_fields kvs m)"
  by (induction kvs arbitrary: m) auto

lemma get_with_field_obj [simp]: "is_obj m \<Longrightarrow> get (with_field k v m) k' = (if k' = k then v else get m k')"
  by (auto simp: is_obj_def split: jsval.splits)

lemma get_with_field_same [simp]: "get (with_field k v m) k = v"
  by (simp add: with_field_def)

lemma get_with_fields:
  "is_obj m \<Longrightarrow> get (with_fields kvs m) k = (case map_of (rev kvs) k of Some v \<Rightarrow> v | None \<Rightarrow> get m k)"
proof (induction kvs arbitrary: m)
  case (Cons kv kvs)
  obtain k' v' where "kv = (k', v')" by force
  then show ?case using Cons by (auto simp: map_add_def split: option.splits)
qed simp

section \<open>Unique identifiers\<close>

definition tidy :: "jsval list \<Rightarrow> bool" where
  "tidy ms \<longleftrightarrow>
     list_all (\<lambda>m. is_obj m \<and> (case get m ''id'' of Str i \<Rightarrow> i \<noteq> [] | _ \<Rightarrow> False)) ms \<and>
     distinct (map (\<lambda>m. to_str (get m ''id'')) ms)"

lemma unique_from_tidy:
  "list_all (\<lambda>m. is_obj m \<and> (case get m ''id'' of Str i \<Rightarrow> i \<noteq> [] | _ \<Rightarrow> False)) ms \<Longrightarrow>
   distinct (map (\<lambda>m. to_str (get m ''id'')) ms) \<Longrightarrow>
   (\<lambda>m. to_str (get m ''id'')) ` set ms \<inter> set seen = {} \<Longrightarrow> unique_from now index seen ms = ms"
proof (induction ms arbitrary: index seen)
  case (Cons m ms)
  obtain ps i where m: "m = Obj ps" "get m ''id'' = Str i" "i \<noteq> []"
    using Cons.prems(1) by (auto simp: is_obj_def split: jsval.splits)
  have "with_field ''id'' (Str i) m = m" using m with_field_same by blast
  moreover have "unique_from now (Suc index) (i # seen) ms = ms"
    using Cons.prems m by (intro Cons.IH) auto
  ultimately show ?case using Cons.prems(3) m(2,3) by (simp add: Let_def nullish_def)
qed simp

lemma ensure_tidy: "tidy ms \<Longrightarrow> ensureUniqueMessageIds now ms = ms"
  unfolding ensureUniqueMessageIds_def tidy_def by (rule unique_from_tidy) simp_all

definition msg_ids :: "jsval list \<Rightarrow> string list" where
  "msg_ids ms = map (\<lambda>m. to_str (get m ''id'')) ms"

definition stamp :: "string \<Rightarrow> string" where
  "stamp now = ''-'' @ now @ ''-''"

text \<open>Identifiers given out so far: without the time stamp, or with it and an earlier position.\<close>

definition given_out :: "string \<Rightarrow> nat \<Rightarrow> string \<Rightarrow> bool" where
  "given_out now index x \<longleftrightarrow> \<not> has_text x (stamp now) \<or> (\<exists>a j. j < index \<and> x = a @ stamp now @ nat_str j)"

lemma nat_str_no_minus: "CHR ''-'' \<notin> set (nat_str n)"
  using nat_str_digits [of "CHR ''-''" n] by (auto simp: is_digit_def)

lemma stamp_tail_eq:
  assumes "a @ stamp now @ nat_str i = b @ stamp now @ nat_str j" shows "i = j"
proof -
  have "a @ ''-'' @ now @ CHR ''-'' # nat_str i = b @ ''-'' @ now @ CHR ''-'' # nat_str j" using assms by (simp add: stamp_def)
  then have "takeWhile (\<lambda>c. c \<noteq> CHR ''-'') (rev (a @ ''-'' @ now @ CHR ''-'' # nat_str i)) =
    takeWhile (\<lambda>c. c \<noteq> CHR ''-'') (rev (b @ ''-'' @ now @ CHR ''-'' # nat_str j))" by (rule arg_cong)
  moreover have "takeWhile (\<lambda>c. c \<noteq> CHR ''-'') (rev (x @ ''-'' @ now @ CHR ''-'' # nat_str n)) = rev (nat_str n)" for x n
    using nat_str_no_minus [of n] by (auto simp: takeWhile_append)
  ultimately show ?thesis by (metis digits_val_nat_str rev_swap)
qed

lemma unique_from_distinct:
  assumes "\<And>m. m \<in> set ms \<Longrightarrow> \<not> nullish (get m ''id'') \<Longrightarrow> \<not> has_text (to_str (get m ''id'')) (stamp now)"
    and "\<And>x. x \<in> set seen \<Longrightarrow> given_out now index x"
  shows "distinct (msg_ids (unique_from now index seen ms)) \<and>
    set (msg_ids (unique_from now index seen ms)) \<inter> set seen = {}"
  using assms
proof (induction ms arbitrary: index seen)
  case (Cons m ms)
  define ident where "ident = get m ''id''"
  define b where "b = (if \<not> nullish ident \<and> to_str ident \<noteq> [] then to_str ident else ''msg-'' @ now @ ''-'' @ nat_str index)"
  define x where "x = (if b \<in> set seen then b @ ''-'' @ now @ ''-'' @ nat_str index else b)"
  have tail: "y \<noteq> a @ stamp now @ nat_str index" if "y \<in> set seen" for y a
    using Cons.prems(2) [OF that] has_text_iff [of y "stamp now"] stamp_tail_eq [of a now index]
    unfolding given_out_def by (metis less_irrefl)
  have "x \<notin> set seen \<and> given_out now (Suc index) x"
  proof (cases "x = b \<and> \<not> nullish ident \<and> to_str ident \<noteq> []")
    case True
    then have "\<not> has_text x (stamp now)" using Cons.prems(1) [of m] by (auto simp: b_def ident_def)
    then show ?thesis using True tail by (auto simp: given_out_def x_def b_def split: if_splits)
  next
    case False
    then obtain a where "x = a @ stamp now @ nat_str index"
      by (cases "x = b") (auto simp: x_def b_def stamp_def split: if_splits)
    then show ?thesis using tail by (auto simp: given_out_def)
  qed
  moreover have "given_out now (Suc index) y" if "y \<in> set seen" for y
    using Cons.prems(2) [OF that] by (auto simp: given_out_def less_Suc_eq)
  ultimately have "distinct (msg_ids (unique_from now (Suc index) (x # seen) ms)) \<and>
      set (msg_ids (unique_from now (Suc index) (x # seen) ms)) \<inter> set (x # seen) = {}"
    using Cons.prems(1) by (intro Cons.IH) auto
  moreover have "unique_from now index seen (m # ms) = with_field ''id'' (Str x) m # unique_from now (Suc index) (x # seen) ms"
    by (simp add: Let_def x_def b_def ident_def)
  ultimately show ?case using \<open>x \<notin> set seen \<and> _\<close> by (auto simp: msg_ids_def)
qed (simp add: msg_ids_def)

text \<open>
  C29: the messages of a conversation get pairwise distinct, non-empty identifiers and lose nothing
  else: no message is added or dropped, and every other field keeps its value. The identifiers
  present must not contain the time of the call, which is part of the ones given out.
\<close>

theorem ensureUniqueMessageIds_distinct:
  assumes "\<forall>m\<in>set ms. is_obj m \<and> (nullish (get m ''id'') \<or> \<not> has_text (to_str (get m ''id'')) (stamp now))"
  shows "distinct (msg_ids (ensureUniqueMessageIds now ms)) \<and> tidy (ensureUniqueMessageIds now ms) \<and>
    list_all2 (\<lambda>m m'. \<forall>k. k \<noteq> ''id'' \<longrightarrow> get m' k = get m k) ms (ensureUniqueMessageIds now ms)"
proof -
  have d: "distinct (msg_ids (ensureUniqueMessageIds now ms))"
    using assms unique_from_distinct [of ms now "[]" 0] by (auto simp: ensureUniqueMessageIds_def)
  have "list_all2 (\<lambda>m m'. (\<forall>k. k \<noteq> ''id'' \<longrightarrow> get m' k = get m k) \<and> is_obj m' \<and>
      (case get m' ''id'' of Str i \<Rightarrow> i \<noteq> [] | _ \<Rightarrow> False)) ms (unique_from now index seen ms)" for index seen
    using assms by (induction ms arbitrary: index seen) (auto simp: Let_def)
  then have l: "list_all2 (\<lambda>m m'. (\<forall>k. k \<noteq> ''id'' \<longrightarrow> get m' k = get m k) \<and> is_obj m' \<and>
      (case get m' ''id'' of Str i \<Rightarrow> i \<noteq> [] | _ \<Rightarrow> False)) ms (ensureUniqueMessageIds now ms)"
    by (simp add: ensureUniqueMessageIds_def)
  then have "list_all (\<lambda>m. is_obj m \<and> (case get m ''id'' of Str i \<Rightarrow> i \<noteq> [] | _ \<Rightarrow> False)) (ensureUniqueMessageIds now ms)"
    by (auto simp: list_all2_conv_all_nth list_all_length)
  with d l show ?thesis unfolding tidy_def msg_ids_def by (auto elim: list_all2_mono)
qed

theorem ensureUniqueMessageIds_distinct_witness:
  "distinct (msg_ids (ensureUniqueMessageIds ''17'' [Obj [(''id'', Str ''a'')], Obj [(''id'', Str ''a'')], Obj []]))"
  by (rule conjunct1 [OF ensureUniqueMessageIds_distinct]) (simp add: nullish_def has_text_def stamp_def)

section \<open>Replies that are being written\<close>

definition text_at :: "string \<Rightarrow> jsval \<Rightarrow> string" where
  "text_at k m = (case get m k of Str s \<Rightarrow> s | _ \<Rightarrow> [])"

definition open_reply :: "jsval \<Rightarrow> bool" where
  "open_reply m \<longleftrightarrow>
     is_obj m \<and> get m ''role'' = Str ''assistant'' \<and> generating m \<and>
     get m ''content'' = Str (text_at ''content'' m) \<and> get m ''reasoningContent'' = Str (text_at ''reasoningContent'' m)"

text \<open>The fields of a message that no part of a reply touches.\<close>

definition same_head :: "jsval \<Rightarrow> jsval \<Rightarrow> bool" where
  "same_head m m' \<longleftrightarrow> (\<forall>k. k \<notin> {''content'', ''reasoningContent'', ''status'', ''isThinkingComplete'',
     ''hasAutoCollapsed'', ''isReasoningExpanded''} \<longrightarrow> get m' k = get m k)"

lemma same_head_refl [simp]: "same_head m m"
  by (simp add: same_head_def)

lemma same_head_trans: "same_head m m' \<Longrightarrow> same_head m' m'' \<Longrightarrow> same_head m m''"
  by (simp add: same_head_def)

lemma same_headD: "same_head m m' \<Longrightarrow> get m' ''id'' = get m ''id''" "same_head m m' \<Longrightarrow> get m' ''role'' = get m ''role''"
  by (simp_all add: same_head_def)

definition adds :: "string \<Rightarrow> string \<Rightarrow> jsval \<Rightarrow> jsval \<Rightarrow> bool" where
  "adds c r m m' \<longleftrightarrow>
     text_at ''content'' m' = text_at ''content'' m @ c \<and>
     text_at ''reasoningContent'' m' = text_at ''reasoningContent'' m @ r \<and> same_head m m'"

lemma adds_refl [simp]: "adds [] [] m m"
  by (simp add: adds_def)

lemma adds_trans: "adds c r m m' \<Longrightarrow> adds c' r' m' m'' \<Longrightarrow> adds (c @ c') (r @ r') m m''"
  by (auto simp: adds_def intro: same_head_trans)

lemma js_or_text: "js_or (Str s) (Str []) = Str s"
  by (simp add: js_or_def truthy_def)

lemma js_plus_text: "js_plus (Str a) (Str b) = Str (a @ b)"
  by (simp add: js_plus_def stringy_def)

lemma stream_reasoning_adds:
  assumes "open_reply m"
  shows "open_reply (stream_reasoning (Str r) m) \<and> adds [] r m (stream_reasoning (Str r) m)"
proof -
  obtain a b where t: "is_obj m" "get m ''role'' = Str ''assistant''" "get m ''content'' = Str a" "get m ''reasoningContent'' = Str b"
    using assms by (auto simp: open_reply_def)
  have "get (stream_reasoning (Str r) m) k =
      (if k = ''isThinkingComplete'' then Bool False else if k = ''status'' then Str ''incomplete''
       else if k = ''reasoningContent'' then Str (b @ r) else get m k)" for k
    using t by (simp add: stream_reasoning_def js_or_text js_plus_text)
  moreover have "is_obj (stream_reasoning (Str r) m)" using t by (simp add: stream_reasoning_def)
  ultimately show ?thesis
    using t by (simp add: open_reply_def adds_def text_at_def generating_def is_status_def same_head_def)
qed

lemma collapse_fields:
  "applyAutoCollapseLogic m v =
     [(''isThinkingComplete'', snd (applyAutoCollapseLogic m v ! 0)), (''hasAutoCollapsed'', snd (applyAutoCollapseLogic m v ! 1)),
      (''isReasoningExpanded'', snd (applyAutoCollapseLogic m v ! 2))]"
  by (simp add: applyAutoCollapseLogic_def Let_def)

lemma get_collapsed:
  assumes "is_obj m" and "k \<notin> {''isThinkingComplete'', ''hasAutoCollapsed'', ''isReasoningExpanded''}"
  shows "get (with_fields (applyAutoCollapseLogic x v) m) k = get m k"
  using assms by (subst collapse_fields) simp

lemma stream_content_Ok:
  assumes "open_reply m"
  shows "\<exists>v. stream_content (Str c) m =
    Ok (with_fields ((''content'', Str (text_at ''content'' m @ c)) # (''status'', Str ''incomplete'') # applyAutoCollapseLogic m v) m)"
proof -
  have "get m ''content'' = Str (text_at ''content'' m)" using assms by (simp add: open_reply_def)
  then show ?thesis by (auto simp: stream_content_def Let_def js_or_text js_plus_text)
qed

lemma stream_content_adds:
  assumes "open_reply m"
  shows "\<exists>m'. stream_content (Str c) m = Ok m' \<and> open_reply m' \<and> adds c [] m m'"
proof -
  obtain v where v: "stream_content (Str c) m =
      Ok (with_fields ((''content'', Str (text_at ''content'' m @ c)) # (''status'', Str ''incomplete'') # applyAutoCollapseLogic m v) m)"
    (is "_ = Ok ?m") using stream_content_Ok [OF assms] by blast
  have t: "is_obj m" "get m ''role'' = Str ''assistant''" "get m ''reasoningContent'' = Str (text_at ''reasoningContent'' m)"
    using assms by (auto simp: open_reply_def)
  have "get ?m k = (if k = ''content'' then Str (text_at ''content'' m @ c) else if k = ''status'' then Str ''incomplete'' else get m k)"
    if "k \<notin> {''isThinkingComplete'', ''hasAutoCollapsed'', ''isReasoningExpanded''}" for k
    using t that by (simp add: get_collapsed)
  then have "open_reply ?m \<and> adds c [] m ?m"
    using t by (simp add: open_reply_def adds_def text_at_def generating_def is_status_def same_head_def)
  then show ?thesis using v by blast
qed

text \<open>One part of a delta on a conversation.\<close>

lemma last_snoc [simp]: "last_msg (ms @ [m]) = m" "set_last m' (ms @ [m]) = ms @ [m']"
  by (simp_all add: last_msg_def set_last_def)

lemma open_reply_streams:
  assumes "open_reply m"
  shows "truthy m" "\<not> is_status m ''error''" "generating m" "get m ''role'' = Str ''assistant''"
  using assms by (auto simp: open_reply_def truthy_def is_obj_def generating_def is_status_def split: jsval.splits)

lemma stream_reasoning_list:
  assumes "open_reply m"
  shows "streamMessageUpdate (Str r) ''reasoning'' (ms @ [m]) = Ok (ms @ [stream_reasoning (Str r) m])"
  using open_reply_streams [OF assms] by (simp add: streamMessageUpdate_def Let_def)

lemma stream_content_list:
  assumes "open_reply m"
  shows "streamMessageUpdate (Str r) ''content'' (ms @ [m]) = bind_res (stream_content (Str r) m) (\<lambda>m'. Ok (ms @ [m']))"
  using open_reply_streams [OF assms] by (simp add: streamMessageUpdate_def Let_def)

text \<open>What a delta adds; a field that is absent or empty adds nothing.\<close>

definition piece :: "jsval \<Rightarrow> string" where
  "piece v = (case v of Str s \<Rightarrow> s | _ \<Rightarrow> [])"

definition plain_piece :: "jsval \<Rightarrow> bool" where
  "plain_piece v \<longleftrightarrow> \<not> truthy v \<or> v = Str (piece v)"

definition delta_of :: "string \<Rightarrow> jsval" where
  "delta_of data = (case json_parse data of Ok p \<Rightarrow> get (index0 (get p ''choices'')) ''delta'' | Throw _ \<Rightarrow> Undef)"

definition chunk_ok :: "string \<Rightarrow> bool" where
  "chunk_ok data \<longleftrightarrow>
     data \<noteq> ''[DONE]'' \<and> (case json_parse data of Ok p \<Rightarrow> \<not> nullish p | Throw _ \<Rightarrow> False) \<and>
     plain_piece (get (delta_of data) ''reasoning_content'') \<and> plain_piece (get (delta_of data) ''reasoning'') \<and>
     plain_piece (get (delta_of data) ''content'')"

definition content_of :: "string \<Rightarrow> string" where
  "content_of data = piece (get (delta_of data) ''content'')"

definition reasoning_of :: "string \<Rightarrow> string" where
  "reasoning_of data = piece (get (delta_of data) ''reasoning_content'') @ piece (get (delta_of data) ''reasoning'')"

lemma piece_falsy: "\<not> truthy v \<Longrightarrow> piece v = []"
  by (cases v) (auto simp: piece_def truthy_def)

section \<open>The shown conversation\<close>

lemma tidy_snoc: "tidy (ms @ [m]) \<Longrightarrow> same_head m m' \<Longrightarrow> is_obj m' \<Longrightarrow> tidy (ms @ [m'])"
  by (simp add: tidy_def same_headD)

text \<open>The shown conversation ends in a message, and a stream feeds it.\<close>

definition shows_reply :: "page \<Rightarrow> jsval list \<Rightarrow> jsval \<Rightarrow> bool" where
  "shows_reply s ms m \<longleftrightarrow> pg_message s = ms @ [m] \<and> tidy (pg_message s)"

definition only_message :: "page \<Rightarrow> page \<Rightarrow> bool" where
  "only_message s s' \<longleftrightarrow>
     (\<exists>ms b p. s' = s\<lparr>pg_message := ms, pg_changed := b, pg_pending := p\<rparr>)"

lemma only_messageI: "only_message s (s\<lparr>pg_message := ms, pg_changed := b, pg_pending := p\<rparr>)"
  unfolding only_message_def by (intro exI) (rule refl)

lemma only_messageE:
  assumes "only_message s s'"
  obtains ms b p where "s' = s\<lparr>pg_message := ms, pg_changed := b, pg_pending := p\<rparr>"
  using assms unfolding only_message_def by blast

lemma only_message_refl [simp]: "only_message s s"
  using only_messageI [where s = s and ms = "pg_message s" and b = "pg_changed s" and p = "pg_pending s"] by simp

lemma only_message_trans: "only_message s s' \<Longrightarrow> only_message s' s'' \<Longrightarrow> only_message s s''"
  by (elim only_messageE) (simp add: only_messageI)

lemma shown_update:
  assumes s: "shows_reply s ms m" and mode: "target_mode mode s = current_mode s"
    and u: "upd (ms @ [m]) = Ok (ms @ [m'], sv)" "same_head m m'" "is_obj m'"
  shows "\<exists>s'. setMessageForMode rt upd mode s = Ok s' \<and> shows_reply s' ms m' \<and> only_message s s'"
proof -
  have t: "tidy (ms @ [m'])" using s u(2,3) tidy_snoc by (auto simp: shows_reply_def)
  let ?s = "s\<lparr>pg_message := ms @ [m'], pg_changed := True\<rparr>"
  have "setMessageForMode rt upd mode s = Ok (defer_save sv mode ?s)"
    using s u(1) mode t by (simp add: setMessageForMode_def setMessage_def shows_reply_def ensure_tidy)
  moreover have "shows_reply (defer_save sv mode ?s) ms m'"
    using t by (cases sv) (simp_all add: defer_save_def shows_reply_def)
  moreover have "only_message s (defer_save sv mode ?s)"
    using only_messageI [where s = s and ms = "ms @ [m']" and b = True and p = "pg_pending s"] by (cases sv) (simp_all add: defer_save_def only_messageI)
  ultimately show ?thesis by blast
qed

lemma only_message_mode:
  "only_message s s' \<Longrightarrow> target_mode mode s' = target_mode mode s" "only_message s s' \<Longrightarrow> current_mode s' = current_mode s"
  "only_message s s' \<Longrightarrow> pg_streams s' = pg_streams s"
  by (auto elim!: only_messageE simp: target_mode_def current_mode_def)

lemma stream_text_shown:
  assumes "shows_reply s ms m" "target_mode mode s = current_mode s"
    and "streamMessageUpdate c ty (ms @ [m]) = Ok (ms @ [m'])" "same_head m m'" "open_reply m'"
  shows "\<exists>s'. stream_text rt c ty mode s = Ok s' \<and> shows_reply s' ms m' \<and> only_message s s'"
  unfolding stream_text_def using assms by (intro shown_update [where sv = None]) (simp_all add: open_reply_def)

lemma stream_if_reasoning:
  assumes "shows_reply s ms m" "open_reply m" "target_mode mode s = current_mode s" "plain_piece v"
  shows "\<exists>s' m'. stream_if rt v ''reasoning'' mode s = Ok s' \<and> shows_reply s' ms m' \<and> open_reply m' \<and>
    adds [] (piece v) m m' \<and> only_message s s'"
proof (cases "truthy v")
  case True
  then obtain c where v: "v = Str c" "piece v = c" using assms(4) by (metis plain_piece_def)
  have m: "open_reply (stream_reasoning v m)" "adds [] c m (stream_reasoning v m)"
    using stream_reasoning_adds [OF assms(2)] v by auto
  then obtain s' where "stream_text rt v ''reasoning'' mode s = Ok s'" "shows_reply s' ms (stream_reasoning v m)" "only_message s s'"
    using stream_text_shown [OF assms(1,3) stream_reasoning_list [OF assms(2)]] v by (auto simp: adds_def)
  then show ?thesis using True m v(2) by (auto simp: stream_if_def)
next
  case False
  then show ?thesis using assms by (auto simp: stream_if_def piece_falsy)
qed

lemma stream_if_content:
  assumes "shows_reply s ms m" "open_reply m" "target_mode mode s = current_mode s" "plain_piece v"
  shows "\<exists>s' m'. stream_if rt v ''content'' mode s = Ok s' \<and> shows_reply s' ms m' \<and> open_reply m' \<and>
    adds (piece v) [] m m' \<and> only_message s s'"
proof (cases "truthy v")
  case True
  then obtain c where v: "v = Str c" "piece v = c" using assms(4) by (metis plain_piece_def)
  obtain m' where m: "stream_content v m = Ok m'" "open_reply m'" "adds c [] m m'"
    using stream_content_adds [OF assms(2)] v(1) by blast
  then have "streamMessageUpdate v ''content'' (ms @ [m]) = Ok (ms @ [m'])"
    using stream_content_list [OF assms(2)] v(1) by simp
  then obtain s' where "stream_text rt v ''content'' mode s = Ok s'" "shows_reply s' ms m'" "only_message s s'"
    using stream_text_shown [OF assms(1,3)] m by (metis adds_def)
  then show ?thesis using True m v(2) by (auto simp: stream_if_def)
next
  case False
  then show ?thesis using assms by (auto simp: stream_if_def piece_falsy)
qed

lemma sse_delta_shown:
  assumes "shows_reply s ms m" "open_reply m" "target_mode (st_mode (pg_streams s ! i)) s = current_mode s"
    and "plain_piece (get d ''reasoning_content'')" "plain_piece (get d ''reasoning'')" "plain_piece (get d ''content'')"
  shows "\<exists>s' m'. sse_delta rt i data d s = Ok s' \<and> shows_reply s' ms m' \<and> open_reply m' \<and> only_message s s' \<and>
    adds (piece (get d ''content'')) (piece (get d ''reasoning_content'') @ piece (get d ''reasoning'')) m m'"
proof -
  let ?mode = "st_mode (pg_streams s ! i)"
  obtain s1 m1 where 1: "stream_if rt (get d ''reasoning_content'') ''reasoning'' ?mode s = Ok s1" "shows_reply s1 ms m1"
    "open_reply m1" "adds [] (piece (get d ''reasoning_content'')) m m1" "only_message s s1"
    using stream_if_reasoning [OF assms(1,2,3,4), of rt] by blast
  have t1: "target_mode ?mode s1 = current_mode s1" using only_message_mode [OF 1(5)] assms(3) by simp
  obtain s2 m2 where 2: "stream_if rt (get d ''reasoning'') ''reasoning'' ?mode s1 = Ok s2" "shows_reply s2 ms m2"
    "open_reply m2" "adds [] (piece (get d ''reasoning'')) m1 m2" "only_message s1 s2"
    using stream_if_reasoning [OF 1(2,3) t1 assms(5), of rt] by blast
  have t2: "target_mode ?mode s2 = current_mode s2" using only_message_mode [OF 2(5)] t1 by simp
  obtain s3 m3 where 3: "stream_if rt (get d ''content'') ''content'' ?mode s2 = Ok s3" "shows_reply s3 ms m3"
    "open_reply m3" "adds (piece (get d ''content'')) [] m2 m3" "only_message s2 s3"
    using stream_if_content [OF 2(2,3) t2 assms(6), of rt] by blast
  have "adds (piece (get d ''content'')) (piece (get d ''reasoning_content'') @ piece (get d ''reasoning'')) m m3"
    using adds_trans [OF adds_trans [OF 1(4) 2(4)] 3(4)] by simp
  moreover have "sse_delta rt i data d s = Ok s3" using 1(1) 2(1) 3(1) by (simp add: sse_delta_def Let_def)
  moreover have "only_message s s3" using only_message_trans [OF only_message_trans [OF 1(5) 2(5)] 3(5)] .
  ultimately show ?thesis using 3 by blast
qed

text \<open>What else a message of a stream changes: the record of the stream and the debugging data.\<close>

definition fed :: "nat \<Rightarrow> string \<Rightarrow> page \<Rightarrow> page \<Rightarrow> bool" where
  "fed i data s s' \<longleftrightarrow>
     pg_streams s' = (pg_streams s)[i := (pg_streams s ! i)\<lparr>st_data := st_data (pg_streams s ! i) @ data @ [CHR 0x0A], st_first := True\<rparr>] \<and>
     sse_list (pg_debug s') = sse_list (pg_debug s) @ [data] \<and> pg_store s' = pg_store s \<and> pg_disk s' = pg_disk s \<and>
     pg_mode s' = pg_mode s \<and> pg_inputs s' = pg_inputs s"

lemma sse_chunk_shown:
  assumes s: "shows_reply s ms m" "open_reply m" "target_mode (st_mode (pg_streams s ! i)) s = current_mode s"
    and i: "i < length (pg_streams s)" and c: "chunk_ok data"
  shows "\<exists>s' m'. pg_step rt (Sse_Message i data) s = Ok s' \<and> shows_reply s' ms m' \<and> open_reply m' \<and>
    adds (content_of data) (reasoning_of data) m m' \<and> fed i data s s'"
proof -
  obtain p where p: "json_parse data = Ok p" "\<not> nullish p" "data \<noteq> ''[DONE]''"
    using c by (auto simp: chunk_ok_def split: res.splits)
  let ?d = "get (index0 (get p ''choices'')) ''delta''" and ?st = "pg_streams s ! i"
  define s1 where "s1 = update_stream i (\<lambda>x. x\<lparr>st_data := st_data x @ data @ [CHR 0x0A], st_first := True\<rparr>) s"
  define s2 where "s2 = set_debug (\<lambda>d. d\<lparr>dbg_sse := Some (sse_list d @ [data])\<rparr>) (if st_first ?st then pg_tab s else ''response'') s1"
  have d: "?d = delta_of data" using p by (simp add: delta_of_def)
  have "shows_reply s2 ms m" using s(1) by (auto simp: s2_def s1_def set_debug_def update_stream_def shows_reply_def)
  moreover have "target_mode (st_mode (pg_streams s2 ! i)) s2 = current_mode s2"
    using s(3) i by (auto simp: s2_def s1_def set_debug_def update_stream_def target_mode_def current_mode_def split: if_splits)
  ultimately obtain s' m' where s': "sse_delta rt i data ?d s2 = Ok s'" "shows_reply s' ms m'" "open_reply m'" "only_message s2 s'"
    "adds (piece (get ?d ''content'')) (piece (get ?d ''reasoning_content'') @ piece (get ?d ''reasoning'')) m m'"
    using sse_delta_shown [of s2 ms m i ?d rt data] s(2) c d by (auto simp: chunk_ok_def)
  have "pg_step rt (Sse_Message i data) s = Ok s'"
    using p s'(1) i by (simp add: on_stream_def sse_message_def sse_data_def Let_def field_of_def s2_def s1_def)
  moreover have "fed i data s s2"
    by (simp add: fed_def s2_def s1_def set_debug_def update_stream_def sse_list_def)
  then have "fed i data s s'" using s'(4) by (auto elim!: only_messageE simp: fed_def)
  ultimately show ?thesis using s' d by (auto simp: content_of_def reasoning_of_def)
qed

lemma fed_mode:
  assumes "fed i data s s'" "i < length (pg_streams s)"
  shows "i < length (pg_streams s')" "st_mode (pg_streams s' ! i) = st_mode (pg_streams s ! i)"
    "target_mode mode s' = target_mode mode s" "current_mode s' = current_mode s"
    "st_data (pg_streams s' ! i) = st_data (pg_streams s ! i) @ data @ [CHR 0x0A]"
  using assms by (auto simp: fed_def target_mode_def current_mode_def)

lemma sse_chunks_shown:
  assumes "shows_reply s ms m" "open_reply m" "target_mode (st_mode (pg_streams s ! i)) s = current_mode s"
    and "i < length (pg_streams s)" and "\<And>x. x \<in> set xs \<Longrightarrow> chunk_ok (snd x)"
  shows "\<exists>s' m'. run_pg (map (\<lambda>(rt, d). (rt, Sse_Message i d)) xs) s = Ok s' \<and> shows_reply s' ms m' \<and> open_reply m' \<and>
    adds (concat (map (\<lambda>x. content_of (snd x)) xs)) (concat (map (\<lambda>x. reasoning_of (snd x)) xs)) m m' \<and>
    target_mode (st_mode (pg_streams s' ! i)) s' = current_mode s' \<and> i < length (pg_streams s') \<and>
    st_data (pg_streams s' ! i) = st_data (pg_streams s ! i) @ concat (map (\<lambda>x. snd x @ [CHR 0x0A]) xs) \<and>
    sse_list (pg_debug s') = sse_list (pg_debug s) @ map snd xs \<and> pg_store s' = pg_store s \<and> pg_disk s' = pg_disk s"
  using assms
proof (induction xs arbitrary: s m)
  case Nil
  then show ?case by auto
next
  case (Cons x xs)
  obtain rt d where x: "x = (rt, d)" by force
  obtain s1 m1 where 1: "pg_step rt (Sse_Message i d) s = Ok s1" "shows_reply s1 ms m1" "open_reply m1"
    "adds (content_of d) (reasoning_of d) m m1" "fed i d s s1"
    using sse_chunk_shown [OF Cons.prems(1-4), of d rt] Cons.prems(5) [of x] x by auto
  note f = fed_mode [OF 1(5) Cons.prems(4)]
  obtain s' m' where 2: "run_pg (map (\<lambda>(rt, d). (rt, Sse_Message i d)) xs) s1 = Ok s'" "shows_reply s' ms m'" "open_reply m'"
    "adds (concat (map (\<lambda>x. content_of (snd x)) xs)) (concat (map (\<lambda>x. reasoning_of (snd x)) xs)) m1 m'"
    "target_mode (st_mode (pg_streams s' ! i)) s' = current_mode s'" "i < length (pg_streams s')"
    "st_data (pg_streams s' ! i) = st_data (pg_streams s1 ! i) @ concat (map (\<lambda>x. snd x @ [CHR 0x0A]) xs)"
    "sse_list (pg_debug s') = sse_list (pg_debug s1) @ map snd xs" "pg_store s' = pg_store s1" "pg_disk s' = pg_disk s1"
    using Cons.IH [OF 1(2,3)] Cons.prems(3,5) f by fastforce
  have "sse_list (pg_debug s1) = sse_list (pg_debug s) @ [d]" "pg_store s1 = pg_store s" "pg_disk s1 = pg_disk s"
    using 1(5) by (simp_all add: fed_def)
  then show ?case
    using 1(1) 2 adds_trans [OF 1(4) 2(4)] f(5) x by (intro exI [of _ s'] exI [of _ m']) (simp del: pg_step.simps)
qed

definition closed_reply :: "string \<Rightarrow> jsval \<Rightarrow> jsval" where
  "closed_reply st m = with_fields ((''status'', Str st) # applyAutoCollapseLogic m (Bool True)) m"

lemma completed_reply:
  assumes "is_obj m"
  shows "is_obj (closed_reply st m)" "adds [] [] m (closed_reply st m)" "get (closed_reply st m) ''status'' = Str st"
  using assms by (auto simp: closed_reply_def adds_def text_at_def same_head_def get_collapsed)

lemma open_reply_obj: "open_reply m \<Longrightarrow> is_obj m"
  by (simp add: open_reply_def)

lemma not_finished: "open_reply m \<Longrightarrow> \<not> finished m \<and> \<not> nullish m"
  by (auto simp: open_reply_def generating_def finished_def is_status_def nullish_def is_obj_def)

lemma sse_done_shown:
  assumes s: "shows_reply s ms m" "open_reply m" "target_mode (st_mode (pg_streams s ! i)) s = current_mode s"
    and i: "i < length (pg_streams s)"
  shows "\<exists>s' m'. pg_step rt (Sse_Message i ''[DONE]'') s = Ok s' \<and> shows_reply s' ms m' \<and>
    adds [] [] m m' \<and> get m' ''status'' = Str ''complete'' \<and> dbg_response (pg_debug s') = Str (st_data (pg_streams s ! i)) \<and>
    dbg_sse (pg_debug s') = Some (sse_list (pg_debug s) @ [''[DONE]'']) \<and> \<not> dbg_streaming (pg_debug s') \<and>
    pg_store s' = pg_store s \<and> pg_disk s' = pg_disk s \<and> pg_source s' = None"
proof -
  let ?mode = "st_mode (pg_streams s ! i)"
  define s1 where "s1 = update_stream i (\<lambda>x. x\<lparr>st_complete := True\<rparr>) s"
  define s2 where "s2 = set_debug (\<lambda>d. d\<lparr>dbg_response := Str (st_data (pg_streams s ! i)), dbg_sse := Some (sse_list d @ [''[DONE]'']),
    dbg_streaming := False\<rparr>) (pg_tab s1) (s1\<lparr>pg_source := None\<rparr>)"
  note defs = s2_def s1_def set_debug_def update_stream_def
  let ?m = "closed_reply ''complete'' m"
  have "completeMessage ''complete'' (ms @ [m]) = Ok (ms @ [?m], Some (ms @ [?m]))"
    using not_finished [OF s(2)] by (simp add: completeMessage_def Let_def closed_reply_def)
  moreover have "shows_reply s2 ms m" using s(1) by (auto simp: defs shows_reply_def)
  moreover have "target_mode ?mode s2 = current_mode s2" using s(3) by (auto simp: defs target_mode_def current_mode_def)
  ultimately obtain s' where s': "setMessageForMode rt (completeMessage ''complete'') ?mode s2 = Ok s'" "shows_reply s' ms ?m" "only_message s2 s'"
    using shown_update [of s2 ms m ?mode "completeMessage ''complete''" ?m] completed_reply [OF open_reply_obj [OF s(2)], of "''complete''"]
    by (auto simp: adds_def)
  have "pg_step rt (Sse_Message i ''[DONE]'') s = Ok s'"
    using i s'(1) by (simp add: on_stream_def sse_message_def sse_done_def Let_def end_message_def s2_def s1_def)
  moreover have "pg_debug s' = pg_debug s2" "pg_store s' = pg_store s2" "pg_disk s' = pg_disk s2" "pg_source s' = pg_source s2"
    using s'(3) by (auto elim!: only_messageE)
  ultimately show ?thesis using s'(2) completed_reply [OF open_reply_obj [OF s(2)], of "''complete''"] by (auto simp: defs sse_list_def)
qed

lemma run_pg_append: "run_pg (xs @ ys) s = bind_res (run_pg xs s) (run_pg ys)"
proof (induction xs arbitrary: s)
  case (Cons x xs)
  then show ?case by (cases "pg_step (fst x) (snd x) s") simp_all
qed simp

text \<open>
  C2: a streamed reply. The shown conversation ends in an assistant message that is being
  generated, and stream \<open>i\<close> feeds it. When the stream delivers any number of well-formed deltas and
  then \<^verbatim>\<open>[DONE]\<close>, the page does not fail, the content and the thoughts of that message are extended
  by exactly the texts of the deltas, in order, its status becomes \<^verbatim>\<open>complete\<close>, all its other fields
  and all other messages and conversations are as before, and the debug panel holds the raw stream.
\<close>

theorem streamed_reply:
  assumes "pg_message s = ms @ [m]" "tidy (pg_message s)" "open_reply m" "i < length (pg_streams s)"
    and "target_mode (st_mode (pg_streams s ! i)) s = current_mode s" and "\<forall>x\<in>set xs. chunk_ok (snd x)"
  shows "\<exists>s' m'. run_pg (map (\<lambda>(rt, d). (rt, Sse_Message i d)) xs @ [(rt', Sse_Message i ''[DONE]'')]) s = Ok s' \<and>
    pg_message s' = ms @ [m'] \<and> get m' ''status'' = Str ''complete'' \<and>
    text_at ''content'' m' = text_at ''content'' m @ concat (map (\<lambda>x. content_of (snd x)) xs) \<and>
    text_at ''reasoningContent'' m' = text_at ''reasoningContent'' m @ concat (map (\<lambda>x. reasoning_of (snd x)) xs) \<and>
    same_head m m' \<and> pg_store s' = pg_store s \<and> pg_disk s' = pg_disk s \<and> pg_source s' = None \<and>
    dbg_response (pg_debug s') = Str (st_data (pg_streams s ! i) @ concat (map (\<lambda>x. snd x @ [CHR 0x0A]) xs)) \<and>
    dbg_sse (pg_debug s') = Some (sse_list (pg_debug s) @ map snd xs @ [''[DONE]'']) \<and> \<not> dbg_streaming (pg_debug s')"
proof -
  have "shows_reply s ms m" using assms(1,2) by (simp add: shows_reply_def)
  then obtain s1 m1 where 1: "run_pg (map (\<lambda>(rt, d). (rt, Sse_Message i d)) xs) s = Ok s1" "shows_reply s1 ms m1" "open_reply m1"
    "adds (concat (map (\<lambda>x. content_of (snd x)) xs)) (concat (map (\<lambda>x. reasoning_of (snd x)) xs)) m m1"
    "target_mode (st_mode (pg_streams s1 ! i)) s1 = current_mode s1" "i < length (pg_streams s1)"
    "st_data (pg_streams s1 ! i) = st_data (pg_streams s ! i) @ concat (map (\<lambda>x. snd x @ [CHR 0x0A]) xs)"
    "sse_list (pg_debug s1) = sse_list (pg_debug s) @ map snd xs" "pg_store s1 = pg_store s" "pg_disk s1 = pg_disk s"
    using sse_chunks_shown [of s ms m i xs] assms(3-6) by blast
  obtain s2 m2 where 2: "pg_step rt' (Sse_Message i ''[DONE]'') s1 = Ok s2" "shows_reply s2 ms m2" "adds [] [] m1 m2"
    "get m2 ''status'' = Str ''complete''" "dbg_response (pg_debug s2) = Str (st_data (pg_streams s1 ! i))"
    "dbg_sse (pg_debug s2) = Some (sse_list (pg_debug s1) @ [''[DONE]''])" "\<not> dbg_streaming (pg_debug s2)"
    "pg_store s2 = pg_store s1" "pg_disk s2 = pg_disk s1" "pg_source s2 = None"
    using sse_done_shown [OF 1(2,3,5,6), of rt'] by blast
  show ?thesis
    using 1 2 adds_trans [OF 1(4) 2(3)]
    by (intro exI [of _ s2] exI [of _ m2]) (simp add: run_pg_append adds_def shows_reply_def del: pg_step.simps)
qed

end
