(* ===== verification/Playground_Events.thy ===== *)
theory Playground_Events
  imports Playground_Stream
begin

text \<open>
  Laws of the page under all events of a stream, in whatever conversation the request was made: what
  they leave alone, how a stream ends, what happens when the conversation is gone, and that finished
  messages stay. At the end, the second polling loop of a video task and the sample pages of the
  witnesses.
\<close>

section \<open>Conversations\<close>

text \<open>The conversation of a mode, shown or not.\<close>

definition conv :: "string \<Rightarrow> page \<Rightarrow> jsval list" where
  "conv mode s = (if mode = current_mode s then pg_message s else store_get mode s)"

definition stream_conv :: "nat \<Rightarrow> page \<Rightarrow> string" where
  "stream_conv i s = target_mode (st_mode (pg_streams s ! i)) s"

text \<open>Two pages that differ in one conversation at most, and there in the last message.\<close>

definition isolated :: "string \<Rightarrow> page \<Rightarrow> page \<Rightarrow> bool" where
  "isolated mode s s' \<longleftrightarrow>
     (\<forall>md. md \<noteq> mode \<longrightarrow> conv md s' = conv md s) \<and> butlast (conv mode s') = butlast (conv mode s) \<and>
     length (conv mode s') = length (conv mode s) \<and> tidy (pg_message s') \<and>
     pg_mode s' = pg_mode s \<and> pg_inputs s' = pg_inputs s \<and> map st_mode (pg_streams s') = map st_mode (pg_streams s)"

lemma isolated_refl: "tidy (pg_message s) \<Longrightarrow> isolated mode s s"
  by (simp add: isolated_def)

lemma isolated_trans: "isolated mode s s' \<Longrightarrow> isolated mode s' s'' \<Longrightarrow> isolated mode s s''"
  by (auto simp: isolated_def)

lemma same_modes:
  "pg_mode s' = pg_mode s \<Longrightarrow> pg_inputs s' = pg_inputs s \<Longrightarrow> target_mode mode s' = target_mode mode s"
  "pg_mode s' = pg_mode s \<Longrightarrow> pg_inputs s' = pg_inputs s \<Longrightarrow> current_mode s' = current_mode s"
  by (simp_all add: target_mode_def current_mode_def)

lemma isolated_modes:
  "isolated m s s' \<Longrightarrow> target_mode mode s' = target_mode mode s" "isolated m s s' \<Longrightarrow> tidy (pg_message s')"
  by (auto simp: isolated_def intro: same_modes)

text \<open>Steps beside the conversations.\<close>

definition beside :: "page \<Rightarrow> page \<Rightarrow> bool" where
  "beside s s' \<longleftrightarrow> pg_message s' = pg_message s \<and> pg_store s' = pg_store s \<and> pg_mode s' = pg_mode s \<and>
     pg_inputs s' = pg_inputs s \<and> pg_pending s' = pg_pending s \<and> map st_mode (pg_streams s') = map st_mode (pg_streams s)"

lemma besideI [intro, simp]:
  "beside s s" "beside s (set_debug f tab s)" "beside s (s\<lparr>pg_source := src\<rparr>)"
  by (simp_all add: beside_def set_debug_def)

lemma beside_trans: "beside s s' \<Longrightarrow> beside s' s'' \<Longrightarrow> beside s s''"
  by (simp add: beside_def)

lemma beside_stream: "(\<And>x. st_mode (f x) = st_mode x) \<Longrightarrow> beside s (update_stream i f s)"
  by (cases "i < length (pg_streams s)") (auto simp: beside_def update_stream_def map_update list_update_same_conv list_update_beyond)

lemma beside_conv: "beside s s' \<Longrightarrow> conv mode s' = conv mode s"
  by (simp add: beside_def conv_def store_get_def current_mode_def)

lemma beside_target: "beside s s' \<Longrightarrow> target_mode mode s' = target_mode mode s"
  by (simp add: beside_def target_mode_def current_mode_def)

lemma beside_isolated: "beside s s' \<Longrightarrow> isolated mode s' s'' \<Longrightarrow> isolated mode s s''"
  unfolding isolated_def by (auto simp: beside_conv) (auto simp: beside_def)

lemma isolated_beside: "isolated mode s s' \<Longrightarrow> beside s' s'' \<Longrightarrow> isolated mode s s''"
  unfolding isolated_def by (auto simp: beside_conv) (auto simp: beside_def)

section \<open>Updates of the last message\<close>

locale tail_update =
  fixes upd :: updater
  assumes tail: "upd ms = Ok (ms', sv) \<Longrightarrow> butlast ms' = butlast ms \<and> length ms' = length ms"
    and keeps_tidy: "upd ms = Ok (ms', sv) \<Longrightarrow> tidy ms \<Longrightarrow> tidy ms'"
begin

lemma tail_isolated:
  assumes "setMessageForMode rt upd mode s = Ok s'" "tidy (pg_message s)"
  shows "isolated (target_mode mode s) s s'"
proof (cases "target_mode mode s = current_mode s")
  case True
  then obtain ms sv where u: "upd (pg_message s) = Ok (ms, sv)"
    and s': "s' = defer_save sv mode (s\<lparr>pg_message := ensureUniqueMessageIds (now_text rt) ms, pg_changed := True\<rparr>)"
    using assms(1) by (auto simp: setMessageForMode_def setMessage_def bind_res_Ok_iff)
  have "tidy ms" using keeps_tidy [OF u assms(2)] .
  then have "pg_message s' = ms" "pg_store s' = pg_store s" "pg_mode s' = pg_mode s" "pg_inputs s' = pg_inputs s"
    "pg_streams s' = pg_streams s"
    using s' by (auto simp: defer_save_def ensure_tidy split: option.splits)
  then show ?thesis using True tail [OF u] \<open>tidy ms\<close> by (auto simp: isolated_def conv_def store_get_def current_mode_def)
next
  case False
  let ?t = "target_mode mode s"
  obtain ms sv where u: "upd (store_get ?t s) = Ok (ms, sv)"
    and s': "s' = defer_save sv mode (persistModeMessages (store_put ?t ms s))"
    using False assms(1) by (auto simp: setMessageForMode_def bind_res_Ok_iff)
  have "pg_message s' = pg_message s" "pg_store s' = set_prop ?t ms (pg_store s)" "pg_mode s' = pg_mode s" "pg_inputs s' = pg_inputs s"
    "pg_streams s' = pg_streams s"
    using s' by (auto simp: defer_save_def persistModeMessages_def store_put_def split: option.splits)
  then show ?thesis using False tail [OF u] assms(2) by (auto simp: isolated_def conv_def store_get_def current_mode_def)
qed

end

lemma tidy_set_last:
  assumes "tidy ms" "ms \<noteq> []" "is_obj m'" "get m' ''id'' = get (last ms) ''id''"
  shows "tidy (set_last m' ms)"
proof -
  obtain xs m where "ms = xs @ [m]" using assms(2) by (cases ms rule: rev_cases) auto
  then show ?thesis using assms by (simp add: tidy_def set_last_def)
qed

lemma tidy_last_obj: "tidy ms \<Longrightarrow> ms \<noteq> [] \<Longrightarrow> is_obj (last ms)"
  by (cases ms rule: rev_cases) (auto simp: tidy_def)

lemma set_last_tail: "ms \<noteq> [] \<Longrightarrow> butlast (set_last m' ms) = butlast ms \<and> length (set_last m' ms) = length ms"
  by (simp add: set_last_def)

lemma stream_content_id:
  "stream_content c m = Ok m' \<Longrightarrow> is_obj m \<Longrightarrow> is_obj m' \<and> get m' ''id'' = get m ''id''"
  by (auto simp: stream_content_def Let_def get_collapsed split: if_splits jsval.splits)

lemma stream_update_cases:
  assumes "streamMessageUpdate c ty ms = Ok ms'"
  shows "ms' = ms \<or> (ms \<noteq> [] \<and> (ms' = set_last (stream_reasoning c (last ms)) ms \<or>
    (\<exists>m'. stream_content c (last ms) = Ok m' \<and> ms' = set_last m' ms)))"
  using assms by (auto simp: streamMessageUpdate_def Let_def bind_res_Ok_iff last_msg_def truthy_def split: if_splits)

interpretation stream_tail: tail_update "\<lambda>ms. bind_res (streamMessageUpdate c ty ms) (\<lambda>ms'. Ok (ms', None))"
proof unfold_locales
  show "butlast ms' = butlast ms \<and> length ms' = length ms"
    if "bind_res (streamMessageUpdate c ty ms) (\<lambda>ms'. Ok (ms', None)) = Ok (ms', sv)" for ms ms' sv
    using that stream_update_cases [of c ty ms ms'] set_last_tail by (auto simp: bind_res_Ok_iff)
  show "tidy ms'" if u: "bind_res (streamMessageUpdate c ty ms) (\<lambda>ms'. Ok (ms', None)) = Ok (ms', sv)" and t: "tidy ms" for ms ms' sv
  proof -
    have "streamMessageUpdate c ty ms = Ok ms'" using u by (auto simp: bind_res_Ok_iff)
    from stream_update_cases [OF this] show ?thesis
      using t tidy_last_obj [OF t] stream_content_id [of c "last ms"]
      by (auto simp: stream_reasoning_def intro!: tidy_set_last)
  qed
qed

lemma complete_cases:
  assumes "completeMessage st ms = Ok (ms', sv)"
  shows "ms \<noteq> [] \<and> (finished (last ms) \<and> ms' = ms \<and> sv = None \<or> \<not> finished (last ms) \<and> ms' = set_last (closed_reply st (last ms)) ms)"
  using assms by (auto simp: completeMessage_def Let_def last_msg_def nullish_def closed_reply_def split: if_splits)

interpretation complete_tail: tail_update "completeMessage st"
proof unfold_locales
  show "butlast ms' = butlast ms \<and> length ms' = length ms" if "completeMessage st ms = Ok (ms', sv)" for ms ms' sv
    using complete_cases [OF that] set_last_tail by auto
  show "tidy ms'" if u: "completeMessage st ms = Ok (ms', sv)" and t: "tidy ms" for ms ms' sv
  proof (cases "finished (last ms)")
    case False
    then have ms: "ms \<noteq> []" "ms' = set_last (closed_reply st (last ms)) ms" using complete_cases [OF u] by auto
    then have "is_obj (last ms)" using t tidy_last_obj by blast
    note c = completed_reply [OF this, of st]
    show ?thesis unfolding ms(2) using t ms(1) c(1) c(2) by (intro tidy_set_last) (auto simp: adds_def same_head_def)
  qed (use complete_cases [OF u] t in auto)
qed

section \<open>Events of streams\<close>

lemma stream_text_isolated:
  "stream_text rt c ty mode s = Ok s' \<Longrightarrow> tidy (pg_message s) \<Longrightarrow> isolated (target_mode mode s) s s'"
  unfolding stream_text_def by (rule stream_tail.tail_isolated)

lemma end_message_isolated:
  "end_message rt st mode s = Ok s' \<Longrightarrow> tidy (pg_message s) \<Longrightarrow> isolated (target_mode mode s) s s'"
  unfolding end_message_def by (rule complete_tail.tail_isolated)

lemma fail_message_isolated:
  assumes "fail_message rt tx mode s = Ok s'" "tidy (pg_message s)"
  shows "isolated (target_mode mode s) s s'"
proof -
  obtain s1 where 1: "stream_text rt (Str tx) ''content'' mode s = Ok s1" "end_message rt ''error'' mode s1 = Ok s'"
    using assms(1) by (auto simp: fail_message_def bind_res_Ok_iff)
  note i = stream_text_isolated [OF 1(1) assms(2)]
  then show ?thesis using end_message_isolated [OF 1(2)] isolated_modes [OF i] isolated_trans by metis
qed

lemma stream_if_isolated:
  "stream_if rt v ty mode s = Ok s' \<Longrightarrow> tidy (pg_message s) \<Longrightarrow> isolated (target_mode mode s) s s'"
  by (auto simp: stream_if_def isolated_refl intro: stream_text_isolated split: if_splits)

text \<open>A step that prepares the page beside the conversations first.\<close>

lemma prepared:
  assumes "beside s s1" "tidy (pg_message s)"
    and "tidy (pg_message s1) \<Longrightarrow> isolated (target_mode mode s1) s1 s'"
  shows "isolated (target_mode mode s) s s'"
  using assms beside_isolated [OF assms(1), of "target_mode mode s" s'] beside_target [OF assms(1)] by (simp add: beside_def)

lemma beside_streams: "beside s s' \<Longrightarrow> st_mode (pg_streams s' ! i) = st_mode (pg_streams s ! i) \<or> length (pg_streams s) \<le> i"
  unfolding beside_def by (metis length_map linorder_not_le nth_map)

lemma beside_length: "beside s s' \<Longrightarrow> length (pg_streams s') = length (pg_streams s)"
  unfolding beside_def by (metis length_map)

lemma failed_isolated:
  assumes "fail_message rt tx mode (set_debug f tab s) = Ok s'" "tidy (pg_message s)"
  shows "isolated (target_mode mode s) s s'"
  using prepared [OF besideI(2) [of s f tab] assms(2), of mode s'] fail_message_isolated [OF assms(1)] by blast

lemma sse_bad_isolated:
  assumes "sse_bad rt i data e s = Ok s'" "tidy (pg_message s)"
  shows "isolated (stream_conv i s) s s'"
  using assms unfolding sse_bad_def Let_def stream_conv_def by (rule failed_isolated)

lemma sse_done_prepares:
  "\<exists>s1. beside s s1 \<and> sse_done rt i s = end_message rt ''complete'' (st_mode (pg_streams s ! i)) s1"
  unfolding sse_done_def Let_def
  by (rule exI, rule conjI [rotated], rule refl, rule beside_trans [OF beside_stream beside_trans [OF besideI(3) besideI(2)]]) simp

lemma sse_done_isolated:
  assumes "sse_done rt i s = Ok s'" "tidy (pg_message s)"
  shows "isolated (stream_conv i s) s s'"
proof -
  obtain s1 where 1: "beside s s1" "end_message rt ''complete'' (st_mode (pg_streams s ! i)) s1 = Ok s'"
    using sse_done_prepares [of s rt i] assms(1) by auto
  show ?thesis unfolding stream_conv_def using prepared [OF 1(1) assms(2)] end_message_isolated [OF 1(2)] by blast
qed

lemma sse_delta_isolated:
  assumes "sse_delta rt i data d s = Ok s'" "tidy (pg_message s)" "i < length (pg_streams s)"
  shows "isolated (stream_conv i s) s s'"
proof -
  let ?mode = "st_mode (pg_streams s ! i)"
  obtain s1 s2 where 1: "stream_if rt (get d ''reasoning_content'') ''reasoning'' ?mode s = Ok s1"
    and 2: "stream_if rt (get d ''reasoning'') ''reasoning'' ?mode s1 = Ok s2"
    and 3: "stream_if rt (get d ''content'') ''content'' ?mode s2 = Ok s' \<or> (\<exists>e. sse_bad rt i data e s2 = Ok s')"
    using assms(1) unfolding sse_delta_def Let_def bind_res_Ok_iff by (fastforce split: res.split_asm if_split_asm)
  note i1 = stream_if_isolated [OF 1 assms(2)]
  note i2 = isolated_trans [OF i1 stream_if_isolated [OF 2 isolated_modes(2) [OF i1], unfolded isolated_modes(1) [OF i1]]]
  have "st_mode (pg_streams s2 ! i) = ?mode" using i2 assms(3) unfolding isolated_def by (metis length_map nth_map)
  then have "stream_conv i s2 = target_mode ?mode s" using isolated_modes(1) [OF i2] by (simp add: stream_conv_def)
  then have "isolated (target_mode ?mode s) s2 s'"
    using 3 stream_if_isolated [of rt _ _ ?mode s2 s'] sse_bad_isolated [of rt i data _ s2 s'] isolated_modes [OF i2] by auto
  then show ?thesis using isolated_trans [OF i2] by (simp add: stream_conv_def)
qed

lemma sse_data_prepared:
  assumes "json_parse data = Ok p" "i < length (pg_streams s)"
  obtains s1 where "beside s s1" "i < length (pg_streams s1)" "stream_conv i s1 = stream_conv i s"
    "st_mode (pg_streams s1 ! i) = st_mode (pg_streams s ! i)"
    "sse_data rt i data s = (case field_of p ''choices'' of
       Throw e \<Rightarrow> sse_bad rt i data e s1 | Ok choices \<Rightarrow> sse_delta rt i data (get (index0 choices) ''delta'') s1)"
proof -
  define s1 where "s1 = set_debug (\<lambda>d. d\<lparr>dbg_sse := Some (sse_list d @ [data])\<rparr>) (if st_first (pg_streams s ! i) then pg_tab s else ''response'')
    (update_stream i (\<lambda>x. x\<lparr>st_data := st_data x @ data @ [CHR 0x0A], st_first := True\<rparr>) s)"
  have b: "beside s s1" unfolding s1_def by (rule beside_trans [OF beside_stream besideI(2)]) simp
  have "st_mode (pg_streams s1 ! i) = st_mode (pg_streams s ! i)" using beside_streams [OF b, of i] assms(2) by auto
  moreover from this have "stream_conv i s1 = stream_conv i s" using beside_target [OF b] by (simp add: stream_conv_def)
  moreover have "sse_data rt i data s = (case field_of p ''choices'' of
      Throw e \<Rightarrow> sse_bad rt i data e s1 | Ok choices \<Rightarrow> sse_delta rt i data (get (index0 choices) ''delta'') s1)"
    unfolding sse_data_def Let_def s1_def using assms(1) by simp
  ultimately show ?thesis using that b beside_length [OF b] assms(2) by simp
qed

lemma sse_data_isolated:
  assumes "sse_data rt i data s = Ok s'" "tidy (pg_message s)" "i < length (pg_streams s)"
  shows "isolated (stream_conv i s) s s'"
proof (cases "json_parse data")
  case (Ok p)
  obtain s1 where 1: "beside s s1" "i < length (pg_streams s1)" "stream_conv i s1 = stream_conv i s"
    "sse_data rt i data s = (case field_of p ''choices'' of
       Throw e \<Rightarrow> sse_bad rt i data e s1 | Ok choices \<Rightarrow> sse_delta rt i data (get (index0 choices) ''delta'') s1)"
    using sse_data_prepared [OF Ok assms(3), of rt] by metis
  have "tidy (pg_message s1)" using 1(1) assms(2) by (simp add: beside_def)
  moreover have "(\<exists>e. sse_bad rt i data e s1 = Ok s') \<or> (\<exists>d. sse_delta rt i data d s1 = Ok s')"
    using assms(1) 1(4) by (auto split: res.splits)
  ultimately have "isolated (stream_conv i s1) s1 s'" using 1(2) sse_bad_isolated sse_delta_isolated by blast
  then show ?thesis using beside_isolated [OF 1(1)] 1(3) by simp
next
  case (Throw e)
  then show ?thesis using assms sse_bad_isolated by (simp add: sse_data_def)
qed

lemma sse_error_isolated:
  assumes "sse_error rt i data rs s = Ok s'" "tidy (pg_message s)"
  shows "isolated (stream_conv i s) s s'"
proof (cases "\<not> st_complete (pg_streams s ! i) \<and> rs \<noteq> 2")
  case True
  then obtain tx f s2 where 2: "fail_message rt tx (st_mode (pg_streams s ! i)) (set_debug f ''response'' s) = Ok s2" "s' = s2\<lparr>pg_source := None\<rparr>"
    using assms(1) by (auto simp: sse_error_def Let_def bind_res_Ok_iff)
  have "isolated (target_mode (st_mode (pg_streams s ! i)) s) s s2"
    using 2(1) assms(2) by (rule failed_isolated)
  then show ?thesis unfolding stream_conv_def 2(2) by (rule isolated_beside) simp
next
  case False
  then have "s' = s" using assms(1) by (auto simp: sse_error_def Let_def)
  then show ?thesis using assms(2) isolated_refl by simp
qed

lemma sse_ready_isolated:
  assumes "sse_ready rt i rs code s = Ok s'" "tidy (pg_message s)"
  shows "isolated (stream_conv i s) s s'"
proof (cases "s' = s")
  case True
  then show ?thesis using assms(2) isolated_refl by simp
next
  case False
  then obtain tx f where "fail_message rt tx (st_mode (pg_streams s ! i)) (set_debug f ''response'' s) = Ok s'"
    using assms(1) by (auto simp: sse_ready_def Let_def split: option.splits if_splits)
  then show ?thesis unfolding stream_conv_def using assms(2) by (rule failed_isolated)
qed

text \<open>The stream an event belongs to.\<close>

definition stream_of :: "pg_event \<Rightarrow> nat option" where
  "stream_of ev =
     (case ev of Sse_Message i _ \<Rightarrow> Some i | Sse_Error i _ _ \<Rightarrow> Some i | Sse_Ready i _ _ \<Rightarrow> Some i | _ \<Rightarrow> None)"

text \<open>
  C6: whatever a stream delivers (deltas, \<^verbatim>\<open>[DONE]\<close>, text that is no JSON, errors, HTTP failures), the
  page changes at most the last message of the conversation the request was made in. The other
  conversations, the other messages and the number of messages stay as they are, also when the user
  has switched to another mode in the meantime.
\<close>

theorem stream_isolated:
  assumes "stream_of ev = Some i" "pg_step rt ev s = Ok s'" "tidy (pg_message s)"
  shows "(\<forall>md. md \<noteq> stream_conv i s \<longrightarrow> conv md s' = conv md s) \<and>
    butlast (conv (stream_conv i s) s') = butlast (conv (stream_conv i s) s) \<and>
    length (conv (stream_conv i s) s') = length (conv (stream_conv i s) s)"
proof -
  have "isolated (stream_conv i s) s s'"
    using assms sse_data_isolated sse_done_isolated sse_error_isolated sse_ready_isolated
    by (cases ev) (auto simp: stream_of_def on_stream_def sse_message_def isolated_refl split: if_splits)
  then show ?thesis by (simp add: isolated_def)
qed

section \<open>The end of a stream\<close>

lemma finished_obj: "finished m \<Longrightarrow> is_obj m"
proof -
  have "\<not> is_index_key ''status''" by (simp add: is_index_key_def all_digits_def is_digit_def)
  then show "finished m \<Longrightarrow> is_obj m"
    by (auto simp: finished_def is_status_def is_obj_def get_def split: jsval.splits)
qed

lemma ensure_last:
  assumes "ms \<noteq> []"
  shows "\<exists>i. last_msg (ensureUniqueMessageIds now ms) = with_field ''id'' (Str i) (last_msg ms)"
proof -
  have "unique_from now index seen ms \<noteq> [] \<and> (\<exists>i. last (unique_from now index seen ms) = with_field ''id'' (Str i) (last ms))" for index seen
    using assms by (induction ms arbitrary: index seen) (auto simp: Let_def)
  then show ?thesis using assms by (auto simp: last_msg_def ensureUniqueMessageIds_def)
qed

lemma ensure_nil [simp]: "ensureUniqueMessageIds now [] = []"
  by (simp add: ensureUniqueMessageIds_def)

lemma ensure_last_finished:
  assumes "finished (last_msg ms)" shows "finished (last_msg (ensureUniqueMessageIds now ms))"
proof (cases "ms = []")
  case True
  then show ?thesis using assms by simp
next
  case False
  then obtain i where "last_msg (ensureUniqueMessageIds now ms) = with_field ''id'' (Str i) (last_msg ms)" using ensure_last by blast
  then show ?thesis using assms finished_obj [OF assms] by (simp add: finished_def is_status_def)
qed

lemma ensure_last_alive:
  "\<not> nullish (last_msg ms) \<Longrightarrow> \<not> nullish (last_msg (ensureUniqueMessageIds now ms))"
proof (cases "ms = []")
  case False
  then show ?thesis using ensure_last [of ms now] by (auto simp: nullish_def with_field_def)
qed simp

definition kept_conv :: "runtime \<Rightarrow> string \<Rightarrow> page \<Rightarrow> jsval list \<Rightarrow> jsval list" where
  "kept_conv rt mode s ms = (if mode = current_mode s then ensureUniqueMessageIds (now_text rt) ms else ms)"

lemma kept_conv_last:
  "finished (last_msg ms) \<Longrightarrow> finished (last_msg (kept_conv rt mode s ms))"
  "\<not> nullish (last_msg ms) \<Longrightarrow> \<not> nullish (last_msg (kept_conv rt mode s ms))"
  "kept_conv rt mode s [] = []"
  by (simp_all add: kept_conv_def ensure_last_finished ensure_last_alive)

lemma set_conv:
  assumes "upd (conv (target_mode mode s) s) = Ok (ms, sv)"
  shows "\<exists>s'. setMessageForMode rt upd mode s = Ok s' \<and> conv (target_mode mode s) s' = kept_conv rt (target_mode mode s) s ms \<and>
    pg_mode s' = pg_mode s \<and> pg_inputs s' = pg_inputs s"
proof (cases "target_mode mode s = current_mode s")
  case True
  let ?s = "defer_save sv mode (s\<lparr>pg_message := ensureUniqueMessageIds (now_text rt) ms, pg_changed := True\<rparr>)"
  have "setMessageForMode rt upd mode s = Ok ?s" using assms True by (simp add: setMessageForMode_def setMessage_def conv_def)
  moreover have "pg_message ?s = ensureUniqueMessageIds (now_text rt) ms" "pg_mode ?s = pg_mode s" "pg_inputs ?s = pg_inputs s"
    by (simp_all add: defer_save_def split: option.splits)
  ultimately show ?thesis using True by (auto simp: conv_def kept_conv_def current_mode_def)
next
  case False
  let ?s = "defer_save sv mode (persistModeMessages (store_put (target_mode mode s) ms s))"
  have "setMessageForMode rt upd mode s = Ok ?s" using assms False by (simp add: setMessageForMode_def conv_def)
  moreover have "pg_store ?s = set_prop (target_mode mode s) ms (pg_store s)" "pg_mode ?s = pg_mode s" "pg_inputs ?s = pg_inputs s"
    by (simp_all add: defer_save_def persistModeMessages_def store_put_def split: option.splits)
  ultimately show ?thesis using False by (auto simp: conv_def kept_conv_def current_mode_def store_get_def)
qed

lemma stream_text_conv:
  assumes "streamMessageUpdate c ty (conv (target_mode mode s) s) = Ok ms"
  shows "\<exists>s'. stream_text rt c ty mode s = Ok s' \<and> conv (target_mode mode s) s' = kept_conv rt (target_mode mode s) s ms \<and>
    pg_mode s' = pg_mode s \<and> pg_inputs s' = pg_inputs s"
  unfolding stream_text_def using assms by (intro set_conv [where sv = None]) simp

lemma set_conv_Throw:
  "upd (conv (target_mode mode s) s) = Throw e \<Longrightarrow> setMessageForMode rt upd mode s = Throw e"
  by (simp add: setMessageForMode_def setMessage_def conv_def split: if_splits)

lemma complete_finishes:
  assumes "\<not> nullish (last_msg ms)" "st = ''complete'' \<or> st = ''error''"
  shows "\<exists>ms' sv. completeMessage st ms = Ok (ms', sv) \<and> finished (last_msg ms')"
proof (cases "finished (last_msg ms)")
  case False
  have "get (with_fields (applyAutoCollapseLogic x v) (with_field ''status'' (Str st) m)) ''status'' = Str st" for x v m
    by (simp add: get_collapsed)
  then show ?thesis
    using False assms by (auto simp: completeMessage_def Let_def finished_def is_status_def last_msg_def set_last_def)
qed (use assms in \<open>simp add: completeMessage_def Let_def\<close>)

lemma end_message_finishes:
  assumes "\<not> nullish (last_msg (conv (target_mode mode s) s))" "st = ''complete'' \<or> st = ''error''"
  shows "\<exists>s'. end_message rt st mode s = Ok s' \<and> finished (last_msg (conv (target_mode mode s) s'))"
proof -
  obtain ms sv where c: "completeMessage st (conv (target_mode mode s) s) = Ok (ms, sv)" "finished (last_msg ms)"
    using complete_finishes [OF assms] by blast
  from set_conv [where upd = "completeMessage st", OF c(1), of rt] show ?thesis
    using kept_conv_last(1) [OF c(2)] by (auto simp: end_message_def)
qed

lemma with_fields_obj: "is_obj (with_fields (x # xs) m)"
  by (cases x) simp

lemma obj_alive: "is_obj m \<Longrightarrow> \<not> nullish m"
  by (auto simp: is_obj_def nullish_def)

lemma stream_content_obj: "\<exists>m'. stream_content (Str c) m = Ok m' \<and> is_obj m'"
proof -
  obtain s where "js_plus (js_or (get m ''content'') (Str [])) (Str c) = Str s" by (simp add: js_plus_def stringy_def)
  then show ?thesis using with_fields_obj by (simp add: stream_content_def Let_def del: with_fields_simps)
qed

lemma stream_text_Ok:
  "\<exists>ms'. streamMessageUpdate (Str c) ''content'' ms = Ok ms' \<and> (nullish (last_msg ms') \<longleftrightarrow> nullish (last_msg ms)) \<and> (ms = [] \<longrightarrow> ms' = [])"
proof -
  obtain m' where m': "stream_content (Str c) (last_msg ms) = Ok m'" "is_obj m'" using stream_content_obj by blast
  show ?thesis
  proof (cases "truthy (last_msg ms)")
    case True
    then have "ms \<noteq> []" "\<not> nullish (last_msg ms)" by (auto simp: last_msg_def truthy_def nullish_def)
    moreover have "last_msg (set_last m' ms) = m'" by (simp add: last_msg_def set_last_def)
    ultimately show ?thesis using m' obj_alive by (auto simp: streamMessageUpdate_def Let_def)
  qed (simp add: streamMessageUpdate_def Let_def)
qed

lemma fail_message_finishes:
  assumes "\<not> nullish (last_msg (conv (target_mode mode s) s))"
  shows "\<exists>s'. fail_message rt tx mode s = Ok s' \<and> finished (last_msg (conv (target_mode mode s) s'))"
proof -
  obtain ms where ms: "streamMessageUpdate (Str tx) ''content'' (conv (target_mode mode s) s) = Ok ms" "\<not> nullish (last_msg ms)"
    using stream_text_Ok [of tx "conv (target_mode mode s) s"] assms by auto
  obtain s1 where 1: "stream_text rt (Str tx) ''content'' mode s = Ok s1" "\<not> nullish (last_msg (conv (target_mode mode s) s1))"
    "pg_mode s1 = pg_mode s" "pg_inputs s1 = pg_inputs s"
    using stream_text_conv [OF ms(1), of rt] kept_conv_last(2) [OF ms(2)] by auto
  then show ?thesis
    using end_message_finishes [of mode s1 "''error''" rt] same_modes(1) [OF 1(3,4)] by (simp add: fail_message_def)
qed

lemma fail_message_empty:
  assumes "conv (target_mode mode s) s = []"
  shows "fail_message rt tx mode s = Throw Type_Error"
proof -
  have u: "streamMessageUpdate (Str tx) ''content'' (conv (target_mode mode s) s) = Ok []"
    using assms by (simp add: streamMessageUpdate_def last_msg_def truthy_def)
  obtain s1 where 1: "stream_text rt (Str tx) ''content'' mode s = Ok s1"
    "conv (target_mode mode s) s1 = []" "pg_mode s1 = pg_mode s" "pg_inputs s1 = pg_inputs s"
    using stream_text_conv [OF u, of rt] by (auto simp: kept_conv_last)
  then have "completeMessage ''error'' (conv (target_mode mode s1) s1) = Throw Type_Error"
    using same_modes(1) [OF 1(3,4)] by (simp add: completeMessage_def last_msg_def nullish_def)
  from set_conv_Throw [where upd = "completeMessage ''error''", OF this] show ?thesis
    using 1(1) by (simp add: fail_message_def end_message_def)
qed

text \<open>The events with which a stream ends.\<close>

definition final_event :: "pg_event \<Rightarrow> page \<Rightarrow> bool" where
  "final_event ev s =
     (case ev of
        Sse_Message i d \<Rightarrow> d = ''[DONE]'' \<or> (case json_parse d of Ok p \<Rightarrow> nullish p | Throw _ \<Rightarrow> True)
      | Sse_Error i d rs \<Rightarrow> \<not> st_complete (pg_streams s ! i) \<and> rs \<noteq> 2
      | Sse_Ready i rs code \<Rightarrow>
          rs \<ge> 2 \<and> \<not> st_complete (pg_streams s ! i) \<and> (case code of Some c \<Rightarrow> c \<noteq> 200 | None \<Rightarrow> False)
      | _ \<Rightarrow> False)"

text \<open>Such an event closes the last message, after a step beside the conversations.\<close>

lemma sse_bad_prepares:
  "\<exists>s1 tx. beside s s1 \<and> sse_bad rt i data e s = fail_message rt tx (st_mode (pg_streams s ! i)) s1"
  unfolding sse_bad_def Let_def by (intro exI conjI, rule besideI(2), rule refl)

lemma sse_data_prepares:
  assumes "case json_parse data of Ok p \<Rightarrow> nullish p | Throw _ \<Rightarrow> True" "i < length (pg_streams s)"
  shows "\<exists>s1 tx. beside s s1 \<and> sse_data rt i data s = fail_message rt tx (st_mode (pg_streams s ! i)) s1"
proof (cases "json_parse data")
  case (Ok p)
  obtain s1 where 1: "beside s s1" "st_mode (pg_streams s1 ! i) = st_mode (pg_streams s ! i)"
    "sse_data rt i data s = (case field_of p ''choices'' of
       Throw e \<Rightarrow> sse_bad rt i data e s1 | Ok choices \<Rightarrow> sse_delta rt i data (get (index0 choices) ''delta'') s1)"
    using sse_data_prepared [OF Ok assms(2), of rt] by metis
  then have "sse_data rt i data s = sse_bad rt i data Type_Error s1" using Ok assms(1) by (simp add: field_of_def)
  then show ?thesis using sse_bad_prepares [of s1 rt i data Type_Error] 1(2) beside_trans [OF 1(1)] by metis
qed (use sse_bad_prepares in \<open>simp add: sse_data_def\<close>)

lemma final_event_cases:
  assumes "stream_of ev = Some i" "final_event ev s" "i < length (pg_streams s)"
  shows "\<exists>s1 f. beside s s1 \<and> (\<forall>md x. conv md (f x) = conv md x) \<and>
    (pg_step rt ev s = end_message rt ''complete'' (st_mode (pg_streams s ! i)) s1 \<or>
     (\<exists>tx. pg_step rt ev s = bind_res (fail_message rt tx (st_mode (pg_streams s ! i)) s1) (\<lambda>x. Ok (f x))))"
proof -
  have f: "bind_res r (\<lambda>x. Ok (id x)) = r" for r :: "page res" by (cases r) auto
  show ?thesis
  proof (cases ev)
    case (Sse_Message j d)
    then have j: "j = i" using assms(1) by (simp add: stream_of_def)
    show ?thesis
    proof (cases "d = ''[DONE]''")
      case True
      then show ?thesis using sse_done_prepares [of s rt i] Sse_Message j assms(3)
        by (auto simp: on_stream_def sse_message_def intro!: exI [of _ id])
    next
      case False
      then show ?thesis
        using sse_data_prepares [of d i s rt] Sse_Message j assms(2,3) f
        by (fastforce simp: on_stream_def sse_message_def final_event_def intro!: exI [of _ id])
    qed
  next
    case (Sse_Error j d rs)
    have c: "conv md (x\<lparr>pg_source := None\<rparr>) = conv md x" for md x by (rule beside_conv) simp
    show ?thesis
      using assms Sse_Error c besideI(2)
      by (auto simp: stream_of_def on_stream_def sse_error_def final_event_def Let_def intro!: exI [of _ "\<lambda>x. x\<lparr>pg_source := None\<rparr>"])
  next
    case (Sse_Ready j rs code)
    then obtain c where "code = Some c" "c \<noteq> 200" using assms(2) by (auto simp: final_event_def split: option.splits)
    then show ?thesis
      using assms Sse_Ready f besideI(2)
      by (fastforce simp: stream_of_def on_stream_def sse_ready_def final_event_def Let_def intro!: exI [of _ id])
  qed (use assms(1) in \<open>simp_all add: stream_of_def\<close>)
qed


lemma end_message_empty:
  "conv (target_mode mode s) s = [] \<Longrightarrow> end_message rt st mode s = Throw Type_Error"
  unfolding end_message_def by (rule set_conv_Throw) (simp add: completeMessage_def last_msg_def nullish_def)

lemma clear_empties:
  "\<exists>s'. handleClearMessages rt s = Ok s' \<and> pg_message s' = [] \<and> pg_mode s' = pg_mode s \<and> pg_inputs s' = pg_inputs s \<and>
     pg_streams s' = pg_streams s"
  by (auto simp: handleClearMessages_def setMessage_def Let_def defer_save_def persistModeMessages_def store_put_def)

text \<open>
  C30: clearing the conversation while its reply is being streamed makes the next end of the stream,
  of whatever kind, throw: the completion reads the status of a last message that is not there.
\<close>

theorem cleared_stream_throws:
  assumes "stream_of ev = Some i" "i < length (pg_streams s)" "final_event ev s" "stream_conv i s = current_mode s"
  shows "run_pg [(rt, Clear), (rt', ev)] s = Throw Type_Error"
proof -
  obtain s1 where c: "handleClearMessages rt s = Ok s1" "pg_message s1 = []" "pg_mode s1 = pg_mode s" "pg_inputs s1 = pg_inputs s"
    "pg_streams s1 = pg_streams s" using clear_empties by blast
  have "final_event ev s1" using assms(3) c(5) by (simp add: final_event_def cong: pg_event.case_cong)
  then obtain s2 f where 2: "beside s1 s2"
    "pg_step rt' ev s1 = end_message rt' ''complete'' (st_mode (pg_streams s1 ! i)) s2 \<or>
     (\<exists>tx. pg_step rt' ev s1 = bind_res (fail_message rt' tx (st_mode (pg_streams s1 ! i)) s2) (\<lambda>x. Ok (f x)))"
    using final_event_cases [OF assms(1), of s1 rt'] assms(2) c(5) by auto
  have "target_mode (st_mode (pg_streams s1 ! i)) s1 = current_mode s1"
    using assms(4) c(5) same_modes [OF c(3,4)] by (simp add: stream_conv_def)
  then have "conv (target_mode (st_mode (pg_streams s1 ! i)) s2) s2 = []"
    using c(2) beside_conv [OF 2(1)] beside_target [OF 2(1)] by (simp add: conv_def)
  then have "pg_step rt' ev s1 = Throw Type_Error" using 2(2) end_message_empty fail_message_empty by auto
  then show ?thesis using c(1) by simp
qed

section \<open>Finished messages\<close>

locale frozen_update =
  fixes upd :: updater
  assumes frozen: "finished (last_msg ms) \<Longrightarrow> upd ms = Ok (ms, None)"
begin

lemma frozen_conv:
  assumes "finished (last_msg (conv (target_mode mode s) s))" "tidy (pg_message s)"
  shows "\<exists>s'. setMessageForMode rt upd mode s = Ok s' \<and> (\<forall>md. conv md s' = conv md s) \<and> pg_pending s' = pg_pending s \<and>
    pg_mode s' = pg_mode s \<and> pg_inputs s' = pg_inputs s \<and> tidy (pg_message s') \<and> pg_streams s' = pg_streams s"
proof (cases "target_mode mode s = current_mode s")
  case True
  then have "upd (pg_message s) = Ok (pg_message s, None)" using frozen assms(1) by (simp add: conv_def)
  then show ?thesis
    using True assms(2) by (auto simp: setMessageForMode_def setMessage_def defer_save_def ensure_tidy conv_def store_get_def current_mode_def)
next
  case False
  then have "upd (store_get (target_mode mode s) s) = Ok (store_get (target_mode mode s) s, None)"
    using frozen assms(1) by (simp add: conv_def)
  then show ?thesis
    using False assms(2)
    by (auto simp: setMessageForMode_def defer_save_def conv_def persistModeMessages_def store_put_def store_get_def current_mode_def)
qed

end

lemma finished_not_generating: "finished m \<Longrightarrow> \<not> generating m \<and> \<not> nullish m"
  by (auto simp: finished_def generating_def is_status_def nullish_def)

interpretation stream_frozen: frozen_update "\<lambda>ms. bind_res (streamMessageUpdate c ty ms) (\<lambda>ms'. Ok (ms', None))"
  by unfold_locales (auto simp: streamMessageUpdate_def Let_def dest: finished_not_generating)

interpretation complete_frozen: frozen_update "completeMessage st"
  by unfold_locales (auto simp: completeMessage_def Let_def dest: finished_not_generating)

interpretation stop_frozen: frozen_update stopped
  by unfold_locales (auto simp: stopped_def Let_def last_msg_def dest: finished_not_generating split: if_splits)

text \<open>A page in which a conversation is finished, and one in which nothing was said since.\<close>

definition still :: "page \<Rightarrow> page \<Rightarrow> bool" where
  "still s s' \<longleftrightarrow> (\<forall>md. conv md s' = conv md s) \<and> pg_pending s' = pg_pending s \<and> pg_mode s' = pg_mode s \<and>
     pg_inputs s' = pg_inputs s \<and> tidy (pg_message s') \<and> map st_mode (pg_streams s') = map st_mode (pg_streams s)"

lemma still_refl: "tidy (pg_message s) \<Longrightarrow> still s s"
  by (simp add: still_def)

lemma still_trans: "still s s' \<Longrightarrow> still s' s'' \<Longrightarrow> still s s''"
  by (simp add: still_def)

lemma still_target: "still s s' \<Longrightarrow> target_mode mode s' = target_mode mode s"
  by (auto simp: still_def intro: same_modes)

lemma beside_still: "beside s s' \<Longrightarrow> tidy (pg_message s) \<Longrightarrow> still s s'"
  by (simp add: still_def beside_conv) (simp add: beside_def)

text \<open>The conversation with the reply is finished and the shown one is tidy.\<close>

definition over :: "string \<Rightarrow> page \<Rightarrow> bool" where
  "over md s \<longleftrightarrow> finished (last_msg (conv md s)) \<and> tidy (pg_message s)"

lemma over_still: "over md s \<Longrightarrow> still s s' \<Longrightarrow> over md s'"
  by (simp add: over_def still_def)

lemma stream_text_still:
  "over (target_mode mode s) s \<Longrightarrow> \<exists>s'. stream_text rt c ty mode s = Ok s' \<and> still s s'"
  using stream_frozen.frozen_conv [of mode s] unfolding stream_text_def over_def still_def by metis

lemma end_message_still:
  "over (target_mode mode s) s \<Longrightarrow> \<exists>s'. end_message rt st mode s = Ok s' \<and> still s s'"
  using complete_frozen.frozen_conv [of mode s] unfolding end_message_def over_def still_def by metis

lemma fail_message_still:
  assumes "over (target_mode mode s) s" shows "\<exists>s'. fail_message rt tx mode s = Ok s' \<and> still s s'"
proof -
  obtain s1 where 1: "stream_text rt (Str tx) ''content'' mode s = Ok s1" "still s s1" using stream_text_still [OF assms] by blast
  then have "over (target_mode mode s1) s1" using over_still [OF assms] still_target by metis
  then show ?thesis using 1 end_message_still [of mode s1] still_trans by (fastforce simp: fail_message_def)
qed

lemma stream_if_still:
  "over (target_mode mode s) s \<Longrightarrow> \<exists>s'. stream_if rt v ty mode s = Ok s' \<and> still s s'"
  using stream_text_still [of mode s rt v ty] by (auto simp: stream_if_def over_def still_refl)

lemma still_stream_conv: "still s s' \<Longrightarrow> i < length (pg_streams s) \<Longrightarrow> stream_conv i s' = stream_conv i s"
proof -
  assume s: "still s s'" and i: "i < length (pg_streams s)"
  have "st_mode (pg_streams s' ! i) = st_mode (pg_streams s ! i)" using s i unfolding still_def by (metis length_map nth_map)
  then show ?thesis using still_target [OF s] by (simp add: stream_conv_def)
qed

lemma still_length: "still s s' \<Longrightarrow> length (pg_streams s') = length (pg_streams s)"
  unfolding still_def by (metis length_map)

lemma still_after_beside:
  assumes b: "beside s s1" and o: "over (target_mode mode s) s"
    and f: "over (target_mode mode s1) s1 \<Longrightarrow> \<exists>s'. r = Ok s' \<and> still s1 s'"
  shows "\<exists>s'. r = Ok s' \<and> still s s'"
proof -
  have "still s s1" using beside_still [OF b] o by (simp add: over_def)
  moreover from this have "over (target_mode mode s1) s1" using over_still [OF o] still_target by metis
  ultimately show ?thesis using f still_trans by blast
qed

lemma failed_still:
  "over (target_mode mode s) s \<Longrightarrow> \<exists>s'. fail_message rt tx mode (set_debug f tab s) = Ok s' \<and> still s s'"
  by (rule still_after_beside [OF besideI(2)], assumption, rule fail_message_still)

lemma sse_bad_still: "over (stream_conv i s) s \<Longrightarrow> \<exists>s'. sse_bad rt i data e s = Ok s' \<and> still s s'"
  using sse_bad_prepares [of s rt i data e] still_after_beside fail_message_still unfolding stream_conv_def by metis

lemma sse_done_still: "over (stream_conv i s) s \<Longrightarrow> \<exists>s'. sse_done rt i s = Ok s' \<and> still s s'"
  using sse_done_prepares [of s rt i] still_after_beside end_message_still unfolding stream_conv_def by metis

lemma sse_delta_still:
  assumes "over (stream_conv i s) s" shows "\<exists>s'. sse_delta rt i data d s = Ok s' \<and> still s s'"
proof -
  let ?mode = "st_mode (pg_streams s ! i)"
  have o: "over (target_mode ?mode s) s" using assms by (simp add: stream_conv_def)
  obtain s1 where 1: "stream_if rt (get d ''reasoning_content'') ''reasoning'' ?mode s = Ok s1" "still s s1"
    using stream_if_still [OF o] by blast
  then have o1: "over (target_mode ?mode s1) s1" using over_still [OF o] still_target by metis
  obtain s2 where 2: "stream_if rt (get d ''reasoning'') ''reasoning'' ?mode s1 = Ok s2" "still s1 s2"
    using stream_if_still [OF o1] by blast
  then have o2: "over (target_mode ?mode s2) s2" using over_still [OF o1] still_target by metis
  obtain s3 where 3: "stream_if rt (get d ''content'') ''content'' ?mode s2 = Ok s3" "still s2 s3"
    using stream_if_still [OF o2] by blast
  show ?thesis using 1 2 3 still_trans [OF still_trans [OF 1(2) 2(2)] 3(2)] by (simp add: sse_delta_def Let_def)
qed

lemma sse_data_still:
  assumes "over (stream_conv i s) s" "i < length (pg_streams s)"
  shows "\<exists>s'. sse_data rt i data s = Ok s' \<and> still s s'"
proof (cases "json_parse data")
  case (Ok p)
  obtain s1 where 1: "beside s s1" "stream_conv i s1 = stream_conv i s"
    "sse_data rt i data s = (case field_of p ''choices'' of
       Throw e \<Rightarrow> sse_bad rt i data e s1 | Ok choices \<Rightarrow> sse_delta rt i data (get (index0 choices) ''delta'') s1)"
    using sse_data_prepared [OF Ok assms(2), of rt] by metis
  have st: "still s s1" using beside_still [OF 1(1)] assms(1) by (simp add: over_def)
  then have "over (stream_conv i s1) s1" using over_still [OF assms(1)] 1(2) by simp
  then have "\<exists>s'. sse_data rt i data s = Ok s' \<and> still s1 s'"
    using 1(3) sse_bad_still [of i s1 rt data] sse_delta_still [of i s1 rt data] by (cases "field_of p ''choices''") simp_all
  then show ?thesis using still_trans [OF st] by blast
next
  case (Throw e)
  then show ?thesis using sse_bad_still [OF assms(1)] by (simp add: sse_data_def)
qed

lemma stream_step_still:
  assumes "stream_of ev = Some i" "over (stream_conv i s) s" "i < length (pg_streams s)"
  shows "\<exists>s'. pg_step rt ev s = Ok s' \<and> still s s'"
proof (cases ev)
  case (Sse_Message j d)
  then show ?thesis
    using assms sse_done_still [OF assms(2)] sse_data_still [OF assms(2,3)] by (simp add: stream_of_def on_stream_def sse_message_def)
next
  case (Sse_Error j d rs)
  then have j: "j = i" using assms(1) by (simp add: stream_of_def)
  have src: "still x (x\<lparr>pg_source := None\<rparr>)" if "still s x" for x using that beside_still [OF besideI(3)] by (simp add: still_def)
  show ?thesis
  proof (cases "final_event ev s")
    case True
    then obtain tx f where e: "pg_step rt ev s =
        bind_res (fail_message rt tx (st_mode (pg_streams s ! i)) (set_debug f ''response'' s)) (\<lambda>x. Ok (x\<lparr>pg_source := None\<rparr>))"
      using Sse_Error j assms(3) by (auto simp: final_event_def on_stream_def sse_error_def Let_def)
    obtain x where "fail_message rt tx (st_mode (pg_streams s ! i)) (set_debug f ''response'' s) = Ok x" "still s x"
      using failed_still assms(2) unfolding stream_conv_def by blast
    then show ?thesis using e src still_trans by (intro exI [of _ "x\<lparr>pg_source := None\<rparr>"]) auto
  next
    case False
    then show ?thesis using Sse_Error j assms still_refl by (auto simp: final_event_def on_stream_def sse_error_def Let_def over_def)
  qed
next
  case (Sse_Ready j rs code)
  then have j: "j = i" using assms(1) by (simp add: stream_of_def)
  show ?thesis
  proof (cases "final_event ev s")
    case True
    then obtain tx f where e: "pg_step rt ev s = fail_message rt tx (st_mode (pg_streams s ! i)) (set_debug f ''response'' s)"
      using Sse_Ready j assms(3) by (auto simp: final_event_def on_stream_def sse_ready_def Let_def split: option.splits)
    show ?thesis unfolding e
      using failed_still assms(2) unfolding stream_conv_def by blast
  next
    case False
    then show ?thesis
      using Sse_Ready j assms still_refl by (auto simp: final_event_def on_stream_def sse_ready_def Let_def over_def split: option.splits)
  qed
qed (use assms(1) in \<open>simp_all add: stream_of_def\<close>)

text \<open>
  C10: once the last message of a conversation is finished, nothing a stream of that conversation
  still delivers, in whatever number and order, changes any conversation, schedules a save or makes
  the page fail.
\<close>

theorem finished_reply_kept:
  assumes "finished (last_msg (conv (stream_conv i s) s))" "tidy (pg_message s)" "i < length (pg_streams s)"
    and "\<forall>x\<in>set evs. stream_of (snd x) = Some i"
  shows "\<exists>s'. run_pg evs s = Ok s' \<and> (\<forall>md. conv md s' = conv md s) \<and> pg_pending s' = pg_pending s"
proof -
  have "over (stream_conv i s) s \<Longrightarrow> i < length (pg_streams s) \<Longrightarrow> \<exists>s'. run_pg evs s = Ok s' \<and> still s s'"
    using assms(4)
  proof (induction evs arbitrary: s)
    case Nil
    then show ?case by (auto simp: over_def still_refl)
  next
    case (Cons x evs)
    obtain s1 where 1: "pg_step (fst x) (snd x) s = Ok s1" "still s s1"
      using stream_step_still [of "snd x" i s "fst x"] Cons.prems by auto
    have "over (stream_conv i s1) s1" "i < length (pg_streams s1)"
      using over_still [OF Cons.prems(1) 1(2)] still_stream_conv [OF 1(2) Cons.prems(2)] still_length [OF 1(2)] Cons.prems(2) by simp_all
    then obtain s' where "run_pg evs s1 = Ok s'" "still s1 s'" using Cons.IH Cons.prems(3) by auto
    then show ?case using 1 still_trans by auto
  qed
  then show ?thesis using assms(1-3) by (auto simp: over_def still_def)
qed

section \<open>Video tasks\<close>

definition polls :: "jsval \<Rightarrow> page \<Rightarrow> nat" where
  "polls k s = length (filter (\<lambda>p. pl_task p = k) (pg_pollers s))"

lemma resume_poll_mono: "polls k s \<le> polls k (resume_poll answer m s)"
  by (simp add: resume_poll_def polls_def Let_def)

lemma resume_fold_mono: "polls k s \<le> polls k (foldl (\<lambda>acc m. resume_poll answer m acc) s ms)"
proof (induction ms arbitrary: s)
  case (Cons m ms)
  have "polls k s \<le> polls k (resume_poll answer m s)" by (rule resume_poll_mono)
  also have "\<dots> \<le> polls k (foldl (\<lambda>acc m. resume_poll answer m acc) (resume_poll answer m s) ms)" by (rule Cons.IH)
  finally show ?case by simp
qed simp

lemma resume_fold_polls:
  assumes "k \<notin> set (pg_active s)" "m \<in> set ms" "get (get m ''videoTask'') ''taskId'' = k"
  shows "Suc (polls k s) \<le> polls k (foldl (\<lambda>acc m. resume_poll answer m acc) s ms)"
  using assms
proof (induction ms arbitrary: s)
  case (Cons x ms)
  show ?case
  proof (cases "get (get x ''videoTask'') ''taskId'' = k")
    case True
    then have "polls k (resume_poll answer x s) = Suc (polls k s)"
      using Cons.prems(1) by (simp add: resume_poll_def polls_def Let_def)
    then show ?thesis using resume_fold_mono [of k "resume_poll answer x s" answer ms] by simp
  next
    case False
    then have "polls k (resume_poll answer x s) = polls k s" "k \<notin> set (pg_active (resume_poll answer x s))"
      using Cons.prems(1) by (auto simp: resume_poll_def polls_def Let_def)
    then show ?thesis using Cons.IH [of "resume_poll answer x s"] Cons.prems False by auto
  qed
qed simp

lemma polls_effects:
  "polls k (streaming_off s) = polls k s" "polls k (init_store s) = polls k s" "polls k (store_put mode ms s) = polls k s"
  "polls k (switch_mode rt s) = polls k s"
  by (simp_all add: polls_def streaming_off_def init_store_def switch_mode_def store_put_def set_input_def Let_def)

lemma effects_resume:
  assumes "pg_changed s" "k \<notin> set (pg_active s)" "m \<in> set (pg_message s)" "resumable m" "get (get m ''videoTask'') ''taskId'' = k"
  shows "Suc (polls k s) \<le> polls k (run_effects rt answer s)"
proof -
  let ?s1 = "s\<lparr>pg_changed := False, pg_seen := pg_message s\<rparr>"
  have "Suc (polls k ?s1) \<le> polls k (foldl (\<lambda>acc m. resume_poll answer m acc) ?s1 (filter resumable (pg_message ?s1)))"
    using assms by (intro resume_fold_polls) auto
  moreover have "polls k ?s1 = polls k s" by (simp add: polls_def)
  ultimately show ?thesis using assms(1) by (simp add: run_effects_def Let_def polls_effects)
qed

lemma lower_queued: "to_lower ''queued'' = ''queued''"
  by (rule to_lower_stable) (auto simp: ascii_def lower_ascii_def Let_def)

definition submitted :: "jsval \<Rightarrow> (string \<times> jsval) list \<Rightarrow> jsval" where
  "submitted m fs = with_fields (fs @ applyAutoCollapseLogic m (Bool True)) m"

lemma submitted_task:
  assumes "is_obj m" "truthy (video_task_id d)" "get (getVideoTaskPayload d) ''status'' = Str ''queued''"
  shows "\<exists>x. get (submitted m (other_fields True d)) ''videoTask'' =
    Obj [(''taskId'', video_task_id d), (''status'', Str ''queued''), (''progress'', x)]"
  using assms by (simp add: submitted_def other_fields_def Let_def get_collapsed js_or_def truthy_def [of "Str _"] lower_queued)

lemma submitted_resumable:
  assumes "is_obj m" "get m ''role'' = Str ''assistant''" "truthy (video_task_id d)"
    and "get (getVideoTaskPayload d) ''status'' = Str ''queued''"
  shows "resumable (submitted m (other_fields True d)) \<and>
    get (get (submitted m (other_fields True d)) ''videoTask'') ''taskId'' = video_task_id d"
proof -
  obtain x where x: "get (submitted m (other_fields True d)) ''videoTask'' =
      Obj [(''taskId'', video_task_id d), (''status'', Str ''queued''), (''progress'', x)]"
    using submitted_task [OF assms(1,3,4)] by blast
  have "status_text (Obj [(''taskId'', video_task_id d), (''status'', Str ''queued''), (''progress'', x)]) = ''queued''"
    by (simp add: status_text_def js_or_def truthy_def lower_queued)
  moreover have "get (submitted m (other_fields True d)) ''role'' = Str ''assistant''"
    using assms by (simp add: submitted_def other_fields_def Let_def get_collapsed)
  moreover have "\<not> truthy Undef" by (simp add: truthy_def)
  ultimately show ?thesis
    using assms(3) unfolding resumable_def Let_def x by (simp add: has_role_def terminalStatuses_def shouldResumeStatuses_def)
qed


section \<open>Sample pages\<close>

definition sample_rt :: runtime where
  "sample_rt = \<lparr>rt_now = 7, rt_iso = [], rt_stack = [], rt_rand = (\<lambda>_. []), rt_text = (\<lambda>_. []), rt_t = (\<lambda>k _. k)\<rparr>"

definition sample_reply :: jsval where
  "sample_reply = Obj [(''role'', Str ''assistant''), (''content'', Str []), (''id'', Str ''a''), (''reasoningContent'', Str []),
     (''status'', Str ''loading'')]"

definition sample_page :: page where
  "sample_page = (initial_page sample_rt (Obj []) (Obj []))
     \<lparr>pg_message := [sample_reply], pg_streams := [\<lparr>st_mode = ''text'', st_data = [], st_first = False, st_complete = False\<rparr>],
      pg_requests := [Some (Obj [(''__endpoint'', Str ''video'')], ''text'')]\<rparr>"

definition sample_chunk :: string where
  "sample_chunk = ''{\"choices\":[{\"delta\":{\"content\":\"Hi\"}}]}''"

lemma sample_page_simps [simp]:
  "pg_message sample_page = [] @ [sample_reply]" "tidy [sample_reply]" "open_reply sample_reply"
  "length (pg_streams sample_page) = 1" "st_mode (pg_streams sample_page ! 0) = ''text''" "current_mode sample_page = ''text''"
  "target_mode ''text'' sample_page = ''text''" "stream_conv 0 sample_page = ''text''" "conv ''text'' sample_page = [sample_reply]"
  by (simp_all add: sample_page_def initial_page_def sample_reply_def tidy_def open_reply_def text_at_def generating_def
      is_status_def current_mode_def target_mode_def stream_conv_def conv_def)

lemma sample_chunk_ok: "chunk_ok sample_chunk" "content_of sample_chunk = ''Hi''"
  unfolding sample_chunk_def by code_simp+

theorem streamed_reply_witness:
  "\<exists>s' m'. run_pg [(sample_rt, Sse_Message 0 sample_chunk), (sample_rt, Sse_Message 0 ''[DONE]'')] sample_page = Ok s' \<and>
     pg_message s' = [m'] \<and> text_at ''content'' m' = ''Hi''"
proof -
  have "\<forall>x\<in>set [(sample_rt, sample_chunk)]. chunk_ok (snd x)" by (simp add: sample_chunk_ok)
  from streamed_reply [of sample_page "[]" sample_reply 0 "[(sample_rt, sample_chunk)]" sample_rt, OF _ _ _ _ _ this]
  obtain s' m' where "run_pg [(sample_rt, Sse_Message 0 sample_chunk), (sample_rt, Sse_Message 0 ''[DONE]'')] sample_page = Ok s'"
    "pg_message s' = [m']" "text_at ''content'' m' = text_at ''content'' sample_reply @ ''Hi''"
    by (auto simp: sample_chunk_ok simp del: run_pg.simps)
  moreover have "text_at ''content'' sample_reply = []" by (simp add: text_at_def sample_reply_def)
  ultimately show ?thesis by auto
qed

theorem stream_isolated_witness:
  "\<exists>s'. pg_step sample_rt (Sse_Message 0 ''[DONE]'') sample_page = Ok s' \<and> conv ''image'' s' = conv ''image'' sample_page"
proof -
  obtain s' where s': "pg_step sample_rt (Sse_Message 0 ''[DONE]'') sample_page = Ok s'"
    using sse_done_shown [of sample_page "[]" sample_reply 0 sample_rt] by (auto simp: shows_reply_def simp del: pg_step.simps)
  then show ?thesis
    using stream_isolated [of "Sse_Message 0 ''[DONE]''" 0 sample_rt sample_page s'] by (simp add: stream_of_def del: pg_step.simps)
qed


theorem cleared_stream_throws_witness:
  "run_pg [(sample_rt, Clear), (sample_rt, Sse_Message 0 ''[DONE]'')] sample_page = Throw Type_Error"
  by (rule cleared_stream_throws [where i = 0]) (simp_all add: stream_of_def final_event_def)

definition finished_page :: page where
  "finished_page = sample_page\<lparr>pg_message := [with_field ''status'' (Str ''complete'') sample_reply]\<rparr>"

theorem finished_reply_kept_witness:
  "\<exists>s'. run_pg [(sample_rt, Sse_Message 0 sample_chunk), (sample_rt, Sse_Error 0 [] 1)] finished_page = Ok s' \<and>
     conv ''text'' s' = conv ''text'' finished_page"
proof -
  have "finished (last_msg (conv (stream_conv 0 finished_page) finished_page))" "tidy (pg_message finished_page)"
    "0 < length (pg_streams finished_page)"
    by (simp_all add: finished_page_def sample_page_def initial_page_def stream_conv_def conv_def target_mode_def current_mode_def
        last_msg_def finished_def is_status_def sample_reply_def tidy_def)
  from finished_reply_kept [OF this, of "[(sample_rt, Sse_Message 0 sample_chunk), (sample_rt, Sse_Error 0 [] 1)]"]
  show ?thesis by (auto simp: stream_of_def simp del: run_pg.simps)
qed

definition sample_task :: string where
  "sample_task = ''{\"id\":\"t\",\"status\":\"queued\"}''"

lemma sample_task_decoded: "decode_body sample_task = Ok (Obj [(''id'', Str ''t''), (''status'', Str ''queued'')])"
  unfolding sample_task_def by code_simp


end
