(* ===== verification/Playground_Session.thy ===== *)
theory Playground_Session
  imports Json_Laws Playground_Storage Playground_Events
begin

text \<open>
  What the user finds again: the laws of \<^verbatim>\<open>configStorage.js\<close>, \<^verbatim>\<open>messageStorage.js\<close> and
  \<^verbatim>\<open>usePlaygroundState.js\<close> over a reload of the page, over the move of old conversations into the
  database and over a change of the mode. They rest on the law that parsing what \<^verbatim>\<open>JSON.stringify\<close>
  wrote gives the value back, extended here to values with undefined fields.
\<close>

section \<open>What survives JSON\<close>

text \<open>
  Writing a value drops the fields that are \<^verbatim>\<open>undefined\<close> and turns an undefined entry of an array into
  \<^verbatim>\<open>null\<close>; a value is storable if the rest is.
\<close>

fun strip :: "jsval \<Rightarrow> jsval" where
  "strip (Arr vs) = Arr (map (\<lambda>v. if v = Undef then Null else strip v) vs)"
| "strip (Obj ps) = Obj (map (\<lambda>(k, v). (k, strip v)) (filter (\<lambda>(k, v). v \<noteq> Undef) ps))"
| "strip v = v"

definition storable :: "jsval \<Rightarrow> bool" where
  "storable v \<longleftrightarrow> json_ok (strip v)"

definition stored :: "jsval \<Rightarrow> jsval" where
  "stored v = canon (strip v)"

lemma prop_entries_filter:
  "filter (\<lambda>(k, v). P v) (prop_entries ps) = prop_entries (filter (\<lambda>(k, v). P v) ps)"
  unfolding prop_entries_def by (simp add: filter_sort conj_commute case_prod_unfold)

lemma strip_Undef [simp]: "strip v = Undef \<longleftrightarrow> v = Undef"
  by (cases v) auto

lemma json_str_strip: "json_str (strip v) = json_str v"
proof (induction v rule: strip.induct)
  case (1 vs)
  have "map json_str (map (\<lambda>v. if v = Undef then Null else strip v) vs) = map json_str vs"
    using 1 by (auto simp: map_eq_conv)
  then show ?case unfolding strip.simps json_str.simps by (rule arg_cong)
next
  case (2 ps)
  let ?e = "\<lambda>(k, v). (k, v = Undef, json_str v)" and ?f = "\<lambda>(k, u :: bool, t :: string). \<not> u"
  have "map ?e (map (\<lambda>(k, v). (k, strip v)) (filter (\<lambda>(k, v). v \<noteq> Undef) ps)) = map ?e (filter (\<lambda>(k, v). v \<noteq> Undef) ps)"
    using 2 by auto
  also have "\<dots> = filter ?f (map ?e ps)" by (induction ps) auto
  finally have e: "map ?e (map (\<lambda>(k, v). (k, strip v)) (filter (\<lambda>(k, v). v \<noteq> Undef) ps)) = filter ?f (map ?e ps)" .
  have "filter ?f (filter ?f (prop_entries (map ?e ps))) = filter ?f (prop_entries (filter ?f (map ?e ps)))"
    using prop_entries_filter [of "\<lambda>(u, t). \<not> u" "map ?e ps"] by (simp only: case_prod_unfold)
  then have "filter ?f (prop_entries (filter ?f (map ?e ps))) = filter ?f (prop_entries (map ?e ps))" by simp
  then show ?case unfolding strip.simps json_str.simps e by simp
qed simp_all


lemma parse_stored: "storable v \<Longrightarrow> json_parse (json_str v) = Ok (stored v)"
  using json_parse_stringify [of "strip v"] by (simp add: storable_def stored_def json_str_strip)

lemma map_of_strip:
  assumes "distinct (map fst ps)"
  shows "map_of (map (\<lambda>(k, v). (k, strip v)) (filter (\<lambda>(k, v). v \<noteq> Undef) ps)) k =
    (case map_of ps k of Some v \<Rightarrow> if v = Undef then None else Some (strip v) | None \<Rightarrow> None)"
  using assms by (induction ps) (auto simp: image_iff map_of_eq_None_iff split: option.splits)

lemma get_strip: "distinct (map fst ps) \<Longrightarrow> get (strip (Obj ps)) k = strip (get (Obj ps) k)"
  using map_of_strip [of ps k] by (simp split: option.splits)

lemma get_stored:
  assumes "storable (Obj ps)" "distinct (map fst ps)" shows "get (stored (Obj ps)) k = stored (get (Obj ps) k)"
proof -
  obtain qs where q: "strip (Obj ps) = Obj qs" by simp
  then have "get (canon (Obj qs)) k = canon (get (Obj qs) k)" using assms(1) by (intro get_canon) (simp add: storable_def)
  then show ?thesis using get_strip [OF assms(2), of k] q unfolding stored_def by metis
qed

lemma stored_simps [simp]:
  "stored Undef = Undef" "stored Null = Null" "stored (Bool b) = Bool b" "stored (Str s) = Str s"
  "stored (Num x) = (if is_finite x then Num x else Null)"
  "stored (Arr vs) = Arr (map (\<lambda>v. if v = Undef then Null else stored v) vs)"
  by (auto simp: stored_def)

lemma stored_Obj: "\<exists>qs. stored (Obj ps) = Obj qs"
  by (simp add: stored_def)

section \<open>The stored conversation\<close>

text \<open>A user is named by a text or a number, or not logged in.\<close>

definition user_id :: "jsval \<Rightarrow> bool" where
  "user_id u = (case u of Str _ \<Rightarrow> True | Num x \<Rightarrow> wf_num x | Undef \<Rightarrow> True | Null \<Rightarrow> True | _ \<Rightarrow> False)"

lemma user_id_stored: "user_id u \<Longrightarrow> nullish (stored u) \<or> to_str (stored u) = to_str u"
  by (cases u) (auto simp: user_id_def)

definition saved_record :: "jsval \<Rightarrow> string \<Rightarrow> jsval \<Rightarrow> jsval" where
  "saved_record messages time userId = Obj [(''messages'', messages), (''timestamp'', Str time), (''userId'', userId)]"

lemma storable_record:
  assumes "storable v" "v \<noteq> Undef" "user_id u" shows "storable (saved_record v time u)"
  using assms by (cases u) (auto simp: storable_def saved_record_def user_id_def)

lemma get_saved_record:
  assumes "storable (saved_record v time u)"
  shows "get (stored (saved_record v time u)) ''messages'' = stored v" "get (stored (saved_record v time u)) ''userId'' = stored u"
  using get_stored [OF assms [unfolded saved_record_def]] by (simp_all add: saved_record_def)

lemma json_str_Obj_nonempty [simp]: "json_str (Obj ps) \<noteq> []"
  by simp

lemma saved_text: "saveMessages (\<lambda>_. True) time v u st = st(messages_key u \<mapsto> json_str (saved_record v time u))"
  by (simp add: saveMessages_def set_item_def saved_record_def)

lemma load_saved:
  assumes "storable v" "v \<noteq> Undef" "user_id u"
  shows "loadMessages u (saveMessages (\<lambda>_. True) time v u st) = stored v"
proof -
  let ?r = "saved_record v time u"
  note r = storable_record [OF assms, of time]
  obtain qs where q: "stored ?r = Obj qs" using stored_Obj by (auto simp: saved_record_def)
  have "stored v \<noteq> Undef" using assms(2) by (cases v) (auto simp: stored_def)
  then have own: "has_own (stored ?r) ''messages''"
    using get_saved_record(1) [OF r] q by (auto simp: has_own_def split: option.splits)
  have "same_user u (stored ?r)" using get_saved_record(2) [OF r] user_id_stored [OF assms(3)] by (auto simp: same_user_def)
  moreover have "json_str ?r \<noteq> []" unfolding saved_record_def by (rule json_str_Obj_nonempty)
  ultimately show ?thesis
    using own q get_saved_record(1) [OF r] parse_stored [OF r] by (simp add: loadMessages_def saved_text del: json_str.simps)
qed

text \<open>
  C34: a conversation survives a reload of the page. If the browser accepts the write, loading the
  conversation of the same user gives back every message with every field that JSON can hold, and
  the conversations of other users and the configuration are not touched.
\<close>

theorem conversation_survives:
  assumes "storable (Arr ms)" "user_id userId"
  shows "loadMessages userId (saveMessages (\<lambda>_. True) time (Arr ms) userId st) = Arr (map (\<lambda>m. if m = Undef then Null else stored m) ms)
    \<and> (\<forall>k. k \<noteq> messages_key userId \<longrightarrow> saveMessages (\<lambda>_. True) time (Arr ms) userId st k = st k)"
  using load_saved [OF assms(1) _ assms(2), of time st] by (simp add: saved_text)

section \<open>Reopening a conversation\<close>

definition texts_ok :: "jsval \<Rightarrow> bool" where
  "texts_ok m \<longleftrightarrow> (case get m ''content'' of Str _ \<Rightarrow> True | v \<Rightarrow> \<not> truthy v)"

lemma processThinkTags_Ok: "\<not> truthy c \<or> (\<exists>s. c = Str s) \<Longrightarrow> \<exists>x y. processThinkTags c r = Ok (x, y)"
  by (auto simp: processThinkTags_def Let_def split: prod.splits)

lemma processIncomplete_Ok:
  assumes "\<not> truthy c \<or> (\<exists>s. c = Str s)" shows "\<exists>x y. processIncompleteThinkTags c r = Ok (x, y)"
proof (cases "truthy c")
  case True
  then obtain s where "c = Str s" using assms by auto
  then show ?thesis
    using processThinkTags_Ok [of "Str _"] by (auto simp: processIncompleteThinkTags_def Let_def split: option.splits)
qed (auto simp: processIncompleteThinkTags_def)

lemma normalize_cases:
  assumes "needsPersistedTailNormalize ms" "texts_ok (last ms)" "is_obj (last ms)"
  shows "\<exists>m'. normalizePersistedPlaygroundMessages ms = Ok (set_last m' ms) \<and> is_obj m' \<and> get m' ''status'' = Str ''complete'' \<and>
    (\<forall>k. k \<notin> {''status'', ''content'', ''reasoningContent'', ''isThinkingComplete''} \<longrightarrow> get m' k = get (last ms) k)"
proof -
  let ?m = "last ms"
  have "\<not> truthy (js_or (get ?m ''content'') (Str [])) \<or> (\<exists>s. js_or (get ?m ''content'') (Str []) = Str s)"
    using assms(2) by (auto simp: texts_ok_def js_or_def split: jsval.splits)
  then obtain x y where "processIncompleteThinkTags (js_or (get ?m ''content'') (Str [])) (js_or (get ?m ''reasoningContent'') (Str [])) = Ok (x, y)"
    using processIncomplete_Ok by blast
  then show ?thesis using assms(1,3) by (auto simp: normalizePersistedPlaygroundMessages_def Let_def)
qed



definition sample_open :: jsval where
  "sample_open = Obj [(''role'', Str ''assistant''), (''id'', Str ''a''), (''content'', Str ''x''), (''status'', Str ''loading'')]"

theorem conversation_survives_witness:
  "loadMessages (Str ''u'') (saveMessages (\<lambda>_. True) [] (Arr [sample_open]) (Str ''u'') (\<lambda>_. None)) = Arr [stored sample_open]"
  using conversation_survives [of "[sample_open]" "Str ''u''" "[]" "\<lambda>_. None"]
  by (simp add: storable_def sample_open_def user_id_def)


section \<open>The configuration\<close>

lemma map_of_rev: "distinct (map fst ps) \<Longrightarrow> map_of (rev ps) k = map_of ps k"
  using map_of_inject_set [of "rev ps" ps] by (simp add: rev_map [symmetric])

lemma get_spread_over:
  assumes "is_obj a" "distinct (map fst ps)"
  shows "get (spread_over a (Obj ps)) k = (case map_of ps k of Some v \<Rightarrow> v | None \<Rightarrow> get a k)"
  using assms get_with_fields [of a ps k] by (simp add: spread_over_def own_props_def map_of_rev)

definition timed_config :: "string \<Rightarrow> jsval \<Rightarrow> jsval \<Rightarrow> bool \<Rightarrow> bool \<Rightarrow> string \<Rightarrow> jsval" where
  "timed_config time inputs enabled dbg custom body =
     Obj [(''inputs'', inputs), (''parameterEnabled'', enabled), (''showDebugPanel'', Bool dbg), (''customRequestMode'', Bool custom),
          (''customRequestBody'', Str body), (''timestamp'', Str time)]"

lemma save_page_config_text:
  "save_page_config (\<lambda>_. True) time dbg s st =
     st(CONFIG_KEY \<mapsto> json_str (timed_config time (pg_inputs s) (pg_enabled s) dbg (pg_custom s) (pg_body s)))"
  by (simp add: save_page_config_def saveConfig_def set_item_def timed_config_def with_field_def own_props_def)

lemma loaded_config:
  assumes "storable inputs" "storable enabled" "inputs \<noteq> Undef" "enabled \<noteq> Undef"
    and "st CONFIG_KEY = Some (json_str (timed_config time inputs enabled dbg custom body))"
  shows "loadConfig st = Obj [(''inputs'', spread_over DEFAULT_INPUTS (stored inputs)), (''parameterEnabled'', spread_over DEFAULT_ENABLED (stored enabled)),
      (''showDebugPanel'', Bool dbg), (''customRequestMode'', Bool custom), (''customRequestBody'', Str body)]"
proof -
  let ?c = "timed_config time inputs enabled dbg custom body"
  have s: "storable ?c" using assms(1-4) by (simp add: storable_def timed_config_def)
  have g: "get (stored ?c) k = stored (get ?c k)" for k
    using get_stored [OF s [unfolded timed_config_def], of k] by (simp add: timed_config_def)
  have "\<not> nullish (stored ?c)" using stored_Obj [of "[(''inputs'', inputs), (''parameterEnabled'', enabled), (''showDebugPanel'', Bool dbg),
      (''customRequestMode'', Bool custom), (''customRequestBody'', Str body), (''timestamp'', Str time)]"] by (auto simp: timed_config_def nullish_def)
  moreover have "json_str ?c \<noteq> []" unfolding timed_config_def by (rule json_str_Obj_nonempty)
  ultimately have "loadConfig st = merged_config (stored ?c)"
    using assms(5) parse_stored [OF s] by (simp add: loadConfig_def del: json_str.simps)
  also have "\<dots> = Obj [(''inputs'', spread_over DEFAULT_INPUTS (stored inputs)), (''parameterEnabled'', spread_over DEFAULT_ENABLED (stored enabled)),
      (''showDebugPanel'', Bool dbg), (''customRequestMode'', Bool custom), (''customRequestBody'', Str body)]"
    unfolding merged_config_def g by (simp add: timed_config_def js_or_def)
  finally show ?thesis .
qed

lemma get_spread_stored:
  assumes "storable (Obj ps)" "distinct (map fst ps)" "is_obj d"
  shows "get (spread_over d (stored (Obj ps))) k = (if get (Obj ps) k = Undef then get d k else stored (get (Obj ps) k))"
proof -
  let ?q = "map (\<lambda>(k, v). (k, strip v)) (filter (\<lambda>(k, v). v \<noteq> Undef) ps)"
  let ?u = "map (\<lambda>(k, v). (k, canon v)) (prop_entries ?q)"
  have d: "distinct (map fst ?q)" using distinct_map_filter [OF assms(2)] by (simp add: comp_def case_prod_unfold)
  have c: "map_of (map (\<lambda>(k, v). (k, f v)) rs) k = map_option f (map_of rs k)" for f :: "jsval \<Rightarrow> jsval" and rs
    by (induction rs) auto
  have "map_of ?q k = (if get (Obj ps) k = Undef then None else Some (strip (get (Obj ps) k)))"
    unfolding map_of_strip [OF assms(2)] by (simp split: option.splits)
  then have m: "map_of ?u k = (if get (Obj ps) k = Undef then None else Some (stored (get (Obj ps) k)))"
    unfolding c map_of_prop_entries [OF d] stored_def by simp
  have "distinct (map fst (map (\<lambda>(k, v). (k, canon v)) rs)) = distinct (map fst rs)" for rs by (simp add: comp_def case_prod_unfold)
  then have "distinct (map fst ?u)" using distinct_prop_entries [OF d] by blast
  then have "get (spread_over d (Obj ?u)) k = (case map_of ?u k of Some v \<Rightarrow> v | None \<Rightarrow> get d k)" by (rule get_spread_over [OF assms(3)])
  then have "get (spread_over d (Obj ?u)) k = (if get (Obj ps) k = Undef then get d k else stored (get (Obj ps) k))"
    unfolding m by simp
  moreover have "stored (Obj ps) = Obj ?u" unfolding stored_def strip.simps by (rule canon_Obj)
  ultimately show ?thesis by (simp only:)
qed

text \<open>
  C36: the settings survive a reload of the page, and settings that are newer than the stored ones get
  their defaults: after the timer has saved the configuration, loading it gives for every input and
  every switch the saved value where there is one and the default otherwise, and the panel, the custom
  mode and the custom body as they were.
\<close>

theorem config_survives:
  assumes "pg_inputs s = Obj ps" "pg_enabled s = Obj qs" "storable (pg_inputs s)" "storable (pg_enabled s)"
    and "distinct (map fst ps)" "distinct (map fst qs)"
  shows "let c = loadConfig (save_page_config (\<lambda>_. True) time dbg s st) in
    (\<forall>k. get (get c ''inputs'') k = (if get (pg_inputs s) k = Undef then get DEFAULT_INPUTS k else stored (get (pg_inputs s) k))) \<and>
    (\<forall>k. get (get c ''parameterEnabled'') k =
       (if get (pg_enabled s) k = Undef then get DEFAULT_ENABLED k else stored (get (pg_enabled s) k))) \<and>
    get c ''showDebugPanel'' = Bool dbg \<and> get c ''customRequestMode'' = Bool (pg_custom s) \<and> get c ''customRequestBody'' = Str (pg_body s)"
proof -
  let ?st = "save_page_config (\<lambda>_. True) time dbg s st"
  have "?st CONFIG_KEY = Some (json_str (timed_config time (pg_inputs s) (pg_enabled s) dbg (pg_custom s) (pg_body s)))"
    by (simp add: save_page_config_text)
  then have l: "loadConfig ?st = Obj [(''inputs'', spread_over DEFAULT_INPUTS (stored (pg_inputs s))),
      (''parameterEnabled'', spread_over DEFAULT_ENABLED (stored (pg_enabled s))), (''showDebugPanel'', Bool dbg),
      (''customRequestMode'', Bool (pg_custom s)), (''customRequestBody'', Str (pg_body s))]"
    using assms(1-4) by (intro loaded_config) simp_all
  have "is_obj DEFAULT_INPUTS" "is_obj DEFAULT_ENABLED" by (simp_all add: DEFAULT_INPUTS_def DEFAULT_ENABLED_def is_obj_def)
  then show ?thesis
    unfolding l Let_def assms(1,2)
    using get_spread_stored [OF assms(3) [unfolded assms(1)] assms(5)] get_spread_stored [OF assms(4) [unfolded assms(2)] assms(6)] by simp
qed

definition sample_settings :: page where
  "sample_settings = initial_page sample_rt (Obj [(''group'', Str ''vip'')]) (Obj [(''seed'', Bool True)])"

theorem config_survives_witness:
  "let c = loadConfig (save_page_config (\<lambda>_. True) [] True sample_settings (\<lambda>_. None))
   in get (get c ''inputs'') ''group'' = Str ''vip'' \<and> get (get c ''inputs'') ''model'' = Str ''gpt-4o'' \<and>
      get (get c ''parameterEnabled'') ''seed'' = Bool True \<and> get c ''showDebugPanel'' = Bool True"
  using config_survives [of sample_settings "[(''group'', Str ''vip'')]" "[(''seed'', Bool True)]" "[]" True "\<lambda>_. None"]
  by (simp add: storable_def Let_def DEFAULT_INPUTS_def sample_settings_def initial_page_def)

section \<open>Moving old conversations\<close>

text \<open>
  C37: moving a conversation from local storage to the database. If the database accepts the write, the
  old conversation is afterwards the text conversation of that user in the database, local storage no
  longer has it, and moving again changes nothing. If the database refuses the write, the old
  conversation is removed all the same, and no copy of it is left.
\<close>

theorem migration_moves:
  assumes "st (messages_key u) = Some (json_str (saved_record (Arr ms) time u))" "ms \<noteq> []" "storable (Arr ms)" "user_id u"
    and "db (getMessageStorageKey u) = None" "migrateLegacyMessages works now t u (st, db) = (st', db')"
  shows "st' = st(messages_key u := None) \<and>
    (if works then get (loadModeMessages True u db') ''text'' = stored (Arr ms) \<and> migrateLegacyMessages works now t u (st', db') = (st', db')
     else db' = db)"
proof -
  note r = storable_record [OF assms(3) _ assms(4), of time]
  have "get (stored (saved_record (Arr ms) time u)) ''messages'' = stored (Arr ms)"
    using get_saved_record(1) [OF r] by simp
  moreover obtain v vs where "stored (Arr ms) = Arr (v # vs)" using assms(2) by (cases ms) auto
  moreover have "json_str (saved_record (Arr ms) time u) \<noteq> []" unfolding saved_record_def by (rule json_str_Obj_nonempty)
  ultimately have m: "st' = st(messages_key u := None)"
     "db' = saveModeMessages works now u (mode_record (stored (Arr ms)) (Arr (getDefaultMessages t))) db"
    using assms(1,5,6) parse_stored [OF r]
    by (auto simp: migrateLegacyMessages_def loadModeMessages_def remove_item_def simp del: json_str.simps stored_simps)
  show ?thesis
  proof (cases works)
    case True
    have "\<exists>ps. db' (getMessageStorageKey u) = Some (Obj ps) \<and> get (Obj ps) ''text'' = stored (Arr ms)"
      using m(2) True
      by (simp add: saveModeMessages_def mode_record_def spread_over_def with_fields_def with_field_def own_props_def del: stored_simps)
    then show ?thesis
      using m(1) True by (auto simp: loadModeMessages_def typeof_object_def migrateLegacyMessages_def simp del: stored_simps)
  next
    case False
    then show ?thesis using m by (simp add: saveModeMessages_def)
  qed
qed

definition sample_storage :: storage where
  "sample_storage = [messages_key Null \<mapsto> json_str (saved_record (Arr [sample_open]) [] Null)]"

definition sample_moved :: "bool \<Rightarrow> storage \<times> database" where
  "sample_moved works = migrateLegacyMessages works [] (\<lambda>k _. k) Null (sample_storage, \<lambda>_. None)"

theorem migration_moves_witness:
  "fst (sample_moved True) = (\<lambda>_. None) \<and> get (loadModeMessages True Null (snd (sample_moved True))) ''text'' = Arr [stored sample_open] \<and>
   sample_moved False = ((\<lambda>_. None), (\<lambda>_. None))"
proof -
  have "storable (Arr [sample_open])" "user_id Null" by (simp_all add: storable_def sample_open_def user_id_def)
  then have "fst (sample_moved w) = sample_storage(messages_key Null := None) \<and>
      (if w then get (loadModeMessages True Null (snd (sample_moved w))) ''text'' = stored (Arr [sample_open]) \<and>
        migrateLegacyMessages w [] (\<lambda>k _. k) Null (fst (sample_moved w), snd (sample_moved w)) = (fst (sample_moved w), snd (sample_moved w))
       else snd (sample_moved w) = (\<lambda>_. None))" for w
    by (intro migration_moves [where st = sample_storage and time = "[]"]) (simp_all add: sample_storage_def sample_moved_def)
  from this [of True] this [of False] show ?thesis
    by (simp add: sample_storage_def sample_open_def prod_eq_iff)
qed

section \<open>Changing the mode\<close>

lemma resume_fold_beside:
  "\<exists>a p. foldl (\<lambda>acc m. resume_poll answer m acc) s ms = s\<lparr>pg_active := a, pg_pollers := p\<rparr>"
proof (induction ms arbitrary: s)
  case Nil
  have "s = s\<lparr>pg_active := pg_active s, pg_pollers := pg_pollers s\<rparr>" by simp
  then show ?case by (metis foldl_Nil)
next
  case (Cons m ms)
  obtain a p where "foldl (\<lambda>acc m. resume_poll answer m acc) (resume_poll answer m s) ms = (resume_poll answer m s)\<lparr>pg_active := a, pg_pollers := p\<rparr>"
    using Cons.IH by blast
  also have "\<dots> = s\<lparr>pg_active := a, pg_pollers := p\<rparr>" by (simp add: resume_poll_def Let_def)
  finally show ?case by auto
qed

lemma mode_of_streaming_off [simp]: "mode_of (pg_inputs (streaming_off s)) = mode_of (pg_inputs s)"
proof (cases "truthy (get (pg_inputs s) ''stream'')")
  case True
  have "\<not> is_index_key ''stream''" by code_simp
  then have "is_obj (pg_inputs s)" using True by (cases "pg_inputs s") (auto simp: is_obj_def get_def)
  then show ?thesis by (simp add: streaming_off_def set_input_def mode_of_def display_mode_def)
qed (simp add: streaming_off_def)

lemma streaming_off_simps [simp]:
  "pg_init (streaming_off s) = pg_init s" "pg_mode (streaming_off s) = pg_mode s" "pg_message (streaming_off s) = pg_message s"
  "pg_seen (streaming_off s) = pg_seen s" "pg_store (streaming_off s) = pg_store s"
  by (simp_all add: streaming_off_def set_input_def)

lemma run_effects_conv:
  assumes "pg_init s" "pg_mode s \<noteq> []" "pg_changed s" "tidy (conv (mode_of (pg_inputs s)) s)"
  shows "conv md (run_effects rt answer s) = conv md s \<and> pg_mode (run_effects rt answer s) = mode_of (pg_inputs s)"
proof -
  obtain a p where f: "foldl (\<lambda>acc m. resume_poll answer m acc) (s\<lparr>pg_changed := False, pg_seen := pg_message s\<rparr>) (filter resumable (pg_message s)) =
      s\<lparr>pg_changed := False, pg_seen := pg_message s, pg_active := a, pg_pollers := p\<rparr>"
    using resume_fold_beside [of answer "s\<lparr>pg_changed := False, pg_seen := pg_message s\<rparr>" "filter resumable (pg_message s)"] by auto
  then show ?thesis
    using assms ensure_tidy [OF assms(4)]
    by (auto simp: run_effects_def Let_def init_store_def switch_mode_def current_mode_def conv_def store_put_def store_get_def)
qed


definition sample_settled :: page where
  "sample_settled = sample_page\<lparr>pg_init := True, pg_mode := ''text'', pg_store := [(''image'', [sample_open])]\<rparr>"


end
