(* ===== verification/Upstream_Sync.thy ===== *)
theory Upstream_Sync
  imports Json_Laws Pricing_Data
begin

text \<open>
  Synchronising prices with upstream channels (\<^verbatim>\<open>pages/Setting/Ratio/UpstreamRatioSync.jsx\<close>): the
  differences the server found are shown as a table, the operator checks the cells to take over, and
  the checked values are merged into the global price options and the price options of the channels.

  The state is a record; requests are split at their \<^verbatim>\<open>await\<close>, and the answer of the server is an
  argument of the second part. JavaScript compares objects by identity: where the code compares two
  values that may be objects, the argument \<open>same\<close> says whether they are the same object.
\<close>

section \<open>Constants\<close>

definition OFFICIAL_RATIO_PRESET_ID :: jsval where
  "OFFICIAL_RATIO_PRESET_ID = Num (Fin (- 100))"

definition MODELS_DEV_PRESET_ID :: jsval where
  "MODELS_DEV_PRESET_ID = Num (Fin (- 101))"

definition OFFICIAL_RATIO_PRESET_BASE_URL :: string where
  "OFFICIAL_RATIO_PRESET_BASE_URL = ''https://basellm.github.io''"

definition OFFICIAL_RATIO_PRESET_ENDPOINT :: string where
  "OFFICIAL_RATIO_PRESET_ENDPOINT = ''/llm-metadata/api/newapi/ratio_config-v1-base.json''"

definition MODELS_DEV_PRESET_BASE_URL :: string where
  "MODELS_DEV_PRESET_BASE_URL = ''https://models.dev''"

definition MODELS_DEV_PRESET_ENDPOINT :: string where
  "MODELS_DEV_PRESET_ENDPOINT = ''https://models.dev/api.json''"

definition DEFAULT_ENDPOINT :: string where
  "DEFAULT_ENDPOINT = ''/api/ratio_config''"

text \<open>The nine kinds of prices, in the order in which the options are compared.\<close>

definition GLOBAL_KEYS :: "string list" where
  "GLOBAL_KEYS = [''ModelRatio'', ''CompletionRatio'', ''CacheRatio'', ''CreateCacheRatio'', ''ModelPrice'', ''ModelTierRatio'',
     ''CompletionTierRatio'', ''CacheTierRatio'', ''CreateCacheTierRatio'']"

definition CHANNEL_PRICING_OPTION_KEYS :: "string list" where
  "CHANNEL_PRICING_OPTION_KEYS = [''ChannelModelPrice'', ''ChannelModelRatio'', ''ChannelCompletionRatio'', ''ChannelCacheRatio'',
     ''ChannelCreateCacheRatio'', ''ChannelModelTierRatio'', ''ChannelCompletionTierRatio'', ''ChannelCacheTierRatio'',
     ''ChannelCreateCacheTierRatio'']"

definition CHANNEL_EXTRA_OPTION_TO_PAYLOAD :: "(string \<times> string) list" where
  "CHANNEL_EXTRA_OPTION_TO_PAYLOAD = [(''ChannelImageRatio'', ''ImageRatio''), (''ChannelAudioRatio'', ''AudioRatio''),
     (''ChannelAudioCompletionRatio'', ''AudioCompletionRatio'')]"

section \<open>Names and keys\<close>

text \<open>A channel of the selection dialog.\<close>

definition transfer_record :: "jsval \<Rightarrow> jsval" where
  "transfer_record channel = Obj
     [(''key'', get channel ''id''), (''label'', get channel ''name''), (''value'', get channel ''id''), (''disabled'', Bool False),
      (''_originalData'', channel)]"

definition isOfficialChannelRecord :: "jsval \<Rightarrow> bool" where
  "isOfficialChannelRecord r \<longleftrightarrow>
     (let ident = coalesce (get r ''key'') (get r ''value''); base = js_or (get (get r ''_originalData'') ''base_url'') (Str []);
          label = js_or (get r ''label'') (Str [])
      in ident = OFFICIAL_RATIO_PRESET_ID \<or> ident = MODELS_DEV_PRESET_ID \<or> base = Str OFFICIAL_RATIO_PRESET_BASE_URL \<or>
         base = Str MODELS_DEV_PRESET_BASE_URL \<or> label = Str lbl_us_preset_official \<or> label = Str lbl_us_preset_models_dev)"

text \<open>
  \<^verbatim>\<open>/\((-?\d+)\)\s*$/\<close>: the number in parentheses at the end of a name. The name is read from its end.
\<close>

definition strip_end :: "string \<Rightarrow> string" where
  "strip_end s = concat (rev (dropWhile is_ws (rev (chars s))))"

definition parseUpstreamListChannelId :: "string \<Rightarrow> jsnum option" where
  "parseUpstreamListChannelId s =
     (case rev (strip_end s) of
        c # r \<Rightarrow>
          (let n = of_nat (digits_val (rev (takeWhile is_digit r))) in
           if c \<noteq> CHR '')'' \<or> takeWhile is_digit r = [] then None
           else case dropWhile is_digit r of
                  d # r' \<Rightarrow>
                    if d = CHR ''('' then Some (rnd n)
                    else if d = CHR ''-'' \<and> take 1 r' = ''('' then Some (rnd (- n))
                    else None
                | [] \<Rightarrow> None)
      | [] \<Rightarrow> None)"

definition parseNestedOption :: "string option \<Rightarrow> jsval" where
  "parseNestedOption json =
     (case json_parse (case json of None \<Rightarrow> ''{}'' | Some s \<Rightarrow> if s = [] then ''{}'' else s) of
        Ok p \<Rightarrow> (case p of Obj ps \<Rightarrow> Obj ps | _ \<Rightarrow> Obj [])
      | Throw _ \<Rightarrow> Obj [])"

definition extractNestedChannelModelMap :: "string option \<Rightarrow> string \<Rightarrow> jsval" where
  "extractNestedChannelModelMap optionJson channelIdStr =
     (case get (parseNestedOption optionJson) channelIdStr of Obj ps \<Rightarrow> Obj ps | _ \<Rightarrow> Obj [])"

definition ratioTypeToPascal :: "string \<Rightarrow> string" where
  "ratioTypeToPascal ratioType =
     concat (map (\<lambda>w. case chars w of [] \<Rightarrow> [] | c # cs \<Rightarrow> to_upper c @ concat cs) (split_on CHR ''_'' ratioType))"

definition channelOptionKeyForRatioType :: "string \<Rightarrow> string" where
  "channelOptionKeyForRatioType ratioType = ''Channel'' @ ratioTypeToPascal ratioType"

definition buildResolutionKey :: "string \<Rightarrow> string \<Rightarrow> string \<Rightarrow> string" where
  "buildResolutionKey ratioType srcName syncMode =
     (if syncMode = ''channel'' \<and> srcName \<noteq> [] then ratioType @ ''@@'' @ srcName else ratioType)"

text \<open>The part before the first separator, and the part after it if there is one.\<close>

fun parseResolutionKey :: "string \<Rightarrow> string \<times> string option" where
  "parseResolutionKey [] = ([], None)"
| "parseResolutionKey (c # s) =
     (if c = CHR ''@'' \<and> take 1 s = ''@'' then ([], Some (drop 1 s))
      else case parseResolutionKey s of (a, b) \<Rightarrow> (c # a, b))"

definition cloneDeep :: "jsval \<Rightarrow> jsval res" where
  "cloneDeep v = json_parse (json_str v)"

section \<open>Numbers and texts of cells\<close>

definition loosely_same :: "(jsval \<Rightarrow> jsval \<Rightarrow> bool) \<Rightarrow> jsval \<Rightarrow> jsval \<Rightarrow> bool" where
  "loosely_same same a b \<longleftrightarrow>
     (if typeof_object a \<and> typeof_object b \<and> a \<noteq> Null \<and> b \<noteq> Null then same a b else strict_eq a b) \<or>
     to_num a \<noteq> NaN \<and> to_num b \<noteq> NaN \<and> num_eq (to_num a) (to_num b)"

definition findUpstreamColumnName :: "(jsval \<Rightarrow> jsval \<Rightarrow> bool) \<Rightarrow> jsval \<Rightarrow> jsval \<Rightarrow> string option" where
  "findUpstreamColumnName same upMap v =
     (if \<not> truthy upMap \<or> nullish v then None
      else map_option fst (find (\<lambda>(_, w). loosely_same same w v) (obj_entries upMap)))"

definition resolutionMatchesUpstream :: "(jsval \<Rightarrow> jsval \<Rightarrow> bool) \<Rightarrow> jsval \<Rightarrow> jsval \<Rightarrow> bool" where
  "resolutionMatchesUpstream same selected upstreamVal \<longleftrightarrow> \<not> nullish selected \<and> loosely_same same selected upstreamVal"

definition toFiniteNumber :: "jsval \<Rightarrow> jsnum option" where
  "toFiniteNumber v = (if is_finite (to_num v) then Some (to_num v) else None)"

definition round_num :: "nat \<Rightarrow> jsnum \<Rightarrow> jsnum" where
  "round_num places n = js_div (js_round (js_mul n (Fin (10 ^ places)))) (Fin (10 ^ places))"

definition roundToPlaces :: "jsval \<Rightarrow> nat \<Rightarrow> jsnum option" where
  "roundToPlaces v places = map_option (round_num places) (toFiniteNumber v)"

definition near_int :: "jsnum \<Rightarrow> bool" where
  "near_int x = js_lt (js_abs (js_sub x (js_round x))) e_9"

definition normalizeStoredNumber :: "jsval \<Rightarrow> jsnum option" where
  "normalizeStoredNumber v = map_option (\<lambda>r. if near_int r then js_round r else r) (roundToPlaces v 6)"

definition ratioToDisplayPrice :: "jsval \<Rightarrow> jsnum option" where
  "ratioToDisplayPrice v = (case toFiniteNumber v of None \<Rightarrow> None | Some n \<Rightarrow> roundToPlaces (Num (js_mul n (Fin 2))) 4)"

text \<open>\<^verbatim>\<open>.replace(/(\.\d*?[1-9])0+$/, '$1').replace(/\.$/, '')\<close> on the text of a number.\<close>

definition strip_zeros :: "string \<Rightarrow> string" where
  "strip_zeros s =
     (let whole = takeWhile (\<lambda>c. c \<noteq> CHR ''.'') s; frac = drop 1 (dropWhile (\<lambda>c. c \<noteq> CHR ''.'') s);
          kept = rev (dropWhile (\<lambda>c. c = CHR ''0'') (rev frac));
          s1 = (if all_digits frac \<and> kept \<noteq> [] then whole @ ''.'' @ kept else s)
      in if s1 \<noteq> [] \<and> last s1 = CHR ''.'' then butlast s1 else s1)"

definition number_text :: "jsnum \<Rightarrow> string" where
  "number_text r = (if near_int r then num_str (js_round r) else strip_zeros (num_str r))"

definition formatCellNumber :: "jsval \<Rightarrow> string" where
  "formatCellNumber v =
     (if nullish v \<or> v = Str ''same'' then lbl_us_dash
      else if truthy v \<and> typeof_object v then
        (case get v ''segments'' of Arr xs \<Rightarrow> nat_str (length xs) @ lbl_tiers | _ \<Rightarrow> json_str v)
      else if to_num v = NaN then to_str v
      else number_text (round_num 6 (to_num v)))"

definition formatPriceNumber :: "jsval \<Rightarrow> string" where
  "formatPriceNumber v =
     (if nullish v \<or> v = Str ''same'' then lbl_us_dash
      else case roundToPlaces v 4 of None \<Rightarrow> to_str v | Some n \<Rightarrow> number_text n)"

definition isTierValue :: "jsval \<Rightarrow> bool" where
  "isTierValue v \<longleftrightarrow> truthy v \<and> typeof_object v \<and> is_array (get v ''segments'')"

definition number_or_null :: "jsnum option \<Rightarrow> jsval" where
  "number_or_null x = (case x of None \<Rightarrow> Null | Some n \<Rightarrow> Num n)"

definition buildTierSegmentDetails :: "jsval \<Rightarrow> (string \<times> string) list" where
  "buildTierSegmentDetails v =
     (if \<not> isTierValue v then []
      else
        (let rows = arr_elems (get v ''segments'') in
         map (\<lambda>i. (to_str (if i = 0 then Num (Fin 0) else js_or (get (rows ! (i - 1)) ''up_to'') (Num (Fin 0))) @ lbl_tilde @
                     to_str (js_or (get (rows ! i) ''up_to'') (Str lbl_infinity)),
                   case ratioToDisplayPrice (get (rows ! i) ''ratio'') of
                     None \<Rightarrow> ''-'' | Some p \<Rightarrow> CHR ''$'' # formatPriceNumber (Num p)))
           [0..<length rows]))"

text \<open>What a cell shows: a text, a list of tiers, or an old and a new value.\<close>

datatype cell = Plain string | Tiers "(string \<times> string) list" | Old_New cell cell

definition renderTierValue :: "jsval \<Rightarrow> string \<Rightarrow> cell" where
  "renderTierValue v fallback = (case buildTierSegmentDetails v of [] \<Rightarrow> Plain fallback | ss \<Rightarrow> Tiers ss)"

definition renderCellValue :: "jsval \<Rightarrow> cell" where
  "renderCellValue v = (if isTierValue v then renderTierValue v lbl_us_dash else Plain (formatCellNumber v))"

definition isUnsetOldValue :: "jsval \<Rightarrow> bool" where
  "isUnsetOldValue v \<longleftrightarrow> nullish v \<or> toFiniteNumber v = Some (Fin 0)"

definition renderChannelOldNewPair :: "translate \<Rightarrow> jsval \<Rightarrow> jsval \<Rightarrow> cell" where
  "renderChannelOldNewPair t oldVal newVal =
     Old_New (if isUnsetOldValue oldVal then Plain (t msg_us_unset []) else renderCellValue oldVal) (renderCellValue newVal)"

definition price_with_symbol :: "jsval \<Rightarrow> string" where
  "price_with_symbol v = (let s = formatPriceNumber v in if s = lbl_us_dash then lbl_us_dash else CHR ''$'' # s)"

definition formatChannelOldValue :: "jsval \<Rightarrow> (jsval \<Rightarrow> string) \<Rightarrow> string" where
  "formatChannelOldValue oldVal f = (if isUnsetOldValue oldVal then msg_us_unset else f oldVal)"

definition formatChannelPriceOldNewPair :: "jsval \<Rightarrow> jsval \<Rightarrow> string" where
  "formatChannelPriceOldNewPair oldVal newVal = formatChannelOldValue oldVal price_with_symbol @ ''/'' @ price_with_symbol newVal"

definition isTierRatioType :: "string \<Rightarrow> bool" where
  "isTierRatioType ratioType \<longleftrightarrow>
     ratioType \<in> {''model_tier_ratio'', ''completion_tier_ratio'', ''cache_tier_ratio'', ''create_cache_tier_ratio''}"

definition isUpstreamCellSelectable :: "(jsval \<Rightarrow> jsval \<Rightarrow> bool) \<Rightarrow> jsval \<Rightarrow> jsval \<Rightarrow> bool" where
  "isUpstreamCellSelectable same oldVal newVal \<longleftrightarrow>
     \<not> nullish newVal \<and> newVal \<noteq> Str ''same'' \<and>
     (if truthy newVal \<and> typeof_object newVal then \<not> resolutionMatchesUpstream same oldVal newVal
      else to_num newVal \<noteq> NaN \<and> (nullish oldVal \<or> \<not> resolutionMatchesUpstream same oldVal newVal))"

section \<open>State\<close>

text \<open>A checked cell, and the checked cells by model and resolution key.\<close>

record resolution =
  res_value :: jsval
  res_src :: string
  res_type :: string

type_synonym selections = "(string \<times> (string \<times> resolution) list) list"

text \<open>A difference as the server sends it (\<^verbatim>\<open>dto.DifferenceItem\<close>).\<close>

record diff =
  df_current :: jsval
  df_old :: "(string \<times> jsval) list option"
  df_upstreams :: "(string \<times> jsval) list"
  df_confidence :: "(string \<times> jsval) list option"

type_synonym differences = "(string \<times> (string \<times> diff) list) list"

text \<open>An entry of the confirmation dialog.\<close>

record conflict =
  cf_channel :: string
  cf_model :: string
  cf_current :: string
  cf_new :: string

datatype sync_notice = Sync_Error string | Sync_Success string | Sync_Warning string

text \<open>A write: an option as text, or the price lists of a supplier.\<close>

datatype update = Put_Option string string | Put_Supplier_Global jsval | Put_Supplier_Channel jsnum jsval

record upstream_state =
  sy_options :: "string \<Rightarrow> string option"
  sy_supplier :: bool
  sy_mode :: string
  sy_channels :: "jsval list"
  sy_official_open :: bool
  sy_channel_open :: bool
  sy_official_ids :: "jsval list"
  sy_channel_ids :: "jsval list"
  sy_endpoints :: "(string \<times> string) list"
  sy_names :: "(string \<times> string list) list"
  sy_diffs :: differences
  sy_sel :: selections
  sy_enabled :: "string list"
  sy_synced :: bool
  sy_page :: nat
  sy_size :: nat
  sy_search :: string
  sy_filter :: string
  sy_confirm :: bool
  sy_conflicts :: "conflict list"
  sy_loading :: bool
  sy_fetching :: bool
  sy_fetches :: "(string \<times> jsval) list"
  sy_saves :: "(string \<times> selections \<times> update list) list"
  sy_notices :: "sync_notice list"

definition initial_sync :: "(string \<Rightarrow> string option) \<Rightarrow> bool \<Rightarrow> upstream_state" where
  "initial_sync options supplier =
     \<lparr>sy_options = options, sy_supplier = supplier, sy_mode = [], sy_channels = [], sy_official_open = False, sy_channel_open = False,
      sy_official_ids = [], sy_channel_ids = [], sy_endpoints = [], sy_names = [], sy_diffs = [], sy_sel = [], sy_enabled = [],
      sy_synced = False, sy_page = 1, sy_size = 10, sy_search = [], sy_filter = [], sy_confirm = False, sy_conflicts = [],
      sy_loading = False, sy_fetching = False, sy_fetches = [], sy_saves = [], sy_notices = []\<rparr>"

definition tell :: "sync_notice \<Rightarrow> upstream_state \<Rightarrow> upstream_state" where
  "tell n s = s\<lparr>sy_notices := sy_notices s @ [n]\<rparr>"

section \<open>Channels\<close>

datatype 'a reply = Failed string | Refused string | Answered 'a

text \<open>The end point of a channel that has none yet.\<close>

definition default_endpoint :: "jsval \<Rightarrow> string" where
  "default_endpoint channel =
     (let ty = get (get channel ''_originalData'') ''type'' in
      if get channel ''id'' = MODELS_DEV_PRESET_ID \<or> get channel ''base_url'' = Str MODELS_DEV_PRESET_BASE_URL
      then MODELS_DEV_PRESET_ENDPOINT
      else if get channel ''id'' = OFFICIAL_RATIO_PRESET_ID \<or> get channel ''base_url'' = Str OFFICIAL_RATIO_PRESET_BASE_URL
      then OFFICIAL_RATIO_PRESET_ENDPOINT
      else if ty = Num (Fin 60) then ''tokenfactoryopen''
      else if ty = Num (Fin 20) then ''openrouter''
      else DEFAULT_ENDPOINT)"

definition endpoint_of :: "string \<Rightarrow> (string \<times> string) list \<Rightarrow> string" where
  "endpoint_of k es = (case map_of es k of Some e \<Rightarrow> e | None \<Rightarrow> [])"

definition merge_endpoints :: "jsval list \<Rightarrow> (string \<times> string) list \<Rightarrow> (string \<times> string) list" where
  "merge_endpoints channels prev =
     foldl (\<lambda>es ch. let k = to_str (get ch ''key'') in if endpoint_of k es = [] then set_prop k (default_endpoint ch) es else es) prev channels"

definition fetchAllChannels :: "translate \<Rightarrow> jsval list reply \<Rightarrow> upstream_state \<Rightarrow> upstream_state" where
  "fetchAllChannels t reply s =
     (case reply of
        Failed e \<Rightarrow> tell (Sync_Error (t msg_us_channels_failed [] @ e)) s
      | Refused m \<Rightarrow> tell (Sync_Error m) s
      | Answered chs \<Rightarrow>
          (let tr = map transfer_record chs
           in s\<lparr>sy_channels := tr, sy_endpoints := merge_endpoints tr (sy_endpoints s)\<rparr>))\<lparr>sy_loading := False\<rparr>"

definition updateChannelEndpoint :: "string \<Rightarrow> string \<Rightarrow> upstream_state \<Rightarrow> upstream_state" where
  "updateChannelEndpoint k e s = s\<lparr>sy_endpoints := set_prop k e (sy_endpoints s)\<rparr>"

definition fetch_payload :: "jsval list \<Rightarrow> string \<Rightarrow> upstream_state \<Rightarrow> jsval" where
  "fetch_payload channelList mode s =
     Obj [(''upstreams'', Arr (map (\<lambda>ch. Obj [(''id'', get ch ''id''), (''name'', get ch ''name''), (''base_url'', get ch ''base_url''),
              (''endpoint'', js_or (Str (endpoint_of (to_str (get ch ''id'')) (sy_endpoints s))) (Str DEFAULT_ENDPOINT))]) channelList)),
          (''timeout'', Num (Fin 10)), (''sync_mode'', Str mode), (''include_aligned'', Bool True)]"

definition fetchRatiosFromChannels :: "jsval list \<Rightarrow> string \<Rightarrow> upstream_state \<Rightarrow> upstream_state" where
  "fetchRatiosFromChannels channelList mode s =
     s\<lparr>sy_fetching := True, sy_fetches := sy_fetches s @ [(mode, fetch_payload channelList mode s)]\<rparr>"

definition picked :: "jsval list \<Rightarrow> jsval list \<Rightarrow> jsval list" where
  "picked ids channels = map (\<lambda>ch. get ch ''_originalData'') (filter (\<lambda>ch. get ch ''value'' \<in> set ids) channels)"

definition confirmOfficialSelection :: "translate \<Rightarrow> upstream_state \<Rightarrow> upstream_state" where
  "confirmOfficialSelection t s =
     (let selected = picked (sy_official_ids s) (filter isOfficialChannelRecord (sy_channels s)) in
      if selected = [] then tell (Sync_Warning (t msg_us_select_one [])) s
      else fetchRatiosFromChannels selected ''official'' (s\<lparr>sy_official_open := False\<rparr>))"

definition confirmChannelSelection :: "translate \<Rightarrow> upstream_state \<Rightarrow> upstream_state" where
  "confirmChannelSelection t s =
     (let selected = picked (sy_channel_ids s) (filter (\<lambda>ch. \<not> isOfficialChannelRecord ch) (sy_channels s)) in
      if selected = [] then tell (Sync_Warning (t msg_us_select_one [])) s
      else fetchRatiosFromChannels selected ''channel'' (s\<lparr>sy_channel_open := False\<rparr>))"

definition parseChannelModelNamesFromChannelData :: "jsval \<Rightarrow> string list" where
  "parseChannelModelNamesFromChannelData channelData =
     (let raw = trim (to_str (js_or (get channelData ''models'') (Str [])))
      in if raw = [] then [] else dedup (filter (\<lambda>x. x \<noteq> []) (map trim (split_on CHR '','' raw))))"

text \<open>The answers for the channels whose models are not known yet.\<close>

definition loadChannelModelNamesForChannels :: "translate \<Rightarrow> (string \<times> jsval reply) list \<Rightarrow> upstream_state \<Rightarrow> upstream_state" where
  "loadChannelModelNamesForChannels t replies s =
     foldl (\<lambda>acc (k, r).
        let (names, acc1) =
          (case r of
             Answered d \<Rightarrow> (parseChannelModelNamesFromChannelData d, acc)
           | Refused m \<Rightarrow> ([], tell (Sync_Error (if m \<noteq> [] then m else t msg_us_models_failed [])) acc)
           | Failed m \<Rightarrow> ([], tell (Sync_Error (if m \<noteq> [] then m else t msg_us_models_failed [])) acc))
        in acc1\<lparr>sy_names := set_prop k names (sy_names acc1)\<rparr>) s
       (filter (\<lambda>(k, _). map_of (sy_names s) k = None) replies)"

text \<open>The answer to a request for differences.\<close>

definition ratios_fetched :: "translate \<Rightarrow> string \<Rightarrow> (differences \<times> jsval list) reply \<Rightarrow> upstream_state \<Rightarrow> upstream_state" where
  "ratios_fetched t mode reply s =
     (case reply of
        Failed e \<Rightarrow> tell (Sync_Error (t msg_us_request_failed [] @ e)) s
      | Refused m \<Rightarrow> tell (Sync_Error (if m \<noteq> [] then m else t msg_us_backend_failed [])) s
      | Answered (d, tests) \<Rightarrow>
          (let bad = filter (\<lambda>r. get r ''status'' = Str ''error'') tests;
               s1 = (if bad = [] then s
                     else tell (Sync_Warning (t msg_us_test_failed [] @
                            join '', '' (map (\<lambda>r. to_str (get r ''name'') @ '': '' @ to_str (get r ''error'')) bad))) s);
               s2 = s1\<lparr>sy_diffs := d, sy_sel := [], sy_mode := mode, sy_synced := True\<rparr>
           in if d = [] then tell (Sync_Success (t msg_us_no_difference [])) s2 else s2))\<lparr>sy_fetching := False\<rparr>"

section \<open>The table\<close>

record row =
  rw_model :: string
  rw_type :: string
  rw_current :: jsval
  rw_old :: "(string \<times> jsval) list"
  rw_upstreams :: "(string \<times> jsval) list"
  rw_confidence :: "(string \<times> jsval) list"
  rw_conflict :: bool

definition at_key :: "(string \<times> jsval) list \<Rightarrow> string \<Rightarrow> jsval" where
  "at_key m k = (case map_of m k of Some v \<Rightarrow> v | None \<Rightarrow> Undef)"

definition canonical_name :: "string list \<Rightarrow> string \<Rightarrow> string option" where
  "canonical_name enabled model =
     (if enabled = [] then Some model else map_of (rev (map (\<lambda>m. (to_lower m, m)) enabled)) (to_lower model))"

text \<open>In channel mode, only the columns of channels that have the model, or whose models are not known.\<close>

definition filterChannelOwnedUpstreamMap :: "upstream_state \<Rightarrow> string \<Rightarrow> (string \<times> jsval) list \<Rightarrow> (string \<times> jsval) list" where
  "filterChannelOwnedUpstreamMap s modelName sourceMap =
     (if sy_mode s \<noteq> ''channel'' then sourceMap
      else filter (\<lambda>(upName, _).
             case parseUpstreamListChannelId upName of
               None \<Rightarrow> False
             | Some cid \<Rightarrow>
                 (case map_of (sy_names s) (num_str cid) of
                    None \<Rightarrow> True
                  | Some names \<Rightarrow> names = [] \<or> to_lower modelName \<in> set (map to_lower names))) (prop_entries sourceMap))"

definition opt_list :: "(string \<times> jsval) list option \<Rightarrow> (string \<times> jsval) list" where
  "opt_list m = (case m of Some x \<Rightarrow> x | None \<Rightarrow> [])"

definition model_rows :: "upstream_state \<Rightarrow> string \<Rightarrow> (string \<times> diff) list \<Rightarrow> row list" where
  "model_rows s canonical ratioTypes =
     (let hasPrice = (map_of ratioTypes ''model_price'' \<noteq> None);
          hasOtherRatio = list_ex (\<lambda>rt. map_of ratioTypes rt \<noteq> None)
            [''model_ratio'', ''completion_ratio'', ''cache_ratio'', ''create_cache_ratio'']
      in concat (map (\<lambda>(ratioType, d).
           let upstreams = filterChannelOwnedUpstreamMap s canonical (df_upstreams d) in
           if sy_mode s = ''channel'' \<and> upstreams = [] then []
           else [\<lparr>rw_model = canonical, rw_type = ratioType, rw_current = df_current d,
                  rw_old = filterChannelOwnedUpstreamMap s canonical (opt_list (df_old d)), rw_upstreams = upstreams,
                  rw_confidence = filterChannelOwnedUpstreamMap s canonical (opt_list (df_confidence d)),
                  rw_conflict = (hasPrice \<and> hasOtherRatio)\<rparr>]) (prop_entries ratioTypes)))"

definition dataSource :: "upstream_state \<Rightarrow> row list" where
  "dataSource s =
     concat (map (\<lambda>(model, ratioTypes).
        case canonical_name (sy_enabled s) model of None \<Rightarrow> [] | Some canonical \<Rightarrow> model_rows s canonical ratioTypes)
       (prop_entries (sy_diffs s)))"

definition contains_text :: "string \<Rightarrow> string \<Rightarrow> bool" where
  "contains_text part s \<longleftrightarrow> list_ex (\<lambda>i. take (length part) (drop i s) = part) [0..<Suc (length s)]"

definition filteredDataSource :: "upstream_state \<Rightarrow> row list" where
  "filteredDataSource s =
     (if trim (sy_search s) = [] \<and> sy_filter s = [] then dataSource s
      else filter (\<lambda>r. (trim (sy_search s) = [] \<or> contains_text (trim (to_lower (sy_search s))) (to_lower (rw_model r))) \<and>
                       (sy_filter s = [] \<or> rw_type r = sy_filter s)) (dataSource s))"

definition upstreamNames :: "upstream_state \<Rightarrow> string list" where
  "upstreamNames s = dedup (concat (map (\<lambda>r. map fst (prop_entries (rw_upstreams r))) (filteredDataSource s)))"

definition getCurrentPageData :: "upstream_state \<Rightarrow> row list \<Rightarrow> row list" where
  "getCurrentPageData s rows = take (sy_size s) (drop ((sy_page s - 1) * sy_size s) rows)"

definition getSelectableOldValue :: "upstream_state \<Rightarrow> string \<Rightarrow> row \<Rightarrow> jsval" where
  "getSelectableOldValue s upName r = (if sy_mode s = ''channel'' then at_key (rw_old r) upName else rw_current r)"

definition selectable :: "(jsval \<Rightarrow> jsval \<Rightarrow> bool) \<Rightarrow> upstream_state \<Rightarrow> string \<Rightarrow> row \<Rightarrow> bool" where
  "selectable same s upName r = isUpstreamCellSelectable same (getSelectableOldValue s upName r) (at_key (rw_upstreams r) upName)"

definition find_resolution :: "selections \<Rightarrow> string \<Rightarrow> string \<Rightarrow> resolution option" where
  "find_resolution sel model k = (case map_of sel model of Some rs \<Rightarrow> map_of rs k | None \<Rightarrow> None)"

definition isSelected :: "(jsval \<Rightarrow> jsval \<Rightarrow> bool) \<Rightarrow> upstream_state \<Rightarrow> string \<Rightarrow> row \<Rightarrow> bool" where
  "isSelected same s upName r =
     (case find_resolution (sy_sel s) (rw_model r) (buildResolutionKey (rw_type r) upName (sy_mode s)) of
        None \<Rightarrow> False
      | Some x \<Rightarrow> res_src x = upName \<and> resolutionMatchesUpstream same (res_value x) (at_key (rw_upstreams r) upName))"

text \<open>The state of a column's box: all, some or none of its selectable cells, and whether it has any.\<close>

record stats =
  allSelected :: bool
  partiallySelected :: bool
  hasSelectableItems :: bool

definition channelStats :: "(jsval \<Rightarrow> jsval \<Rightarrow> bool) \<Rightarrow> upstream_state \<Rightarrow> string \<Rightarrow> stats" where
  "channelStats same s upName =
     (let cells = filter (selectable same s upName) (filteredDataSource s);
          selectableCount = length cells; selectedCount = length (filter (isSelected same s upName) cells)
      in \<lparr>allSelected = (selectableCount > 0 \<and> selectedCount = selectableCount),
          partiallySelected = (selectedCount > 0 \<and> selectedCount < selectableCount), hasSelectableItems = (selectableCount > 0)\<rparr>)"

section \<open>Checking cells\<close>

definition getBillingCategory :: "string \<Rightarrow> string" where
  "getBillingCategory ratioType = (if ratioType = ''model_price'' then ''price'' else ''ratio'')"

text \<open>
  Checking a cell drops the checked cells of the other billing category of the model, and in official
  mode the checked cell of another source for the same price.
\<close>

definition kept_resolutions :: "string \<Rightarrow> string \<Rightarrow> (string \<times> resolution) list \<Rightarrow> (string \<times> resolution) list" where
  "kept_resolutions mode ratioType rs =
     (let rs1 = filter (\<lambda>(k, _). getBillingCategory (fst (parseResolutionKey k)) = getBillingCategory ratioType) rs
      in if mode = ''official'' then filter (\<lambda>(k, _). fst (parseResolutionKey k) \<noteq> ratioType) rs1 else rs1)"

definition select_in :: "string \<Rightarrow> string \<Rightarrow> string \<Rightarrow> jsval \<Rightarrow> string \<Rightarrow> selections \<Rightarrow> selections" where
  "select_in mode model ratioType v srcName sel =
     (let rs = (case map_of sel model of Some x \<Rightarrow> x | None \<Rightarrow> [])
      in set_prop model (set_prop (buildResolutionKey ratioType srcName mode) \<lparr>res_value = v, res_src = srcName, res_type = ratioType\<rparr>
           (kept_resolutions mode ratioType rs)) sel)"

definition selectValue :: "string \<Rightarrow> string \<Rightarrow> jsval \<Rightarrow> string \<Rightarrow> upstream_state \<Rightarrow> upstream_state" where
  "selectValue model ratioType v srcName s = s\<lparr>sy_sel := select_in (sy_mode s) model ratioType v srcName (sy_sel s)\<rparr>"

definition unselect_in :: "string \<Rightarrow> string \<Rightarrow> string \<Rightarrow> selections \<Rightarrow> selections" where
  "unselect_in model k upName sel =
     (case map_of sel model of
        None \<Rightarrow> sel
      | Some rs \<Rightarrow>
          (case map_of rs k of
             None \<Rightarrow> sel
           | Some r \<Rightarrow>
               if res_src r \<noteq> upName then sel
               else if delete_prop k rs = [] then delete_prop model sel
               else set_prop model (delete_prop k rs) sel))"

definition unselect_row :: "string \<Rightarrow> string \<Rightarrow> row \<Rightarrow> selections \<Rightarrow> selections" where
  "unselect_row mode upName r sel = unselect_in (rw_model r) (buildResolutionKey (rw_type r) upName mode) upName sel"

text \<open>The box of a cell is shown on the current page where the cell can be selected.\<close>

definition handleCellCheck :: "(jsval \<Rightarrow> jsval \<Rightarrow> bool) \<Rightarrow> row \<Rightarrow> string \<Rightarrow> bool \<Rightarrow> upstream_state \<Rightarrow> upstream_state" where
  "handleCellCheck same r upName checked s =
     (if r \<in> set (getCurrentPageData s (filteredDataSource s)) \<and> upName \<in> set (upstreamNames s) \<and> selectable same s upName r
      then if checked then selectValue (rw_model r) (rw_type r) (at_key (rw_upstreams r) upName) upName s
           else s\<lparr>sy_sel := unselect_row (sy_mode s) upName r (sy_sel s)\<rparr>
      else s)"

definition handleBulkSelect :: "(jsval \<Rightarrow> jsval \<Rightarrow> bool) \<Rightarrow> string \<Rightarrow> bool \<Rightarrow> upstream_state \<Rightarrow> upstream_state" where
  "handleBulkSelect same upName checked s =
     (if checked
      then foldl (\<lambda>acc r. selectValue (rw_model r) (rw_type r) (at_key (rw_upstreams r) upName) upName acc) s
             (filter (selectable same s upName) (filteredDataSource s))
      else s\<lparr>sy_sel := foldl (\<lambda>acc r. unselect_row (sy_mode s) upName r acc) (sy_sel s) (filteredDataSource s)\<rparr>)"

section \<open>Price lists\<close>

text \<open>
  The global prices: an object of model prices for each kind. The prices of the channels: for each
  kind an object that has an object of model prices for each channel.
\<close>

type_synonym maps = "(string \<times> jsval) list"

record baseline =
  bl_global :: maps
  bl_channel :: maps

definition buildPricingBaseline :: "(string \<Rightarrow> string option) \<Rightarrow> baseline" where
  "buildPricingBaseline options =
     \<lparr>bl_global = map (\<lambda>k. (k, parseNestedOption (options k))) GLOBAL_KEYS,
      bl_channel = map (\<lambda>k. (k, parseNestedOption (options k))) CHANNEL_PRICING_OPTION_KEYS\<rparr>"

text \<open>
  Assigning and deleting a property of a value that should be an object. Modules are strict code: a
  property of a text, a number or a boolean cannot be assigned. The named properties of a list are not
  written to JSON.
\<close>

definition assign :: "jsval \<Rightarrow> string \<Rightarrow> jsval \<Rightarrow> jsval res" where
  "assign w k v =
     (case w of
        Obj ps \<Rightarrow> Ok (Obj (set_prop k v ps))
      | Arr vs \<Rightarrow>
          if is_index_key k then
            (let n = digits_val k in Ok (Arr ((vs @ replicate (Suc n - length vs) Undef)[n := v])))
          else Ok (Arr vs)
      | _ \<Rightarrow> Throw Type_Error)"

definition unassign :: "jsval \<Rightarrow> string \<Rightarrow> jsval" where
  "unassign w k =
     (case w of
        Obj ps \<Rightarrow> Obj (delete_prop k ps)
      | Arr vs \<Rightarrow> if is_index_key k then Arr (vs[digits_val k := Undef]) else Arr vs
      | _ \<Rightarrow> w)"

text \<open>A price of a model, for all channels or for the channel with the given number.\<close>

definition price_at :: "maps \<times> maps \<Rightarrow> string option \<Rightarrow> string \<Rightarrow> string \<Rightarrow> jsval" where
  "price_at gc target kind model =
     (case target of
        None \<Rightarrow> get (at_key (fst gc) kind) model
      | Some idStr \<Rightarrow> get (get (at_key (snd gc) (''Channel'' @ kind)) idStr) model)"

definition put_price_at :: "string option \<Rightarrow> string \<Rightarrow> string \<Rightarrow> jsval \<Rightarrow> maps \<times> maps \<Rightarrow> (maps \<times> maps) res" where
  "put_price_at target kind model v gc =
     (case target of
        None \<Rightarrow>
          (let w = at_key (fst gc) kind in
           bind_res (assign (if truthy w then w else Obj []) model v) (\<lambda>w'. Ok (set_prop kind w' (fst gc), snd gc)))
      | Some idStr \<Rightarrow>
          (case map_of (snd gc) (''Channel'' @ kind) of
             None \<Rightarrow> Throw Type_Error
           | Some scopes \<Rightarrow>
               (let w = get scopes idStr in
                bind_res (assign (if truthy w then w else Obj []) model v) (\<lambda>w'.
                bind_res (assign scopes idStr w') (\<lambda>scopes'. Ok (fst gc, set_prop (''Channel'' @ kind) scopes' (snd gc)))))))"

definition drop_price_at :: "string option \<Rightarrow> string \<Rightarrow> maps \<times> maps \<Rightarrow> string \<Rightarrow> (maps \<times> maps) res" where
  "drop_price_at target model gc kind =
     (case target of
        None \<Rightarrow> Ok (set_prop kind (unassign (at_key (fst gc) kind) model) (fst gc), snd gc)
      | Some idStr \<Rightarrow>
          (let scopes = at_key (snd gc) (''Channel'' @ kind) in
           if truthy (get scopes idStr)
           then bind_res (assign scopes idStr (unassign (get scopes idStr) model)) (\<lambda>scopes'.
                  Ok (fst gc, set_prop (''Channel'' @ kind) scopes' (snd gc)))
           else Ok gc))"

section \<open>What was checked, by target\<close>

record group =
  gr_target :: "string option"
  gr_ratios :: "(string \<times> jsval) list"
  gr_srcs :: "(string \<times> string option) list"

fun add_to_group :: "string option \<Rightarrow> string \<Rightarrow> jsval \<Rightarrow> string option \<Rightarrow> group list \<Rightarrow> group list" where
  "add_to_group target rt v src [] = [\<lparr>gr_target = target, gr_ratios = [(rt, v)], gr_srcs = [(rt, src)]\<rparr>]"
| "add_to_group target rt v src (g # gs) =
     (if gr_target g = target
      then g\<lparr>gr_ratios := set_prop rt v (gr_ratios g), gr_srcs := set_prop rt src (gr_srcs g)\<rparr> # gs
      else g # add_to_group target rt v src gs)"

text \<open>The channel a source stands for; only channels with a positive number have prices of their own.\<close>

definition target_of :: "string \<Rightarrow> string option \<Rightarrow> string option" where
  "target_of mode src =
     (if mode = ''channel'' then
        (case src of
           None \<Rightarrow> None
         | Some x \<Rightarrow> (case parseUpstreamListChannelId x of Some cid \<Rightarrow> if js_lt (Fin 0) cid then Some (num_str cid) else None | None \<Rightarrow> None))
      else None)"

definition chosen_type :: "string \<Rightarrow> resolution \<Rightarrow> string" where
  "chosen_type k r = (if res_type r \<noteq> [] then res_type r else fst (parseResolutionKey k))"

definition chosen_src :: "string \<Rightarrow> resolution \<Rightarrow> string option" where
  "chosen_src k r = (if res_src r \<noteq> [] then Some (res_src r) else snd (parseResolutionKey k))"

definition groups_of :: "string \<Rightarrow> (string \<times> resolution) list \<Rightarrow> group list" where
  "groups_of mode rs =
     foldl (\<lambda>gs (k, r). add_to_group (target_of mode (chosen_src k r)) (chosen_type k r) (res_value r) (chosen_src k r) gs) []
       (prop_entries rs)"

section \<open>Conflicts\<close>

definition billing_category :: "baseline \<Rightarrow> string option \<Rightarrow> string \<Rightarrow> string option" where
  "billing_category b target model =
     (let p = (\<lambda>kind. price_at (bl_global b, bl_channel b) target kind model) in
      if p ''ModelPrice'' \<noteq> Undef then Some ''price''
      else if p ''ModelRatio'' \<noteq> Undef \<or> p ''CompletionRatio'' \<noteq> Undef \<or> p ''CacheRatio'' \<noteq> Undef then Some ''ratio''
      else None)"

definition new_category :: "group \<Rightarrow> string" where
  "new_category g = (if map_of (gr_ratios g) ''model_price'' \<noteq> None then ''price'' else ''ratio'')"

definition value_text :: "jsval \<Rightarrow> string" where
  "value_text v = to_str (coalesce v (Str ''-''))"

definition ratio_desc :: "translate \<Rightarrow> jsval \<Rightarrow> jsval \<Rightarrow> string" where
  "ratio_desc t a b = t msg_us_model_ratio [] @ '' : '' @ value_text a @ [CHR 0x0A] @ t msg_us_output_ratio [] @ '' : '' @ value_text b"

definition price_desc :: "translate \<Rightarrow> jsval \<Rightarrow> string" where
  "price_desc t v = t msg_us_fixed_price [] @ '' : '' @ to_str v"

definition group_conflict :: "translate \<Rightarrow> baseline \<Rightarrow> string \<Rightarrow> group \<Rightarrow> conflict list" where
  "group_conflict t b model g =
     (let p = (\<lambda>kind. price_at (bl_global b, bl_channel b) (gr_target g) kind model); r = at_key (gr_ratios g) in
      case billing_category b (gr_target g) model of
        None \<Rightarrow> []
      | Some localCat \<Rightarrow>
          if localCat = new_category g then []
          else [\<lparr>cf_channel = join '', '' (map (\<lambda>x. case x of Some n \<Rightarrow> n | None \<Rightarrow> [])
                   (dedup (map (\<lambda>rt. case map_of (gr_srcs g) rt of Some x \<Rightarrow> x | None \<Rightarrow> None) (map fst (prop_entries (gr_ratios g)))))),
                 cf_model = model,
                 cf_current = (if localCat = ''price'' then price_desc t (p ''ModelPrice'')
                               else ratio_desc t (p ''ModelRatio'') (p ''CompletionRatio'')),
                 cf_new = (if new_category g = ''price'' then price_desc t (r ''model_price'')
                           else ratio_desc t (r ''model_ratio'') (r ''completion_ratio''))\<rparr>])"

definition sync_conflicts :: "translate \<Rightarrow> baseline \<Rightarrow> string \<Rightarrow> selections \<Rightarrow> conflict list" where
  "sync_conflicts t b mode sel =
     concat (map (\<lambda>(model, rs). concat (map (group_conflict t b model) (groups_of mode rs))) (prop_entries sel))"

section \<open>Merging\<close>

definition getCurrentEffectiveModelRatio :: "baseline \<Rightarrow> string option \<Rightarrow> string \<Rightarrow> jsnum option" where
  "getCurrentEffectiveModelRatio b target model =
     (let p = (\<lambda>tg. toFiniteNumber (price_at (bl_global b, bl_channel b) tg ''ModelRatio'' model)) in
      if target \<noteq> None \<and> p target \<noteq> None then p target else p None)"

text \<open>Ratios are rounded so that the prices they stand for have four decimals.\<close>

definition normalized_input ::
  "baseline \<Rightarrow> string option \<Rightarrow> string \<Rightarrow> (string \<times> jsval) list \<Rightarrow> jsnum option \<times> (string \<times> jsval) list" where
  "normalized_input b target model selected =
     (case toFiniteNumber (at_key selected ''model_ratio'') of
        None \<Rightarrow> (getCurrentEffectiveModelRatio b target model, selected)
      | Some m \<Rightarrow>
          (case ratioToDisplayPrice (Num m) of
             None \<Rightarrow> (Some m, selected)
           | Some p \<Rightarrow> (let e = roundToPlaces (Num (js_div p (Fin 2))) 6 in (e, set_prop ''model_ratio'' (number_or_null e) selected))))"

definition normalized_output :: "jsnum \<Rightarrow> jsnum \<Rightarrow> (string \<times> jsval) list \<Rightarrow> (string \<times> jsval) list" where
  "normalized_output e c selected =
     (case ratioToDisplayPrice (Num (js_mul e c)) of
        None \<Rightarrow> selected
      | Some p \<Rightarrow>
          (let inputPrice = js_mul e (Fin 2) in
           if js_lt (Fin 0) inputPrice
           then set_prop ''completion_ratio'' (number_or_null (roundToPlaces (Num (js_div p inputPrice)) 6)) selected
           else selected))"

definition normalizeRatioSelection :: "baseline \<Rightarrow> string option \<Rightarrow> string \<Rightarrow> (string \<times> jsval) list \<Rightarrow> (string \<times> jsval) list" where
  "normalizeRatioSelection b target model selected =
     (case normalized_input b target model selected of (eff, n1) \<Rightarrow>
        case (toFiniteNumber (at_key n1 ''completion_ratio''), eff) of
          (Some c, Some e) \<Rightarrow> if js_lt (Fin 0) e then normalized_output e c n1 else n1
        | _ \<Rightarrow> n1)"

definition stored_price :: "string \<Rightarrow> jsval \<Rightarrow> jsval" where
  "stored_price ratioType v =
     (if isTierRatioType ratioType then v else case normalizeStoredNumber v of Some n \<Rightarrow> Num n | None \<Rightarrow> v)"

primrec fold_res :: "('a \<Rightarrow> 'b \<Rightarrow> 'a res) \<Rightarrow> 'a \<Rightarrow> 'b list \<Rightarrow> 'a res" where
  "fold_res f a [] = Ok a"
| "fold_res f a (x # xs) = bind_res (f a x) (\<lambda>a'. fold_res f a' xs)"

text \<open>The prices that a fixed price replaces; the list for all channels lacks the cache write ratio.\<close>

definition price_drops :: "string option \<Rightarrow> string list" where
  "price_drops target =
     (case target of
        None \<Rightarrow> [''ModelRatio'', ''CompletionRatio'', ''CacheRatio'']
      | Some _ \<Rightarrow> [''ModelRatio'', ''CompletionRatio'', ''CacheRatio'', ''CreateCacheRatio''])"

definition hasPrice :: "(string \<times> jsval) list \<Rightarrow> bool" where
  "hasPrice rs \<longleftrightarrow> ''model_price'' \<in> set (map fst rs)"

definition hasRatio :: "(string \<times> jsval) list \<Rightarrow> bool" where
  "hasRatio rs \<longleftrightarrow> list_ex (\<lambda>(rt, _). rt \<noteq> ''model_price'' \<and> \<not> isTierRatioType rt) rs"

definition apply_group :: "baseline \<Rightarrow> string \<Rightarrow> maps \<times> maps \<Rightarrow> group \<Rightarrow> (maps \<times> maps) res" where
  "apply_group b model gc g =
     (let target = gr_target g; rs = normalizeRatioSelection b target model (gr_ratios g) in
      bind_res (if hasPrice rs then fold_res (drop_price_at target model) gc (price_drops target) else Ok gc) (\<lambda>gc1.
      bind_res (if hasRatio rs then drop_price_at target model gc1 ''ModelPrice'' else Ok gc1) (\<lambda>gc2.
        fold_res (\<lambda>acc (rt, v). put_price_at target (ratioTypeToPascal rt) model (stored_price rt v) acc) gc2 (prop_entries rs))))"

definition apply_model :: "baseline \<Rightarrow> string \<Rightarrow> maps \<times> maps \<Rightarrow> string \<times> (string \<times> resolution) list \<Rightarrow> (maps \<times> maps) res" where
  "apply_model b mode gc x = (case x of (model, rs) \<Rightarrow> fold_res (apply_group b model) gc (groups_of mode rs))"

definition clone_maps :: "maps \<Rightarrow> maps res" where
  "clone_maps ms = map_all_res (\<lambda>(k, v). bind_res (cloneDeep v) (\<lambda>v'. Ok (k, v'))) ms"

definition merged_prices :: "baseline \<Rightarrow> string \<Rightarrow> selections \<Rightarrow> (maps \<times> maps) res" where
  "merged_prices b mode sel =
     bind_res (clone_maps (bl_channel b)) (\<lambda>ch. fold_res (apply_model b mode) (bl_global b, ch) (prop_entries sel))"

section \<open>Writing\<close>

definition or_obj :: "jsval \<Rightarrow> jsval" where
  "or_obj v = js_or v (Obj [])"

definition changed :: "maps \<Rightarrow> maps \<Rightarrow> string \<Rightarrow> bool" where
  "changed before after k \<longleftrightarrow> json_str (or_obj (at_key before k)) \<noteq> json_str (or_obj (at_key after k))"

definition option_updates :: "string list \<Rightarrow> maps \<Rightarrow> maps \<Rightarrow> update list" where
  "option_updates ks before after = map (\<lambda>k. Put_Option k (json_pretty [] (at_key after k))) (filter (changed before after) ks)"

definition supplier_global :: "(string \<Rightarrow> string option) \<Rightarrow> maps \<Rightarrow> jsval" where
  "supplier_global options g =
     Obj (map (\<lambda>k. (k, or_obj (at_key g k)))
            [''ModelPrice'', ''ModelRatio'', ''CompletionRatio'', ''CacheRatio'', ''CreateCacheRatio'', ''ModelTierRatio'',
             ''CompletionTierRatio'', ''CacheTierRatio'', ''CreateCacheTierRatio''] @
          map (\<lambda>k. (k, parseNestedOption (options k))) [''ImageRatio'', ''AudioRatio'', ''AudioCompletionRatio''])"

definition changed_ids :: "maps \<Rightarrow> maps \<Rightarrow> string list" where
  "changed_ids before after =
     dedup (concat (map (\<lambda>k.
       let b = or_obj (at_key before k); a = or_obj (at_key after k)
       in filter (\<lambda>i. json_str (or_obj (get b i)) \<noteq> json_str (or_obj (get a i))) (dedup (obj_keys b @ obj_keys a)))
      CHANNEL_PRICING_OPTION_KEYS))"

definition supplier_channel :: "(string \<Rightarrow> string option) \<Rightarrow> maps \<Rightarrow> string \<Rightarrow> jsval" where
  "supplier_channel options ch idStr =
     Obj (map (\<lambda>k. (k, or_obj (get (or_obj (at_key ch (''Channel'' @ k))) idStr)))
            [''ModelPrice'', ''ModelRatio'', ''CompletionRatio'', ''CacheRatio'', ''CreateCacheRatio'', ''ModelTierRatio'',
             ''CompletionTierRatio'', ''CacheTierRatio'', ''CreateCacheTierRatio''] @
          map (\<lambda>(optKey, payloadKey). (payloadKey, extractNestedChannelModelMap (options optKey) idStr)) CHANNEL_EXTRA_OPTION_TO_PAYLOAD)"

definition supplier_updates :: "(string \<Rightarrow> string option) \<Rightarrow> baseline \<Rightarrow> maps \<times> maps \<Rightarrow> update list" where
  "supplier_updates options b gc =
     (if list_ex (changed (bl_global b) (fst gc)) GLOBAL_KEYS then [Put_Supplier_Global (supplier_global options (fst gc))] else []) @
     concat (map (\<lambda>i. let n = parse_int i in
        if is_finite n \<and> js_lt (Fin 0) n then [Put_Supplier_Channel n (supplier_channel options (snd gc) i)] else [])
       (changed_ids (bl_channel b) (snd gc)))"

definition sync_updates :: "(string \<Rightarrow> string option) \<Rightarrow> bool \<Rightarrow> baseline \<Rightarrow> maps \<times> maps \<Rightarrow> update list" where
  "sync_updates options supplier b gc =
     (if supplier then supplier_updates options b gc
      else option_updates GLOBAL_KEYS (bl_global b) (fst gc) @ option_updates CHANNEL_PRICING_OPTION_KEYS (bl_channel b) (snd gc))"

definition performSync :: "translate \<Rightarrow> baseline \<Rightarrow> upstream_state \<Rightarrow> upstream_state res" where
  "performSync t b s =
     bind_res (merged_prices b (sy_mode s) (sy_sel s)) (\<lambda>gc.
       let us = sync_updates (sy_options s) (sy_supplier s) b gc in
       if us = [] then Ok ((tell (Sync_Warning (t msg_us_nothing [])) s)\<lparr>sy_loading := False\<rparr>)
       else Ok (s\<lparr>sy_loading := True, sy_saves := sy_saves s @ [(sy_mode s, sy_sel s, us)]\<rparr>))"

definition applySync :: "translate \<Rightarrow> upstream_state \<Rightarrow> upstream_state res" where
  "applySync t s =
     (let b = buildPricingBaseline (sy_options s); cs = sync_conflicts t b (sy_mode s) (sy_sel s) in
      if cs \<noteq> [] then Ok (s\<lparr>sy_conflicts := cs, sy_confirm := True\<rparr>) else performSync t b s)"

definition confirmSync :: "translate \<Rightarrow> upstream_state \<Rightarrow> upstream_state res" where
  "confirmSync t s = performSync t (buildPricingBaseline (sy_options s)) (s\<lparr>sy_confirm := False\<rparr>)"

section \<open>After saving\<close>

text \<open>The copy of the differences: every value goes through JSON.\<close>

definition clone_value :: "jsval \<Rightarrow> jsval" where
  "clone_value v = (if v = Undef then Undef else case cloneDeep v of Ok w \<Rightarrow> w | Throw _ \<Rightarrow> v)"

definition clone_diff :: "diff \<Rightarrow> diff" where
  "clone_diff d =
     (let f = map (\<lambda>(k, v). (k, clone_value v))
      in \<lparr>df_current = clone_value (df_current d), df_old = map_option f (df_old d), df_upstreams = f (df_upstreams d),
          df_confidence = map_option f (df_confidence d)\<rparr>)"

definition synced_value :: "jsval \<Rightarrow> jsval" where
  "synced_value v =
     (let n = parse_float (to_str v)
      in if n = NaN then v else Num (case normalizeStoredNumber (Num n) of Some x \<Rightarrow> x | None \<Rightarrow> n))"

definition mark_diff :: "string \<Rightarrow> resolution \<Rightarrow> diff \<Rightarrow> diff" where
  "mark_diff mode r d =
     (if res_src r = [] \<or> map_of (df_upstreams d) (res_src r) = None then d
      else
        (let v = synced_value (res_value r);
             d1 = d\<lparr>df_old := Some (set_prop (res_src r) v (opt_list (df_old d))), df_upstreams := set_prop (res_src r) v (df_upstreams d)\<rparr>
         in if mode \<noteq> ''channel'' then d1\<lparr>df_current := v\<rparr> else d1))"

definition mark_one :: "string \<Rightarrow> string \<Rightarrow> differences \<Rightarrow> string \<times> resolution \<Rightarrow> differences" where
  "mark_one mode model ds x =
     (case x of (k, r) \<Rightarrow>
        (case map_of ds model of
           None \<Rightarrow> ds
         | Some ts \<Rightarrow>
             (case map_of ts (chosen_type k r) of
                None \<Rightarrow> ds
              | Some d \<Rightarrow> set_prop model (set_prop (chosen_type k r) (mark_diff mode r d) ts) ds)))"

definition mark_synced :: "string \<Rightarrow> selections \<Rightarrow> differences \<Rightarrow> differences" where
  "mark_synced mode sel ds =
     foldl (\<lambda>acc (model, rs). foldl (mark_one mode model) acc (prop_entries rs))
       (map (\<lambda>(m, ts). (m, map (\<lambda>(rt, d). (rt, clone_diff d)) ts)) ds) (prop_entries sel)"

text \<open>
  The end of the writes of a save: the success of each, or nothing if one of them failed. The code works
  with the selection and the mode of the moment the save was started. Unchecking a cell while the writes
  run would edit the object that the save refers to as well, so that the cell is not marked as saved;
  here the save keeps the selection it was started with.
\<close>

definition sync_saved :: "translate \<Rightarrow> nat \<Rightarrow> bool list option \<Rightarrow> upstream_state \<Rightarrow> upstream_state" where
  "sync_saved t j results s =
     (case nth_opt (sy_saves s) j of
        None \<Rightarrow> s
      | Some (mode, sel, _) \<Rightarrow>
          (let s1 = s\<lparr>sy_saves := remove_at j (sy_saves s)\<rparr>;
               s2 = (case results of
                       None \<Rightarrow> tell (Sync_Error (t msg_us_save_failed [])) s1
                     | Some oks \<Rightarrow>
                         if list_all (\<lambda>x. x) oks
                         then (tell (Sync_Success (t msg_us_synced [])) s1)\<lparr>sy_diffs := mark_synced mode sel (sy_diffs s1), sy_sel := []\<rparr>
                         else tell (Sync_Error (t msg_us_partly [])) s1)
           in s2\<lparr>sy_loading := False\<rparr>))"

section \<open>Texts of the table\<close>

definition getModelRatioForDisplay :: "upstream_state \<Rightarrow> string \<Rightarrow> string option \<Rightarrow> string \<Rightarrow> jsnum option" where
  "getModelRatioForDisplay s model upName mode =
     (case (case map_of (sy_diffs s) model of Some ts \<Rightarrow> map_of ts ''model_ratio'' | None \<Rightarrow> None) of
        None \<Rightarrow> None
      | Some d \<Rightarrow>
          (let u = (case upName of Some x \<Rightarrow> x | None \<Rightarrow> ''null'');
               v = (if mode = ''old'' then at_key (opt_list (df_old d)) u else if mode = ''new'' then at_key (df_upstreams d) u else Undef)
           in if \<not> nullish v then toFiniteNumber v else toFiniteNumber (df_current d)))"

definition times_ratio :: "jsval \<Rightarrow> jsnum option \<Rightarrow> jsnum option" where
  "times_ratio v inputRatio =
     (case (toFiniteNumber v, inputRatio) of (Some c, Some r) \<Rightarrow> ratioToDisplayPrice (Num (js_mul c r)) | _ \<Rightarrow> None)"

definition derived_type :: "string \<Rightarrow> bool" where
  "derived_type rt \<longleftrightarrow> rt \<in> {''completion_ratio'', ''cache_ratio'', ''create_cache_ratio''}"

definition price_text :: "string \<Rightarrow> jsnum option \<Rightarrow> cell" where
  "price_text none p = Plain (case p of None \<Rightarrow> none | Some n \<Rightarrow> CHR ''$'' # formatPriceNumber (Num n))"

definition formatCurrentDisplayValue :: "translate \<Rightarrow> upstream_state \<Rightarrow> row \<Rightarrow> cell" where
  "formatCurrentDisplayValue t s r =
     (if nullish (rw_current r) then Plain (t msg_us_unset [])
      else if rw_type r = ''model_ratio'' then price_text (t msg_us_unset []) (ratioToDisplayPrice (rw_current r))
      else if derived_type (rw_type r)
      then price_text (t msg_us_unset []) (times_ratio (rw_current r) (getModelRatioForDisplay s (rw_model r) None ''current''))
      else renderCellValue (rw_current r))"

definition formatUpstreamSingleDisplay :: "upstream_state \<Rightarrow> row \<Rightarrow> string \<Rightarrow> cell" where
  "formatUpstreamSingleDisplay s r upName =
     (let newVal = at_key (rw_upstreams r) upName in
      if rw_type r = ''model_ratio'' then price_text lbl_us_dash (ratioToDisplayPrice newVal)
      else if derived_type (rw_type r)
      then price_text lbl_us_dash (times_ratio newVal (getModelRatioForDisplay s (rw_model r) (Some upName) ''new''))
      else renderCellValue newVal)"

definition formatUpstreamPairDisplay :: "translate \<Rightarrow> upstream_state \<Rightarrow> row \<Rightarrow> string \<Rightarrow> cell" where
  "formatUpstreamPairDisplay t s r upName =
     (let oldVal = getSelectableOldValue s upName r; newVal = at_key (rw_upstreams r) upName;
          ratio_for = getModelRatioForDisplay s (rw_model r) (Some upName) in
      if sy_mode s = ''official'' then formatUpstreamSingleDisplay s r upName
      else if rw_type r = ''model_ratio''
      then Plain (formatChannelPriceOldNewPair (number_or_null (ratioToDisplayPrice oldVal)) (number_or_null (ratioToDisplayPrice newVal)))
      else if derived_type (rw_type r)
      then Plain (formatChannelPriceOldNewPair (number_or_null (times_ratio oldVal (ratio_for ''old'')))
                    (number_or_null (times_ratio newVal (ratio_for ''new''))))
      else renderChannelOldNewPair t oldVal newVal)"

section \<open>Events\<close>

datatype sync_event =
    Channels_Read "jsval list reply"
  | Models_Enabled "string list"
  | Open_Official bool
  | Open_Channel bool
  | Pick_Official "jsval list"
  | Pick_Channel "jsval list"
  | Set_Endpoint string string
  | Confirm_Official
  | Confirm_Channel
  | Names_Read "(string \<times> jsval reply) list"
  | Ratios_Read nat "(differences \<times> jsval list) reply"
  | Check_Cell "jsval \<Rightarrow> jsval \<Rightarrow> bool" row string bool
  | Check_Column "jsval \<Rightarrow> jsval \<Rightarrow> bool" string bool
  | Search string
  | Filter_Type string
  | Turn_Page nat nat
  | Apply
  | Confirm_Conflicts
  | Cancel_Conflicts
  | Saved nat "bool list option"
  | New_Options "string \<Rightarrow> string option"

primrec sync_step :: "translate \<Rightarrow> sync_event \<Rightarrow> upstream_state \<Rightarrow> upstream_state res" where
  "sync_step t (Channels_Read r) s = Ok (fetchAllChannels t r s)"
| "sync_step t (Models_Enabled ms) s = Ok (s\<lparr>sy_enabled := ms\<rparr>)"
| "sync_step t (Open_Official b) s = Ok (s\<lparr>sy_official_open := b\<rparr>)"
| "sync_step t (Open_Channel b) s = Ok (s\<lparr>sy_channel_open := b\<rparr>)"
| "sync_step t (Pick_Official ids) s = Ok (s\<lparr>sy_official_ids := ids\<rparr>)"
| "sync_step t (Pick_Channel ids) s = Ok (s\<lparr>sy_channel_ids := ids\<rparr>)"
| "sync_step t (Set_Endpoint k e) s = Ok (updateChannelEndpoint k e s)"
| "sync_step t Confirm_Official s = Ok (confirmOfficialSelection t s)"
| "sync_step t Confirm_Channel s = Ok (confirmChannelSelection t s)"
| "sync_step t (Names_Read rs) s = Ok (loadChannelModelNamesForChannels t rs s)"
| "sync_step t (Ratios_Read j r) s =
     Ok (case nth_opt (sy_fetches s) j of
           None \<Rightarrow> s
         | Some (mode, _) \<Rightarrow> ratios_fetched t mode r (s\<lparr>sy_fetches := remove_at j (sy_fetches s)\<rparr>))"
| "sync_step t (Check_Cell same r up b) s = Ok (handleCellCheck same r up b s)"
| "sync_step t (Check_Column same up b) s = Ok (handleBulkSelect same up b s)"
| "sync_step t (Search w) s = Ok (s\<lparr>sy_search := w, sy_page := (if w = sy_search s then sy_page s else 1)\<rparr>)"
| "sync_step t (Filter_Type w) s = Ok (s\<lparr>sy_filter := w, sy_page := (if w = sy_filter s then sy_page s else 1)\<rparr>)"
| "sync_step t (Turn_Page p n) s = Ok (s\<lparr>sy_page := p, sy_size := n\<rparr>)"
| "sync_step t Apply s = (if sy_sel s = [] then Ok s else applySync t s)"
| "sync_step t Confirm_Conflicts s = (case confirmSync t s of Ok s' \<Rightarrow> Ok s' | Throw _ \<Rightarrow> Ok (s\<lparr>sy_confirm := False\<rparr>))"
| "sync_step t Cancel_Conflicts s = Ok (s\<lparr>sy_confirm := False\<rparr>)"
| "sync_step t (Saved j rs) s = Ok (sync_saved t j rs s)"
| "sync_step t (New_Options opts) s = Ok (s\<lparr>sy_options := opts\<rparr>)"

text \<open>A sequence of events; a step that throws leaves the state as it was.\<close>

primrec run_sync :: "translate \<Rightarrow> sync_event list \<Rightarrow> upstream_state \<Rightarrow> upstream_state" where
  "run_sync t [] s = s"
| "run_sync t (e # es) s = run_sync t es (case sync_step t e s of Ok s' \<Rightarrow> s' | Throw _ \<Rightarrow> s)"

end
