(* ===== verification/Upstream_Prices.thy ===== *)
theory Upstream_Prices
  imports Upstream_Sync
begin

text \<open>
  What applying a selection does to the price lists of \<^verbatim>\<open>UpstreamRatioSync.jsx\<close>. The lists are a table
  of prices by target, kind and model; the locale has the laws of setting and dropping one entry and
  proves the effect of the loops over them, and the lists of the page are an instance.
\<close>

section \<open>Price lists as a table\<close>

text \<open>A table of prices by target, kind and model, in which single entries are set and dropped.\<close>

locale price_lists =
  fixes good :: "'m \<Rightarrow> bool" and look :: "'m \<Rightarrow> string option \<Rightarrow> string \<Rightarrow> string \<Rightarrow> jsval"
    and put :: "string option \<Rightarrow> string \<Rightarrow> string \<Rightarrow> jsval \<Rightarrow> 'm \<Rightarrow> 'm res"
    and drop_at :: "string option \<Rightarrow> string \<Rightarrow> 'm \<Rightarrow> string \<Rightarrow> 'm res" and kinds :: "string set"
  assumes put_law: "good m \<Longrightarrow> kind \<in> kinds \<Longrightarrow> \<exists>m'. put tg kind model v m = Ok m' \<and> good m' \<and>
      (\<forall>tg' k md. k \<in> kinds \<longrightarrow> look m' tg' k md = (if tg' = tg \<and> k = kind \<and> md = model then v else look m tg' k md))"
    and drop_law: "good m \<Longrightarrow> kind \<in> kinds \<Longrightarrow> \<exists>m'. drop_at tg model m kind = Ok m' \<and> good m' \<and>
      (\<forall>tg' k md. k \<in> kinds \<longrightarrow> look m' tg' k md = (if tg' = tg \<and> k = kind \<and> md = model then Undef else look m tg' k md))"
begin

lemma drop_all:
  assumes "good m" "set ks \<subseteq> kinds"
  shows "\<exists>m'. fold_res (drop_at tg model) m ks = Ok m' \<and> good m' \<and>
    (\<forall>tg' k md. k \<in> kinds \<longrightarrow> look m' tg' k md = (if tg' = tg \<and> k \<in> set ks \<and> md = model then Undef else look m tg' k md))"
  using assms
proof (induction ks arbitrary: m)
  case (Cons kind ks)
  obtain m1 where m1: "drop_at tg model m kind = Ok m1" "good m1"
    "\<forall>tg' k md. k \<in> kinds \<longrightarrow> look m1 tg' k md = (if tg' = tg \<and> k = kind \<and> md = model then Undef else look m tg' k md)"
    using drop_law [of m kind tg model] Cons.prems by auto
  obtain m2 where "fold_res (drop_at tg model) m1 ks = Ok m2" "good m2"
    "\<forall>tg' k md. k \<in> kinds \<longrightarrow> look m2 tg' k md = (if tg' = tg \<and> k \<in> set ks \<and> md = model then Undef else look m1 tg' k md)"
    using Cons.IH [OF m1(2)] Cons.prems by auto
  then show ?case using m1 by auto
qed auto

lemma put_all:
  assumes "good m" "distinct (map fst rs)" "inj_on f types" "f ` types \<subseteq> kinds" "fst ` set rs \<subseteq> types"
  shows "\<exists>m'. fold_res (\<lambda>acc (rt, v). put tg (f rt) model (g rt v) acc) m rs = Ok m' \<and> good m' \<and>
    (\<forall>tg' rt md. rt \<in> types \<longrightarrow> look m' tg' (f rt) md =
       (case map_of rs rt of Some v \<Rightarrow> if tg' = tg \<and> md = model then g rt v else look m tg' (f rt) md | None \<Rightarrow> look m tg' (f rt) md))"
  using assms
proof (induction rs arbitrary: m)
  case (Cons x rs)
  obtain rt0 v0 where x: "x = (rt0, v0)" by force
  have t0: "rt0 \<in> types" "f rt0 \<in> kinds" using Cons.prems x by auto
  obtain m1 where m1: "put tg (f rt0) model (g rt0 v0) m = Ok m1" "good m1"
    "\<forall>tg' k md. k \<in> kinds \<longrightarrow> look m1 tg' k md = (if tg' = tg \<and> k = f rt0 \<and> md = model then g rt0 v0 else look m tg' k md)"
    using put_law [OF Cons.prems(1) t0(2), of tg model "g rt0 v0"] by auto
  obtain m2 where m2: "fold_res (\<lambda>acc (rt, v). put tg (f rt) model (g rt v) acc) m1 rs = Ok m2" "good m2"
    "\<forall>tg' rt md. rt \<in> types \<longrightarrow> look m2 tg' (f rt) md =
       (case map_of rs rt of Some v \<Rightarrow> if tg' = tg \<and> md = model then g rt v else look m1 tg' (f rt) md | None \<Rightarrow> look m1 tg' (f rt) md)"
    using Cons.IH [OF m1(2)] Cons.prems by auto
  have fresh: "map_of rs rt0 = None" using Cons.prems(2) x by (simp add: map_of_eq_None_iff)
  have "look m2 tg' (f rt) md =
       (case map_of (x # rs) rt of Some v \<Rightarrow> if tg' = tg \<and> md = model then g rt v else look m tg' (f rt) md | None \<Rightarrow> look m tg' (f rt) md)"
    if "rt \<in> types" for tg' rt md
  proof (cases "rt = rt0")
    case True
    then show ?thesis using m2(3) m1(3) that fresh x t0 by simp
  next
    case False
    then have "f rt \<noteq> f rt0" "f rt \<in> kinds" using Cons.prems(3,4) that t0(1) by (auto dest: inj_onD)
    then have "look m1 tg' (f rt) md = look m tg' (f rt) md" using m1(3) by simp
    then show ?thesis using m2(3) [rule_format, OF that, of tg' md] False x by (cases "map_of rs rt") auto
  qed
  then show ?case using m1(1) m2(1,2) x by simp
qed auto

end

section \<open>The lists of the page\<close>

definition scope_ok :: "jsval \<Rightarrow> bool" where
  "scope_ok w \<longleftrightarrow> \<not> truthy w \<or> (\<exists>ps. w = Obj ps)"

definition lists_ok :: "maps \<times> maps \<Rightarrow> bool" where
  "lists_ok gc \<longleftrightarrow>
     (\<forall>k \<in> set GLOBAL_KEYS. (\<exists>ps. map_of (fst gc) k = Some (Obj ps)) \<and>
        (\<exists>ps. map_of (snd gc) (''Channel'' @ k) = Some (Obj ps) \<and> (\<forall>i. scope_ok (get (Obj ps) i))))"

lemma get_scope_falsy: "\<not> truthy w \<Longrightarrow> get w k = Undef"
  by (cases w) (auto simp: get_def)

lemma assign_Obj [simp]: "assign (Obj ps) k v = Ok (Obj (set_prop k v ps))"
  by (simp add: assign_def)

lemma unassign_Obj [simp]: "unassign (Obj ps) k = Obj (delete_prop k ps)"
  by (simp add: unassign_def)

lemma scope_obj: "scope_ok w \<Longrightarrow> \<exists>qs. (if truthy w then w else Obj []) = Obj qs \<and> (\<forall>m. get (Obj qs) m = get w m)"
  by (auto simp: scope_ok_def get_scope_falsy)

lemma lists_okD:
  assumes "lists_ok gc" "k \<in> set GLOBAL_KEYS"
  obtains ps qs where "map_of (fst gc) k = Some (Obj ps)" "map_of (snd gc) (''Channel'' @ k) = Some (Obj qs)" "\<And>i. scope_ok (get (Obj qs) i)"
  using assms unfolding lists_ok_def by blast

lemma lists_ok_channel:
  assumes "lists_ok gc" "map_of (snd gc) (''Channel'' @ kind) = Some (Obj qs)" "\<And>i. scope_ok (get (Obj qs) i)" "scope_ok w"
  shows "lists_ok (fst gc, set_prop (''Channel'' @ kind) (Obj (set_prop i w qs)) (snd gc))"
  using assms unfolding lists_ok_def by auto

lemma put_price_law:
  assumes "lists_ok gc" "kind \<in> set GLOBAL_KEYS"
  shows "\<exists>gc'. put_price_at tg kind model v gc = Ok gc' \<and> lists_ok gc' \<and>
      (\<forall>tg' k md. k \<in> set GLOBAL_KEYS \<longrightarrow> price_at gc' tg' k md = (if tg' = tg \<and> k = kind \<and> md = model then v else price_at gc tg' k md))"
proof -
  obtain ps qs where p: "map_of (fst gc) kind = Some (Obj ps)" and q: "map_of (snd gc) (''Channel'' @ kind) = Some (Obj qs)" "\<And>i. scope_ok (get (Obj qs) i)"
    using lists_okD [OF assms] by blast
  show ?thesis
  proof (cases tg)
    case None
    then have "put_price_at tg kind model v gc = Ok (set_prop kind (Obj (set_prop model v ps)) (fst gc), snd gc)"
      using p by (simp add: put_price_at_def at_key_def)
    moreover have "lists_ok (set_prop kind (Obj (set_prop model v ps)) (fst gc), snd gc)"
      using assms(1) by (auto simp: lists_ok_def)
    ultimately show ?thesis using None p by (auto simp: price_at_def at_key_def split: option.splits)
  next
    case (Some i)
    obtain rs where r: "(if truthy (get (Obj qs) i) then get (Obj qs) i else Obj []) = Obj rs" "\<And>m. get (Obj rs) m = get (get (Obj qs) i) m"
      using scope_obj [OF q(2) [of i]] by blast
    let ?c = "set_prop (''Channel'' @ kind) (Obj (set_prop i (Obj (set_prop model v rs)) qs)) (snd gc)"
    have "put_price_at tg kind model v gc = Ok (fst gc, ?c)"
      unfolding put_price_at_def Some option.case q(1) Let_def r(1) by simp
    moreover have "lists_ok (fst gc, ?c)" using assms(1) q by (intro lists_ok_channel) (auto simp: scope_ok_def)
    moreover have "price_at (fst gc, ?c) tg' k md = (if tg' = tg \<and> k = kind \<and> md = model then v else price_at gc tg' k md)" for tg' k md
      using Some q(1) r(2) [of md] by (auto simp: price_at_def at_key_def split: option.splits)
    ultimately show ?thesis by blast
  qed
qed


lemma drop_price_law:
  assumes "lists_ok gc" "kind \<in> set GLOBAL_KEYS"
  shows "\<exists>gc'. drop_price_at tg model gc kind = Ok gc' \<and> lists_ok gc' \<and>
      (\<forall>tg' k md. k \<in> set GLOBAL_KEYS \<longrightarrow> price_at gc' tg' k md = (if tg' = tg \<and> k = kind \<and> md = model then Undef else price_at gc tg' k md))"
proof -
  obtain ps qs where p: "map_of (fst gc) kind = Some (Obj ps)" and q: "map_of (snd gc) (''Channel'' @ kind) = Some (Obj qs)" "\<And>i. scope_ok (get (Obj qs) i)"
    using lists_okD [OF assms] by blast
  show ?thesis
  proof (cases tg)
    case None
    then have "drop_price_at tg model gc kind = Ok (set_prop kind (Obj (delete_prop model ps)) (fst gc), snd gc)"
      using p by (simp add: drop_price_at_def at_key_def)
    moreover have "lists_ok (set_prop kind (Obj (delete_prop model ps)) (fst gc), snd gc)"
      using assms(1) by (auto simp: lists_ok_def)
    ultimately show ?thesis using None p by (auto simp: price_at_def at_key_def split: option.splits)
  next
    case (Some i)
    have s: "at_key (snd gc) (''Channel'' @ kind) = Obj qs" using q(1) by (simp add: at_key_def)
    show ?thesis
    proof (cases "truthy (get (Obj qs) i)")
      case True
      then obtain rs where r: "get (Obj qs) i = Obj rs" using q(2) [of i] by (auto simp: scope_ok_def)
      let ?c = "set_prop (''Channel'' @ kind) (Obj (set_prop i (Obj (delete_prop model rs)) qs)) (snd gc)"
      have "drop_price_at tg model gc kind = Ok (fst gc, ?c)"
        unfolding drop_price_at_def Some option.case Let_def s r by simp
      moreover have "lists_ok (fst gc, ?c)" using assms(1) q by (intro lists_ok_channel) (auto simp: scope_ok_def)
      moreover have "price_at (fst gc, ?c) tg' k md = (if tg' = tg \<and> k = kind \<and> md = model then Undef else price_at gc tg' k md)" for tg' k md
        using Some q(1) r by (auto simp: price_at_def at_key_def split: option.splits)
      ultimately show ?thesis by blast
    next
      case False
      then have "drop_price_at tg model gc kind = Ok gc" unfolding drop_price_at_def Some option.case Let_def s by simp
      moreover have "price_at gc tg kind model = Undef" using False Some s get_scope_falsy by (simp add: price_at_def)
      ultimately show ?thesis using assms(1) by auto
    qed
  qed
qed

interpretation prices: price_lists lists_ok price_at put_price_at drop_price_at "set GLOBAL_KEYS"
  using put_price_law drop_price_law by unfold_locales

section \<open>The effect of a group\<close>

definition RATIO_TYPES :: "string list" where
  "RATIO_TYPES = [''model_ratio'', ''completion_ratio'', ''cache_ratio'', ''create_cache_ratio'', ''model_price'', ''model_tier_ratio'',
     ''completion_tier_ratio'', ''cache_tier_ratio'', ''create_cache_tier_ratio'']"

lemma pascal_word:
  assumes "list_all ascii w"
  shows "(case chars w of [] \<Rightarrow> [] | c # cs \<Rightarrow> to_upper c @ concat cs) = (case w of [] \<Rightarrow> [] | c # cs \<Rightarrow> upper_ascii c # cs)"
proof (cases w)
  case (Cons c cs)
  have "map_of upper_special [c] = None" by (simp add: upper_special_def)
  moreover have "chars w = map (\<lambda>c. [c]) w" using assms by (intro chars_ascii) (auto simp: list_all_iff)
  moreover have "chars [c] = [[c]]" by simp
  moreover have "concat (map (\<lambda>c. [c]) cs) = cs" by (induction cs) auto
  ultimately show ?thesis using Cons by (simp add: to_upper_def)
qed simp

lemma pascal_ascii:
  "list_all (list_all ascii) (split_on CHR ''_'' rt) \<Longrightarrow>
   ratioTypeToPascal rt = concat (map (case_list [] (\<lambda>c cs. upper_ascii c # cs)) (split_on CHR ''_'' rt))"
  unfolding ratioTypeToPascal_def by (intro arg_cong [where f = concat] map_cong) (auto simp: list_all_iff pascal_word)

lemma pascal_types: "map ratioTypeToPascal RATIO_TYPES = GLOBAL_KEYS"
  unfolding RATIO_TYPES_def GLOBAL_KEYS_def list.map
  by (simp add: pascal_ascii ascii_def upper_ascii_def) code_simp

lemma pascal_simps [simp]:
  "ratioTypeToPascal ''model_ratio'' = ''ModelRatio''" "ratioTypeToPascal ''completion_ratio'' = ''CompletionRatio''"
  "ratioTypeToPascal ''cache_ratio'' = ''CacheRatio''" "ratioTypeToPascal ''create_cache_ratio'' = ''CreateCacheRatio''"
  "ratioTypeToPascal ''model_price'' = ''ModelPrice''" "ratioTypeToPascal ''model_tier_ratio'' = ''ModelTierRatio''"
  "ratioTypeToPascal ''completion_tier_ratio'' = ''CompletionTierRatio''" "ratioTypeToPascal ''cache_tier_ratio'' = ''CacheTierRatio''"
  "ratioTypeToPascal ''create_cache_tier_ratio'' = ''CreateCacheTierRatio''"
  using pascal_types by (simp_all add: RATIO_TYPES_def GLOBAL_KEYS_def)

lemma pascal_image: "ratioTypeToPascal ` set RATIO_TYPES = set GLOBAL_KEYS"
  by (metis pascal_types set_map)

lemma pascal_inj: "inj_on ratioTypeToPascal (set RATIO_TYPES)"
  by (simp add: RATIO_TYPES_def inj_on_def)

lemma at_key_finite: "toFiniteNumber (at_key rs k) = Some x \<Longrightarrow> k \<in> fst ` set rs"
  by (cases "map_of rs k") (auto simp: at_key_def toFiniteNumber_def to_num_def dest: map_of_SomeD intro: rev_image_eqI)

lemma set_prop_present: "k \<in> fst ` set ps \<Longrightarrow> map fst (set_prop k v ps) = map fst ps"
  by (induction k v ps rule: set_prop.induct) auto

lemma normalized_input_keys: "map fst (snd (normalized_input b tg model rs)) = map fst rs"
  using at_key_finite [of rs "''model_ratio''"]
  by (auto simp: normalized_input_def Let_def set_prop_present split: option.splits)

lemma normalized_output_keys:
  "''completion_ratio'' \<in> fst ` set rs \<Longrightarrow> map fst (normalized_output e c rs) = map fst rs"
  by (simp add: normalized_output_def Let_def set_prop_present split: option.splits)

lemma normalized_keys: "map fst (normalizeRatioSelection b tg model rs) = map fst rs"
proof -
  obtain eff n1 where n: "normalized_input b tg model rs = (eff, n1)" by force
  then have k: "map fst n1 = map fst rs" using normalized_input_keys [of b tg model rs] by simp
  show ?thesis
  proof (cases "toFiniteNumber (at_key n1 ''completion_ratio'')")
    case None
    then show ?thesis using n k by (simp add: normalizeRatioSelection_def)
  next
    case (Some c)
    then have "map fst (normalized_output e c n1) = map fst rs" for e
      using normalized_output_keys [OF at_key_finite [OF Some]] k by simp
    then show ?thesis using n k Some by (cases eff) (simp_all add: normalizeRatioSelection_def)
  qed
qed

text \<open>What a group makes of a price: the selected value, nothing if the selection replaces it, or what it was.\<close>

definition group_value :: "baseline \<Rightarrow> string option \<Rightarrow> string \<Rightarrow> (string \<times> jsval) list \<Rightarrow> string \<Rightarrow> jsval \<Rightarrow> jsval" where
  "group_value b target model selected rt old =
     (let rs = normalizeRatioSelection b target model selected in
      case map_of rs rt of
        Some v \<Rightarrow> stored_price rt v
      | None \<Rightarrow>
          if hasPrice rs \<and> ratioTypeToPascal rt \<in> set (price_drops target) \<or> hasRatio rs \<and> rt = ''model_price'' then Undef else old)"

lemma apply_group_exact:
  assumes "lists_ok gc" "distinct (map fst (gr_ratios g))" "fst ` set (gr_ratios g) \<subseteq> set RATIO_TYPES"
  shows "\<exists>gc'. apply_group b model gc g = Ok gc' \<and> lists_ok gc' \<and>
    (\<forall>tg rt m. rt \<in> set RATIO_TYPES \<longrightarrow> price_at gc' tg (ratioTypeToPascal rt) m =
       (if tg = gr_target g \<and> m = model then group_value b tg model (gr_ratios g) rt (price_at gc tg (ratioTypeToPascal rt) m)
        else price_at gc tg (ratioTypeToPascal rt) m))"
proof -
  let ?t = "gr_target g" and ?rs = "normalizeRatioSelection b (gr_target g) model (gr_ratios g)" and ?K = "set GLOBAL_KEYS"
  have n: "map fst ?rs = map fst (gr_ratios g)" by (rule normalized_keys)
  have keys: "distinct (map fst ?rs)" "fst ` set ?rs \<subseteq> set RATIO_TYPES"
    using assms(2,3) unfolding set_map [symmetric] n by simp_all
  have "set (price_drops ?t) \<subseteq> ?K" by (cases ?t) (simp_all add: price_drops_def GLOBAL_KEYS_def)
  then have "\<exists>gc1. (if hasPrice ?rs then fold_res (drop_price_at ?t model) gc (price_drops ?t) else Ok gc) = Ok gc1 \<and> lists_ok gc1 \<and>
    (\<forall>tg k m. k \<in> ?K \<longrightarrow> price_at gc1 tg k m = (if hasPrice ?rs \<and> tg = ?t \<and> k \<in> set (price_drops ?t) \<and> m = model then Undef else price_at gc tg k m))"
    using prices.drop_all [OF assms(1), of "price_drops ?t" ?t model] assms(1) by (cases "hasPrice ?rs") simp_all
  then obtain gc1 where gc1: "(if hasPrice ?rs then fold_res (drop_price_at ?t model) gc (price_drops ?t) else Ok gc) = Ok gc1" "lists_ok gc1"
    "\<forall>tg k m. k \<in> ?K \<longrightarrow> price_at gc1 tg k m = (if hasPrice ?rs \<and> tg = ?t \<and> k \<in> set (price_drops ?t) \<and> m = model then Undef else price_at gc tg k m)"
    by blast
  have mp: "''ModelPrice'' \<in> ?K" by (simp add: GLOBAL_KEYS_def)
  have "\<exists>gc2. (if hasRatio ?rs then drop_price_at ?t model gc1 ''ModelPrice'' else Ok gc1) = Ok gc2 \<and> lists_ok gc2 \<and>
    (\<forall>tg k m. k \<in> ?K \<longrightarrow> price_at gc2 tg k m = (if hasRatio ?rs \<and> tg = ?t \<and> k = ''ModelPrice'' \<and> m = model then Undef else price_at gc1 tg k m))"
    using drop_price_law [OF gc1(2) mp, of ?t model] gc1(2) by (cases "hasRatio ?rs") simp_all
  then obtain gc2 where gc2: "(if hasRatio ?rs then drop_price_at ?t model gc1 ''ModelPrice'' else Ok gc1) = Ok gc2" "lists_ok gc2"
    "\<forall>tg k m. k \<in> ?K \<longrightarrow> price_at gc2 tg k m = (if hasRatio ?rs \<and> tg = ?t \<and> k = ''ModelPrice'' \<and> m = model then Undef else price_at gc1 tg k m)"
    by blast
  have pk: "distinct (map fst (prop_entries ?rs))" "fst ` set (prop_entries ?rs) \<subseteq> set RATIO_TYPES" "map_of (prop_entries ?rs) = map_of ?rs"
    using distinct_prop_entries [OF keys(1)] map_of_prop_entries [OF keys(1)] keys(2) unfolding set_prop_entries by blast+
  obtain gc3 where gc3: "fold_res (\<lambda>acc (rt, v). put_price_at ?t (ratioTypeToPascal rt) model (stored_price rt v) acc) gc2 (prop_entries ?rs) = Ok gc3"
    "lists_ok gc3" "\<forall>tg rt m. rt \<in> set RATIO_TYPES \<longrightarrow> price_at gc3 tg (ratioTypeToPascal rt) m =
       (case map_of ?rs rt of Some v \<Rightarrow> if tg = ?t \<and> m = model then stored_price rt v else price_at gc2 tg (ratioTypeToPascal rt) m
        | None \<Rightarrow> price_at gc2 tg (ratioTypeToPascal rt) m)"
    using prices.put_all [OF gc2(2) pk(1) pascal_inj equalityD1 [OF pascal_image] pk(2), of ?t model stored_price] unfolding pk(3) by blast
  have "apply_group b model gc g = Ok gc3"
    unfolding apply_group_def Let_def gc1(1) bind_res.simps gc2(1) by (rule gc3(1))
  moreover have "price_at gc3 tg (ratioTypeToPascal rt) m =
       (if tg = ?t \<and> m = model then group_value b tg model (gr_ratios g) rt (price_at gc tg (ratioTypeToPascal rt) m)
        else price_at gc tg (ratioTypeToPascal rt) m)" if rt: "rt \<in> set RATIO_TYPES" for tg rt m
  proof -
    have k: "ratioTypeToPascal rt \<in> ?K" using pascal_image rt by blast
    have "ratioTypeToPascal rt = ''ModelPrice'' \<longleftrightarrow> rt = ''model_price''"
      using inj_on_eq_iff [OF pascal_inj rt, of "''model_price''"] by (simp add: RATIO_TYPES_def)
    then show ?thesis
      using gc3(3) [rule_format, OF rt, of tg m] gc2(3) [rule_format, OF k, of tg m] gc1(3) [rule_format, OF k, of tg m]
      by (cases "map_of ?rs rt") (auto simp: group_value_def Let_def)
  qed
  ultimately show ?thesis using gc3(2) by blast
qed

section \<open>The effect of a selection\<close>

definition group_ok :: "group \<Rightarrow> bool" where
  "group_ok g \<longleftrightarrow> distinct (map fst (gr_ratios g)) \<and> fst ` set (gr_ratios g) \<subseteq> set RATIO_TYPES"

lemma targets_add: "set (map gr_target (add_to_group tg rt v src gs)) = insert tg (set (map gr_target gs))"
  by (induction gs) auto

lemma add_to_group_ok:
  assumes "distinct (map gr_target gs)" "\<forall>g \<in> set gs. group_ok g" "rt \<in> set RATIO_TYPES"
  shows "distinct (map gr_target (add_to_group tg rt v src gs)) \<and> (\<forall>g \<in> set (add_to_group tg rt v src gs). group_ok g)"
  using assms
proof (induction gs)
  case (Cons g gs)
  show ?case
  proof (cases "gr_target g = tg")
    case True
    then show ?thesis using Cons.prems by (auto simp: group_ok_def set_prop_distinct set_prop_keys)
  next
    case False
    have "gr_target g \<notin> set (map gr_target (add_to_group tg rt v src gs))" using False Cons.prems(1) unfolding targets_add by simp
    then show ?thesis using False Cons by auto
  qed
qed (simp add: group_ok_def)

lemma groups_of_ok:
  assumes "\<forall>(k, r) \<in> set rs. chosen_type k r \<in> set RATIO_TYPES"
  shows "distinct (map gr_target (groups_of mode rs)) \<and> (\<forall>g \<in> set (groups_of mode rs). group_ok g)"
proof -
  let ?f = "\<lambda>gs (k, r). add_to_group (target_of mode (chosen_src k r)) (chosen_type k r) (res_value r) (chosen_src k r) gs"
  have step: "distinct (map gr_target (foldl ?f gs xs)) \<and> (\<forall>g \<in> set (foldl ?f gs xs). group_ok g)"
    if "distinct (map gr_target gs) \<and> (\<forall>g \<in> set gs. group_ok g)" "\<forall>(k, r) \<in> set xs. chosen_type k r \<in> set RATIO_TYPES" for gs xs
    using that
  proof (induction xs arbitrary: gs)
    case (Cons x xs)
    obtain k r where "x = (k, r)" by force
    moreover have "distinct (map gr_target gs)" "\<forall>g \<in> set gs. group_ok g" "chosen_type k r \<in> set RATIO_TYPES"
      using Cons.prems calculation by auto
    from add_to_group_ok [OF this] have "distinct (map gr_target (?f gs (k, r))) \<and> (\<forall>g \<in> set (?f gs (k, r)). group_ok g)" by simp
    ultimately show ?case using Cons.IH [of "?f gs (k, r)"] Cons.prems by simp
  qed simp
  show ?thesis unfolding groups_of_def by (rule step) (use assms in \<open>simp_all add: set_prop_entries\<close>)
qed

lemma apply_groups_exact:
  assumes "lists_ok gc" "distinct (map gr_target gs)" "\<forall>g \<in> set gs. group_ok g"
  shows "\<exists>gc'. fold_res (apply_group b model) gc gs = Ok gc' \<and> lists_ok gc' \<and>
    (\<forall>tg rt m. rt \<in> set RATIO_TYPES \<longrightarrow> price_at gc' tg (ratioTypeToPascal rt) m =
       (case find (\<lambda>g. gr_target g = tg) gs of
          None \<Rightarrow> price_at gc tg (ratioTypeToPascal rt) m
        | Some g \<Rightarrow> if m = model then group_value b tg model (gr_ratios g) rt (price_at gc tg (ratioTypeToPascal rt) m)
                    else price_at gc tg (ratioTypeToPascal rt) m))"
  using assms
proof (induction gs arbitrary: gc)
  case (Cons g gs)
  obtain gc1 where gc1: "apply_group b model gc g = Ok gc1" "lists_ok gc1"
    "\<forall>tg rt m. rt \<in> set RATIO_TYPES \<longrightarrow> price_at gc1 tg (ratioTypeToPascal rt) m =
       (if tg = gr_target g \<and> m = model then group_value b tg model (gr_ratios g) rt (price_at gc tg (ratioTypeToPascal rt) m)
        else price_at gc tg (ratioTypeToPascal rt) m)"
    using apply_group_exact [OF Cons.prems(1), of g b model] Cons.prems(3) by (auto simp: group_ok_def)
  obtain gc2 where gc2: "fold_res (apply_group b model) gc1 gs = Ok gc2" "lists_ok gc2"
    "\<forall>tg rt m. rt \<in> set RATIO_TYPES \<longrightarrow> price_at gc2 tg (ratioTypeToPascal rt) m =
       (case find (\<lambda>g. gr_target g = tg) gs of
          None \<Rightarrow> price_at gc1 tg (ratioTypeToPascal rt) m
        | Some g \<Rightarrow> if m = model then group_value b tg model (gr_ratios g) rt (price_at gc1 tg (ratioTypeToPascal rt) m)
                    else price_at gc1 tg (ratioTypeToPascal rt) m)"
    using Cons.IH [OF gc1(2)] Cons.prems by auto
  have none: "find (\<lambda>h. gr_target h = gr_target g) gs = None" using Cons.prems(2) by (simp add: find_None_iff) (metis image_eqI)
  have "price_at gc2 tg (ratioTypeToPascal rt) m =
       (case find (\<lambda>h. gr_target h = tg) (g # gs) of
          None \<Rightarrow> price_at gc tg (ratioTypeToPascal rt) m
        | Some h \<Rightarrow> if m = model then group_value b tg model (gr_ratios h) rt (price_at gc tg (ratioTypeToPascal rt) m)
                    else price_at gc tg (ratioTypeToPascal rt) m)" if rt: "rt \<in> set RATIO_TYPES" for tg rt m
    using gc2(3) [rule_format, OF rt, of tg m] gc1(3) [rule_format, OF rt, of tg m] none
    by (cases "tg = gr_target g") (auto split: option.splits)
  then show ?case using gc1(1) gc2(1,2) by auto
qed auto

text \<open>What was checked for a model and a target.\<close>

definition chosen_for :: "string \<Rightarrow> selections \<Rightarrow> string option \<Rightarrow> string \<Rightarrow> (string \<times> jsval) list option" where
  "chosen_for mode sel tg model =
     (case map_of sel model of
        None \<Rightarrow> None
      | Some rs \<Rightarrow> map_option gr_ratios (find (\<lambda>g. gr_target g = tg) (groups_of mode rs)))"

definition types_known :: "selections \<Rightarrow> bool" where
  "types_known sel \<longleftrightarrow> (\<forall>(model, rs) \<in> set sel. \<forall>(k, r) \<in> set rs. chosen_type k r \<in> set RATIO_TYPES)"

lemma apply_models_exact:
  assumes "lists_ok gc" "distinct (map fst xs)" "types_known xs"
  shows "\<exists>gc'. fold_res (apply_model b mode) gc xs = Ok gc' \<and> lists_ok gc' \<and>
    (\<forall>tg rt m. rt \<in> set RATIO_TYPES \<longrightarrow> price_at gc' tg (ratioTypeToPascal rt) m =
       (case chosen_for mode xs tg m of
          None \<Rightarrow> price_at gc tg (ratioTypeToPascal rt) m
        | Some rs \<Rightarrow> group_value b tg m rs rt (price_at gc tg (ratioTypeToPascal rt) m)))"
  using assms
proof (induction xs arbitrary: gc)
  case (Cons x xs)
  obtain model rs where x: "x = (model, rs)" by force
  have ok: "distinct (map gr_target (groups_of mode rs)) \<and> (\<forall>g \<in> set (groups_of mode rs). group_ok g)"
    using Cons.prems(3) x by (intro groups_of_ok) (auto simp: types_known_def)
  obtain gc1 where gc1: "fold_res (apply_group b model) gc (groups_of mode rs) = Ok gc1" "lists_ok gc1"
    "\<forall>tg rt m. rt \<in> set RATIO_TYPES \<longrightarrow> price_at gc1 tg (ratioTypeToPascal rt) m =
       (case find (\<lambda>g. gr_target g = tg) (groups_of mode rs) of
          None \<Rightarrow> price_at gc tg (ratioTypeToPascal rt) m
        | Some g \<Rightarrow> if m = model then group_value b tg model (gr_ratios g) rt (price_at gc tg (ratioTypeToPascal rt) m)
                    else price_at gc tg (ratioTypeToPascal rt) m)"
    using apply_groups_exact [OF Cons.prems(1), of "groups_of mode rs" b model] ok by blast
  obtain gc2 where gc2: "fold_res (apply_model b mode) gc1 xs = Ok gc2" "lists_ok gc2"
    "\<forall>tg rt m. rt \<in> set RATIO_TYPES \<longrightarrow> price_at gc2 tg (ratioTypeToPascal rt) m =
       (case chosen_for mode xs tg m of
          None \<Rightarrow> price_at gc1 tg (ratioTypeToPascal rt) m
        | Some rs \<Rightarrow> group_value b tg m rs rt (price_at gc1 tg (ratioTypeToPascal rt) m))"
    using Cons.IH [OF gc1(2)] Cons.prems by (auto simp: types_known_def)
  have none: "chosen_for mode xs tg model = None" for tg
  proof -
    have "map_of xs model = None" using Cons.prems(2) x by (simp add: map_of_eq_None_iff)
    then show ?thesis by (simp add: chosen_for_def)
  qed
  have "price_at gc2 tg (ratioTypeToPascal rt) m =
       (case chosen_for mode (x # xs) tg m of
          None \<Rightarrow> price_at gc tg (ratioTypeToPascal rt) m
        | Some rs \<Rightarrow> group_value b tg m rs rt (price_at gc tg (ratioTypeToPascal rt) m))" if rt: "rt \<in> set RATIO_TYPES" for tg rt m
  proof (cases "m = model")
    case True
    then show ?thesis
      using gc2(3) [rule_format, OF rt, of tg m] gc1(3) [rule_format, OF rt, of tg m] none [of tg] x
      by (simp add: chosen_for_def split: option.splits)
  next
    case False
    then have "chosen_for mode (x # xs) tg m = chosen_for mode xs tg m" using x by (simp add: chosen_for_def)
    then show ?thesis
      using gc2(3) [rule_format, OF rt, of tg m] gc1(3) [rule_format, OF rt, of tg m] False by (simp split: option.splits)
  qed
  moreover have "fold_res (apply_model b mode) gc (x # xs) = Ok gc2"
    using gc1(1) gc2(1) x by (simp add: apply_model_def [of b mode gc])
  ultimately show ?case using gc2(2) by blast
qed (auto simp: chosen_for_def)

section \<open>The options as lists\<close>

lemma parseNestedOption_ok: "\<exists>ps. parseNestedOption x = Obj ps \<and> json_ok (Obj ps)"
proof (cases "json_parse (case x of None \<Rightarrow> ''{}'' | Some s \<Rightarrow> if s = [] then ''{}'' else s)")
  case (Ok p)
  then have "json_ok p" by (rule json_parse_ok)
  then show ?thesis using Ok by (cases p) (simp_all add: parseNestedOption_def)
qed (simp add: parseNestedOption_def)

text \<open>Every entry of a channel option is an object, or falsy.\<close>

definition channel_lists :: "(string \<Rightarrow> string option) \<Rightarrow> bool" where
  "channel_lists options \<longleftrightarrow> (\<forall>k \<in> set CHANNEL_PRICING_OPTION_KEYS. \<forall>i. scope_ok (get (parseNestedOption (options k)) i))"

lemma channel_keys: "set CHANNEL_PRICING_OPTION_KEYS = (\<lambda>k. ''Channel'' @ k) ` set GLOBAL_KEYS"
  by (auto simp: CHANNEL_PRICING_OPTION_KEYS_def GLOBAL_KEYS_def)

lemma map_of_table: "map_of (map (\<lambda>k. (k, f k)) ks) k = (if k \<in> set ks then Some (f k) else None)"
  by (induction ks) auto

lemma scope_ok_canon: "scope_ok w \<Longrightarrow> scope_ok (canon w)"
  by (cases w) (auto simp: scope_ok_def)

definition copied :: "string option \<Rightarrow> jsval \<Rightarrow> jsval" where
  "copied tg v = (if tg = None then v else canon v)"

lemma clone_baseline:
  "clone_maps (bl_channel (buildPricingBaseline options)) =
     Ok (map (\<lambda>k. (k, canon (parseNestedOption (options k)))) CHANNEL_PRICING_OPTION_KEYS)"
proof -
  have "cloneDeep (parseNestedOption x) = Ok (canon (parseNestedOption x))" for x
    using parseNestedOption_ok [of x] json_parse_stringify unfolding cloneDeep_def by metis
  then have "map_all_res (\<lambda>(k, v). bind_res (cloneDeep v) (\<lambda>v'. Ok (k, v'))) (map (\<lambda>k. (k, parseNestedOption (options k))) ks) =
      Ok (map (\<lambda>k. (k, canon (parseNestedOption (options k)))) ks)" for ks
    by (induction ks) simp_all
  then show ?thesis by (simp add: clone_maps_def buildPricingBaseline_def)
qed

lemma start_lists:
  assumes "channel_lists options"
  shows "lists_ok (bl_global (buildPricingBaseline options), map (\<lambda>k. (k, canon (parseNestedOption (options k)))) CHANNEL_PRICING_OPTION_KEYS)"
proof -
  have "\<exists>ps. canon (parseNestedOption (options (''Channel'' @ k))) = Obj ps \<and> (\<forall>i. scope_ok (get (Obj ps) i))" if "k \<in> set GLOBAL_KEYS" for k
  proof -
    obtain ps where p: "parseNestedOption (options (''Channel'' @ k)) = Obj ps" "json_ok (Obj ps)" using parseNestedOption_ok by blast
    obtain qs where q: "canon (Obj ps) = Obj qs" by simp
    have "scope_ok (get (Obj qs) i)" for i
    proof -
      have "''Channel'' @ k \<in> set CHANNEL_PRICING_OPTION_KEYS" using that unfolding channel_keys by blast
      then have "scope_ok (get (Obj ps) i)" using assms p(1) unfolding channel_lists_def by metis
      then have "scope_ok (canon (get (Obj ps) i))" by (rule scope_ok_canon)
      then show ?thesis using get_canon [OF p(2), of i] unfolding q by simp
    qed
    then show ?thesis using p(1) q by auto
  qed
  moreover have "\<exists>ps. parseNestedOption (options k) = Obj ps" for k using parseNestedOption_ok by blast
  ultimately show ?thesis
    unfolding lists_ok_def by (simp add: buildPricingBaseline_def map_of_table channel_keys image_iff)
qed

lemma start_price:
  assumes "kind \<in> set GLOBAL_KEYS"
  shows "price_at (bl_global (buildPricingBaseline options), map (\<lambda>k. (k, canon (parseNestedOption (options k)))) CHANNEL_PRICING_OPTION_KEYS) tg kind m =
    copied tg (price_at (bl_global (buildPricingBaseline options), bl_channel (buildPricingBaseline options)) tg kind m)"
proof (cases tg)
  case (Some i)
  have k: "''Channel'' @ kind \<in> set CHANNEL_PRICING_OPTION_KEYS" using assms unfolding channel_keys by blast
  obtain ps where p: "parseNestedOption (options (''Channel'' @ kind)) = Obj ps" "json_ok (Obj ps)" using parseNestedOption_ok by blast
  have "get (canon w) m = canon (get w m)" if "json_ok w \<or> w = Undef" for w
  proof (cases w)
    case (Obj qs)
    then show ?thesis using that get_canon by auto
  next
    case (Arr vs)
    then show ?thesis by (simp add: get_def)
  qed (simp_all add: get_def)
  moreover have "json_ok (get (Obj ps) i) \<or> get (Obj ps) i = Undef"
    using p(2) by (auto simp: list_all_iff split: option.splits dest!: map_of_SomeD)
  ultimately show ?thesis
    using k p(1) get_canon [OF p(2), of i] Some by (simp add: price_at_def at_key_def buildPricingBaseline_def map_of_table copied_def)
qed (simp add: price_at_def copied_def)

lemma merged_exact:
  assumes "channel_lists options" "distinct (map fst sel)" "types_known sel"
  shows "let b = buildPricingBaseline options in
    \<exists>gc. merged_prices b mode sel = Ok gc \<and>
      (\<forall>tg rt model. rt \<in> set RATIO_TYPES \<longrightarrow> price_at gc tg (ratioTypeToPascal rt) model =
        (let old = copied tg (price_at (bl_global b, bl_channel b) tg (ratioTypeToPascal rt) model) in
         case chosen_for mode sel tg model of None \<Rightarrow> old | Some rs \<Rightarrow> group_value b tg model rs rt old))"
proof -
  let ?b = "buildPricingBaseline options" and ?c = "map (\<lambda>k. (k, canon (parseNestedOption (options k)))) CHANNEL_PRICING_OPTION_KEYS"
  have "distinct (map fst (prop_entries sel))" "types_known (prop_entries sel)"
    using assms(2,3) by (simp_all add: distinct_prop_entries types_known_def set_prop_entries)
  from apply_models_exact [OF start_lists [OF assms(1)] this, of ?b mode]
  obtain gc where gc: "fold_res (apply_model ?b mode) (bl_global ?b, ?c) (prop_entries sel) = Ok gc"
    "\<forall>tg rt m. rt \<in> set RATIO_TYPES \<longrightarrow> price_at gc tg (ratioTypeToPascal rt) m =
       (case chosen_for mode (prop_entries sel) tg m of
          None \<Rightarrow> price_at (bl_global ?b, ?c) tg (ratioTypeToPascal rt) m
        | Some rs \<Rightarrow> group_value ?b tg m rs rt (price_at (bl_global ?b, ?c) tg (ratioTypeToPascal rt) m))" by blast
  have c: "chosen_for mode (prop_entries sel) = chosen_for mode sel"
    using map_of_prop_entries [OF assms(2)] by (simp add: chosen_for_def fun_eq_iff)
  have k: "ratioTypeToPascal rt \<in> set GLOBAL_KEYS" if "rt \<in> set RATIO_TYPES" for rt using that pascal_image by blast
  show ?thesis
    unfolding Let_def
  proof (intro exI conjI allI impI)
    show "merged_prices ?b mode sel = Ok gc" using gc(1) by (simp add: merged_prices_def clone_baseline)
  next
    fix tg rt model assume rt: "rt \<in> set RATIO_TYPES"
    show "price_at gc tg (ratioTypeToPascal rt) model =
        (case chosen_for mode sel tg model of
           None \<Rightarrow> copied tg (price_at (bl_global ?b, bl_channel ?b) tg (ratioTypeToPascal rt) model)
         | Some rs \<Rightarrow> group_value ?b tg model rs rt (copied tg (price_at (bl_global ?b, bl_channel ?b) tg (ratioTypeToPascal rt) model)))"
      using gc(2) [rule_format, OF rt, of tg model] unfolding c start_price [OF k [OF rt]] .
  qed
qed

text \<open>
  C7: applying a selection changes exactly what was selected. If the channel options are lists by channel,
  merging does not fail, and for every kind of price, every target (all channels, or one channel) and
  every model, the merged price is: the selected value, rounded as the code rounds it, where one was
  selected; nothing, where the selection replaces it (a fixed price replaces ratios and a ratio replaces
  the fixed price); and what it was everywhere else, in particular for every other model and channel.
\<close>

theorem sync_exact:
  assumes "channel_lists options" "distinct (map fst sel)" "types_known sel"
  shows "let b = buildPricingBaseline options in
    \<exists>gc. merged_prices b mode sel = Ok gc \<and>
      (\<forall>tg rt model. rt \<in> set RATIO_TYPES \<longrightarrow> price_at gc tg (ratioTypeToPascal rt) model =
        (let old = copied tg (price_at (bl_global b, bl_channel b) tg (ratioTypeToPascal rt) model) in
         case chosen_for mode sel tg model of None \<Rightarrow> old | Some rs \<Rightarrow> group_value b tg model rs rt old))"
  using assms by (rule merged_exact)

end
