(* ===== verification/Upstream_Laws.thy ===== *)
theory Upstream_Laws
  imports Upstream_Prices Price_Format
begin

text \<open>
  The invariant of the selection of \<^verbatim>\<open>UpstreamRatioSync.jsx\<close> over all events of the page, the laws of
  billing after a selection was applied, and the round trip of the written options.
\<close>

section \<open>Consistent selections\<close>

text \<open>
  The checked cells of a model: at least one, one per key, the key made of kind and source, and all of one
  billing category.
\<close>

definition entries_ok :: "string \<Rightarrow> (string \<times> resolution) list \<Rightarrow> bool" where
  "entries_ok mode rs \<longleftrightarrow>
     rs \<noteq> [] \<and> distinct (map fst rs) \<and>
     (\<forall>(k, r) \<in> set rs. res_type r \<in> set RATIO_TYPES \<and> k = buildResolutionKey (res_type r) (res_src r) mode) \<and>
     (\<exists>cat. \<forall>(k, r) \<in> set rs. getBillingCategory (res_type r) = cat)"

definition sel_ok :: "string \<Rightarrow> selections \<Rightarrow> bool" where
  "sel_ok mode sel \<longleftrightarrow> distinct (map fst sel) \<and> (\<forall>(model, rs) \<in> set sel. entries_ok mode rs)"

lemma parse_key_plain: "CHR ''@'' \<notin> set rt \<Longrightarrow> parseResolutionKey rt = (rt, None)"
  by (induction rt rule: parseResolutionKey.induct) auto

lemma parse_key_sep: "CHR ''@'' \<notin> set rt \<Longrightarrow> parseResolutionKey (rt @ ''@@'' @ src) = (rt, Some src)"
  by (induction rt rule: parseResolutionKey.induct) auto

lemma types_plain: "rt \<in> set RATIO_TYPES \<Longrightarrow> CHR ''@'' \<notin> set rt \<and> rt \<noteq> []"
  by (auto simp: RATIO_TYPES_def)

lemma parse_build: "rt \<in> set RATIO_TYPES \<Longrightarrow> fst (parseResolutionKey (buildResolutionKey rt src mode)) = rt"
  using types_plain [of rt] parse_key_sep [of rt src] parse_key_plain [of rt] by (simp add: buildResolutionKey_def)

lemma set_set_prop: "set (set_prop k v ps) \<subseteq> insert (k, v) (set ps)"
  by (induction k v ps rule: set_prop.induct) auto

lemma set_set_propD: "x \<in> set (set_prop k v ps) \<Longrightarrow> x = (k, v) \<or> x \<in> set ps"
  using set_set_prop [of k v ps] by blast

lemma set_prop_nonempty [simp]: "set_prop k v ps \<noteq> []"
  by (induction k v ps rule: set_prop.induct) auto

lemma kept_subset: "set (kept_resolutions mode rt rs) \<subseteq> set rs"
  by (auto simp: kept_resolutions_def Let_def)

lemma kept_category:
  assumes "entries_ok mode rs \<or> rs = []" "(k, r) \<in> set (kept_resolutions mode rt rs)"
  shows "getBillingCategory (res_type r) = getBillingCategory rt"
proof -
  have "(k, r) \<in> set rs" using assms(2) kept_subset by blast
  then have "fst (parseResolutionKey k) = res_type r" using assms(1) parse_build by (auto simp: entries_ok_def)
  then show ?thesis using assms(2) by (auto simp: kept_resolutions_def Let_def split: if_splits)
qed

lemma distinct_kept: "distinct (map fst rs) \<Longrightarrow> distinct (map fst (kept_resolutions mode rt rs))"
  by (simp add: kept_resolutions_def Let_def distinct_map_filter)

lemma entries_ok_select:
  assumes "entries_ok mode rs \<or> rs = []" "rt \<in> set RATIO_TYPES"
  shows "entries_ok mode (set_prop (buildResolutionKey rt src mode) \<lparr>res_value = v, res_src = src, res_type = rt\<rparr> (kept_resolutions mode rt rs))"
proof -
  let ?ks = "kept_resolutions mode rt rs" and ?r = "\<lparr>res_value = v, res_src = src, res_type = rt\<rparr>"
  let ?new = "set_prop (buildResolutionKey rt src mode) ?r ?ks"
  have "distinct (map fst rs)" using assms(1) by (auto simp: entries_ok_def)
  then have d: "distinct (map fst ?new)" by (intro set_prop_distinct distinct_kept)
  have *: "res_type r \<in> set RATIO_TYPES \<and> k = buildResolutionKey (res_type r) (res_src r) mode \<and> getBillingCategory (res_type r) = getBillingCategory rt"
    if kr: "(k, r) \<in> set ?new" for k r
  proof -
    consider "(k, r) = (buildResolutionKey rt src mode, ?r)" | "(k, r) \<in> set ?ks" using set_set_propD [OF kr] by blast
    then show ?thesis
    proof cases
      case 2
      then have "(k, r) \<in> set rs" using kept_subset by blast
      then show ?thesis using assms(1) kept_category [OF assms(1) 2] by (auto simp: entries_ok_def)
    qed (use assms(2) in simp)
  qed
  then show ?thesis using d unfolding entries_ok_def by (fastforce intro!: exI [of _ "getBillingCategory rt"])
qed

lemma sel_ok_entries: "sel_ok mode sel \<Longrightarrow> map_of sel model = Some rs \<Longrightarrow> entries_ok mode rs"
  by (auto simp: sel_ok_def dest!: map_of_SomeD)

lemma sel_ok_select:
  assumes "sel_ok mode sel" "rt \<in> set RATIO_TYPES" shows "sel_ok mode (select_in mode model rt v src sel)"
proof -
  let ?rs = "case map_of sel model of Some x \<Rightarrow> x | None \<Rightarrow> []"
  have "entries_ok mode ?rs \<or> ?rs = []" using sel_ok_entries [OF assms(1)] by (cases "map_of sel model") simp_all
  note new = entries_ok_select [OF this assms(2), of src v]
  have "entries_ok mode rs" if "(m, rs) \<in> set (select_in mode model rt v src sel)" for m rs
    using set_set_propD [OF that [unfolded select_in_def Let_def]] new assms(1) by (auto simp: sel_ok_def)
  then show ?thesis using assms(1) unfolding sel_ok_def by (auto simp: select_in_def Let_def set_prop_distinct)
qed

lemma entries_ok_delete: "entries_ok mode rs \<Longrightarrow> delete_prop k rs \<noteq> [] \<Longrightarrow> entries_ok mode (delete_prop k rs)"
  unfolding entries_ok_def by (auto simp: delete_prop_distinct) (auto simp: delete_prop_def)

lemma sel_ok_unselect: "sel_ok mode sel \<Longrightarrow> sel_ok mode (unselect_in model k up sel)"
proof -
  assume ok: "sel_ok mode sel"
  have del: "sel_ok mode (delete_prop model sel)"
    using ok by (auto simp: sel_ok_def delete_prop_distinct) (auto simp: delete_prop_def)
  have "sel_ok mode (set_prop model rs' sel)" if "entries_ok mode rs'" for rs'
    using ok that by (auto simp: sel_ok_def set_prop_distinct dest!: set_set_propD)
  then show ?thesis
    using ok del sel_ok_entries [OF ok] entries_ok_delete by (auto simp: unselect_in_def split: option.splits)
qed

lemma sel_ok_known: "sel_ok mode sel \<Longrightarrow> types_known sel"
  using types_plain by (fastforce simp: sel_ok_def types_known_def entries_ok_def chosen_type_def)

section \<open>The machine keeps selections consistent\<close>

text \<open>The server only reports differences of the nine kinds.\<close>

definition diffs_known :: "differences \<Rightarrow> bool" where
  "diffs_known ds \<longleftrightarrow> (\<forall>(model, ts) \<in> set ds. fst ` set ts \<subseteq> set RATIO_TYPES)"

lemma diffs_knownD: "diffs_known ds \<Longrightarrow> (model, ts) \<in> set ds \<Longrightarrow> fst ` set ts \<subseteq> set RATIO_TYPES"
  unfolding diffs_known_def by (drule (1) bspec) simp

lemma diffs_knownI: "(\<And>model ts. (model, ts) \<in> set ds \<Longrightarrow> fst ` set ts \<subseteq> set RATIO_TYPES) \<Longrightarrow> diffs_known ds"
  unfolding diffs_known_def by (intro ballI case_prodI2) simp

fun known_event :: "sync_event \<Rightarrow> bool" where
  "known_event (Ratios_Read j (Answered (ds, tests))) = diffs_known ds"
| "known_event _ = True"

definition consistent :: "upstream_state \<Rightarrow> bool" where
  "consistent s \<longleftrightarrow> sel_ok (sy_mode s) (sy_sel s) \<and> diffs_known (sy_diffs s) \<and> (\<forall>(mode, sel, us) \<in> set (sy_saves s). sel_ok mode sel)"

lemma tell_simps [simp]:
  "sy_mode (tell n s) = sy_mode s" "sy_sel (tell n s) = sy_sel s" "sy_diffs (tell n s) = sy_diffs s" "sy_saves (tell n s) = sy_saves s"
  "sy_options (tell n s) = sy_options s" "sy_supplier (tell n s) = sy_supplier s"
  by (simp_all add: tell_def)

lemma consistent_tell [simp]: "consistent (tell n s) = consistent s"
  by (simp add: consistent_def)

lemma sel_ok_Nil [simp]: "sel_ok mode []"
  by (simp add: sel_ok_def)

lemma row_type_known:
  assumes "diffs_known (sy_diffs s)" "r \<in> set (filteredDataSource s)" shows "rw_type r \<in> set RATIO_TYPES"
proof -
  have "r \<in> set (dataSource s)" using assms(2) by (auto simp: filteredDataSource_def split: if_splits)
  then obtain model ts c where m: "(model, ts) \<in> set (sy_diffs s)" "r \<in> set (model_rows s c ts)"
    by (auto simp: dataSource_def set_prop_entries split: option.splits)
  then have "rw_type r \<in> fst ` set ts"
    by (auto simp: model_rows_def Let_def set_prop_entries split: if_splits intro: rev_image_eqI)
  then show ?thesis using diffs_knownD [OF assms(1) m(1)] by blast
qed

lemma page_rows: "r \<in> set (getCurrentPageData s rows) \<Longrightarrow> r \<in> set rows"
  by (auto simp: getCurrentPageData_def dest: in_set_takeD in_set_dropD)

lemma consistent_select: "consistent s \<Longrightarrow> rt \<in> set RATIO_TYPES \<Longrightarrow> consistent (selectValue model rt v src s)"
  by (simp add: consistent_def selectValue_def sel_ok_select)

lemma consistent_select_all:
  "consistent s \<Longrightarrow> \<forall>r \<in> set rows. rw_type r \<in> set RATIO_TYPES \<Longrightarrow>
   consistent (foldl (\<lambda>acc r. selectValue (rw_model r) (rw_type r) (f r) up acc) s rows)"
  by (induction rows arbitrary: s) (simp_all add: consistent_select)

lemma sel_ok_unselect_all: "sel_ok mode sel \<Longrightarrow> sel_ok mode (foldl (\<lambda>acc r. unselect_row mode up r acc) sel rows)"
  by (induction rows arbitrary: sel) (simp_all add: unselect_row_def sel_ok_unselect)

lemma consistent_cell:
  assumes "consistent s" shows "consistent (handleCellCheck same r up b s)"
proof (cases "r \<in> set (getCurrentPageData s (filteredDataSource s)) \<and> up \<in> set (upstreamNames s) \<and> selectable same s up r")
  case True
  then have "rw_type r \<in> set RATIO_TYPES" using assms page_rows by (intro row_type_known [of s]) (auto simp: consistent_def)
  then have "consistent (selectValue (rw_model r) (rw_type r) v up s)" for v using assms by (intro consistent_select)
  moreover have "consistent (s\<lparr>sy_sel := unselect_row (sy_mode s) up r (sy_sel s)\<rparr>)"
    using assms by (simp add: consistent_def unselect_row_def sel_ok_unselect)
  ultimately show ?thesis using True by (simp add: handleCellCheck_def)
next
  case False
  then show ?thesis using assms by (simp only: handleCellCheck_def if_False)
qed

lemma consistent_column:
  assumes "consistent s" shows "consistent (handleBulkSelect same up b s)"
proof (cases b)
  case True
  have "\<forall>r \<in> set (filter (selectable same s up) (filteredDataSource s)). rw_type r \<in> set RATIO_TYPES"
    using assms row_type_known by (auto simp: consistent_def)
  from consistent_select_all [OF assms this] show ?thesis using True by (simp add: handleBulkSelect_def)
next
  case False
  then show ?thesis using assms by (simp add: handleBulkSelect_def consistent_def sel_ok_unselect_all)
qed

lemma diffs_known_mark:
  assumes "diffs_known ds" shows "diffs_known (mark_one mode model ds x)"
proof -
  obtain k r where x: "x = (k, r)" by force
  have "diffs_known (set_prop model (set_prop rt d ts) ds)" if "map_of ds model = Some ts" "map_of ts rt = Some d'" for ts rt d d'
  proof -
    have "fst ` set ts \<subseteq> set RATIO_TYPES" using diffs_knownD [OF assms] map_of_SomeD [OF that(1)] by blast
    moreover have "rt \<in> fst ` set ts" using map_of_SomeD [OF that(2)] by (simp add: image_iff) (metis fst_conv)
    ultimately have n: "fst ` set (set_prop rt d ts) \<subseteq> set RATIO_TYPES" by (simp add: set_prop_keys subset_iff)
    show ?thesis
    proof (rule diffs_knownI)
      fix m us assume mu: "(m, us) \<in> set (set_prop model (set_prop rt d ts) ds)"
      consider "us = set_prop rt d ts" | "(m, us) \<in> set ds" using set_set_propD [OF mu] by blast
      then show "fst ` set us \<subseteq> set RATIO_TYPES"
      proof cases
        case 1
        then show ?thesis using n by simp
      next
        case 2
        then show ?thesis by (rule diffs_knownD [OF assms])
      qed
    qed
  qed
  note step = this
  show ?thesis
  proof (cases "map_of ds model")
    case None
    then show ?thesis using assms x by (simp add: mark_one_def)
  next
    case (Some ts)
    show ?thesis
    proof (cases "map_of ts (chosen_type k r)")
      case None
      then show ?thesis using assms x Some by (simp add: mark_one_def)
    next
      case (Some d)
      from step [OF \<open>map_of ds model = Some ts\<close> Some, of "mark_diff mode r d"] show ?thesis
        using Some \<open>map_of ds model = Some ts\<close> x by (simp add: mark_one_def)
    qed
  qed
qed

lemma diffs_known_synced: "diffs_known ds \<Longrightarrow> diffs_known (mark_synced mode sel ds)"
proof -
  assume k: "diffs_known ds"
  have c: "diffs_known (map (\<lambda>(m, ts). (m, map (\<lambda>(rt, d). (rt, clone_diff d)) ts)) ds)"
  proof (rule diffs_knownI)
    fix m us assume "(m, us) \<in> set (map (\<lambda>(m, ts). (m, map (\<lambda>(rt, d). (rt, clone_diff d)) ts)) ds)"
    then obtain ts where t: "(m, ts) \<in> set ds" "us = map (\<lambda>(rt, d). (rt, clone_diff d)) ts" by auto
    then have "fst ` set us = fst ` set ts" by (force simp: image_image case_prod_unfold)
    then show "fst ` set us \<subseteq> set RATIO_TYPES" using diffs_knownD [OF k t(1)] by simp
  qed
  have one: "diffs_known ds \<Longrightarrow> diffs_known (foldl (mark_one mode model) ds xs)" for ds model xs
    by (induction xs arbitrary: ds) (simp_all add: diffs_known_mark)
  have "diffs_known ds \<Longrightarrow> diffs_known (foldl (\<lambda>acc (model, rs). foldl (mark_one mode model) acc (prop_entries rs)) ds xs)" for ds xs
    by (induction xs arbitrary: ds) (auto simp: one)
  then show ?thesis unfolding mark_synced_def using c by blast
qed

lemma consistent_saved: "consistent s \<Longrightarrow> consistent (sync_saved t j res s)"
  using set_remove_at [of j "sy_saves s"]
  by (auto simp: sync_saved_def consistent_def diffs_known_synced Let_def split: option.splits)

lemma consistent_perform: "consistent s \<Longrightarrow> performSync t b s = Ok s' \<Longrightarrow> consistent s'"
  by (auto simp: performSync_def Let_def consistent_def bind_res_Ok_iff split: if_splits)

lemma consistent_names: "consistent s \<Longrightarrow> consistent (loadChannelModelNamesForChannels t rs s)"
proof -
  let ?f = "\<lambda>acc (k, r). let (names, acc1) =
      (case r of
         Answered d \<Rightarrow> (parseChannelModelNamesFromChannelData d, acc)
       | Refused m \<Rightarrow> ([], tell (Sync_Error (if m \<noteq> [] then m else t msg_us_models_failed [])) acc)
       | Failed m \<Rightarrow> ([], tell (Sync_Error (if m \<noteq> [] then m else t msg_us_models_failed [])) acc))
    in acc1\<lparr>sy_names := set_prop k names (sy_names acc1)\<rparr>"
  have "consistent s \<Longrightarrow> consistent (?f s x)" for s x
    by (cases x; cases "snd x") (auto simp: consistent_def)
  then have "consistent s \<Longrightarrow> consistent (foldl ?f s xs)" for s xs by (induction xs arbitrary: s) simp_all
  then show "consistent s \<Longrightarrow> ?thesis" unfolding loadChannelModelNamesForChannels_def .
qed

lemma consistent_fetched:
  "consistent s \<Longrightarrow> known_event (Ratios_Read j r) \<Longrightarrow> consistent (ratios_fetched t mode r (s\<lparr>sy_fetches := fs\<rparr>))"
  by (cases r) (auto simp: ratios_fetched_def consistent_def Let_def split: prod.splits)

lemma consistent_confirm:
  "consistent s \<Longrightarrow> consistent (confirmOfficialSelection t s)" "consistent s \<Longrightarrow> consistent (confirmChannelSelection t s)"
  by (simp_all add: confirmOfficialSelection_def confirmChannelSelection_def fetchRatiosFromChannels_def Let_def consistent_def)

lemma consistent_apply:
  assumes "consistent s" "applySync t s = Ok s'" shows "consistent s'"
proof (cases "sync_conflicts t (buildPricingBaseline (sy_options s)) (sy_mode s) (sy_sel s) = []")
  case True
  then have "performSync t (buildPricingBaseline (sy_options s)) s = Ok s'" using assms(2) by (simp add: applySync_def)
  then show ?thesis by (rule consistent_perform [OF assms(1)])
next
  case False
  then have "s' = s\<lparr>sy_conflicts := sync_conflicts t (buildPricingBaseline (sy_options s)) (sy_mode s) (sy_sel s), sy_confirm := True\<rparr>"
    using assms(2) by (simp add: applySync_def Let_def)
  then show ?thesis using assms(1) by (simp add: consistent_def)
qed

lemma consistent_step:
  assumes "consistent s" "known_event e" "sync_step t e s = Ok s'" shows "consistent s'"
proof (cases e)
  case (Apply)
  then show ?thesis using assms consistent_apply by (cases "sy_sel s = []") simp_all
next
  case (Confirm_Conflicts)
  have c: "consistent (s\<lparr>sy_confirm := False\<rparr>)" using assms(1) by (simp add: consistent_def)
  show ?thesis
  proof (cases "confirmSync t s")
    case (Ok x)
    then have "consistent x" using consistent_perform [OF c] unfolding confirmSync_def by blast
    then show ?thesis using Ok Confirm_Conflicts assms(3) by simp
  next
    case (Throw x)
    then show ?thesis using c Confirm_Conflicts assms(3) by auto
  qed
next
  case (Ratios_Read j r)
  then show ?thesis using assms consistent_fetched by (auto split: option.splits)
next
  case (Names_Read rs)
  then show ?thesis using assms consistent_names by auto
next
  case (Check_Cell same r up b)
  then show ?thesis using assms consistent_cell by auto
next
  case (Check_Column same up b)
  then show ?thesis using assms consistent_column by auto
next
  case (Saved j rs)
  then show ?thesis using assms consistent_saved by auto
next
  case (Channels_Read r)
  then show ?thesis using assms by (cases r) (auto simp: fetchAllChannels_def consistent_def Let_def)
next
  case Confirm_Official
  then show ?thesis using assms consistent_confirm(1) by auto
next
  case Confirm_Channel
  then show ?thesis using assms consistent_confirm(2) by auto
qed (use assms in \<open>auto simp: consistent_def updateChannelEndpoint_def\<close>)

lemma consistent_run: "consistent s \<Longrightarrow> list_all known_event es \<Longrightarrow> consistent (run_sync t es s)"
proof (induction es arbitrary: s)
  case (Cons e es)
  then have "consistent (case sync_step t e s of Ok s' \<Rightarrow> s' | Throw _ \<Rightarrow> s)"
    using consistent_step by (auto split: res.splits)
  then show ?case using Cons by simp
qed simp

text \<open>
  C9: whatever the operator checks, unchecks, fetches and saves, in any order, the selection stays
  consistent: for every model it holds at least one cell, one per kind and source, and never a fixed price
  together with ratios; in official mode there is one source per kind. The same holds for every selection
  that is being saved.
\<close>

theorem selections_consistent:
  assumes "list_all known_event es"
  shows "let s = run_sync t es (initial_sync options supplier) in
    sel_ok (sy_mode s) (sy_sel s) \<and> (\<forall>(mode, sel, us) \<in> set (sy_saves s). sel_ok mode sel)"
proof -
  have "consistent (initial_sync options supplier)" by (simp add: consistent_def initial_sync_def diffs_known_def)
  from consistent_run [OF this assms] show ?thesis by (simp add: Let_def consistent_def)
qed

section \<open>One way of billing\<close>

lemma groups_types:
  assumes "g \<in> set (groups_of mode rs)" "rt \<in> fst ` set (gr_ratios g)"
  shows "\<exists>k r. (k, r) \<in> set rs \<and> rt = chosen_type k r"
proof -
  let ?f = "\<lambda>gs (k, r). add_to_group (target_of mode (chosen_src k r)) (chosen_type k r) (res_value r) (chosen_src k r) gs"
  have add: "h \<in> set (add_to_group tg rt' v src gs) \<Longrightarrow> q \<in> fst ` set (gr_ratios h) \<Longrightarrow>
      q = rt' \<or> (\<exists>h' \<in> set gs. q \<in> fst ` set (gr_ratios h'))" for h tg rt' v src gs q
  proof (induction gs)
    case (Cons a gs)
    show ?case
    proof (cases "gr_target a = tg \<and> h = a\<lparr>gr_ratios := set_prop rt' v (gr_ratios a), gr_srcs := set_prop rt' src (gr_srcs a)\<rparr>")
      case True
      then have "q \<in> insert rt' (fst ` set (gr_ratios a))" using Cons.prems(2) set_prop_keys [of rt' v "gr_ratios a"] by simp
      then show ?thesis by auto
    next
      case False
      then show ?thesis using Cons by (auto split: if_splits)
    qed
  qed simp
  have step: "h \<in> set (foldl ?f gs xs) \<Longrightarrow> q \<in> fst ` set (gr_ratios h) \<Longrightarrow>
      (\<exists>k r. (k, r) \<in> set xs \<and> q = chosen_type k r) \<or> (\<exists>h' \<in> set gs. q \<in> fst ` set (gr_ratios h'))" for h gs xs q
  proof (induction xs arbitrary: gs)
    case (Cons x xs)
    obtain k r where x: "x = (k, r)" by force
    have h: "h \<in> set (foldl ?f (?f gs (k, r)) xs)" using Cons.prems(1) x by simp
    from Cons.IH [OF h Cons.prems(2)] show ?case
    proof
      assume "\<exists>k r. (k, r) \<in> set xs \<and> q = chosen_type k r"
      then show ?thesis by fastforce
    next
      assume "\<exists>h' \<in> set (?f gs (k, r)). q \<in> fst ` set (gr_ratios h')"
      then obtain h' where "h' \<in> set (?f gs (k, r))" "q \<in> fst ` set (gr_ratios h')" by (elim bexE)
      from add [OF this(1) [unfolded prod.case] this(2)] show ?thesis using x by (metis list.set_intros(1))
    qed
  next
    case Nil
    then show ?case by simp blast
  qed
  show ?thesis using step [of g "[]" "prop_entries rs" rt] assms by (auto simp: groups_of_def set_prop_entries)
qed

lemma chosen_category:
  assumes "sel_ok mode sel" "chosen_for mode sel tg model = Some rs"
  shows "\<exists>cat. \<forall>rt \<in> fst ` set rs. rt \<in> set RATIO_TYPES \<and> getBillingCategory rt = cat"
proof -
  obtain es g where e: "map_of sel model = Some es" "find (\<lambda>g. gr_target g = tg) (groups_of mode es) = Some g" "rs = gr_ratios g"
    using assms(2) by (auto simp: chosen_for_def split: option.splits)
  have g: "g \<in> set (groups_of mode es)" using e(2) by (auto simp: find_Some_iff)
  have ok: "entries_ok mode es" by (rule sel_ok_entries [OF assms(1) e(1)])
  then obtain cat where c: "\<And>k r. (k, r) \<in> set es \<Longrightarrow> res_type r \<in> set RATIO_TYPES \<and> getBillingCategory (res_type r) = cat"
    unfolding entries_ok_def by fast
  have "rt \<in> set RATIO_TYPES \<and> getBillingCategory rt = cat" if rt: "rt \<in> fst ` set rs" for rt
  proof -
    obtain k r where k: "(k, r) \<in> set es" "rt = chosen_type k r" using groups_types [OF g] rt e(3) by blast
    then have "rt = res_type r" using c [OF k(1)] types_plain by (simp add: chosen_type_def)
    then show ?thesis using c [OF k(1)] by simp
  qed
  then show ?thesis by blast
qed

lemma merged_price:
  assumes "channel_lists options" "distinct (map fst sel)" "types_known sel"
    and "merged_prices (buildPricingBaseline options) mode sel = Ok gc" "rt \<in> set RATIO_TYPES"
  shows "price_at gc tg (ratioTypeToPascal rt) model =
    (let b = buildPricingBaseline options; old = copied tg (price_at (bl_global b, bl_channel b) tg (ratioTypeToPascal rt) model)
     in case chosen_for mode sel tg model of None \<Rightarrow> old | Some rs \<Rightarrow> group_value b tg model rs rt old)"
  using merged_exact [OF assms(1-3), of mode] assms(4,5) unfolding Let_def by (elim exE conjE) simp

lemma hasRatio_keys: "hasRatio rs \<longleftrightarrow> (\<exists>rt \<in> set (map fst rs). rt \<noteq> ''model_price'' \<and> \<not> isTierRatioType rt)"
  by (force simp: hasRatio_def list_ex_iff)


section \<open>Presets\<close>

lemma transfer_endpoint: "default_endpoint (transfer_record ch) \<in> {''tokenfactoryopen'', ''openrouter'', DEFAULT_ENDPOINT}"
  by (simp add: default_endpoint_def transfer_record_def MODELS_DEV_PRESET_ID_def OFFICIAL_RATIO_PRESET_ID_def Let_def)

text \<open>
  C40: reading the channels never gives a preset its own end point: the test for the presets looks at
  fields that the records of the selection dialog do not have.
\<close>

theorem preset_endpoint_missed:
  assumes "sy_endpoints s = []"
  shows "endpoint_of k (sy_endpoints (fetchAllChannels t (Answered chs) s)) \<notin> {MODELS_DEV_PRESET_ENDPOINT, OFFICIAL_RATIO_PRESET_ENDPOINT}"
proof -
  let ?E = "{[], ''tokenfactoryopen'', ''openrouter'', DEFAULT_ENDPOINT}"
  have "\<forall>k. endpoint_of k (merge_endpoints (map transfer_record chs) es) \<in> ?E" if "\<forall>k. endpoint_of k es \<in> ?E" for es
    using that
  proof (induction chs arbitrary: es)
    case (Cons ch chs)
    let ?i = "to_str (get (transfer_record ch) ''key'')"
    let ?es = "if endpoint_of ?i es = [] then set_prop ?i (default_endpoint (transfer_record ch)) es else es"
    have "\<forall>k. endpoint_of k ?es \<in> ?E" using Cons.prems transfer_endpoint [of ch] by (simp add: endpoint_of_def)
    from Cons.IH [OF this] show ?case by (simp add: merge_endpoints_def Let_def)
  qed (simp add: merge_endpoints_def)
  from this [of "[]"] have "endpoint_of k (merge_endpoints (map transfer_record chs) []) \<in> ?E" by (simp add: endpoint_of_def)
  then show ?thesis
    using assms by (auto simp: fetchAllChannels_def Let_def MODELS_DEV_PRESET_ENDPOINT_def OFFICIAL_RATIO_PRESET_ENDPOINT_def DEFAULT_ENDPOINT_def)
qed

section \<open>Reading back what was written\<close>

definition store_update :: "(string \<Rightarrow> string option) \<Rightarrow> update \<Rightarrow> string \<Rightarrow> string option" where
  "store_update options u = (case u of Put_Option k s \<Rightarrow> options(k \<mapsto> s) | _ \<Rightarrow> options)"

definition json_lists :: "maps \<times> maps \<Rightarrow> bool" where
  "json_lists gc \<longleftrightarrow> lists_ok gc \<and>
     (\<forall>k \<in> set GLOBAL_KEYS. json_ok (at_key (fst gc) k) \<and> json_ok (at_key (snd gc) (''Channel'' @ k)))"

lemma at_key_set [simp]: "at_key (set_prop k v m) k' = (if k' = k then v else at_key m k')"
  by (simp add: at_key_def)

lemma json_ok_delete: "json_ok (Obj ps) \<Longrightarrow> json_ok (Obj (delete_prop k ps))"
  by (simp add: delete_prop_distinct) (simp add: delete_prop_def list_all_iff)

lemma json_ok_get: "json_ok (Obj ps) \<Longrightarrow> get (Obj ps) k \<noteq> Undef \<Longrightarrow> json_ok (get (Obj ps) k)"
  by (auto simp: list_all_iff split: option.splits dest!: map_of_SomeD)

lemma json_ok_scope: "json_ok (Obj ps) \<Longrightarrow> json_ok (if truthy (get (Obj ps) i) then get (Obj ps) i else Obj [])"
proof (cases "truthy (get (Obj ps) i)")
  case True
  then have "get (Obj ps) i \<noteq> Undef" by (metis truthy_simps(1))
  then show "json_ok (Obj ps) \<Longrightarrow> ?thesis" using True json_ok_get by presburger
qed simp

lemma json_lists_set:
  assumes "json_lists gc" "json_ok w"
  shows "lists_ok (set_prop k w (fst gc), snd gc) \<Longrightarrow> json_lists (set_prop k w (fst gc), snd gc)"
    "lists_ok (fst gc, set_prop (''Channel'' @ k) w (snd gc)) \<Longrightarrow> json_lists (fst gc, set_prop (''Channel'' @ k) w (snd gc))"
  using assms unfolding json_lists_def fst_conv snd_conv at_key_set by simp_all

lemma json_listsD:
  assumes "json_lists gc" "k \<in> set GLOBAL_KEYS"
  shows "lists_ok gc" "json_ok (at_key (fst gc) k)" "json_ok (at_key (snd gc) (''Channel'' @ k))"
  using assms unfolding json_lists_def by blast+

lemma json_put:
  assumes "json_lists gc" "kind \<in> set GLOBAL_KEYS" "json_ok v" "put_price_at tg kind model v gc = Ok gc'"
  shows "json_lists gc'"
proof -
  note l = json_listsD(1) [OF assms(1,2)]
  have l': "lists_ok gc'" using put_price_law [OF l assms(2), of tg model v] assms(4) by auto
  obtain ps qs where p: "map_of (fst gc) kind = Some (Obj ps)" and q: "map_of (snd gc) (''Channel'' @ kind) = Some (Obj qs)" "\<And>i. scope_ok (get (Obj qs) i)"
    using lists_okD [OF l assms(2)] by blast
  have jp: "json_ok (Obj ps)" "json_ok (Obj qs)" using json_listsD(2,3) [OF assms(1,2)] unfolding at_key_def p q(1) option.case by blast+
  show ?thesis
  proof (cases tg)
    case None
    then have "gc' = (set_prop kind (Obj (set_prop model v ps)) (fst gc), snd gc)"
      using assms(4) p by (simp add: put_price_at_def at_key_def)
    then show ?thesis using l' json_lists_set(1) [OF assms(1) json_ok_set_prop [OF jp(1) assms(3)]] by blast
  next
    case (Some i)
    obtain rs where r: "(if truthy (get (Obj qs) i) then get (Obj qs) i else Obj []) = Obj rs"
      using scope_obj [OF q(2) [of i]] by blast
    have "json_ok (Obj rs)" using json_ok_scope [OF jp(2), of i] unfolding r .
    then have "json_ok (Obj (set_prop i (Obj (set_prop model v rs)) qs))" using json_ok_set_prop jp(2) assms(3) by blast
    moreover have "gc' = (fst gc, set_prop (''Channel'' @ kind) (Obj (set_prop i (Obj (set_prop model v rs)) qs)) (snd gc))"
      using assms(4) unfolding put_price_at_def Some option.case q(1) Let_def r by simp
    ultimately show ?thesis using l' json_lists_set(2) [OF assms(1)] by blast
  qed
qed

lemma json_drop:
  assumes "json_lists gc" "kind \<in> set GLOBAL_KEYS" "drop_price_at tg model gc kind = Ok gc'"
  shows "json_lists gc'"
proof -
  note l = json_listsD(1) [OF assms(1,2)]
  have l': "lists_ok gc'" using drop_price_law [OF l assms(2), of tg model] assms(3) by auto
  obtain ps qs where p: "map_of (fst gc) kind = Some (Obj ps)" and q: "map_of (snd gc) (''Channel'' @ kind) = Some (Obj qs)" "\<And>i. scope_ok (get (Obj qs) i)"
    using lists_okD [OF l assms(2)] by blast
  have jp: "json_ok (Obj ps)" "json_ok (Obj qs)" using json_listsD(2,3) [OF assms(1,2)] unfolding at_key_def p q(1) option.case by blast+
  have s: "at_key (snd gc) (''Channel'' @ kind) = Obj qs" using q(1) by (simp add: at_key_def)
  show ?thesis
  proof (cases tg)
    case None
    then have "gc' = (set_prop kind (Obj (delete_prop model ps)) (fst gc), snd gc)"
      using assms(3) p by (simp add: drop_price_at_def at_key_def)
    then show ?thesis using l' json_lists_set(1) [OF assms(1) json_ok_delete [OF jp(1)]] by blast
  next
    case (Some i)
    show ?thesis
    proof (cases "truthy (get (Obj qs) i)")
      case True
      then obtain rs where r: "get (Obj qs) i = Obj rs" using q(2) [of i] by (auto simp: scope_ok_def)
      have "json_ok (Obj rs)" using json_ok_get [OF jp(2), of i] unfolding r by simp
      then have "json_ok (Obj (set_prop i (Obj (delete_prop model rs)) qs))" using json_ok_set_prop jp(2) json_ok_delete by blast
      moreover have "gc' = (fst gc, set_prop (''Channel'' @ kind) (Obj (set_prop i (Obj (delete_prop model rs)) qs)) (snd gc))"
        using assms(3) unfolding drop_price_at_def Some option.case Let_def s r by simp
      ultimately show ?thesis using l' json_lists_set(2) [OF assms(1)] by blast
    next
      case False
      then have "gc' = gc" using assms(3) unfolding drop_price_at_def Some option.case Let_def s by simp
      then show ?thesis using assms(1) by simp
    qed
  qed
qed

lemma fold_res_inv:
  assumes "fold_res f a xs = Ok a'" "P a" "\<And>a x a'. P a \<Longrightarrow> x \<in> set xs \<Longrightarrow> f a x = Ok a' \<Longrightarrow> P a'"
  shows "P a'"
  using assms
proof (induction xs arbitrary: a)
  case (Cons x xs)
  obtain b where b: "f a x = Ok b" "fold_res f b xs = Ok a'" using Cons.prems(1) by (auto simp: bind_res_Ok_iff)
  have pb: "P b" by (rule Cons.prems(3) [OF Cons.prems(2) _ b(1)]) simp
  show ?case
  proof (rule Cons.IH [OF b(2) pb])
    fix a x a' assume "P a" "x \<in> set xs" "f a x = Ok a'"
    then show "P a'" using Cons.prems(3) [of a x a'] by simp
  qed
qed simp


lemma wf_round: "wf_num x \<Longrightarrow> wf_num (js_round x)"
  by (cases x) (simp_all add: is_dbl_round)

lemma wf_round_num [simp]: "wf_num (round_num n x)"
  by (simp add: round_num_def)

lemma json_stored: "json_ok v \<Longrightarrow> json_ok (stored_price rt v)"
  by (auto simp: stored_price_def normalizeStoredNumber_def roundToPlaces_def wf_round split: option.splits)

lemma json_rounded: "json_ok (number_or_null (roundToPlaces v n))"
  by (auto simp: number_or_null_def roundToPlaces_def split: option.splits)

definition values_ok :: "(string \<times> jsval) list \<Rightarrow> bool" where
  "values_ok rs \<longleftrightarrow> (\<forall>(k, v) \<in> set rs. json_ok v)"

lemma values_ok_set: "values_ok rs \<Longrightarrow> json_ok v \<Longrightarrow> values_ok (set_prop k v rs)"
  by (auto simp: values_ok_def dest!: set_set_propD)

lemma values_ok_input: "values_ok rs \<Longrightarrow> values_ok (snd (normalized_input b tg model rs))"
  by (auto simp: normalized_input_def Let_def values_ok_set json_rounded split: option.splits)

lemma values_ok_output: "values_ok rs \<Longrightarrow> values_ok (normalized_output e c rs)"
  by (auto simp: normalized_output_def Let_def values_ok_set json_rounded split: option.splits)

lemma values_ok_normalized:
  assumes "values_ok rs" shows "values_ok (normalizeRatioSelection b tg model rs)"
proof -
  obtain eff n where n: "normalized_input b tg model rs = (eff, n)" by force
  then have "values_ok n" using values_ok_input [OF assms, of b tg model] by simp
  then show ?thesis using n values_ok_output by (auto simp: normalizeRatioSelection_def split: option.splits)
qed

lemma json_apply_group:
  assumes "json_lists gc" "apply_group b model gc g = Ok gc'" "group_ok g" "values_ok (gr_ratios g)"
  shows "json_lists gc'"
proof -
  let ?t = "gr_target g" and ?rs = "normalizeRatioSelection b (gr_target g) model (gr_ratios g)"
  obtain gc1 gc2 where s: "(if hasPrice ?rs then fold_res (drop_price_at ?t model) gc (price_drops ?t) else Ok gc) = Ok gc1"
    "(if hasRatio ?rs then drop_price_at ?t model gc1 ''ModelPrice'' else Ok gc1) = Ok gc2"
    "fold_res (\<lambda>acc (rt, v). put_price_at ?t (ratioTypeToPascal rt) model (stored_price rt v) acc) gc2 (prop_entries ?rs) = Ok gc'"
    using assms(2) unfolding apply_group_def Let_def bind_res_Ok_iff by blast
  have d: "k \<in> set GLOBAL_KEYS" if "k \<in> set (price_drops ?t)" for k
    using that by (cases ?t) (auto simp: price_drops_def GLOBAL_KEYS_def)
  have j1: "json_lists gc1"
  proof (cases "hasPrice ?rs")
    case True
    then have "fold_res (drop_price_at ?t model) gc (price_drops ?t) = Ok gc1" using s(1) by simp
    then show ?thesis by (rule fold_res_inv [where P = json_lists]) (use assms(1) d json_drop in blast)+
  qed (use s(1) assms(1) in simp)
  have "''ModelPrice'' \<in> set GLOBAL_KEYS" by (simp add: GLOBAL_KEYS_def)
  then have "json_lists gc2" using s(2) j1 json_drop [OF j1, of "''ModelPrice''" ?t model gc2] by (cases "hasRatio ?rs") simp_all
  moreover have "json_lists c" if "json_lists a" "x \<in> set (prop_entries ?rs)"
      "(case x of (rt, v) \<Rightarrow> put_price_at ?t (ratioTypeToPascal rt) model (stored_price rt v) a) = Ok c" for a x c
  proof -
    obtain rt v where x: "x = (rt, v)" by force
    have i: "(rt, v) \<in> set ?rs" using that(2) x by (simp add: set_prop_entries)
    then have "rt \<in> set (map fst ?rs)" by (metis fst_conv image_eqI set_map)
    then have "rt \<in> set RATIO_TYPES" using assms(3) unfolding normalized_keys group_ok_def by auto
    then have k: "ratioTypeToPascal rt \<in> set GLOBAL_KEYS" using pascal_image by blast
    have "json_ok v" using values_ok_normalized [OF assms(4), of b ?t model] i unfolding values_ok_def by fast
    then show ?thesis using json_put [OF that(1) k json_stored] that(3) x by simp
  qed
  ultimately show ?thesis using fold_res_inv [where P = json_lists, OF s(3)] by blast
qed

text \<open>The selected values are values of JSON, as the server sends them.\<close>

definition json_selection :: "selections \<Rightarrow> bool" where
  "json_selection sel \<longleftrightarrow> (\<forall>(model, rs) \<in> set sel. \<forall>(k, r) \<in> set rs. json_ok (res_value r))"

lemma groups_values:
  assumes "\<forall>(k, r) \<in> set rs. json_ok (res_value r)" "g \<in> set (groups_of mode rs)"
  shows "values_ok (gr_ratios g)"
proof -
  let ?f = "\<lambda>gs (k, r). add_to_group (target_of mode (chosen_src k r)) (chosen_type k r) (res_value r) (chosen_src k r) gs"
  have add: "\<forall>h \<in> set gs. values_ok (gr_ratios h) \<Longrightarrow> json_ok v \<Longrightarrow> \<forall>h \<in> set (add_to_group tg rt v src gs). values_ok (gr_ratios h)" for tg rt v src gs
    by (induction gs) (auto simp: values_ok_set, simp add: values_ok_def)
  have step: "\<forall>h \<in> set (foldl ?f gs xs). values_ok (gr_ratios h)"
    if "\<forall>h \<in> set gs. values_ok (gr_ratios h)" "\<forall>(k, r) \<in> set xs. json_ok (res_value r)" for gs xs
    using that
  proof (induction xs arbitrary: gs)
    case (Cons x xs)
    obtain k r where x: "x = (k, r)" by force
    then have "json_ok (res_value r)" using Cons.prems(2) by simp
    from add [OF Cons.prems(1) this] have "\<forall>h \<in> set (?f gs (k, r)). values_ok (gr_ratios h)" by simp
    from Cons.IH [OF this] show ?case using Cons.prems(2) x by simp
  qed simp
  show ?thesis using step [of "[]" "prop_entries rs"] assms unfolding groups_of_def by (auto simp: set_prop_entries)
qed

lemma json_apply_models:
  assumes "fold_res (apply_model b mode) gc xs = Ok gc'" "json_lists gc" "types_known xs" "json_selection xs"
  shows "json_lists gc'"
  using assms(1,2)
proof (rule fold_res_inv [where P = json_lists])
  fix a x a' assume a: "json_lists a" and x: "x \<in> set xs" and s: "apply_model b mode a x = Ok a'"
  obtain model rs where m: "x = (model, rs)" by force
  have t: "\<forall>(k, r) \<in> set rs. chosen_type k r \<in> set RATIO_TYPES" using assms(3) x m unfolding types_known_def by fast
  have v: "\<forall>(k, r) \<in> set rs. json_ok (res_value r)" using assms(4) x m unfolding json_selection_def by fast
  have "fold_res (apply_group b model) a (groups_of mode rs) = Ok a'" using s m by (simp add: apply_model_def)
  then show "json_lists a'"
    using a
  proof (rule fold_res_inv [where P = json_lists])
    fix c g c' assume c: "json_lists c" and g: "g \<in> set (groups_of mode rs)" and r: "apply_group b model c g = Ok c'"
    show "json_lists c'"
      by (rule json_apply_group [OF c r]) (use groups_of_ok [OF t, of mode] g groups_values [OF v g] in blast)+
  qed
qed

lemma store_options:
  "foldl store_update options (map (\<lambda>k. Put_Option k (f k)) ks) k = (if k \<in> set ks then Some (f k) else options k)"
  by (induction ks arbitrary: options) (auto simp: store_update_def)

lemma read_back:
  assumes "json_ok (Obj ps)" "json_ok (Obj qs)" "x = (if json_str (Obj ps) \<noteq> json_str (Obj qs) then Some (json_pretty [] (Obj qs)) else y)"
    and "parseNestedOption y = Obj ps"
  shows "canon (parseNestedOption x) = canon (Obj qs)"
proof (cases "json_str (Obj ps) = json_str (Obj qs)")
  case True
  then have "canon (Obj ps) = canon (Obj qs)" using json_parse_stringify [OF assms(1)] json_parse_stringify [OF assms(2)] by simp
  then show ?thesis using True assms(3,4) by simp
next
  case False
  have p: "json_parse (json_pretty [] (Obj qs)) = Ok (canon (Obj qs))" using json_parse_pretty [OF assms(2), of "[]"] by simp
  have "json_parse [] = Throw Syntax_Error" by code_simp
  then have "json_pretty [] (Obj qs) \<noteq> []" using p by (metis res.distinct(1))
  then have "parseNestedOption x = canon (Obj qs)" using False assms(3) p by (simp add: parseNestedOption_def canon_Obj del: canon.simps(2) json_pretty.simps)
  then show ?thesis by (simp only: canon_canon)
qed

text \<open>
  C38: what is saved is what was merged. After the writes of a save of the administrator, every price
  option of every kind, for all channels and by channel, reads as the merged list, and no other option
  has changed.
\<close>

theorem saved_prices_read_back:
  assumes "channel_lists options" "distinct (map fst sel)" "types_known sel" "json_selection sel"
    and "merged_prices (buildPricingBaseline options) mode sel = Ok gc"
    and "options' = foldl store_update options (sync_updates options False (buildPricingBaseline options) gc)"
  shows "(\<forall>kind \<in> set GLOBAL_KEYS.
      canon (parseNestedOption (options' kind)) = canon (at_key (fst gc) kind) \<and>
      canon (parseNestedOption (options' (''Channel'' @ kind))) = canon (at_key (snd gc) (''Channel'' @ kind))) \<and>
    (\<forall>k. k \<notin> set GLOBAL_KEYS \<and> k \<notin> set CHANNEL_PRICING_OPTION_KEYS \<longrightarrow> options' k = options k)"
proof -
  let ?b = "buildPricingBaseline options" and ?c = "map (\<lambda>k. (k, canon (parseNestedOption (options k)))) CHANNEL_PRICING_OPTION_KEYS"
  have start: "json_lists (bl_global ?b, ?c)"
  proof -
    have "json_ok (parseNestedOption x)" for x using parseNestedOption_ok by metis
    then show ?thesis
      using start_lists [OF assms(1)] json_ok_canon unfolding json_lists_def
      by (simp add: at_key_def buildPricingBaseline_def map_of_table channel_keys)
  qed
  have "fold_res (apply_model ?b mode) (bl_global ?b, ?c) (prop_entries sel) = Ok gc"
    using assms(5) by (simp add: merged_prices_def clone_baseline)
  then have gc: "json_lists gc"
    by (rule json_apply_models [OF _ start]) (use assms(3,4) in \<open>simp_all add: types_known_def json_selection_def set_prop_entries\<close>)
  have opt: "options' k =
     (if k \<in> set CHANNEL_PRICING_OPTION_KEYS \<and> changed (bl_channel ?b) (snd gc) k then Some (json_pretty [] (at_key (snd gc) k))
      else if k \<in> set GLOBAL_KEYS \<and> changed (bl_global ?b) (fst gc) k then Some (json_pretty [] (at_key (fst gc) k)) else options k)" for k
    unfolding assms(6) sync_updates_def if_False option_updates_def foldl_append store_options by simp
  have disj: "k \<notin> set CHANNEL_PRICING_OPTION_KEYS" if "k \<in> set GLOBAL_KEYS" for k
    using that by (auto simp: GLOBAL_KEYS_def CHANNEL_PRICING_OPTION_KEYS_def)
  have disj': "''Channel'' @ k \<notin> set GLOBAL_KEYS" for k by (auto simp: GLOBAL_KEYS_def)
  show ?thesis
  proof (intro conjI ballI)
    fix kind assume k: "kind \<in> set GLOBAL_KEYS"
    obtain ps qs where pq: "map_of (fst gc) kind = Some (Obj ps)" "map_of (snd gc) (''Channel'' @ kind) = Some (Obj qs)"
      using lists_okD [OF json_listsD(1) [OF gc k] k] by blast
    have p: "at_key (fst gc) kind = Obj ps" and q: "at_key (snd gc) (''Channel'' @ kind) = Obj qs"
      unfolding at_key_def pq option.case by (rule refl)+
    note j = json_listsD(2,3) [OF gc k, unfolded p q]
    obtain us where u: "parseNestedOption (options kind) = Obj us" "json_ok (Obj us)" using parseNestedOption_ok by blast
    obtain ws where w: "parseNestedOption (options (''Channel'' @ kind)) = Obj ws" "json_ok (Obj ws)" using parseNestedOption_ok by blast
    have ck: "''Channel'' @ kind \<in> set CHANNEL_PRICING_OPTION_KEYS" using k unfolding channel_keys by blast
    have "at_key (bl_global ?b) kind = Obj us" using k u(1) by (simp add: buildPricingBaseline_def at_key_def map_of_table)
    then have "options' kind = (if json_str (Obj us) \<noteq> json_str (Obj ps) then Some (json_pretty [] (Obj ps)) else options kind)"
      unfolding opt [of kind] changed_def p using k disj [OF k] by (simp add: or_obj_def js_or_def del: json_str.simps json_pretty.simps)
    from read_back [OF u(2) j(1) this u(1)] show "canon (parseNestedOption (options' kind)) = canon (at_key (fst gc) kind)" unfolding p .
    have "at_key (bl_channel ?b) (''Channel'' @ kind) = Obj ws"
      using ck w(1) by (simp only: buildPricingBaseline_def at_key_def map_of_table baseline.simps if_True option.case)
    then have "options' (''Channel'' @ kind) =
        (if json_str (Obj ws) \<noteq> json_str (Obj qs) then Some (json_pretty [] (Obj qs)) else options (''Channel'' @ kind))"
      unfolding opt [of "''Channel'' @ kind"] changed_def q using ck disj' [of kind] by (simp add: or_obj_def js_or_def del: json_str.simps json_pretty.simps append.simps)
    from read_back [OF w(2) j(2) this w(1)]
    show "canon (parseNestedOption (options' (''Channel'' @ kind))) = canon (at_key (snd gc) (''Channel'' @ kind))" unfolding q .
  qed (use opt in simp)
qed

section \<open>Examples\<close>

lemma no_option: "parseNestedOption None = Obj []"
  unfolding parseNestedOption_def by code_simp

lemma no_lists: "channel_lists (\<lambda>_. None)"
  by (simp add: channel_lists_def no_option scope_ok_def)

definition sample_selection :: "string \<Rightarrow> jsval \<Rightarrow> selections" where
  "sample_selection rt v = [(''m'', [(rt, \<lparr>res_value = v, res_src = ''x'', res_type = rt\<rparr>)])]"

lemma sample_selection_ok: "rt \<in> set RATIO_TYPES \<Longrightarrow> sel_ok ''official'' (sample_selection rt v)"
  by (simp add: sel_ok_def sample_selection_def entries_ok_def buildResolutionKey_def)

lemma sample_distinct: "distinct (map fst (sample_selection rt v))"
  by (simp add: sample_selection_def)

lemma prop_entries_single [simp]: "prop_entries [x] = [x]"
  by (cases x) (simp add: prop_entries_def)

lemma sample_chosen: "rt \<in> set RATIO_TYPES \<Longrightarrow> chosen_for ''official'' (sample_selection rt v) None ''m'' = Some [(rt, v)]"
  using types_plain [of rt] by (simp add: chosen_for_def sample_selection_def groups_of_def target_of_def chosen_type_def)

lemma tier_type: "''model_tier_ratio'' \<in> set RATIO_TYPES" and price_type: "''model_price'' \<in> set RATIO_TYPES"
  by (simp_all add: RATIO_TYPES_def)

theorem sync_exact_witness:
  "\<exists>gc. merged_prices (buildPricingBaseline (\<lambda>_. None)) ''official'' (sample_selection ''model_tier_ratio'' (Obj [])) = Ok gc \<and>
     price_at gc None ''ModelTierRatio'' ''m'' = Obj []"
proof -
  let ?b = "buildPricingBaseline (\<lambda>_. None)" and ?sel = "sample_selection ''model_tier_ratio'' (Obj [])"
  obtain gc where gc: "merged_prices ?b ''official'' ?sel = Ok gc"
    "\<forall>tg rt model. rt \<in> set RATIO_TYPES \<longrightarrow> price_at gc tg (ratioTypeToPascal rt) model =
        (let old = copied tg (price_at (bl_global ?b, bl_channel ?b) tg (ratioTypeToPascal rt) model) in
         case chosen_for ''official'' ?sel tg model of None \<Rightarrow> old | Some rs \<Rightarrow> group_value ?b tg model rs rt old)"
    using sync_exact [OF no_lists sample_distinct sel_ok_known [OF sample_selection_ok [OF tier_type]], where mode = "''official''"]
    unfolding Let_def by blast
  have "toFiniteNumber Undef = None" by (simp add: toFiniteNumber_def to_num_def)
  then have "group_value ?b None ''m'' [(''model_tier_ratio'', Obj [])] ''model_tier_ratio'' old = Obj []" for old
    by (simp add: group_value_def normalizeRatioSelection_def normalized_input_def at_key_def stored_price_def isTierRatioType_def)
  then show ?thesis
    using gc(1) gc(2) [rule_format, OF tier_type, of None "''m''"] sample_chosen [OF tier_type] by (auto simp: Let_def)
qed


theorem saved_prices_read_back_witness:
  "\<exists>gc. merged_prices (buildPricingBaseline (\<lambda>_. None)) ''official'' (sample_selection ''model_tier_ratio'' (Obj [])) = Ok gc \<and>
     canon (parseNestedOption (foldl store_update (\<lambda>_. None) (sync_updates (\<lambda>_. None) False (buildPricingBaseline (\<lambda>_. None)) gc) ''ModelTierRatio'')) =
     canon (at_key (fst gc) ''ModelTierRatio'')"
proof -
  let ?sel = "sample_selection ''model_tier_ratio'' (Obj [])"
  have ok: "types_known ?sel" by (rule sel_ok_known [OF sample_selection_ok [OF tier_type]])
  obtain gc where gc: "merged_prices (buildPricingBaseline (\<lambda>_. None)) ''official'' ?sel = Ok gc"
    using merged_exact [OF no_lists sample_distinct ok] unfolding Let_def by blast
  have "json_selection ?sel" by (simp add: json_selection_def sample_selection_def)
  moreover have "''ModelTierRatio'' \<in> set GLOBAL_KEYS" by (simp add: GLOBAL_KEYS_def)
  ultimately show ?thesis using saved_prices_read_back [OF no_lists sample_distinct ok _ gc refl] gc by blast
qed

definition sample_diff :: diff where
  "sample_diff = \<lparr>df_current = Null, df_old = None, df_upstreams = [(''x'', Num (Fin 1))], df_confidence = None\<rparr>"

definition sample_events :: "sync_event list" where
  "sample_events =
     [Channels_Read (Answered [Obj [(''id'', MODELS_DEV_PRESET_ID)]]), Pick_Official [MODELS_DEV_PRESET_ID], Confirm_Official,
      Ratios_Read 0 (Answered ([(''m'', [(''model_price'', sample_diff)])], [])), Check_Column (\<lambda>_ _. False) ''x'' True]"

theorem selections_consistent_witness:
  "let s = run_sync (\<lambda>k _. k) sample_events (initial_sync (\<lambda>_. None) False) in
   sy_sel s = sample_selection ''model_price'' (Num (Fin 1)) \<and> sel_ok (sy_mode s) (sy_sel s)"
proof -
  have "list_all known_event sample_events" by (simp add: sample_events_def diffs_known_def RATIO_TYPES_def)
  moreover have "sy_sel (run_sync (\<lambda>k _. k) sample_events (initial_sync (\<lambda>_. None) False)) = sample_selection ''model_price'' (Num (Fin 1))"
    by (simp add: sample_events_def initial_sync_def fetchAllChannels_def transfer_record_def Let_def confirmOfficialSelection_def picked_def
        isOfficialChannelRecord_def fetchRatiosFromChannels_def ratios_fetched_def nth_opt_def remove_at_def handleBulkSelect_def
        filteredDataSource_def dataSource_def canonical_name_def model_rows_def filterChannelOwnedUpstreamMap_def sample_diff_def opt_list_def
        selectable_def getSelectableOldValue_def isUpstreamCellSelectable_def at_key_def to_num_def selectValue_def select_in_def
        kept_resolutions_def buildResolutionKey_def sample_selection_def nullish_def coalesce_def typeof_object_def)
  ultimately show ?thesis using selections_consistent [of sample_events "\<lambda>k _. k" "\<lambda>_. None" False] unfolding Let_def by simp
qed

theorem preset_endpoint_missed_witness:
  "endpoint_of ''-101'' (sy_endpoints (fetchAllChannels (\<lambda>k _. k) (Answered [Obj [(''id'', MODELS_DEV_PRESET_ID)]]) (initial_sync (\<lambda>_. None) False))) \<noteq>
   MODELS_DEV_PRESET_ENDPOINT"
  using preset_endpoint_missed [of "initial_sync (\<lambda>_. None) False"] by (simp add: initial_sync_def)

end
