(* ===== verification/Spec2Isabelle.thy ===== *)
theory Spec2Isabelle
  imports Tier_Pricing Billing_Formula Status_Code_Rules Editor_Machine Param_Drafts Playground_Session Upstream_Laws
begin

text \<open>
  The logic of the web console of Token Factory, a gateway that sells access to language models.

  The console (\<^verbatim>\<open>src/web/src\<close>) is a React application. Operators use it to set prices, to take over
  prices from upstream channels, to redirect status codes and to rewrite request parameters; users see
  what they pay and try models in a playground. The development models the code behind these pages:
  the helpers, and the state, handlers and effects of the larger components. All paths below are
  relative to \<^verbatim>\<open>src/web/src\<close>.

  \<^bold>\<open>The language.\<close>
  \<^item> \<open>Prelude\<close> has the result type \<open>Ok | Throw\<close> of code that may throw, list functions and the locale
    \<open>run_invariant\<close> of invariants of runs.
  \<^item> \<open>Js_Num\<close> has numbers as doubles: exact rationals and the rounding function \<open>rnd\<close>. \<open>Js_Str\<close> has
    strings as UTF-8 texts, \<open>Js_Dec\<close> the conversions between numbers and texts, \<open>Js_Value\<close> values with
    their coercions, \<open>Js_Json\<close> reading and writing JSON, \<open>Json_Laws\<close> the laws of both.
  \<^item> \<open>Messages\<close> has the string literals beyond ASCII.

  \<^bold>\<open>Prices.\<close>
  \<^item> \<open>Tier_Pricing\<close> models \<^verbatim>\<open>pages/Setting/Ratio/utils/requestTierPricing.js\<close>: normalising, checking,
    writing and showing tiered prices. The accepted rules are characterised, writing and reading is a
    round trip, and the shown ranges cover all token counts without overlap.
  \<^item> \<open>Billing_Formula\<close> models \<^verbatim>\<open>helpers/billingFormula.js\<close> and the channel lookup of
    \<^verbatim>\<open>helpers/utils.jsx\<close>. Rates are monotone through all roundings, and the places that compute the same
    rate in different ways agree.
  \<^item> The pricing editor \<^verbatim>\<open>pages/Setting/Ratio/hooks/useModelPricingEditorState.js\<close> is split into its data
    and number helpers (\<open>Pricing_Data\<close>, with laws in \<open>Price_Format\<close>), reading the options
    (\<open>Pricing_Rules\<close>), the texts it shows (\<open>Pricing_Views\<close>), writing a model (\<open>Pricing_Serialize\<close>) and the
    state with its handlers (\<open>Pricing_Editor\<close>). \<open>Video_Pricing_Json\<close> models
    \<^verbatim>\<open>utils/videoPricingJson.js\<close>, which the editor calls. \<open>Editor_Machine\<close> makes a step relation of it:
    a save is split at its requests, so that other events can come between. It shows that the table
    stays well formed in every run, that a save writes exactly the serialised models and succeeds as a
    whole or changes nothing in the table, and that the handlers refine a machine on the model names.
  \<^item> \<open>Upstream_Sync\<close> models \<^verbatim>\<open>pages/Setting/Ratio/UpstreamRatioSync.jsx\<close>, which compares the prices with
    those of upstream channels and merges the checked ones. \<open>Upstream_Prices\<close> shows that merging changes
    exactly the chosen prices, through the interface \<open>price_lists\<close> of a price table. \<open>Upstream_Laws\<close> has the
    invariant of the selection over all events, what models are charged for afterwards, and that the
    written options read back as the merged lists.

  \<^bold>\<open>Channels.\<close>
  \<^item> \<open>Status_Code_Rules\<close> models \<^verbatim>\<open>helpers/statusCodeRules.js\<close>, the guard
    \<^verbatim>\<open>components/table/channels/modals/statusCodeRiskGuard.js\<close> and \<^verbatim>\<open>hooks/channels/upstreamUpdateUtils.js\<close>.
    The normalised text is a normal form of the set of codes, and the guard reports exactly the new
    risky redirects.
  \<^item> \<open>Param_Override\<close> (conversions), \<open>Param_Editor\<close> (state and handlers) and \<open>Param_Machine\<close> (runs) model
    \<^verbatim>\<open>components/table/channels/modals/ParamOverrideEditorModal.jsx\<close> with the templates of
    \<^verbatim>\<open>constants/channel-affinity-template.constants.js\<close>. \<open>Param_Laws\<close> shows that saved overrides are
    complete and reopen to the same text, and the invariant of the dialog; \<open>Param_Drafts\<close> has the laws of
    single operations, with an edit the dialog loses and the way in which opening it fails.

  \<^bold>\<open>Playground.\<close>
  \<^item> \<open>Playground_Text\<close>, \<open>Playground_Media\<close> and \<open>Playground_Payload\<close> model the helpers of \<^verbatim>\<open>helpers/utils.jsx\<close>,
    \<^verbatim>\<open>helpers/playgroundImageUtils.js\<close>, \<^verbatim>\<open>helpers/playgroundVideoUtils.js\<close> and \<^verbatim>\<open>helpers/api.js\<close>.
  \<^item> \<open>Playground_Chat\<close> and \<open>Playground_Actions\<close> have the updates of one conversation
    (\<^verbatim>\<open>hooks/playground\<close>: \<^verbatim>\<open>useApiRequest.jsx\<close>, \<^verbatim>\<open>useMessageActions.jsx\<close>, \<^verbatim>\<open>useMessageEdit.jsx\<close>,
    \<^verbatim>\<open>useSyncMessageAndCustomBody.js\<close>, \<^verbatim>\<open>usePlaygroundState.js\<close>); \<open>Playground_Page\<close> has the page
    \<^verbatim>\<open>pages/Playground/index.jsx\<close> with three conversations, streams and polling; \<open>Playground_Storage\<close> has
    what is kept between visits (\<^verbatim>\<open>components/playground/configStorage.js\<close>, \<^verbatim>\<open>messageStorage.js\<close>).
  \<^item> \<open>Playground_Replies\<close>, \<open>Playground_Stream\<close>, \<open>Playground_Events\<close> and \<open>Playground_Session\<close> have the laws:
    polling ends, a streamed reply is the concatenation of its deltas, a stream touches only the end of
    its own conversation and finishes it, and what was stored is found again.

  \<^bold>\<open>Conventions.\<close> A handler is a function on a record of the \<^verbatim>\<open>useState\<close> and \<^verbatim>\<open>useRef\<close> variables; an
  \<^verbatim>\<open>await\<close> splits it, and the second part gets the answer as an argument. Effects run where React runs
  them, after the handler or as an event of their own. The translation function, the clock, random ids,
  the answers of the server, the success of a write and the identity of objects are arguments, so the
  theorems hold for all of them. The polling loops are bounded by the code: a task is
  polled 120 times at most, and a video is given up after three network failures in a row. The models
  recurse on that number, so nothing needs fuel beyond it.

  \<^bold>\<open>Limits.\<close> Case conversion is exact for ASCII letters and for the characters whose converted form is
  ASCII; other letters keep their case. Strings are sequences of Unicode characters, so lone
  surrogates cannot occur. Members that objects inherit from their prototype are outside the model,
  and the two zeros are one number.

  \<^bold>\<open>Not modelled.\<close> The Go server and the desktop shell (\<^verbatim>\<open>src/electron\<close>), which are programs of their
  own; the rendering of React components, \<^verbatim>\<open>helpers/render.jsx\<close> included; the set-up of the HTTP client
  and the loading of model and group lists; the remaining hooks and pages of the console, which fetch
  and page through tables; and the translations.
\<close>

end
